(* ===== verification/Prelude.thy ===== *)
theory Prelude
  imports Main "HOL-Library.Word" "HOL-Library.State_Monad"
begin

text \<open>
  Shared vocabulary of the development.  C functions that read and write the static variables
  of a module are written in the state monad of \<^theory_text>\<open>HOL-Library.State_Monad\<close>, so that a definition keeps
  the order of the source's statements and its early returns.  This theory holds the reader and
  writer actions, the rules that evaluate an action on a concrete state (collection \<open>run\<close>), and
  the proof rules for \<open>triple\<close>, the Hoare triple of an action (collection \<open>hoare\<close>), for \<open>keeps\<close>,
  the preservation of an invariant (collection \<open>keeps\<close>), and for \<open>same\<close>, the preservation of a
  value (collection \<open>same\<close>).  It also holds the C string
  and integer idioms that several components share.
\<close>

unbundle bit_operations_syntax

named_theorems run "evaluation of actions on a state"
named_theorems hoare_intro "introduction rules for Hoare triples"
named_theorems keeps_intro "introduction rules for preserved invariants"
named_theorems same_intro "introduction rules for preserved values"

section \<open>Actions\<close>

abbreviation return :: "'a \<Rightarrow> ('s, 'a) state" where
  "return \<equiv> State_Monad.return"

abbreviation skip :: "('s, unit) state" where
  "skip \<equiv> State_Monad.return ()"

definition gets :: "('s \<Rightarrow> 'a) \<Rightarrow> ('s, 'a) state" where
  "gets f = State (\<lambda>s. (f s, s))"

definition modify :: "('s \<Rightarrow> 's) \<Rightarrow> ('s, unit) state" where
  "modify f = State (\<lambda>s. ((), f s))"

definition result :: "('s, 'a) state \<Rightarrow> 's \<Rightarrow> 'a" where
  "result m s = fst (run_state m s)"

definition after :: "('s, 'a) state \<Rightarrow> 's \<Rightarrow> 's" where
  "after m s = snd (run_state m s)"

definition whenever :: "bool \<Rightarrow> ('s, unit) state \<Rightarrow> ('s, unit) state" where
  "whenever b m = (if b then m else skip)"

lemma run_gets [run, simp]: "run_state (gets f) s = (f s, s)"
  by (simp add: gets_def)

lemma run_modify [run, simp]: "run_state (modify f) s = ((), f s)"
  by (simp add: modify_def)

lemma run_whenever [run, simp]:
  "run_state (whenever b m) s = (if b then run_state m s else ((), s))"
  by (simp add: whenever_def)

lemma run_State [run, simp]: "run_state (State f) s = f s"
  by simp

lemma result_return [run, simp]: "result (return x) s = x"
  and after_return [run, simp]: "after (return x) s = s"
  by (simp_all add: result_def after_def)

lemma result_gets [run, simp]: "result (gets f) s = f s"
  and after_gets [run, simp]: "after (gets f) s = s"
  by (simp_all add: result_def after_def)

lemma after_modify [run, simp]: "after (modify f) s = f s"
  by (simp add: after_def)

lemma result_bind [run, simp]:
    "result (State_Monad.bind m f) s = result (f (result m s)) (after m s)"
  and after_bind [run, simp]:
    "after (State_Monad.bind m f) s = after (f (result m s)) (after m s)"
  by (simp_all add: result_def after_def split: prod.split)

lemma after_whenever [run, simp]: "after (whenever b m) s = (if b then after m s else s)"
  by (simp add: after_def)

lemma result_if [run, simp]:
    "result (if b then m else n) s = (if b then result m s else result n s)"
  and after_if [run, simp]:
    "after (if b then m else n) s = (if b then after m s else after n s)"
  by simp_all

lemma run_state_eq: "run_state m s = (result m s, after m s)"
  by (simp add: result_def after_def)

section \<open>Hoare triples and preserved properties\<close>

definition triple :: "('s \<Rightarrow> bool) \<Rightarrow> ('s, 'a) state \<Rightarrow> ('a \<Rightarrow> 's \<Rightarrow> bool) \<Rightarrow> bool" where
  "triple P m Q \<longleftrightarrow> (\<forall>s. P s \<longrightarrow> Q (result m s) (after m s))"

definition keeps :: "('s \<Rightarrow> bool) \<Rightarrow> ('s, 'a) state \<Rightarrow> bool" where
  "keeps I m \<longleftrightarrow> (\<forall>s. I s \<longrightarrow> I (after m s))"

definition same :: "('s \<Rightarrow> 'b) \<Rightarrow> ('s, 'a) state \<Rightarrow> bool" where
  "same f m \<longleftrightarrow> (\<forall>s. f (after m s) = f s)"

lemma tripleI: "(\<And>s. P s \<Longrightarrow> Q (result m s) (after m s)) \<Longrightarrow> triple P m Q"
  by (simp add: triple_def)

lemma tripleD: "triple P m Q \<Longrightarrow> P s \<Longrightarrow> Q (result m s) (after m s)"
  by (simp add: triple_def)

lemma triple_bind:
  "triple P m R \<Longrightarrow> (\<And>a. triple (R a) (f a) Q) \<Longrightarrow> triple P (State_Monad.bind m f) Q"
  by (simp add: triple_def)

lemma triple_return [hoare_intro]: "(\<And>s. P s \<Longrightarrow> Q x s) \<Longrightarrow> triple P (return x) Q"
  by (simp add: triple_def)

lemma triple_if [hoare_intro]:
  "(b \<Longrightarrow> triple P m Q) \<Longrightarrow> (\<not> b \<Longrightarrow> triple P n Q) \<Longrightarrow> triple P (if b then m else n) Q"
  by simp

lemma triple_pre: "triple P' m Q \<Longrightarrow> (\<And>s. P s \<Longrightarrow> P' s) \<Longrightarrow> triple P m Q"
  by (simp add: triple_def)

lemma triple_post: "triple P m Q' \<Longrightarrow> (\<And>a s. Q' a s \<Longrightarrow> Q a s) \<Longrightarrow> triple P m Q"
  by (simp add: triple_def)

lemma keepsI: "(\<And>s. I s \<Longrightarrow> I (after m s)) \<Longrightarrow> keeps I m"
  by (simp add: keeps_def)

lemma keepsD: "keeps I m \<Longrightarrow> I s \<Longrightarrow> I (after m s)"
  by (simp add: keeps_def)

lemma keeps_return [keeps_intro]: "keeps I (return x)"
  by (simp add: keeps_def)

lemma keeps_gets [keeps_intro]: "keeps I (gets f)"
  by (simp add: keeps_def)

lemma keeps_bind [keeps_intro]:
  "keeps I m \<Longrightarrow> (\<And>a. keeps I (f a)) \<Longrightarrow> keeps I (State_Monad.bind m f)"
  by (simp add: keeps_def)

lemma keeps_if [keeps_intro]:
  "(b \<Longrightarrow> keeps I m) \<Longrightarrow> (\<not> b \<Longrightarrow> keeps I n) \<Longrightarrow> keeps I (if b then m else n)"
  by simp

lemma keeps_whenever [keeps_intro]: "(b \<Longrightarrow> keeps I m) \<Longrightarrow> keeps I (whenever b m)"
  by (simp add: whenever_def keeps_return)

lemma keeps_case_option [keeps_intro]:
  "(x = None \<Longrightarrow> keeps I m) \<Longrightarrow> (\<And>y. x = Some y \<Longrightarrow> keeps I (f y)) \<Longrightarrow>
   keeps I (case x of None \<Rightarrow> m | Some y \<Rightarrow> f y)"
  by (cases x) simp_all

lemma keeps_modify: "(\<And>s. I s \<Longrightarrow> I (f s)) \<Longrightarrow> keeps I (modify f)"
  by (simp add: keeps_def)

lemma keeps_triple: "keeps I m \<longleftrightarrow> triple I m (\<lambda>_. I)"
  by (simp add: keeps_def triple_def)

lemma sameI: "(\<And>s. f (after m s) = f s) \<Longrightarrow> same f m"
  by (simp add: same_def)

lemma sameD: "same f m \<Longrightarrow> f (after m s) = f s"
  by (simp add: same_def)

lemma same_return [same_intro]: "same f (return x)"
  by (simp add: same_def)

lemma same_gets [same_intro]: "same f (gets g)"
  by (simp add: same_def)

lemma same_bind [same_intro]:
  "same f m \<Longrightarrow> (\<And>a. same f (g a)) \<Longrightarrow> same f (State_Monad.bind m g)"
  by (simp add: same_def)

lemma same_if [same_intro]:
  "(b \<Longrightarrow> same f m) \<Longrightarrow> (\<not> b \<Longrightarrow> same f n) \<Longrightarrow> same f (if b then m else n)"
  by simp

lemma same_whenever [same_intro]: "(b \<Longrightarrow> same f m) \<Longrightarrow> same f (whenever b m)"
  by (simp add: whenever_def same_return)

lemma same_case_option [same_intro]:
  "(x = None \<Longrightarrow> same f m) \<Longrightarrow> (\<And>y. x = Some y \<Longrightarrow> same f (g y)) \<Longrightarrow>
   same f (case x of None \<Rightarrow> m | Some y \<Rightarrow> g y)"
  by (cases x) simp_all

lemma same_modify: "(\<And>s. f (g s) = f s) \<Longrightarrow> same f (modify g)"
  by (simp add: same_def)

lemma same_get [same_intro]: "same f State_Monad.get"
  by (simp add: same_def after_def)

lemma keeps_get [keeps_intro]: "keeps I State_Monad.get"
  by (simp add: keeps_def after_def)

lemma result_get [run, simp]: "result State_Monad.get s = s"
  and after_get [run, simp]: "after State_Monad.get s = s"
  by (simp_all add: result_def after_def)

lemma same_case_prod [same_intro]:
  "(\<And>a b. x = (a, b) \<Longrightarrow> same f (m a b)) \<Longrightarrow> same f (case x of (a, b) \<Rightarrow> m a b)"
  by (cases x) simp

lemma same_case_list [same_intro]:
  "(x = [] \<Longrightarrow> same f m) \<Longrightarrow> (\<And>a b. x = a # b \<Longrightarrow> same f (n a b)) \<Longrightarrow>
   same f (case x of [] \<Rightarrow> m | a # b \<Rightarrow> n a b)"
  by (cases x) simp_all

lemma same_let [same_intro]: "same f (m x) \<Longrightarrow> same f (let y = x in m y)"
  by simp

lemma keeps_case_prod [keeps_intro]:
  "(\<And>a b. x = (a, b) \<Longrightarrow> keeps I (m a b)) \<Longrightarrow> keeps I (case x of (a, b) \<Rightarrow> m a b)"
  by (cases x) simp

lemma keeps_case_list [keeps_intro]:
  "(x = [] \<Longrightarrow> keeps I m) \<Longrightarrow> (\<And>a b. x = a # b \<Longrightarrow> keeps I (n a b)) \<Longrightarrow>
   keeps I (case x of [] \<Rightarrow> m | a # b \<Rightarrow> n a b)"
  by (cases x) simp_all

lemma keeps_case_sum [keeps_intro]:
  "(\<And>a. x = Inl a \<Longrightarrow> keeps I (m a)) \<Longrightarrow> (\<And>b. x = Inr b \<Longrightarrow> keeps I (n b)) \<Longrightarrow>
   keeps I (case x of Inl a \<Rightarrow> m a | Inr b \<Rightarrow> n b)"
  by (cases x) simp_all

lemma keeps_let [keeps_intro]: "keeps I (m x) \<Longrightarrow> keeps I (let y = x in m y)"
  by simp

lemma keeps_of_same: "same f m \<Longrightarrow> keeps (\<lambda>s. P (f s)) m"
  by (simp add: same_def keeps_def)

section \<open>Early returns\<close>

text \<open>
  \<open>or_else p m\<close> runs the block \<open>p\<close>, which may end the enclosing function with a value, and goes on
  with \<open>m\<close> when it does not.
\<close>

definition or_else :: "('s, 'a option) state \<Rightarrow> ('s, 'a) state \<Rightarrow> ('s, 'a) state" where
  "or_else p m = State_Monad.bind p (\<lambda>r. case r of Some t \<Rightarrow> return t | None \<Rightarrow> m)"

lemma after_or_else [run]:
  "after (or_else p m) s =
     (case result p s of Some t \<Rightarrow> after p s | None \<Rightarrow> after m (after p s))"
  by (simp add: or_else_def split: option.split)

lemma result_or_else [run]:
  "result (or_else p m) s =
     (case result p s of Some t \<Rightarrow> t | None \<Rightarrow> result m (after p s))"
  by (simp add: or_else_def split: option.split)

lemma keeps_or_else [keeps_intro]: "keeps I p \<Longrightarrow> keeps I m \<Longrightarrow> keeps I (or_else p m)"
  by (simp add: keeps_def after_or_else split: option.split)

lemma same_or_else [same_intro]: "same f p \<Longrightarrow> same f m \<Longrightarrow> same f (or_else p m)"
  by (simp add: same_def after_or_else split: option.split)

lemma triple_or_else:
  "triple P p (\<lambda>r s. case r of Some t \<Rightarrow> Q t s | None \<Rightarrow> R s) \<Longrightarrow> triple R m Q \<Longrightarrow>
   triple P (or_else p m) Q"
  by (force simp: triple_def after_or_else result_or_else split: option.splits)

section \<open>C strings and integers\<close>

text \<open>
  A C string is modelled by the characters before its terminating NUL.  \<open>strneq n\<close> is
  \<open>strncmp(a, b, n) == 0\<close> and \<open>strncpy_z n\<close> is \<open>strncpy(dst, src, n); dst[n] = 0\<close>.
\<close>

definition strneq :: "nat \<Rightarrow> string \<Rightarrow> string \<Rightarrow> bool" where
  "strneq n a b \<longleftrightarrow> take n a = take n b"

definition strncpy_z :: "nat \<Rightarrow> string \<Rightarrow> string" where
  "strncpy_z n src = take n src"

lemma length_strncpy_z [simp]: "length (strncpy_z n s) \<le> n"
  by (simp add: strncpy_z_def)

lemma strneq_refl [simp]: "strneq n a a"
  by (simp add: strneq_def)

lemma strneq_sym: "strneq n a b \<longleftrightarrow> strneq n b a"
  by (auto simp: strneq_def)

lemma strneq_trans: "strneq n a b \<Longrightarrow> strneq n b c \<Longrightarrow> strneq n a c"
  by (simp add: strneq_def)

lemma strneq_strncpy_z [simp]: "strneq n (strncpy_z n a) a"
  by (simp add: strneq_def strncpy_z_def)

text \<open>The \<open>errno\<close> values (newlib numbering) that the sources return, negated there.\<close>

abbreviation EAGAIN :: int where "EAGAIN \<equiv> 11"
abbreviation ENOMEM :: int where "ENOMEM \<equiv> 12"
abbreviation EFAULT :: int where "EFAULT \<equiv> 14"
abbreviation EALREADY :: int where "EALREADY \<equiv> 120"
abbreviation EBUSY :: int where "EBUSY \<equiv> 16"
abbreviation EEXIST :: int where "EEXIST \<equiv> 17"
abbreviation ENOENT :: int where "ENOENT \<equiv> 2"
abbreviation ENXIO :: int where "ENXIO \<equiv> 6"
abbreviation ENODEV :: int where "ENODEV \<equiv> 19"
abbreviation EINVAL :: int where "EINVAL \<equiv> 22"
abbreviation EFBIG :: int where "EFBIG \<equiv> 27"
abbreviation EMLINK :: int where "EMLINK \<equiv> 31"
abbreviation ENOMSG :: int where "ENOMSG \<equiv> 35"
abbreviation ENOTSUP :: int where "ENOTSUP \<equiv> 134"
abbreviation EBADE :: int where "EBADE \<equiv> 50"
abbreviation ETIMEDOUT :: int where "ETIMEDOUT \<equiv> 116"
abbreviation ENOTCONN :: int where "ENOTCONN \<equiv> 128"

end
