(* ===== verification/Platform.thy ===== *)
theory Platform
  imports Prelude
begin

text \<open>
  What the collar's nRF5340 application sees of the rest of the device: the shadow of the
  DA16200 Wi-Fi chip (\<open>da_state\<close> of \<^verbatim>\<open>wifi/include/net_mgr.h\<close>), the status flags of the nRF9160
  (\<open>modem_status_shadow\<close>), the zones the Wi-Fi chip has credentials for (\<open>cached_zones\<close> of
  \<^verbatim>\<open>wifi_at.c\<close>), the uptime, and the calls the application makes to its chips.  A
  call is a value of \<open>drv\<close>; what it returns and how it changes the shadows is the environment
  \<open>env\<close>, a parameter of every definition that makes a call.  The environment may use the
  history of calls, which the world records.  Time never goes back: a call and a sleep
  only move the uptime forward.
\<close>

section \<open>Shadows\<close>

datatype das_tri_state =
  DA_STATE_UNKNOWN | DA_STATE_KNOWN_FALSE | DA_STATE_KNOWN_TRUE

text \<open>The integer behind the enumeration, which C tests for truth: \<open>-1\<close> counts as true.\<close>

fun tri_int :: "das_tri_state \<Rightarrow> int" where
  "tri_int DA_STATE_UNKNOWN = -1"
| "tri_int DA_STATE_KNOWN_FALSE = 0"
| "tri_int DA_STATE_KNOWN_TRUE = 1"

datatype comm_device =
  COMM_DEVICE_NONE | COMM_DEVICE_NRF9160 | COMM_DEVICE_DA16200
| COMM_DEVICE_NRF5340 | COMM_DEVICE_ALL | COMM_DEVICE_ANY

datatype wifi_sleep_state =
  WIFI_SLEEP_NONE | WIFI_SLEEP_DPM_ASLEEP | WIFI_SLEEP_DPM_AWAKE | WIFI_SLEEP_RTC_ASLEEP

datatype status_bit =
  STATUS_LTE_CONNECTED | STATUS_LTE_ENABLED | STATUS_LTE_WORKING | STATUS_FOTA_IN_PROGRESS
| STATUS_MQTT_CONNECTED | STATUS_GPS_CONNECTED | STATUS_MQTT_INITIALIZED | STATUS_POWERED_ON
| STATUS_MQTT_WORKING | STATUS_CERTS_LOADED | STATUS_AIRPLANE_MODE | STATUS_MQTT_ENABLED
| STATUS_GPS_ENABLED | STATUS_CELL_DATA_CHANGED | STATUS_CELL_TRACKING_CHANGED | STATUS_BIT15

fun status_pos :: "status_bit \<Rightarrow> nat" where
  "status_pos STATUS_LTE_CONNECTED = 0"
| "status_pos STATUS_LTE_ENABLED = 1"
| "status_pos STATUS_LTE_WORKING = 2"
| "status_pos STATUS_FOTA_IN_PROGRESS = 3"
| "status_pos STATUS_MQTT_CONNECTED = 4"
| "status_pos STATUS_GPS_CONNECTED = 5"
| "status_pos STATUS_MQTT_INITIALIZED = 6"
| "status_pos STATUS_POWERED_ON = 7"
| "status_pos STATUS_MQTT_WORKING = 8"
| "status_pos STATUS_CERTS_LOADED = 9"
| "status_pos STATUS_AIRPLANE_MODE = 10"
| "status_pos STATUS_MQTT_ENABLED = 11"
| "status_pos STATUS_GPS_ENABLED = 12"
| "status_pos STATUS_CELL_DATA_CHANGED = 13"
| "status_pos STATUS_CELL_TRACKING_CHANGED = 14"
| "status_pos STATUS_BIT15 = 15"

text \<open>\<open>UPDATE_STATUS_x\<close> is \<open>1 << STATUS_x\<close>.\<close>

definition update_status :: "status_bit \<Rightarrow> 32 word" where
  "update_status b = push_bit (status_pos b) 1"

text \<open>\<open>status_getBit\<close>: the parameter is an \<open>int\<close>, so the shift is arithmetic.\<close>

definition status_getBit :: "32 word \<Rightarrow> nat \<Rightarrow> bool" where
  "status_getBit status pos \<longleftrightarrow> signed_drop_bit pos status AND 1 \<noteq> 0"

lemma status_getBit_bit: "n < 32 \<Longrightarrow> status_getBit w n \<longleftrightarrow> bit w n"
  by (simp add: status_getBit_def and_one_eq odd_iff_mod_2_eq_one [symmetric] flip: bit_0)
     (simp add: bit_signed_drop_bit_iff)

record da_state =
  ap_connected :: das_tri_state
  ap_safe :: das_tri_state
  ap_disconnect_reason :: string
  ap_name :: string
  ip_address :: string
  dpm_mode :: das_tri_state
  is_sleeping :: das_tri_state
  mqtt_enabled :: das_tri_state
  mqtt_broker_connected :: das_tri_state
  onboarded :: das_tri_state
  mqtt_on_boot :: das_tri_state
  powered_on :: das_tri_state
  da_rssi :: int

record shadow_zone =
  z_ssid :: string
  z_safe :: bool

section \<open>The world and its calls\<close>

text \<open>
  \<open>gpio\<close> style calls, AT commands with a plain OK or ERROR answer (\<open>AtOkErr\<close>) and longer
  exchanges with the two radio chips.  Times are in milliseconds.
\<close>

datatype drv =
  NetMgrWifiPower bool
| WifiReset
| WifiGetMutex nat
| WifiReleaseMutex
| AtOkErr string nat
| WifiSetSleepMode wifi_sleep_state
| WifiCheckSleeping
| WifiGetMqttState nat
| WifiSetMqttState bool nat
| WifiGetMqttBootState nat
| WifiSetMqttBootState bool nat
| WifiInitiateConnectToSsid string string "16 word" "16 word" "16 word" nat
| WifiRefreshSsidList int nat
| WifiGetApList nat
| WifiGetWfstat nat
| WifiGetRssi nat
| WifiMqttPublish int string nat
| ModemPowerOn
| ModemPowerOff
| ModemStartMqtt
| ModemStopMqtt
| ModemSendMqtt string int string nat "8 word" nat
| ModemSendGpsEnable
| ModemSendGpsDisable
| ModemGetVersion
| ModemSetMqttParams string nat string
| ModemSetMqttSubscriptions "string list"
| WifiSetMqttSubTopics "nat list" nat
| WifiPutNvram nat string nat
| ZbusPubDa "32 word"
| FotaMessage
| FotaStatusUpdate "32 word" int comm_device
| FotaCheckInProgress
| BleAdvertiseStart "32 word"
| BleStop
| FsRead nat
| ImuSetThreshold "16 word"
| ImuSetMotDet bool
| ImuSetDuration "16 word"
| FsOpen string
| FsWrite string
| FsClose
| FotaNotify string
| FotaPublish "32 word" "32 word"
| FotaHandleDaEvent "32 word"
| FotaUpdateAll
| LedIdle
| PmicReboot string
| PmicPowerOffModem
| PmicPowerOnModem
| ModemFotaFromHttps string
| ModemSendFotaCancel
| NetStartOta string "8 word list"
| WifiHttpGet string string nat
| Nrf53Upgrade string
| FsStat string
| FsUnlink string

record world =
  uptime :: nat
  da :: da_state
  status_flags :: "32 word"
  g_last_sleep_time :: nat
  shipping_flag :: bool
  modem_powered :: bool
  cached_zones :: "shadow_zone list"
  cached_zones_valid :: bool
  g_last_ssid_list :: "(string \<times> int) list"
  g_last_ssid_scan_time :: nat
  g_last_ap_name :: string
  utc_time :: nat
  calls :: "drv list"

record env =
  answer :: "drv \<Rightarrow> world \<Rightarrow> int \<times> world"
  passing :: "nat \<Rightarrow> world \<Rightarrow> world"

text \<open>
  \<open>advance w w'\<close> is the world \<open>w'\<close> the environment proposes, kept honest: the history of calls
  is the application's own record and the uptime does not go back.
\<close>

definition advance :: "nat \<Rightarrow> world \<Rightarrow> world \<Rightarrow> world" where
  "advance ms w w' = w'\<lparr>uptime := max (uptime w + ms) (uptime w'), calls := calls w\<rparr>"

definition do_call :: "env \<Rightarrow> drv \<Rightarrow> world \<Rightarrow> int \<times> world" where
  "do_call e d w =
     (let (r, w') = answer e d w
      in (r, (advance 0 w w')\<lparr>calls := calls w @ [d]\<rparr>))"

definition k_sleep :: "env \<Rightarrow> nat \<Rightarrow> world \<Rightarrow> world" where
  "k_sleep e ms w = advance ms w (passing e ms w)"

lemma do_call_calls [simp]: "calls (snd (do_call e d w)) = calls w @ [d]"
  by (simp add: do_call_def split_beta)

lemma do_call_uptime: "uptime w \<le> uptime (snd (do_call e d w))"
  by (simp add: do_call_def advance_def split_beta)

lemma k_sleep_calls [simp]: "calls (k_sleep e ms w) = calls w"
  by (simp add: k_sleep_def advance_def)

lemma k_sleep_uptime: "uptime w + ms \<le> uptime (k_sleep e ms w)"
  by (simp add: k_sleep_def advance_def)

section \<open>Polling until a deadline\<close>

text \<open>
  The idiom \<open>while (!cond) { k_sleep(period); timeout = sys_timepoint_timeout(tp); body;
  if (timeout == K_NO_WAIT) fail; }\<close>.  A sleep of at least one millisecond moves the uptime
  towards the deadline, so the loop ends; the body is at most one call, which gets the time that is left.
\<close>

definition time_left :: "nat \<Rightarrow> world \<Rightarrow> nat" where
  "time_left deadline w = deadline - uptime w"

definition poll_pause :: "env \<Rightarrow> nat \<Rightarrow> world \<Rightarrow> world" where
  "poll_pause e period w = k_sleep e (max 1 period) w"

definition poll_query :: "env \<Rightarrow> (nat \<Rightarrow> drv) option \<Rightarrow> nat \<Rightarrow> world \<Rightarrow> world" where
  "poll_query e query left w =
     (case query of None \<Rightarrow> w | Some q \<Rightarrow> snd (do_call e (q left) w))"

lemma poll_pause_uptime: "uptime w < uptime (poll_pause e period w)"
  using k_sleep_uptime [of w "max 1 period" e] by (simp add: poll_pause_def)

lemma poll_query_uptime: "uptime w \<le> uptime (poll_query e query left w)"
  by (simp add: poll_query_def do_call_uptime split: option.split)

function poll_until ::
  "env \<Rightarrow> nat \<Rightarrow> (world \<Rightarrow> bool) \<Rightarrow> (nat \<Rightarrow> drv) option \<Rightarrow> nat \<Rightarrow> world \<Rightarrow> bool \<times> world"
where
  "poll_until e period cond query deadline w =
     (if cond w then (True, w)
      else
        (let w1 = poll_pause e period w;
             left = time_left deadline w1;
             w2 = poll_query e query left w1
         in if left = 0 then (False, w2)
            else poll_until e period cond query deadline w2))"
  by pat_completeness auto
termination
proof (relation "measure (\<lambda>(e, period, cond, query, deadline, w). deadline - uptime w)", goal_cases)
  case 1
  then show ?case by simp
next
  case (2 e period cond query deadline w w1 left w2)
  have "uptime w < uptime w1" using poll_pause_uptime 2(2) by blast
  moreover have "uptime w1 \<le> uptime w2" using 2(4) poll_query_uptime by blast
  moreover have "uptime w1 < deadline" using 2(3,5) by (simp add: time_left_def)
  ultimately show ?case by simp
qed

declare poll_until.simps [simp del]

lemma poll_until_now: "cond w \<Longrightarrow> poll_until e period cond query deadline w = (True, w)"
  by (subst poll_until.simps) simp

lemma poll_until_cond:
  "fst (poll_until e period cond query deadline w) \<Longrightarrow>
   cond (snd (poll_until e period cond query deadline w))"
proof (induction e period cond query deadline w rule: poll_until.induct)
  case (1 e period cond query deadline w)
  then show ?case
    by (simp add: poll_until.simps [of e period cond query deadline w] Let_def split: if_splits)
qed

text \<open>A poll that gives up has used up its time: the deadline has passed.\<close>

lemma poll_until_timeout:
  "\<not> fst (poll_until e period cond query deadline w) \<Longrightarrow>
   deadline \<le> uptime (snd (poll_until e period cond query deadline w))"
proof (induction e period cond query deadline w rule: poll_until.induct)
  case (1 e period cond query deadline w)
  have "uptime (poll_pause e period w) \<le>
      uptime (poll_query e query (time_left deadline (poll_pause e period w)) (poll_pause e period w))"
    by (rule poll_query_uptime)
  with 1 show ?case
    by (simp add: poll_until.simps [of e period cond query deadline w] Let_def time_left_def
        split: if_splits)
qed

text \<open>An invariant of the sleeps and of the queries is an invariant of the poll.\<close>

lemma poll_until_inv:
  assumes "I w" and "\<And>ms w. I w \<Longrightarrow> I (k_sleep e ms w)"
    and "\<And>q left w. query = Some q \<Longrightarrow> I w \<Longrightarrow> I (snd (do_call e (q left) w))"
  shows "I (snd (poll_until e period cond query deadline w))"
  using assms
proof (induction e period cond query deadline w rule: poll_until.induct)
  case (1 e period cond query deadline w)
  have "I (poll_pause e period w)" using 1(2,3) by (simp add: poll_pause_def)
  then have "I (poll_query e query left (poll_pause e period w))" for left
    using 1(4) by (simp add: poll_query_def split: option.split)
  with 1 show ?case
    by (simp add: poll_until.simps [of e period cond query deadline w] Let_def)
qed

text \<open>
  The other idiom: test the condition, then the deadline, then sleep.
\<close>

function await ::
  "env \<Rightarrow> nat \<Rightarrow> (world \<Rightarrow> bool) \<Rightarrow> nat \<Rightarrow> world \<Rightarrow> bool \<times> world" where
  "await e period cond deadline w =
     (if cond w then (True, w)
      else if time_left deadline w = 0 then (False, w)
      else await e period cond deadline (poll_pause e period w))"
  by pat_completeness auto
termination
proof (relation "measure (\<lambda>(e, period, cond, deadline, w). deadline - uptime w)", goal_cases)
  case 1
  then show ?case by simp
next
  case (2 e period cond deadline w)
  then show ?case using poll_pause_uptime [of w e period] by (simp add: time_left_def)
qed

declare await.simps [simp del]

lemma await_cond:
  "fst (await e period cond deadline w) \<Longrightarrow> cond (snd (await e period cond deadline w))"
proof (induction e period cond deadline w rule: await.induct)
  case (1 e period cond deadline w)
  then show ?case by (simp add: await.simps [of e period cond deadline w] split: if_splits)
qed

lemma await_inv:
  assumes "I w" and "\<And>ms w. I w \<Longrightarrow> I (k_sleep e ms w)"
  shows "I (snd (await e period cond deadline w))"
  using assms
proof (induction e period cond deadline w rule: await.induct)
  case (1 e period cond deadline w)
  then have "I (poll_pause e period w)" by (simp add: poll_pause_def)
  with 1 show ?case by (simp add: await.simps [of e period cond deadline w])
qed

lemma advance_calls [simp]: "calls (advance ms w w') = calls w"
  by (simp add: advance_def)

end
