(* ===== verification/WorkRef.thy ===== *)
theory WorkRef
  imports Prelude
begin

text \<open>
  The pool of statically allocated work items, \<^verbatim>\<open>c_modules/utils/src/wi.c\<close>.  The state holds the
  array \<open>wrbuf\<close>, the FIFO \<open>wr_free_list\<close> (the indices of the free entries, head first) and the
  atomic counter \<open>wrcount\<close>.  A failed \<open>__ASSERT\<close> is an error value.  The interface \<open>slot_pool\<close> is what
  the work handlers of the managers rely on: a slot is handed out at most once, it can be given
  back once, and exhaustion is reported.
\<close>

section \<open>The pool of wi.c\<close>

record 'r workref =
  reference :: "'r option"
  in_use :: "32 word"

record 'r wr_state =
  wrbuf :: "'r workref list"
  wr_free_list :: "nat list"
  wrcount :: int

datatype wr_error = InUseOnFreeQueue | DoubleFree | NotInPool

definition MAX_WORK_ITEMS :: nat where
  "MAX_WORK_ITEMS = 128"

text \<open>The static initial values: no entry in use, nothing on the list, the counter at 128.\<close>

definition wr_static :: "'r wr_state" where
  "wr_static = \<lparr>wrbuf = replicate MAX_WORK_ITEMS \<lparr>reference = None, in_use = 0\<rparr>,
                wr_free_list = [], wrcount = int MAX_WORK_ITEMS\<rparr>"

definition wr_init :: "'r wr_state \<Rightarrow> 'r wr_state" where
  "wr_init p = fold (\<lambda>i p. p\<lparr>wr_free_list := wr_free_list p @ [i]\<rparr>) [0..<MAX_WORK_ITEMS] p"

text \<open>\<open>wr_get\<close> returns no index (NULL) when the list is empty.\<close>

definition wr_get ::
  "'r option \<Rightarrow> 32 word \<Rightarrow> 'r wr_state \<Rightarrow> wr_error + nat option \<times> 'r wr_state"
where
  "wr_get ref line p =
     (case wr_free_list p of
        [] \<Rightarrow> Inr (None, p)
      | i # rest \<Rightarrow>
          if in_use (wrbuf p ! i) \<noteq> 0 then Inl InUseOnFreeQueue
          else Inr (Some i,
            p\<lparr>wrbuf := (wrbuf p)[i := \<lparr>reference = ref, in_use = line\<rparr>],
              wr_free_list := rest, wrcount := wrcount p - 1\<rparr>))"

definition wr_put :: "nat \<Rightarrow> 'r wr_state \<Rightarrow> wr_error + 'r wr_state" where
  "wr_put i p =
     (if length (wrbuf p) \<le> i then Inl NotInPool
      else if in_use (wrbuf p ! i) = 0 then Inl DoubleFree
      else Inr (p\<lparr>wrbuf := (wrbuf p)[i := (wrbuf p ! i)\<lparr>in_use := 0\<rparr>],
                  wr_free_list := wr_free_list p @ [i], wrcount := wrcount p + 1\<rparr>))"

text \<open>The entries that the shell command \<open>wr\<close> lists.\<close>

definition do_wr_cmd :: "'r wr_state \<Rightarrow> (nat \<times> 'r option \<times> 32 word) list" where
  "do_wr_cmd p =
     [(i, reference (wrbuf p ! i), in_use (wrbuf p ! i)).
        i \<leftarrow> [0..<MAX_WORK_ITEMS], in_use (wrbuf p ! i) \<noteq> 0]"

definition wr_held :: "'r wr_state \<Rightarrow> nat set" where
  "wr_held p = {i. i < MAX_WORK_ITEMS \<and> in_use (wrbuf p ! i) \<noteq> 0}"

definition wr_inv :: "'r wr_state \<Rightarrow> bool" where
  "wr_inv p \<longleftrightarrow>
     length (wrbuf p) = MAX_WORK_ITEMS \<and> distinct (wr_free_list p) \<and>
     set (wr_free_list p) = {i. i < MAX_WORK_ITEMS \<and> in_use (wrbuf p ! i) = 0} \<and>
     wrcount p = int (length (wr_free_list p))"

section \<open>The interface of a slot pool\<close>

locale slot_pool =
  fixes inv :: "'p \<Rightarrow> bool"
    and held :: "'p \<Rightarrow> nat set"
    and cap :: nat
    and grab :: "'p \<Rightarrow> (nat option \<times> 'p) option"
    and give :: "nat \<Rightarrow> 'p \<Rightarrow> 'p option"
  assumes held_bound: "inv p \<Longrightarrow> held p \<subseteq> {..<cap}"
    and grab_some: "inv p \<Longrightarrow> card (held p) < cap \<Longrightarrow>
      \<exists>i p'. grab p = Some (Some i, p') \<and> i \<notin> held p \<and> held p' = insert i (held p) \<and> inv p'"
    and grab_none: "inv p \<Longrightarrow> card (held p) = cap \<Longrightarrow> grab p = Some (None, p)"
    and give_held: "inv p \<Longrightarrow> i \<in> held p \<Longrightarrow>
      \<exists>p'. give i p = Some p' \<and> held p' = held p - {i} \<and> inv p'"
    and give_other: "inv p \<Longrightarrow> i \<notin> held p \<Longrightarrow> give i p = None"
begin

primrec grab_many :: "nat \<Rightarrow> 'p \<Rightarrow> (nat list \<times> 'p) option" where
  "grab_many 0 p = Some ([], p)"
| "grab_many (Suc n) p =
     (case grab p of
        Some (Some i, p') \<Rightarrow> map_option (\<lambda>(is, q). (i # is, q)) (grab_many n p')
      | _ \<Rightarrow> None)"

lemma finite_held: "inv p \<Longrightarrow> finite (held p)"
  using held_bound finite_subset by blast

lemma card_held: "inv p \<Longrightarrow> card (held p) \<le> cap"
  using card_mono [OF finite_lessThan held_bound] by simp

lemma grab_many_ok:
  "inv p \<Longrightarrow> card (held p) + n \<le> cap \<Longrightarrow>
   \<exists>is q. grab_many n p = Some (is, q) \<and> length is = n \<and> distinct is \<and>
     set is \<inter> held p = {} \<and> held q = held p \<union> set is \<and> inv q"
proof (induction n arbitrary: p)
  case 0
  then show ?case by simp
next
  case (Suc n)
  then obtain i p' where g: "grab p = Some (Some i, p')" "i \<notin> held p"
      "held p' = insert i (held p)" "inv p'"
    using grab_some [of p] by auto
  with Suc.prems have "card (held p') + n \<le> cap"
    by (simp add: finite_held)
  with Suc.IH [OF g(4)] obtain "is" q where
    "grab_many n p' = Some (is, q)" "length is = n" "distinct is"
    "set is \<inter> held p' = {}" "held q = held p' \<union> set is" "inv q"
    by blast
  with g show ?case by auto
qed

lemma grab_full: "inv p \<Longrightarrow> card (held p) = cap \<Longrightarrow> grab_many (Suc n) p = None"
  by (simp add: grab_none)

lemma grab_give:
  assumes "inv p" and "card (held p) < cap"
  shows "\<exists>i q r. grab p = Some (Some i, q) \<and> give i q = Some r \<and> held r = held p \<and> give i r = None"
proof -
  from assms obtain i q where g: "grab p = Some (Some i, q)" "i \<notin> held p"
      "held q = insert i (held p)" "inv q"
    using grab_some by blast
  then obtain r where r: "give i q = Some r" "held r = held q - {i}" "inv r"
    using give_held [of q i] by auto
  with g have "held r = held p" by auto
  with r g show ?thesis using give_other by blast
qed

end

section \<open>The pool meets the interface\<close>

lemma wr_held_free:
  "wr_inv p \<Longrightarrow> wr_held p = {..<MAX_WORK_ITEMS} - set (wr_free_list p)"
  by (auto simp: wr_inv_def wr_held_def)

lemma wr_held_card: "wr_inv p \<Longrightarrow> card (wr_held p) = MAX_WORK_ITEMS - length (wr_free_list p)"
proof -
  assume inv: "wr_inv p"
  then have "set (wr_free_list p) \<subseteq> {..<MAX_WORK_ITEMS}" by (auto simp: wr_inv_def)
  moreover have "card (set (wr_free_list p)) = length (wr_free_list p)"
    using inv distinct_card unfolding wr_inv_def by blast
  ultimately show ?thesis using inv by (simp add: wr_held_free card_Diff_subset)
qed

lemma wr_free_length: "wr_inv p \<Longrightarrow> length (wr_free_list p) \<le> MAX_WORK_ITEMS"
proof -
  assume inv: "wr_inv p"
  then have "set (wr_free_list p) \<subseteq> {..<MAX_WORK_ITEMS}" by (auto simp: wr_inv_def)
  from card_mono [OF finite_lessThan this]
  have "card (set (wr_free_list p)) \<le> MAX_WORK_ITEMS" by simp
  moreover have "card (set (wr_free_list p)) = length (wr_free_list p)"
    using inv distinct_card unfolding wr_inv_def by blast
  ultimately show ?thesis by simp
qed

lemma wr_get_empty: "wr_free_list p = [] \<Longrightarrow> wr_get ref line p = Inr (None, p)"
  by (simp add: wr_get_def)

lemma wr_get_step:
  assumes "wr_inv p" and "wr_free_list p = i # rest" and "line \<noteq> 0"
  shows "\<exists>q. wr_get ref line p = Inr (Some i, q) \<and> wr_inv q \<and> i \<notin> wr_held p \<and>
    wr_held q = insert i (wr_held p) \<and> wrcount q = wrcount p - 1 \<and>
    wrbuf q ! i = \<lparr>reference = ref, in_use = line\<rparr>"
proof -
  let ?q = "p\<lparr>wrbuf := (wrbuf p)[i := \<lparr>reference = ref, in_use = line\<rparr>],
              wr_free_list := rest, wrcount := wrcount p - 1\<rparr>"
  from assms have len: "length (wrbuf p) = MAX_WORK_ITEMS" and dist: "distinct (i # rest)"
    and free: "insert i (set rest) = {i. i < MAX_WORK_ITEMS \<and> in_use (wrbuf p ! i) = 0}"
    and cnt: "wrcount p = int (length (i # rest))"
    by (simp_all add: wr_inv_def)
  from free have i: "i < MAX_WORK_ITEMS" "in_use (wrbuf p ! i) = 0" by blast+
  have get: "wr_get ref line p = Inr (Some i, ?q)"
    using assms i by (simp add: wr_get_def)
  have "set rest = {j. j < MAX_WORK_ITEMS \<and> in_use (wrbuf p ! j) = 0} - {i}"
    using free dist by auto
  moreover have nth: "wrbuf ?q ! j = (if j = i then \<lparr>reference = ref, in_use = line\<rparr> else wrbuf p ! j)" for j
    using i len by simp
  ultimately have "set rest = {j. j < MAX_WORK_ITEMS \<and> in_use (wrbuf ?q ! j) = 0}"
    using assms(3) unfolding nth by auto
  then have "wr_inv ?q" using len dist cnt by (simp add: wr_inv_def)
  moreover have "i \<notin> wr_held p" using i by (simp add: wr_held_def)
  moreover have "wr_held ?q = insert i (wr_held p)"
    using assms(3) i unfolding wr_held_def nth by auto
  ultimately show ?thesis using get i len by simp
qed

lemma wr_put_step:
  assumes "wr_inv p" and "i \<in> wr_held p"
  shows "\<exists>q. wr_put i p = Inr q \<and> wr_inv q \<and> wr_held q = wr_held p - {i} \<and>
    wrcount q = wrcount p + 1"
proof -
  let ?q = "p\<lparr>wrbuf := (wrbuf p)[i := (wrbuf p ! i)\<lparr>in_use := 0\<rparr>],
              wr_free_list := wr_free_list p @ [i], wrcount := wrcount p + 1\<rparr>"
  have i: "i < MAX_WORK_ITEMS" "in_use (wrbuf p ! i) \<noteq> 0" "length (wrbuf p) = MAX_WORK_ITEMS"
    using assms by (simp_all add: wr_held_def wr_inv_def)
  have "wr_put i p = Inr ?q" using i by (simp add: wr_put_def)
  moreover have "wr_inv ?q" using assms(1) i
    by (auto simp: wr_inv_def nth_list_update split: if_splits)
  moreover have "wr_held ?q = wr_held p - {i}"
    using i by (auto simp: wr_held_def nth_list_update)
  ultimately show ?thesis by simp
qed

lemma wr_put_free:
  assumes "wr_inv p" and "i \<notin> wr_held p"
  shows "\<exists>err. wr_put i p = Inl err"
  using assms by (auto simp: wr_put_def wr_held_def wr_inv_def)

definition ok :: "'e + 'a \<Rightarrow> 'a option" where
  "ok r = (case r of Inl _ \<Rightarrow> None | Inr a \<Rightarrow> Some a)"

lemma ok_simps [simp]: "ok (Inl e) = None" "ok (Inr a) = Some a"
  by (simp_all add: ok_def)

interpretation wr: slot_pool wr_inv wr_held MAX_WORK_ITEMS
  "\<lambda>p. ok (wr_get ref 1 p)" "\<lambda>i p. ok (wr_put i p)"
proof (unfold_locales, goal_cases)
  case (1 p)
  then show ?case by (auto simp: wr_held_def)
next
  case (2 p)
  then have "wr_free_list p \<noteq> []" using wr_held_card [of p] by auto
  then obtain i rest where "wr_free_list p = i # rest" by (cases "wr_free_list p") auto
  with 2 show ?case using wr_get_step [of p i rest 1 ref] by auto
next
  case (3 p)
  then have "MAX_WORK_ITEMS - length (wr_free_list p) = MAX_WORK_ITEMS"
    by (simp add: wr_held_card)
  then have "wr_free_list p = []" by (simp add: MAX_WORK_ITEMS_def) (cases "wr_free_list p"; simp)
  then show ?case by (simp add: wr_get_empty)
next
  case (4 p i)
  then show ?case using wr_put_step by fastforce
next
  case (5 p i)
  then show ?case using wr_put_free by fastforce
qed

lemma wr_init_free: "wr_free_list (wr_init p) = wr_free_list p @ [0..<MAX_WORK_ITEMS]"
  and wr_init_rest: "wrbuf (wr_init p) = wrbuf p" "wrcount (wr_init p) = wrcount p"
proof -
  have "wr_free_list (fold (\<lambda>i p. p\<lparr>wr_free_list := wr_free_list p @ [i]\<rparr>) is p) = wr_free_list p @ is \<and>
     wrbuf (fold (\<lambda>i p. p\<lparr>wr_free_list := wr_free_list p @ [i]\<rparr>) is p) = wrbuf p \<and>
     wrcount (fold (\<lambda>i p. p\<lparr>wr_free_list := wr_free_list p @ [i]\<rparr>) is p) = wrcount p" for "is"
    by (induction "is" arbitrary: p) auto
  then show "wr_free_list (wr_init p) = wr_free_list p @ [0..<MAX_WORK_ITEMS]"
    "wrbuf (wr_init p) = wrbuf p" "wrcount (wr_init p) = wrcount p"
    by (simp_all add: wr_init_def)
qed

lemma wr_inv_boot: "wr_inv (wr_init wr_static)"
  by (auto simp: wr_inv_def wr_init_free wr_init_rest wr_static_def)

lemma wr_held_boot: "wr_held (wr_init wr_static) = {}"
  by (auto simp: wr_held_def wr_init_rest wr_static_def)

end
