(* ===== verification/RadioMgr.thy ===== *)
theory RadioMgr
  imports Platform WorkRef
begin

text \<open>
  The radio manager, \<^verbatim>\<open>commercial_collar/src/comm_mgr/src/radioMgr.c\<close>: its static variables, the
  queries other modules make, the reference counts of the prepared radios, and the request to
  switch radios.  Every definition has the name of its C function; a function that reads only is a
  HOL function of the state, one that writes or calls a chip is an action.  The record is
  extensible, so that the communication manager adds its own variables to the same state.
\<close>

section \<open>State\<close>

datatype switch_radios_state =
  SRS_IDLE | SRS_STATE_TO_BE_KNOWN | SRS_WAKING_DA | SRS_SLEEPING_DA | SRS_TURNING_ON_BROKER
| SRS_TURNING_OFF_BROKER | SRS_TURNING_ON_BROKER_BOOT | SRS_TURNING_OFF_BROKER_BOOT
| SRS_WAIT_FOR_AP | SRS_DISABLING_LTE_MQTT | SRS_ENABLING_LTE_MQTT | SRS_WAIT_FOR_LTE_READY
| SRS_WAIT_FOR_LTE_CONNECT | SRS_WAIT_FOR_LTE_DISCONNECT | SRS_WAIT_FOR_BROKER | SRS_STOP_AP_USE

datatype op_state = OS_STARTED | OS_STILL_GOING | OS_FAILED

record switch_radios_info =
  currOp :: switch_radios_state
  currOpStart :: "64 word"
  target_radio :: comm_device
  op_failures :: int
  max_retrys :: int
  si_timeout :: int
  radio_enabled :: bool
  radio_disabled :: bool

record connect_to_ap =
  ap_ssid :: string
  ap_password :: string
  ap_sec :: "16 word"
  ap_keyidx :: "16 word"
  ap_enc :: "16 word"
  conn_idx :: int
  disconnectFirst :: bool

datatype zbus_msg =
  DaStateMsg "32 word"
| LteStatusMsg "32 word" "32 word"
| BtConnMsg bool
| UsbPowerMsg bool

record rm_state =
  wld :: world
  g_radio_mgmt :: bool
  g_use_sleep :: bool
  g_do_one_step :: bool
  g_bt_connected :: bool
  g_usb_connected :: bool
  g_usb_bt_prepped_radio :: bool
  g_is_connecting_to_ap :: bool
  g_use_wifi :: bool
  g_switching_radios :: bool
  g_switching_radios_start :: "64 word"
  g_active_radio :: comm_device
  sr_info :: switch_radios_info
  g_ap_to_attempt :: connect_to_ap
  prep_ref_cnt :: "nat \<Rightarrow> 16 word"
  sr_work_pending :: bool
  continue_switching_timer :: "int option"
  connecting_to_ap_pending :: bool
  last_usb_connected :: bool
  last_bt_connected :: bool
  wr_pool :: "unit wr_state"
  wr_assert_failed :: bool
  rm_work_items :: "(nat \<times> zbus_msg) list"
  rm_live_infos :: int

text \<open>The static initialisers of the switch information.\<close>

definition switch_radios_info_init :: switch_radios_info where
  "switch_radios_info_init =
     \<lparr>currOp = SRS_IDLE, currOpStart = 0, target_radio = COMM_DEVICE_NRF9160, op_failures = 0,
      max_retrys = 0, si_timeout = 0, radio_enabled = False, radio_disabled = False\<rparr>"

section \<open>Calls and time\<close>

definition call :: "env \<Rightarrow> drv \<Rightarrow> ('a rm_state_scheme, int) state" where
  "call e d = State (\<lambda>s. let (r, w) = do_call e d (wld s) in (r, s\<lparr>wld := w\<rparr>))"

definition ksleep :: "env \<Rightarrow> nat \<Rightarrow> ('a rm_state_scheme, unit) state" where
  "ksleep e ms = modify (\<lambda>s. s\<lparr>wld := k_sleep e ms (wld s)\<rparr>)"

definition poll ::
  "env \<Rightarrow> nat \<Rightarrow> (world \<Rightarrow> bool) \<Rightarrow> (nat \<Rightarrow> drv) option \<Rightarrow> nat \<Rightarrow> ('a rm_state_scheme, bool) state"
where
  "poll e period cond query deadline =
     State (\<lambda>s. let (b, w) = poll_until e period cond query deadline (wld s)
                in (b, s\<lparr>wld := w\<rparr>))"

definition k_uptime_get :: "'a rm_state_scheme \<Rightarrow> 64 word" where
  "k_uptime_get s = of_nat (uptime (wld s))"

definition timepoint :: "nat \<Rightarrow> 'a rm_state_scheme \<Rightarrow> nat" where
  "timepoint ms s = uptime (wld s) + ms"

definition set_info ::
  "(switch_radios_info \<Rightarrow> switch_radios_info) \<Rightarrow> ('a rm_state_scheme, unit) state" where
  "set_info f = modify (\<lambda>s. s\<lparr>sr_info := f (sr_info s)\<rparr>)"

definition set_da :: "(da_state \<Rightarrow> da_state) \<Rightarrow> ('a rm_state_scheme, unit) state" where
  "set_da f = modify (\<lambda>s. s\<lparr>wld := (wld s)\<lparr>da := f (da (wld s))\<rparr>\<rparr>)"

abbreviation das :: "'a rm_state_scheme \<Rightarrow> da_state" where
  "das s \<equiv> da (wld s)"

lemma after_call [run]: "after (call e d) s = s\<lparr>wld := snd (do_call e d (wld s))\<rparr>"
  and result_call [run]: "result (call e d) s = fst (do_call e d (wld s))"
  by (simp_all add: call_def after_def result_def split: prod.split)

lemma after_ksleep [run]: "after (ksleep e ms) s = s\<lparr>wld := k_sleep e ms (wld s)\<rparr>"
  by (simp add: ksleep_def)

lemma after_poll [run]:
    "after (poll e period c q dl) s = s\<lparr>wld := snd (poll_until e period c q dl (wld s))\<rparr>"
  and result_poll [run]: "result (poll e period c q dl) s = fst (poll_until e period c q dl (wld s))"
  by (simp_all add: poll_def after_def result_def split: prod.split)

lemma after_set_info [run]: "after (set_info f) s = s\<lparr>sr_info := f (sr_info s)\<rparr>"
  by (simp add: set_info_def)

lemma after_set_da [run]: "after (set_da f) s = s\<lparr>wld := (wld s)\<lparr>da := f (da (wld s))\<rparr>\<rparr>"
  by (simp add: set_da_def)

section \<open>Queries\<close>

definition wifi_time_to_next_wake :: "world \<Rightarrow> int" where
  "wifi_time_to_next_wake w =
     (let delta = int (uptime w) - int (g_last_sleep_time w)
      in if delta < 500 then 500 - delta else 0)"

definition is_da_awake :: "'a rm_state_scheme \<Rightarrow> bool" where
  "is_da_awake s \<longleftrightarrow> is_sleeping (das s) = DA_STATE_KNOWN_FALSE"

definition is_da_in_right_sleep_mode :: "'a rm_state_scheme \<Rightarrow> bool" where
  "is_da_in_right_sleep_mode s \<longleftrightarrow>
     (if g_use_sleep s then
        (if ap_connected (das s) = DA_STATE_KNOWN_TRUE
         then dpm_mode (das s) = DA_STATE_KNOWN_TRUE \<and> is_sleeping (das s) = DA_STATE_KNOWN_TRUE
         else dpm_mode (das s) = DA_STATE_KNOWN_TRUE \<and> is_sleeping (das s) = DA_STATE_KNOWN_TRUE)
      else dpm_mode (das s) = DA_STATE_KNOWN_FALSE \<and> is_sleeping (das s) = DA_STATE_KNOWN_FALSE)"

definition modem_bit :: "status_bit \<Rightarrow> world \<Rightarrow> bool" where
  "modem_bit b w = status_getBit (status_flags w) (status_pos b)"

definition is_lte_connected :: "32 word option \<Rightarrow> 'a rm_state_scheme \<Rightarrow> bool" where
  "is_lte_connected status_ptr s =
     (let status = (case status_ptr of None \<Rightarrow> status_flags (wld s) | Some v \<Rightarrow> v)
      in status_getBit status (status_pos STATUS_LTE_CONNECTED))"

definition has_lte_been_connected :: "32 word option \<Rightarrow> 'a rm_state_scheme \<Rightarrow> bool" where
  "has_lte_been_connected status_ptr s =
     (let status = (case status_ptr of None \<Rightarrow> status_flags (wld s) | Some v \<Rightarrow> v)
      in status_getBit status (status_pos STATUS_LTE_WORKING))"

definition is_lte_mqtt_enabled :: "'a rm_state_scheme \<Rightarrow> bool" where
  "is_lte_mqtt_enabled s = modem_bit STATUS_MQTT_ENABLED (wld s)"

definition is_lte_mqtt_connected :: "'a rm_state_scheme \<Rightarrow> bool" where
  "is_lte_mqtt_connected s = modem_bit STATUS_MQTT_CONNECTED (wld s)"

definition modem_is_powered_on :: "'a rm_state_scheme \<Rightarrow> bool" where
  "modem_is_powered_on s = modem_powered (wld s)"

definition rm_is_enable :: "'a rm_state_scheme \<Rightarrow> bool" where
  "rm_is_enable s = g_radio_mgmt s"

definition rm_is_wifi_enabled :: "'a rm_state_scheme \<Rightarrow> bool" where
  "rm_is_wifi_enabled s = g_use_wifi s"

definition rm_uses_sleep :: "'a rm_state_scheme \<Rightarrow> bool" where
  "rm_uses_sleep s = g_use_sleep s"

definition rm_get_active_mqtt_radio :: "'a rm_state_scheme \<Rightarrow> comm_device" where
  "rm_get_active_mqtt_radio s = g_active_radio s"

definition rm_wifi_is_connecting :: "'a rm_state_scheme \<Rightarrow> bool" where
  "rm_wifi_is_connecting s \<longleftrightarrow>
     g_is_connecting_to_ap s \<or>
     (g_switching_radios s \<and> target_radio (sr_info s) = COMM_DEVICE_DA16200)"

definition rm_is_switching_radios :: "'a rm_state_scheme \<Rightarrow> bool" where
  "rm_is_switching_radios s \<longleftrightarrow> g_switching_radios s \<or> g_is_connecting_to_ap s"

definition rm_is_active_radio_mqtt_connected :: "'a rm_state_scheme \<Rightarrow> bool" where
  "rm_is_active_radio_mqtt_connected s \<longleftrightarrow>
     (rm_get_active_mqtt_radio s = COMM_DEVICE_NRF9160 \<and> is_lte_mqtt_connected s) \<or>
     (rm_get_active_mqtt_radio s = COMM_DEVICE_DA16200 \<and>
      mqtt_broker_connected (das s) = DA_STATE_KNOWN_TRUE)"

definition rm_ready_for_mqtt :: "'a rm_state_scheme \<Rightarrow> bool" where
  "rm_ready_for_mqtt s \<longleftrightarrow>
     (if g_active_radio s = COMM_DEVICE_NRF9160
      then modem_bit STATUS_MQTT_ENABLED (wld s) \<and> modem_bit STATUS_MQTT_CONNECTED (wld s)
      else if g_active_radio s = COMM_DEVICE_DA16200
      then tri_int (mqtt_broker_connected (das s)) = 1
      else False)"

definition rm_op_str :: "'a rm_state_scheme \<Rightarrow> string" where
  "rm_op_str s =
     (case currOp (sr_info s) of
        SRS_IDLE \<Rightarrow> ''Idle''
      | SRS_STATE_TO_BE_KNOWN \<Rightarrow> ''Waiting for da_states to be known''
      | SRS_WAKING_DA \<Rightarrow> ''Waking DA''
      | SRS_SLEEPING_DA \<Rightarrow> ''Sleeping DA''
      | SRS_TURNING_ON_BROKER \<Rightarrow> ''Enabling mqtt''
      | SRS_TURNING_OFF_BROKER \<Rightarrow> ''Disabling mqtt''
      | SRS_TURNING_ON_BROKER_BOOT \<Rightarrow> ''Enabling mqtt boot''
      | SRS_TURNING_OFF_BROKER_BOOT \<Rightarrow> ''Disabling mqtt boot''
      | SRS_WAIT_FOR_AP \<Rightarrow> ''Waiting for AP to connect''
      | SRS_DISABLING_LTE_MQTT \<Rightarrow> ''Disabling MQTT''
      | SRS_ENABLING_LTE_MQTT \<Rightarrow> ''Enabling MQTT''
      | SRS_WAIT_FOR_LTE_READY \<Rightarrow> ''Waiting for LTE to be ready to receive commands''
      | SRS_WAIT_FOR_LTE_CONNECT \<Rightarrow> ''Waiting for LTE to connect''
      | SRS_WAIT_FOR_LTE_DISCONNECT \<Rightarrow> ''Waiting for LTE to disconnect''
      | SRS_WAIT_FOR_BROKER \<Rightarrow> ''Waiting for MQTT broker to connect''
      | SRS_STOP_AP_USE \<Rightarrow> ''Stopping AP Profile from being used'')"

section \<open>Settings\<close>

definition rm_enable :: "bool \<Rightarrow> ('a rm_state_scheme, unit) state" where
  "rm_enable enable = modify (\<lambda>s. s\<lparr>g_radio_mgmt := enable\<rparr>)"

definition rm_use_sleep :: "bool \<Rightarrow> ('a rm_state_scheme, unit) state" where
  "rm_use_sleep enable = modify (\<lambda>s. s\<lparr>g_use_sleep := enable\<rparr>)"

section \<open>Requesting a switch\<close>

definition queue_switching_handler :: "('a rm_state_scheme, unit) state" where
  "queue_switching_handler = modify (\<lambda>s. s\<lparr>sr_work_pending := True\<rparr>)"

definition rm_switch_to ::
  "comm_device \<Rightarrow> bool \<Rightarrow> bool \<Rightarrow> ('a rm_state_scheme, int) state" where
  "rm_switch_to radio clear_existing_radio force_switch = do {
     s \<leftarrow> State_Monad.get;
     if g_switching_radios s \<and> target_radio (sr_info s) = radio then return 0
     else if \<not> g_use_wifi s \<and> radio = COMM_DEVICE_DA16200 then return 0
     else if radio \<noteq> COMM_DEVICE_NRF9160 \<and> radio \<noteq> COMM_DEVICE_DA16200 then return (-1)
     else do {
       set_info (\<lambda>i. i\<lparr>radio_disabled := False, radio_enabled := False\<rparr>);
       if force_switch then do {
         modify (\<lambda>s. s\<lparr>g_active_radio := radio, g_switching_radios := False,
                        g_switching_radios_start := 0\<rparr>);
         return 0
       } else do {
         (if radio = COMM_DEVICE_NRF9160 then do {
           set_info (\<lambda>i. i\<lparr>target_radio := COMM_DEVICE_NRF9160\<rparr>);
           modify (\<lambda>s. s\<lparr>g_switching_radios_start := k_uptime_get s\<rparr>)
         } else whenever (radio = COMM_DEVICE_DA16200) (do {
           set_info (\<lambda>i. i\<lparr>target_radio := COMM_DEVICE_DA16200\<rparr>);
           modify (\<lambda>s. s\<lparr>g_switching_radios_start := k_uptime_get s\<rparr>)
         }));
         sw \<leftarrow> gets g_switching_radios;
         whenever (\<not> sw) (do {
           modify (\<lambda>s. s\<lparr>g_switching_radios := True\<rparr>);
           queue_switching_handler
         });
         return 0
       }
     }
   }"

definition rm_wifi_enable :: "bool \<Rightarrow> ('a rm_state_scheme, unit) state" where
  "rm_wifi_enable use_wifi = do {
     s \<leftarrow> State_Monad.get;
     whenever (use_wifi = False \<and> g_use_wifi s = True) (do {
       modify (\<lambda>s. s\<lparr>g_use_wifi := False\<rparr>);
       a \<leftarrow> gets g_active_radio;
       whenever (a = COMM_DEVICE_DA16200) (do {
         rm_switch_to COMM_DEVICE_NRF9160 False False;
         skip
       })
     });
     s \<leftarrow> State_Monad.get;
     whenever (use_wifi = True \<and> g_use_wifi s = False)
       (modify (\<lambda>s. s\<lparr>g_use_wifi := True\<rparr>))
   }"

section \<open>Preparing and releasing a radio\<close>

definition lte_set_mqtt_enable :: "env \<Rightarrow> bool \<Rightarrow> nat \<Rightarrow> ('a rm_state_scheme, int) state" where
  "lte_set_mqtt_enable e on timeout = do {
     tp \<leftarrow> gets (timepoint timeout);
     en \<leftarrow> gets is_lte_mqtt_enabled;
     if on = en then return 0
     else do {
       ret \<leftarrow> (if on then call e ModemStartMqtt else call e ModemStopMqtt);
       if ret \<noteq> 0 then return (-1)
       else do {
         b \<leftarrow> poll e 10 (\<lambda>w. on = modem_bit STATUS_MQTT_ENABLED w) None tp;
         return (if b then 0 else - ETIMEDOUT)
       }
     }
   }"

definition insure_da_is_awake :: "env \<Rightarrow> ('a rm_state_scheme, int) state" where
  "insure_da_is_awake e = do {
     shipped \<leftarrow> gets (\<lambda>s. shipping_flag (wld s));
     if shipped = False then return 0
     else do {
       was_powered \<leftarrow> gets (\<lambda>s. tri_int (powered_on (das s)) \<noteq> 0);
       mgmt \<leftarrow> gets g_radio_mgmt;
       if mgmt = False then return 0
       else do {
         call e (NetMgrWifiPower True);
         sl \<leftarrow> gets g_use_sleep;
         if sl then do {
           whenever was_powered (do {
             wnw \<leftarrow> gets (\<lambda>s. wifi_time_to_next_wake (wld s));
             whenever (wnw > 0) (ksleep e (nat wnw))
           });
           call e (WifiSetSleepMode WIFI_SLEEP_DPM_AWAKE)
         } else call e (WifiSetSleepMode WIFI_SLEEP_NONE)
       }
     }
   }"

definition add_ref :: "nat \<Rightarrow> 16 word \<Rightarrow> ('a rm_state_scheme, unit) state" where
  "add_ref i d = modify (\<lambda>s. s\<lparr>prep_ref_cnt := (prep_ref_cnt s)(i := prep_ref_cnt s i + d)\<rparr>)"

lemma after_add_ref [run]:
  "after (add_ref i d) s = s\<lparr>prep_ref_cnt := (prep_ref_cnt s)(i := prep_ref_cnt s i + d)\<rparr>"
  by (simp add: add_ref_def)

definition rm_got_UC_from_AP :: "('a rm_state_scheme, unit) state" where
  "rm_got_UC_from_AP = add_ref 0 1"

definition radio_idx :: "comm_device \<Rightarrow> nat" where
  "radio_idx device = (if device = COMM_DEVICE_DA16200 then 0 else 1)"

definition rm_prepare_radio_for_use ::
  "env \<Rightarrow> comm_device \<Rightarrow> bool \<Rightarrow> nat \<Rightarrow> ('a rm_state_scheme, bool) state" where
  "rm_prepare_radio_for_use e device need_mqtt timeout = do {
     tp \<leftarrow> gets (timepoint timeout);
     add_ref (radio_idx device) 1;
     if device = COMM_DEVICE_DA16200 then do {
       ret \<leftarrow> insure_da_is_awake e;
       if ret \<noteq> 0 then do { add_ref (radio_idx device) (-1); return False }
       else if need_mqtt then do {
         b \<leftarrow> poll e 50 (\<lambda>w. mqtt_broker_connected (da w) = DA_STATE_KNOWN_TRUE)
                (Some WifiGetMqttState) tp;
         if b then return True
         else do { add_ref (radio_idx device) (-1); return False }
       } else return True
     } else if device = COMM_DEVICE_NRF9160 then
       (if need_mqtt then do {
          tp \<leftarrow> gets (timepoint timeout);
          b \<leftarrow> poll e 100 (modem_bit STATUS_MQTT_CONNECTED) None tp;
          if b then return True
          else do { add_ref (radio_idx device) (-1); return False }
        } else return True)
     else return True
   }"

definition return_da_to_sleep :: "env \<Rightarrow> ('a rm_state_scheme, int) state" where
  "return_da_to_sleep e = do {
     s \<leftarrow> State_Monad.get;
     if shipping_flag (wld s) = False then return 0
     else if g_radio_mgmt s = False then return 0
     else if rm_wifi_is_connecting s then return 0
     else if rm_get_active_mqtt_radio s = COMM_DEVICE_DA16200 then
       (if g_use_sleep s then
          (if dpm_mode (das s) = DA_STATE_UNKNOWN \<or> is_sleeping (das s) = DA_STATE_UNKNOWN
           then return (- EBADE)
           else if ap_connected (das s) = DA_STATE_KNOWN_TRUE
           then call e (WifiSetSleepMode WIFI_SLEEP_DPM_ASLEEP)
           else do {
             rm_switch_to COMM_DEVICE_NRF9160 True False;
             if g_usb_bt_prepped_radio s = False
             then do { call e (NetMgrWifiPower False); return 0 }
             else return 0
           })
        else call e (WifiSetSleepMode WIFI_SLEEP_NONE))
     else if g_usb_bt_prepped_radio s = False
     then do { call e (NetMgrWifiPower False); return 0 }
     else return 0
   }"

definition rm_done_with_radio :: "env \<Rightarrow> comm_device \<Rightarrow> ('a rm_state_scheme, int) state" where
  "rm_done_with_radio e device = do {
     n \<leftarrow> gets (\<lambda>s. prep_ref_cnt s (radio_idx device));
     if sint n \<le> 0 then return (- EMLINK)
     else do {
       add_ref (radio_idx device) (-1);
       n \<leftarrow> gets (\<lambda>s. prep_ref_cnt s (radio_idx device));
       if sint n > 0 then return 0
       else if device = COMM_DEVICE_DA16200 then return_da_to_sleep e
       else return 0
     }
   }"

end
