(* ===== verification/CStrings.thy ===== *)
theory CStrings
  imports Prelude Complex_Main
begin

text \<open>
  The C library's decimal conversions that the sources use on strings: \<open>snprintf\<close> with \<open>%d\<close> and
  \<open>%03d\<close>, \<open>strtol(s, &end, 10)\<close> with its end pointer and its saturation at the 32 bit \<open>long\<close> of the
  target, \<open>atoi\<close>, \<open>strchr\<close>, \<open>strstr\<close>, \<open>strncpy\<close> and \<open>strncat\<close>.  The rest of a string after a
  pointer into it is the list of the characters from there.
\<close>

section \<open>Digits\<close>

definition isdigit :: "char \<Rightarrow> bool" where
  "isdigit c \<longleftrightarrow> 48 \<le> (of_char c :: nat) \<and> (of_char c :: nat) \<le> 57"

definition isspace :: "char \<Rightarrow> bool" where
  "isspace c \<longleftrightarrow> (of_char c :: nat) = 32 \<or> (9 \<le> (of_char c :: nat) \<and> (of_char c :: nat) \<le> 13)"

definition digit :: "nat \<Rightarrow> char" where
  "digit d = char_of (48 + d mod 10)"

fun show_nat :: "nat \<Rightarrow> string" where
  "show_nat n = (if n < 10 then [digit n] else show_nat (n div 10) @ [digit n])"

declare show_nat.simps [simp del]

definition show_int :: "int \<Rightarrow> string" where
  "show_int i = (if i < 0 then CHR ''-'' # show_nat (nat (- i)) else show_nat (nat i))"

text \<open>\<open>%03d\<close> of a value that is not negative.\<close>

definition show_03d :: "nat \<Rightarrow> string" where
  "show_03d n = (let ds = show_nat n in replicate (3 - length ds) (CHR ''0'') @ ds)"

definition digits_val :: "string \<Rightarrow> nat" where
  "digits_val ds = foldl (\<lambda>n c. 10 * n + ((of_char c :: nat) - 48)) 0 ds"

definition long_clamp :: "int \<Rightarrow> int" where
  "long_clamp i = max (- (2 ^ 31)) (min (2 ^ 31 - 1) i)"

definition strtol10 :: "string \<Rightarrow> int \<times> string" where
  "strtol10 s =
     (let t = dropWhile isspace s;
          neg = (t \<noteq> [] \<and> hd t = CHR ''-'');
          u = (if t \<noteq> [] \<and> (hd t = CHR ''-'' \<or> hd t = CHR ''+'') then tl t else t);
          ds = takeWhile isdigit u
      in if ds = [] then (0, s)
         else (long_clamp (if neg then - int (digits_val ds) else int (digits_val ds)),
               dropWhile isdigit u))"

definition atoi :: "string \<Rightarrow> int" where
  "atoi s = fst (strtol10 s)"

section \<open>Searching and copying\<close>

text \<open>\<open>strchr\<close> gives the index of the first occurrence instead of a pointer.\<close>

fun strchr :: "string \<Rightarrow> char \<Rightarrow> nat option" where
  "strchr [] c = None"
| "strchr (x # xs) c = (if x = c then Some 0 else map_option Suc (strchr xs c))"

fun starts_with :: "string \<Rightarrow> string \<Rightarrow> bool" where
  "starts_with [] s = True"
| "starts_with (p # ps) [] = False"
| "starts_with (p # ps) (x # xs) = (p = x \<and> starts_with ps xs)"

fun strstr :: "string \<Rightarrow> string \<Rightarrow> nat option" where
  "strstr [] p = (if p = [] then Some 0 else None)"
| "strstr (x # xs) p = (if starts_with p (x # xs) then Some 0 else map_option Suc (strstr xs p))"

text \<open>\<open>strtok\<close>: the non-empty pieces between the separators.\<close>

function tokens :: "char \<Rightarrow> string \<Rightarrow> string list" where
  "tokens sep s =
     (let t = dropWhile (\<lambda>x. x = sep) s
      in if t = [] then [] else takeWhile (\<lambda>x. x \<noteq> sep) t # tokens sep (dropWhile (\<lambda>x. x \<noteq> sep) t))"
  by pat_completeness auto
termination
proof (relation "measure (\<lambda>(sep, s). length s)", goal_cases)
  case 1
  then show ?case by simp
next
  case (2 sep s t)
  then have "hd t \<noteq> sep" using hd_dropWhile [of "\<lambda>x. x = sep" s] by simp
  with 2(2) have "length (dropWhile (\<lambda>x. x \<noteq> sep) t) < length t"
    by (cases t) (simp_all add: le_imp_less_Suc length_dropWhile_le)
  moreover have "length t \<le> length s" using 2(1) by (simp add: length_dropWhile_le)
  ultimately show ?case by simp
qed

declare tokens.simps [simp del]

text \<open>Two values of the build configuration.\<close>

abbreviation CONFIG_IOT_MQTT_BRAND_ID :: nat where "CONFIG_IOT_MQTT_BRAND_ID \<equiv> 35"
abbreviation CONFIG_IOT_MAX_TOPIC_LENGTH :: nat where "CONFIG_IOT_MAX_TOPIC_LENGTH \<equiv> 43"

section \<open>Lemmas\<close>

lemma of_char_digit [simp]: "(of_char (digit d) :: nat) = 48 + d mod 10"
proof -
  have "48 + d mod 10 < (256 :: nat)" by (rule less_trans [of _ "48 + 10"]) simp_all
  then show ?thesis by (simp add: digit_def)
qed

lemma isdigit_digit [simp]: "isdigit (digit d)"
proof -
  have "d mod 10 < 10" by simp
  then show ?thesis unfolding isdigit_def of_char_digit by linarith
qed

lemma isdigit_not_space: "isdigit c \<Longrightarrow> \<not> isspace c"
  by (auto simp: isdigit_def isspace_def)

lemma isdigit_0 [simp]: "isdigit (CHR ''0'')"
  by (simp add: isdigit_def)

lemma not_digit_sign [simp]: "\<not> isdigit (CHR ''-'')" "\<not> isdigit (CHR ''+'')"
  by (simp_all add: isdigit_def)

lemma show_nat_digits: "\<forall>c \<in> set (show_nat n). isdigit c"
proof (induction n rule: show_nat.induct)
  case (1 n)
  then show ?case by (subst show_nat.simps) auto
qed

lemma show_nat_nonempty [simp]: "show_nat n \<noteq> []"
  by (subst show_nat.simps) simp

lemma digits_val_snoc: "digits_val (ds @ [c]) = 10 * digits_val ds + ((of_char c :: nat) - 48)"
  by (simp add: digits_val_def)

lemma digits_val_Nil [simp]: "digits_val [] = 0"
  by (simp add: digits_val_def)

lemma digits_val_show_nat [simp]: "digits_val (show_nat n) = n"
proof (induction n rule: show_nat.induct)
  case (1 n)
  show ?case
  proof (cases "n < 10")
    case True
    then show ?thesis using digits_val_snoc [of "[]" "digit n"]
      by (subst show_nat.simps) simp
  next
    case False
    with 1 show ?thesis
      by (subst show_nat.simps) (simp add: digits_val_snoc)
  qed
qed

lemma digits_val_zeros: "digits_val (replicate k (CHR ''0'') @ ds) = digits_val ds"
  by (induction k) (simp_all add: digits_val_def)

lemma show_03d_digits: "\<forall>c \<in> set (show_03d n). isdigit c"
  using show_nat_digits by (auto simp: show_03d_def Let_def)

lemma show_03d_nonempty [simp]: "show_03d n \<noteq> []"
  by (simp add: show_03d_def Let_def)

lemma digits_val_show_03d [simp]: "digits_val (show_03d n) = n"
  by (simp add: show_03d_def Let_def digits_val_zeros)

lemma show_nat_inj: "show_nat m = show_nat n \<longleftrightarrow> m = n"
  using digits_val_show_nat by metis

lemma show_03d_inj: "show_03d m = show_03d n \<longleftrightarrow> m = n"
  using digits_val_show_03d by metis

lemma takeWhile_digits:
  "\<forall>c \<in> set ds. isdigit c \<Longrightarrow> rest = [] \<or> \<not> isdigit (hd rest) \<Longrightarrow>
   takeWhile isdigit (ds @ rest) = ds \<and> dropWhile isdigit (ds @ rest) = rest"
  by (cases rest) (auto simp: takeWhile_append dropWhile_append)

text \<open>The parse of a printed number: the value, and the end pointer at the first other character.\<close>

lemma strtol10_digits:
  assumes "\<forall>c \<in> set ds. isdigit c" and "ds \<noteq> []" and "rest = [] \<or> \<not> isdigit (hd rest)"
    and "digits_val ds < 2 ^ 31"
  shows "strtol10 (ds @ rest) = (int (digits_val ds), rest)"
proof -
  from assms(2) obtain c cs where ds: "ds = c # cs" by (cases ds) auto
  with assms(1) have c: "isdigit c" by simp
  then have "c \<noteq> CHR ''-''" "c \<noteq> CHR ''+''" "\<not> isspace c"
    using isdigit_not_space by auto
  moreover have "long_clamp (int (digits_val ds)) = int (digits_val ds)"
    using assms(4) by (simp add: long_clamp_def)
  ultimately show ?thesis
    using takeWhile_digits [OF assms(1,3)] ds c by (simp add: strtol10_def Let_def)
qed

lemma strtol10_show_03d:
  "n < 2 ^ 31 \<Longrightarrow> strtol10 (show_03d n) = (int n, [])"
  using strtol10_digits [of "show_03d n" "[]"] show_03d_digits [of n] by simp

lemma strchr_some: "strchr s c = Some i \<longleftrightarrow> i < length s \<and> s ! i = c \<and> (\<forall>j < i. s ! j \<noteq> c)"
proof (induction s arbitrary: i)
  case Nil
  then show ?case by simp
next
  case (Cons x xs)
  show ?case
  proof (cases i)
    case 0
    then show ?thesis by (cases "strchr xs c") auto
  next
    case (Suc k)
    show ?thesis
    proof (cases "x = c")
      case True
      with Suc show ?thesis by auto
    next
      case False
      then have "strchr (x # xs) c = Some i \<longleftrightarrow> strchr xs c = Some k"
        using Suc by (cases "strchr xs c") auto
      also have "\<dots> \<longleftrightarrow> k < length xs \<and> xs ! k = c \<and> (\<forall>j < k. xs ! j \<noteq> c)" by (rule Cons.IH)
      also have "\<dots> \<longleftrightarrow> i < length (x # xs) \<and> (x # xs) ! i = c \<and> (\<forall>j < i. (x # xs) ! j \<noteq> c)"
        using Suc False by (auto simp: less_Suc_eq_0_disj)
      finally show ?thesis .
    qed
  qed
qed

lemma strchr_none: "strchr s c = None \<longleftrightarrow> c \<notin> set s"
  by (induction s) auto

lemma strchr_append:
  "strchr (a @ b) c =
     (case strchr a c of Some i \<Rightarrow> Some i | None \<Rightarrow> map_option (\<lambda>i. length a + i) (strchr b c))"
  by (induction a) (auto split: option.split, (cases "strchr b c"; simp)+)

text \<open>
  The tree of the library cJSON and the look-ups the sources make in it.  The library's parser is a
  parameter of the functions that use it.  A number of the tree is a \<open>double\<close>, here a rational.
\<close>

section \<open>Trees\<close>

datatype cjson =
  JNull
| JBool bool
| JNum rat
| JStr string
| JArr "cjson list"
| JObj "(string \<times> cjson) list"

text \<open>The look-up compares names without regard to the case of ASCII letters.\<close>

definition tolower :: "char \<Rightarrow> char" where
  "tolower ch = (if 65 \<le> (of_char ch :: nat) \<and> (of_char ch :: nat) \<le> 90
                 then char_of ((of_char ch :: nat) + 32) else ch)"

fun find_key :: "string \<Rightarrow> (string \<times> cjson) list \<Rightarrow> cjson option" where
  "find_key name [] = None"
| "find_key name ((k, v) # kvs) =
     (if map tolower name = map tolower k then Some v else find_key name kvs)"

fun cJSON_GetObjectItem :: "cjson \<Rightarrow> string \<Rightarrow> cjson option" where
  "cJSON_GetObjectItem (JObj kvs) name = find_key name kvs"
| "cJSON_GetObjectItem _ name = None"

fun cJSON_children :: "cjson \<Rightarrow> cjson list" where
  "cJSON_children (JArr xs) = xs"
| "cJSON_children (JObj kvs) = map snd kvs"
| "cJSON_children _ = []"

text \<open>\<open>None\<close> is the NaN that a value that is not a number gives.\<close>

fun cJSON_GetNumberValue :: "cjson \<Rightarrow> rat option" where
  "cJSON_GetNumberValue (JNum x) = Some x"
| "cJSON_GetNumberValue _ = None"

text \<open>
  The conversion of a \<open>double\<close> to an unsigned integer cuts the fraction off; outside of the range
  (and for NaN) C leaves it undefined, and the function \<open>ub\<close> gives the value.
\<close>

definition cut :: "rat \<Rightarrow> int" where
  "cut x = (if x < 0 then - \<lfloor>- x\<rfloor> else \<lfloor>x\<rfloor>)"

definition to_unsigned :: "(rat option \<Rightarrow> 'w::len word) \<Rightarrow> rat option \<Rightarrow> 'w word" where
  "to_unsigned ub v =
     (case v of None \<Rightarrow> ub None
      | Some x \<Rightarrow> if 0 \<le> cut x \<and> cut x < 2 ^ LENGTH('w) then of_int (cut x) else ub v)"

text \<open>\<open>valueint\<close> of a parsed value: a number is cut off and saturated at 32 bits; \<open>true\<close> is 1.\<close>

fun cJSON_valueint :: "cjson \<Rightarrow> int" where
  "cJSON_valueint (JNum x) = max (- (2 ^ 31)) (min (2 ^ 31 - 1) (cut x))"
| "cJSON_valueint (JBool True) = 1"
| "cJSON_valueint _ = 0"

end
