(* ===== verification/SavedAps.thy ===== *)
theory SavedAps
  imports RadioMgr CStrings
begin

text \<open>
  The access points the Wi-Fi chip has credentials for: the cache \<open>cached_zones\<close> of
  \<^verbatim>\<open>commercial_collar/src/wifi/src/wifi_at.c\<close>, its look-ups, the AT commands that change it, the
  choice of the access point to reconnect to, and the two commands that connect and disconnect.
  The cache is an array of \<open>MAX_SAVED_SSIDS\<close> entries; an empty name marks a free entry.
\<close>

section \<open>Look-ups\<close>

definition MAX_SAVED_SSIDS :: nat where
  "MAX_SAVED_SSIDS = 5"

definition wifi_saved_ssid_safe :: "int \<Rightarrow> world \<Rightarrow> bool" where
  "wifi_saved_ssid_safe idx w =
     (if cached_zones_valid w = False then False
      else if idx < 0 \<or> int MAX_SAVED_SSIDS \<le> idx then False
      else z_safe (cached_zones w ! nat idx))"

definition first_idx :: "(nat \<Rightarrow> bool) \<Rightarrow> int" where
  "first_idx p = (case filter p [0..<MAX_SAVED_SSIDS] of [] \<Rightarrow> -1 | i # _ \<Rightarrow> int i)"

definition wifi_find_saved_ssid :: "string \<Rightarrow> world \<Rightarrow> int" where
  "wifi_find_saved_ssid ssid w =
     (if cached_zones_valid w = False then -1
      else first_idx (\<lambda>i. strneq 32 ssid (z_ssid (cached_zones w ! i))))"

definition wifi_get_saved_ssid_by_index :: "int \<Rightarrow> world \<Rightarrow> string option" where
  "wifi_get_saved_ssid_by_index idx w =
     (if cached_zones_valid w = False then None
      else if idx < 0 \<or> int MAX_SAVED_SSIDS \<le> idx then None
      else if z_ssid (cached_zones w ! nat idx) = [] then None
      else Some (z_ssid (cached_zones w ! nat idx)))"

definition wifi_num_saved_ssids :: "world \<Rightarrow> int" where
  "wifi_num_saved_ssids w =
     (if cached_zones_valid w = False then 0
      else int (length (filter (\<lambda>i. z_ssid (cached_zones w ! i) \<noteq> []) [0..<MAX_SAVED_SSIDS])))"

section \<open>Changes\<close>

definition set_zones :: "(shadow_zone list \<Rightarrow> shadow_zone list) \<Rightarrow> ('a rm_state_scheme, unit) state" where
  "set_zones f = modify (\<lambda>s. s\<lparr>wld := (wld s)\<lparr>cached_zones := f (cached_zones (wld s))\<rparr>\<rparr>)"

lemma after_set_zones [run]:
  "after (set_zones f) s = s\<lparr>wld := (wld s)\<lparr>cached_zones := f (cached_zones (wld s))\<rparr>\<rparr>"
  by (simp add: set_zones_def)

text \<open>
  With index \<open>-1\<close> the search loop has no \<open>break\<close>: it ends with the last free entry.
\<close>

definition free_slot :: "int \<Rightarrow> world \<Rightarrow> int" where
  "free_slot idx w =
     (if idx = -1
      then fold (\<lambda>i idx. if z_ssid (cached_zones w ! i) = [] then int i else idx)
             [0..<MAX_SAVED_SSIDS] idx
      else idx)"

definition insert_cmd ::
  "int \<Rightarrow> string \<Rightarrow> string \<Rightarrow> 16 word \<Rightarrow> 16 word \<Rightarrow> 16 word \<Rightarrow> bool \<Rightarrow> bool \<Rightarrow> string" where
  "insert_cmd idx name pass sec keyidx enc hidden safe =
     ''AT+SSIDINSERT='' @ show_int idx @ '','' @ name @ '','' @ pass @ '','' @
     show_nat (unat sec) @ '','' @ show_nat (unat keyidx) @ '','' @ show_nat (unat enc) @ '','' @
     show_nat (of_bool hidden) @ '','' @ show_nat (of_bool safe)"

definition wifi_saved_ssids_add ::
  "env \<Rightarrow> int \<Rightarrow> string \<Rightarrow> string \<Rightarrow> 16 word \<Rightarrow> 16 word \<Rightarrow> 16 word \<Rightarrow> bool \<Rightarrow> bool \<Rightarrow> nat \<Rightarrow>
   ('a rm_state_scheme, int) state" where
  "wifi_saved_ssids_add e idx name pass sec keyidx enc hidden safe timeout = do {
     w \<leftarrow> gets wld;
     if cached_zones_valid w = False then return (- EINVAL)
     else let idx = free_slot idx w in
       if idx < 0 \<or> int MAX_SAVED_SSIDS \<le> idx then return (- EINVAL)
       else do {
         ret \<leftarrow> call e (AtOkErr (insert_cmd idx name pass sec keyidx enc hidden safe) timeout);
         if ret < 0 then return ret
         else do {
           set_zones (\<lambda>zs. zs[nat idx := \<lparr>z_ssid = strncpy_z 32 name, z_safe = safe\<rparr>]);
           return 0
         }
       }
   }"

definition wifi_saved_ssids_del :: "env \<Rightarrow> int \<Rightarrow> nat \<Rightarrow> ('a rm_state_scheme, int) state" where
  "wifi_saved_ssids_del e idx timeout = do {
     w \<leftarrow> gets wld;
     if cached_zones_valid w = False then return (- EINVAL)
     else if idx < 0 \<or> int MAX_SAVED_SSIDS \<le> idx then return (- EINVAL)
     else do {
       ret \<leftarrow> call e (AtOkErr (''AT+SSIDDELETE='' @ show_int idx) timeout);
       if ret < 0 then return ret
       else do { set_zones (\<lambda>zs. zs[nat idx := \<lparr>z_ssid = [], z_safe = False\<rparr>]); return 0 }
     }
   }"

definition wifi_clear_local_ssid_list :: "('a rm_state_scheme, unit) state" where
  "wifi_clear_local_ssid_list =
     set_zones (\<lambda>zs. fold (\<lambda>i zs. zs[i := \<lparr>z_ssid = [], z_safe = False\<rparr>]) [0..<MAX_SAVED_SSIDS] zs)"

definition wifi_saved_ssids_del_all :: "env \<Rightarrow> nat \<Rightarrow> ('a rm_state_scheme, int) state" where
  "wifi_saved_ssids_del_all e timeout = do {
     ret \<leftarrow> call e (AtOkErr ''AT+SSIDDELALL'' timeout);
     if ret < 0 then return ret
     else do { wifi_clear_local_ssid_list; return 0 }
   }"

definition wifi_set_zone_safe :: "env \<Rightarrow> int \<Rightarrow> bool \<Rightarrow> nat \<Rightarrow> ('a rm_state_scheme, int) state" where
  "wifi_set_zone_safe e idx safe_flag timeout = do {
     w \<leftarrow> gets wld;
     if cached_zones_valid w = False then return (- EINVAL)
     else if idx < 0 \<or> int MAX_SAVED_SSIDS \<le> idx then return (- EINVAL)
     else do {
       ret \<leftarrow> call e (AtOkErr (''AT+SSIDCHANGEFLAG='' @ show_int idx @ '','' @
                show_nat (of_bool safe_flag)) timeout);
       if ret < 0 then return ret
       else do { set_zones (\<lambda>zs. zs[nat idx := (zs ! nat idx)\<lparr>z_safe := False\<rparr>]); return 0 }
     }
   }"

section \<open>Connecting and disconnecting\<close>

definition wifi_initiate_connect_by_index :: "env \<Rightarrow> int \<Rightarrow> nat \<Rightarrow> ('a rm_state_scheme, int) state" where
  "wifi_initiate_connect_by_index e idx timeout = do {
     s \<leftarrow> State_Monad.get;
     if powered_on (das s) = DA_STATE_KNOWN_FALSE then return (- ENODEV)
     else if is_sleeping (das s) = DA_STATE_KNOWN_TRUE then return (- ENXIO)
     else if idx < 0 \<or> int MAX_SAVED_SSIDS \<le> idx then return (- EINVAL)
     else if z_ssid (cached_zones (wld s) ! nat idx) = [] then return (- EINVAL)
     else call e (AtOkErr (''AT+SSIDIDX='' @ show_int idx) timeout)
   }"

definition wifi_disconnect_from_AP :: "env \<Rightarrow> nat \<Rightarrow> ('a rm_state_scheme, int) state" where
  "wifi_disconnect_from_AP e timeout = do {
     s \<leftarrow> State_Monad.get;
     if powered_on (das s) = DA_STATE_KNOWN_FALSE then return (- ENODEV)
     else if is_sleeping (das s) = DA_STATE_KNOWN_TRUE then return (- ENXIO)
     else do {
       m \<leftarrow> call e (WifiGetMutex timeout);
       if m \<noteq> 0 then return (- EBUSY)
       else do {
         call e (AtOkErr ''AT+WFDIS=1'' timeout);
         ret \<leftarrow> call e (AtOkErr ''AT+WFQAP'' timeout);
         call e WifiReleaseMutex;
         return ret
       }
     }
   }"

text \<open>0: connected with these credentials; 1: the same name, other credentials; 2: another name.\<close>

definition wifi_is_curr_AP ::
  "env \<Rightarrow> string \<Rightarrow> string \<Rightarrow> 16 word \<Rightarrow> 16 word \<Rightarrow> 16 word \<Rightarrow> ('a rm_state_scheme, int) state" where
  "wifi_is_curr_AP e ssid password sec keyidx enc = do {
     s \<leftarrow> State_Monad.get;
     if \<not> strneq 32 ssid (ap_name (das s)) then return 2
     else if wifi_find_saved_ssid ssid (wld s) < 0 then return 2
     else do {
       ret \<leftarrow> call e (AtOkErr (''AT+SSIDCHECKCREDS='' @ ssid @ '','' @ password @ '','' @
                show_nat (unat sec) @ '','' @ show_nat (unat keyidx) @ '','' @ show_nat (unat enc)) 1000);
       if ret = 0 then return 0 else return 1
     }
   }"

section \<open>The access point to reconnect to\<close>

text \<open>
  \<open>wifi_get_ap_list\<close> answers from the cache when it is valid; otherwise the list comes from the
  chip (\<open>WifiGetApList\<close>), and a successful exchange fills the cache.
\<close>

definition wifi_get_ap_list :: "env \<Rightarrow> nat \<Rightarrow> ('a rm_state_scheme, int) state" where
  "wifi_get_ap_list e timeout = do {
     w \<leftarrow> gets wld;
     if cached_zones_valid w = True then return 0 else call e (WifiGetApList timeout)
   }"

definition wifi_find_ssid_in_scan :: "string \<Rightarrow> world \<Rightarrow> int" where
  "wifi_find_ssid_in_scan ssid w =
     (case filter (\<lambda>i. ssid = fst (g_last_ssid_list w ! i)) [0..<length (g_last_ssid_list w)] of
        [] \<Rightarrow> -1 | i # _ \<Rightarrow> int i)"

text \<open>The order of \<open>qsort\<close>'s comparison function: the higher score first.\<close>

definition comp :: "int \<times> int \<Rightarrow> int \<times> int \<Rightarrow> int" where
  "comp f s = (if snd f > snd s then -1 else if snd f < snd s then 1 else 0)"

text \<open>The pairs \<open>(scan_idx, comparison_score)\<close> of the saved names that the scan has seen.\<close>

definition known_in_scan :: "world \<Rightarrow> (int \<times> int) list" where
  "known_in_scan w =
     concat (map (\<lambda>i.
       if z_ssid (cached_zones w ! i) \<noteq> [] \<and> wifi_find_ssid_in_scan (z_ssid (cached_zones w ! i)) w \<ge> 0
       then (let widx = wifi_find_ssid_in_scan (z_ssid (cached_zones w ! i)) w;
                 rssi = snd (g_last_ssid_list w ! nat widx)
             in [(widx, if z_safe (cached_zones w ! i) then rssi + 100 else rssi)])
       else []) [0..<MAX_SAVED_SSIDS])"

text \<open>\<open>qsort\<close> of the C library is a parameter: it gets the comparison function and the array.\<close>

definition wifi_check_for_known_ssid ::
  "((int \<times> int \<Rightarrow> int \<times> int \<Rightarrow> int) \<Rightarrow> (int \<times> int) list \<Rightarrow> (int \<times> int) list) \<Rightarrow>
   env \<Rightarrow> ('a rm_state_scheme, int) state" where
  "wifi_check_for_known_ssid qsort e = do {
     ret \<leftarrow> wifi_get_ap_list e 1000;
     if ret < 0 then return (-1)
     else do {
       w \<leftarrow> gets wld;
       case qsort comp (known_in_scan w) of
         [] \<Rightarrow> return (-1)
       | (widx, _) # _ \<Rightarrow>
           return (wifi_find_saved_ssid (fst (g_last_ssid_list w ! nat widx)) w)
     }
   }"

end
