(* ===== verification/RadioSwitch.thy ===== *)
theory RadioSwitch
  imports RadioMgr SavedAps
begin

text \<open>
  The switching state machine of \<^verbatim>\<open>radioMgr.c\<close>: \<open>startOp\<close> with its timeouts and retries, the four
  functions that bring one radio up and the other down, and the work handler that drives them.
  Each function of the source is a chain of blocks that may return the number of milliseconds until
  the next check; a block is one definition here, and \<open>or_else\<close> chains them.
\<close>

section \<open>Timed operations\<close>

definition failOp :: "switch_radios_info \<Rightarrow> switch_radios_info" where
  "failOp i = i\<lparr>currOpStart := currOpStart i - of_int (si_timeout i)\<rparr>"

text \<open>
  \<open>time_spent > info->timeout\<close> compares an unsigned 64 bit value with an \<open>int\<close>, which is converted;
  \<open>*timeremaining\<close> is an \<open>int\<close> again.
\<close>

definition startOp ::
  "64 word \<Rightarrow> switch_radios_info \<Rightarrow> int \<Rightarrow> switch_radios_state \<Rightarrow> int \<Rightarrow>
   (op_state \<times> int) \<times> switch_radios_info" where
  "startOp now i timeout op retrys =
     (if currOp i \<noteq> op then
        ((OS_STARTED, timeout),
         i\<lparr>currOp := op, currOpStart := now, op_failures := 0, max_retrys := retrys,
           si_timeout := timeout\<rparr>)
      else
        (let time_spent = now - currOpStart i
         in if time_spent > of_int (si_timeout i) then
              (let i = i\<lparr>op_failures := op_failures i + 1\<rparr>
               in if op_failures i > max_retrys i then ((OS_FAILED, -1), i)
                  else ((OS_STARTED, timeout), i\<lparr>currOpStart := now\<rparr>))
            else ((OS_STILL_GOING, sint (ucast (of_int timeout - time_spent) :: 32 word)), i)))"

definition start_op ::
  "int \<Rightarrow> switch_radios_state \<Rightarrow> int \<Rightarrow> ('a rm_state_scheme, op_state \<times> int) state" where
  "start_op timeout op retrys =
     State (\<lambda>s. let (r, i) = startOp (k_uptime_get s) (sr_info s) timeout op retrys
                in (r, s\<lparr>sr_info := i\<rparr>))"

lemma after_start_op [run]:
    "after (start_op t op n) s =
       s\<lparr>sr_info := snd (startOp (k_uptime_get s) (sr_info s) t op n)\<rparr>"
  and result_start_op [run]:
    "result (start_op t op n) s = fst (startOp (k_uptime_get s) (sr_info s) t op n)"
  by (simp_all add: start_op_def after_def result_def split: prod.split)

text \<open>A block \<open>opstate = startOp(...)\<close> followed by the three tests of \<open>opstate\<close>.\<close>

definition timed_op ::
  "int \<Rightarrow> switch_radios_state \<Rightarrow> int \<Rightarrow> ('a rm_state_scheme, int option) state \<Rightarrow>
   (int \<Rightarrow> int) \<Rightarrow> ('a rm_state_scheme, int option) state \<Rightarrow>
   ('a rm_state_scheme, int option) state" where
  "timed_op timeout op retrys started going failed = do {
     r \<leftarrow> start_op timeout op retrys;
     if fst r = OS_STARTED then started
     else if fst r = OS_STILL_GOING then return (Some (going (snd r)))
     else failed
   }"

definition fall_back_to_lte :: "('a rm_state_scheme, int option) state" where
  "fall_back_to_lte = do { rm_switch_to COMM_DEVICE_NRF9160 False False; return (Some 200) }"

definition fail_op :: "int \<Rightarrow> ('a rm_state_scheme, int option) state" where
  "fail_op ms = do { set_info failOp; return (Some ms) }"

definition block_if ::
  "('a rm_state_scheme \<Rightarrow> bool) \<Rightarrow> ('a rm_state_scheme, int option) state \<Rightarrow>
   ('a rm_state_scheme, int option) state" where
  "block_if c m = do { b \<leftarrow> gets c; if b then m else return None }"

section \<open>Wi-Fi down\<close>

definition dw_wake :: "env \<Rightarrow> ('a rm_state_scheme, int option) state" where
  "dw_wake e = block_if (\<lambda>s. is_sleeping (das s) \<noteq> DA_STATE_KNOWN_FALSE)
     (timed_op 500 SRS_WAKING_DA 3
       (do { ret \<leftarrow> insure_da_is_awake e;
             if ret \<noteq> 0 then fail_op 200 else return None })
       (\<lambda>_. 100)
       (do { call e WifiReset; return (Some 700) }))"

definition dw_mqtt_off :: "env \<Rightarrow> ('a rm_state_scheme, int option) state" where
  "dw_mqtt_off e = block_if (\<lambda>s. mqtt_enabled (das s) \<noteq> DA_STATE_KNOWN_FALSE)
     (do { call e (WifiSetMqttState False 2000); return None })"

definition dw_disconnect :: "env \<Rightarrow> ('a rm_state_scheme, int option) state" where
  "dw_disconnect e = block_if (\<lambda>s. tri_int (ap_connected (das s)) \<noteq> 0)
     (do { wifi_disconnect_from_AP e 2000; return (Some 500) })"

definition dw_sleep :: "env \<Rightarrow> ('a rm_state_scheme, int option) state" where
  "dw_sleep e = block_if (\<lambda>s. \<not> is_da_in_right_sleep_mode s)
     (timed_op 1200 SRS_SLEEPING_DA 4
       (do { err \<leftarrow> return_da_to_sleep e;
             if err < 0 then fail_op 700 else return (Some 0) })
       (\<lambda>_. 600)
       (do { call e (NetMgrWifiPower False); return (Some 0) }))"

definition disable_wifi :: "env \<Rightarrow> ('a rm_state_scheme, int) state" where
  "disable_wifi e = do {
     s \<leftarrow> State_Monad.get;
     if mqtt_enabled (das s) = DA_STATE_KNOWN_FALSE \<and>
        mqtt_broker_connected (das s) = DA_STATE_KNOWN_FALSE \<and>
        is_da_in_right_sleep_mode s
     then return 0
     else do {
       call e WifiCheckSleeping;
       or_else (dw_wake e) (or_else (dw_mqtt_off e) (or_else (dw_disconnect e)
         (or_else (dw_sleep e) (return 0))))
     }
   }"

section \<open>Wi-Fi up\<close>

definition wifi_is_up :: "'a rm_state_scheme \<Rightarrow> bool" where
  "wifi_is_up s \<longleftrightarrow>
     mqtt_enabled (das s) = DA_STATE_KNOWN_TRUE \<and>
     mqtt_on_boot (das s) = DA_STATE_KNOWN_TRUE \<and>
     mqtt_broker_connected (das s) = DA_STATE_KNOWN_TRUE \<and>
     is_da_in_right_sleep_mode s"

definition ew_lte_mqtt_off :: "env \<Rightarrow> ('a rm_state_scheme, int option) state" where
  "ew_lte_mqtt_off e =
     block_if (\<lambda>s. g_active_radio s = COMM_DEVICE_NRF9160 \<and> is_lte_mqtt_enabled s)
     (timed_op 1500 SRS_DISABLING_LTE_MQTT 3
       (do { lte_set_mqtt_enable e False 1000; return (Some 500) })
       (\<lambda>_. 500)
       fall_back_to_lte)"

definition ew_wake :: "env \<Rightarrow> ('a rm_state_scheme, int option) state" where
  "ew_wake e = block_if (\<lambda>s. is_sleeping (das s) \<noteq> DA_STATE_KNOWN_FALSE)
     (timed_op 500 SRS_WAKING_DA 3
       (do { ret \<leftarrow> insure_da_is_awake e;
             if ret \<noteq> 0 then fail_op 200 else return None })
       (\<lambda>_. 100)
       fall_back_to_lte)"

definition ew_know_state :: "env \<Rightarrow> ('a rm_state_scheme, int option) state" where
  "ew_know_state e =
     block_if (\<lambda>s. mqtt_on_boot (das s) = DA_STATE_UNKNOWN \<or>
                   mqtt_broker_connected (das s) = DA_STATE_UNKNOWN)
     (timed_op 1000 SRS_STATE_TO_BE_KNOWN 3
       (do {
          u \<leftarrow> gets (\<lambda>s. mqtt_broker_connected (das s) = DA_STATE_UNKNOWN);
          whenever u (do { call e (WifiGetMqttState 100); skip });
          u \<leftarrow> gets (\<lambda>s. mqtt_on_boot (das s) = DA_STATE_UNKNOWN);
          whenever u (do { call e (WifiGetMqttBootState 150); skip });
          return (Some 100)
        })
       (\<lambda>_. 100)
       fall_back_to_lte)"

definition ew_wait_ap :: "('a rm_state_scheme, int option) state" where
  "ew_wait_ap = block_if (\<lambda>s. ap_connected (das s) \<noteq> DA_STATE_KNOWN_TRUE)
     (timed_op 1000 SRS_WAIT_FOR_AP 3 (return (Some 1000)) (\<lambda>timeleft. timeleft)
       fall_back_to_lte)"

definition ew_boot_on :: "env \<Rightarrow> ('a rm_state_scheme, int option) state" where
  "ew_boot_on e = block_if (\<lambda>s. mqtt_on_boot (das s) \<noteq> DA_STATE_KNOWN_TRUE)
     (timed_op 1500 SRS_TURNING_ON_BROKER_BOOT 2
       (do { err \<leftarrow> call e (WifiSetMqttBootState True 500);
             whenever (err < 0) (set_info failOp);
             return (Some 100) })
       (\<lambda>_. 100)
       fall_back_to_lte)"

definition ew_mqtt_on :: "env \<Rightarrow> ('a rm_state_scheme, int option) state" where
  "ew_mqtt_on e = block_if (\<lambda>s. mqtt_enabled (das s) \<noteq> DA_STATE_KNOWN_TRUE)
     (timed_op 1500 SRS_TURNING_ON_BROKER 2
       (do { err \<leftarrow> call e (WifiSetMqttState True 500);
             whenever (err < 0) (set_info failOp);
             return (Some 100) })
       (\<lambda>_. 100)
       fall_back_to_lte)"

definition ew_wait_broker :: "('a rm_state_scheme, int option) state" where
  "ew_wait_broker =
     block_if (\<lambda>s. mqtt_broker_connected (das s) \<noteq> DA_STATE_KNOWN_TRUE)
     (timed_op 30000 SRS_WAIT_FOR_BROKER 1 (return (Some 3000)) (\<lambda>_. 3000) fall_back_to_lte)"

definition ew_sleep :: "env \<Rightarrow> ('a rm_state_scheme, int option) state" where
  "ew_sleep e = block_if (\<lambda>s. \<not> is_da_in_right_sleep_mode s)
     (timed_op 1200 SRS_SLEEPING_DA 4
       (do { err \<leftarrow> return_da_to_sleep e;
             if err < 0 then fail_op 700 else return (Some 0) })
       (\<lambda>_. 600)
       fall_back_to_lte)"

definition enable_wifi :: "env \<Rightarrow> ('a rm_state_scheme, int) state" where
  "enable_wifi e = do {
     call e (NetMgrWifiPower True);
     call e WifiCheckSleeping;
     up \<leftarrow> gets wifi_is_up;
     if up then return 0
     else
       or_else (ew_lte_mqtt_off e) (or_else (ew_wake e) (or_else (ew_know_state e)
         (or_else ew_wait_ap (or_else (ew_boot_on e) (or_else (ew_mqtt_on e)
           (or_else ew_wait_broker (or_else (ew_sleep e) (return 0))))))))
   }"

section \<open>LTE down and up\<close>

definition disable_lte :: "env \<Rightarrow> ('a rm_state_scheme, int) state" where
  "disable_lte e = do { call e ModemPowerOff; return 0 }"

definition el_wifi_mqtt_off :: "env \<Rightarrow> ('a rm_state_scheme, int option) state" where
  "el_wifi_mqtt_off e =
     block_if (\<lambda>s. g_active_radio s = COMM_DEVICE_DA16200 \<and>
                   mqtt_broker_connected (das s) = DA_STATE_KNOWN_TRUE)
     (timed_op 1500 SRS_TURNING_OFF_BROKER 3
       (do {
          b \<leftarrow> rm_prepare_radio_for_use e COMM_DEVICE_DA16200 False 3000;
          if b = False then return (Some 500)
          else do {
            call e (WifiSetMqttState False 500);
            rm_done_with_radio e COMM_DEVICE_DA16200;
            return (Some 500)
          }
        })
       (\<lambda>_. 500)
       (do { call e WifiReset; return (Some 1000) }))"

definition hard_reset_modem :: "env \<Rightarrow> int \<Rightarrow> ('a rm_state_scheme, int option) state" where
  "hard_reset_modem e ms = do {
     call e PmicPowerOffModem;
     ksleep e 3000;
     call e PmicPowerOnModem;
     return (Some ms)
   }"

definition lte_is_up :: "'a rm_state_scheme \<Rightarrow> bool" where
  "lte_is_up s \<longleftrightarrow>
     modem_is_powered_on s \<and> is_lte_mqtt_enabled s \<and> has_lte_been_connected None s"

definition el_power :: "env \<Rightarrow> ('a rm_state_scheme, int option) state" where
  "el_power e = block_if (\<lambda>s. \<not> modem_is_powered_on s)
     (timed_op 4000 SRS_WAIT_FOR_LTE_READY 3
       (do { ret \<leftarrow> call e ModemPowerOn;
             if ret \<noteq> 0 then fail_op 500 else return (Some 500) })
       (\<lambda>_. 500)
       (hard_reset_modem e 1000))"

definition el_mqtt_on :: "env \<Rightarrow> ('a rm_state_scheme, int option) state" where
  "el_mqtt_on e = block_if (\<lambda>s. \<not> is_lte_mqtt_enabled s)
     (timed_op 1500 SRS_ENABLING_LTE_MQTT 3
       (do { lte_set_mqtt_enable e True 1000; return (Some 500) })
       (\<lambda>_. 500)
       (hard_reset_modem e 200))"

definition enable_lte :: "env \<Rightarrow> ('a rm_state_scheme, int) state" where
  "enable_lte e =
     or_else (el_wifi_mqtt_off e)
     (or_else (block_if lte_is_up (return (Some 0)))
     (or_else (el_power e)
     (or_else (el_mqtt_on e) (return 0))))"

section \<open>The work handler\<close>

text \<open>
  The part between taking and releasing \<open>RM_mutex\<close>; its result is \<open>time_to_wait\<close>.  The mutex is
  taken by this handler only, on the one thread of its queue, so the lock succeeds.  The two
  functions of \<^verbatim>\<open>commMgr.c\<close> that are told of a finished switch are parameters.
\<close>

definition switch_step ::
  "env \<Rightarrow> ('a rm_state_scheme, int) state \<Rightarrow> ('a rm_state_scheme, int) state \<Rightarrow>
   ('a rm_state_scheme, int) state" where
  "switch_step e to_wifi to_lte = do {
     s \<leftarrow> State_Monad.get;
     if g_radio_mgmt s = False \<and> g_do_one_step s \<noteq> True then return 1000
     else if uptime (wld s) < 8000 then return 5000
     else
       or_else (do {
         i \<leftarrow> gets sr_info;
         if target_radio i = COMM_DEVICE_DA16200 \<and> radio_enabled i = False
         then do { t \<leftarrow> enable_wifi e; return (if t > 0 then Some t else None) }
         else return None })
       (or_else (do {
         i \<leftarrow> gets sr_info;
         if target_radio i = COMM_DEVICE_NRF9160 \<and> radio_enabled i = False
         then do { t \<leftarrow> enable_lte e; return (if t > 0 then Some t else None) }
         else return None })
       (or_else (do {
         set_info (\<lambda>i. i\<lparr>radio_enabled := True\<rparr>);
         i \<leftarrow> gets sr_info;
         if target_radio i \<noteq> COMM_DEVICE_DA16200 \<and> radio_disabled i = False
         then do { t \<leftarrow> disable_wifi e; return (if t > 0 then Some t else None) }
         else return None })
       (or_else (do {
         i \<leftarrow> gets sr_info;
         if target_radio i \<noteq> COMM_DEVICE_NRF9160 \<and> radio_disabled i = False
         then do { t \<leftarrow> disable_lte e; return (if t > 0 then Some t else None) }
         else return None })
       (do {
         was_disabled \<leftarrow> gets (\<lambda>s. radio_disabled (sr_info s));
         set_info (\<lambda>i. i\<lparr>radio_disabled := True\<rparr>);
         i \<leftarrow> gets sr_info;
         if target_radio i = COMM_DEVICE_DA16200 then do {
           modify (\<lambda>s. s\<lparr>g_active_radio := COMM_DEVICE_DA16200\<rparr>);
           set_info (\<lambda>i. i\<lparr>currOp := SRS_IDLE\<rparr>);
           modify (\<lambda>s. s\<lparr>g_switching_radios := False\<rparr>);
           to_wifi;
           return 0
         } else if target_radio i = COMM_DEVICE_NRF9160 then do {
           modify (\<lambda>s. s\<lparr>g_active_radio := COMM_DEVICE_NRF9160\<rparr>);
           set_info (\<lambda>i. i\<lparr>currOp := SRS_IDLE\<rparr>);
           modify (\<lambda>s. s\<lparr>g_switching_radios := False\<rparr>);
           to_lte;
           return_da_to_sleep e;
           return 0
         } else return (if was_disabled then 1000 else 0)
       }))))
   }"

definition switch_radios_work_handler ::
  "env \<Rightarrow> ('a rm_state_scheme, int) state \<Rightarrow> ('a rm_state_scheme, int) state \<Rightarrow>
   ('a rm_state_scheme, unit) state" where
  "switch_radios_work_handler e to_wifi to_lte = do {
     shipped \<leftarrow> gets (\<lambda>s. shipping_flag (wld s));
     if shipped = False then skip
     else do {
       time_to_wait \<leftarrow> switch_step e to_wifi to_lte;
       one \<leftarrow> gets g_do_one_step;
       if one = False \<and> time_to_wait > 0
       then modify (\<lambda>s. s\<lparr>continue_switching_timer := Some time_to_wait\<rparr>)
       else if one = True then modify (\<lambda>s. s\<lparr>g_do_one_step := False\<rparr>)
       else modify (\<lambda>s. s\<lparr>continue_switching_timer := None\<rparr>)
     }
   }"

end
