(* ===== verification/RadioEvents.thy ===== *)
theory RadioEvents
  imports RadioSwitch
begin

text \<open>
  The rest of \<^verbatim>\<open>radioMgr.c\<close>: connecting to an access point (request and work handler), the zbus
  listener with its pool of work items, the three handlers of zbus messages, and the shell
  commands that change the manager.  \<open>rm_step\<close> is the interleaving of all of them: one request,
  one message, one work item, the expiry of the switching timer, or time passing.
\<close>

section \<open>Connecting to an access point\<close>

definition queue_connect_to_ap_work :: "('a rm_state_scheme, unit) state" where
  "queue_connect_to_ap_work = modify (\<lambda>s. s\<lparr>connecting_to_ap_pending := True\<rparr>)"

definition set_attempt :: "(connect_to_ap \<Rightarrow> connect_to_ap) \<Rightarrow> ('a rm_state_scheme, unit) state" where
  "set_attempt f = modify (\<lambda>s. s\<lparr>g_ap_to_attempt := f (g_ap_to_attempt s)\<rparr>)"

definition set_connecting :: "bool \<Rightarrow> ('a rm_state_scheme, unit) state" where
  "set_connecting b = modify (\<lambda>s. s\<lparr>g_is_connecting_to_ap := b\<rparr>)"

lemma after_attempt [run]:
    "after (set_attempt f) s = s\<lparr>g_ap_to_attempt := f (g_ap_to_attempt s)\<rparr>"
    "after (set_connecting b) s = s\<lparr>g_is_connecting_to_ap := b\<rparr>"
    "after queue_connect_to_ap_work s = s\<lparr>connecting_to_ap_pending := True\<rparr>"
  by (simp_all add: set_attempt_def set_connecting_def queue_connect_to_ap_work_def)

definition rm_connect_to_AP_by_index :: "int \<Rightarrow> ('a rm_state_scheme, int) state" where
  "rm_connect_to_AP_by_index idx = do {
     s \<leftarrow> State_Monad.get;
     if g_is_connecting_to_ap s then return (- EAGAIN)
     else if \<not> g_use_wifi s then return (- ENOTSUP)
     else if idx < 0 \<or> idx \<ge> int MAX_SAVED_SSIDS then return (- EINVAL)
     else case wifi_get_saved_ssid_by_index idx (wld s) of
       None \<Rightarrow> return (- EINVAL)
     | Some target_ssid \<Rightarrow>
         if target_ssid = [] then return (- EINVAL)
         else do {
           set_attempt (\<lambda>a. a\<lparr>disconnectFirst := False\<rparr>);
           or_else (
             if ap_connected (das s) = DA_STATE_KNOWN_TRUE then
               (if strneq 32 (ap_name (das s)) target_ssid then
                  (if rm_get_active_mqtt_radio s \<noteq> COMM_DEVICE_DA16200
                   then do { rm_switch_to COMM_DEVICE_DA16200 False False; return (Some 0) }
                   else return (Some (- EEXIST)))
                else do { set_attempt (\<lambda>a. a\<lparr>disconnectFirst := True\<rparr>); return None })
             else return None)
           (do {
             set_attempt (\<lambda>a. a\<lparr>ap_ssid := strncpy_z 32 target_ssid\<rparr>);
             set_connecting True;
             set_attempt (\<lambda>a. a\<lparr>ap_password := [], conn_idx := idx\<rparr>);
             queue_connect_to_ap_work;
             return 0
           })
         }
   }"

definition rm_connect_to_AP ::
  "env \<Rightarrow> string \<Rightarrow> string \<Rightarrow> 16 word \<Rightarrow> 16 word \<Rightarrow> 16 word \<Rightarrow> ('a rm_state_scheme, int) state" where
  "rm_connect_to_AP e ssid password sec keyidx enc = do {
     s \<leftarrow> State_Monad.get;
     if g_is_connecting_to_ap s then return (- EAGAIN)
     else if \<not> g_use_wifi s then return (- ENOTSUP)
     else do {
       ret \<leftarrow> wifi_is_curr_AP e ssid password sec keyidx enc;
       if ret = 0 then return (- EEXIST)
       else do {
         whenever (ret = 1) (set_attempt (\<lambda>a. a\<lparr>disconnectFirst := True\<rparr>));
         whenever (ret = 2) (set_attempt (\<lambda>a. a\<lparr>disconnectFirst := False\<rparr>));
         set_connecting True;
         set_attempt (\<lambda>a. a\<lparr>ap_ssid := strncpy_z 32 ssid, ap_password := strncpy_z 64 password,
                            ap_sec := sec, ap_keyidx := keyidx, ap_enc := enc, conn_idx := -1\<rparr>);
         queue_connect_to_ap_work;
         return 0
       }
     }
   }"

definition await_ap :: "env \<Rightarrow> string \<Rightarrow> nat \<Rightarrow> ('a rm_state_scheme, bool) state" where
  "await_ap e ssid deadline =
     State (\<lambda>s. let (b, w) = await e 100
                  (\<lambda>w. ap_connected (da w) = DA_STATE_KNOWN_TRUE \<and> strneq 32 (ap_name (da w)) ssid)
                  deadline (wld s)
                in (b, s\<lparr>wld := w\<rparr>))"

lemma after_await_ap [run]:
    "after (await_ap e ssid dl) s = s\<lparr>wld := snd (await e 100
        (\<lambda>w. ap_connected (da w) = DA_STATE_KNOWN_TRUE \<and> strneq 32 (ap_name (da w)) ssid) dl (wld s))\<rparr>"
  and result_await_ap [run]:
    "result (await_ap e ssid dl) s = fst (await e 100
        (\<lambda>w. ap_connected (da w) = DA_STATE_KNOWN_TRUE \<and> strneq 32 (ap_name (da w)) ssid) dl (wld s))"
  by (simp_all add: await_ap_def after_def result_def split: prod.split)

text \<open>From the connect command to the label \<open>ap_conn_done_and_exit\<close>.\<close>

definition connect_and_wait :: "env \<Rightarrow> ('a rm_state_scheme, unit) state" where
  "connect_and_wait e = do {
     a \<leftarrow> gets g_ap_to_attempt;
     ret \<leftarrow> (if conn_idx a = -1
        then call e (WifiInitiateConnectToSsid (ap_ssid a) (ap_password a) (ap_sec a) (ap_keyidx a)
               (ap_enc a) 10000)
        else do {
          ret \<leftarrow> wifi_initiate_connect_by_index e (conn_idx a) 10000;
          whenever (ret = -821) (do { wifi_saved_ssids_del_all e 3000; skip });
          return ret
        });
     if ret \<noteq> 0 then skip
     else do {
       tp \<leftarrow> gets (timepoint 25000);
       connected \<leftarrow> await_ap e (ap_ssid a) tp;
       if \<not> connected then skip
       else do {
         whenever (conn_idx a = -1) (do {
           w \<leftarrow> gets wld;
           whenever (wifi_find_saved_ssid (ap_ssid a) w = -1 \<and>
                     wifi_num_saved_ssids w < int MAX_SAVED_SSIDS)
             (do {
               wifi_saved_ssids_add e (-1) (ap_ssid a) (ap_password a) (ap_sec a) (ap_keyidx a)
                 (ap_enc a) False True 2000;
               skip
             })
         });
         set_da (\<lambda>d. d\<lparr>mqtt_enabled := DA_STATE_UNKNOWN, mqtt_broker_connected := DA_STATE_UNKNOWN\<rparr>);
         rm_switch_to COMM_DEVICE_DA16200 False False;
         skip
       }
     }
   }"

definition connecting_to_ap_work_handler :: "env \<Rightarrow> ('a rm_state_scheme, unit) state" where
  "connecting_to_ap_work_handler e = do {
     uw \<leftarrow> gets g_use_wifi;
     if \<not> uw then skip
     else do {
       ret \<leftarrow> call e (WifiGetMutex 10000);
       if ret \<noteq> 0 then set_connecting False
       else do {
         first \<leftarrow> gets (\<lambda>s. disconnectFirst (g_ap_to_attempt s));
         go \<leftarrow> (if first then do {
                  ret \<leftarrow> wifi_disconnect_from_AP e 2000;
                  if ret \<noteq> 0 then return False
                  else do { ksleep e 1000; return True }
                } else return True);
         whenever go (do {
           ok \<leftarrow> rm_prepare_radio_for_use e COMM_DEVICE_DA16200 False 3000;
           whenever ok (do {
             connect_and_wait e;
             rm_done_with_radio e COMM_DEVICE_DA16200;
             skip
           })
         });
         call e WifiReleaseMutex;
         set_connecting False
       }
     }
   }"

section \<open>Messages from the bus\<close>

definition wr_release :: "nat \<Rightarrow> ('a rm_state_scheme, unit) state" where
  "wr_release i = modify (\<lambda>s. case wr_put i (wr_pool s) of
       Inl _ \<Rightarrow> s\<lparr>wr_assert_failed := True\<rparr>
     | Inr p \<Rightarrow> s\<lparr>wr_pool := p\<rparr>)"

definition free_info :: "('a rm_state_scheme, unit) state" where
  "free_info = modify (\<lambda>s. s\<lparr>rm_live_infos := rm_live_infos s - 1\<rparr>)"

definition da_event :: "nat \<Rightarrow> 32 word" where
  "da_event n = push_bit n 1"

abbreviation DA_EVENT_TYPE_AP_CONNECT :: "32 word" where
  "DA_EVENT_TYPE_AP_CONNECT \<equiv> da_event 1"
abbreviation DA_EVENT_TYPE_MQTT_BROKER_CONNECT :: "32 word" where
  "DA_EVENT_TYPE_MQTT_BROKER_CONNECT \<equiv> da_event 4"
abbreviation DA_EVENT_TYPE_HTTP_COMPLETE :: "32 word" where
  "DA_EVENT_TYPE_HTTP_COMPLETE \<equiv> da_event 17"
abbreviation DA_EVENT_TYPE_AP_SAFE :: "32 word" where
  "DA_EVENT_TYPE_AP_SAFE \<equiv> da_event 18"
abbreviation DA_EVENT_TYPE_MQTT_ENABLED :: "32 word" where
  "DA_EVENT_TYPE_MQTT_ENABLED \<equiv> da_event 23"

definition rm_da_events :: "env \<Rightarrow> 32 word \<Rightarrow> ('a rm_state_scheme, unit) state" where
  "rm_da_events e events = do {
     s \<leftarrow> State_Monad.get;
     whenever (events AND DA_EVENT_TYPE_AP_CONNECT \<noteq> 0 \<and>
               ap_connected (das s) = DA_STATE_KNOWN_FALSE) (do {
       whenever (g_active_radio s = COMM_DEVICE_DA16200 \<or>
                 (g_switching_radios s \<and> target_radio (sr_info s) = COMM_DEVICE_DA16200))
         (do { rm_switch_to COMM_DEVICE_NRF9160 True False; skip });
       return_da_to_sleep e;
       skip
     });
     s \<leftarrow> State_Monad.get;
     whenever (events AND DA_EVENT_TYPE_MQTT_ENABLED \<noteq> 0 \<and>
               mqtt_enabled (das s) = DA_STATE_KNOWN_FALSE \<and>
               g_active_radio s = COMM_DEVICE_DA16200)
       (do { rm_switch_to COMM_DEVICE_NRF9160 False False; skip });
     s \<leftarrow> State_Monad.get;
     whenever (events AND DA_EVENT_TYPE_MQTT_BROKER_CONNECT \<noteq> 0 \<and>
               mqtt_broker_connected (das s) = DA_STATE_KNOWN_TRUE \<and>
               g_active_radio s = COMM_DEVICE_NRF9160 \<and> rm_wifi_is_connecting s = False)
       (do { call e WifiReset; skip })
   }"

definition rm_da_work_handler :: "env \<Rightarrow> nat \<Rightarrow> 32 word \<Rightarrow> ('a rm_state_scheme, unit) state" where
  "rm_da_work_handler e wr events = do {
     s \<leftarrow> State_Monad.get;
     whenever (shipping_flag (wld s) \<and> g_radio_mgmt s) (rm_da_events e events);
     free_info;
     wr_release wr
   }"

text \<open>
  The handler of modem status messages tests \<open>change_bits\<close> with the bit position
  \<open>STATUS_MQTT_ENABLED\<close> as the mask, as the source does.
\<close>

definition rm_9160_work_handler ::
  "nat \<Rightarrow> 32 word \<Rightarrow> 32 word \<Rightarrow> ('a rm_state_scheme, unit) state" where
  "rm_9160_work_handler wr change_bits flags = do {
     s \<leftarrow> State_Monad.get;
     whenever (g_radio_mgmt s \<and>
               change_bits AND of_nat (status_pos STATUS_MQTT_ENABLED) \<noteq> 0 \<and>
               \<not> status_getBit flags (status_pos STATUS_MQTT_ENABLED) \<and>
               rm_get_active_mqtt_radio s = COMM_DEVICE_NRF9160 \<and> \<not> rm_is_switching_radios s)
       (do { rm_switch_to COMM_DEVICE_NRF9160 False False; skip });
     free_info;
     wr_release wr
   }"

definition forget_ap :: "('a rm_state_scheme, unit) state" where
  "forget_ap = set_da (\<lambda>d. d\<lparr>ap_connected := DA_STATE_KNOWN_FALSE, ap_name := [], ip_address := []\<rparr>)"

text \<open>A block of the USB and Bluetooth handler; \<open>Some ()\<close> is its early return.\<close>

definition usb_bt_prep :: "env \<Rightarrow> nat \<Rightarrow> ('a rm_state_scheme, unit option) state" where
  "usb_bt_prep e wr = do {
     s \<leftarrow> State_Monad.get;
     if (g_usb_connected s \<or> g_bt_connected s) \<and> \<not> g_usb_bt_prepped_radio s then do {
       ret \<leftarrow> call e (WifiGetMutex 5000);
       if ret \<noteq> 0 then do { wr_release wr; return (Some ()) }
       else do {
         modify (\<lambda>s. s\<lparr>g_use_sleep := False\<rparr>);
         wifi_disconnect_from_AP e 1000;
         forget_ap;
         insure_da_is_awake e;
         modify (\<lambda>s. s\<lparr>g_usb_bt_prepped_radio := True\<rparr>);
         call e WifiReleaseMutex;
         return None
       }
     } else return None
   }"

definition usb_bt_release :: "env \<Rightarrow> nat \<Rightarrow> ('a rm_state_scheme, unit option) state" where
  "usb_bt_release e wr = do {
     s \<leftarrow> State_Monad.get;
     if (\<not> g_usb_connected s \<and> \<not> g_bt_connected s) \<and> g_usb_bt_prepped_radio s then do {
       ret \<leftarrow> call e (WifiGetMutex 5000);
       if ret \<noteq> 0 then do { wr_release wr; return (Some ()) }
       else do {
         modify (\<lambda>s. s\<lparr>g_use_sleep := True\<rparr>);
         wifi_disconnect_from_AP e 1000;
         forget_ap;
         return_da_to_sleep e;
         modify (\<lambda>s. s\<lparr>g_usb_bt_prepped_radio := False\<rparr>);
         call e WifiReleaseMutex;
         return None
       }
     } else return None
   }"

definition usb_bt_connection_work_handler :: "env \<Rightarrow> nat \<Rightarrow> ('a rm_state_scheme, unit) state" where
  "usb_bt_connection_work_handler e wr = do {
     s \<leftarrow> State_Monad.get;
     or_else (
       if last_usb_connected s \<noteq> g_usb_connected s \<or> last_bt_connected s \<noteq> g_bt_connected s
       then or_else (do { r \<leftarrow> usb_bt_prep e wr; return (map_option Some r) })
            (or_else (do { r \<leftarrow> usb_bt_release e wr; return (map_option Some r) })
            (do {
              modify (\<lambda>s. s\<lparr>last_usb_connected := g_usb_connected s,
                             last_bt_connected := g_bt_connected s\<rparr>);
              return None
            }))
       else return None)
     (do { free_info; wr_release wr })
   }"

text \<open>
  The listener runs in the publisher's thread.  \<open>mem_ok\<close> says whether \<open>k_malloc\<close> finds memory and
  \<open>submitted\<close> is the result of \<open>k_work_submit_to_queue\<close>.
\<close>

definition radio_mgr_listener ::
  "bool \<Rightarrow> int \<Rightarrow> zbus_msg \<Rightarrow> ('a rm_state_scheme, unit) state" where
  "radio_mgr_listener mem_ok submitted msg =
     (if \<not> mem_ok then skip
      else do {
        modify (\<lambda>s. s\<lparr>rm_live_infos := rm_live_infos s + 1\<rparr>);
        s \<leftarrow> State_Monad.get;
        case wr_get (Some ()) 1808 (wr_pool s) of
          Inl _ \<Rightarrow> modify (\<lambda>s. s\<lparr>wr_assert_failed := True\<rparr>)
        | Inr (None, p) \<Rightarrow> free_info
        | Inr (Some wr, p) \<Rightarrow> do {
            modify (\<lambda>s. s\<lparr>wr_pool := p\<rparr>);
            (case msg of
               BtConnMsg c \<Rightarrow> modify (\<lambda>s. s\<lparr>g_bt_connected := c\<rparr>)
             | UsbPowerMsg c \<Rightarrow> modify (\<lambda>s. s\<lparr>g_usb_connected := c\<rparr>)
             | _ \<Rightarrow> skip);
            if submitted < 0 then do { wr_release wr; free_info }
            else modify (\<lambda>s. s\<lparr>rm_work_items := rm_work_items s @ [(wr, msg)]\<rparr>)
          }
      })"

definition run_work_item :: "env \<Rightarrow> nat \<times> zbus_msg \<Rightarrow> ('a rm_state_scheme, unit) state" where
  "run_work_item e item =
     (case snd item of
        DaStateMsg events \<Rightarrow> rm_da_work_handler e (fst item) events
      | LteStatusMsg change flags \<Rightarrow> rm_9160_work_handler (fst item) change flags
      | BtConnMsg _ \<Rightarrow> usb_bt_connection_work_handler e (fst item)
      | UsbPowerMsg _ \<Rightarrow> usb_bt_connection_work_handler e (fst item))"

section \<open>Timer and shell\<close>

text \<open>The expiry of \<open>continue_switching_timer\<close>: its handler submits the switching work item.\<close>

definition timer_expired :: "('a rm_state_scheme, unit) state" where
  "timer_expired = do {
     t \<leftarrow> gets continue_switching_timer;
     whenever (t \<noteq> None) (do {
       modify (\<lambda>s. s\<lparr>continue_switching_timer := None\<rparr>);
       queue_switching_handler
     })
   }"

text \<open>
  The shell commands get their arguments after the command's name.  \<open>do_enable\<close> reads \<open>argv[1]\<close>
  also when there is none; that argument vector is outside of its model.  \<open>shell_strtobool\<close> is a
  function of the platform and a parameter.
\<close>

definition do_enable :: "string \<Rightarrow> ('a rm_state_scheme, unit) state" where
  "do_enable arg =
     (if arg = ''off'' \<or> arg = ''0'' then modify (\<lambda>s. s\<lparr>g_radio_mgmt := False\<rparr>)
      else modify (\<lambda>s. s\<lparr>g_radio_mgmt := True\<rparr>))"

definition do_change_radio :: "string list \<Rightarrow> ('a rm_state_scheme, unit) state" where
  "do_change_radio args =
     (if length args \<noteq> 1 \<and> length args \<noteq> 2 then skip
      else
        (let force = (length args = 2 \<and> (args ! 1 = ''1'' \<or> args ! 1 = ''on''));
             c = take 1 (args ! 0)
         in if c = ''0'' \<or> c = ''w'' \<or> c = ''W''
            then do { rm_switch_to COMM_DEVICE_DA16200 False force; skip }
            else if c = ''1'' \<or> c = ''l'' \<or> c = ''L''
            then do { rm_switch_to COMM_DEVICE_NRF9160 False force; skip }
            else skip))"

definition do_step :: "('a rm_state_scheme, unit) state" where
  "do_step = do {
     s \<leftarrow> State_Monad.get;
     if g_radio_mgmt s then skip
     else do { modify (\<lambda>s. s\<lparr>g_do_one_step := True\<rparr>); queue_switching_handler }
   }"

definition do_use_sleep :: "string list \<Rightarrow> ('a rm_state_scheme, unit) state" where
  "do_use_sleep args =
     (if length args \<noteq> 1 then skip
      else if args ! 0 = ''on'' \<or> args ! 0 = ''1'' then modify (\<lambda>s. s\<lparr>g_use_sleep := True\<rparr>)
      else modify (\<lambda>s. s\<lparr>g_use_sleep := False\<rparr>))"

definition do_use_wifi ::
  "(string \<Rightarrow> int \<Rightarrow> bool) \<Rightarrow> string list \<Rightarrow> ('a rm_state_scheme, unit) state" where
  "do_use_wifi strtobool args =
     (if length args \<noteq> 1 then skip else rm_wifi_enable (strtobool (args ! 0) 10))"

section \<open>Boot\<close>

text \<open>
  The static initial values of the module's variables (\<open>g_radio_mgmt\<close> and the like keep the values
  of their definitions); \<open>wr_init\<close> has filled the list of free work items.
\<close>

definition rm_boot :: "world \<Rightarrow> rm_state" where
  "rm_boot w =
     \<lparr>wld = w, g_radio_mgmt = True, g_use_sleep = True, g_do_one_step = False,
      g_bt_connected = False, g_usb_connected = False, g_usb_bt_prepped_radio = False,
      g_is_connecting_to_ap = False, g_use_wifi = True, g_switching_radios = False,
      g_switching_radios_start = 0, g_active_radio = COMM_DEVICE_NONE,
      sr_info = switch_radios_info_init,
      g_ap_to_attempt = \<lparr>ap_ssid = [], ap_password = [], ap_sec = 0, ap_keyidx = 0, ap_enc = 0,
                        conn_idx = 0, disconnectFirst = False\<rparr>,
      prep_ref_cnt = (\<lambda>_. 0), sr_work_pending = False, continue_switching_timer = None,
      connecting_to_ap_pending = False, last_usb_connected = False, last_bt_connected = False,
      wr_pool = wr_init wr_static, wr_assert_failed = False, rm_work_items = [],
      rm_live_infos = 0\<rparr>"

section \<open>Interleaving\<close>

text \<open>
  One event of the radio manager.  Its work queue has one thread, so a handler runs to its end
  before the next; requests, messages and shell commands of other threads come between handlers.
  \<open>to_wifi\<close> and \<open>to_lte\<close> are the notifications of \<^verbatim>\<open>commMgr.c\<close>.
\<close>

datatype rm_event =
  EvSwitchTo comm_device bool bool
| EvWifiEnable bool
| EvEnable bool
| EvUseSleep bool
| EvConnectIndex int
| EvConnect string string "16 word" "16 word" "16 word"
| EvPrepare comm_device bool nat
| EvDone comm_device
| EvUnconnectedAp
| EvMessage bool int zbus_msg
| EvWorkItem
| EvSwitchWork
| EvConnectWork
| EvTimer
| EvStep
| EvSleep nat

definition drop_result :: "('s, 'a) state \<Rightarrow> ('s, unit) state" where
  "drop_result m = do { m; skip }"

definition run_event ::
  "env \<Rightarrow> ('a rm_state_scheme, int) state \<Rightarrow> ('a rm_state_scheme, int) state \<Rightarrow> rm_event \<Rightarrow>
   ('a rm_state_scheme, unit) state" where
  "run_event e to_wifi to_lte ev =
     (case ev of
        EvSwitchTo r c f \<Rightarrow> drop_result (rm_switch_to r c f)
      | EvWifiEnable b \<Rightarrow> rm_wifi_enable b
      | EvEnable b \<Rightarrow> rm_enable b
      | EvUseSleep b \<Rightarrow> rm_use_sleep b
      | EvConnectIndex i \<Rightarrow> drop_result (rm_connect_to_AP_by_index i)
      | EvConnect n p a b c \<Rightarrow> drop_result (rm_connect_to_AP e n p a b c)
      | EvPrepare d mq t \<Rightarrow> drop_result (rm_prepare_radio_for_use e d mq t)
      | EvDone d \<Rightarrow> drop_result (rm_done_with_radio e d)
      | EvUnconnectedAp \<Rightarrow> rm_got_UC_from_AP
      | EvMessage m r msg \<Rightarrow> radio_mgr_listener m r msg
      | EvWorkItem \<Rightarrow> do {
          items \<leftarrow> gets rm_work_items;
          case items of [] \<Rightarrow> skip
          | item # rest \<Rightarrow> do {
              modify (\<lambda>s. s\<lparr>rm_work_items := rest\<rparr>);
              run_work_item e item
            }
        }
      | EvSwitchWork \<Rightarrow> do {
          p \<leftarrow> gets sr_work_pending;
          whenever p (do {
            modify (\<lambda>s. s\<lparr>sr_work_pending := False\<rparr>);
            switch_radios_work_handler e to_wifi to_lte
          })
        }
      | EvConnectWork \<Rightarrow> do {
          p \<leftarrow> gets connecting_to_ap_pending;
          whenever p (do {
            modify (\<lambda>s. s\<lparr>connecting_to_ap_pending := False\<rparr>);
            connecting_to_ap_work_handler e
          })
        }
      | EvTimer \<Rightarrow> timer_expired
      | EvStep \<Rightarrow> do_step
      | EvSleep ms \<Rightarrow> ksleep e ms)"

inductive rm_step ::
  "env \<Rightarrow> ('a rm_state_scheme, int) state \<Rightarrow> ('a rm_state_scheme, int) state \<Rightarrow>
   'a rm_state_scheme \<Rightarrow> rm_event \<Rightarrow> 'a rm_state_scheme \<Rightarrow> bool"
  for e to_wifi to_lte where
  rm_event: "rm_step e to_wifi to_lte s ev (after (run_event e to_wifi to_lte ev) s)"

text \<open>\<open>rm_reach e to_wifi to_lte A s t\<close>: events of the kind \<open>A\<close> lead from \<open>s\<close> to \<open>t\<close>.\<close>

inductive rm_reach ::
  "env \<Rightarrow> ('a rm_state_scheme, int) state \<Rightarrow> ('a rm_state_scheme, int) state \<Rightarrow>
   (rm_event \<Rightarrow> bool) \<Rightarrow> 'a rm_state_scheme \<Rightarrow> 'a rm_state_scheme \<Rightarrow> bool"
  for e to_wifi to_lte A where
  rm_here: "rm_reach e to_wifi to_lte A s s"
| rm_more: "rm_reach e to_wifi to_lte A s t \<Longrightarrow> A ev \<Longrightarrow> rm_step e to_wifi to_lte t ev u \<Longrightarrow>
    rm_reach e to_wifi to_lte A s u"

inductive_cases rm_step_elim: "rm_step e to_wifi to_lte s ev t"

lemma rm_reach_inv:
  assumes "rm_reach e to_wifi to_lte A s t" and "I s"
    and "\<And>ev. A ev \<Longrightarrow> keeps I (run_event e to_wifi to_lte ev)"
  shows "I t"
  using assms(1,2)
proof (induction rule: rm_reach.induct)
  case (rm_here s)
  then show ?case by simp
next
  case (rm_more s t ev u)
  from rm_more(3) have "u = after (run_event e to_wifi to_lte ev) t" by (rule rm_step_elim)
  with keepsD [OF assms(3) [OF rm_more(2)]] rm_more show ?case by simp
qed

lemma rm_reach_run:
  "list_all A evs \<Longrightarrow>
   rm_reach e to_wifi to_lte A s (fold (\<lambda>ev. after (run_event e to_wifi to_lte ev)) evs s)"
proof (induction evs rule: rev_induct)
  case Nil
  show ?case by (simp add: rm_here)
next
  case (snoc ev evs)
  then show ?case by (auto intro: rm_more rm_event)
qed

end
