(* ===== verification/RadioFrames.thy ===== *)
theory RadioFrames
  imports RadioEvents
begin

text \<open>
  What each operation of the radio manager leaves alone.  The collection \<open>same_intro\<close> carries the
  proofs: a chip call, a sleep and a poll change the world only, and every longer operation is
  composed of such actions.
\<close>

definition of_private :: "('a rm_state_scheme \<Rightarrow> 'b) \<Rightarrow> bool" where
  "of_private f \<longleftrightarrow> (\<forall>s w. f (s\<lparr>wld := w\<rparr>) = f s)"

lemma same_call [same_intro]: "of_private f \<Longrightarrow> same f (call e d)"
  by (simp add: same_def of_private_def run)

lemma same_ksleep [same_intro]: "of_private f \<Longrightarrow> same f (ksleep e ms)"
  by (simp add: same_def of_private_def run)

lemma same_poll [same_intro]: "of_private f \<Longrightarrow> same f (poll e p c q dl)"
  by (simp add: same_def of_private_def run)

lemma same_await_ap [same_intro]: "of_private f \<Longrightarrow> same f (await_ap e ssid dl)"
  by (simp add: same_def of_private_def run)

lemma same_set_da [same_intro]: "of_private f \<Longrightarrow> same f (set_da g)"
  by (simp add: same_def of_private_def run)

lemma same_set_zones [same_intro]: "of_private f \<Longrightarrow> same f (set_zones g)"
  by (simp add: same_def of_private_def run)

lemma of_private_fields [simp]:
  "of_private prep_ref_cnt" "of_private g_active_radio" "of_private sr_info"
  "of_private g_switching_radios" "of_private g_use_wifi" "of_private g_is_connecting_to_ap"
  "of_private g_radio_mgmt" "of_private g_use_sleep" "of_private wr_pool"
  "of_private rm_work_items" "of_private rm_live_infos" "of_private wr_assert_failed"
  "of_private g_usb_connected" "of_private g_bt_connected" "of_private g_do_one_step"
  "of_private rm_state.more" "of_private g_usb_bt_prepped_radio" "of_private g_ap_to_attempt"
  "of_private sr_work_pending" "of_private continue_switching_timer"
  "of_private connecting_to_ap_pending"
  "of_private last_usb_connected" "of_private last_bt_connected"
  by (simp_all add: of_private_def)

section \<open>The part of the state that switching radios does not touch\<close>

text \<open>
  \<open>apart\<close> holds of an observation that reads neither the world nor the variables of the switching
  machine, nor the pending marks and the timer.
\<close>

definition apart :: "('a rm_state_scheme \<Rightarrow> 'b) \<Rightarrow> bool" where
  "apart f \<longleftrightarrow>
     (\<forall>s w i a sw st p.
        f (s\<lparr>wld := w\<rparr>) = f s \<and> f (s\<lparr>sr_info := i\<rparr>) = f s \<and> f (s\<lparr>g_active_radio := a\<rparr>) = f s \<and>
        f (s\<lparr>g_switching_radios := sw\<rparr>) = f s \<and> f (s\<lparr>g_switching_radios_start := st\<rparr>) = f s \<and>
        f (s\<lparr>sr_work_pending := p\<rparr>) = f s)"

lemma apart_private: "apart f \<Longrightarrow> of_private f"
  by (simp add: apart_def of_private_def)

lemma apart_fields [simp]:
  "apart prep_ref_cnt" "apart g_use_wifi" "apart g_is_connecting_to_ap" "apart g_radio_mgmt"
  "apart g_use_sleep" "apart wr_pool" "apart rm_work_items" "apart rm_live_infos"
  "apart wr_assert_failed" "apart g_usb_connected" "apart g_bt_connected" "apart rm_state.more"
  "apart g_usb_bt_prepped_radio" "apart g_do_one_step" "apart g_ap_to_attempt"
  "apart continue_switching_timer" "apart connecting_to_ap_pending"
  "apart last_usb_connected" "apart last_bt_connected"
  by (simp_all add: apart_def)

lemma same_set_info [same_intro]: "apart f \<Longrightarrow> same f (set_info g)"
  by (simp add: same_def apart_def run)

lemma same_start_op [same_intro]: "apart f \<Longrightarrow> same f (start_op t op n)"
  by (simp add: same_def apart_def run)

lemma same_rm_switch_to [same_intro]: "apart f \<Longrightarrow> same f (rm_switch_to r c fs)"
proof -
  assume a: "apart f"
  show ?thesis unfolding rm_switch_to_def queue_switching_handler_def
    by (intro same_intro same_modify a)
       (use a in \<open>simp_all add: apart_def\<close>)
qed

lemma same_timed_op [same_intro]:
  "apart f \<Longrightarrow> same f m \<Longrightarrow> same f n \<Longrightarrow> same f (timed_op t op k m g n)"
  unfolding timed_op_def by (intro same_intro)

lemma same_block_if [same_intro]: "same f m \<Longrightarrow> same f (block_if c m)"
  unfolding block_if_def by (intro same_intro)

lemma same_fall_back [same_intro]: "apart f \<Longrightarrow> same f fall_back_to_lte"
  unfolding fall_back_to_lte_def by (intro same_intro)

lemma same_fail_op [same_intro]: "apart f \<Longrightarrow> same f (fail_op ms)"
  unfolding fail_op_def by (intro same_intro)

lemma same_insure [same_intro]: "of_private f \<Longrightarrow> same f (insure_da_is_awake e)"
  unfolding insure_da_is_awake_def by (intro same_intro)

lemma same_return_da [same_intro]: "apart f \<Longrightarrow> same f (return_da_to_sleep e)"
  unfolding return_da_to_sleep_def by (intro same_intro apart_private)

lemma same_lte_set_mqtt [same_intro]: "of_private f \<Longrightarrow> same f (lte_set_mqtt_enable e on t)"
  unfolding lte_set_mqtt_enable_def by (intro same_intro)

lemma same_disconnect [same_intro]: "of_private f \<Longrightarrow> same f (wifi_disconnect_from_AP e t)"
  unfolding wifi_disconnect_from_AP_def by (intro same_intro)

lemma same_connect_by_index [same_intro]:
  "of_private f \<Longrightarrow> same f (wifi_initiate_connect_by_index e idx t)"
  unfolding wifi_initiate_connect_by_index_def by (intro same_intro)

lemma same_is_curr_AP [same_intro]: "of_private f \<Longrightarrow> same f (wifi_is_curr_AP e a b c d g)"
  unfolding wifi_is_curr_AP_def by (intro same_intro)

lemma same_saved_add [same_intro]:
  "of_private f \<Longrightarrow> same f (wifi_saved_ssids_add e i a b c d g h j t)"
  unfolding wifi_saved_ssids_add_def Let_def by (intro same_intro)

lemma same_saved_del [same_intro]: "of_private f \<Longrightarrow> same f (wifi_saved_ssids_del e i t)"
  unfolding wifi_saved_ssids_del_def by (intro same_intro)

lemma same_saved_del_all [same_intro]: "of_private f \<Longrightarrow> same f (wifi_saved_ssids_del_all e t)"
  unfolding wifi_saved_ssids_del_all_def wifi_clear_local_ssid_list_def by (intro same_intro)

lemma same_zone_safe [same_intro]: "of_private f \<Longrightarrow> same f (wifi_set_zone_safe e i b t)"
  unfolding wifi_set_zone_safe_def by (intro same_intro)

lemma same_get_ap_list [same_intro]: "of_private f \<Longrightarrow> same f (wifi_get_ap_list e t)"
  unfolding wifi_get_ap_list_def by (intro same_intro)

lemma same_known_ssid [same_intro]: "of_private f \<Longrightarrow> same f (wifi_check_for_known_ssid q e)"
  unfolding wifi_check_for_known_ssid_def by (intro same_intro)

lemmas wifi_block_defs =
  dw_wake_def dw_mqtt_off_def dw_disconnect_def dw_sleep_def
  ew_lte_mqtt_off_def ew_wake_def ew_know_state_def ew_wait_ap_def ew_boot_on_def ew_mqtt_on_def
  ew_wait_broker_def ew_sleep_def

lemma same_disable_wifi [same_intro]: "apart f \<Longrightarrow> same f (disable_wifi e)"
  unfolding disable_wifi_def wifi_block_defs by (intro same_intro apart_private)

lemma same_enable_wifi [same_intro]: "apart f \<Longrightarrow> same f (enable_wifi e)"
  unfolding enable_wifi_def wifi_block_defs by (intro same_intro apart_private)

lemma same_disable_lte [same_intro]: "of_private f \<Longrightarrow> same f (disable_lte e)"
  unfolding disable_lte_def by (intro same_intro)

section \<open>Reference counts\<close>

lemma prepare_counts:
  "prep_ref_cnt (after (rm_prepare_radio_for_use e d mq t) s) =
     (if result (rm_prepare_radio_for_use e d mq t) s
      then (prep_ref_cnt s)(radio_idx d := prep_ref_cnt s (radio_idx d) + 1)
      else prep_ref_cnt s)"
proof -
  have "prep_ref_cnt (after (insure_da_is_awake e) s') = prep_ref_cnt s'" for s' :: "'a rm_state_scheme"
    by (rule sameD, rule same_insure) simp
  then show ?thesis
    by (simp add: rm_prepare_radio_for_use_def run)
qed

lemma done_counts:
  "prep_ref_cnt (after (rm_done_with_radio e d) s) =
     (if sint (prep_ref_cnt s (radio_idx d)) \<le> 0 then prep_ref_cnt s
      else (prep_ref_cnt s)(radio_idx d := prep_ref_cnt s (radio_idx d) - 1))"
proof -
  have "prep_ref_cnt (after (return_da_to_sleep e) s') = prep_ref_cnt s'" for s' :: "'a rm_state_scheme"
    by (rule sameD, rule same_return_da) simp
  then show ?thesis
    by (simp add: rm_done_with_radio_def run)
qed

definition counts_ok :: "(nat \<Rightarrow> 16 word) \<Rightarrow> bool" where
  "counts_ok c \<longleftrightarrow> (\<forall>i. 0 \<le> sint (c i) \<and> sint (c i) < 2 ^ 15 - 1)"

lemma sint_plus_1:
  fixes x :: "16 word"
  assumes "sint x < 2 ^ 15 - 1"
  shows "sint (x + 1) = sint x + 1"
proof -
  have "- (2 ^ 15) \<le> sint x" using sint_ge [of x] by simp
  then show ?thesis using assms
    by (simp add: signed_take_bit_int_eq_self sint_word_ariths)
qed

lemma sint_minus_1:
  fixes x :: "16 word"
  assumes "- (2 ^ 15) < sint x"
  shows "sint (x - 1) = sint x - 1"
proof -
  have "sint x < 2 ^ 15" using sint_lt [of x] by simp
  then show ?thesis using assms
    by (simp add: signed_take_bit_int_eq_self sint_word_ariths)
qed

end
