(* ===== verification/SwitchOps.thy ===== *)
theory SwitchOps
  imports RadioFrames
begin

text \<open>
  Timed operations: how often \<open>startOp\<close> starts an operation and when it gives up, what \<open>failOp\<close>
  does to the next check, and what the blocks of \<open>enable_wifi\<close>, \<open>disable_wifi\<close> and \<open>enable_lte\<close>
  can return.
\<close>

section \<open>Runs of one operation\<close>

text \<open>The answers of \<open>startOp\<close> when it is asked for the same operation at the given times.\<close>

fun op_run ::
  "int \<Rightarrow> switch_radios_state \<Rightarrow> int \<Rightarrow> switch_radios_info \<Rightarrow> 64 word list \<Rightarrow> op_state list" where
  "op_run t op n i [] = []"
| "op_run t op n i (now # ts) =
     fst (fst (startOp now i t op n)) # op_run t op n (snd (startOp now i t op n)) ts"

definition starts :: "op_state list \<Rightarrow> nat" where
  "starts rs = length (filter (\<lambda>r. r = OS_STARTED) rs)"

lemma starts_simps [simp]:
  "starts [] = 0" "starts (r # rs) = (if r = OS_STARTED then Suc (starts rs) else starts rs)"
  by (simp_all add: starts_def)

lemma startOp_currOp [simp]: "currOp (snd (startOp now i t op n)) = op"
  by (simp add: startOp_def Let_def)

lemma startOp_other:
  "currOp i \<noteq> op \<Longrightarrow> startOp now i t op n =
     ((OS_STARTED, t), i\<lparr>currOp := op, currOpStart := now, op_failures := 0, max_retrys := n,
        si_timeout := t\<rparr>)"
  by (simp add: startOp_def)

lemma startOp_same:
  "currOp i = op \<Longrightarrow>
   (fst (fst (startOp now i t op n)) = OS_STARTED \<longleftrightarrow>
      now - currOpStart i > of_int (si_timeout i) \<and> op_failures i < max_retrys i) \<and>
   (fst (fst (startOp now i t op n)) = OS_FAILED \<longleftrightarrow>
      now - currOpStart i > of_int (si_timeout i) \<and> max_retrys i \<le> op_failures i) \<and>
   op_failures (snd (startOp now i t op n)) =
      (if now - currOpStart i > of_int (si_timeout i) then op_failures i + 1 else op_failures i) \<and>
   max_retrys (snd (startOp now i t op n)) = max_retrys i \<and>
   si_timeout (snd (startOp now i t op n)) = si_timeout i"
  by (auto simp: startOp_def Let_def)

lemma starts_of_current:
  "currOp i = op \<Longrightarrow> int (starts (op_run t op n i ts)) \<le> max 0 (max_retrys i - op_failures i)"
proof (induction ts arbitrary: i)
  case Nil
  then show ?case by simp
next
  case (Cons now ts)
  let ?i = "snd (startOp now i t op n)"
  have "int (starts (op_run t op n ?i ts)) \<le> max 0 (max_retrys ?i - op_failures ?i)"
    by (rule Cons.IH) simp
  with startOp_same [OF Cons.prems, of now t n] show ?case
    by (auto simp: max_def split: if_splits)
qed

text \<open>
  An operation is started at most \<open>retrys + 1\<close> times before the switching machine turns to another
  one, at whatever times the handler checks back: the first start and one per allowed retry.
\<close>

theorem startOp_bounded:
  assumes "currOp i \<noteq> op" and "0 \<le> retrys"
  shows "int (starts (op_run timeout op retrys i nows)) \<le> retrys + 1"
proof (cases nows)
  case Nil
  then show ?thesis using assms by simp
next
  case (Cons now ts)
  let ?i = "snd (startOp now i timeout op retrys)"
  have "int (starts (op_run timeout op retrys ?i ts)) \<le> max 0 (max_retrys ?i - op_failures ?i)"
    by (rule starts_of_current) simp
  then show ?thesis using assms Cons by (simp add: startOp_other)
qed

theorem startOp_bounded_witness:
  "int (starts (op_run 500 SRS_WAKING_DA 3 switch_radios_info_init
      [1000, 1600, 2200, 2800, 3400, 4000])) \<le> 4"
  using startOp_bounded [of switch_radios_info_init SRS_WAKING_DA 3 500
    "[1000, 1600, 2200, 2800, 3400, 4000]"]
  unfolding switch_radios_info_init_def by (simp del: op_run.simps)

text \<open>Each check comes after the previous start has expired.\<close>

fun expiring :: "64 word \<Rightarrow> 64 word \<Rightarrow> 64 word list \<Rightarrow> bool" where
  "expiring t start [] = True"
| "expiring t start (now # ts) = (now - start > t \<and> expiring t now ts)"

lemma op_run_expired:
  "currOp i = op \<Longrightarrow> max_retrys i = op_failures i + int k \<Longrightarrow>
   expiring (of_int (si_timeout i)) (currOpStart i) ts \<Longrightarrow> length ts = Suc k \<Longrightarrow>
   op_run t op n i ts = replicate k OS_STARTED @ [OS_FAILED]"
proof (induction k arbitrary: i ts)
  case 0
  then obtain now where "ts = [now]" by (auto simp: length_Suc_conv)
  with 0 show ?case by (simp add: startOp_def Let_def)
next
  case (Suc k)
  then obtain now ts' where ts: "ts = now # ts'" by (cases ts) auto
  with Suc.prems have e: "now - currOpStart i > of_int (si_timeout i)" by simp
  let ?i = "i\<lparr>op_failures := op_failures i + 1, currOpStart := now\<rparr>"
  have st: "startOp now i t op n = ((OS_STARTED, t), ?i)"
    using Suc.prems(1,2) e by (simp add: startOp_def Let_def)
  have "op_run t op n ?i ts' = replicate k OS_STARTED @ [OS_FAILED]"
    by (rule Suc.IH) (use Suc.prems ts in auto)
  with ts st show ?case by simp
qed

text \<open>
  An operation that never succeeds is given up: when every check finds the last start expired, the
  answers are \<open>retrys + 1\<close> starts and then \<open>OS_FAILED\<close>, which is where the callers reset a chip or
  fall back to LTE.
\<close>

theorem startOp_gives_up:
  assumes "currOp i \<noteq> op" and "expiring (of_int timeout) now ts" and "length ts = Suc k"
  shows "op_run timeout op (int k) i (now # ts) = replicate (Suc k) OS_STARTED @ [OS_FAILED]"
  using op_run_expired [of "snd (startOp now i timeout op (int k))" op k ts timeout "int k"] assms
  by (simp add: startOp_other)

theorem startOp_gives_up_witness:
  "op_run 500 SRS_WAKING_DA (int 2) switch_radios_info_init (1000 # [1501, 2100, 2700]) =
     replicate (Suc 2) OS_STARTED @ [OS_FAILED]"
  by (rule startOp_gives_up) (simp_all add: switch_radios_info_init_def)

text \<open>
  \<open>failOp\<close> marks the running operation as expired for the next check, but only for a check at a
  later millisecond: at the same uptime the operation still counts as going, with no time left.
\<close>

theorem failOp_expires:
  assumes "currOp i = op" and "0 \<le> si_timeout i"
    and "uint (now - currOpStart i) + si_timeout i < 2 ^ 64"
  shows "fst (fst (startOp now (failOp i) t op n)) = OS_STILL_GOING \<longleftrightarrow> now = currOpStart i"
proof -
  let ?d = "now - currOpStart i" and ?t = "of_int (si_timeout i) :: 64 word"
  have "si_timeout i < 2 ^ 64"
    using assms(3) uint_ge_0 [of ?d] by linarith
  then have t: "uint ?t = si_timeout i"
    using assms(2) by (simp add: uint_word_of_int_eq take_bit_int_eq_self)
  have "uint (?d + ?t) = uint ?d + si_timeout i"
    using assms(2,3) t by (simp add: uint_word_ariths)
  then have "?d + ?t > ?t \<longleftrightarrow> uint ?d \<noteq> 0"
    unfolding word_less_alt t using uint_ge_0 [of ?d] by linarith
  then have "?d + ?t > ?t \<longleftrightarrow> now \<noteq> currOpStart i"
    by (simp only: uint_0_iff) simp
  moreover have shifted: "now - currOpStart (failOp i) = ?d + ?t"
    by (simp add: failOp_def)
  moreover have "fst (fst (startOp now (failOp i) t op n)) = OS_STILL_GOING \<longleftrightarrow>
      \<not> now - currOpStart (failOp i) > ?t"
    using assms(1) by (simp add: startOp_def Let_def failOp_def)
  ultimately show ?thesis unfolding shifted by blast
qed

theorem failOp_expires_witness:
  "fst (fst (startOp 1000 (failOp (switch_radios_info_init
      \<lparr>currOp := SRS_WAKING_DA, currOpStart := 1000, si_timeout := 500\<rparr>)) 500 SRS_WAKING_DA 3))
    = OS_STILL_GOING"
  by (subst failOp_expires) simp_all

end
