(* ===== verification/RadioInv.thy ===== *)
theory RadioInv
  imports RadioFrames
begin

text \<open>
  Invariants of the radio manager over every interleaving of its events.  \<open>robust e I\<close> says that an
  invariant survives the elementary actions (chip calls, time, the switching variables, a request
  to switch); every longer operation keeps a robust invariant.  Three invariants follow: the radios
  a switch may go to, the wake-up of a switch under way, and the pool of work items.
\<close>

section \<open>Robust invariants\<close>

definition steady :: "env \<Rightarrow> ('a rm_state_scheme \<Rightarrow> bool) \<Rightarrow> bool" where
  "steady e I \<longleftrightarrow>
     (\<forall>s. I s \<longrightarrow>
        (\<forall>d. I (s\<lparr>wld := snd (do_call e d (wld s))\<rparr>)) \<and>
        (\<forall>ms. I (s\<lparr>wld := k_sleep e ms (wld s)\<rparr>)) \<and>
        (\<forall>d. I (s\<lparr>wld := (wld s)\<lparr>da := d\<rparr>\<rparr>)) \<and>
        (\<forall>z. I (s\<lparr>wld := (wld s)\<lparr>cached_zones := z\<rparr>\<rparr>)) \<and>
        (\<forall>t. I (s\<lparr>wld := (wld s)\<lparr>g_last_ssid_scan_time := t\<rparr>\<rparr>)))"

definition free_vars :: "('a rm_state_scheme \<Rightarrow> bool) \<Rightarrow> bool" where
  "free_vars I \<longleftrightarrow>
     (\<forall>s i c a b. I s \<longrightarrow>
        (target_radio i = target_radio (sr_info s) \<longrightarrow> I (s\<lparr>sr_info := i\<rparr>)) \<and>
        I (s\<lparr>prep_ref_cnt := c\<rparr>) \<and> I (s\<lparr>g_ap_to_attempt := a\<rparr>) \<and>
        I (s\<lparr>g_is_connecting_to_ap := b\<rparr>) \<and> I (s\<lparr>connecting_to_ap_pending := b\<rparr>) \<and>
        I (s\<lparr>g_use_sleep := b\<rparr>) \<and> I (s\<lparr>g_use_wifi := b\<rparr>) \<and> I (s\<lparr>g_radio_mgmt := b\<rparr>) \<and>
        I (s\<lparr>g_usb_bt_prepped_radio := b\<rparr>) \<and> I (s\<lparr>last_usb_connected := b\<rparr>) \<and>
        I (s\<lparr>last_bt_connected := b\<rparr>) \<and> I (s\<lparr>g_bt_connected := b\<rparr>) \<and>
        I (s\<lparr>g_usb_connected := b\<rparr>))"

definition robust :: "env \<Rightarrow> ('a rm_state_scheme \<Rightarrow> bool) \<Rightarrow> bool" where
  "robust e I \<longleftrightarrow> steady e I \<and> free_vars I \<and> (\<forall>r c f. keeps I (rm_switch_to r c f))"

lemma keeps_rm_switch_to [keeps_intro]: "robust e I \<Longrightarrow> keeps I (rm_switch_to r c f)"
  by (simp add: robust_def)

lemma keeps_call [keeps_intro]: "robust e I \<Longrightarrow> keeps I (call e d)"
  by (simp add: robust_def steady_def keeps_def run)

lemma keeps_ksleep [keeps_intro]: "robust e I \<Longrightarrow> keeps I (ksleep e ms)"
  by (simp add: robust_def steady_def keeps_def run)

lemma keeps_set_da [keeps_intro]: "robust e I \<Longrightarrow> keeps I (set_da g)"
  by (simp add: robust_def steady_def keeps_def run)

lemma keeps_set_zones [keeps_intro]: "robust e I \<Longrightarrow> keeps I (set_zones g)"
  by (simp add: robust_def steady_def keeps_def run)

lemma keeps_poll [keeps_intro]:
  fixes I :: "'a rm_state_scheme \<Rightarrow> bool"
  assumes "robust e I"
  shows "keeps I (poll e p c q dl)"
proof (rule keepsI)
  fix s :: "'a rm_state_scheme"
  assume "I s"
  have *: "I (s\<lparr>wld := w\<rparr>) \<Longrightarrow> I (s\<lparr>wld := k_sleep e ms w\<rparr>) \<and> I (s\<lparr>wld := snd (do_call e d w)\<rparr>)"
    for ms d w
    using assms unfolding robust_def steady_def
    by (metis rm_state.select_convs(1) rm_state.update_convs(1) rm_state.surjective)
  have "I (s\<lparr>wld := snd (poll_until e p c q dl (wld s))\<rparr>)"
    by (rule poll_until_inv [where I = "\<lambda>w. I (s\<lparr>wld := w\<rparr>)"]) (use * \<open>I s\<close> in auto)
  then show "I (after (poll e p c q dl) s)" by (simp add: run)
qed

lemma keeps_await_ap [keeps_intro]:
  fixes I :: "'a rm_state_scheme \<Rightarrow> bool"
  assumes "robust e I"
  shows "keeps I (await_ap e ssid dl)"
proof (rule keepsI)
  fix s :: "'a rm_state_scheme"
  assume "I s"
  have *: "I (s\<lparr>wld := w\<rparr>) \<Longrightarrow> I (s\<lparr>wld := k_sleep e ms w\<rparr>)" for ms w
    using assms unfolding robust_def steady_def
    by (metis rm_state.select_convs(1) rm_state.update_convs(1) rm_state.surjective)
  have "I (s\<lparr>wld := snd (await e 100 c dl (wld s))\<rparr>)" for c
    by (rule await_inv [where I = "\<lambda>w. I (s\<lparr>wld := w\<rparr>)"]) (use * \<open>I s\<close> in auto)
  then show "I (after (await_ap e ssid dl) s)" by (simp add: run)
qed

lemma free_vars_keeps:
  assumes "free_vars I"
  shows "keeps I (add_ref i d)" "keeps I (set_attempt f)" "keeps I (set_connecting b)"
    "keeps I queue_connect_to_ap_work"
    "keeps I (modify (\<lambda>s. s\<lparr>g_use_sleep := b\<rparr>))" "keeps I (modify (\<lambda>s. s\<lparr>g_use_wifi := b\<rparr>))"
    "keeps I (modify (\<lambda>s. s\<lparr>g_usb_bt_prepped_radio := b\<rparr>))"
    "keeps I (modify (\<lambda>s. s\<lparr>g_radio_mgmt := b\<rparr>))"
    "keeps I (modify (\<lambda>s. s\<lparr>g_bt_connected := b\<rparr>))" "keeps I (modify (\<lambda>s. s\<lparr>g_usb_connected := b\<rparr>))"
  using assms by (simp_all add: free_vars_def keeps_def run)

lemma keeps_free_vars [keeps_intro]:
  assumes "robust e I"
  shows "keeps I (add_ref i d)" "keeps I (set_attempt f)" "keeps I (set_connecting b)"
    "keeps I queue_connect_to_ap_work"
    "keeps I (modify (\<lambda>s. s\<lparr>g_use_sleep := b\<rparr>))" "keeps I (modify (\<lambda>s. s\<lparr>g_use_wifi := b\<rparr>))"
    "keeps I (modify (\<lambda>s. s\<lparr>g_usb_bt_prepped_radio := b\<rparr>))"
    "keeps I (modify (\<lambda>s. s\<lparr>g_radio_mgmt := b\<rparr>))"
    "keeps I (modify (\<lambda>s. s\<lparr>g_bt_connected := b\<rparr>))" "keeps I (modify (\<lambda>s. s\<lparr>g_usb_connected := b\<rparr>))"
  using assms by (simp_all add: robust_def free_vars_keeps)

lemma keeps_last [keeps_intro]:
  "robust e I \<Longrightarrow> keeps I (modify (\<lambda>s. s\<lparr>last_usb_connected := g_usb_connected s,
                                         last_bt_connected := g_bt_connected s\<rparr>))"
  by (simp add: robust_def free_vars_def keeps_def)

lemma keeps_set_info:
  "robust e I \<Longrightarrow> (\<And>i. target_radio (g i) = target_radio i) \<Longrightarrow> keeps I (set_info g)"
  by (simp add: robust_def free_vars_def keeps_def run)

lemma keeps_failOp [keeps_intro]: "robust e I \<Longrightarrow> keeps I (set_info failOp)"
  by (rule keeps_set_info) (simp_all add: failOp_def)

lemma keeps_start_op [keeps_intro]: "robust e I \<Longrightarrow> keeps I (start_op t op n)"
  by (simp add: robust_def free_vars_def keeps_def run startOp_def Let_def)

section \<open>What keeps a robust invariant\<close>

lemma keeps_timed_op [keeps_intro]:
  "robust e I \<Longrightarrow> keeps I m \<Longrightarrow> keeps I n \<Longrightarrow> keeps I (timed_op t op k m g n)"
  unfolding timed_op_def by (intro keeps_intro)

lemma keeps_block_if [keeps_intro]: "keeps I m \<Longrightarrow> keeps I (block_if c m)"
  unfolding block_if_def by (intro keeps_intro)

lemma keeps_fall_back [keeps_intro]: "robust e I \<Longrightarrow> keeps I fall_back_to_lte"
  unfolding fall_back_to_lte_def by (intro keeps_intro)

lemma keeps_fail_op [keeps_intro]: "robust e I \<Longrightarrow> keeps I (fail_op ms)"
  unfolding fail_op_def by (intro keeps_intro)

lemma keeps_insure [keeps_intro]: "robust e I \<Longrightarrow> keeps I (insure_da_is_awake e)"
  unfolding insure_da_is_awake_def by (intro keeps_intro)

lemma keeps_return_da [keeps_intro]: "robust e I \<Longrightarrow> keeps I (return_da_to_sleep e)"
  unfolding return_da_to_sleep_def by (intro keeps_intro)

lemma keeps_prepare [keeps_intro]: "robust e I \<Longrightarrow> keeps I (rm_prepare_radio_for_use e d mq t)"
  unfolding rm_prepare_radio_for_use_def by (intro keeps_intro)

lemma keeps_done [keeps_intro]: "robust e I \<Longrightarrow> keeps I (rm_done_with_radio e d)"
  unfolding rm_done_with_radio_def by (intro keeps_intro)

lemma keeps_lte_set_mqtt [keeps_intro]: "robust e I \<Longrightarrow> keeps I (lte_set_mqtt_enable e on t)"
  unfolding lte_set_mqtt_enable_def by (intro keeps_intro)

lemma keeps_disconnect [keeps_intro]: "robust e I \<Longrightarrow> keeps I (wifi_disconnect_from_AP e t)"
  unfolding wifi_disconnect_from_AP_def by (intro keeps_intro)

lemma keeps_connect_by_index [keeps_intro]: "robust e I \<Longrightarrow> keeps I (wifi_initiate_connect_by_index e idx t)"
  unfolding wifi_initiate_connect_by_index_def by (intro keeps_intro)

lemma keeps_is_curr_AP [keeps_intro]: "robust e I \<Longrightarrow> keeps I (wifi_is_curr_AP e a b c d g)"
  unfolding wifi_is_curr_AP_def by (intro keeps_intro)

lemma keeps_saved_add [keeps_intro]: "robust e I \<Longrightarrow> keeps I (wifi_saved_ssids_add e i a b c d g h j t)"
  unfolding wifi_saved_ssids_add_def Let_def by (intro keeps_intro)

lemma keeps_saved_del_all [keeps_intro]: "robust e I \<Longrightarrow> keeps I (wifi_saved_ssids_del_all e t)"
  unfolding wifi_saved_ssids_del_all_def wifi_clear_local_ssid_list_def by (intro keeps_intro)

lemma keeps_disable_wifi [keeps_intro]: "robust e I \<Longrightarrow> keeps I (disable_wifi e)"
  unfolding disable_wifi_def wifi_block_defs by (intro keeps_intro)

lemma keeps_enable_wifi [keeps_intro]: "robust e I \<Longrightarrow> keeps I (enable_wifi e)"
  unfolding enable_wifi_def wifi_block_defs by (intro keeps_intro)

lemma keeps_disable_lte [keeps_intro]: "robust e I \<Longrightarrow> keeps I (disable_lte e)"
  unfolding disable_lte_def by (intro keeps_intro)

lemma keeps_enable_lte [keeps_intro]: "robust e I \<Longrightarrow> keeps I (enable_lte e)"
  unfolding enable_lte_def el_wifi_mqtt_off_def el_power_def el_mqtt_on_def hard_reset_modem_def by (intro keeps_intro)

lemma keeps_wifi_enable [keeps_intro]: "robust e I \<Longrightarrow> keeps I (rm_wifi_enable b)"
  unfolding rm_wifi_enable_def by (intro keeps_intro)

lemma keeps_by_index [keeps_intro]: "robust e I \<Longrightarrow> keeps I (rm_connect_to_AP_by_index i)"
  unfolding rm_connect_to_AP_by_index_def by (intro keeps_intro)

lemma keeps_connect_AP [keeps_intro]: "robust e I \<Longrightarrow> keeps I (rm_connect_to_AP e a b c d g)"
  unfolding rm_connect_to_AP_def by (intro keeps_intro)

lemma keeps_connect_and_wait [keeps_intro]: "robust e I \<Longrightarrow> keeps I (connect_and_wait e)"
  unfolding connect_and_wait_def by (intro keeps_intro)

lemma keeps_connecting [keeps_intro]: "robust e I \<Longrightarrow> keeps I (connecting_to_ap_work_handler e)"
  unfolding connecting_to_ap_work_handler_def by (intro keeps_intro)

lemma keeps_da_events [keeps_intro]: "robust e I \<Longrightarrow> keeps I (rm_da_events e ev)"
  unfolding rm_da_events_def by (intro keeps_intro)

section \<open>The listener of a finished switch\<close>

text \<open>
  The interface between the radio manager and the communication manager, which is told of a
  finished switch: it may change its own variables (the extension of the record) and wait, so it
  keeps what only reads the radio manager's state and survives chip calls and sleeps.
\<close>

definition core :: "('a rm_state_scheme \<Rightarrow> 'b) \<Rightarrow> bool" where
  "core f \<longleftrightarrow> (\<forall>s t. rm_state.truncate s = rm_state.truncate t \<longrightarrow> f s = f t)"

lemma core_fields [simp]:
  "core wld" "core prep_ref_cnt" "core g_active_radio" "core sr_info" "core g_switching_radios"
  "core sr_work_pending" "core continue_switching_timer" "core wr_pool" "core rm_work_items"
  "core wr_assert_failed" "core g_do_one_step" "core rm_live_infos" "core g_radio_mgmt"
  "core g_use_wifi" "core g_is_connecting_to_ap"
  by (simp_all add: core_def rm_state.truncate_def)

definition pos_block ::
  "(switch_radios_info \<Rightarrow> bool) \<Rightarrow> ('a rm_state_scheme, int) state \<Rightarrow>
   ('a rm_state_scheme, int option) state" where
  "pos_block c m = do {
     i \<leftarrow> gets sr_info;
     if c i then do { t \<leftarrow> m; return (if t > 0 then Some t else None) } else return None
   }"

lemma triple_pos_block:
  "keeps R m \<Longrightarrow>
   triple R (pos_block c m) (\<lambda>r s. case r of Some t \<Rightarrow> 0 < t \<and> R s | None \<Rightarrow> R s)"
  by (simp add: pos_block_def triple_def keeps_def run)

definition finish_switch ::
  "env \<Rightarrow> ('a rm_state_scheme, int) state \<Rightarrow> ('a rm_state_scheme, int) state \<Rightarrow>
   ('a rm_state_scheme, int) state" where
  "finish_switch e to_wifi to_lte = do {
     was_disabled \<leftarrow> gets (\<lambda>s. radio_disabled (sr_info s));
     set_info (\<lambda>i. i\<lparr>radio_disabled := True\<rparr>);
     i \<leftarrow> gets sr_info;
     if target_radio i = COMM_DEVICE_DA16200 then do {
       modify (\<lambda>s. s\<lparr>g_active_radio := COMM_DEVICE_DA16200\<rparr>);
       set_info (\<lambda>i. i\<lparr>currOp := SRS_IDLE\<rparr>);
       modify (\<lambda>s. s\<lparr>g_switching_radios := False\<rparr>);
       to_wifi;
       return 0
     } else if target_radio i = COMM_DEVICE_NRF9160 then do {
       modify (\<lambda>s. s\<lparr>g_active_radio := COMM_DEVICE_NRF9160\<rparr>);
       set_info (\<lambda>i. i\<lparr>currOp := SRS_IDLE\<rparr>);
       modify (\<lambda>s. s\<lparr>g_switching_radios := False\<rparr>);
       to_lte;
       return_da_to_sleep e;
       return 0
     } else return (if was_disabled then 1000 else 0)
   }"

lemma switch_step_blocks:
  "switch_step e to_wifi to_lte = do {
     s \<leftarrow> State_Monad.get;
     if g_radio_mgmt s = False \<and> g_do_one_step s \<noteq> True then return 1000
     else if uptime (wld s) < 8000 then return 5000
     else
       or_else (pos_block (\<lambda>i. target_radio i = COMM_DEVICE_DA16200 \<and> radio_enabled i = False)
                  (enable_wifi e))
       (or_else (pos_block (\<lambda>i. target_radio i = COMM_DEVICE_NRF9160 \<and> radio_enabled i = False)
                  (enable_lte e))
       (or_else (do {
          set_info (\<lambda>i. i\<lparr>radio_enabled := True\<rparr>);
          pos_block (\<lambda>i. target_radio i \<noteq> COMM_DEVICE_DA16200 \<and> radio_disabled i = False)
            (disable_wifi e) })
       (or_else (pos_block (\<lambda>i. target_radio i \<noteq> COMM_DEVICE_NRF9160 \<and> radio_disabled i = False)
                  (disable_lte e))
         (finish_switch e to_wifi to_lte))))
   }"
  unfolding switch_step_def pos_block_def finish_switch_def by (rule refl)

lemma return_da_world:
  assumes "g_active_radio s \<noteq> COMM_DEVICE_DA16200"
  shows "\<exists>w. after (return_da_to_sleep e) s = s\<lparr>wld := w\<rparr>"
proof -
  let ?off = "\<not> shipping_flag (wld s) \<or> \<not> g_radio_mgmt s \<or> rm_wifi_is_connecting s \<or>
              g_usb_bt_prepped_radio s"
  have "after (return_da_to_sleep e) s =
      (if ?off then s else after (call e (NetMgrWifiPower False)) s)"
    using assms by (simp add: return_da_to_sleep_def rm_get_active_mqtt_radio_def)
  moreover have "s = s\<lparr>wld := wld s\<rparr>" by simp
  ultimately show ?thesis
    by (cases ?off) (metis, metis after_call)
qed

lemma return_da_switching:
  assumes "g_active_radio s \<noteq> COMM_DEVICE_DA16200"
  shows "g_switching_radios (after (return_da_to_sleep e) s) = g_switching_radios s \<and>
    g_active_radio (after (return_da_to_sleep e) s) = g_active_radio s \<and>
    sr_info (after (return_da_to_sleep e) s) = sr_info s"
  using return_da_world [OF assms, of e] by auto

locale switch_listener =
  fixes e :: env
    and to_wifi :: "('a rm_state_scheme, int) state"
    and to_lte :: "('a rm_state_scheme, int) state"
  assumes to_wifi_keeps: "steady e I \<Longrightarrow> core I \<Longrightarrow> keeps I to_wifi"
    and to_lte_keeps: "steady e I \<Longrightarrow> core I \<Longrightarrow> keeps I to_lte"
begin

lemma same_listener:
  assumes "core f" and "of_private f"
  shows "same f to_wifi" and "same f to_lte"
proof -
  have st: "steady e (\<lambda>s. f s = c)" for c
    using assms(2) by (simp add: steady_def of_private_def)
  have co: "core (\<lambda>s. f s = c)" for c
    using assms(1) unfolding core_def by metis
  have "keeps (\<lambda>s. f s = c) to_wifi" "keeps (\<lambda>s. f s = c) to_lte" for c
    by (rule to_wifi_keeps [OF st co], rule to_lte_keeps [OF st co])
  then show "same f to_wifi" and "same f to_lte"
    unfolding keeps_def same_def by blast+
qed

lemma listeners_keep: "robust e I \<Longrightarrow> core I \<Longrightarrow> keeps I to_wifi \<and> keeps I to_lte"
  by (simp add: robust_def to_wifi_keeps to_lte_keeps)

lemma keeps_finish:
  assumes "robust e I" and "keeps I to_wifi \<and> keeps I to_lte"
    and "\<And>s a. I s \<Longrightarrow> a = target_radio (sr_info s) \<Longrightarrow> a \<in> {COMM_DEVICE_DA16200, COMM_DEVICE_NRF9160} \<Longrightarrow>
           I (s\<lparr>g_active_radio := a, g_switching_radios := False\<rparr>)"
  shows "keeps I (finish_switch e to_wifi to_lte)"
proof (rule keepsI)
  fix s :: "'a rm_state_scheme"
  assume s: "I s"
  let ?i = "(sr_info s)\<lparr>radio_disabled := True, currOp := SRS_IDLE\<rparr>"
  have info: "I (s\<lparr>sr_info := i\<rparr>)" if "target_radio i = target_radio (sr_info s)" for i
    using assms(1) s that by (simp add: robust_def free_vars_def)
  have fin: "I (s\<lparr>g_active_radio := a, sr_info := ?i, g_switching_radios := False\<rparr>)"
    if "target_radio (sr_info s) = a" "a \<in> {COMM_DEVICE_DA16200, COMM_DEVICE_NRF9160}" for a
  proof -
    have "s\<lparr>g_active_radio := a, sr_info := ?i, g_switching_radios := False\<rparr> =
        (s\<lparr>sr_info := ?i\<rparr>)\<lparr>g_active_radio := a, g_switching_radios := False\<rparr>" by simp
    moreover have "I \<dots>"
      by (rule assms(3)) (use that info [of ?i] in auto)
    ultimately show ?thesis by (simp only:)
  qed
  have lis: "I t \<Longrightarrow> I (after to_wifi t)" "I t \<Longrightarrow> I (after to_lte t)" for t
    using assms(2) by (simp_all add: keeps_def)
  have da: "I t \<Longrightarrow> I (after (return_da_to_sleep e) t)" for t
    using keeps_return_da [OF assms(1)] by (simp add: keeps_def)
  show "I (after (finish_switch e to_wifi to_lte) s)"
    using fin [of COMM_DEVICE_DA16200] fin [of COMM_DEVICE_NRF9160]
      info [of "(sr_info s)\<lparr>radio_disabled := True\<rparr>"]
    by (simp add: finish_switch_def run lis da)
qed

lemma keeps_switch_step:
  assumes "robust e I" and "keeps I to_wifi \<and> keeps I to_lte"
    and "\<And>s a. I s \<Longrightarrow> a = target_radio (sr_info s) \<Longrightarrow> a \<in> {COMM_DEVICE_DA16200, COMM_DEVICE_NRF9160} \<Longrightarrow>
           I (s\<lparr>g_active_radio := a, g_switching_radios := False\<rparr>)"
  shows "keeps I (switch_step e to_wifi to_lte)"
  unfolding switch_step_blocks pos_block_def
  by (intro keeps_intro keeps_finish keeps_set_info assms keeps_get) (rule assms(1) | simp)+

lemma finish_done:
  "target_radio (sr_info s) \<in> {COMM_DEVICE_DA16200, COMM_DEVICE_NRF9160} \<Longrightarrow>
   result (finish_switch e to_wifi to_lte) s = 0 \<and>
   \<not> g_switching_radios (after (finish_switch e to_wifi to_lte) s) \<and>
   g_active_radio (after (finish_switch e to_wifi to_lte) s) = target_radio (sr_info s) \<and>
   target_radio (sr_info (after (finish_switch e to_wifi to_lte) s)) = target_radio (sr_info s) \<and>
   currOp (sr_info (after (finish_switch e to_wifi to_lte) s)) = SRS_IDLE"
proof -
  have a: "g_active_radio (after to_wifi t) = g_active_radio t" "g_active_radio (after to_lte t) = g_active_radio t"
      "sr_info (after to_wifi t) = sr_info t" "sr_info (after to_lte t) = sr_info t"
      "g_switching_radios (after to_wifi t) = g_switching_radios t"
      "g_switching_radios (after to_lte t) = g_switching_radios t" for t
    using same_listener [of g_active_radio] same_listener [of sr_info]
      same_listener [of g_switching_radios] by (simp_all add: same_def)
  show "target_radio (sr_info s) \<in> {COMM_DEVICE_DA16200, COMM_DEVICE_NRF9160} \<Longrightarrow> ?thesis"
    by (auto simp: finish_switch_def run a return_da_switching)
qed

lemma keeps_switch_handler:
  assumes "robust e I" and "keeps I to_wifi \<and> keeps I to_lte"
    and "\<And>s a. I s \<Longrightarrow> a = target_radio (sr_info s) \<Longrightarrow> a \<in> {COMM_DEVICE_DA16200, COMM_DEVICE_NRF9160} \<Longrightarrow>
           I (s\<lparr>g_active_radio := a, g_switching_radios := False\<rparr>)"
    and "\<And>s t b. I s \<Longrightarrow> I (s\<lparr>continue_switching_timer := t\<rparr>) \<and> I (s\<lparr>g_do_one_step := b\<rparr>)"
  shows "keeps I (switch_radios_work_handler e to_wifi to_lte)"
proof -
  have "keeps I (switch_step e to_wifi to_lte)" by (rule keeps_switch_step [OF assms(1,2)]) (fact assms)+
  then show ?thesis
    unfolding switch_radios_work_handler_def
    by (intro keeps_intro keeps_modify) (use assms(4) in auto)
qed

end

section \<open>Handlers of work items\<close>

text \<open>An invariant that the bookkeeping of the pool, the marks of pending work and the timer leave alone.\<close>

definition aside :: "('a rm_state_scheme \<Rightarrow> bool) \<Rightarrow> bool" where
  "aside I \<longleftrightarrow>
     (\<forall>s p b n is.
        I (s\<lparr>wr_pool := p\<rparr>) = I s \<and> I (s\<lparr>wr_assert_failed := b\<rparr>) = I s \<and>
        I (s\<lparr>rm_live_infos := n\<rparr>) = I s \<and> I (s\<lparr>rm_work_items := is\<rparr>) = I s)"

lemma keeps_aside [keeps_intro]:
  assumes "aside I"
  shows "keeps I (wr_release i)" "keeps I free_info" "keeps I (modify (\<lambda>s. s\<lparr>wr_pool := p\<rparr>))"
    "keeps I (modify (\<lambda>s. s\<lparr>wr_assert_failed := b\<rparr>))"
    "keeps I (modify (\<lambda>s. s\<lparr>rm_live_infos := f s\<rparr>))" "keeps I (modify (\<lambda>s. s\<lparr>rm_work_items := g s\<rparr>))"
  using assms
  by (simp_all add: aside_def keeps_def wr_release_def free_info_def split: sum.split)

lemma keeps_9160 [keeps_intro]:
  "robust e I \<Longrightarrow> aside I \<Longrightarrow> keeps I (rm_9160_work_handler wr cb fl)"
  unfolding rm_9160_work_handler_def by (intro keeps_intro)

lemma keeps_rm_da [keeps_intro]:
  "robust e I \<Longrightarrow> aside I \<Longrightarrow> keeps I (rm_da_work_handler e wr ev)"
  unfolding rm_da_work_handler_def by (intro keeps_intro)

lemma keeps_usb_bt [keeps_intro]:
  "robust e I \<Longrightarrow> aside I \<Longrightarrow> keeps I (usb_bt_connection_work_handler e wr)"
  unfolding usb_bt_connection_work_handler_def usb_bt_prep_def usb_bt_release_def forget_ap_def
  by (intro keeps_intro)

lemma keeps_case_msg [keeps_intro]:
  "(\<And>x. msg = DaStateMsg x \<Longrightarrow> keeps I (m1 x)) \<Longrightarrow> (\<And>x y. msg = LteStatusMsg x y \<Longrightarrow> keeps I (m2 x y)) \<Longrightarrow>
   (\<And>b. msg = BtConnMsg b \<Longrightarrow> keeps I (m3 b)) \<Longrightarrow> (\<And>b. msg = UsbPowerMsg b \<Longrightarrow> keeps I (m4 b)) \<Longrightarrow>
   keeps I (case msg of DaStateMsg x \<Rightarrow> m1 x | LteStatusMsg x y \<Rightarrow> m2 x y | BtConnMsg b \<Rightarrow> m3 b
            | UsbPowerMsg b \<Rightarrow> m4 b)"
  by (cases msg) simp_all

lemma keeps_listener [keeps_intro]:
  "robust e I \<Longrightarrow> aside I \<Longrightarrow> keeps I (radio_mgr_listener mem r msg)"
  unfolding radio_mgr_listener_def by (intro keeps_intro)

lemma keeps_run_work_item [keeps_intro]:
  "robust e I \<Longrightarrow> aside I \<Longrightarrow> keeps I (run_work_item e item)"
  unfolding run_work_item_def by (intro keeps_intro)

lemma keeps_prepare_use [keeps_intro]:
  "robust e I \<Longrightarrow> keeps I (rm_enable b)" "robust e I \<Longrightarrow> keeps I (rm_use_sleep b)"
  "robust e I \<Longrightarrow> keeps I rm_got_UC_from_AP"
  unfolding rm_enable_def rm_use_sleep_def rm_got_UC_from_AP_def by (intro keeps_intro; assumption)+

text \<open>The events that do not touch the marks of the switching work and its timer.\<close>

definition is_plain :: "rm_event \<Rightarrow> bool" where
  "is_plain ev = (case ev of EvSwitchWork \<Rightarrow> False | EvTimer \<Rightarrow> False | EvStep \<Rightarrow> False | _ \<Rightarrow> True)"

lemma keeps_plain_event:
  assumes "robust e I" and "aside I" and "is_plain ev"
    and "\<And>s. I (s\<lparr>connecting_to_ap_pending := False\<rparr>) = I s"
  shows "keeps I (run_event e to_wifi to_lte ev)"
proof -
  have m: "keeps I (modify (\<lambda>s. s\<lparr>connecting_to_ap_pending := False\<rparr>))"
    by (rule keeps_modify) (simp add: assms(4))
  note rules = keeps_intro keeps_get m assms(1,2)
  show ?thesis
    by (cases ev; (use assms(3) in \<open>simp add: is_plain_def; fail\<close>)?;
        simp only: run_event_def rm_event.case drop_result_def;
        (intro rules; (rule assms(1))?)?)
qed

section \<open>The radios a switch may involve\<close>

definition radio_inv :: "'a rm_state_scheme \<Rightarrow> bool" where
  "radio_inv s \<longleftrightarrow>
     target_radio (sr_info s) \<in> {COMM_DEVICE_NRF9160, COMM_DEVICE_DA16200} \<and>
     g_active_radio s \<in> {COMM_DEVICE_NONE, COMM_DEVICE_NRF9160, COMM_DEVICE_DA16200}"

lemma radio_inv_switch_to: "keeps radio_inv (rm_switch_to r c f)"
  by (rule keepsI)
     (auto simp: rm_switch_to_def queue_switching_handler_def run radio_inv_def whenever_def)

lemma robust_radio_inv: "robust e radio_inv"
  by (simp add: robust_def steady_def free_vars_def radio_inv_switch_to) (simp add: radio_inv_def)

lemma aside_radio_inv: "aside radio_inv"
  by (simp add: aside_def radio_inv_def)

lemma core_radio_inv: "core radio_inv"
  by (auto simp: radio_inv_def core_def rm_state.truncate_def)

section \<open>A switch under way is woken up again\<close>

text \<open>
  \<open>ships e\<close>: no chip call and no passing of time clears the shipping flag of the UICR.
  \<open>sched_inv\<close>: while a switch is under way, its work item is queued or its timer runs.
\<close>

definition ships :: "env \<Rightarrow> bool" where
  "ships e \<longleftrightarrow>
     (\<forall>w. shipping_flag w \<longrightarrow>
        (\<forall>d. shipping_flag (snd (answer e d w))) \<and> (\<forall>ms. shipping_flag (passing e ms w)))"

definition stepping :: "'a rm_state_scheme \<Rightarrow> bool" where
  "stepping s \<longleftrightarrow> shipping_flag (wld s) \<and> \<not> g_do_one_step s \<and> radio_inv s"

definition sched_inv :: "'a rm_state_scheme \<Rightarrow> bool" where
  "sched_inv s \<longleftrightarrow>
     stepping s \<and>
     (g_switching_radios s \<longrightarrow> sr_work_pending s \<or> continue_switching_timer s \<noteq> None)"

lemma ships_call: "ships e \<Longrightarrow> shipping_flag w \<Longrightarrow> shipping_flag (snd (do_call e d w))"
  by (simp add: ships_def do_call_def advance_def split_beta)

lemma ships_sleep: "ships e \<Longrightarrow> shipping_flag w \<Longrightarrow> shipping_flag (k_sleep e ms w)"
  by (simp add: ships_def k_sleep_def advance_def)

lemma switch_to_world:
  "wld (after (rm_switch_to r c f) s) = wld s \<and>
   g_do_one_step (after (rm_switch_to r c f) s) = g_do_one_step s"
  by (simp add: rm_switch_to_def queue_switching_handler_def run whenever_def)

lemma stepping_switch_to: "keeps stepping (rm_switch_to r c f)"
proof (rule keepsI)
  fix s :: "'a rm_state_scheme"
  assume "stepping s"
  then show "stepping (after (rm_switch_to r c f) s)"
    using keepsD [OF radio_inv_switch_to, of s r c f] by (simp add: stepping_def switch_to_world)
qed

lemma robust_stepping: "ships e \<Longrightarrow> robust e stepping"
  by (simp add: robust_def steady_def free_vars_def stepping_switch_to)
     (simp add: stepping_def radio_inv_def ships_call ships_sleep)

lemma switch_to_sched:
  "g_switching_radios s \<longrightarrow> sr_work_pending s \<or> continue_switching_timer s \<noteq> None \<Longrightarrow>
   g_switching_radios (after (rm_switch_to r c f) s) \<longrightarrow>
     sr_work_pending (after (rm_switch_to r c f) s) \<or>
     continue_switching_timer (after (rm_switch_to r c f) s) \<noteq> None"
  by (auto simp: rm_switch_to_def queue_switching_handler_def run whenever_def)

lemma sched_switch_to: "keeps sched_inv (rm_switch_to r c f)"
proof (rule keepsI)
  fix s :: "'a rm_state_scheme"
  assume "sched_inv s"
  then show "sched_inv (after (rm_switch_to r c f) s)"
    using keepsD [OF stepping_switch_to, of s r c f] switch_to_sched [of s r c f]
    unfolding sched_inv_def by blast
qed

lemma robust_sched: "ships e \<Longrightarrow> robust e sched_inv"
  by (simp add: robust_def steady_def free_vars_def sched_switch_to)
     (simp add: sched_inv_def stepping_def radio_inv_def ships_call ships_sleep)

lemma aside_sched: "aside sched_inv"
  by (simp add: aside_def sched_inv_def stepping_def radio_inv_def)

context switch_listener
begin

lemma step_reschedules:
  assumes "ships e" and "stepping s"
  shows "stepping (after (switch_step e to_wifi to_lte) s) \<and>
    (0 < result (switch_step e to_wifi to_lte) s \<or>
     \<not> g_switching_radios (after (switch_step e to_wifi to_lte) s))"
proof -
  note rob = robust_stepping [OF assms(1)]
  let ?Q = "\<lambda>t s. stepping s \<and> (0 < t \<or> \<not> g_switching_radios s)"
  have block: "triple stepping (or_else (pos_block c m) n) ?Q"
    if "keeps stepping m" "triple stepping n ?Q" for c m and n :: "('a rm_state_scheme, int) state"
    by (rule triple_or_else [OF triple_post [OF triple_pos_block [OF that(1)]] that(2)])
       (simp split: option.splits)
  have en: "triple stepping (do { set_info (\<lambda>i. i\<lparr>radio_enabled := True\<rparr>); pos_block c m })
      (\<lambda>r s. case r of Some t \<Rightarrow> 0 < t \<and> stepping s | None \<Rightarrow> stepping s)"
    if "keeps stepping m" for c and m :: "('a rm_state_scheme, int) state"
  proof (rule triple_bind)
    show "triple stepping (set_info (\<lambda>i. i\<lparr>radio_enabled := True\<rparr>)) (\<lambda>_. stepping)"
      by (simp add: triple_def run stepping_def radio_inv_def)
  qed (rule triple_pos_block [OF that])
  have en_block: "triple stepping
      (or_else (do { set_info (\<lambda>i. i\<lparr>radio_enabled := True\<rparr>); pos_block c m }) n) ?Q"
    if "keeps stepping m" "triple stepping n ?Q" for c and m n :: "('a rm_state_scheme, int) state"
    by (rule triple_or_else [OF triple_post [OF en [OF that(1)]] that(2)])
       (simp split: option.splits)
  have fin: "triple stepping (finish_switch e to_wifi to_lte) ?Q"
  proof (rule tripleI)
    fix t :: "'a rm_state_scheme"
    assume t: "stepping t"
    have "stepping (after (finish_switch e to_wifi to_lte) t)"
      by (rule keepsD [OF keeps_finish [OF rob listeners_keep [OF rob]] t])
         (auto simp: stepping_def radio_inv_def core_def rm_state.truncate_def)
    moreover have "\<not> g_switching_radios (after (finish_switch e to_wifi to_lte) t)"
      using finish_done [of t] t by (auto simp: stepping_def radio_inv_def)
    ultimately show "?Q (result (finish_switch e to_wifi to_lte) t) (after (finish_switch e to_wifi to_lte) t)"
      by simp
  qed
  have "triple stepping (switch_step e to_wifi to_lte) ?Q"
    unfolding switch_step_blocks
  proof (rule triple_bind [of _ _ "\<lambda>_. stepping"])
    show "triple stepping State_Monad.get (\<lambda>_. stepping)" by (simp add: triple_def)
  next
    fix a :: "'a rm_state_scheme"
    have wait: "triple stepping (return (1000 :: int)) ?Q" "triple stepping (return (5000 :: int)) ?Q"
      by (simp_all add: triple_def)
    note chain = block [OF keeps_enable_wifi [OF rob] block [OF keeps_enable_lte [OF rob]
      en_block [OF keeps_disable_wifi [OF rob] block [OF keeps_disable_lte [OF rob] fin]]]]
    show "triple stepping
      (if g_radio_mgmt a = False \<and> g_do_one_step a \<noteq> True then return 1000
       else if uptime (wld a) < 8000 then return 5000
       else
         or_else (pos_block (\<lambda>i. target_radio i = COMM_DEVICE_DA16200 \<and> radio_enabled i = False)
                    (enable_wifi e))
         (or_else (pos_block (\<lambda>i. target_radio i = COMM_DEVICE_NRF9160 \<and> radio_enabled i = False)
                    (enable_lte e))
         (or_else (do {
            set_info (\<lambda>i. i\<lparr>radio_enabled := True\<rparr>);
            pos_block (\<lambda>i. target_radio i \<noteq> COMM_DEVICE_DA16200 \<and> radio_disabled i = False)
              (disable_wifi e) })
         (or_else (pos_block (\<lambda>i. target_radio i \<noteq> COMM_DEVICE_NRF9160 \<and> radio_disabled i = False)
                    (disable_lte e))
           (finish_switch e to_wifi to_lte))))) ?Q"
      by (rule triple_if, rule wait, rule triple_if, rule wait, rule chain)
  qed
  then show ?thesis using assms(2) by (simp add: triple_def)
qed

lemma keeps_sched_event:
  assumes "ships e" and "ev \<noteq> EvStep"
  shows "keeps sched_inv (run_event e to_wifi to_lte ev)"
proof (cases "is_plain ev")
  case True
  show ?thesis
    by (rule keeps_plain_event [OF robust_sched [OF assms(1)] aside_sched True])
       (simp add: sched_inv_def stepping_def radio_inv_def)
next
  case False
  then consider "ev = EvSwitchWork" | "ev = EvTimer"
    using assms(2) by (auto simp: is_plain_def split: rm_event.splits)
  then show ?thesis
  proof cases
    case 1
    show ?thesis
    proof (rule keepsI)
      fix s :: "'a rm_state_scheme"
      assume s: "sched_inv s"
      let ?s = "s\<lparr>sr_work_pending := False\<rparr>"
      have "stepping ?s" using s by (simp add: sched_inv_def stepping_def radio_inv_def)
      note st = step_reschedules [OF assms(1) this]
      have "sched_inv (after (switch_radios_work_handler e to_wifi to_lte) ?s)"
        using st s
        by (auto simp: switch_radios_work_handler_def run sched_inv_def stepping_def radio_inv_def)
      with s 1 show "sched_inv (after (run_event e to_wifi to_lte ev) s)"
        by (simp add: run_event_def run)
    qed
  next
    case 2
    show ?thesis
      by (rule keepsI)
         (auto simp: 2 run_event_def timer_expired_def queue_switching_handler_def run sched_inv_def
            stepping_def radio_inv_def whenever_def)
  qed
qed

lemma reach_sched:
  "ships e \<Longrightarrow> rm_reach e to_wifi to_lte (\<lambda>ev. ev \<noteq> EvStep) s t \<Longrightarrow> sched_inv s \<Longrightarrow> sched_inv t"
  by (erule rm_reach_inv) (simp_all add: keeps_sched_event)

lemma keeps_radio_event: "keeps radio_inv (run_event e to_wifi to_lte ev)"
proof (cases "is_plain ev")
  case True
  show ?thesis
    by (rule keeps_plain_event [OF robust_radio_inv aside_radio_inv True]) (simp add: radio_inv_def)
next
  case False
  have "keeps radio_inv (switch_radios_work_handler e to_wifi to_lte)"
    by (rule keeps_switch_handler [OF robust_radio_inv listeners_keep [OF robust_radio_inv core_radio_inv]]) (auto simp: radio_inv_def)
  then have "keeps radio_inv (run_event e to_wifi to_lte EvSwitchWork)"
    by (simp add: run_event_def keeps_def run) (simp add: radio_inv_def)
  moreover have "keeps radio_inv (run_event e to_wifi to_lte EvTimer)"
    "keeps radio_inv (run_event e to_wifi to_lte EvStep)"
    by (simp_all add: run_event_def timer_expired_def do_step_def queue_switching_handler_def
        keeps_def run radio_inv_def)
  ultimately show ?thesis using False by (cases ev) (simp_all add: is_plain_def)
qed

lemma reach_radio: "rm_reach e to_wifi to_lte A s t \<Longrightarrow> radio_inv s \<Longrightarrow> radio_inv t"
  by (erule rm_reach_inv) (simp_all add: keeps_radio_event)

end

section \<open>The pool of work items\<close>

text \<open>
  \<open>pool_inv\<close>: the queued work items hold distinct entries of the pool, the pool is well formed and
  no assertion of \<^verbatim>\<open>wi.c\<close> has failed.
\<close>

definition pool_inv :: "'a rm_state_scheme \<Rightarrow> bool" where
  "pool_inv s \<longleftrightarrow>
     wr_inv (wr_pool s) \<and> \<not> wr_assert_failed s \<and> distinct (map fst (rm_work_items s)) \<and>
     set (map fst (rm_work_items s)) \<subseteq> wr_held (wr_pool s)"

text \<open>The same, with one held entry that no queued work item refers to: that of the running handler.\<close>

definition pool_held :: "nat \<Rightarrow> 'a rm_state_scheme \<Rightarrow> bool" where
  "pool_held i s \<longleftrightarrow> pool_inv s \<and> i \<in> wr_held (wr_pool s) \<and> i \<notin> set (map fst (rm_work_items s))"

lemma pool_view_switch_to:
  "wr_pool (after (rm_switch_to r c f) s) = wr_pool s \<and>
   wr_assert_failed (after (rm_switch_to r c f) s) = wr_assert_failed s \<and>
   rm_work_items (after (rm_switch_to r c f) s) = rm_work_items s"
  by (simp add: rm_switch_to_def queue_switching_handler_def run whenever_def)

lemma robust_pool_inv: "robust e pool_inv"
  by (simp add: robust_def steady_def free_vars_def keeps_def pool_inv_def pool_view_switch_to)

lemma robust_pool_held: "robust e (pool_held i)"
  by (simp add: robust_def steady_def free_vars_def keeps_def pool_held_def pool_inv_def
      pool_view_switch_to)

lemma core_pool_inv: "core pool_inv"
  by (auto simp: core_def pool_inv_def rm_state.truncate_def)

lemma release_held: "triple (pool_held i) (wr_release i) (\<lambda>_. pool_inv)"
proof (rule tripleI)
  fix s :: "'a rm_state_scheme"
  assume s: "pool_held i s"
  then obtain q where "wr_put i (wr_pool s) = Inr q" "wr_inv q" "wr_held q = wr_held (wr_pool s) - {i}"
    using wr_put_step [of "wr_pool s" i] by (auto simp: pool_held_def pool_inv_def)
  with s show "pool_inv (after (wr_release i) s)"
    by (auto simp: wr_release_def pool_held_def pool_inv_def)
qed

lemma keeps_free_info_held: "keeps (pool_held i) free_info"
  by (simp add: keeps_def free_info_def pool_held_def pool_inv_def)

lemma free_release: "triple (pool_held i) (do { free_info; wr_release i }) (\<lambda>_. pool_inv)"
  by (rule triple_bind [OF _ release_held]) (rule keeps_free_info_held [unfolded keeps_triple])

lemma body_release:
  "keeps (pool_held i) m \<Longrightarrow> triple (pool_held i) (do { m; free_info; wr_release i }) (\<lambda>_. pool_inv)"
  unfolding keeps_triple by (rule triple_bind [OF _ free_release])

lemma triple_get: "(\<And>s. triple P (m s) Q) \<Longrightarrow> triple P (do { s \<leftarrow> State_Monad.get; m s }) Q"
  by (simp add: triple_def)

lemma rm_da_releases: "triple (pool_held i) (rm_da_work_handler e i ev) (\<lambda>_. pool_inv)"
  unfolding rm_da_work_handler_def
  by (intro triple_get body_release keeps_intro robust_pool_held)

lemma rm_9160_releases: "triple (pool_held i) (rm_9160_work_handler i cb fl) (\<lambda>_. pool_inv)"
  unfolding rm_9160_work_handler_def
  by (intro triple_get body_release keeps_intro robust_pool_held)

text \<open>The early returns of the USB and Bluetooth handler release the work item themselves.\<close>

definition released :: "nat \<Rightarrow> 'b option \<Rightarrow> 'a rm_state_scheme \<Rightarrow> bool" where
  "released i r s \<longleftrightarrow> (case r of Some _ \<Rightarrow> pool_inv s | None \<Rightarrow> pool_held i s)"

lemma usb_block:
  assumes "\<And>s. keeps (pool_held i) (m s)"
  shows "triple (pool_held i) (do {
       s \<leftarrow> State_Monad.get;
       if c s then do {
         ret \<leftarrow> call e d;
         if ret \<noteq> 0 then do { wr_release i; return (Some ()) }
         else do { m s; return None }
       } else return None }) (released i)"
proof -
  have c: "triple (pool_held i) (call e d) (\<lambda>_. pool_held i)"
    using keeps_call [OF robust_pool_held] by (simp add: keeps_triple)
  have r: "triple (pool_held i) (do { wr_release i; return (Some ()) }) (released i)"
    by (rule triple_bind [OF release_held]) (simp add: triple_def released_def)
  have m: "triple (pool_held i) (do { m s; return None }) (released i)" for s
    by (rule triple_bind [OF assms [unfolded keeps_triple]]) (simp add: triple_def released_def)
  show ?thesis
    by (intro triple_get triple_if triple_bind [OF c] r m) (simp add: triple_def released_def)
qed

lemma usb_bt_blocks:
  "triple (pool_held i) (usb_bt_prep e i) (released i)"
  "triple (pool_held i) (usb_bt_release e i) (released i)"
proof -
  note rules = keeps_intro robust_pool_held
  have "keeps (pool_held i) (do {
         modify (\<lambda>s. s\<lparr>g_use_sleep := False\<rparr>);
         wifi_disconnect_from_AP e 1000;
         forget_ap;
         insure_da_is_awake e;
         modify (\<lambda>s. s\<lparr>g_usb_bt_prepped_radio := True\<rparr>);
         call e WifiReleaseMutex })"
    unfolding forget_ap_def by (intro rules)
  from usb_block [OF this, where e = e and d = "WifiGetMutex 5000" and
      c = "\<lambda>s. (g_usb_connected s \<or> g_bt_connected s) \<and> \<not> g_usb_bt_prepped_radio s"]
  show "triple (pool_held i) (usb_bt_prep e i) (released i)"
    by (simp add: usb_bt_prep_def cong: if_cong)
  have "keeps (pool_held i) (do {
         modify (\<lambda>s. s\<lparr>g_use_sleep := True\<rparr>);
         wifi_disconnect_from_AP e 1000;
         forget_ap;
         return_da_to_sleep e;
         modify (\<lambda>s. s\<lparr>g_usb_bt_prepped_radio := False\<rparr>);
         call e WifiReleaseMutex })"
    unfolding forget_ap_def by (intro rules)
  from usb_block [OF this, where e = e and d = "WifiGetMutex 5000" and
      c = "\<lambda>s. (\<not> g_usb_connected s \<and> \<not> g_bt_connected s) \<and> g_usb_bt_prepped_radio s"]
  show "triple (pool_held i) (usb_bt_release e i) (released i)"
    by (simp add: usb_bt_release_def cong: if_cong)
qed

lemma triple_released_or_else:
  assumes "triple (pool_held i) p (released i)" and "triple (pool_held i) m (released i)"
  shows "triple (pool_held i) (or_else (do { r \<leftarrow> p; return (map_option Some r) }) m) (released i)"
  by (rule triple_or_else [OF triple_bind [OF assms(1)] assms(2)])
     (simp add: triple_def released_def split: option.split)

lemma usb_bt_releases: "triple (pool_held i) (usb_bt_connection_work_handler e i) (\<lambda>_. pool_inv)"
proof -
  let ?last = "do {
      modify (\<lambda>s. s\<lparr>last_usb_connected := g_usb_connected s, last_bt_connected := g_bt_connected s\<rparr>);
      return (None :: unit option) }"
  have last: "triple (pool_held i) ?last (released i)"
    by (simp add: triple_def released_def pool_held_def pool_inv_def)
  have none: "triple (pool_held i) (return (None :: unit option)) (released i)"
    by (simp add: triple_def released_def)
  note blocks = triple_released_or_else [OF usb_bt_blocks(1)
      triple_released_or_else [OF usb_bt_blocks(2) last]]
  have "triple (pool_held i) (or_else (if c then or_else
           (do { r \<leftarrow> usb_bt_prep e i; return (map_option Some r) })
           (or_else (do { r \<leftarrow> usb_bt_release e i; return (map_option Some r) }) ?last)
         else return None) (do { free_info; wr_release i })) (\<lambda>_. pool_inv)" for c
    by (rule triple_or_else [OF _ free_release], rule triple_post [OF triple_if [OF blocks none]])
       (simp_all add: released_def split: option.splits)
  then show ?thesis
    unfolding usb_bt_connection_work_handler_def by (rule triple_get)
qed

lemma work_item_releases: "triple (pool_held (fst item)) (run_work_item e item) (\<lambda>_. pool_inv)"
  unfolding run_work_item_def
  by (cases "snd item") (simp_all add: rm_da_releases rm_9160_releases usb_bt_releases)

lemma listener_keeps_pool: "keeps pool_inv (radio_mgr_listener mem r msg)"
proof (rule keepsI)
  fix s :: "'a rm_state_scheme"
  assume s: "pool_inv s"
  show "pool_inv (after (radio_mgr_listener mem r msg) s)"
  proof (cases "wr_free_list (wr_pool s)")
    case Nil
    then show ?thesis using s
      by (simp add: radio_mgr_listener_def run wr_get_empty free_info_def pool_inv_def)
  next
    case (Cons i rest)
    with s obtain q where q: "wr_get (Some ()) 1808 (wr_pool s) = Inr (Some i, q)" "wr_inv q"
        "i \<notin> wr_held (wr_pool s)" "wr_held q = insert i (wr_held (wr_pool s))"
      using wr_get_step [of "wr_pool s" i rest 1808 "Some ()"] by (auto simp: pool_inv_def)
    then obtain q' where "wr_put i q = Inr q'" "wr_inv q'" "wr_held q' = wr_held (wr_pool s)"
      using wr_put_step [of q i] by auto
    with q s show ?thesis
      by (cases msg) (auto simp: radio_mgr_listener_def run wr_release_def free_info_def pool_inv_def)
  qed
qed

context switch_listener
begin

lemma keeps_pool_event: "keeps pool_inv (run_event e to_wifi to_lte ev)"
proof -
  note rules = keeps_intro keeps_get robust_pool_inv
  have sw: "keeps pool_inv (switch_radios_work_handler e to_wifi to_lte)"
    by (rule keeps_switch_handler [OF robust_pool_inv listeners_keep [OF robust_pool_inv core_pool_inv]]) (auto simp: pool_inv_def)
  have m: "keeps pool_inv (modify (\<lambda>s. s\<lparr>sr_work_pending := b\<rparr>))"
    "keeps pool_inv (modify (\<lambda>s. s\<lparr>g_do_one_step := b\<rparr>))"
    "keeps pool_inv (modify (\<lambda>s. s\<lparr>continue_switching_timer := None\<rparr>))"
    "keeps pool_inv (modify (\<lambda>s. s\<lparr>connecting_to_ap_pending := b\<rparr>))" for b
    by (simp_all add: keeps_def pool_inv_def)
  have item: "keeps pool_inv (run_event e to_wifi to_lte EvWorkItem)"
  proof (rule keepsI)
    fix s :: "'a rm_state_scheme"
    assume s: "pool_inv s"
    show "pool_inv (after (run_event e to_wifi to_lte EvWorkItem) s)"
    proof (cases "rm_work_items s")
      case Nil
      with s show ?thesis by (simp add: run_event_def run)
    next
      case (Cons item rest)
      with s have "pool_held (fst item) (s\<lparr>rm_work_items := rest\<rparr>)"
        by (auto simp: pool_held_def pool_inv_def)
      from tripleD [OF work_item_releases this] Cons show ?thesis
        by (simp add: run_event_def run)
    qed
  qed
  show ?thesis
    by (cases ev)
       (use item in \<open>simp_all add: run_event_def drop_result_def timer_expired_def do_step_def
          queue_switching_handler_def listener_keeps_pool rules sw m\<close>)
qed

lemma reach_pool: "rm_reach e to_wifi to_lte A s t \<Longrightarrow> pool_inv s \<Longrightarrow> pool_inv t"
  by (erule rm_reach_inv) (simp_all add: keeps_pool_event)

end

end
