(* ===== verification/RadioProps.thy ===== *)
theory RadioProps
  imports RadioInv
begin

text \<open>
  What the single operations of the radio manager promise their callers: the reference counts of
  prepared radios, what a prepared radio and an enabled LTE radio are, the request to switch on
  each of its branches, and the silence of a collar that has not been shipped.  The last section
  holds the behaviour that the callers do not expect.
\<close>

section \<open>Reference counts\<close>

lemma prepare_done_counts:
  assumes "0 \<le> sint (prep_ref_cnt s (radio_idx d))" and "sint (prep_ref_cnt s (radio_idx d)) < 2 ^ 15 - 1"
    and "result (rm_prepare_radio_for_use e d mq t) s" and "prep_ref_cnt s' = prep_ref_cnt (after (rm_prepare_radio_for_use e d mq t) s)"
  shows "prep_ref_cnt (after (rm_done_with_radio e d) s') = prep_ref_cnt s"
  using assms sint_plus_1 [OF assms(2)]
  by (simp add: prepare_counts done_counts)

text \<open>
  Claim C19.  Preparing a radio and releasing it again leaves both reference counts as they were,
  and a preparation that fails leaves them at once, for counts that do not overflow 16 bits.
\<close>

theorem prepare_done_balance:
  assumes "counts_ok (prep_ref_cnt s)"
  shows "prep_ref_cnt (if result (rm_prepare_radio_for_use e d mq t) s
      then after (rm_done_with_radio e d) (after (rm_prepare_radio_for_use e d mq t) s)
      else after (rm_prepare_radio_for_use e d mq t) s) = prep_ref_cnt s"
proof (cases "result (rm_prepare_radio_for_use e d mq t) s")
  case True
  with assms show ?thesis
    by (simp add: counts_ok_def prepare_done_counts [OF _ _ True refl])
next
  case False
  then show ?thesis by (simp add: prepare_counts)
qed

definition mute :: env where
  "mute = \<lparr>answer = (\<lambda>d w. (0, w)), passing = (\<lambda>ms w. w)\<rparr>"

definition da_unknown :: da_state where
  "da_unknown =
     \<lparr>ap_connected = DA_STATE_UNKNOWN, ap_safe = DA_STATE_UNKNOWN, ap_disconnect_reason = [],
      ap_name = [], ip_address = [], dpm_mode = DA_STATE_UNKNOWN, is_sleeping = DA_STATE_UNKNOWN,
      mqtt_enabled = DA_STATE_UNKNOWN, mqtt_broker_connected = DA_STATE_UNKNOWN,
      onboarded = DA_STATE_UNKNOWN, mqtt_on_boot = DA_STATE_UNKNOWN, powered_on = DA_STATE_UNKNOWN,
      da_rssi = 0\<rparr>"

definition world0 :: world where
  "world0 =
     \<lparr>uptime = 10000, da = da_unknown, status_flags = 0, g_last_sleep_time = 0, shipping_flag = True,
      modem_powered = False, cached_zones = replicate 5 \<lparr>z_ssid = [], z_safe = False\<rparr>,
      cached_zones_valid = True, g_last_ssid_list = [], g_last_ssid_scan_time = 0,
      g_last_ap_name = [], utc_time = 0, calls = []\<rparr>"

theorem prepare_done_balance_witness:
  "prep_ref_cnt (if result (rm_prepare_radio_for_use mute COMM_DEVICE_NRF9160 False 3000) (rm_boot world0)
      then after (rm_done_with_radio mute COMM_DEVICE_NRF9160)
             (after (rm_prepare_radio_for_use mute COMM_DEVICE_NRF9160 False 3000) (rm_boot world0))
      else after (rm_prepare_radio_for_use mute COMM_DEVICE_NRF9160 False 3000) (rm_boot world0))
    = (\<lambda>_. 0)"
  by (subst prepare_done_balance) (simp_all add: rm_boot_def counts_ok_def)

lemma same_connect_and_wait [same_intro]: "apart f \<Longrightarrow> same f (connect_and_wait e)"
  unfolding connect_and_wait_def by (intro same_intro apart_private)

lemma apart_free:
  "same prep_ref_cnt (set_connecting b)" "same prep_ref_cnt (set_attempt g)"
  by (simp_all add: same_def run)

text \<open>
  The handler that connects to an access point is balanced: on every path it has
  released what it prepared, so the counts of other users of the radio are as before.
\<close>

theorem connecting_handler_balanced:
  fixes s :: "'a rm_state_scheme"
  assumes "counts_ok (prep_ref_cnt s)"
  shows "prep_ref_cnt (after (connecting_to_ap_work_handler e) s) = prep_ref_cnt s"
proof -
  let ?I = "\<lambda>t :: 'a rm_state_scheme. prep_ref_cnt t = prep_ref_cnt s"
  let ?prep = "rm_prepare_radio_for_use e COMM_DEVICE_DA16200 False 3000"
  have use: "keeps ?I (do { ok \<leftarrow> ?prep;
      whenever ok (do { connect_and_wait e; rm_done_with_radio e COMM_DEVICE_DA16200; skip }) })"
  proof (rule keepsI)
    fix t :: "'a rm_state_scheme"
    assume t: "?I t"
    have "prep_ref_cnt (after (connect_and_wait e) u) = prep_ref_cnt u" for u :: "'a rm_state_scheme"
      by (rule sameD, rule same_connect_and_wait) simp
    with assms t show "?I (after (do { ok \<leftarrow> ?prep;
      whenever ok (do { connect_and_wait e; rm_done_with_radio e COMM_DEVICE_DA16200; skip }) }) t)"
      by (cases "result ?prep t")
         (simp_all add: counts_ok_def prepare_counts prepare_done_counts [of t _ e False 3000])
  qed
  have leaf: "keeps ?I m" if "same prep_ref_cnt m" for m :: "('a rm_state_scheme, 'c) state"
    using that by (simp add: keeps_def same_def)
  have leaves: "keeps ?I (call e d)" "keeps ?I (set_connecting b)" "keeps ?I (ksleep e ms)"
      "keeps ?I (wifi_disconnect_from_AP e tm)" for d b ms tm
    by (simp_all add: keeps_def run sameD [OF same_disconnect])
  have "keeps ?I (connecting_to_ap_work_handler e)"
    unfolding connecting_to_ap_work_handler_def
    by (rule use leaves keeps_bind keeps_if keeps_whenever keeps_return keeps_gets)+
  then show ?thesis by (simp add: keeps_def)
qed

theorem connecting_handler_balanced_witness:
  "prep_ref_cnt (after (connecting_to_ap_work_handler mute)
     (after (rm_connect_to_AP mute ''home'' ''secret'' 3 0 1) (rm_boot world0))) = (\<lambda>_. 0)"
proof -
  let ?s = "after (rm_connect_to_AP mute ''home'' ''secret'' 3 0 1) (rm_boot world0)"
  have "?s = ?s" by simp
  have "prep_ref_cnt ?s = prep_ref_cnt (rm_boot world0)"
    by (rule sameD) (simp add: rm_connect_to_AP_def same_intro apart_free queue_connect_to_ap_work_def
        same_modify)
  then have z: "prep_ref_cnt ?s = (\<lambda>_. 0)" by (simp add: rm_boot_def)
  show ?thesis
    by (subst connecting_handler_balanced) (simp_all only: z counts_ok_def, simp)
qed

section \<open>Prepared and enabled radios\<close>

text \<open>
  A radio prepared for MQTT is connected to its broker when the preparation reports
  success: the DA16200 says so in its shadow, the nRF9160 in its status flags.
\<close>

theorem prepared_radio_is_ready:
  assumes "result (rm_prepare_radio_for_use e d True t) s"
    and "d = COMM_DEVICE_DA16200 \<or> d = COMM_DEVICE_NRF9160"
  shows "(d = COMM_DEVICE_DA16200 \<longrightarrow>
      mqtt_broker_connected (das (after (rm_prepare_radio_for_use e d True t) s)) = DA_STATE_KNOWN_TRUE) \<and>
    (d = COMM_DEVICE_NRF9160 \<longrightarrow> is_lte_mqtt_connected (after (rm_prepare_radio_for_use e d True t) s))"
  using assms
  by (auto simp: rm_prepare_radio_for_use_def run is_lte_mqtt_connected_def split: if_splits
      dest: poll_until_cond)

theorem prepared_radio_is_ready_witness:
  "is_lte_mqtt_connected (after (rm_prepare_radio_for_use mute COMM_DEVICE_NRF9160 True 100)
     (rm_boot (world0\<lparr>status_flags := 16\<rparr>)))"
proof -
  have "modem_bit STATUS_MQTT_CONNECTED (world0\<lparr>status_flags := 16\<rparr>)"
    by (simp add: modem_bit_def status_getBit_bit)
  then have "result (rm_prepare_radio_for_use mute COMM_DEVICE_NRF9160 True 100)
      (rm_boot (world0\<lparr>status_flags := 16\<rparr>))"
    by (simp add: rm_prepare_radio_for_use_def run poll_until_now rm_boot_def)
  from prepared_radio_is_ready [OF this] show ?thesis by simp
qed

text \<open>
  \<open>lte_set_mqtt_enable\<close> returns 0 only when the modem has reported the requested state,
  and asks the modem for it at most once.
\<close>

theorem lte_set_mqtt_enable_ok:
  assumes "result (lte_set_mqtt_enable e on t) s = 0"
  shows "is_lte_mqtt_enabled (after (lte_set_mqtt_enable e on t) s) = on \<and>
    calls (wld (after (lte_set_mqtt_enable e on t) s)) =
      calls (wld s) @ (if is_lte_mqtt_enabled s = on then [] else [if on then ModemStartMqtt else ModemStopMqtt])"
proof -
  have quiet: "calls (snd (poll_until e p c None dl w)) = calls w" for p c dl w
    by (rule poll_until_inv [where I = "\<lambda>w'. calls w' = calls w"]) simp_all
  show ?thesis
    using assms
    by (auto simp: lte_set_mqtt_enable_def run is_lte_mqtt_enabled_def quiet split: if_splits
        dest: poll_until_cond)
qed

text \<open>A modem that does what it is told at once.\<close>

definition obedient :: env where
  "obedient = \<lparr>answer = (\<lambda>d w. (0,
       case d of ModemStartMqtt \<Rightarrow> w\<lparr>status_flags := 2048\<rparr>
       | ModemStopMqtt \<Rightarrow> w\<lparr>status_flags := 0\<rparr>
       | ModemPowerOn \<Rightarrow> w\<lparr>modem_powered := True\<rparr>
       | ModemPowerOff \<Rightarrow> w\<lparr>modem_powered := False\<rparr>
       | _ \<Rightarrow> w)),
     passing = (\<lambda>ms w. w)\<rparr>"

theorem lte_set_mqtt_enable_ok_witness:
  "is_lte_mqtt_enabled (after (lte_set_mqtt_enable obedient True 1000) (rm_boot world0))"
proof -
  have off: "\<not> is_lte_mqtt_enabled (rm_boot world0)"
    by (simp add: is_lte_mqtt_enabled_def modem_bit_def status_getBit_bit rm_boot_def world0_def)
  have on: "modem_bit STATUS_MQTT_ENABLED (snd (do_call obedient ModemStartMqtt w))" for w
    by (simp add: modem_bit_def status_getBit_bit do_call_def obedient_def advance_def)
  have ret: "fst (do_call obedient d w) = 0" for d w
    by (simp add: do_call_def obedient_def)
  have "result (lte_set_mqtt_enable obedient True 1000) (rm_boot world0) = 0"
    using off by (simp add: lte_set_mqtt_enable_def run ret on poll_until_now)
  from lte_set_mqtt_enable_ok [OF this] show ?thesis by simp
qed

text \<open>A block that waits ends its function with a positive time.\<close>

definition waits :: "('a rm_state_scheme, int option) state \<Rightarrow> bool" where
  "waits m \<longleftrightarrow> (\<forall>s. \<exists>t > 0. result m s = Some t)"

named_theorems waits_intro "blocks that wait"

lemma waits_return [waits_intro]: "0 < t \<Longrightarrow> waits (return (Some t))"
  by (simp add: waits_def)

lemma waits_bind [waits_intro]: "(\<And>a. waits (f a)) \<Longrightarrow> waits (State_Monad.bind m f)"
  by (simp add: waits_def)

lemma waits_if [waits_intro]: "waits m \<Longrightarrow> waits n \<Longrightarrow> waits (if b then m else n)"
  by (simp add: waits_def)

lemma waits_timed_op [waits_intro]:
  "waits m \<Longrightarrow> (\<And>t. 0 < g t) \<Longrightarrow> waits n \<Longrightarrow> waits (timed_op t op k m g n)"
  unfolding timed_op_def by (intro waits_bind waits_if waits_return) simp_all

lemma waits_fail_op [waits_intro]: "0 < t \<Longrightarrow> waits (fail_op t)"
  unfolding fail_op_def by (intro waits_intro)

lemma block_if_waits:
  "waits m \<Longrightarrow> result (or_else (block_if c m) n) s = 0 \<Longrightarrow>
   \<not> c s \<and> result n s = 0 \<and> after (or_else (block_if c m) n) s = after n s"
proof -
  assume "waits m" and r: "result (or_else (block_if c m) n) s = 0"
  then obtain t where t: "0 < t" "result m s = Some t" by (auto simp: waits_def)
  with r show ?thesis
    by (cases "c s") (simp_all add: block_if_def result_or_else after_or_else)
qed

lemma el_blocks_wait:
  "waits (timed_op 1500 SRS_TURNING_OFF_BROKER 3 (do {
          b \<leftarrow> rm_prepare_radio_for_use e COMM_DEVICE_DA16200 False 3000;
          if b = False then return (Some 500)
          else do {
            call e (WifiSetMqttState False 500);
            rm_done_with_radio e COMM_DEVICE_DA16200;
            return (Some 500) } })
       (\<lambda>_. 500) (do { call e WifiReset; return (Some 1000) }))"
  "waits (timed_op 4000 SRS_WAIT_FOR_LTE_READY 3
       (do { ret \<leftarrow> call e ModemPowerOn; if ret \<noteq> 0 then fail_op 500 else return (Some 500) })
       (\<lambda>_. 500) (hard_reset_modem e 1000))"
  "waits (timed_op 1500 SRS_ENABLING_LTE_MQTT 3
       (do { lte_set_mqtt_enable e True 1000; return (Some 500) })
       (\<lambda>_. 500) (hard_reset_modem e 200))"
  unfolding hard_reset_modem_def by (intro waits_intro; simp)+

text \<open>
  \<open>enable_lte\<close> answers 0 (done) only in a state where the modem is powered and has MQTT
  enabled, and then it has changed nothing: every action it takes is followed by another check.
\<close>

theorem enable_lte_done:
  assumes "result (enable_lte e) s = 0"
  shows "modem_is_powered_on s \<and> is_lte_mqtt_enabled s \<and> after (enable_lte e) s = s"
proof -
  let ?rest = "or_else (block_if lte_is_up (return (Some 0)))
      (or_else (el_power e) (or_else (el_mqtt_on e) (return 0)))"
  have up: "result ?rest s = 0" "after (enable_lte e) s = after ?rest s"
    using block_if_waits [OF el_blocks_wait(1)] assms
    unfolding enable_lte_def el_wifi_mqtt_off_def by blast+
  show ?thesis
  proof (cases "lte_is_up s")
    case True
    with up show ?thesis
      by (simp add: block_if_def lte_is_up_def result_or_else after_or_else)
  next
    case False
    with up have rest: "result (or_else (el_power e) (or_else (el_mqtt_on e) (return 0))) s = 0"
      "after (enable_lte e) s = after (or_else (el_power e) (or_else (el_mqtt_on e) (return 0))) s"
      by (simp_all add: block_if_def result_or_else after_or_else)
    from block_if_waits [OF el_blocks_wait(2)] this
    have p: "modem_is_powered_on s" "result (or_else (el_mqtt_on e) (return 0)) s = 0"
      "after (enable_lte e) s = after (or_else (el_mqtt_on e) (return 0)) s"
      unfolding el_power_def by auto
    from block_if_waits [OF el_blocks_wait(3)] this(2,3) p(1) show ?thesis
      unfolding el_mqtt_on_def by auto
  qed
qed

theorem enable_lte_done_witness:
  "after (enable_lte mute) (rm_boot (world0\<lparr>status_flags := 2052, modem_powered := True\<rparr>)) =
     rm_boot (world0\<lparr>status_flags := 2052, modem_powered := True\<rparr>)"
proof -
  let ?s = "rm_boot (world0\<lparr>status_flags := 2052, modem_powered := True\<rparr>)"
  have "lte_is_up ?s"
    by (simp add: lte_is_up_def modem_is_powered_on_def is_lte_mqtt_enabled_def modem_bit_def
        has_lte_been_connected_def status_getBit_bit rm_boot_def)
  then have "result (enable_lte mute) ?s = 0"
    by (simp add: enable_lte_def el_wifi_mqtt_off_def block_if_def run) (simp add: rm_boot_def)
  from enable_lte_done [OF this] show ?thesis by simp
qed

section \<open>Asking for a switch\<close>

text \<open>
  \<open>rm_switch_to\<close> on each of its branches: a switch to the radio that is already the target,
  and a switch to Wi-Fi while Wi-Fi is disabled, are accepted and change nothing; other devices are
  refused; a forced switch makes the radio active at once and ends the switch under way; any other
  request sets the target and starts the machine when it is idle.  \<open>clear_existing_radio\<close> has no effect.
\<close>

theorem rm_switch_to_spec:
  "run_state (rm_switch_to radio clr force) s =
     (if g_switching_radios s \<and> target_radio (sr_info s) = radio then (0, s)
      else if \<not> g_use_wifi s \<and> radio = COMM_DEVICE_DA16200 then (0, s)
      else if radio \<notin> {COMM_DEVICE_NRF9160, COMM_DEVICE_DA16200} then (-1, s)
      else if force then
        (0, s\<lparr>sr_info := (sr_info s)\<lparr>radio_disabled := False, radio_enabled := False\<rparr>,
              g_active_radio := radio, g_switching_radios := False, g_switching_radios_start := 0\<rparr>)
      else
        (0, s\<lparr>sr_info := (sr_info s)\<lparr>radio_disabled := False, radio_enabled := False, target_radio := radio\<rparr>,
              g_switching_radios := True, g_switching_radios_start := of_nat (uptime (wld s)),
              sr_work_pending := (if g_switching_radios s then sr_work_pending s else True)\<rparr>))"
  by (cases "g_switching_radios s"; cases force; cases radio;
      simp add: rm_switch_to_def queue_switching_handler_def run_state_eq run k_uptime_get_def)

text \<open>
  A collar that has not been shipped makes no calls to its chips for switching radios,
  waking the DA16200 or letting it sleep, and the switching handler changes nothing at all.
\<close>

theorem unshipped_is_silent:
  assumes "\<not> shipping_flag (wld s)"
  shows "after (switch_radios_work_handler e to_wifi to_lte) s = s \<and>
    after (insure_da_is_awake e) s = s \<and> after (return_da_to_sleep e) s = s"
  using assms
  by (simp add: switch_radios_work_handler_def insure_da_is_awake_def return_da_to_sleep_def)

theorem unshipped_is_silent_witness:
  "after (switch_radios_work_handler mute (return 0) (return 0)) (rm_boot (world0\<lparr>shipping_flag := False\<rparr>)) =
     rm_boot (world0\<lparr>shipping_flag := False\<rparr>)"
  using unshipped_is_silent [of "rm_boot (world0\<lparr>shipping_flag := False\<rparr>)" mute] by (simp add: rm_boot_def)

section \<open>Behaviour the callers do not expect\<close>

text \<open>
  Disabling Wi-Fi does not stop a switch to the DA16200 that is under way: the target
  stays, no switch to LTE is asked for, and the machine goes on.
\<close>

theorem wifi_disable_keeps_switching:
  assumes "g_use_wifi s" and "g_switching_radios s" and "target_radio (sr_info s) = COMM_DEVICE_DA16200"
    and "g_active_radio s \<noteq> COMM_DEVICE_DA16200"
  shows "after (rm_wifi_enable False) s = s\<lparr>g_use_wifi := False\<rparr>"
  using assms by (simp add: rm_wifi_enable_def run)

theorem wifi_disable_keeps_switching_witness:
  "target_radio (sr_info (after (rm_wifi_enable False)
      (after (rm_switch_to COMM_DEVICE_DA16200 False False) (rm_boot world0)))) = COMM_DEVICE_DA16200"
  by (subst wifi_disable_keeps_switching)
     (simp_all add: rm_switch_to_def run rm_boot_def queue_switching_handler_def whenever_def)

text \<open>
  A status message whose only change is MQTT_ENABLED is ignored by the radio manager: the
  handler masks the change bits with the bit position 11 instead of the bit, so it only frees the
  message.
\<close>

theorem mqtt_enabled_change_ignored:
  "run_state (rm_9160_work_handler wr (update_status STATUS_MQTT_ENABLED) flags) s =
     run_state (do { free_info; wr_release wr }) s"
  by (simp add: rm_9160_work_handler_def update_status_def run_state_eq)

text \<open>
  When Wi-Fi is disabled between a request to connect and its handler, the handler leaves
  \<open>g_is_connecting_to_ap\<close> set: every later request is answered \<open>-EAGAIN\<close>, also with Wi-Fi enabled
  again, and the manager reports that it is switching radios.
\<close>

theorem connecting_flag_stuck:
  assumes "g_is_connecting_to_ap s" and "\<not> g_use_wifi s"
  shows "after (connecting_to_ap_work_handler e) s = s \<and>
    (let t = after (rm_wifi_enable True) (after (connecting_to_ap_work_handler e) s)
     in g_use_wifi t \<and> rm_is_switching_radios t \<and>
        result (rm_connect_to_AP e ssid password sec keyidx enc) t = - EAGAIN \<and>
        result (rm_connect_to_AP_by_index idx) t = - EAGAIN)"
  using assms
  by (simp add: connecting_to_ap_work_handler_def rm_wifi_enable_def run rm_connect_to_AP_def
      rm_connect_to_AP_by_index_def rm_is_switching_radios_def whenever_def)

theorem connecting_flag_stuck_witness:
  "result (rm_connect_to_AP mute ''home'' ''secret'' 3 0 1)
     (after (rm_wifi_enable True) (after (connecting_to_ap_work_handler mute)
       ((rm_boot world0)\<lparr>g_is_connecting_to_ap := True, g_use_wifi := False\<rparr>))) = - EAGAIN"
  by (rule connecting_flag_stuck [unfolded Let_def, THEN conjunct2, THEN conjunct2, THEN conjunct2,
        THEN conjunct1]) simp_all

text \<open>
  When the Wi-Fi mutex is not available, the handler of a USB or Bluetooth change gives the
  work item back but does not free the message, unlike on its other paths.
\<close>

theorem usb_bt_mutex_leak:
  assumes "wr_inv (wr_pool s)" and "wr \<in> wr_held (wr_pool s)"
    and "last_usb_connected s \<noteq> g_usb_connected s" and "g_usb_connected s" and "\<not> g_usb_bt_prepped_radio s"
    and "fst (do_call e (WifiGetMutex 5000) (wld s)) \<noteq> 0"
  shows "rm_live_infos (after (usb_bt_connection_work_handler e wr) s) = rm_live_infos s \<and>
    wr \<notin> wr_held (wr_pool (after (usb_bt_connection_work_handler e wr) s))"
proof -
  obtain q where "wr_put wr (wr_pool s) = Inr q" "wr_held q = wr_held (wr_pool s) - {wr}"
    using wr_put_step [OF assms(1,2)] by blast
  with assms(3-) show ?thesis
    by (simp add: usb_bt_connection_work_handler_def usb_bt_prep_def run wr_release_def)
qed

theorem usb_bt_mutex_leak_witness:
  "rm_live_infos (after (usb_bt_connection_work_handler (mute\<lparr>answer := \<lambda>d w. (-1, w)\<rparr>) 0)
     (after (radio_mgr_listener True 0 (UsbPowerMsg True)) (rm_boot world0))) = 1"
proof -
  let ?boot = "rm_boot world0" and ?e = "mute\<lparr>answer := \<lambda>d w. (-1, w)\<rparr>"
  let ?s = "after (radio_mgr_listener True 0 (UsbPowerMsg True)) ?boot"
  have inv: "wr_inv (wr_pool ?boot)" by (simp add: rm_boot_def wr_inv_boot)
  have free: "wr_free_list (wr_pool ?boot) = 0 # [1..<MAX_WORK_ITEMS]"
    by (simp add: rm_boot_def wr_init_free wr_static_def) (simp add: MAX_WORK_ITEMS_def upt_conv_Cons)
  obtain q where q: "wr_get (Some ()) 1808 (wr_pool ?boot) = Inr (Some 0, q)" "wr_inv q"
      "wr_held q = insert 0 (wr_held (wr_pool ?boot))"
    using wr_get_step [OF inv free, of 1808] by auto
  then have s: "?s = ?boot\<lparr>rm_live_infos := 1, wr_pool := q, g_usb_connected := True,
      rm_work_items := [(0, UsbPowerMsg True)]\<rparr>"
    by (simp add: radio_mgr_listener_def run) (simp add: rm_boot_def)
  have "fst (do_call ?e d w) \<noteq> 0" for d w by (simp add: do_call_def)
  with q have "rm_live_infos (after (usb_bt_connection_work_handler ?e 0) ?s) = rm_live_infos ?s"
    by (intro usb_bt_mutex_leak [THEN conjunct1]) (simp_all add: s, simp_all add: rm_boot_def)
  then show ?thesis by (simp add: s)
qed

end
