(* ===== verification/SavedApProps.thy ===== *)
theory SavedApProps
  imports RadioProps "HOL-Library.Multiset"
begin

text \<open>
  Properties of the saved access points (theory \<open>SavedAps\<close>) and of the pool of work items
  (theory \<open>WorkRef\<close>): look-up after insertion, the slot an insertion takes, the size of the AT
  command, the choice of the access point to reconnect to, and what a pool hands out.
\<close>

section \<open>Slots\<close>

definition zones_ok :: "world \<Rightarrow> bool" where
  "zones_ok w \<longleftrightarrow> cached_zones_valid w \<and> length (cached_zones w) = MAX_SAVED_SSIDS"

lemma max_saved: "[0..<MAX_SAVED_SSIDS] = [0, 1, 2, 3, 4]"
  by (simp add: MAX_SAVED_SSIDS_def upt_rec)

lemma first_idx_least:
  assumes "i < MAX_SAVED_SSIDS" and "p i" and "\<And>j. j < i \<Longrightarrow> \<not> p j"
  shows "first_idx p = int i"
proof -
  have "[0..<MAX_SAVED_SSIDS] = [0..<i] @ i # [Suc i..<MAX_SAVED_SSIDS]"
    using assms(1) upt_add_eq_append [of 0 i "MAX_SAVED_SSIDS - i"] by (simp add: upt_conv_Cons)
  then show ?thesis using assms(2,3) by (simp add: first_idx_def filter_empty_conv)
qed

text \<open>
  After a successful insertion the name is found at the slot it was put in, and the slot
  gives the name (cut to 32 characters) and its flag back, when no lower slot holds the name.
\<close>

theorem saved_ssid_roundtrip:
  assumes "zones_ok (wld s)" and "\<And>d w. zones_ok w \<Longrightarrow> zones_ok (snd (do_call e d w))"
    and "result (wifi_saved_ssids_add e idx name pass sec keyidx enc hidden safe timeout) s = 0"
    and "idx \<noteq> -1" and "name \<noteq> []"
    and "\<And>j. j < nat idx \<Longrightarrow> \<not> strneq 32 name (z_ssid (cached_zones
        (snd (do_call e (AtOkErr (insert_cmd idx name pass sec keyidx enc hidden safe) timeout) (wld s))) ! j))"
  shows "let w = wld (after (wifi_saved_ssids_add e idx name pass sec keyidx enc hidden safe timeout) s)
    in wifi_find_saved_ssid name w = idx \<and>
       wifi_get_saved_ssid_by_index idx w = Some (strncpy_z 32 name) \<and>
       wifi_saved_ssid_safe idx w = safe"
proof -
  let ?w = "snd (do_call e (AtOkErr (insert_cmd idx name pass sec keyidx enc hidden safe) timeout) (wld s))"
  have range: "0 \<le> idx" "idx < int MAX_SAVED_SSIDS"
    using assms(1,3,4) by (auto simp: wifi_saved_ssids_add_def run free_slot_def zones_ok_def split: if_splits)
  have w: "wld (after (wifi_saved_ssids_add e idx name pass sec keyidx enc hidden safe timeout) s) =
      ?w\<lparr>cached_zones := (cached_zones ?w)[nat idx := \<lparr>z_ssid = strncpy_z 32 name, z_safe = safe\<rparr>]\<rparr>"
    using assms(1,3,4) range
    by (auto simp: wifi_saved_ssids_add_def run free_slot_def zones_ok_def split: if_splits)
  have ok: "cached_zones_valid ?w" "length (cached_zones ?w) = MAX_SAVED_SSIDS"
    using assms(2) [OF assms(1)] by (simp_all add: zones_ok_def)
  have n: "nat idx < MAX_SAVED_SSIDS" using range by simp
  have "first_idx (\<lambda>i. strneq 32 name (z_ssid ((cached_zones ?w)
      [nat idx := \<lparr>z_ssid = strncpy_z 32 name, z_safe = safe\<rparr>] ! i))) = int (nat idx)"
    by (rule first_idx_least)
       (use n ok assms(6) in \<open>auto simp: strneq_sym [of 32 name "strncpy_z 32 name"]\<close>)
  moreover have "strncpy_z 32 name \<noteq> []" using assms(5) by (simp add: strncpy_z_def)
  ultimately show ?thesis
    using range n ok by (simp add: w wifi_find_saved_ssid_def wifi_get_saved_ssid_by_index_def
        wifi_saved_ssid_safe_def Let_def)
qed

theorem saved_ssid_roundtrip_witness:
  "wifi_find_saved_ssid ''home'' (wld (after
     (wifi_saved_ssids_add mute 2 ''home'' ''secret'' 3 0 1 False True 2000) (rm_boot world0))) = 2"
proof -
  have zs: "zones_ok (wld (rm_boot world0))"
    by (simp add: zones_ok_def rm_boot_def world0_def MAX_SAVED_SSIDS_def)
  have keep: "zones_ok w \<Longrightarrow> zones_ok (snd (do_call mute d w))" for d w
    by (simp add: zones_ok_def do_call_def mute_def advance_def)
  have zero: "result (wifi_saved_ssids_add mute 2 ''home'' ''secret'' 3 0 1 False True 2000) (rm_boot world0) = 0"
    by (simp add: wifi_saved_ssids_add_def run free_slot_def rm_boot_def world0_def MAX_SAVED_SSIDS_def
        do_call_def mute_def)
  have none: "\<not> strneq 32 ''home'' (z_ssid (cached_zones (snd (do_call mute d (wld (rm_boot world0)))) ! j))"
    if "j < nat 2" for j d
    using that by (auto simp: do_call_def mute_def advance_def rm_boot_def world0_def strneq_def)
  show ?thesis
    using saved_ssid_roundtrip [OF zs keep zero _ _ none] unfolding Let_def by simp
qed

lemma fold_last:
  "fold (\<lambda>i idx. if p i then int i else idx) xs a = (case filter p (rev xs) of [] \<Rightarrow> a | i # _ \<Rightarrow> int i)"
  by (induction xs rule: rev_induct) auto

text \<open>
  An insertion with index -1 takes the last free slot, where its documentation says the
  first: the slot is free and no free slot comes after it; with no free slot the index stays -1.
\<close>

theorem insertion_takes_last_free_slot:
  "let idx = free_slot (-1) w; free = (\<lambda>i. z_ssid (cached_zones w ! i) = [])
   in (idx = -1 \<longrightarrow> (\<forall>i < MAX_SAVED_SSIDS. \<not> free i)) \<and>
      (idx \<noteq> -1 \<longrightarrow> 0 \<le> idx \<and> idx < int MAX_SAVED_SSIDS \<and> free (nat idx) \<and>
         (\<forall>i < MAX_SAVED_SSIDS. free i \<longrightarrow> int i \<le> idx))"
proof -
  let ?free = "\<lambda>i. z_ssid (cached_zones w ! i) = []"
  have all: "(\<forall>i < MAX_SAVED_SSIDS. P i) \<longleftrightarrow> P 0 \<and> P 1 \<and> P 2 \<and> P 3 \<and> P 4" for P
    by (simp add: MAX_SAVED_SSIDS_def) (auto simp: numeral_eq_Suc less_Suc_eq)
  show ?thesis
    unfolding Let_def free_slot_def fold_last all max_saved
    by (simp add: MAX_SAVED_SSIDS_def)
qed

theorem insertion_takes_last_free_slot_witness:
  "free_slot (-1) world0 = 4 \<and> z_ssid (cached_zones world0 ! nat (free_slot (-1) world0)) = []"
proof -
  have "free_slot (-1) world0 = 4"
    by (simp add: free_slot_def max_saved world0_def)
  with insertion_takes_last_free_slot [of world0] show ?thesis unfolding Let_def by simp
qed

text \<open>
  A successful change of the safe flag of a zone always records the zone as not safe in
  the cache, also when the flag was set on the chip.
\<close>

theorem set_zone_safe_records_unsafe:
  assumes "zones_ok (wld s)" and "\<And>d w. zones_ok w \<Longrightarrow> zones_ok (snd (do_call e d w))"
    and "result (wifi_set_zone_safe e idx flag timeout) s = 0"
  shows "wifi_saved_ssid_safe idx (wld (after (wifi_set_zone_safe e idx flag timeout) s)) = False"
  using assms(1,3) assms(2) [OF assms(1)]
  by (auto simp: wifi_set_zone_safe_def wifi_saved_ssid_safe_def run zones_ok_def split: if_splits)

theorem set_zone_safe_records_unsafe_witness:
  "wifi_saved_ssid_safe 1 (wld (after (wifi_set_zone_safe mute 1 True 1000) (rm_boot world0))) = False"
  by (rule set_zone_safe_records_unsafe)
     (simp_all add: zones_ok_def rm_boot_def world0_def MAX_SAVED_SSIDS_def do_call_def mute_def
        advance_def wifi_set_zone_safe_def run)

lemma length_show_nat: "n < 10 ^ Suc k \<Longrightarrow> length (show_nat n) \<le> Suc k"
proof (induction k arbitrary: n)
  case 0
  then show ?case by (subst show_nat.simps) simp
next
  case (Suc k)
  then have "n div 10 < 10 ^ Suc k" by (simp add: less_mult_imp_div_less)
  from Suc.IH [OF this] show ?case by (subst show_nat.simps) simp
qed

text \<open>
  The AT command of an insertion fits its buffer of 150 characters with its terminator,
  for every slot, every name of up to 32 characters and every password of up to 64.
\<close>

theorem insert_cmd_fits:
  assumes "0 \<le> idx" and "idx < int MAX_SAVED_SSIDS" and "length name \<le> 32" and "length pass \<le> 64"
  shows "length (insert_cmd idx name pass sec keyidx enc hidden safe) < 150"
proof -
  have w: "length (show_nat (unat x)) \<le> 5" for x :: "16 word"
    using unsigned_less [where ?'a = nat and w = x] length_show_nat [of "unat x" 4] by simp
  have b: "length (show_nat (of_bool c)) \<le> 1" for c
    using length_show_nat [of "of_bool c" 0] by (cases c) simp_all
  have "length (show_nat (nat idx)) \<le> 1"
    using assms(1,2) length_show_nat [of "nat idx" 0] by (simp add: MAX_SAVED_SSIDS_def)
  with assms(1) have "length (show_int idx) \<le> 1" by (simp add: show_int_def)
  with assms(3,4) w [of sec] w [of keyidx] w [of enc] b [of hidden] b [of safe]
  show ?thesis by (simp add: insert_cmd_def)
qed

theorem insert_cmd_fits_witness:
  "length (insert_cmd 4 (replicate 32 (CHR ''a'')) (replicate 64 (CHR ''b'')) 65535 65535 65535 True True) < 150"
  by (rule insert_cmd_fits) (simp_all add: MAX_SAVED_SSIDS_def)

section \<open>The access point to reconnect to\<close>

text \<open>What the C library promises of \<open>qsort\<close>: a permutation in the order of the comparison function.\<close>

definition qsort_ok ::
  "((int \<times> int \<Rightarrow> int \<times> int \<Rightarrow> int) \<Rightarrow> (int \<times> int) list \<Rightarrow> (int \<times> int) list) \<Rightarrow> bool" where
  "qsort_ok qsort \<longleftrightarrow>
     (\<forall>xs. mset (qsort comp xs) = mset xs \<and> sorted_wrt (\<lambda>a b. comp a b \<le> 0) (qsort comp xs))"

text \<open>The score of the saved name \<open>i\<close>: the strength of its signal, 100 more when it is safe.\<close>

definition ap_score :: "world \<Rightarrow> nat \<Rightarrow> int" where
  "ap_score w i =
     (let widx = wifi_find_ssid_in_scan (z_ssid (cached_zones w ! i)) w
      in snd (g_last_ssid_list w ! nat widx) + (if z_safe (cached_zones w ! i) then 100 else 0))"

definition ap_seen :: "world \<Rightarrow> nat \<Rightarrow> bool" where
  "ap_seen w i \<longleftrightarrow> i < MAX_SAVED_SSIDS \<and> z_ssid (cached_zones w ! i) \<noteq> [] \<and>
     wifi_find_ssid_in_scan (z_ssid (cached_zones w ! i)) w \<ge> 0"

lemma known_in_scan_set:
  "set (known_in_scan w) =
     {(wifi_find_ssid_in_scan (z_ssid (cached_zones w ! i)) w, ap_score w i) | i. ap_seen w i}"
  by (auto simp: known_in_scan_def ap_score_def ap_seen_def Let_def)

lemma scan_name: "wifi_find_ssid_in_scan n w \<ge> 0 \<Longrightarrow> fst (g_last_ssid_list w ! nat (wifi_find_ssid_in_scan n w)) = n"
proof -
  let ?is = "filter (\<lambda>i. n = fst (g_last_ssid_list w ! i)) [0..<length (g_last_ssid_list w)]"
  have "\<forall>i \<in> set ?is. fst (g_last_ssid_list w ! i) = n" by simp
  moreover assume "wifi_find_ssid_in_scan n w \<ge> 0"
  ultimately show ?thesis
    by (cases ?is) (simp_all only: wifi_find_ssid_in_scan_def list.case list.set insert_iff nat_int, auto)
qed

lemma comp_le: "comp a b \<le> 0 \<longleftrightarrow> snd b \<le> snd a"
  by (simp add: comp_def)

text \<open>
  The access point to reconnect to is the saved one of the best score among those that the
  last scan has seen (the signal, with 100 added for a safe zone), and there is none when the scan
  has seen no saved name.
\<close>

theorem best_known_ap:
  assumes "qsort_ok qsort" and "cached_zones_valid (wld s)"
  shows "if \<exists>i. ap_seen (wld s) i
    then \<exists>i. ap_seen (wld s) i \<and> (\<forall>j. ap_seen (wld s) j \<longrightarrow> ap_score (wld s) j \<le> ap_score (wld s) i) \<and>
      result (wifi_check_for_known_ssid qsort e) s =
        wifi_find_saved_ssid (z_ssid (cached_zones (wld s) ! i)) (wld s)
    else result (wifi_check_for_known_ssid qsort e) s = -1"
proof -
  let ?w = "wld s"
  let ?xs = "qsort comp (known_in_scan ?w)"
  have res: "result (wifi_check_for_known_ssid qsort e) s =
      (case ?xs of [] \<Rightarrow> -1
       | (widx, _) # _ \<Rightarrow> wifi_find_saved_ssid (fst (g_last_ssid_list ?w ! nat widx)) ?w)"
    using assms(2) by (simp add: wifi_check_for_known_ssid_def wifi_get_ap_list_def run split: list.split)
  have q: "mset ?xs = mset (known_in_scan ?w)" "sorted_wrt (\<lambda>a b. comp a b \<le> 0) ?xs"
    using assms(1) by (simp_all add: qsort_ok_def)
  then have set: "set ?xs = set (known_in_scan ?w)" using mset_eq_setD by blast
  show ?thesis
  proof (cases ?xs)
    case Nil
    with set have "\<nexists>i. ap_seen ?w i" by (auto simp: known_in_scan_set)
    with res Nil show ?thesis by simp
  next
    case (Cons x rest)
    then have "x \<in> set ?xs" by simp
    then obtain i where i: "ap_seen ?w i"
        "x = (wifi_find_ssid_in_scan (z_ssid (cached_zones ?w ! i)) ?w, ap_score ?w i)"
      unfolding set known_in_scan_set by blast
    have "ap_score ?w j \<le> ap_score ?w i" if "ap_seen ?w j" for j
    proof -
      from that have "(wifi_find_ssid_in_scan (z_ssid (cached_zones ?w ! j)) ?w, ap_score ?w j) \<in> set ?xs"
        unfolding set known_in_scan_set by blast
      with q(2) Cons i show ?thesis by (auto simp: comp_le)
    qed
    moreover have "result (wifi_check_for_known_ssid qsort e) s =
        wifi_find_saved_ssid (z_ssid (cached_zones ?w ! i)) ?w"
      using res Cons i scan_name [of "z_ssid (cached_zones ?w ! i)" ?w] by (simp add: ap_seen_def)
    ultimately show ?thesis using i(1) by auto
  qed
qed

definition sample_qsort ::
  "(int \<times> int \<Rightarrow> int \<times> int \<Rightarrow> int) \<Rightarrow> (int \<times> int) list \<Rightarrow> (int \<times> int) list" where
  "sample_qsort c xs = rev (sort_key snd xs)"

definition home_world :: world where
  "home_world = world0\<lparr>cached_zones := [\<lparr>z_ssid = ''cafe'', z_safe = False\<rparr>, \<lparr>z_ssid = ''home'', z_safe = True\<rparr>,
      \<lparr>z_ssid = [], z_safe = False\<rparr>, \<lparr>z_ssid = [], z_safe = False\<rparr>, \<lparr>z_ssid = [], z_safe = False\<rparr>],
    g_last_ssid_list := [(''cafe'', -40), (''shop'', -30), (''home'', -90)]\<rparr>"

theorem best_known_ap_witness:
  "\<exists>i. ap_seen home_world i \<and>
     result (wifi_check_for_known_ssid sample_qsort mute) (rm_boot home_world) =
       wifi_find_saved_ssid (z_ssid (cached_zones home_world ! i)) home_world"
proof -
  have sorted: "sorted_wrt (\<lambda>a b. snd b \<le> snd a) (rev (sort_key snd xs))" for xs :: "(int \<times> int) list"
    using sorted_sort_key [of snd xs] by (simp add: sorted_wrt_rev sorted_map)
  have q: "qsort_ok sample_qsort"
    by (simp add: qsort_ok_def sample_qsort_def comp_le sorted)
  have "ap_seen home_world 1"
    by (simp add: ap_seen_def home_world_def MAX_SAVED_SSIDS_def wifi_find_ssid_in_scan_def upt_rec)
  then have "\<exists>i. ap_seen (wld (rm_boot home_world)) i" by (auto simp: rm_boot_def)
  with best_known_ap [OF q, of "rm_boot home_world" mute] show ?thesis
    by (auto simp: rm_boot_def home_world_def world0_def)
qed

section \<open>What the pool hands out\<close>

text \<open>\<open>n\<close> successive calls of \<open>wr_get\<close>; none when one of them fails.\<close>

fun wr_gets :: "nat \<Rightarrow> 'r option \<Rightarrow> 'r wr_state \<Rightarrow> (nat list \<times> 'r wr_state) option" where
  "wr_gets 0 ref p = Some ([], p)"
| "wr_gets (Suc n) ref p =
     (case wr_get ref 1 p of
        Inr (Some i, q) \<Rightarrow> map_option (\<lambda>(is, r). (i # is, r)) (wr_gets n ref q)
      | _ \<Rightarrow> None)"

lemma wr_gets_grab: "wr_gets n ref p = wr.grab_many ref n p"
proof (induction n arbitrary: p)
  case (Suc n)
  then show ?case
    by (cases "wr_get ref 1 p") (simp_all add: wr.grab_many.simps split: prod.split option.split)
qed (simp add: wr.grab_many.simps)

text \<open>
  After boot the pool hands out 128 different work items, all it has, and the next request
  is answered with none, without a failed assertion.
\<close>

theorem pool_capacity:
  "\<exists>is q. wr_gets MAX_WORK_ITEMS ref (wr_init wr_static) = Some (is, q) \<and> distinct is \<and>
     set is = {..<MAX_WORK_ITEMS} \<and> wr_get ref 1 q = Inr (None, q)"
proof -
  obtain "is" q where g: "wr_gets MAX_WORK_ITEMS ref (wr_init wr_static) = Some (is, q)"
      "length is = MAX_WORK_ITEMS" "distinct is" "wr_held q = set is" "wr_inv q"
    using wr.grab_many_ok [OF wr_inv_boot, of MAX_WORK_ITEMS ref]
    by (auto simp: wr_gets_grab wr_held_boot)
  then have card: "card (wr_held q) = MAX_WORK_ITEMS" by (simp add: distinct_card)
  moreover have "wr_held q \<subseteq> {..<MAX_WORK_ITEMS}" by (auto simp: wr_held_def)
  ultimately have "wr_held q = {..<MAX_WORK_ITEMS}" by (simp add: card_subset_eq)
  moreover have "wr_get ref 1 q = Inr (None, q)"
    using wr.grab_none [OF g(5) card, of ref] by (simp add: ok_def split: sum.splits)
  ultimately show ?thesis using g by auto
qed

text \<open>
  A work item that was handed out can be given back exactly once: the pool then holds what
  it held before, and giving the item back again fails the assertion of a double free.
\<close>

theorem pool_give_back_once:
  assumes "wr_inv p" and "wr_get ref line p = Inr (Some i, q)" and "line \<noteq> 0"
  shows "\<exists>r. wr_put i q = Inr r \<and> wr_inv r \<and> wr_held r = wr_held p \<and> wrcount r = wrcount p \<and>
    wr_put i r = Inl DoubleFree"
proof -
  from assms(2) obtain rest where "wr_free_list p = i # rest"
    by (auto simp: wr_get_def split: list.splits if_splits)
  from wr_get_step [OF assms(1) this assms(3), of ref] assms(2)
  have q: "wr_inv q" "i \<notin> wr_held p" "wr_held q = insert i (wr_held p)" "wrcount q = wrcount p - 1"
    by auto
  then obtain r where r: "wr_put i q = Inr r" "wr_inv r" "wr_held r = wr_held q - {i}" "wrcount r = wrcount q + 1"
    using wr_put_step [of q i] by auto
  have "i < MAX_WORK_ITEMS" using q(3) by (auto simp: wr_held_def)
  then have "wr_put i r = Inl DoubleFree"
    using r(2,3) by (simp add: wr_put_def wr_inv_def wr_held_def) blast
  with q r show ?thesis by auto
qed

theorem pool_give_back_once_witness:
  "\<exists>q r. wr_put 0 q = Inr r \<and> wr_held r = {} \<and> wr_put 0 (r :: unit wr_state) = Inl DoubleFree"
proof -
  let ?p = "wr_init wr_static :: unit wr_state"
  have "wr_free_list ?p = 0 # [1..<MAX_WORK_ITEMS]"
    by (simp add: wr_init_free wr_static_def) (simp add: MAX_WORK_ITEMS_def upt_conv_Cons)
  from wr_get_step [OF wr_inv_boot this, of 1 None]
  obtain q where "wr_get None 1 ?p = Inr (Some 0, q)" by auto
  from pool_give_back_once [OF wr_inv_boot this] show ?thesis by (auto simp: wr_held_boot)
qed

end
