(* ===== verification/FileQueue.thy ===== *)
theory FileQueue
  imports CStrings
begin

text \<open>
  The file queue, \<^verbatim>\<open>c_modules/fqueue/src/fqueue.c\<close>: a directory with one file per entry, named by
  the entry's index.  The file system is not part of the repository: its operations are the record
  \<open>fsops\<close> over a file system state, a parameter of every definition, and \<open>file_laws\<close> states what the
  queue relies on.  A call that blocks gets the list of the wake-ups that happen while it waits,
  each with what other threads do to the files before it; an empty list is the timeout.
\<close>

section \<open>The file system\<close>

type_synonym data = "8 word list"

record dirent =
  de_name :: string
  de_is_dir :: bool
  de_size :: nat

record 'f fsops =
  fs_opendir :: "'f \<Rightarrow> string \<Rightarrow> int"
  fs_mkdir :: "'f \<Rightarrow> string \<Rightarrow> int \<times> 'f"
  fs_readdir :: "'f \<Rightarrow> string option \<Rightarrow> dirent list \<times> int"
  fs_unlink :: "'f \<Rightarrow> string \<Rightarrow> 'f"
  fs_bfree :: "'f \<Rightarrow> string \<Rightarrow> nat"
  fs_open_write :: "'f \<Rightarrow> string \<Rightarrow> int \<times> 'f"
  fs_write :: "'f \<Rightarrow> string \<Rightarrow> data \<Rightarrow> int \<times> 'f"
  fs_open_read :: "'f \<Rightarrow> string \<Rightarrow> int"
  fs_stat :: "'f \<Rightarrow> string \<Rightarrow> int \<times> nat"
  fs_read :: "'f \<Rightarrow> string \<Rightarrow> nat \<Rightarrow> int \<times> data"
  fs_read_closed :: int

text \<open>
  \<open>fs_readdir\<close> gives all entries up to the end of the directory and the value that ended the loop;
  with no name, the directory object was not opened (it has just been made by \<open>fs_mkdir\<close>).
  \<open>fs_read_closed\<close> is the answer of \<open>fs_read\<close> for a file object that was never opened.
\<close>

section \<open>Queue state\<close>

datatype fqmode = FQ_READ | FQ_WRITE

record fqueue =
  dirname :: string
  fq_mode :: fqmode
  cur_idx :: "32 word"

definition CONFIG_MIN_BFREE :: nat where
  "CONFIG_MIN_BFREE = 512"

definition INT_MAX :: int where
  "INT_MAX = 2 ^ 31 - 1"

text \<open>\<open>%03d\<close> of the index, which is read as an \<open>int\<close>.\<close>

definition show_03d_int :: "int \<Rightarrow> string" where
  "show_03d_int i =
     (if i < 0 then (let ds = show_nat (nat (- i)) in CHR ''-'' # replicate (2 - length ds) (CHR ''0'') @ ds)
      else show_03d (nat i))"

definition fq_path :: "string \<Rightarrow> 32 word \<Rightarrow> string" where
  "fq_path dir i = dir @ ''/'' @ show_03d_int (sint i)"

section \<open>Walking the directory\<close>

text \<open>The first part of both walks: the error, the name of the opened directory, the files.\<close>

definition fq_open_dir :: "'f fsops \<Rightarrow> fqueue \<Rightarrow> 'f \<Rightarrow> int \<times> string option \<times> 'f" where
  "fq_open_dir ops fq f =
     (let res = fs_opendir ops f (dirname fq)
      in if res \<noteq> 0 then
           (if fq_mode fq = FQ_WRITE
            then let (res, f) = fs_mkdir ops f (dirname fq) in (res, None, f)
            else (res, None, f))
         else (0, Some (dirname fq), f))"

definition fq_walk ::
  "'f fsops \<Rightarrow> fqueue \<Rightarrow> (fqueue \<Rightarrow> dirent \<Rightarrow> 'f \<Rightarrow> 'f) \<Rightarrow> 'f \<Rightarrow> int \<times> 'f" where
  "fq_walk ops fq cb f =
     (let (res, dir, f) = fq_open_dir ops fq f
      in if res \<noteq> 0 then (res, f)
         else let (entries, ret) = fs_readdir ops f dir
              in (ret, fold (cb fq) entries f))"

definition fq_span :: "dirent \<Rightarrow> int \<times> int \<Rightarrow> int \<times> int" where
  "fq_span entry = (\<lambda>(first, last).
     if \<not> de_is_dir entry \<and> de_size entry > 0
     then (let current = fst (strtol10 (de_name entry))
           in (if current < first then current else first,
               if current > last then current else last))
     else (first, last))"

definition fq_find_first_and_last :: "'f fsops \<Rightarrow> fqueue \<Rightarrow> 'f \<Rightarrow> (int \<times> int \<times> int) \<times> 'f" where
  "fq_find_first_and_last ops fq f =
     (let (res, dir, f) = fq_open_dir ops fq f
      in if res \<noteq> 0 then ((res, INT_MAX, -1), f)
         else
           (let (entries, ret) = fs_readdir ops f dir;
                (first, last) = fold fq_span entries (INT_MAX, -1);
                first = (if first = INT_MAX then 0 else first);
                last = (if last < 0 then 0 else last + 1)
            in ((ret, first, last), f)))"

definition fq_del :: "'f fsops \<Rightarrow> fqueue \<Rightarrow> dirent \<Rightarrow> 'f \<Rightarrow> 'f" where
  "fq_del ops fq entry f = fs_unlink ops f (dirname fq @ ''/'' @ de_name entry)"

definition fqueue_purge :: "'f fsops \<Rightarrow> fqueue \<Rightarrow> 'f \<Rightarrow> int \<times> fqueue \<times> 'f" where
  "fqueue_purge ops fq f =
     (if fq_mode fq \<noteq> FQ_WRITE then (- EINVAL, fq, f)
      else let (_, f) = fq_walk ops fq (fq_del ops) f in (0, fq\<lparr>cur_idx := 0\<rparr>, f))"

text \<open>\<open>mnt\<close> is the mount point of the partition.  A mode other than the two cannot be expressed.\<close>

definition fqueue_init ::
  "'f fsops \<Rightarrow> string \<Rightarrow> string \<Rightarrow> fqmode \<Rightarrow> bool \<Rightarrow> 'f \<Rightarrow> int \<times> fqueue \<times> 'f" where
  "fqueue_init ops mnt qname mode do_reinitialize f =
     (let fq = \<lparr>dirname = mnt @ ''/'' @ qname, fq_mode = mode, cur_idx = 0\<rparr>;
          ((ret, first, last), f) = fq_find_first_and_last ops fq f
      in case mode of
           FQ_WRITE \<Rightarrow>
             (let (fq, f) = (if ret = - EEXIST \<and> do_reinitialize then snd (fqueue_purge ops fq f)
                             else (fq, f))
              in (ret, fq\<lparr>cur_idx := of_int last\<rparr>, f))
         | FQ_READ \<Rightarrow> (ret, fq\<lparr>cur_idx := of_int first\<rparr>, f))"

section \<open>Writing\<close>

text \<open>The index is used up by the call of \<open>snprintf\<close>, before the file is created.\<close>

definition fqueue_put :: "'f fsops \<Rightarrow> data \<Rightarrow> fqueue \<Rightarrow> 'f \<Rightarrow> int \<times> fqueue \<times> 'f" where
  "fqueue_put ops bytes fq f =
     (if fq_mode fq \<noteq> FQ_WRITE then (- EINVAL, fq, f)
      else if fs_bfree ops f (dirname fq) < CONFIG_MIN_BFREE then (- ENOMEM, fq, f)
      else
        (let fname = fq_path (dirname fq) (cur_idx fq);
             fq = fq\<lparr>cur_idx := cur_idx fq + 1\<rparr>;
             (ret, f) = fs_open_write ops f fname
         in if ret \<noteq> 0 then (ret, fq, f)
            else let (ret, f) = fs_write ops f fname bytes
                 in (if ret \<le> 0 then ret else 0, fq, f)))"

section \<open>Reading\<close>

datatype 'f wake =
  WakeSignal "'f \<Rightarrow> 'f"
| WakeSem "'f \<Rightarrow> 'f" bool

text \<open>
  The loop that opens the next entry.  Its result: an early return, or the queue, the files, the
  wake-ups that are left, and whether the file object was opened.  \<open>WakeSem g taken\<close>: the semaphore is
  available and \<open>taken\<close> says whether \<open>k_sem_take\<close> gets it.
\<close>

fun fq_open_next ::
  "'f fsops \<Rightarrow> fqueue \<Rightarrow> 'f \<Rightarrow> 'f wake list \<Rightarrow>
   (int \<times> fqueue \<times> 'f) + (fqueue \<times> 'f \<times> 'f wake list \<times> bool)" where
  "fq_open_next ops fq f [] =
     (if fs_open_read ops f (fq_path (dirname fq) (cur_idx fq)) = 0 then Inr (fq, f, [], True)
      else Inl (- EAGAIN, fq, f))"
| "fq_open_next ops fq f (w # ws) =
     (if fs_open_read ops f (fq_path (dirname fq) (cur_idx fq)) = 0 then Inr (fq, f, w # ws, True)
      else
        (case w of
           WakeSignal g \<Rightarrow>
             (let ((_, first, _), f') = fq_find_first_and_last ops fq (g f)
              in fq_open_next ops (fq\<lparr>cur_idx := of_int first\<rparr>) f' ws)
         | WakeSem g taken \<Rightarrow>
             if taken then Inr (fq, g f, ws, False) else Inl (- EAGAIN, fq, g f)))"

text \<open>
  The loop that waits for the entry to have contents.  \<open>size0\<close> stands for what \<open>stat.size\<close> holds when
  \<open>fs_stat\<close> fails: the variable is not initialised.
\<close>

fun take_sem :: "'f \<Rightarrow> 'f wake list \<Rightarrow> bool \<times> 'f \<times> 'f wake list" where
  "take_sem f [] = (False, f, [])"
| "take_sem f (WakeSignal g # ws) = take_sem (g f) ws"
| "take_sem f (WakeSem g taken # ws) = (if taken then (True, g f, ws) else take_sem (g f) ws)"

lemma take_sem_shorter: "take_sem f ws = (True, f', ws') \<Longrightarrow> length ws' < length ws"
  by (induction f ws rule: take_sem.induct) (auto split: if_splits)

function fq_wait_size ::
  "'f fsops \<Rightarrow> nat \<Rightarrow> string \<Rightarrow> 'f \<Rightarrow> 'f wake list \<Rightarrow> nat \<times> 'f" where
  "fq_wait_size ops size0 fname f ws =
     (let (ret, sz) = fs_stat ops f fname;
          sz = (if ret = 0 then sz else size0)
      in if sz \<noteq> 0 then (sz, f)
         else (case take_sem f ws of
             (True, f', ws') \<Rightarrow> fq_wait_size ops 0 fname f' ws'
           | (False, f', _) \<Rightarrow> (0, f')))"
  by pat_completeness auto
termination
  by (relation "measure (\<lambda>(ops, size0, fname, f, ws). length ws)")
     (simp, auto dest: take_sem_shorter [OF sym])

declare fq_wait_size.simps [simp del]

text \<open>
  The data that \<open>fs_read\<close> stores into the caller's buffer of \<open>bufsize\<close> bytes is part of the result.
\<close>

definition fqueue_read ::
  "'f fsops \<Rightarrow> nat \<Rightarrow> nat \<Rightarrow> 'f wake list \<Rightarrow> bool \<Rightarrow> fqueue \<Rightarrow> 'f \<Rightarrow> (int \<times> data) \<times> fqueue \<times> 'f" where
  "fqueue_read ops size0 bufsize ws do_remove fq f =
     (if fq_mode fq \<noteq> FQ_READ then ((- EINVAL, []), fq, f)
      else
        (case fq_open_next ops fq f ws of
           Inl (err, fq, f) \<Rightarrow> ((err, []), fq, f)
         | Inr (fq, f, ws, opened) \<Rightarrow>
             (let fname = fq_path (dirname fq) (cur_idx fq);
                  (sz, f) = fq_wait_size ops size0 fname f ws;
                  bytes_to_read = (if sz > bufsize then sz else bufsize);
                  (ret, bytes) = (if opened then fs_read ops f fname bytes_to_read
                                  else (fs_read_closed ops, []))
              in if ret > 0 then
                   (if do_remove
                    then ((0, bytes), fq\<lparr>cur_idx := cur_idx fq + 1\<rparr>, fs_unlink ops f fname)
                    else ((0, bytes), fq, f))
                 else ((ret, []), fq, f))))"

definition fqueue_get ::
  "'f fsops \<Rightarrow> nat \<Rightarrow> nat \<Rightarrow> 'f wake list \<Rightarrow> fqueue \<Rightarrow> 'f \<Rightarrow> (int \<times> data) \<times> fqueue \<times> 'f" where
  "fqueue_get ops size0 bufsize ws fq f = fqueue_read ops size0 bufsize ws True fq f"

definition fqueue_peek ::
  "'f fsops \<Rightarrow> nat \<Rightarrow> nat \<Rightarrow> 'f wake list \<Rightarrow> fqueue \<Rightarrow> 'f \<Rightarrow> (int \<times> data) \<times> fqueue \<times> 'f" where
  "fqueue_peek ops size0 bufsize ws fq f = fqueue_read ops size0 bufsize ws False fq f"

end
