(* ===== verification/FileQueueProps.thy ===== *)
theory FileQueueProps
  imports FileQueue
begin

text \<open>
  The file queue is a FIFO.  \<open>file_laws\<close> and \<open>dir_laws\<close> state what the queue relies on in the
  file system: \<open>files f\<close>
  gives the contents of the file of a path.  The interface \<open>fifo\<close> is what a producer and a consumer
  of the queue rely on; the functions of \<^verbatim>\<open>fqueue.c\<close> meet it, related to the list of the entries
  by \<open>fq_holds\<close>.
\<close>

section \<open>The interface of a FIFO\<close>

locale fifo =
  fixes holds :: "'s \<Rightarrow> 'd list \<Rightarrow> bool"
    and fits :: "nat \<Rightarrow> 's \<Rightarrow> bool"
    and valid :: "'d \<Rightarrow> bool"
    and put :: "'d \<Rightarrow> 's \<Rightarrow> 's option"
    and get :: "'s \<Rightarrow> ('d \<times> 's) option"
  assumes put_holds: "holds s q \<Longrightarrow> fits (Suc n) s \<Longrightarrow> valid d \<Longrightarrow> put d s = Some t \<Longrightarrow>
      holds t (q @ [d]) \<and> fits n t"
    and get_holds: "holds s (d # q) \<Longrightarrow> \<exists>t. get s = Some (d, t) \<and> holds t q"
    and get_empty: "holds s [] \<Longrightarrow> get s = None"
begin

primrec put_all :: "'d list \<Rightarrow> 's \<Rightarrow> 's option" where
  "put_all [] s = Some s"
| "put_all (d # ds) s = (case put d s of None \<Rightarrow> None | Some t \<Rightarrow> put_all ds t)"

primrec get_n :: "nat \<Rightarrow> 's \<Rightarrow> ('d list \<times> 's) option" where
  "get_n 0 s = Some ([], s)"
| "get_n (Suc n) s =
     (case get s of None \<Rightarrow> None
      | Some (d, t) \<Rightarrow> map_option (\<lambda>(ds, u). (d # ds, u)) (get_n n t))"

lemma put_all_holds:
  "holds s q \<Longrightarrow> fits (length ds) s \<Longrightarrow> list_all valid ds \<Longrightarrow> put_all ds s = Some t \<Longrightarrow>
   holds t (q @ ds)"
proof (induction ds arbitrary: s q)
  case (Cons d ds)
  from Cons.prems(4) obtain u where u: "put d s = Some u" "put_all ds u = Some t"
    by (auto split: option.splits)
  with Cons.prems have "holds u (q @ [d]) \<and> fits (length ds) u"
    using put_holds [of s q "length ds" d u] by simp
  with Cons.IH [of u "q @ [d]"] u Cons.prems show ?case by simp
qed simp

lemma get_n_holds: "holds s (q @ r) \<Longrightarrow> \<exists>t. get_n (length q) s = Some (q, t) \<and> holds t r"
proof (induction q arbitrary: s)
  case (Cons d q)
  then obtain t where "get s = Some (d, t)" "holds t (q @ r)" using get_holds by force
  with Cons.IH show ?case by fastforce
qed simp

lemma fifo_order:
  assumes "holds s q" and "fits (length ds) s" and "list_all valid ds" and "put_all ds s = Some t"
  shows "\<exists>u. get_n (length q + length ds) t = Some (q @ ds, u) \<and> get u = None"
  using get_n_holds [of t "q @ ds" "[]"] put_all_holds [OF assms] get_empty by force

end

section \<open>The file system\<close>

definition no_slash :: "string \<Rightarrow> bool" where
  "no_slash n \<longleftrightarrow> CHR ''/'' \<notin> set n"

definition file_laws :: "'f fsops \<Rightarrow> ('f \<Rightarrow> string \<Rightarrow> data option) \<Rightarrow> bool" where
  "file_laws ops files \<longleftrightarrow>
     (\<forall>f p. fs_open_read ops f p = 0 \<longleftrightarrow> files f p \<noteq> None) \<and>
     (\<forall>f p d. files f p = Some d \<longrightarrow> fs_stat ops f p = (0, length d)) \<and>
     (\<forall>f p n d. files f p = Some d \<longrightarrow> fs_read ops f p n = (int (min n (length d)), take n d)) \<and>
     (\<forall>f p. files (fs_unlink ops f p) = (files f)(p := None)) \<and>
     (\<forall>f p f1. fs_open_write ops f p = (0, f1) \<longrightarrow> files f p = None \<longrightarrow> files f1 = (files f)(p \<mapsto> [])) \<and>
     (\<forall>f p r f1. fs_open_write ops f p = (r, f1) \<longrightarrow> r \<noteq> 0 \<longrightarrow> files f1 = files f) \<and>
     (\<forall>f p d m f1. fs_write ops f p d = (m, f1) \<longrightarrow> 0 < m \<longrightarrow> files f p = Some [] \<longrightarrow>
        files f1 = (files f)(p \<mapsto> d)) \<and>
     (\<forall>f p d f1. fs_write ops f p d = (0, f1) \<longrightarrow> d = []) \<and>
     fs_read_closed ops < 0"

definition dir_laws :: "'f fsops \<Rightarrow> ('f \<Rightarrow> string \<Rightarrow> data option) \<Rightarrow> bool" where
  "dir_laws ops files \<longleftrightarrow>
     (\<forall>f dir. fs_opendir ops f dir = 0 \<longrightarrow>
        snd (fs_readdir ops f (Some dir)) = 0 \<and>
        {e \<in> set (fst (fs_readdir ops f (Some dir))). \<not> de_is_dir e} =
          {\<lparr>de_name = n, de_is_dir = False, de_size = length d\<rparr> | n d.
             no_slash n \<and> files f (dir @ ''/'' @ n) = Some d})"

lemmas file_laws_unfolded = file_laws_def [THEN iffD1]

lemmas law_open_read = file_laws_unfolded [THEN conjunct1, rule_format]
lemmas law_stat = file_laws_unfolded [THEN conjunct2, THEN conjunct1, rule_format]
lemmas law_read = file_laws_unfolded [THEN conjunct2, THEN conjunct2, THEN conjunct1, rule_format]
lemmas law_unlink = file_laws_unfolded [THEN conjunct2, THEN conjunct2, THEN conjunct2, THEN conjunct1, rule_format]
lemmas law_create = file_laws_unfolded [THEN conjunct2, THEN conjunct2, THEN conjunct2, THEN conjunct2, THEN conjunct1, rule_format]
lemmas law_create_fails = file_laws_unfolded [THEN conjunct2, THEN conjunct2, THEN conjunct2, THEN conjunct2, THEN conjunct2, THEN conjunct1, rule_format]
lemmas law_write = file_laws_unfolded [THEN conjunct2, THEN conjunct2, THEN conjunct2, THEN conjunct2, THEN conjunct2, THEN conjunct2, THEN conjunct1, rule_format]
lemmas law_write_none = file_laws_unfolded [THEN conjunct2, THEN conjunct2, THEN conjunct2, THEN conjunct2, THEN conjunct2, THEN conjunct2, THEN conjunct2, THEN conjunct1, rule_format]
lemmas law_read_closed = file_laws_unfolded [THEN conjunct2, THEN conjunct2, THEN conjunct2, THEN conjunct2, THEN conjunct2, THEN conjunct2, THEN conjunct2, THEN conjunct2, rule_format]

text \<open>A file system in memory: the files with their contents, newest first, and the free blocks.\<close>

type_synonym ram = "(string \<times> data) list \<times> nat"

definition ram_files :: "ram \<Rightarrow> string \<Rightarrow> data option" where
  "ram_files r = map_of (fst r)"

definition ram_ops :: "ram fsops" where
  "ram_ops =
     \<lparr>fs_opendir = (\<lambda>r d. 0), fs_mkdir = (\<lambda>r d. (0, r)),
      fs_readdir = (\<lambda>r dir. (case dir of None \<Rightarrow> ([], 0)
        | Some d \<Rightarrow> ([\<lparr>de_name = n, de_is_dir = False, de_size = length (the (map_of (fst r) (d @ ''/'' @ n)))\<rparr>.
              n \<leftarrow> map (drop (length d + 1)) (filter (\<lambda>p. take (length d + 1) p = d @ ''/'') (map fst (fst r))),
              no_slash n], 0))),
      fs_unlink = (\<lambda>r p. (filter (\<lambda>e. fst e \<noteq> p) (fst r), snd r)),
      fs_bfree = (\<lambda>r d. snd r),
      fs_open_write = (\<lambda>r p. (0, if map_of (fst r) p = None then ((p, []) # fst r, snd r) else r)),
      fs_write = (\<lambda>r p d. (int (length d),
        ((p, d @ drop (length d) (case map_of (fst r) p of None \<Rightarrow> [] | Some old \<Rightarrow> old)) # filter (\<lambda>e. fst e \<noteq> p) (fst r), snd r))),
      fs_open_read = (\<lambda>r p. if map_of (fst r) p = None then -2 else 0),
      fs_stat = (\<lambda>r p. (case map_of (fst r) p of None \<Rightarrow> (-2, 0) | Some d \<Rightarrow> (0, length d))),
      fs_read = (\<lambda>r p n. (case map_of (fst r) p of None \<Rightarrow> (-2, [])
        | Some d \<Rightarrow> (int (min n (length d)), take n d))),
      fs_read_closed = -9\<rparr>"

lemma ram_unlink: "map_of (filter (\<lambda>e. fst e \<noteq> p) xs) = (map_of xs)(p := None)"
  by (induction xs) auto

lemma ram_dir_laws: "dir_laws ram_ops ram_files"
proof -
  have "{e \<in> set (fst (fs_readdir ram_ops r (Some dir))). \<not> de_is_dir e} =
      {\<lparr>de_name = n, de_is_dir = False, de_size = length d\<rparr> | n d.
         no_slash n \<and> ram_files r (dir @ ''/'' @ n) = Some d}" for r dir
  proof -
    let ?k = "length dir + 1"
    let ?e = "\<lambda>n. \<lparr>de_name = n, de_is_dir = False, de_size = length (the (map_of (fst r) (dir @ ''/'' @ n)))\<rparr>"
    have pre: "take ?k p = dir @ ''/'' \<Longrightarrow> p = dir @ ''/'' @ drop ?k p" for p :: string
      by (metis append_assoc append_take_drop_id)
    have mem: "e \<in> set (fst (fs_readdir ram_ops r (Some dir))) \<longleftrightarrow>
        (\<exists>p \<in> fst ` set (fst r). take ?k p = dir @ ''/'' \<and> no_slash (drop ?k p) \<and> e = ?e (drop ?k p))" for e
      by (auto simp: ram_ops_def image_iff)
    have key: "p \<in> fst ` set (fst r) \<longleftrightarrow> (\<exists>d. map_of (fst r) p = Some d)" for p
      by (metis domIff dom_map_of_conv_image_fst option.exhaust_sel option.distinct(1))
    have "(\<exists>p \<in> fst ` set (fst r). take ?k p = dir @ ''/'' \<and> no_slash (drop ?k p) \<and> e = ?e (drop ?k p)) \<longleftrightarrow>
        (\<exists>n d. no_slash n \<and> map_of (fst r) (dir @ ''/'' @ n) = Some d \<and>
           e = \<lparr>de_name = n, de_is_dir = False, de_size = length d\<rparr>)" (is "?l \<longleftrightarrow> ?r") for e
    proof
      assume ?l
      then obtain p where p: "p \<in> fst ` set (fst r)" "take ?k p = dir @ ''/''" "no_slash (drop ?k p)"
        "e = ?e (drop ?k p)" by blast
      with key obtain d where "map_of (fst r) p = Some d" by blast
      with p(3,4) show ?r using pre [OF p(2)] by (intro exI [of _ "drop ?k p"] exI [of _ d]) simp
    next
      assume ?r
      then obtain n d where n: "no_slash n" "map_of (fst r) (dir @ ''/'' @ n) = Some d"
        "e = \<lparr>de_name = n, de_is_dir = False, de_size = length d\<rparr>" by blast
      then show ?l by (intro bexI [of _ "dir @ ''/'' @ n"]) (auto simp: key)
    qed
    then show ?thesis unfolding mem ram_files_def by auto
  qed
  then show ?thesis by (simp add: dir_laws_def) (simp add: ram_ops_def)
qed

lemma ram_file_laws: "file_laws ram_ops ram_files"
  unfolding file_laws_def
  by (intro conjI allI impI) (auto simp: ram_ops_def ram_files_def ram_unlink fun_eq_iff split: option.splits)

section \<open>The queue of a writer and a reader\<close>

definition npath :: "string \<Rightarrow> nat \<Rightarrow> string" where
  "npath dir n = dir @ ''/'' @ show_03d n"

lemma npath_inj [simp]: "npath dir m = npath dir n \<longleftrightarrow> m = n"
  by (simp add: npath_def show_03d_inj)

lemma sint_small: "n < 2 ^ 31 \<Longrightarrow> sint (of_nat n :: 32 word) = int n"
proof -
  have "sint (of_nat n :: 32 word) = signed_take_bit 31 (int n)" by transfer simp
  then show "n < 2 ^ 31 \<Longrightarrow> ?thesis" by (simp add: signed_take_bit_int_eq_self)
qed

lemma unat_small: "n < 2 ^ 31 \<Longrightarrow> unat (of_nat n :: 32 word) = n"
  by (simp add: unat_of_nat)

lemma fq_path_npath [simp]: "n < 2 ^ 31 \<Longrightarrow> fq_path dir (of_nat n) = npath dir n"
  by (simp add: fq_path_def npath_def show_03d_int_def sint_small)

type_synonym 'f fq_state = "'f fsops \<times> nat \<times> fqueue \<times> fqueue \<times> 'f"

text \<open>
  \<open>fq_holds (ops, bufsize, wq, rq, f) q\<close>: the writer \<open>wq\<close> and the reader \<open>rq\<close> of one directory have
  the entries \<open>q\<close> between them, each of at least one byte and at most the reader's buffer.
\<close>

definition fq_rel ::
  "('f \<Rightarrow> string \<Rightarrow> data option) \<Rightarrow> nat \<Rightarrow> nat \<Rightarrow> fqueue \<Rightarrow> fqueue \<Rightarrow> 'f \<Rightarrow> data list \<Rightarrow> bool" where
  "fq_rel files r bufsize wq rq f q \<longleftrightarrow>
     fq_mode wq = FQ_WRITE \<and> fq_mode rq = FQ_READ \<and> dirname wq = dirname rq \<and>
     cur_idx rq = of_nat r \<and> cur_idx wq = of_nat (r + length q) \<and> r + length q < 2 ^ 31 \<and>
     (\<forall>d \<in> set q. d \<noteq> [] \<and> length d \<le> bufsize) \<and>
     (\<forall>k < length q. files f (npath (dirname rq) (r + k)) = Some (q ! k)) \<and>
     (\<forall>j. r + length q \<le> j \<and> j < 2 ^ 31 \<longrightarrow> files f (npath (dirname rq) j) = None)"

definition fq_holds :: "'f fq_state \<Rightarrow> data list \<Rightarrow> bool" where
  "fq_holds s q =
     (case s of (ops, bufsize, wq, rq, f) \<Rightarrow>
        \<exists>files r. file_laws ops files \<and> fq_rel files r bufsize wq rq f q)"

definition fq_fits :: "nat \<Rightarrow> 'f fq_state \<Rightarrow> bool" where
  "fq_fits n s = (case s of (ops, bufsize, wq, rq, f) \<Rightarrow> unat (cur_idx wq) + n < 2 ^ 31)"

definition fq_put :: "data \<Rightarrow> 'f fq_state \<Rightarrow> 'f fq_state option" where
  "fq_put d s =
     (case s of (ops, bufsize, wq, rq, f) \<Rightarrow>
        let (ret, wq', f') = fqueue_put ops d wq f
        in if ret = 0 then Some (ops, bufsize, wq', rq, f') else None)"

definition fq_get :: "'f fq_state \<Rightarrow> (data \<times> 'f fq_state) option" where
  "fq_get s =
     (case s of (ops, bufsize, wq, rq, f) \<Rightarrow>
        let ((ret, d), rq', f') = fqueue_get ops 0 bufsize [] rq f
        in if ret = 0 then Some (d, ops, bufsize, wq, rq', f') else None)"

definition fits_buffer :: "nat \<Rightarrow> data \<Rightarrow> bool" where
  "fits_buffer n d \<longleftrightarrow> d \<noteq> [] \<and> length d \<le> n"

lemma put_rel:
  assumes laws: "file_laws ops files" and rel: "fq_rel files r n wq rq f q"
    and d: "d \<noteq> []" "length d \<le> n" and room: "r + length q + 1 < 2 ^ 31"
    and put: "fqueue_put ops d wq f = (0, wq', f')"
  shows "fq_rel files r n wq' rq f' (q @ [d])"
proof -
  let ?p = "npath (dirname rq) (r + length q)"
  from rel room have path: "fq_path (dirname wq) (cur_idx wq) = ?p"
    by (simp add: fq_rel_def del: of_nat_add)
  from rel room have free: "files f ?p = None" by (simp add: fq_rel_def)
  obtain f1 where op: "fs_open_write ops f ?p = (0, f1)"
    using put path by (auto simp: fqueue_put_def Let_def split: prod.splits if_splits)
  have f1: "files f1 = (files f)(?p \<mapsto> [])"
    by (rule law_create [OF laws op free])
  obtain m where w: "fs_write ops f1 ?p d = (m, f')" "wq' = wq\<lparr>cur_idx := cur_idx wq + 1\<rparr>" "0 \<le> m"
    using put path op by (auto simp: fqueue_put_def Let_def split: prod.splits if_splits)
  have "0 < m" using w law_write_none [OF laws, of f1 ?p d f'] d(1) by (cases "m = 0") auto
  then have f': "files f' = (files f)(?p \<mapsto> d)"
    using law_write [OF laws w(1)] f1 by simp
  have "k < length q \<Longrightarrow> files f' (npath (dirname rq) (r + k)) = Some (q ! k)" for k
    using rel by (simp add: fq_rel_def f')
  then have "k < length (q @ [d]) \<Longrightarrow> files f' (npath (dirname rq) (r + k)) = Some ((q @ [d]) ! k)" for k
    by (cases "k = length q") (simp_all add: nth_append f')
  moreover have "r + length (q @ [d]) \<le> j \<and> j < 2 ^ 31 \<Longrightarrow> files f' (npath (dirname rq) j) = None" for j
    using rel by (simp add: fq_rel_def f')
  ultimately show ?thesis
    using rel d room by (simp add: fq_rel_def w(2))
qed

lemma read_rel:
  assumes laws: "file_laws ops files" and rel: "fq_rel files r n wq rq f (d # q)"
  shows "fqueue_read ops size0 bufsize ws b rq f =
    ((0, d), if b then (rq\<lparr>cur_idx := cur_idx rq + 1\<rparr>, fs_unlink ops f (npath (dirname rq) r)) else (rq, f))"
proof -
  let ?p = "npath (dirname rq) r"
  from rel have r: "r < 2 ^ 31" "fq_path (dirname rq) (cur_idx rq) = ?p" "fq_mode rq = FQ_READ" "d \<noteq> []"
    by (simp_all add: fq_rel_def)
  have p: "files f ?p = Some d" using rel unfolding fq_rel_def by (metis add_0_right length_greater_0_conv list.distinct(1) nth_Cons_0)
  then have "fs_open_read ops f ?p = 0" and st: "fs_stat ops f ?p = (0, length d)"
    and rd: "fs_read ops f ?p m = (int (min m (length d)), take m d)" for m
    using law_open_read [OF laws] law_stat [OF laws] law_read [OF laws] by simp_all
  then have op: "fq_open_next ops rq f ws = Inr (rq, f, ws, True)"
    by (cases ws) (simp_all add: r)
  have sz: "fq_wait_size ops size0 ?p f ws = (length d, f)"
    using r(4) by (subst fq_wait_size.simps) (simp add: st)
  show ?thesis
    using r by (simp add: fqueue_read_def op sz rd Let_def)
qed

lemma get_rel:
  assumes "file_laws ops files" and "fq_rel files r n wq rq f (d # q)"
  shows "fq_rel files (Suc r) n wq (rq\<lparr>cur_idx := cur_idx rq + 1\<rparr>) (fs_unlink ops f (npath (dirname rq) r)) q"
proof -
  have u: "files (fs_unlink ops f p) = (files f)(p := None)" for p
    by (rule law_unlink [OF assms(1)])
  show ?thesis
    unfolding fq_rel_def u
    using assms(2) by (auto simp: fq_rel_def algebra_simps dest!: spec [of _ "Suc _"])
qed

lemma get_empty_rel:
  assumes "file_laws ops files" and "fq_rel files r n wq rq f []"
  shows "fqueue_get ops size0 bufsize [] rq f = ((- EAGAIN, []), rq, f)"
  using assms(2) law_open_read [OF assms(1)] by (simp add: fq_rel_def fqueue_get_def fqueue_read_def)

interpretation fq: fifo "\<lambda>s q. fq_holds s q \<and> fst (snd s) = n" fq_fits "fits_buffer n" fq_put fq_get
proof (unfold_locales, goal_cases)
  case (1 s q k d t)
  obtain ops b wq rq f where s: "s = (ops, b, wq, rq, f)" by (cases s)
  with 1 obtain files r where h: "file_laws ops files" "fq_rel files r n wq rq f q" "b = n"
    by (auto simp: fq_holds_def)
  from 1 s obtain wq' f' where put: "fqueue_put ops d wq f = (0, wq', f')" "t = (ops, b, wq', rq, f')"
    by (auto simp: fq_put_def split: prod.splits if_splits)
  have idx: "unat (cur_idx wq) = r + length q"
    using h(2) by (simp add: fq_rel_def unat_small del: of_nat_add)
  with 1 s have "r + length q + 1 < 2 ^ 31" "d \<noteq> []" "length d \<le> n"
    by (auto simp: fq_fits_def fits_buffer_def)
  then have rel: "fq_rel files r n wq' rq f' (q @ [d])"
    using put_rel [OF h(1,2) _ _ _ put(1)] by blast
  then have "unat (cur_idx wq') = r + length q + 1"
    by (simp add: fq_rel_def unat_small del: of_nat_add of_nat_Suc)
  with 1 s put idx rel h show ?case
    by (auto simp: fq_holds_def fq_fits_def)
next
  case (2 s d q)
  obtain ops b wq rq f where s: "s = (ops, b, wq, rq, f)" by (cases s)
  with 2 obtain files r where h: "file_laws ops files" "fq_rel files r n wq rq f (d # q)" "b = n"
    by (auto simp: fq_holds_def)
  show ?case
    using read_rel [OF h(1,2), of 0 n "[]" True] get_rel [OF h(1,2)] h(1,3)
    by (auto simp: s fq_get_def fqueue_get_def fq_holds_def)
next
  case (3 s)
  then show ?case
    by (cases s) (auto simp: fq_get_def fq_holds_def get_empty_rel)
qed

section \<open>First in, first out\<close>

fun fq_puts :: "'f fsops \<Rightarrow> data list \<Rightarrow> fqueue \<Rightarrow> 'f \<Rightarrow> (fqueue \<times> 'f) option" where
  "fq_puts ops [] wq f = Some (wq, f)"
| "fq_puts ops (d # ds) wq f =
     (let (ret, wq', f') = fqueue_put ops d wq f in if ret = 0 then fq_puts ops ds wq' f' else None)"

fun fq_gets :: "'f fsops \<Rightarrow> nat \<Rightarrow> nat \<Rightarrow> fqueue \<Rightarrow> 'f \<Rightarrow> (data list \<times> fqueue \<times> 'f) option" where
  "fq_gets ops bufsize 0 rq f = Some ([], rq, f)"
| "fq_gets ops bufsize (Suc k) rq f =
     (let ((ret, d), rq', f') = fqueue_get ops 0 bufsize [] rq f
      in if ret = 0 then map_option (\<lambda>(ds, rest). (d # ds, rest)) (fq_gets ops bufsize k rq' f') else None)"

lemma put_all_puts:
  "fq.put_all ds (ops, b, wq, rq, f) = map_option (\<lambda>(wq', f'). (ops, b, wq', rq, f')) (fq_puts ops ds wq f)"
  by (induction ds arbitrary: wq f) (auto simp: fq.put_all.simps fq_put_def split: prod.split)

lemma get_n_gets:
  "fq.get_n k (ops, b, wq, rq, f) =
     map_option (\<lambda>(ds, rq', f'). (ds, ops, b, wq, rq', f')) (fq_gets ops b k rq f)"
proof (induction k arbitrary: rq f)
  case (Suc k)
  obtain ret d rq' f' where g: "fqueue_get ops 0 b [] rq f = ((ret, d), rq', f')"
    by (metis surj_pair)
  then have "fq_get (ops, b, wq, rq, f) = (if ret = 0 then Some (d, ops, b, wq, rq', f') else None)"
    by (simp add: fq_get_def)
  then show ?case
    by (cases "fq_gets ops b k rq' f'") (auto simp: fq.get_n.simps g Suc)
qed (simp add: fq.get_n.simps)


definition start_wq :: fqueue where
  "start_wq = \<lparr>dirname = ''/lfs1/log'', fq_mode = FQ_WRITE, cur_idx = 0\<rparr>"

definition start_rq :: fqueue where
  "start_rq = \<lparr>dirname = ''/lfs1/log'', fq_mode = FQ_READ, cur_idx = 0\<rparr>"

lemma start_rel: "fq_rel ram_files 0 n start_wq start_rq ([], 1000) []"
  by (simp add: fq_rel_def start_wq_def start_rq_def ram_files_def)

lemma ram_put:
  assumes "fq_mode wq = FQ_WRITE" and "512 \<le> snd f" and "d \<noteq> []"
  shows "\<exists>wq' f'. fqueue_put ram_ops d wq f = (0, wq', f') \<and> fq_mode wq' = FQ_WRITE \<and> 512 \<le> snd f'"
  using assms by (simp add: fqueue_put_def ram_ops_def CONFIG_MIN_BFREE_def Let_def)

lemma ram_puts:
  "fq_mode wq = FQ_WRITE \<Longrightarrow> 512 \<le> snd f \<Longrightarrow> \<forall>d \<in> set ds. d \<noteq> [] \<Longrightarrow>
   \<exists>wq' f'. fq_puts ram_ops ds wq f = Some (wq', f')"
proof (induction ds arbitrary: wq f)
  case (Cons d ds)
  then obtain wq' f' where "fqueue_put ram_ops d wq f = (0, wq', f')" "fq_mode wq' = FQ_WRITE" "512 \<le> snd f'"
    using ram_put [of wq f d] by auto
  with Cons show ?case by simp
qed simp


text \<open>\<open>fqueue_peek\<close> gives the first entry and changes neither the queue nor the files.\<close>

theorem fqueue_peek_first:
  assumes "file_laws ops files" and "fq_rel files r n wq rq f (d # q)"
  shows "fqueue_peek ops size0 bufsize ws rq f = ((0, d), rq, f)"
  using read_rel [OF assms, of size0 bufsize ws False] by (simp add: fqueue_peek_def)

lemma one_rel: "fq_rel ram_files 0 n (start_wq\<lparr>cur_idx := 1\<rparr>) start_rq ([(''/lfs1/log/000'', [7, 8, 9])], 1000) [[7, 8, 9]]"
  if "3 \<le> n"
proof -
  have "npath ''/lfs1/log'' 0 = ''/lfs1/log/000''"
    by code_simp
  then have "npath ''/lfs1/log'' j = ''/lfs1/log/000'' \<longleftrightarrow> j = 0" for j
    by (metis npath_inj)
  then show ?thesis using that
    by (simp add: fq_rel_def start_wq_def start_rq_def ram_files_def)
qed

theorem fqueue_peek_first_witness:
  "fqueue_peek ram_ops 0 16 [] start_rq ([(''/lfs1/log/000'', [7, 8, 9])], 1000) =
     ((0, [7, 8, 9]), start_rq, ([(''/lfs1/log/000'', [7, 8, 9])], 1000))"
  by (rule fqueue_peek_first [OF ram_file_laws one_rel [of 3]]) simp

text \<open>
  The number of bytes that a read stores is the size of the entry, not of the buffer: an
  entry larger than the buffer overruns it.
\<close>

theorem fqueue_read_overrun:
  assumes "file_laws ops files" and "fq_rel files r n wq rq f (d # q)" and "bufsize < length d"
  shows "length (snd (fst (fqueue_get ops size0 bufsize ws rq f))) > bufsize \<and>
    fst (fst (fqueue_get ops size0 bufsize ws rq f)) = 0"
  using read_rel [OF assms(1,2), of size0 bufsize ws True] assms(3) by (simp add: fqueue_get_def)

theorem fqueue_read_overrun_witness:
  "length (snd (fst (fqueue_get ram_ops 0 2 [] start_rq ([(''/lfs1/log/000'', [7, 8, 9])], 1000)))) > 2"
  using fqueue_read_overrun [OF ram_file_laws one_rel [of 3], of 2 0 "[]"] by simp

text \<open>
  A reader that waits for an entry and is woken by the semaphore does not get the entry,
  also when it is there: the loop is left with the file object unopened, the read fails, and the
  queue is as before.
\<close>

theorem woken_reader_fails:
  assumes "file_laws ops files" and "fq_mode rq = FQ_READ"
    and "files f (fq_path (dirname rq) (cur_idx rq)) = None"
  shows "fst (fqueue_get ops size0 bufsize (WakeSem g True # ws) rq f) = (fs_read_closed ops, []) \<and>
    fst (snd (fqueue_get ops size0 bufsize (WakeSem g True # ws) rq f)) = rq"
  using assms law_open_read [OF assms(1)] law_read_closed [OF assms(1)]
  by (simp add: fqueue_get_def fqueue_read_def Let_def split: prod.split)

theorem woken_reader_fails_witness:
  "fst (fqueue_get ram_ops 0 16 [WakeSem (\<lambda>f. ([(''/lfs1/log/000'', [7])], 1000)) True] start_rq ([], 1000)) = (-9, [])"
proof -
  have "fst (fqueue_get ram_ops 0 16 [WakeSem (\<lambda>f. ([(''/lfs1/log/000'', [7])], 1000)) True] start_rq ([], 1000))
      = (fs_read_closed ram_ops, [])"
    using woken_reader_fails [OF ram_file_laws, of start_rq "([], 1000)"]
    by (simp add: start_rq_def ram_files_def)
  then show ?thesis by (simp add: ram_ops_def)
qed

text \<open>
  An insertion whose file cannot be created uses its index up, and the queue is blocked:
  the reader waits for the missing file, and later entries, inserted with success, are not delivered.
\<close>

theorem failed_create_blocks:
  assumes laws: "file_laws ops files" and rel: "fq_rel files r n wq rq f []" and room: "r + 1 < 2 ^ 31"
    and "CONFIG_MIN_BFREE \<le> fs_bfree ops f (dirname wq)"
    and create: "fs_open_write ops f (npath (dirname rq) r) = (err, f1)" "err \<noteq> 0"
    and put: "fqueue_put ops d (wq\<lparr>cur_idx := cur_idx wq + 1\<rparr>) f1 = (0, wq2, f2)" "d \<noteq> []"
  shows "fqueue_put ops d0 wq f = (err, wq\<lparr>cur_idx := cur_idx wq + 1\<rparr>, f1) \<and>
    fqueue_get ops size0 bufsize [] rq f2 = ((- EAGAIN, []), rq, f2)"
proof
  let ?wq = "wq\<lparr>cur_idx := cur_idx wq + 1\<rparr>"
  from rel room have path: "fq_path (dirname wq) (cur_idx wq) = npath (dirname rq) r"
    and idx: "cur_idx wq = of_nat r" "dirname wq = dirname rq" "fq_mode wq = FQ_WRITE"
    by (simp_all add: fq_rel_def)
  show "fqueue_put ops d0 wq f = (err, ?wq, f1)"
    using assms(4) create path idx by (simp add: fqueue_put_def)
  have path1: "fq_path (dirname ?wq) (cur_idx ?wq) = npath (dirname rq) (Suc r)"
  proof -
    have "cur_idx ?wq = of_nat (Suc r)" using idx by simp
    then show ?thesis using room idx(2) by (simp del: of_nat_Suc)
  qed
  have f1: "files f1 = files f" by (rule law_create_fails [OF laws create])
  from rel have none: "files f (npath (dirname rq) r) = None" "files f (npath (dirname rq) (Suc r)) = None"
    using room by (simp_all add: fq_rel_def)
  obtain f1' where op: "fs_open_write ops f1 (npath (dirname rq) (Suc r)) = (0, f1')"
    using put(1) path1 by (auto simp: fqueue_put_def Let_def split: prod.splits if_splits)
  then have f1': "files f1' = (files f1)(npath (dirname rq) (Suc r) \<mapsto> [])"
    using law_create [OF laws op] none f1 by simp
  obtain m where w: "fs_write ops f1' (npath (dirname rq) (Suc r)) d = (m, f2)" "0 \<le> m"
    using put(1) path1 op by (auto simp: fqueue_put_def Let_def split: prod.splits if_splits)
  have "0 < m" using w law_write_none [OF laws, of f1' _ d f2] put(2) by (cases "m = 0") auto
  then have "files f2 (npath (dirname rq) r) = None"
    using law_write [OF laws w(1)] f1' f1 none by simp
  then show "fqueue_get ops size0 bufsize [] rq f2 = ((- EAGAIN, []), rq, f2)"
    using rel room law_open_read [OF laws]
    by (simp add: fq_rel_def fqueue_get_def fqueue_read_def)
qed

text \<open>A file system that refuses to create the files of a list.\<close>

definition refusing :: "string list \<Rightarrow> ram fsops" where
  "refusing ps = ram_ops\<lparr>fs_open_write := (\<lambda>r p. if p \<in> set ps then (-5, r) else fs_open_write ram_ops r p)\<rparr>"

lemma refusing_laws: "file_laws (refusing ps) ram_files"
  unfolding file_laws_def
  by (intro conjI allI impI)
     (auto simp: refusing_def ram_ops_def ram_files_def ram_unlink fun_eq_iff split: option.splits if_splits)

theorem failed_create_blocks_witness:
  "\<exists>wq2 f2. fqueue_put (refusing [''/lfs1/log/000'']) [1] start_wq ([], 1000) = (-5, start_wq\<lparr>cur_idx := 1\<rparr>, ([], 1000)) \<and>
     fqueue_put (refusing [''/lfs1/log/000'']) [2] (start_wq\<lparr>cur_idx := 1\<rparr>) ([], 1000) = (0, wq2, f2) \<and>
     fqueue_get (refusing [''/lfs1/log/000'']) 0 16 [] start_rq f2 = ((- EAGAIN, []), start_rq, f2)"
proof -
  let ?ops = "refusing [''/lfs1/log/000'']"
  have paths: "npath ''/lfs1/log'' 0 = ''/lfs1/log/000''" "npath ''/lfs1/log'' 1 \<noteq> ''/lfs1/log/000''"
    by code_simp+
  have ones: "fq_path ''/lfs1/log'' 1 = npath ''/lfs1/log'' 1"
    using fq_path_npath [of 1 "''/lfs1/log''"] by simp
  have "\<exists>wq2 f2. fqueue_put ?ops [2] (start_wq\<lparr>cur_idx := 1\<rparr>) ([], 1000) = (0, wq2, f2)"
    using paths by (simp add: fqueue_put_def start_wq_def refusing_def ram_ops_def CONFIG_MIN_BFREE_def ones Let_def)
  then obtain wq2 f2 where p: "fqueue_put ?ops [2] (start_wq\<lparr>cur_idx := 1\<rparr>) ([], 1000) = (0, wq2, f2)" by blast
  have one: "start_wq\<lparr>cur_idx := cur_idx start_wq + 1\<rparr> = start_wq\<lparr>cur_idx := 1\<rparr>" by (simp add: start_wq_def)
  have "fqueue_put ?ops [1] start_wq ([], 1000) = (-5, start_wq\<lparr>cur_idx := cur_idx start_wq + 1\<rparr>, ([], 1000)) \<and>
      fqueue_get ?ops 0 16 [] start_rq f2 = ((- EAGAIN, []), start_rq, f2)"
    by (rule failed_create_blocks [OF refusing_laws start_rel [of 16], of _ _ _ "[2]" wq2])
       (use p paths one in \<open>simp_all add: refusing_def ram_ops_def start_wq_def start_rq_def CONFIG_MIN_BFREE_def\<close>)
  with p show ?thesis unfolding one by blast
qed

section \<open>Finding the queue again\<close>

definition spanned :: "dirent list \<Rightarrow> int set" where
  "spanned es = (\<lambda>e. fst (strtol10 (de_name e))) ` {e \<in> set es. \<not> de_is_dir e \<and> 0 < de_size e}"

lemma fq_span_bounds:
  "fold fq_span es (a, b) = (x, y) \<Longrightarrow>
   x \<in> insert a (spanned es) \<and> y \<in> insert b (spanned es) \<and> x \<le> a \<and> b \<le> y \<and>
   (\<forall>c \<in> spanned es. x \<le> c \<and> c \<le> y)"
proof (induction es arbitrary: a b)
  case (Cons e es)
  show ?case
  proof (cases "\<not> de_is_dir e \<and> 0 < de_size e")
    case True
    let ?c = "fst (strtol10 (de_name e))"
    have sp: "spanned (e # es) = insert ?c (spanned es)" using True by (auto simp: spanned_def)
    have "fq_span e (a, b) = (if ?c < a then ?c else a, if b < ?c then ?c else b)"
      using True by (simp add: fq_span_def Let_def)
    with Cons.prems
    have "fold fq_span es (if ?c < a then ?c else a, if b < ?c then ?c else b) = (x, y)"
      by simp
    from Cons.IH [OF this] show ?thesis unfolding sp by (auto split: if_splits)
  next
    case False
    then have "spanned (e # es) = spanned es" by (auto simp: spanned_def)
    moreover have "fq_span e (a, b) = (a, b)" using False by (auto simp: fq_span_def)
    ultimately show ?thesis using Cons by simp
  qed
qed (simp add: spanned_def)

text \<open>The files of a directory are the entries \<open>q\<close>, numbered from \<open>r\<close>, and nothing else.\<close>

definition fq_stored :: "('f \<Rightarrow> string \<Rightarrow> data option) \<Rightarrow> string \<Rightarrow> nat \<Rightarrow> 'f \<Rightarrow> data list \<Rightarrow> bool" where
  "fq_stored files dir r f q \<longleftrightarrow>
     (\<forall>k < length q. files f (npath dir (r + k)) = Some (q ! k)) \<and>
     (\<forall>n d. no_slash n \<and> files f (dir @ ''/'' @ n) = Some d \<longrightarrow> (\<exists>k < length q. n = show_03d (r + k)))"

lemma no_slash_show: "no_slash (show_03d n)"
  using show_03d_digits [of n] by (auto simp: no_slash_def isdigit_def)

lemma stored_spanned:
  assumes "dir_laws ops files" and "fs_opendir ops f dir = 0" and "fq_stored files dir r f q"
    and "\<forall>d \<in> set q. d \<noteq> []" and "r + length q < 2 ^ 31"
  shows "spanned (fst (fs_readdir ops f (Some dir))) = (\<lambda>k. int (r + k)) ` {..<length q}"
proof -
  let ?es = "fst (fs_readdir ops f (Some dir))"
  let ?F = "{\<lparr>de_name = n, de_is_dir = False, de_size = length d\<rparr> | n d.
      no_slash n \<and> files f (dir @ ''/'' @ n) = Some d}"
  have "{e \<in> set ?es. \<not> de_is_dir e} = ?F" using assms(1,2) by (simp add: dir_laws_def)
  then have "{e \<in> set ?es. \<not> de_is_dir e \<and> 0 < de_size e} = {e \<in> ?F. 0 < de_size e}" by blast
  also have "\<dots> = (\<lambda>k. \<lparr>de_name = show_03d (r + k), de_is_dir = False, de_size = length (q ! k)\<rparr>) ` {..<length q}"
  proof -
    have stored: "files f (dir @ ''/'' @ show_03d (r + k)) = Some (q ! k)" if "k < length q" for k
      using assms(3) that by (simp add: fq_stored_def npath_def)
    show ?thesis
    proof (intro set_eqI iffI)
      fix e
      assume "e \<in> {e \<in> ?F. 0 < de_size e}"
      then obtain n d where e: "e = \<lparr>de_name = n, de_is_dir = False, de_size = length d\<rparr>" "no_slash n"
          "files f (dir @ ''/'' @ n) = Some d" by blast
      then obtain k where "k < length q" "n = show_03d (r + k)"
        using assms(3) unfolding fq_stored_def by blast
      with e stored [of k] show "e \<in> (\<lambda>k. \<lparr>de_name = show_03d (r + k), de_is_dir = False, de_size = length (q ! k)\<rparr>) ` {..<length q}"
        by simp
    next
      fix e
      assume "e \<in> (\<lambda>k. \<lparr>de_name = show_03d (r + k), de_is_dir = False, de_size = length (q ! k)\<rparr>) ` {..<length q}"
      then obtain k where "k < length q"
          "e = \<lparr>de_name = show_03d (r + k), de_is_dir = False, de_size = length (q ! k)\<rparr>" by blast
      with stored [of k] assms(4) nth_mem [of k q] no_slash_show [of "r + k"]
      show "e \<in> {e \<in> ?F. 0 < de_size e}" by auto
    qed
  qed
  finally have "spanned ?es = (\<lambda>k. fst (strtol10 (show_03d (r + k)))) ` {..<length q}"
    by (simp add: spanned_def image_image)
  also have "\<dots> = (\<lambda>k. int (r + k)) ` {..<length q}"
    using assms(5) by (intro image_cong refl) (simp add: strtol10_show_03d del: of_nat_add)
  finally show ?thesis .
qed

text \<open>
  After a restart the writer and the reader find the queue again: opening a directory that
  holds the entries of a queue gives the index after the last one to the writer and that of the
  first one to the reader, and changes no file.
\<close>

theorem fqueue_init_recovers:
  assumes "dir_laws ops files" and "fs_opendir ops f (mnt @ ''/'' @ qname) = 0"
    and "fq_stored files (mnt @ ''/'' @ qname) r f q" and "q \<noteq> []"
    and "\<forall>d \<in> set q. d \<noteq> [] \<and> length d \<le> n" and "r + length q < 2 ^ 31"
  shows "\<exists>wq rq. fqueue_init ops mnt qname FQ_WRITE b f = (0, wq, f) \<and>
    fqueue_init ops mnt qname FQ_READ b f = (0, rq, f) \<and> fq_rel files r n wq rq f q"
proof -
  let ?dir = "mnt @ ''/'' @ qname"
  obtain es where es: "fs_readdir ops f (Some ?dir) = (es, 0)"
    using assms(1,2) by (metis dir_laws_def prod.collapse)
  obtain x y where xy: "fold fq_span es (INT_MAX, -1) = (x, y)" by fastforce
  have sp: "spanned es = (\<lambda>k. int (r + k)) ` {..<length q}"
    using stored_spanned [OF assms(1-3) _ assms(6)] assms(5) es by simp
  have mem: "int r \<in> spanned es" "int (r + (length q - 1)) \<in> spanned es"
    unfolding sp using assms(4) by (auto intro: image_eqI [of _ _ 0] image_eqI [of _ _ "length q - 1"])
  have bounds: "int r \<le> c \<and> c \<le> int (r + (length q - 1))" if "c \<in> spanned es" for c
    using that assms(4) unfolding sp by auto
  have lt: "int r < INT_MAX" using assms(4,6) by (cases q) (simp_all add: INT_MAX_def)
  note span = fq_span_bounds [OF xy]
  have x: "x = int r"
  proof -
    have "x \<le> int r" using span mem(1) by blast
    moreover have "int r \<le> x" using span bounds lt by (metis insertE order_less_imp_le)
    ultimately show ?thesis by simp
  qed
  have y: "y = int (r + (length q - 1))"
  proof -
    have "int (r + (length q - 1)) \<le> y" using span mem(2) by blast
    moreover have "y \<le> int (r + (length q - 1))"
    proof (cases "y = -1")
      case False
      then show ?thesis using span bounds by blast
    qed simp
    ultimately show ?thesis by simp
  qed
  have find: "fq_find_first_and_last ops fq f = ((0, int r, int (r + length q)), f)" if "dirname fq = ?dir" for fq
    using that assms(2,4) es xy x y lt
    by (cases q) (simp_all add: fq_find_first_and_last_def fq_open_dir_def)
  have none: "files f (npath ?dir j) = None" if "r + length q \<le> j" for j
  proof (rule ccontr)
    assume "files f (npath ?dir j) \<noteq> None"
    then obtain d where "files f (?dir @ ''/'' @ show_03d j) = Some d" by (auto simp: npath_def)
    with assms(3) obtain k where "k < length q" "show_03d j = show_03d (r + k)"
      unfolding fq_stored_def using no_slash_show by blast
    with that show False by (simp add: show_03d_inj)
  qed
  show ?thesis
    using assms(3,5,6) none
    by (simp add: fqueue_init_def find fq_rel_def fq_stored_def)
qed

theorem fqueue_init_recovers_witness:
  "\<exists>wq rq. fqueue_init ram_ops ''/lfs1'' ''log'' FQ_WRITE False ([(''/lfs1/log/007'', [5])], 1000) =
      (0, wq, ([(''/lfs1/log/007'', [5])], 1000)) \<and>
    fqueue_init ram_ops ''/lfs1'' ''log'' FQ_READ False ([(''/lfs1/log/007'', [5])], 1000) =
      (0, rq, ([(''/lfs1/log/007'', [5])], 1000)) \<and>
    fq_rel ram_files 7 16 wq rq ([(''/lfs1/log/007'', [5])], 1000) [[5]]"
proof (rule fqueue_init_recovers [OF ram_dir_laws])
  have seven: "show_03d 7 = ''007''" by code_simp
  show "fq_stored ram_files (''/lfs1'' @ ''/'' @ ''log'') 7 ([(''/lfs1/log/007'', [5])], 1000) [[5]]"
    by (simp add: fq_stored_def ram_files_def npath_def seven)
qed (simp_all add: ram_ops_def)

section \<open>Refusals\<close>

text \<open>
  An insertion through a reader's handle is refused with \<open>-EINVAL\<close>, one with fewer free
  blocks than the reserve with \<open>-ENOMEM\<close>; neither uses an index nor touches a file.  A read through a
  writer's handle and a purge through a reader's are refused alike.
\<close>

theorem fqueue_refusals:
  "(fq_mode fq = FQ_READ \<longrightarrow> fqueue_put ops d fq f = (- EINVAL, fq, f) \<and>
      fqueue_purge ops fq f = (- EINVAL, fq, f)) \<and>
   (fq_mode fq = FQ_WRITE \<and> fs_bfree ops f (dirname fq) < CONFIG_MIN_BFREE \<longrightarrow>
      fqueue_put ops d fq f = (- ENOMEM, fq, f)) \<and>
   (fq_mode fq = FQ_WRITE \<longrightarrow>
      fqueue_get ops size0 bufsize ws fq f = ((- EINVAL, []), fq, f) \<and>
      fqueue_peek ops size0 bufsize ws fq f = ((- EINVAL, []), fq, f))"
  by (simp add: fqueue_put_def fqueue_purge_def fqueue_get_def fqueue_peek_def fqueue_read_def)

theorem fqueue_refusals_witness:
  "fqueue_put ram_ops [1] start_rq ([], 1000) = (- EINVAL, start_rq, ([], 1000)) \<and>
   fqueue_put ram_ops [1] start_wq ([], 100) = (- ENOMEM, start_wq, ([], 100))"
  using fqueue_refusals [of start_rq ram_ops "[1]" "([], 1000)"]
    fqueue_refusals [of start_wq ram_ops "[1]" "([], 100)"]
  by (simp add: start_rq_def start_wq_def CONFIG_MIN_BFREE_def) (simp add: ram_ops_def)

end
