(* ===== verification/TimeSync.thy ===== *)
theory TimeSync
  imports CStrings
begin

text \<open>
  Setting the clock from a time string, \<^verbatim>\<open>commercial_collar/src/d1_time.c\<close>.  The strings come from the
  nRF9160 (\<^verbatim>\<open>24/04/03,18:52:38-28\<close>), the DA16200 (\<^verbatim>\<open>+TIME:2024-04-03,18:52:35\<close>) or the shell.  The two
  buffers \<open>date\<close> and \<open>time\<close> have 16 bytes; writing past them, and a copy whose length is negative (and
  becomes huge as a \<open>size_t\<close>), are the errors of \<open>time_ub\<close>.  \<open>timeutil_timegm\<close> and \<open>clock_settime\<close> are
  the platform's and are parameters, as are the contents of variables that are not initialised:
  the fields of \<open>tm\<close> and the bytes after the four of \<open>year\<close>.
\<close>

record tm =
  tm_year :: int
  tm_mon :: int
  tm_mday :: int
  tm_hour :: int
  tm_min :: int
  tm_sec :: int

datatype time_ub = DateOverrun | NegativeLength

text \<open>\<open>strtol(s, &end, 10)\<close> with the test \<open>end == s || *end != c\<close>; \<open>None\<close> stands for the terminator.\<close>

definition parse_to :: "char option \<Rightarrow> string \<Rightarrow> (int \<times> string) option" where
  "parse_to c s =
     (let (v, rest) = strtol10 s
      in if rest = s then None
         else (case c of
             None \<Rightarrow> (if rest = [] then Some (v, []) else None)
           | Some ch \<Rightarrow> (if rest \<noteq> [] \<and> hd rest = ch then Some (v, tl rest) else None)))"

definition get_y_m_d :: "tm \<Rightarrow> string \<Rightarrow> int \<times> tm" where
  "get_y_m_d t date_str =
     (case parse_to (Some (CHR ''-'')) date_str of
        None \<Rightarrow> (- EINVAL, t)
      | Some (year, date_str) \<Rightarrow>
          (case parse_to (Some (CHR ''-'')) date_str of
             None \<Rightarrow> (- EINVAL, t)
           | Some (month, date_str) \<Rightarrow>
               if month < 1 \<or> month > 12 then (- EINVAL, t)
               else
                 (case parse_to None date_str of
                    None \<Rightarrow> (- EINVAL, t)
                  | Some (day, _) \<Rightarrow>
                      if day < 1 \<or> day > 31 then (- EINVAL, t)
                      else (0, t\<lparr>tm_year := year - 1900, tm_mon := month - 1, tm_mday := day\<rparr>))))"

text \<open>
  A field of the time of day before a colon: it may be empty, and then the variable keeps what it
  held.  The variable is assigned before the checks.
\<close>

definition get_field ::
  "((int \<Rightarrow> int) \<Rightarrow> tm \<Rightarrow> tm) \<Rightarrow> int \<Rightarrow> tm \<Rightarrow> string \<Rightarrow> tm \<times> string option" where
  "get_field upd hi t s =
     (if s \<noteq> [] \<and> hd s = CHR '':'' then (t, Some (tl s))
      else
        (let (v, rest) = strtol10 s; t = upd (\<lambda>_. v) t
         in if rest = s then (t, None)
            else if rest \<noteq> [] \<and> hd rest = CHR '':'' then
              (if v < 0 \<or> v > hi then (t, None) else (t, Some (tl rest)))
            else (t, None)))"

definition get_h_m_s :: "tm \<Rightarrow> string \<Rightarrow> int \<times> tm" where
  "get_h_m_s t time_str =
     (case get_field tm_hour_update 23 t time_str of
        (t, None) \<Rightarrow> (- EINVAL, t)
      | (t, Some time_str) \<Rightarrow>
          (case get_field tm_min_update 59 t time_str of
             (t, None) \<Rightarrow> (- EINVAL, t)
           | (t, Some time_str) \<Rightarrow>
               (let (v, rest) = strtol10 time_str; t = t\<lparr>tm_sec := v\<rparr>
                in if rest = time_str \<or> rest \<noteq> [] then (- EINVAL, t)
                   else if v < 0 \<or> v > 60 then (- EINVAL, t)
                   else (0, t))))"

text \<open>\<open>strncpy(buf, s + from, n)\<close> into a zeroed buffer of more than \<open>n\<close> bytes, \<open>n\<close> at most \<open>cap\<close>.\<close>

definition copy_upto :: "string \<Rightarrow> nat \<Rightarrow> int \<Rightarrow> int \<Rightarrow> time_ub + string" where
  "copy_upto s from n cap =
     (if min n cap < 0 then Inl NegativeLength else Inr (take (nat (min n cap)) (drop from s)))"

definition slash_to_dash :: "string \<Rightarrow> string" where
  "slash_to_dash s = map (\<lambda>c. if c = CHR ''/'' then CHR ''-'' else c) s"

text \<open>The branch of the DA16200; \<open>year_rest\<close> is what follows the bytes copied to \<open>year\<close>.\<close>

definition split_da :: "string \<Rightarrow> string \<Rightarrow> time_ub + (string \<times> string) option" where
  "split_da year_rest timeStr =
     (case strchr timeStr (CHR '':'') of
        None \<Rightarrow> Inr None
      | Some colon \<Rightarrow>
          (case strchr timeStr (CHR '','') of
             None \<Rightarrow> Inr None
           | Some comma \<Rightarrow>
               (case copy_upto timeStr (colon + 1) (int comma - int colon - 1) 15 of
                  Inl ub \<Rightarrow> Inl ub
                | Inr date \<Rightarrow>
                    (let time = take 8 (drop (comma + 1) timeStr)
                     in case strchr date (CHR ''-'') of
                          None \<Rightarrow> Inr None
                        | Some dash \<Rightarrow>
                            if atoi (take (min dash 4) date @ year_rest) < 2024 then Inr None
                            else Inr (Some (date, time))))))"

definition split_9160 :: "string \<Rightarrow> time_ub + (string \<times> string) option" where
  "split_9160 timeStr =
     (case strchr timeStr (CHR '','') of
        None \<Rightarrow> Inr None
      | Some comma \<Rightarrow>
          (case (case strchr timeStr (CHR ''+'') of
                   Some p \<Rightarrow> Some p
                 | None \<Rightarrow> strchr timeStr (CHR ''-'')) of
             None \<Rightarrow> Inr None
           | Some stop \<Rightarrow>
               (case copy_upto timeStr (comma + 1) (int stop - int comma - 1) 15 of
                  Inl ub \<Rightarrow> Inl ub
                | Inr time \<Rightarrow>
                    (let date = ''20'' @ take (min comma 14) timeStr
                     in if length date + 1 > 16 then Inl DateOverrun
                        else Inr (Some (slash_to_dash date, time))))))"

text \<open>
  \<open>settime\<close> is the answer of \<open>clock_settime\<close> for a number of seconds.  The result is the returned
  value, the new \<open>time_set_5340\<close> and the broken-down time the clock was set to, if it was.
\<close>

definition d1_set_5340_time ::
  "(tm \<Rightarrow> int) \<Rightarrow> (int \<Rightarrow> int) \<Rightarrow> tm \<Rightarrow> string \<Rightarrow> bool \<Rightarrow> string option \<Rightarrow> bool \<Rightarrow>
   time_ub + (int \<times> bool \<times> tm option)" where
  "d1_set_5340_time timegm settime junk year_rest time_set timeStr force =
     (if time_set \<and> \<not> force then Inr (0, time_set, None)
      else
        (case timeStr of
           None \<Rightarrow> Inr (- EINVAL, time_set, None)
         | Some s \<Rightarrow>
             if length s < 16 then Inr (- EINVAL, time_set, None)
             else
               (case (if strstr s ''+TIME:'' \<noteq> None then split_da year_rest s else split_9160 s) of
                  Inl ub \<Rightarrow> Inl ub
                | Inr None \<Rightarrow> Inr (- EINVAL, time_set, None)
                | Inr (Some (date, time)) \<Rightarrow>
                    (let (ret, tm) = get_y_m_d junk date
                     in if ret \<noteq> 0 then Inr (- EINVAL, time_set, None)
                        else
                          (let (ret, tm) = get_h_m_s tm time
                           in if ret \<noteq> 0 then Inr (- EINVAL, time_set, None)
                              else if timegm tm = -1 then Inr (- EINVAL, time_set, None)
                              else if settime (timegm tm) \<noteq> 0 then Inr (- EINVAL, time_set, None)
                              else Inr (0, True, Some tm))))))"

definition is_5340_time_set :: "bool \<Rightarrow> bool" where
  "is_5340_time_set time_set = time_set"

section \<open>Two digits\<close>

definition show_02d :: "nat \<Rightarrow> string" where
  "show_02d n = [digit (n div 10), digit n]"

lemma digits_val_02d: "n < 100 \<Longrightarrow> digits_val (show_02d n) = n"
  by (simp add: show_02d_def digits_val_def)

lemma show_02d_digits: "\<forall>c \<in> set (show_02d n). isdigit c"
  by (simp add: show_02d_def)

lemma length_show_02d [simp]: "length (show_02d n) = 2"
  by (simp add: show_02d_def)

lemma strtol10_02d:
  "n < 100 \<Longrightarrow> rest = [] \<or> \<not> isdigit (hd rest) \<Longrightarrow> strtol10 (show_02d n @ rest) = (int n, rest)"
  using strtol10_digits [of "show_02d n" rest] show_02d_digits [of n]
  by (simp add: digits_val_02d) (simp add: show_02d_def)

lemma not_digit_sep [simp]: "\<not> isdigit (CHR '':'')" "\<not> isdigit (CHR '','')" "\<not> isdigit (CHR ''/'')"
  by (simp_all add: isdigit_def)

lemma parse_to_02d:
  "n < 100 \<Longrightarrow> \<not> isdigit c \<Longrightarrow> parse_to (Some c) (show_02d n @ c # rest) = Some (int n, rest)"
  "n < 100 \<Longrightarrow> parse_to None (show_02d n) = Some (int n, [])"
  using strtol10_02d [of n "c # rest"] strtol10_02d [of n "[]"]
  by (simp_all add: parse_to_def show_02d_def)

lemma get_field_02d:
  "n < 100 \<Longrightarrow> int n \<le> hi \<Longrightarrow>
   get_field upd hi t (show_02d n @ CHR '':'' # rest) = (upd (\<lambda>_. int n) t, Some rest)"
proof -
  assume n: "n < 100" "int n \<le> hi"
  have "digit (n div 10) \<noteq> CHR '':''"
    using isdigit_digit not_digit_sep(1) by metis
  with n strtol10_02d [of n "CHR '':'' # rest"] show ?thesis
    by (simp add: get_field_def show_02d_def)
qed

end
