(* ===== verification/TimeProps.thy ===== *)
theory TimeProps
  imports TimeSync
begin

text \<open>
  Properties of setting the clock: the strings of the two radio chips set exactly the time they
  show, an accepted time is in range, and what the function does with strings that its buffers and
  its checks do not foresee.
\<close>

section \<open>Strings with separators\<close>

lemma not_in_02d: "\<not> isdigit c \<Longrightarrow> c \<notin> set (show_02d n)"
  using show_02d_digits by blast

lemma strchr_here: "c \<notin> set a \<Longrightarrow> strchr (a @ c # b) c = Some (length a)"
  by (simp add: strchr_append strchr_none [THEN iffD2])

lemma starts_with_set: "starts_with p s \<Longrightarrow> set p \<subseteq> set s"
  by (induction p s rule: starts_with.induct) auto

lemma strstr_absent: "c \<in> set p \<Longrightarrow> c \<notin> set s \<Longrightarrow> strstr s p = None"
proof (induction s)
  case Nil
  then show ?case by auto
next
  case (Cons x s)
  then have "\<not> starts_with p (x # s)" using starts_with_set by blast
  with Cons show ?case by simp
qed

lemma digits_val_le_append: "digits_val a \<le> digits_val (a @ b)"
proof (induction b rule: rev_induct)
  case (snoc c b)
  then show ?case using digits_val_snoc [of "a @ b" c] by simp
qed simp

lemma digits_val_20: "n < 100 \<Longrightarrow> digits_val (CHR ''2'' # CHR ''0'' # show_02d n) = 2000 + n"
  by (simp add: show_02d_def digits_val_def)

lemma slash_02d: "slash_to_dash (show_02d n) = show_02d n"
proof -
  have "c \<in> set (show_02d n) \<Longrightarrow> c \<noteq> CHR ''/''" for c
    using not_in_02d [of "CHR ''/''" n] by auto
  then show ?thesis unfolding slash_to_dash_def by (intro map_idI) auto
qed

section \<open>The two formats\<close>

definition hms_str :: "nat \<Rightarrow> nat \<Rightarrow> nat \<Rightarrow> string" where
  "hms_str h mi s = show_02d h @ '':'' @ show_02d mi @ '':'' @ show_02d s"

definition modem_time_str :: "nat \<Rightarrow> nat \<Rightarrow> nat \<Rightarrow> nat \<Rightarrow> nat \<Rightarrow> nat \<Rightarrow> char \<Rightarrow> string \<Rightarrow> string" where
  "modem_time_str y mo d h mi s sign zone =
     show_02d y @ ''/'' @ show_02d mo @ ''/'' @ show_02d d @ '','' @ hms_str h mi s @ sign # zone"

definition da_time_str :: "nat \<Rightarrow> nat \<Rightarrow> nat \<Rightarrow> nat \<Rightarrow> nat \<Rightarrow> nat \<Rightarrow> string" where
  "da_time_str y mo d h mi s =
     ''+TIME:'' @ show_nat y @ ''-'' @ show_02d mo @ ''-'' @ show_02d d @ '','' @ hms_str h mi s"

definition valid_fields :: "nat \<Rightarrow> nat \<Rightarrow> nat \<Rightarrow> nat \<Rightarrow> nat \<Rightarrow> bool" where
  "valid_fields mo d h mi s \<longleftrightarrow> 1 \<le> mo \<and> mo \<le> 12 \<and> 1 \<le> d \<and> d \<le> 31 \<and> h < 24 \<and> mi < 60 \<and> s \<le> 60"

definition the_tm :: "nat \<Rightarrow> nat \<Rightarrow> nat \<Rightarrow> nat \<Rightarrow> nat \<Rightarrow> nat \<Rightarrow> tm" where
  "the_tm y mo d h mi s =
     \<lparr>tm_year = int y - 1900, tm_mon = int mo - 1, tm_mday = int d, tm_hour = int h, tm_min = int mi,
      tm_sec = int s\<rparr>"

lemma length_hms [simp]: "length (hms_str h mi s) = 8"
  by (simp add: hms_str_def)

lemma not_in_hms: "\<not> isdigit c \<Longrightarrow> c \<noteq> CHR '':'' \<Longrightarrow> c \<notin> set (hms_str h mi s)"
  by (auto simp: hms_str_def dest: not_in_02d)

lemma get_hms:
  assumes "valid_fields mo d h mi s"
  shows "get_h_m_s t (hms_str h mi s) = (0, t\<lparr>tm_hour := int h, tm_min := int mi, tm_sec := int s\<rparr>)"
proof -
  have "get_field tm_hour_update 23 t (hms_str h mi s) = (t\<lparr>tm_hour := int h\<rparr>, Some (show_02d mi @ '':'' @ show_02d s))"
    using assms get_field_02d [of h 23 tm_hour_update t "show_02d mi @ '':'' @ show_02d s"]
    by (simp add: hms_str_def valid_fields_def)
  moreover have "get_field tm_min_update 59 u (show_02d mi @ '':'' @ show_02d s) = (u\<lparr>tm_min := int mi\<rparr>, Some (show_02d s))" for u
    using assms get_field_02d [of mi 59 tm_min_update u "show_02d s"] by (simp add: valid_fields_def)
  moreover have "strtol10 (show_02d s) = (int s, [])"
    using assms strtol10_02d [of s "[]"] by (simp add: valid_fields_def)
  ultimately show ?thesis
    using assms by (simp add: get_h_m_s_def valid_fields_def) (simp add: show_02d_def)
qed

lemma get_ymd:
  assumes "valid_fields mo d h mi s" and "\<forall>c \<in> set ys. isdigit c" and "ys \<noteq> []" and "digits_val ys < 2 ^ 31"
  shows "get_y_m_d t (ys @ ''-'' @ show_02d mo @ ''-'' @ show_02d d) =
    (0, t\<lparr>tm_year := int (digits_val ys) - 1900, tm_mon := int mo - 1, tm_mday := int d\<rparr>)"
proof -
  have "parse_to (Some (CHR ''-'')) (ys @ ''-'' @ show_02d mo @ ''-'' @ show_02d d) =
      Some (int (digits_val ys), show_02d mo @ ''-'' @ show_02d d)"
    using strtol10_digits [OF assms(2,3), of "''-'' @ show_02d mo @ ''-'' @ show_02d d"] assms(3,4)
    by (simp add: parse_to_def)
  with assms(1) parse_to_02d(1) [of mo "CHR ''-''" "show_02d d"] parse_to_02d(2) [of d]
  show ?thesis by (simp add: get_y_m_d_def valid_fields_def)
qed

lemma copy_middle: "length a = k \<Longrightarrow> n = int (length b) \<Longrightarrow> n \<le> cap \<Longrightarrow> copy_upto (a @ b @ c) k n cap = Inr b"
  by (simp add: copy_upto_def)

text \<open>
  Claim C22.  The time string of the nRF9160 sets the clock to the time it shows (the time zone is
  dropped), whatever the uninitialised variables hold, when the clock accepts it.
\<close>

theorem modem_time_sets_clock:
  assumes "valid_fields mo d h mi s" and "y < 100" and "sign = CHR ''+'' \<or> sign = CHR ''-''"
    and "\<forall>c \<in> set zone. isdigit c"
    and "timegm (the_tm (2000 + y) mo d h mi s) \<noteq> -1" and "settime (timegm (the_tm (2000 + y) mo d h mi s)) = 0"
    and "\<not> time_set \<or> force"
  shows "d1_set_5340_time timegm settime junk year_rest time_set (Some (modem_time_str y mo d h mi s sign zone)) force =
    Inr (0, True, Some (the_tm (2000 + y) mo d h mi s))"
proof -
  let ?s = "modem_time_str y mo d h mi s sign zone"
  let ?date = "show_02d y @ ''/'' @ show_02d mo @ ''/'' @ show_02d d"
  have s: "?s = ?date @ CHR '','' # (hms_str h mi s @ sign # zone)" by (simp add: modem_time_str_def)
  have in_s: "c \<in> set ?s \<Longrightarrow> isdigit c \<or> c = CHR ''/'' \<or> c = CHR '','' \<or> c = CHR '':'' \<or> c = sign" for c
    using assms(4) not_in_02d [of c] not_in_hms [of c h mi s] by (auto simp: modem_time_str_def)
  have no: "CHR ''T'' \<notin> set ?s" using in_s [of "CHR ''T''"] assms(3) by (auto simp: isdigit_def)
  have comma: "strchr ?s (CHR '','') = Some 8"
    using strchr_here [of "CHR '',''" ?date] not_in_02d by (simp add: s)
  have stop: "(case strchr ?s (CHR ''+'') of Some p \<Rightarrow> Some p | None \<Rightarrow> strchr ?s (CHR ''-'')) = Some 17"
  proof -
    have pre: "c \<notin> set (?date @ '','' @ hms_str h mi s)" if "c = CHR ''+'' \<or> c = CHR ''-''" for c
      using that not_in_02d [of c] not_in_hms [of c] by auto
    have here: "strchr ?s sign = Some 17"
      using strchr_here [OF pre [OF assms(3)], of zone] by (simp add: s)
    have "strchr ?s (CHR ''+'') = None" if "sign = CHR ''-''"
      using in_s [of "CHR ''+''"] that by (auto simp: strchr_none)
    with here assms(3) show ?thesis by auto
  qed
  have time: "copy_upto ?s 9 (int 17 - int 8 - 1) 15 = Inr (hms_str h mi s)"
    using copy_middle [of "?date @ '',''" 9 8 "hms_str h mi s" 15 "sign # zone"] by (simp add: s)
  have "split_9160 ?s = Inr (Some (slash_to_dash (''20'' @ ?date), hms_str h mi s))"
    using time by (simp add: split_9160_def comma stop Let_def) (simp add: s)
  also have "slash_to_dash (''20'' @ ?date) = (''20'' @ show_02d y) @ ''-'' @ show_02d mo @ ''-'' @ show_02d d"
    using slash_02d by (simp add: slash_to_dash_def)
  finally have split: "split_9160 ?s =
      Inr (Some ((''20'' @ show_02d y) @ ''-'' @ show_02d mo @ ''-'' @ show_02d d, hms_str h mi s))" .
  let ?ys = "''20'' @ show_02d y"
  have ys: "\<forall>c \<in> set ?ys. isdigit c" "digits_val ?ys = 2000 + y"
    using show_02d_digits [of y] digits_val_20 [OF assms(2)] by (auto simp: isdigit_def)
  have ymd: "get_y_m_d junk (?ys @ ''-'' @ show_02d mo @ ''-'' @ show_02d d) =
      (0, junk\<lparr>tm_year := int (2000 + y) - 1900, tm_mon := int mo - 1, tm_mday := int d\<rparr>)"
    using get_ymd [OF assms(1) ys(1), of junk] ys(2) assms(2) by simp
  have tm: "junk\<lparr>tm_year := 100 + int y, tm_mon := int mo - 1, tm_mday := int d,
      tm_hour := int h, tm_min := int mi, tm_sec := int s\<rparr> = the_tm (2000 + y) mo d h mi s"
    by (simp add: the_tm_def)
  have len: "16 \<le> length ?s" by (simp add: s)
  have none: "strstr ?s ''+TIME:'' = None" by (rule strstr_absent [OF _ no]) simp
  show ?thesis
    using assms(5-7) len none
    by (simp add: d1_set_5340_time_def split ymd get_hms [OF assms(1)] tm del: append_Cons append_assoc)
qed

theorem modem_time_sets_clock_witness:
  "d1_set_5340_time tm_sec (\<lambda>_. 0) (the_tm 0 0 0 0 0 0) [] False
     (Some (modem_time_str 24 4 3 18 52 38 (CHR ''-'') ''28'')) False =
   Inr (0, True, Some (the_tm (2000 + 24) 4 3 18 52 38))"
  by (rule modem_time_sets_clock) (simp_all add: valid_fields_def the_tm_def isdigit_def)

lemma show_nat_4: "1000 \<le> n \<Longrightarrow> n < 10000 \<Longrightarrow> length (show_nat n) = 4"
proof -
  assume n: "1000 \<le> n" "n < 10000"
  then have "10 \<le> n div 100" "n div 1000 < 10" "0 < n div 1000" "100 \<le> n div 10"
    by simp_all
  then show ?thesis using n
    by (subst show_nat.simps, subst show_nat.simps, subst show_nat.simps, subst show_nat.simps)
       (simp flip: div_mult2_eq)
qed

lemma atoi_prefix:
  assumes "\<forall>c \<in> set ys. isdigit c" and "ys \<noteq> []" and "2024 \<le> digits_val ys"
  shows "2024 \<le> atoi (ys @ rest)"
proof -
  from assms(2) obtain c cs where ys: "ys = c # cs" by (cases ys) auto
  with assms(1) have c: "isdigit c" "\<not> isspace c" "c \<noteq> CHR ''-''" "c \<noteq> CHR ''+''"
    using isdigit_not_space [of c] by auto
  have "takeWhile isdigit (ys @ rest) = ys @ takeWhile isdigit rest"
    using assms(1) by (simp add: takeWhile_append)
  then have "atoi (ys @ rest) = long_clamp (int (digits_val (ys @ takeWhile isdigit rest)))"
    using c by (simp add: atoi_def strtol10_def ys Let_def)
  with assms(3) digits_val_le_append [of ys "takeWhile isdigit rest"] show ?thesis
    by (simp add: long_clamp_def)
qed

text \<open>
  The time string of the DA16200 sets the clock to the time it shows, for every year from
  2024 to 9999, whatever the uninitialised byte after \<open>year\<close> and the rest of the stack hold.
\<close>

theorem da_time_sets_clock:
  assumes "valid_fields mo d h mi s" and "2024 \<le> y" and "y < 10000"
    and "timegm (the_tm y mo d h mi s) \<noteq> -1" and "settime (timegm (the_tm y mo d h mi s)) = 0"
    and "\<not> time_set \<or> force"
  shows "d1_set_5340_time timegm settime junk year_rest time_set (Some (da_time_str y mo d h mi s)) force =
    Inr (0, True, Some (the_tm y mo d h mi s))"
proof -
  let ?s = "da_time_str y mo d h mi s" and ?ys = "show_nat y"
  let ?date = "?ys @ ''-'' @ show_02d mo @ ''-'' @ show_02d d"
  have ys: "length ?ys = 4" "\<forall>c \<in> set ?ys. isdigit c" using assms(2,3) show_nat_4 show_nat_digits by simp_all
  have s: "?s = (''+TIME:'' @ ?date) @ CHR '','' # hms_str h mi s" by (simp add: da_time_str_def)
  have colon: "strchr ?s (CHR '':'') = Some 5" by (simp add: da_time_str_def)
  have comma: "strchr ?s (CHR '','') = Some 16"
  proof -
    have "CHR '','' \<notin> set (''+TIME:'' @ ?date)"
      using ys(2) not_in_02d [of "CHR '',''"] by (auto simp: isdigit_def)
    from strchr_here [OF this, of "hms_str h mi s"] show ?thesis using ys(1) by (simp add: s)
  qed
  have date: "copy_upto ?s 6 (int 16 - int 5 - 1) 15 = Inr ?date"
    using copy_middle [of "''+TIME:''" 6 10 ?date 15 "CHR '','' # hms_str h mi s"] ys(1) by (simp add: s)
  have dash: "strchr ?date (CHR ''-'') = Some 4"
  proof -
    have "CHR ''-'' \<notin> set ?ys" using ys(2) by (auto simp: isdigit_def)
    from strchr_here [OF this] ys(1) show ?thesis by simp
  qed
  have time: "take 8 (drop 17 ?s) = hms_str h mi s"
    using ys(1) by (simp add: s)
  have year: "\<not> atoi (take (min 4 4) ?date @ year_rest) < 2024"
    using atoi_prefix [OF ys(2), of year_rest] assms(2) ys(1) by simp
  have split: "split_da year_rest ?s = Inr (Some (?date, hms_str h mi s))"
    using date time year dash by (simp add: split_da_def colon comma Let_def)
  have ymd: "get_y_m_d junk ?date = (0, junk\<lparr>tm_year := int y - 1900, tm_mon := int mo - 1, tm_mday := int d\<rparr>)"
    using get_ymd [OF assms(1) ys(2), of junk] assms(3) by simp
  have tm: "junk\<lparr>tm_year := int y - 1900, tm_mon := int mo - 1, tm_mday := int d,
      tm_hour := int h, tm_min := int mi, tm_sec := int s\<rparr> = the_tm y mo d h mi s"
    by (simp add: the_tm_def)
  have len: "16 \<le> length ?s" using ys(1) by (simp add: s)
  have "strstr ?s ''+TIME:'' = Some 0" by (simp add: da_time_str_def)
  then show ?thesis
    using assms(4-6) len
    by (simp add: d1_set_5340_time_def split ymd get_hms [OF assms(1)] tm del: append_Cons append_assoc)
qed

theorem da_time_sets_clock_witness:
  "d1_set_5340_time tm_sec (\<lambda>_. 0) (the_tm 0 0 0 0 0 0) ''9x'' False (Some (da_time_str 2024 4 3 18 52 35)) False =
   Inr (0, True, Some (the_tm 2024 4 3 18 52 35))"
  by (rule da_time_sets_clock) (simp_all add: valid_fields_def the_tm_def)

section \<open>What is accepted\<close>

lemma get_y_m_d_range:
  "get_y_m_d t s = (0, t') \<Longrightarrow>
   0 \<le> tm_mon t' \<and> tm_mon t' \<le> 11 \<and> 1 \<le> tm_mday t' \<and> tm_mday t' \<le> 31"
  by (auto simp: get_y_m_d_def split: option.splits if_splits)

text \<open>
  A clock that has been set shows a month from 0 to 11, a day from 1 to 31 and a second
  from 0 to 60; and a clock is not touched by a string that is refused or when it is set already.
\<close>

theorem accepted_time_in_range:
  assumes "d1_set_5340_time timegm settime junk year_rest time_set str force = Inr (ret, time_set', t)"
  shows "case t of None \<Rightarrow> time_set' = time_set \<and> (ret = 0 \<longleftrightarrow> time_set \<and> \<not> force)
    | Some tm \<Rightarrow> ret = 0 \<and> time_set' \<and> 0 \<le> tm_mon tm \<and> tm_mon tm \<le> 11 \<and> 1 \<le> tm_mday tm \<and>
        tm_mday tm \<le> 31 \<and> 0 \<le> tm_sec tm \<and> tm_sec tm \<le> 60"
proof (cases t)
  case None
  with assms show ?thesis
    by (auto simp: d1_set_5340_time_def Let_def split: if_splits option.splits sum.splits prod.splits)
next
  case (Some tm)
  with assms obtain date time tm1 where
    ymd: "get_y_m_d junk date = (0, tm1)" and hms: "get_h_m_s tm1 time = (0, tm)" and r: "ret = 0" "time_set'"
    by (auto simp: d1_set_5340_time_def Let_def split: if_splits option.splits sum.splits prod.splits)
  from hms have "tm_mon tm = tm_mon tm1 \<and> tm_mday tm = tm_mday tm1 \<and> 0 \<le> tm_sec tm \<and> tm_sec tm \<le> 60"
    by (auto simp: get_h_m_s_def get_field_def Let_def split: if_splits option.splits prod.splits)
  with get_y_m_d_range [OF ymd] Some r show ?thesis by simp
qed

theorem accepted_time_in_range_witness:
  "\<exists>t. d1_set_5340_time tm_sec (\<lambda>_. 0) (the_tm 0 0 0 0 0 0) [] False
     (Some ''24/04/03,18:52:38-28'') False = Inr (0, True, Some t) \<and> tm_mon t \<le> 11"
proof -
  have e: "d1_set_5340_time tm_sec (\<lambda>_. 0) (the_tm 0 0 0 0 0 0) [] False
      (Some ''24/04/03,18:52:38-28'') False = Inr (0, True, Some (the_tm 2024 4 3 18 52 38))"
    by code_simp
  from accepted_time_in_range [OF e] e show ?thesis by auto
qed

text \<open>
  Empty hour and minute fields are accepted: the clock is then set from a variable that
  was never initialised.
\<close>

theorem empty_fields_uninitialised:
  assumes "timegm (junk\<lparr>tm_year := 124, tm_mon := 3, tm_mday := 3, tm_sec := 5\<rparr>) \<noteq> -1"
    and "settime (timegm (junk\<lparr>tm_year := 124, tm_mon := 3, tm_mday := 3, tm_sec := 5\<rparr>)) = 0"
  shows "d1_set_5340_time timegm settime junk year_rest False (Some ''24/04/03,::05+00'') False =
    Inr (0, True, Some (junk\<lparr>tm_year := 124, tm_mon := 3, tm_mday := 3, tm_sec := 5\<rparr>))"
proof -
  have "split_9160 ''24/04/03,::05+00'' = Inr (Some (''2024-04-03'', ''::05''))"
    "strstr ''24/04/03,::05+00'' ''+TIME:'' = None" "\<not> length ''24/04/03,::05+00'' < 16"
    by code_simp+
  moreover have "parse_to (Some (CHR ''-'')) ''2024-04-03'' = Some (2024, ''04-03'')"
    "parse_to (Some (CHR ''-'')) ''04-03'' = Some (4, ''03'')" "parse_to None ''03'' = Some (3, [])"
    "strtol10 ''05'' = (5, [])"
    by code_simp+
  ultimately show ?thesis
    using assms by (simp only: d1_set_5340_time_def get_y_m_d_def get_h_m_s_def get_field_def) simp
qed

theorem empty_fields_uninitialised_witness:
  "d1_set_5340_time tm_sec (\<lambda>_. 0) (the_tm 0 0 0 77 88 0) [] False (Some ''24/04/03,::05+00'') False =
    Inr (0, True, Some (the_tm 2024 4 3 77 88 5))"
  using empty_fields_uninitialised [of tm_sec "the_tm 0 0 0 77 88 0" "\<lambda>_. 0" "[]"]
  by (simp add: the_tm_def)

text \<open>
  A modem string with 14 or more characters before its comma writes past the end of the
  buffer \<open>date\<close>: the two digits of the century, the copied characters and the terminator are 17 bytes.
\<close>

theorem long_date_overruns:
  assumes "\<not> time_set \<or> force" and "16 \<le> length str" and "strstr str ''+TIME:'' = None"
    and "strchr str (CHR '','') = Some comma" and "14 \<le> comma" and "strchr str (CHR ''+'') = Some stop"
    and "comma < stop"
  shows "d1_set_5340_time timegm settime junk year_rest time_set (Some str) force = Inl DateOverrun"
proof -
  have "comma < length str" using assms(4) by (simp add: strchr_some)
  with assms show ?thesis
    by (simp add: d1_set_5340_time_def split_9160_def copy_upto_def Let_def)
qed

theorem long_date_overruns_witness:
  "d1_set_5340_time tm_sec (\<lambda>_. 0) (the_tm 0 0 0 0 0 0) [] False (Some ''0024/004/00003,18:52:38+28'') False =
     Inl DateOverrun"
proof (rule long_date_overruns [of _ _ _ 14 23])
  show "strstr ''0024/004/00003,18:52:38+28'' ''+TIME:'' = None" by code_simp
qed simp_all

end
