(* ===== verification/CommState.thy ===== *)
theory CommState
  imports RadioInv CStrings
begin

text \<open>
  The communication manager, \<^verbatim>\<open>commercial_collar/src/comm_mgr/src/commMgr.c\<close>: its static variables,
  the queue of messages for the cloud with the heap their texts live in, the functions that queue
  a message, and the timer of the periodic work.  The state extends the radio manager's record.
  The texts of messages are made by \<^verbatim>\<open>d1_json.c\<close> with the library cJSON; a text is here the answer of
  the environment \<open>json_text\<close> to a request \<open>json_req\<close> that holds the arguments of the call.
\<close>

section \<open>State\<close>

datatype fmd_exit =
  FMD_ACTIVE | FMD_TIMEOUT | FMD_BATTERY | FMD_SAFE | FMD_CLOUD_REQUEST | FMD_NOT_ACTIVE

datatype lte_mqtt_config_state =
  LTE_MQTT_NOT_INITIALIZED | LTE_MQTT_INITIALIZING | LTE_MQTT_INITIALIZED

definition NUM_ZONES :: nat where
  "NUM_ZONES = 5"

record shadow_doc_t =
  S_Norm :: "16 word"
  S_FMD :: "16 word"
  T_Norm :: "16 word"
  T_FMD :: "16 word"
  sd_Rec :: "16 word"
  sd_Q :: "16 word"
  sd_dur :: "16 word"
  sd_ths :: "16 word"
  sd_mot_det :: bool
  mcuVer :: "8 word list"
  wifiVer :: "8 word list"
  lteVer :: "8 word list"
  fota_in_progress_duration :: "32 word"
  sd_gps_poll_period :: "32 word"
  sd_zones :: "shadow_zone list"

record mqtt_msg =
  mm_msg :: string
  mm_len :: nat
  mm_topic :: "8 word"
  mm_qos :: "8 word"
  mm_priority :: "8 word"

text \<open>
  What the listener copies out of a bus message: a message of the cloud with the radio it came over, the
  status of the nRF9160 with the bits that changed, the events of the DA16200's shadow.
\<close>

record mqtt_payload =
  mp_payload :: string
  mp_radio :: comm_device

record modem_status =
  ms_flags :: "32 word"
  ms_uptime :: "64 word"
  ms_fota_state :: "32 word"
  ms_fota_percentage :: "8 word"

datatype cm_msg =
  CmCloud mqtt_payload
| CmLteStatus "32 word" modem_status
| CmDaState "32 word"

text \<open>The telemetry and the answers on the dog's place take the queued scan results as they go.\<close>

datatype json_req =
  JsonSrfNonce "32 word"
| JsonPair string string string
| JsonSafeZone nat int string bool "string option"
| JsonConnectivity int
| JsonNearRealtime int string
| JsonOnboarding string
| JsonShadow string shadow_doc_t "(string \<times> string option) list option"
| JsonSrfResponse string string string nat
| JsonTelemetry comm_device string bool bool int
| JsonWheresMyDog "int option" "int option" "string option" "bool option" string bool fmd_exit

text \<open>
  The environment of the manager: the chips, the machine id of the UICR, the message texts, the
  random numbers, the allocator \<open>k_heap_alloc\<close>, which sees the sizes of the live blocks, the libraries
  cJSON and base64 (the returned value, the new length if one is set, the bytes), \<open>strerror\<close>,
  the bytes a read of the shadow document's file puts into its buffer,
  and what conversions of a \<open>double\<close> out of range give (undefined in C).  A
  request that makes several messages is answered with the successive results of the builder while
  it reports more data, each with what is left of the queued scan results.
\<close>

record cm_env =
  cenv :: env
  machine_id :: string
  json_text :: "json_req \<Rightarrow> world \<Rightarrow> string option"
  json_pieces :: "json_req \<Rightarrow> (string \<times> int) list \<Rightarrow> world \<Rightarrow>
    (string option \<times> (string \<times> int) list) \<times> (string option \<times> (string \<times> int) list) list"
  sys_rand32 :: "world \<Rightarrow> 32 word"
  heap_fits :: "nat list \<Rightarrow> nat \<Rightarrow> bool"
  modem_info :: "world \<Rightarrow> (string \<times> string) option"
  cJSON_Parse :: "string \<Rightarrow> cjson option"
  base64_decode :: "nat \<Rightarrow> string \<Rightarrow> int \<times> nat option \<times> string"
  strerror :: "int \<Rightarrow> string"
  file_text :: "world \<Rightarrow> string"
  ub16 :: "rat option \<Rightarrow> 16 word"
  ub32 :: "rat option \<Rightarrow> 32 word"
  ub64 :: "rat option \<Rightarrow> 64 word"

record cm_state = rm_state +
  shadow_doc :: shadow_doc_t
  gS_val :: int
  gT_val :: int
  gT_count :: int
  is_in_fmd_mode :: bool
  fmd_start_time :: "64 word"
  fmd_max_time_in_mins :: "64 word"
  last_fmd_ssid_scan :: "64 word"
  g_last_fmd_status :: fmd_exit
  g_quick_reconnect_cnt :: int
  g_send_shadow :: bool
  g_comm_mgr_disable_S_work :: bool
  g_comm_mgr_disable_Q_work :: bool
  usb_connected :: bool
  mqttq :: "mqtt_msg list"
  mqtt_heap :: "nat list"
  S_work_timer :: "nat option"
  wifi_ssids_fifo :: "(string \<times> int) list"
  g_5340_fota_in_progress :: bool
  g_DA_fota_in_progress :: bool
  g_9160_fota_in_progress :: bool
  srf_nonce :: "64 word"
  srf_nonce_sent :: bool
  srf_nonce_pending :: bool
  srf_nonce_status :: bool
  modem_mqtt_config_state :: lte_mqtt_config_state
  last_9160_uptime :: "64 word"
  first_9160_status_recieved :: bool
  my_gps_poll_period :: "32 word"
  mqttQ_work_items :: "nat list"
  WMD_request_id :: string
  WMD_pending :: bool
  FMD_state :: bool
  FMD_duration :: "16 word"
  FMD_pending :: bool
  gps_pending :: bool
  cm_null_deref :: bool
  cm_work_items :: "(nat \<times> cm_msg) list"
  cm_live_blocks :: int
  S_work_pending :: bool
  fota_info :: "32 word \<times> int \<times> comm_device"
  fota_pending :: bool
  battery_percentage :: rat
  ble_info :: "bool \<times> 32 word"
  ble_pending :: bool
  Fota_work_timer :: "nat option"

section \<open>The message queue\<close>

abbreviation WIFI_MSG_SIZE :: nat where "WIFI_MSG_SIZE \<equiv> 2100"

abbreviation MQTTQ_LENGTH :: nat where "MQTTQ_LENGTH \<equiv> 30"

abbreviation MQTT_MESSAGE_TYPE_INFO_TELEMETRY :: "8 word" where "MQTT_MESSAGE_TYPE_INFO_TELEMETRY \<equiv> 1"
abbreviation MQTT_MESSAGE_TYPE_ONBOARDING :: "8 word" where "MQTT_MESSAGE_TYPE_ONBOARDING \<equiv> 3"
abbreviation MQTT_MESSAGE_TYPE_FOTA :: "8 word" where "MQTT_MESSAGE_TYPE_FOTA \<equiv> 4"
abbreviation MQTT_MESSAGE_TYPE_CONN_TEST :: "8 word" where "MQTT_MESSAGE_TYPE_CONN_TEST \<equiv> 10"
abbreviation MQTT_MESSAGE_TYPE_SHADOW_PROXY :: "8 word" where "MQTT_MESSAGE_TYPE_SHADOW_PROXY \<equiv> 15"
abbreviation MQTT_MESSAGE_TYPE_SRF_NONCE :: "8 word" where "MQTT_MESSAGE_TYPE_SRF_NONCE \<equiv> 22"
abbreviation MQTT_MESSAGE_TYPE_SRF_FUNC :: "8 word" where "MQTT_MESSAGE_TYPE_SRF_FUNC \<equiv> 23"
abbreviation MQTT_MESSAGE_TYPE_NEAR_REAL_TIME :: "8 word" where "MQTT_MESSAGE_TYPE_NEAR_REAL_TIME \<equiv> 29"

text \<open>
  \<open>k_heap_alloc\<close> waits up to 10 ms for memory and \<open>k_msgq_put\<close> up to 20 ms for room; the thread that
  frees them does not run inside a handler of this model, so a wait ends with the timeout.
\<close>

definition k_heap_alloc ::
  "cm_env \<Rightarrow> nat \<Rightarrow> nat \<Rightarrow> ('a cm_state_scheme, bool) state" where
  "k_heap_alloc c bytes timeout = do {
     fits \<leftarrow> gets (\<lambda>s. heap_fits c (mqtt_heap s) bytes);
     if fits then do { modify (\<lambda>s. s\<lparr>mqtt_heap := bytes # mqtt_heap s\<rparr>); return True }
     else do { ksleep (cenv c) timeout; return False }
   }"

definition k_heap_free :: "nat \<Rightarrow> ('a cm_state_scheme, unit) state" where
  "k_heap_free bytes = modify (\<lambda>s. s\<lparr>mqtt_heap := remove1 bytes (mqtt_heap s)\<rparr>)"

definition k_msgq_put :: "cm_env \<Rightarrow> mqtt_msg \<Rightarrow> nat \<Rightarrow> ('a cm_state_scheme, int) state" where
  "k_msgq_put c msg timeout = do {
     n \<leftarrow> gets (\<lambda>s. length (mqttq s));
     if n < MQTTQ_LENGTH then do { modify (\<lambda>s. s\<lparr>mqttq := mqttq s @ [msg]\<rparr>); return 0 }
     else if timeout = 0 then return (- ENOMSG)
     else do { ksleep (cenv c) timeout; return (- EAGAIN) }
   }"

text \<open>The length is a \<open>uint16_t\<close>: the callers pass \<open>strlen(json)\<close>.\<close>

definition commMgr_queue_mqtt_message ::
  "cm_env \<Rightarrow> string \<Rightarrow> 16 word \<Rightarrow> 8 word \<Rightarrow> 8 word \<Rightarrow> 8 word \<Rightarrow> ('a cm_state_scheme, int) state" where
  "commMgr_queue_mqtt_message c msgbuf msg_len topic_num qos priority =
     (if unat msg_len > WIFI_MSG_SIZE then return (- EINVAL)
      else do {
        mem \<leftarrow> k_heap_alloc c (unat msg_len + 1) 10;
        if \<not> mem then return (- ENOMEM)
        else do {
          ret \<leftarrow> k_msgq_put c
            \<lparr>mm_msg = take (unat msg_len) msgbuf, mm_len = unat msg_len, mm_topic = topic_num,
             mm_qos = qos, mm_priority = priority\<rparr> 20;
          whenever (ret \<noteq> 0) (k_heap_free (unat msg_len + 1));
          return ret
        }
      })"

definition queue_json ::
  "cm_env \<Rightarrow> string \<Rightarrow> 8 word \<Rightarrow> 8 word \<Rightarrow> ('a cm_state_scheme, int) state" where
  "queue_json c json topic priority =
     commMgr_queue_mqtt_message c json (of_nat (length json)) topic 0 priority"

text \<open>The common shape of the queueing functions: make the text, fail without one, queue it.\<close>

definition queue_req ::
  "cm_env \<Rightarrow> json_req \<Rightarrow> 8 word \<Rightarrow> 8 word \<Rightarrow> ('a cm_state_scheme, int) state" where
  "queue_req c req topic priority = do {
     json \<leftarrow> gets (\<lambda>s. json_text c req (wld s));
     case json of None \<Rightarrow> return (- EINVAL) | Some j \<Rightarrow> queue_json c j topic priority
   }"

end
