(* ===== verification/CommQueue.thy ===== *)
theory CommQueue
  imports CommState
begin

text \<open>
  The functions of \<^verbatim>\<open>commMgr.c\<close> that queue the messages for the cloud, the periods \<open>S\<close> and \<open>T\<close> of
  the periodic work, its timer, and the two functions that the radio manager calls at the end of a
  switch.  The single precision arithmetic of the period is written out: a value is a mantissa of 24
  bits and a number of binary places, rounded to nearest, ties to even.
\<close>

section \<open>Messages of the collar\<close>

text \<open>\<open>abs\<close> of the random number as an \<open>int\<close>, converted to the \<open>uint64_t\<close> of the nonce.\<close>

definition abs_int :: "32 word \<Rightarrow> 32 word" where
  "abs_int w = (if sint w < 0 then - w else w)"

definition commMgr_queue_srf_nonce :: "cm_env \<Rightarrow> ('a cm_state_scheme, unit) state" where
  "commMgr_queue_srf_nonce c = do {
     s \<leftarrow> State_Monad.get;
     whenever (srf_nonce s = 0)
       (modify (\<lambda>s. s\<lparr>srf_nonce := scast (abs_int (sys_rand32 c (wld s)))\<rparr>));
     s \<leftarrow> State_Monad.get;
     case json_text c (JsonSrfNonce (ucast (srf_nonce s))) (wld s) of
       None \<Rightarrow> skip
     | Some json \<Rightarrow> do {
         ret \<leftarrow> queue_json c json MQTT_MESSAGE_TYPE_SRF_NONCE 5;
         whenever (ret = 0) (modify (\<lambda>s. s\<lparr>srf_nonce_sent := True\<rparr>))
       }
   }"

text \<open>
  The loops \<open>while (more_data > 0)\<close> over the pieces of a long message; \<open>ret\<close> is the result of the
  last call that queued a piece.  A builder without a text ends the function with that result.
\<close>

fun queue_pieces ::
  "cm_env \<Rightarrow> 8 word \<Rightarrow> 8 word \<Rightarrow> (string option \<times> (string \<times> int) list) list \<Rightarrow> int \<Rightarrow>
   ('a cm_state_scheme, int) state" where
  "queue_pieces c topic priority [] ret = return ret"
| "queue_pieces c topic priority ((json, rest) # ps) ret = do {
     modify (\<lambda>s. s\<lparr>wifi_ssids_fifo := rest\<rparr>);
     case json of
       None \<Rightarrow> return ret
     | Some j \<Rightarrow> do {
         ret \<leftarrow> queue_json c j topic priority;
         queue_pieces c topic priority ps ret
       }
   }"

definition queue_long ::
  "cm_env \<Rightarrow> json_req \<Rightarrow> 8 word \<Rightarrow> 8 word \<Rightarrow> ('a cm_state_scheme, int) state" where
  "queue_long c req topic priority = do {
     s \<leftarrow> State_Monad.get;
     let (p, ps) = json_pieces c req (wifi_ssids_fifo s) (wld s) in queue_pieces c topic priority (p # ps) 0
   }"

definition put_scan_in_fifo :: "('a cm_state_scheme, unit) state" where
  "put_scan_in_fifo =
     modify (\<lambda>s. s\<lparr>wifi_ssids_fifo := wifi_ssids_fifo s @ g_last_ssid_list (wld s)\<rparr>)"

definition commMgr_queue_telemetry :: "cm_env \<Rightarrow> bool \<Rightarrow> ('a cm_state_scheme, int) state" where
  "commMgr_queue_telemetry c include_ssids = do {
     whenever include_ssids put_scan_in_fifo;
     s \<leftarrow> State_Monad.get;
     queue_long c
       (JsonTelemetry (if rm_get_active_mqtt_radio s = COMM_DEVICE_DA16200 then COMM_DEVICE_DA16200
                       else COMM_DEVICE_NRF9160)
          (ap_name (das s)) (tri_int (ap_safe (das s)) = 1) (usb_connected s) (da_rssi (das s)))
       MQTT_MESSAGE_TYPE_INFO_TELEMETRY 20
   }"

definition fmd_status :: "'a cm_state_scheme \<Rightarrow> fmd_exit" where
  "fmd_status s = (if is_in_fmd_mode s then g_last_fmd_status s else FMD_NOT_ACTIVE)"

text \<open>The builder of this message reads \<open>fmd_status\<close>.\<close>

definition commMgr_queue_fmd_telemetry :: "cm_env \<Rightarrow> ('a cm_state_scheme, int) state" where
  "commMgr_queue_fmd_telemetry c = do {
     put_scan_in_fifo;
     s \<leftarrow> State_Monad.get;
     queue_long c
       (JsonWheresMyDog (Some 12345) (Some 12345) (Some (ap_name (das s)))
          (Some (tri_int (ap_safe (das s)) = 1)) ''0'' True (fmd_status s))
       MQTT_MESSAGE_TYPE_NEAR_REAL_TIME 10
   }"

definition commMgr_queue_pairing_nonce :: "cm_env \<Rightarrow> string \<Rightarrow> ('a cm_state_scheme, int) state" where
  "commMgr_queue_pairing_nonce c nonce = do {
     w \<leftarrow> gets wld;
     let (iccid, imei) = (case modem_info c w of None \<Rightarrow> (''UNKNOWN'', ''UNKNOWN'') | Some p \<Rightarrow> p)
     in queue_req c (JsonPair nonce iccid imei) MQTT_MESSAGE_TYPE_NEAR_REAL_TIME 5
   }"

definition commMgr_queue_safe_zone_alert ::
  "cm_env \<Rightarrow> nat \<Rightarrow> int \<Rightarrow> string \<Rightarrow> bool \<Rightarrow> ('a cm_state_scheme, int) state" where
  "commMgr_queue_safe_zone_alert c tm kind ssid entering = do {
     s \<leftarrow> State_Monad.get;
     queue_req c
       (JsonSafeZone tm kind ssid entering
          (if entering then None else Some (ap_disconnect_reason (das s))))
       MQTT_MESSAGE_TYPE_NEAR_REAL_TIME 10
   }"

definition commMgr_queue_connectivity :: "cm_env \<Rightarrow> int \<Rightarrow> ('a cm_state_scheme, int) state" where
  "commMgr_queue_connectivity c num_bytes =
     queue_req c (JsonConnectivity num_bytes) MQTT_MESSAGE_TYPE_CONN_TEST 30"

definition commMgr_queue_alert :: "cm_env \<Rightarrow> int \<Rightarrow> string \<Rightarrow> ('a cm_state_scheme, int) state" where
  "commMgr_queue_alert c sub_type msg =
     queue_req c (JsonNearRealtime sub_type msg) MQTT_MESSAGE_TYPE_NEAR_REAL_TIME 10"

datatype goldilocks = TOO_COLD | JUST_RIGHT | TOO_HOT

abbreviation TEMPERATURE_SUB_TYPE :: int where "TEMPERATURE_SUB_TYPE \<equiv> 32"

definition send_temp_alert :: "cm_env \<Rightarrow> goldilocks \<Rightarrow> ('a cm_state_scheme, int) state" where
  "send_temp_alert c curr_status =
     (case curr_status of
        TOO_COLD \<Rightarrow> commMgr_queue_alert c TEMPERATURE_SUB_TYPE ''T0:Warning: too cold for many dogs''
      | JUST_RIGHT \<Rightarrow> commMgr_queue_alert c TEMPERATURE_SUB_TYPE ''T1:Temperature is back to normal range''
      | TOO_HOT \<Rightarrow> commMgr_queue_alert c TEMPERATURE_SUB_TYPE ''T2:Warning: too hot for most dogs'')"

definition commMgr_queue_onboarding :: "cm_env \<Rightarrow> ('a cm_state_scheme, int) state" where
  "commMgr_queue_onboarding c =
     queue_req c (JsonOnboarding ''Test GWINFO D1'') MQTT_MESSAGE_TYPE_ONBOARDING 1"

definition commMgr_queue_shadow ::
  "cm_env \<Rightarrow> (string \<times> string option) list option \<Rightarrow> ('a cm_state_scheme, int) state" where
  "commMgr_queue_shadow c extra = do {
     s \<leftarrow> State_Monad.get;
     queue_req c (JsonShadow (machine_id c) (shadow_doc s) extra) MQTT_MESSAGE_TYPE_SHADOW_PROXY 20
   }"

definition queue_srf_response ::
  "cm_env \<Rightarrow> string \<Rightarrow> string \<Rightarrow> string \<Rightarrow> ('a cm_state_scheme, int) state" where
  "queue_srf_response c rid err errmsg = do {
     w \<leftarrow> gets wld;
     queue_req c (JsonSrfResponse rid err errmsg (utc_time w)) MQTT_MESSAGE_TYPE_SRF_FUNC 5
   }"

section \<open>Single precision\<close>

text \<open>\<open>rne n d\<close>: the quotient rounded to the nearest integer, ties to even.\<close>

definition rne :: "nat \<Rightarrow> nat \<Rightarrow> nat" where
  "rne n d =
     (let q = n div d; r = n mod d
      in if 2 * r < d \<or> (2 * r = d \<and> even q) then q else q + 1)"

text \<open>
  \<open>f32_div a b\<close> is the pair \<open>(m, k)\<close> of the float \<open>m / 2 ^ k\<close> nearest to \<open>a / b\<close>, for positive
  integers of 16 bits; \<open>k\<close> is the first number of places that gives 24 bits.
\<close>

definition f32_div :: "nat \<Rightarrow> nat \<Rightarrow> nat \<times> nat" where
  "f32_div a b =
     (let k = hd (filter (\<lambda>k. 2 ^ 23 * b \<le> a * 2 ^ k) [0..<64]) in (rne (a * 2 ^ k) b, k))"

text \<open>The product with an integer of 16 bits, rounded to 24 bits and cut off to an integer.\<close>

definition f32_mul_trunc :: "nat \<times> nat \<Rightarrow> nat \<Rightarrow> nat" where
  "f32_mul_trunc x t =
     (let p = fst x * t; j = hd (filter (\<lambda>j. p div 2 ^ j < 2 ^ 24) [0..<64])
      in rne p (2 ^ j) * 2 ^ j div 2 ^ snd x)"

section \<open>The periods\<close>

text \<open>
  A period of 0 seconds would divide by zero: the conversion of the infinite quotient to \<open>int\<close> is
  then undefined, and the model gives 0.
\<close>

definition scaled_T :: "int \<Rightarrow> int \<Rightarrow> int \<Rightarrow> int" where
  "scaled_T S gS T =
     (if S \<le> 0 \<or> gS \<le> 0 \<or> T \<le> 0 then 0
      else int (f32_mul_trunc (f32_div (nat S) (nat gS)) (nat T)))"

definition calculate_S_and_T :: "bool \<Rightarrow> ('a cm_state_scheme, unit) state" where
  "calculate_S_and_T in_fmd = modify (\<lambda>s.
     let T = uint (if in_fmd then T_FMD (shadow_doc s) else T_Norm (shadow_doc s));
         S = uint (if in_fmd then S_FMD (shadow_doc s) else S_Norm (shadow_doc s));
         Rec = (if g_usb_connected s \<or> g_quick_reconnect_cnt s > 0 then 10
                else uint (sd_Rec (shadow_doc s)));
         device = rm_get_active_mqtt_radio s;
         gS = (if device \<noteq> COMM_DEVICE_DA16200
               then (if device = COMM_DEVICE_NONE then 20 else min Rec S)
               else S);
         gT = scaled_T S gS T
     in s\<lparr>gS_val := gS, gT_val := gT, gT_count := (if gT_count s > gT then gT else gT_count s)\<rparr>)"

text \<open>\<open>k_timer_remaining_get\<close> gives milliseconds, \<open>gS_val\<close> counts seconds.\<close>

definition k_timer_remaining_get :: "'a cm_state_scheme \<Rightarrow> int" where
  "k_timer_remaining_get s =
     (case S_work_timer s of None \<Rightarrow> 0 | Some t \<Rightarrow> int (t - uptime (wld s)))"

definition start_S_timer :: "nat \<Rightarrow> ('a cm_state_scheme, unit) state" where
  "start_S_timer ms = modify (\<lambda>s. s\<lparr>S_work_timer := Some (uptime (wld s) + ms)\<rparr>)"

definition reset_S_timer :: "bool \<Rightarrow> ('a cm_state_scheme, unit) state" where
  "reset_S_timer in_fmd = do {
     remaining \<leftarrow> gets k_timer_remaining_get;
     modify (\<lambda>s. s\<lparr>S_work_timer := None\<rparr>);
     calculate_S_and_T in_fmd;
     g \<leftarrow> gets gS_val;
     let remaining = (if remaining = 0 then g else remaining)
     in start_S_timer (nat (1000 * min remaining g))
   }"

section \<open>The end of a switch\<close>

definition report_switch :: "cm_env \<Rightarrow> ('a cm_state_scheme, int) state" where
  "report_switch c = do {
     s \<leftarrow> State_Monad.get;
     reset_S_timer (is_in_fmd_mode s);
     if onboarded (das s) \<noteq> DA_STATE_KNOWN_TRUE
     then do { commMgr_queue_onboarding c; return 0 }
     else do {
       whenever (g_send_shadow s = False) (do {
         commMgr_queue_shadow c None;
         modify (\<lambda>s. s\<lparr>g_send_shadow := True\<rparr>)
       });
       commMgr_queue_srf_nonce c;
       return 0
     }
   }"

definition commMgr_switched_to_wifi :: "cm_env \<Rightarrow> ('a cm_state_scheme, int) state" where
  "commMgr_switched_to_wifi c = report_switch c"

definition commMgr_switched_to_lte :: "cm_env \<Rightarrow> ('a cm_state_scheme, int) state" where
  "commMgr_switched_to_lte c = report_switch c"

end
