(* ===== verification/ShadowJson.thy ===== *)
theory ShadowJson
  imports CommState
begin

text \<open>
  The parser of the shadow document, \<open>json_parse_shadow_report\<close> of \<^verbatim>\<open>c_modules/json/src/d1_json.c\<close>,
  on the tree that \<open>cJSON_Parse\<close> gives.
\<close>

section \<open>The fields\<close>

text \<open>
  The steps of the parser change the return value and the document.  A step of a number is: when
  the name is there, convert, note that something was there, and move the value into the bounds.
\<close>

type_synonym parse_state = "int \<times> shadow_doc_t"

definition clamp16 :: "nat \<Rightarrow> nat \<Rightarrow> 16 word \<Rightarrow> 16 word" where
  "clamp16 lo hi x =
     (let x = (if unat x < lo then of_nat lo else x) in if unat x > hi then of_nat hi else x)"

definition parse_u16 ::
  "(rat option \<Rightarrow> 16 word) \<Rightarrow> cjson \<Rightarrow> string \<Rightarrow> nat \<Rightarrow> nat \<Rightarrow>
   ((16 word \<Rightarrow> 16 word) \<Rightarrow> shadow_doc_t \<Rightarrow> shadow_doc_t) \<Rightarrow> parse_state \<Rightarrow> parse_state" where
  "parse_u16 ub m name lo hi upd = (\<lambda>(ret, doc).
     case cJSON_GetObjectItem m name of
       None \<Rightarrow> (ret, doc)
     | Some v \<Rightarrow> (0, upd (\<lambda>_. clamp16 lo hi (to_unsigned ub (cJSON_GetNumberValue v))) doc))"

definition parse_u32 ::
  "(rat option \<Rightarrow> 32 word) \<Rightarrow> cjson \<Rightarrow> string \<Rightarrow>
   ((32 word \<Rightarrow> 32 word) \<Rightarrow> shadow_doc_t \<Rightarrow> shadow_doc_t) \<Rightarrow> parse_state \<Rightarrow> parse_state" where
  "parse_u32 ub m name upd = (\<lambda>(ret, doc).
     case cJSON_GetObjectItem m name of
       None \<Rightarrow> (ret, doc)
     | Some v \<Rightarrow> (0, upd (\<lambda>_. to_unsigned ub (cJSON_GetNumberValue v)) doc))"

text \<open>The \<open>bool\<close> gets the number: every value but 0 is true, NaN is.\<close>

definition parse_mot_det :: "cjson \<Rightarrow> parse_state \<Rightarrow> parse_state" where
  "parse_mot_det m = (\<lambda>(ret, doc).
     case cJSON_GetObjectItem m ''MOT_DET'' of
       None \<Rightarrow> (ret, doc)
     | Some v \<Rightarrow> (0, doc\<lparr>sd_mot_det := (cJSON_GetNumberValue v \<noteq> Some 0)\<rparr>))"

text \<open>
  The three versions are printed into the value's own string (\<open>sprintf\<close> in the place of \<open>sscanf\<close>):
  the document is not changed; a value that is no string is a null pointer, and one shorter than the
  printed version is overrun.
\<close>

datatype json_fault = NullString | StringOverrun

definition show_version :: "8 word list \<Rightarrow> string" where
  "show_version v =
     show_nat (unat (v ! 0)) @ ''.'' @ show_nat (unat (v ! 1)) @ ''.'' @ show_nat (unat (v ! 2))"

definition print_version :: "cjson \<Rightarrow> string \<Rightarrow> 8 word list \<Rightarrow> json_fault option" where
  "print_version m name v =
     (case cJSON_GetObjectItem m name of
        None \<Rightarrow> None
      | Some (JStr s) \<Rightarrow> (if length s < length (show_version v) then Some StringOverrun else None)
      | Some _ \<Rightarrow> Some NullString)"

section \<open>The zones\<close>

text \<open>The conversion to \<open>int\<close> of a value outside of its range is undefined and taken to be outside the zones.\<close>

definition parse_zone :: "cjson \<Rightarrow> shadow_doc_t \<Rightarrow> shadow_doc_t" where
  "parse_zone zval doc =
     (case cJSON_GetObjectItem zval ''I'' of
        Some (JNum x) \<Rightarrow>
          (let di = cut x
           in if di < 0 \<or> int NUM_ZONES \<le> di then doc
              else
                (case cJSON_GetObjectItem zval ''SSID'' of
                   Some (JStr name) \<Rightarrow>
                     (let doc = doc\<lparr>sd_zones := (sd_zones doc)[nat di := (sd_zones doc ! nat di)
                                      \<lparr>z_ssid := strncpy_z 32 name\<rparr>]\<rparr>
                      in case cJSON_GetObjectItem zval ''SAFE'' of
                           Some (JBool safe) \<Rightarrow>
                             doc\<lparr>sd_zones := (sd_zones doc)[nat di := (sd_zones doc ! nat di)
                                   \<lparr>z_safe := safe\<rparr>]\<rparr>
                         | _ \<Rightarrow> doc)
                 | _ \<Rightarrow> doc))
      | _ \<Rightarrow> doc)"

definition parse_zones :: "cjson \<Rightarrow> parse_state \<Rightarrow> parse_state" where
  "parse_zones m = (\<lambda>(ret, doc).
     case cJSON_GetObjectItem m ''ZONES'' of
       None \<Rightarrow> (ret, doc)
     | Some obj \<Rightarrow> (0, fold parse_zone (cJSON_children obj) doc))"

section \<open>The parser\<close>

text \<open>The values of the old document; of the versions all but the last two bytes of \<open>lteVer\<close> are cleared.\<close>

definition start_doc :: "shadow_doc_t \<Rightarrow> shadow_doc_t \<Rightarrow> shadow_doc_t" where
  "start_doc doc olddoc =
     olddoc\<lparr>mcuVer := [0, 0, 0], wifiVer := [0, 0, 0], lteVer := (lteVer doc)[0 := 0],
            sd_zones := map (\<lambda>z. z\<lparr>z_ssid := strncpy_z 32 (z_ssid z)\<rparr>) (sd_zones olddoc)\<rparr>"

definition parse_numbers ::
  "(rat option \<Rightarrow> 16 word) \<Rightarrow> cjson \<Rightarrow> parse_state \<Rightarrow> parse_state" where
  "parse_numbers ub m =
     parse_u16 ub m ''DUR'' 0 65535 sd_dur_update \<circ>
     parse_u16 ub m ''THS'' 0 7 sd_ths_update \<circ>
     parse_u16 ub m ''Q'' 1 65534 sd_Q_update \<circ>
     parse_u16 ub m ''Rec'' 10 65534 sd_Rec_update \<circ>
     parse_u16 ub m ''T_FMD'' 1 100 T_FMD_update \<circ>
     parse_u16 ub m ''T_Norm'' 1 100 T_Norm_update \<circ>
     parse_u16 ub m ''S_FMD'' 10 65534 S_FMD_update \<circ>
     parse_u16 ub m ''S_Norm'' 10 65534 S_Norm_update"

definition json_parse_shadow_report ::
  "(rat option \<Rightarrow> 16 word) \<Rightarrow> (rat option \<Rightarrow> 32 word) \<Rightarrow> cjson option \<Rightarrow>
   shadow_doc_t \<Rightarrow> shadow_doc_t \<Rightarrow> json_fault + int \<times> shadow_doc_t" where
  "json_parse_shadow_report ub ubw json doc olddoc =
     (let doc = start_doc doc olddoc
      in case json of
           None \<Rightarrow> Inr (- ENOMSG, doc)
         | Some j \<Rightarrow>
             (case cJSON_GetObjectItem j ''M'' of
                None \<Rightarrow> Inr (- EINVAL, doc)
              | Some m \<Rightarrow>
                  (let (ret, doc) = parse_numbers ub m (- EINVAL, doc)
                   in case List.map_filter id
                             [print_version m ''MV'' (mcuVer doc), print_version m ''WV'' (wifiVer doc),
                              print_version m ''LV'' (lteVer doc)] of
                        f # _ \<Rightarrow> Inl f
                      | [] \<Rightarrow>
                          Inr ((parse_zones m \<circ> parse_mot_det m \<circ>
                                parse_u32 ubw m ''GPS_PER'' sd_gps_poll_period_update \<circ>
                                parse_u32 ubw m ''F_P_DUR'' fota_in_progress_duration_update)
                               (ret, doc)))))"

end
