(* ===== verification/CommModes.thy ===== *)
theory CommModes
  imports CommQueue ShadowJson
begin

text \<open>
  The settings and the modes of \<^verbatim>\<open>commMgr.c\<close>: the find-my-dog mode, the shadow document with its file
  and the messages that change it, the firmware updates in progress, GPS, and the shell commands that
  change any of them.
\<close>

section \<open>The file of the shadow document\<close>

definition write_shadow_doc :: "cm_env \<Rightarrow> ('a cm_state_scheme, int) state" where
  "write_shadow_doc c = do {
     ret \<leftarrow> call (cenv c) (FsOpen ''/lfs1/shadow_doc.txt'');
     if ret = 0 then do {
       s \<leftarrow> State_Monad.get;
       ret \<leftarrow> (case json_text c (JsonShadow ''MID'' (shadow_doc s) None) (wld s) of
                 Some json \<Rightarrow> call (cenv c) (FsWrite json)
               | None \<Rightarrow> return (- ENOMEM));
       call (cenv c) FsClose;
       return ret
     } else return (- ENOENT)
   }"

section \<open>Find my dog\<close>

definition clear_fmd_states :: "('a cm_state_scheme, int) state" where
  "clear_fmd_states = do {
     modify (\<lambda>s. s\<lparr>fmd_start_time := 0, fmd_max_time_in_mins := 0, is_in_fmd_mode := False,
                    last_fmd_ssid_scan := 0\<rparr>);
     return 0
   }"

definition enable_fmd_mode :: "cm_env \<Rightarrow> int \<Rightarrow> ('a cm_state_scheme, int) state" where
  "enable_fmd_mode c fmd_max_time = do {
     s \<leftarrow> State_Monad.get;
     if is_in_fmd_mode s then return 0
     else do {
       whenever (fmd_max_time > 0)
         (modify (\<lambda>s. s\<lparr>fmd_start_time := k_uptime_get s,
                        fmd_max_time_in_mins := of_int fmd_max_time\<rparr>));
       if tri_int (ap_safe (das s)) = 1 then do {
         modify (\<lambda>s. s\<lparr>g_last_fmd_status := FMD_SAFE\<rparr>);
         commMgr_queue_fmd_telemetry c;
         clear_fmd_states;
         return (-1)
       } else do {
         modify (\<lambda>s. s\<lparr>is_in_fmd_mode := True, g_last_fmd_status := FMD_ACTIVE\<rparr>);
         reset_S_timer True;
         call (cenv c) ModemPowerOn;
         ksleep (cenv c) 2000;
         call (cenv c) ModemSendGpsEnable;
         return 0
       }
     }
   }"

definition disable_fmd_mode :: "cm_env \<Rightarrow> fmd_exit \<Rightarrow> ('a cm_state_scheme, int) state" where
  "disable_fmd_mode c reason = do {
     modify (\<lambda>s. s\<lparr>g_last_fmd_status := reason\<rparr>);
     s \<leftarrow> State_Monad.get;
     if \<not> is_in_fmd_mode s then return 0
     else do {
       commMgr_queue_fmd_telemetry c;
       modify (\<lambda>s. s\<lparr>is_in_fmd_mode := False\<rparr>);
       reset_S_timer False;
       call (cenv c) ModemSendGpsDisable;
       clear_fmd_states;
       return 0
     }
   }"

text \<open>The work item of the cloud's command: \<open>state\<close> and \<open>duration\<close> (a \<open>uint16_t\<close>) are its data.\<close>

definition FMD_work_handler :: "cm_env \<Rightarrow> bool \<Rightarrow> 16 word \<Rightarrow> ('a cm_state_scheme, unit) state" where
  "FMD_work_handler c st duration =
     (if st then do { enable_fmd_mode c (uint duration); skip }
      else do { disable_fmd_mode c FMD_CLOUD_REQUEST; skip })"

definition do_fmd_enable ::
  "cm_env \<Rightarrow> (string \<Rightarrow> int \<Rightarrow> bool) \<Rightarrow> string list \<Rightarrow> ('a cm_state_scheme, unit) state" where
  "do_fmd_enable c strtobool args =
     (if args \<noteq> [] \<and> strtobool (args ! 0) 10 then do { enable_fmd_mode c 36000; skip }
      else do { disable_fmd_mode c FMD_CLOUD_REQUEST; skip })"

section \<open>Switching the periodic work on and off\<close>

definition commMgr_enable_S_work :: "bool \<Rightarrow> ('a cm_state_scheme, int) state" where
  "commMgr_enable_S_work enable =
     do { modify (\<lambda>s. s\<lparr>g_comm_mgr_disable_S_work := \<not> enable\<rparr>); return 0 }"

definition commMgr_enable_Q_work :: "bool \<Rightarrow> ('a cm_state_scheme, int) state" where
  "commMgr_enable_Q_work enable =
     do { modify (\<lambda>s. s\<lparr>g_comm_mgr_disable_Q_work := \<not> enable\<rparr>); return 0 }"

text \<open>\<open>strcmp("on", argv[1])\<close> is true when the strings differ.\<close>

definition do_cm_enable :: "string list \<Rightarrow> ('a cm_state_scheme, unit) state" where
  "do_cm_enable args =
     (if args = [] then skip
      else
        (let enable = (take 1 (args ! 0) = ''1'' \<or> args ! 0 \<noteq> ''on'' \<or> args ! 0 = ''On'');
             sel = take 1 (args ! 1)
         in if length args < 2 \<or> sel = ''b'' \<or> sel = ''B''
            then do { commMgr_enable_S_work enable; commMgr_enable_Q_work enable; skip }
            else if sel = ''s'' \<or> sel = ''S'' then do { commMgr_enable_S_work enable; skip }
            else if sel = ''q'' \<or> sel = ''Q'' then do { commMgr_enable_Q_work enable; skip }
            else skip))"

definition do_ssid_scan :: "('a cm_state_scheme, unit) state" where
  "do_ssid_scan = do {
     modify (\<lambda>s. s\<lparr>wld := (wld s)\<lparr>g_last_ssid_scan_time := 0\<rparr>\<rparr>);
     start_S_timer 1000
   }"

section \<open>The behaviour variables\<close>

definition or_old :: "int \<Rightarrow> 16 word \<Rightarrow> int" where
  "or_old v old = (if v = 0 then uint old else v)"

text \<open>The last assignment of the source stores \<open>Rec\<close> a second time; \<open>Q\<close> is not stored.\<close>

definition commMgr_set_vars ::
  "cm_env \<Rightarrow> int \<Rightarrow> int \<Rightarrow> int \<Rightarrow> int \<Rightarrow> int \<Rightarrow> int \<Rightarrow> bool \<Rightarrow> ('a cm_state_scheme, int) state" where
  "commMgr_set_vars c s_norm s_fmd t_norm t_fmd rc qv save = do {
     doc \<leftarrow> gets shadow_doc;
     let s_norm = or_old s_norm (S_Norm doc); s_fmd = or_old s_fmd (S_FMD doc);
         t_norm = or_old t_norm (T_Norm doc); t_fmd = or_old t_fmd (T_FMD doc);
         rc = or_old rc (sd_Rec doc); qv = or_old qv (sd_Q doc)
     in
       if s_norm < 10 \<and> s_norm > 65534 then return (- EINVAL)
       else if s_fmd < 10 \<and> s_fmd > 65534 then return (- EINVAL)
       else if t_norm < 1 \<and> t_norm > 100 then return (- EINVAL)
       else if t_fmd < 1 \<and> t_fmd > 100 then return (- EINVAL)
       else if rc < 10 \<and> rc > 65534 then return (- EINVAL)
       else if qv < 1 \<and> qv > 65534 then return (- EINVAL)
       else do {
         modify (\<lambda>s. s\<lparr>shadow_doc := (shadow_doc s)\<lparr>S_Norm := of_int s_norm, S_FMD := of_int s_fmd,
                         T_Norm := of_int t_norm, T_FMD := of_int t_fmd, sd_Rec := of_int rc\<rparr>\<rparr>);
         whenever save (do { write_shadow_doc c; skip });
         whenever (s_norm \<noteq> uint (S_Norm doc) \<or> s_fmd \<noteq> uint (S_FMD doc)) (do {
           fm \<leftarrow> gets is_in_fmd_mode;
           reset_S_timer fm
         });
         return 0
       }
   }"

text \<open>\<open>fota_set_in_progress_timer\<close> of \<^verbatim>\<open>fota.c\<close>.\<close>

definition fota_set_in_progress_timer ::
  "cm_env \<Rightarrow> int \<Rightarrow> bool \<Rightarrow> ('a cm_state_scheme, int) state" where
  "fota_set_in_progress_timer c d save = do {
     doc \<leftarrow> gets shadow_doc;
     if d \<le> 0 \<and> d > 200 then return (- EINVAL)
     else do {
       whenever (of_int d \<noteq> fota_in_progress_duration doc) (do {
         modify (\<lambda>s. s\<lparr>shadow_doc := (shadow_doc s)\<lparr>fota_in_progress_duration := of_int d\<rparr>\<rparr>);
         whenever save (do { write_shadow_doc c; skip })
       });
       return 0
     }
   }"

definition set_doc :: "(shadow_doc_t \<Rightarrow> shadow_doc_t) \<Rightarrow> ('a cm_state_scheme, unit) state" where
  "set_doc f = modify (\<lambda>s. s\<lparr>shadow_doc := f (shadow_doc s)\<rparr>)"

section \<open>A shadow message of the cloud\<close>

text \<open>One zone; the result is \<open>doc_changed\<close>.\<close>

definition shadow_zone_change ::
  "cm_env \<Rightarrow> shadow_doc_t \<Rightarrow> nat \<Rightarrow> int \<times> bool \<Rightarrow> ('a cm_state_scheme, int \<times> bool) state" where
  "shadow_zone_change c new_doc i = (\<lambda>(ret, changed). do {
     doc \<leftarrow> gets shadow_doc;
     let new = sd_zones new_doc ! i; old = sd_zones doc ! i in
       if \<not> strneq 32 (z_ssid new) (z_ssid old) then
         (if z_ssid new = [] then do {
            ret \<leftarrow> wifi_saved_ssids_del (cenv c) (int i) 500;
            if ret \<noteq> 0 then return (ret, False)
            else do {
              set_doc (\<lambda>d. d\<lparr>sd_zones := (sd_zones d)[i := \<lparr>z_ssid = [], z_safe = z_safe new\<rparr>]\<rparr>);
              return (ret, True)
            }
          } else return (ret, changed))
       else if z_safe old \<noteq> z_safe new then do {
         ret \<leftarrow> wifi_set_zone_safe (cenv c) (int i) (z_safe new) 1000;
         if ret \<noteq> 0 then return (ret, False)
         else do {
           set_doc (\<lambda>d. d\<lparr>sd_zones := (sd_zones d)[i := (sd_zones d ! i)\<lparr>z_safe := z_safe new\<rparr>]\<rparr>);
           return (ret, True)
         }
       } else return (ret, changed)
   })"

fun shadow_zone_changes ::
  "cm_env \<Rightarrow> shadow_doc_t \<Rightarrow> nat list \<Rightarrow> int \<times> bool \<Rightarrow> ('a cm_state_scheme, int \<times> bool) state" where
  "shadow_zone_changes c new_doc [] r = return r"
| "shadow_zone_changes c new_doc (i # is) r = do {
     r \<leftarrow> shadow_zone_change c new_doc i r;
     shadow_zone_changes c new_doc is r
   }"

definition same_comm_vars :: "shadow_doc_t \<Rightarrow> shadow_doc_t \<Rightarrow> bool" where
  "same_comm_vars a b \<longleftrightarrow>
     S_Norm a = S_Norm b \<and> S_FMD a = S_FMD b \<and> T_Norm a = T_Norm b \<and> T_FMD a = T_FMD b \<and>
     sd_Rec a = sd_Rec b \<and> sd_Q a = sd_Q b"

text \<open>The changes that a new document asks for; the result is the last error and \<open>doc_changed\<close>.\<close>

definition apply_shadow ::
  "cm_env \<Rightarrow> shadow_doc_t \<Rightarrow> ('a cm_state_scheme, int \<times> bool) state" where
  "apply_shadow c new_doc = do {
     doc \<leftarrow> gets shadow_doc;
     r \<leftarrow> (if same_comm_vars new_doc doc then return (0, False)
        else do {
          ret \<leftarrow> commMgr_set_vars c (uint (S_Norm new_doc)) (uint (S_FMD new_doc))
                   (uint (T_Norm new_doc)) (uint (T_FMD new_doc)) (uint (sd_Rec new_doc))
                   (uint (sd_Q new_doc)) True;
          return (ret, True)
        });
     doc \<leftarrow> gets shadow_doc;
     r \<leftarrow> (if sd_ths new_doc \<noteq> sd_ths doc then do {
             call (cenv c) (ImuSetThreshold (sd_ths new_doc));
             set_doc (\<lambda>d. d\<lparr>sd_ths := sd_ths new_doc\<rparr>);
             return (fst r, True)
           } else return r);
     r \<leftarrow> (if sd_mot_det new_doc \<noteq> sd_mot_det doc then do {
             call (cenv c) (ImuSetMotDet (sd_mot_det new_doc));
             set_doc (\<lambda>d. d\<lparr>sd_mot_det := sd_mot_det new_doc\<rparr>);
             return (fst r, True)
           } else return r);
     r \<leftarrow> (if sd_dur new_doc \<noteq> sd_dur doc then do {
             call (cenv c) (ImuSetDuration (sd_dur new_doc));
             set_doc (\<lambda>d. d\<lparr>sd_dur := sd_dur new_doc\<rparr>);
             return (fst r, True)
           } else return r);
     r \<leftarrow> (if fota_in_progress_duration new_doc \<noteq> fota_in_progress_duration doc then do {
             ret \<leftarrow> fota_set_in_progress_timer c (sint (fota_in_progress_duration new_doc)) True;
             return (ret, True)
           } else return r);
     shadow_zone_changes c new_doc [0..<NUM_ZONES] r
   }"

text \<open>
  \<open>junk\<close> is what the new document holds before it is filled in.  A fault of the parser has no state after it.
\<close>

definition handle_shadow_message ::
  "cm_env \<Rightarrow> shadow_doc_t \<Rightarrow> string \<Rightarrow>
   ('a cm_state_scheme, json_fault + int) state" where
  "handle_shadow_message c junk payload = do {
     let json = cJSON_Parse c payload;
     if (case json of Some j \<Rightarrow> cJSON_GetObjectItem j ''M'' = None | None \<Rightarrow> False)
     then return (Inr (- EINVAL))
     else do {
       doc \<leftarrow> gets shadow_doc;
       case json_parse_shadow_report (ub16 c) (ub32 c) json junk doc of
         Inl f \<Rightarrow> return (Inl f)
       | Inr (ret, new_doc) \<Rightarrow>
           if ret \<noteq> 0 then return (Inr ret)
           else do {
             r \<leftarrow> apply_shadow c new_doc;
             if snd r then do {
               write_shadow_doc c;
               ret \<leftarrow> commMgr_queue_shadow c None;
               return (Inr ret)
             } else return (Inr (fst r))
           }
     }
   }"

section \<open>GPS\<close>

definition gps_handler :: "cm_env \<Rightarrow> ('a cm_state_scheme, unit) state" where
  "gps_handler c = do {
     s \<leftarrow> State_Monad.get;
     if my_gps_poll_period s = sd_gps_poll_period (shadow_doc s) then skip
     else do {
       (if my_gps_poll_period s = 0 then call (cenv c) ModemSendGpsDisable
        else call (cenv c) ModemSendGpsEnable);
       set_doc (\<lambda>d. d\<lparr>sd_gps_poll_period := my_gps_poll_period s\<rparr>);
       write_shadow_doc c;
       skip
     }
   }"

section \<open>Firmware updates\<close>

definition commMgr_fota_start :: "cm_env \<Rightarrow> comm_device \<Rightarrow> ('a cm_state_scheme, int) state" where
  "commMgr_fota_start c device = do {
     s \<leftarrow> State_Monad.get;
     case device of
       COMM_DEVICE_NRF9160 \<Rightarrow>
         if g_9160_fota_in_progress s then return 0
         else do {
           call (cenv c) ModemPowerOn;
           modify (\<lambda>s. s\<lparr>g_9160_fota_in_progress := True\<rparr>);
           return 0
         }
     | COMM_DEVICE_DA16200 \<Rightarrow>
         if rm_get_active_mqtt_radio s \<noteq> COMM_DEVICE_DA16200 then return (- ENOTCONN)
         else if g_DA_fota_in_progress s then return 0
         else do {
           b \<leftarrow> rm_prepare_radio_for_use (cenv c) COMM_DEVICE_DA16200 True 3000;
           if b = False then return (- ENOTCONN)
           else do { modify (\<lambda>s. s\<lparr>g_DA_fota_in_progress := True\<rparr>); return 0 }
         }
     | COMM_DEVICE_NRF5340 \<Rightarrow>
         if rm_get_active_mqtt_radio s \<noteq> COMM_DEVICE_DA16200 then return (- ENOTCONN)
         else if g_5340_fota_in_progress s then return 0
         else do {
           b \<leftarrow> rm_prepare_radio_for_use (cenv c) COMM_DEVICE_DA16200 True 3000;
           if b = False then return (- ENOTCONN)
           else do { modify (\<lambda>s. s\<lparr>g_5340_fota_in_progress := True\<rparr>); return 0 }
         }
     | _ \<Rightarrow> return 0
   }"

definition fota_over :: "cm_env \<Rightarrow> string \<Rightarrow> ('a cm_state_scheme, unit) state" where
  "fota_over c what = do {
     call (cenv c) (FotaNotify what);
     call (cenv c) LedIdle;
     rm_done_with_radio (cenv c) COMM_DEVICE_DA16200;
     skip
   }"

definition commMgr_fota_end :: "cm_env \<Rightarrow> comm_device \<Rightarrow> ('a cm_state_scheme, unit) state" where
  "commMgr_fota_end c device = do {
     s \<leftarrow> State_Monad.get;
     case device of
       COMM_DEVICE_NRF9160 \<Rightarrow> do {
         whenever (g_9160_fota_in_progress s) (fota_over c ''9160_FOTA_END'');
         modify (\<lambda>s. s\<lparr>g_9160_fota_in_progress := False\<rparr>)
       }
     | COMM_DEVICE_DA16200 \<Rightarrow> do {
         whenever (g_DA_fota_in_progress s) (fota_over c ''DA16200_FOTA_END'');
         modify (\<lambda>s. s\<lparr>g_DA_fota_in_progress := False\<rparr>)
       }
     | COMM_DEVICE_NRF5340 \<Rightarrow> do {
         whenever (g_5340_fota_in_progress s) (fota_over c ''5340_FOTA_END'');
         modify (\<lambda>s. s\<lparr>g_5340_fota_in_progress := False\<rparr>)
       }
     | _ \<Rightarrow> skip
   }"

definition commMgr_fota_in_progress :: "'a cm_state_scheme \<Rightarrow> bool" where
  "commMgr_fota_in_progress s \<longleftrightarrow>
     g_DA_fota_in_progress s \<or> g_5340_fota_in_progress s \<or> g_9160_fota_in_progress s"

end
