(* ===== verification/CommWork.thy ===== *)
theory CommWork
  imports CommModes RadioEvents
begin

text \<open>
  The work handlers of \<^verbatim>\<open>commMgr.c\<close>: sending the queued messages, the periodic work, the answer to
  the question where the dog is, and the handlers of the messages from the two radio chips.  The queue
  of the manager has one thread.
\<close>

section \<open>Sending a message\<close>

text \<open>The configured topic length is 43; \<open>snprintk\<close> returns the length before truncation.\<close>

definition d2c_topic :: "string \<Rightarrow> 8 word \<Rightarrow> string" where
  "d2c_topic mid topic_num =
     ''messages/'' @ show_nat CONFIG_IOT_MQTT_BRAND_ID @ ''/'' @ show_nat (unat topic_num) @ ''/'' @
     show_nat CONFIG_IOT_MQTT_BRAND_ID @ ''_'' @ mid @ ''/d2c''"

definition topic_type :: "string \<Rightarrow> int" where
  "topic_type topic = (case tokens (CHR ''/'') topic of _ # _ # tok # _ \<Rightarrow> atoi tok | _ \<Rightarrow> 0)"

text \<open>
  The time is put over the placeholder after the name; \<open>snprintf(time_str, 10, ...)\<close> keeps nine digits.
\<close>

definition stamp_sent_at :: "nat \<Rightarrow> string \<Rightarrow> string" where
  "stamp_sent_at now msg =
     (case strstr msg (CHR 0x22 # ''SENT_AT'' @ [CHR 0x22, CHR '':'']) of
        None \<Rightarrow> msg
      | Some p \<Rightarrow>
          (let time_str = take 9 (show_nat now)
           in take (p + 10) msg @ time_str @ drop (p + 10 + length time_str) msg))"

text \<open>The result is the returned value and the text, which is changed in its place.\<close>

definition send_mqtt_message ::
  "cm_env \<Rightarrow> string \<Rightarrow> nat \<Rightarrow> 8 word \<Rightarrow> 8 word \<Rightarrow> ('a cm_state_scheme, int \<times> string) state" where
  "send_mqtt_message c msg msg_len topic_num qos = do {
     let topic = take (CONFIG_IOT_MAX_TOPIC_LENGTH - 1) (d2c_topic (machine_id c) topic_num);
     let topicLen = int (length (d2c_topic (machine_id c) topic_num));
     active_radio \<leftarrow> gets rm_get_active_mqtt_radio;
     b \<leftarrow> rm_prepare_radio_for_use (cenv c) active_radio True 3000;
     if b = False then return (- ENOTCONN, msg)
     else do {
       now \<leftarrow> gets (\<lambda>s. utc_time (wld s));
       let msg = stamp_sent_at now msg;
       ret \<leftarrow> (if active_radio = COMM_DEVICE_NRF9160
               then call (cenv c) (ModemSendMqtt topic topicLen msg msg_len qos 15000)
               else call (cenv c) (WifiMqttPublish (topic_type topic) msg 6000));
       rm_done_with_radio (cenv c) active_radio;
       ksleep (cenv c) 1000;
       return (ret, msg)
     }
   }"

section \<open>Sending the queued messages\<close>

definition handle_queue_mqttQ_work :: "int \<Rightarrow> ('a cm_state_scheme, unit) state" where
  "handle_queue_mqttQ_work submitted = do {
     s \<leftarrow> State_Monad.get;
     case wr_get None 105 (wr_pool s) of
       Inl _ \<Rightarrow> modify (\<lambda>s. s\<lparr>wr_assert_failed := True\<rparr>)
     | Inr (None, p) \<Rightarrow> skip
     | Inr (Some wr, p) \<Rightarrow> do {
         modify (\<lambda>s. s\<lparr>wr_pool := p\<rparr>);
         if submitted \<le> 0 then wr_release wr
         else modify (\<lambda>s. s\<lparr>mqttQ_work_items := mqttQ_work_items s @ [wr]\<rparr>)
       }
   }"

text \<open>
  The loop over the messages that were queued at the start.  Its result is false on the two early
  returns of the function.
\<close>

fun send_queued :: "cm_env \<Rightarrow> comm_device \<Rightarrow> nat \<Rightarrow> ('a cm_state_scheme, bool) state" where
  "send_queued c active 0 = return True"
| "send_queued c active (Suc n) = do {
     q \<leftarrow> gets mqttq;
     case q of
       [] \<Rightarrow> return True
     | msg # rest \<Rightarrow> do {
         modify (\<lambda>s. s\<lparr>mqttq := rest\<rparr>);
         s \<leftarrow> State_Monad.get;
         if onboarded (das s) \<noteq> DA_STATE_KNOWN_TRUE \<and> mm_topic msg \<noteq> MQTT_MESSAGE_TYPE_ONBOARDING
         then do { k_msgq_put c msg 0; send_queued c active n }
         else do {
           r \<leftarrow> send_mqtt_message c (mm_msg msg) (mm_len msg) (mm_topic msg) (mm_qos msg);
           let ret = fst r;
           let msg = msg\<lparr>mm_msg := snd r\<rparr>;
           if ret = 0 then do { k_heap_free (mm_len msg + 1); send_queued c active n }
           else do {
             sw \<leftarrow> gets rm_is_switching_radios;
             if ret = - ENODEV \<and> active = COMM_DEVICE_NRF9160 \<and> \<not> sw
             then do { rm_switch_to COMM_DEVICE_NRF9160 False False; return False }
             else if ret = -634 then do {
               k_msgq_put c msg 0;
               rm_done_with_radio (cenv c) active;
               rm_switch_to COMM_DEVICE_NRF9160 False False;
               return False
             }
             else if ret = - EFBIG \<or> ret = - EINVAL
             then do { k_heap_free (mm_len msg + 1); send_queued c active n }
             else do { k_msgq_put c msg 0; return True }
           }
         }
       }
   }"

definition check_still_on_ap :: "cm_env \<Rightarrow> ('a cm_state_scheme, unit) state" where
  "check_still_on_ap c = do {
     ksleep (cenv c) 75;
     ret \<leftarrow> call (cenv c) (WifiGetWfstat 800);
     whenever (ret = 0) (do {
       forget_ap;
       rm_switch_to COMM_DEVICE_NRF9160 False False;
       skip
     })
   }"

definition mqttQ_work_handler :: "cm_env \<Rightarrow> nat option \<Rightarrow> ('a cm_state_scheme, unit) state" where
  "mqttQ_work_handler c work = do {
     num_msgs \<leftarrow> gets (\<lambda>s. length (mqttq s));
     (case work of None \<Rightarrow> skip | Some wr \<Rightarrow> wr_release wr);
     s \<leftarrow> State_Monad.get;
     if g_comm_mgr_disable_Q_work s = True then skip
     else if \<not> rm_is_active_radio_mqtt_connected s then skip
     else if rm_is_switching_radios s then skip
     else if num_msgs = 0 then skip
     else do {
       let active_radio = rm_get_active_mqtt_radio s;
       b \<leftarrow> rm_prepare_radio_for_use (cenv c) active_radio True 3000;
       if b = False then skip
       else do {
         whenever (active_radio = COMM_DEVICE_DA16200) (check_still_on_ap c);
         to_end \<leftarrow> send_queued c active_radio num_msgs;
         whenever to_end (do { rm_done_with_radio (cenv c) active_radio; skip })
       }
     }
   }"

section \<open>The periodic work\<close>

text \<open>
  The scan for access points.  The result of a block: whether the handler goes to its exit, and
  \<open>radio_prepared\<close>.
\<close>

definition reconnect_after_scan ::
  "((int \<times> int \<Rightarrow> int \<times> int \<Rightarrow> int) \<Rightarrow> (int \<times> int) list \<Rightarrow> (int \<times> int) list) \<Rightarrow>
   cm_env \<Rightarrow> ('a cm_state_scheme, unit) state" where
  "reconnect_after_scan qsort c = do {
     s \<leftarrow> State_Monad.get;
     whenever (ap_connected (das s) = DA_STATE_KNOWN_TRUE)
       (do { wifi_disconnect_from_AP (cenv c) 2000; skip });
     idx \<leftarrow> wifi_check_for_known_ssid qsort (cenv c);
     whenever (idx \<ge> 0) (do { rm_connect_to_AP_by_index idx; skip });
     n \<leftarrow> gets g_quick_reconnect_cnt;
     whenever (n > 0) (modify (\<lambda>s. s\<lparr>g_quick_reconnect_cnt := g_quick_reconnect_cnt s - 1\<rparr>))
   }"

definition S_scan ::
  "((int \<times> int \<Rightarrow> int \<times> int \<Rightarrow> int) \<Rightarrow> (int \<times> int) list \<Rightarrow> (int \<times> int) list) \<Rightarrow>
   cm_env \<Rightarrow> bool \<Rightarrow> ('a cm_state_scheme, bool \<times> bool) state" where
  "S_scan qsort c get_ssid_scan = do {
     s \<leftarrow> State_Monad.get;
     if get_ssid_scan \<and> rm_is_wifi_enabled s then do {
       b \<leftarrow> rm_prepare_radio_for_use (cenv c) COMM_DEVICE_DA16200 False 3000;
       if b = False then return (True, False)
       else do {
         ksleep (cenv c) 2000;
         g \<leftarrow> gets gS_val;
         ret \<leftarrow> call (cenv c) (WifiRefreshSsidList g 2500);
         if ret \<noteq> 0 then return (True, True)
         else do {
           s \<leftarrow> State_Monad.get;
           (if rm_get_active_mqtt_radio s \<noteq> COMM_DEVICE_DA16200 then reconnect_after_scan qsort c
            else do {
              ret \<leftarrow> call (cenv c) (WifiGetWfstat 800);
              whenever (ret = 0) (do { rm_switch_to COMM_DEVICE_NRF9160 False False; skip })
            });
           return (False, True)
         }
       }
     } else return (False, False)
   }"

definition S_rssi :: "cm_env \<Rightarrow> bool \<Rightarrow> ('a cm_state_scheme, bool \<times> bool) state" where
  "S_rssi c radio_prepared = do {
     s \<leftarrow> State_Monad.get;
     if rm_get_active_mqtt_radio s = COMM_DEVICE_DA16200 then do {
       b \<leftarrow> (if radio_prepared then return True
             else rm_prepare_radio_for_use (cenv c) COMM_DEVICE_DA16200 False 3000);
       if b = False then return (True, False)
       else do { call (cenv c) (WifiGetRssi 500); return (False, True) }
     } else return (False, radio_prepared)
   }"

text \<open>\<open>k_uptime_get() - fmd_start_time > fmd_max_time_in_mins * 60 * 1000\<close> is unsigned, at 64 bits.\<close>

definition S_telemetry :: "cm_env \<Rightarrow> bool \<Rightarrow> ('a cm_state_scheme, unit) state" where
  "S_telemetry c get_ssid_scan = do {
     modify (\<lambda>s. s\<lparr>gT_count := gT_count s + 1\<rparr>);
     s \<leftarrow> State_Monad.get;
     whenever (gT_count s \<ge> gT_val s) (do {
       (if \<not> is_in_fmd_mode s then do { commMgr_queue_telemetry c get_ssid_scan; skip }
        else do {
          commMgr_queue_fmd_telemetry c;
          s \<leftarrow> State_Monad.get;
          whenever (fmd_start_time s \<noteq> 0 \<and>
                    k_uptime_get s - fmd_start_time s > fmd_max_time_in_mins s * 60 * 1000)
            (do { disable_fmd_mode c FMD_TIMEOUT; skip })
        });
       modify (\<lambda>s. s\<lparr>gT_count := 0\<rparr>)
     })
   }"

definition S_send :: "cm_env \<Rightarrow> int \<Rightarrow> ('a cm_state_scheme, unit) state" where
  "S_send c submitted = do {
     s \<leftarrow> State_Monad.get;
     whenever (rm_is_active_radio_mqtt_connected s) (do {
       b \<leftarrow> rm_prepare_radio_for_use (cenv c) (rm_get_active_mqtt_radio s) True 3000;
       whenever (b = True) (do {
         handle_queue_mqttQ_work submitted;
         s \<leftarrow> State_Monad.get;
         rm_done_with_radio (cenv c) (rm_get_active_mqtt_radio s);
         skip
       })
     })
   }"

text \<open>The body between the checks and the label \<open>S_work_exit\<close>; its result is \<open>radio_prepared\<close>.\<close>

definition S_work_body ::
  "((int \<times> int \<Rightarrow> int \<times> int \<Rightarrow> int) \<Rightarrow> (int \<times> int) list \<Rightarrow> (int \<times> int) list) \<Rightarrow>
   cm_env \<Rightarrow> int \<Rightarrow> bool \<Rightarrow> ('a cm_state_scheme, bool) state" where
  "S_work_body qsort c submitted get_ssid_scan = do {
     r \<leftarrow> S_scan qsort c get_ssid_scan;
     if fst r then return (snd r)
     else do {
       r \<leftarrow> S_rssi c (snd r);
       if fst r then return (snd r)
       else do {
         s \<leftarrow> State_Monad.get;
         whenever (rm_get_active_mqtt_radio s = COMM_DEVICE_NONE)
           (do { rm_switch_to COMM_DEVICE_NRF9160 False False; skip });
         S_telemetry c get_ssid_scan;
         S_send c submitted;
         return (snd r)
       }
     }
   }"

definition S_work_handler ::
  "((int \<times> int \<Rightarrow> int \<times> int \<Rightarrow> int) \<Rightarrow> (int \<times> int) list \<Rightarrow> (int \<times> int) list) \<Rightarrow>
   cm_env \<Rightarrow> int \<Rightarrow> ('a cm_state_scheme, unit) state" where
  "S_work_handler qsort c submitted = do {
     s \<leftarrow> State_Monad.get;
     radio_prepared \<leftarrow>
       (if shipping_flag (wld s) = False \<or> g_comm_mgr_disable_S_work s \<or> rm_is_switching_radios s \<or>
           commMgr_fota_in_progress s
        then return False
        else if rm_wifi_is_connecting s then return False
        else S_work_body qsort c submitted
               (rm_get_active_mqtt_radio s \<noteq> COMM_DEVICE_DA16200 \<or> ap_safe (das s) = DA_STATE_KNOWN_FALSE));
     whenever radio_prepared (do { rm_done_with_radio (cenv c) COMM_DEVICE_DA16200; skip });
     fm \<leftarrow> gets is_in_fmd_mode;
     reset_S_timer fm
   }"

section \<open>Where is my dog\<close>

text \<open>
  This function does not test the text for \<open>NULL\<close> before \<open>strlen\<close>: a builder without a text is a null
  pointer dereference, after which the flag \<open>cm_null_deref\<close> is set.
\<close>

fun queue_pieces_unchecked ::
  "cm_env \<Rightarrow> (string option \<times> (string \<times> int) list) list \<Rightarrow> ('a cm_state_scheme, unit) state" where
  "queue_pieces_unchecked c [] = skip"
| "queue_pieces_unchecked c ((json, rest) # ps) = do {
     modify (\<lambda>s. s\<lparr>wifi_ssids_fifo := rest\<rparr>);
     case json of
       None \<Rightarrow> modify (\<lambda>s. s\<lparr>cm_null_deref := True\<rparr>)
     | Some j \<Rightarrow> do {
         queue_json c j MQTT_MESSAGE_TYPE_NEAR_REAL_TIME 10;
         queue_pieces_unchecked c ps
       }
   }"

definition WMD_work_handler :: "cm_env \<Rightarrow> string \<Rightarrow> ('a cm_state_scheme, unit) state" where
  "WMD_work_handler c request_id = do {
     b \<leftarrow> rm_prepare_radio_for_use (cenv c) COMM_DEVICE_DA16200 True 3000;
     if b = False then skip
     else do {
       en \<leftarrow> gets rm_is_wifi_enabled;
       if \<not> en then skip
       else do {
         call (cenv c) (WifiRefreshSsidList 20 1500);
         rm_done_with_radio (cenv c) COMM_DEVICE_DA16200;
         s \<leftarrow> State_Monad.get;
         let on_ap = (ap_connected (das s) = DA_STATE_KNOWN_TRUE);
         let doginsafe = (if on_ap then ap_safe (das s) = DA_STATE_KNOWN_TRUE else True);
         let lte = is_lte_connected None s;
         let data = (on_ap \<and> \<not> doginsafe \<or> lte);
         whenever data put_scan_in_fifo;
         s \<leftarrow> State_Monad.get;
         let (p, ps) = json_pieces c
               (JsonWheresMyDog (if lte then Some 123456 else None) (if lte then Some 564321 else None)
                  (if on_ap then Some (ap_name (das s)) else None) (if on_ap then Some doginsafe else None)
                  request_id False (fmd_status s))
               (wifi_ssids_fifo s) (wld s);
         queue_pieces_unchecked c (p # ps)
       }
     }
   }"

end
