(* ===== verification/RemoteFunc.thy ===== *)
theory RemoteFunc
  imports CommModes RadioEvents
begin

text \<open>
  The secure remote functions: \<open>json_parse_srf\<close> of \<^verbatim>\<open>d1_json.c\<close> and \<open>handle_srf_func_message\<close> of
  \<^verbatim>\<open>commMgr.c\<close>.  A message holds three base64 parts with a dot between them; the second is the JSON
  text of the command with its nonce, its audience and its expiry.  What C leaves undefined (a missing
  separator, a parameter longer than its buffer) is a fault.
\<close>

section \<open>The command\<close>

record srf_data =
  srf_command :: int
  srf_rid :: string
  srf_sub :: string
  srf_exp :: "64 word"
  srf_iss :: string
  srf_n :: "64 word"
  srf_aud :: string
  srf_iat :: "64 word"
  param1 :: string
  param2 :: string
  param3 :: string
  param4 :: string

datatype srf_fault = ParamOverrun | NoPeriod | NoUnderscore

abbreviation SRF_COMMAND_WHERE_IS_MY_DOG :: int where "SRF_COMMAND_WHERE_IS_MY_DOG \<equiv> 1"
abbreviation SRF_COMMAND_FIND_MY_DOG :: int where "SRF_COMMAND_FIND_MY_DOG \<equiv> 2"
abbreviation SRF_COMMAND_REBOOT :: int where "SRF_COMMAND_REBOOT \<equiv> 3"
abbreviation SRF_COMMAND_GPS_ENABLE :: int where "SRF_COMMAND_GPS_ENABLE \<equiv> 4"
abbreviation SRF_COMMAND_CHECK_FOTA :: int where "SRF_COMMAND_CHECK_FOTA \<equiv> 5"
abbreviation SRF_COMMAND_FACTORY_RESET :: int where "SRF_COMMAND_FACTORY_RESET \<equiv> 6"
abbreviation SRF_COMMAND_NOOP :: int where "SRF_COMMAND_NOOP \<equiv> 7"

definition srf_command_strings :: "string list" where
  "srf_command_strings =
     [''unknown'', ''wimd'', ''fmd'', ''reboot'', ''gps_enable'', ''check_fota'', ''factory_reset'', ''noop'']"

section \<open>The parser\<close>

text \<open>A step ends the parser with a fault or a returned value, or goes on with the data.\<close>

type_synonym srf_step = "(srf_fault + int) + srf_data"

definition srf_bind :: "srf_step \<Rightarrow> (srf_data \<Rightarrow> srf_step) \<Rightarrow> srf_step" where
  "srf_bind r f = (case r of Inl x \<Rightarrow> Inl x | Inr d \<Rightarrow> f d)"

definition srf_string ::
  "cjson \<Rightarrow> string \<Rightarrow> nat \<Rightarrow> ((string \<Rightarrow> string) \<Rightarrow> srf_data \<Rightarrow> srf_data) \<Rightarrow> srf_data \<Rightarrow> srf_step" where
  "srf_string json name bufsize upd d =
     (case cJSON_GetObjectItem json name of
        None \<Rightarrow> Inr d
      | Some (JStr s) \<Rightarrow> Inr (upd (\<lambda>_. take (bufsize - 1) s) d)
      | Some _ \<Rightarrow> Inl (Inr (- ENOMSG)))"

text \<open>\<open>val == NAN\<close> is false for every value: a value that is no number is converted, too.\<close>

definition srf_number ::
  "(rat option \<Rightarrow> 64 word) \<Rightarrow> cjson \<Rightarrow> string \<Rightarrow> ((64 word \<Rightarrow> 64 word) \<Rightarrow> srf_data \<Rightarrow> srf_data) \<Rightarrow>
   srf_data \<Rightarrow> srf_step" where
  "srf_number ub json name upd d =
     (case cJSON_GetObjectItem json name of
        None \<Rightarrow> Inr d
      | Some v \<Rightarrow> Inr (upd (\<lambda>_. to_unsigned ub (cJSON_GetNumberValue v)) d))"

text \<open>\<open>strncpy(data->param1, string, strlen(string))\<close> into 64 bytes.\<close>

definition srf_param ::
  "cjson \<Rightarrow> string \<Rightarrow> ((string \<Rightarrow> string) \<Rightarrow> srf_data \<Rightarrow> srf_data) \<Rightarrow> srf_data \<Rightarrow> srf_step" where
  "srf_param params name upd d =
     (case cJSON_GetObjectItem params name of
        None \<Rightarrow> Inr d
      | Some (JStr s) \<Rightarrow> (if length s > 64 then Inl (Inl ParamOverrun) else Inr (upd (\<lambda>_. take 63 s) d))
      | Some _ \<Rightarrow> Inr (upd (\<lambda>_. []) d))"

text \<open>The index of the command's name; without one \<open>command\<close> keeps what it held.\<close>

definition srf_lookup :: "string \<Rightarrow> int option" where
  "srf_lookup name =
     (case filter (\<lambda>i. srf_command_strings ! i = name) [0..<length srf_command_strings] of
        [] \<Rightarrow> None | i # _ \<Rightarrow> Some (int i))"

definition srf_cmd :: "cjson \<Rightarrow> srf_data \<Rightarrow> srf_step" where
  "srf_cmd params d =
     (case cJSON_GetObjectItem params ''cmd'' of
        None \<Rightarrow> Inr d
      | Some (JStr s) \<Rightarrow>
          (let d = (case srf_lookup (take 64 s) of None \<Rightarrow> d | Some i \<Rightarrow> d\<lparr>srf_command := i\<rparr>)
           in srf_bind (srf_param params ''p1'' param1_update d)
             (\<lambda>d. srf_bind (srf_param params ''p2'' param2_update d)
             (\<lambda>d. srf_bind (srf_param params ''p3'' param3_update d)
             (\<lambda>d. srf_param params ''p4'' param4_update d))))
      | Some _ \<Rightarrow> Inl (Inr (- ENOMSG)))"

definition json_parse_srf ::
  "(rat option \<Rightarrow> 64 word) \<Rightarrow> cjson option \<Rightarrow> srf_data \<Rightarrow> srf_step" where
  "json_parse_srf ub json junk =
     (case json of
        None \<Rightarrow> Inl (Inr (- EINVAL))
      | Some j \<Rightarrow>
          srf_bind (srf_string j ''rid'' 48 srf_rid_update junk)
          (\<lambda>d. srf_bind (srf_string j ''sub'' 64 srf_sub_update d)
          (\<lambda>d. srf_bind (srf_number ub j ''exp'' srf_exp_update d)
          (\<lambda>d. srf_bind (srf_string j ''iss'' 64 srf_iss_update d)
          (\<lambda>d. srf_bind (srf_number ub j ''n'' srf_n_update d)
          (\<lambda>d. srf_bind (srf_string j ''aud'' 64 srf_aud_update d)
          (\<lambda>d. srf_bind (srf_number ub j ''iat'' srf_iat_update d)
          (\<lambda>d. case cJSON_GetObjectItem j ''fpar'' of
                 None \<Rightarrow> Inr d
               | Some f \<Rightarrow>
                   (case cJSON_GetObjectItem f ''params'' of
                      None \<Rightarrow> Inr d
                    | Some params \<Rightarrow> srf_cmd params d)))))))))"

section \<open>The commands\<close>

definition queue_WMD_work :: "string \<Rightarrow> ('a cm_state_scheme, unit) state" where
  "queue_WMD_work request_id =
     modify (\<lambda>s. s\<lparr>WMD_request_id := take 47 request_id, WMD_pending := True\<rparr>)"

text \<open>\<open>da_state.ap_connected && da_state.ap_safe\<close>: unknown counts as true.\<close>

definition fmd_response :: "'a cm_state_scheme \<Rightarrow> string" where
  "fmd_response s =
     ''Find my dog command received: Dog in Safe Zone = '' @
     show_nat (of_bool (tri_int (ap_connected (das s)) \<noteq> 0 \<and> tri_int (ap_safe (das s)) \<noteq> 0))"

text \<open>\<open>wstrerr\<close> of \<^verbatim>\<open>wifi.c\<close>: the names of the error codes, those of the DA16200 in a table.\<close>

definition aerrs :: "(int \<times> string) list" where
  "aerrs =
     [(801, ''SSID invalid''),
      (802, ''SSID bad PW''),
      (803, ''SSID bad Sec''),
      (804, ''SSID bad KeyIdx''),
      (805, ''SSID bad Enc''),
      (806, ''SSID bad Hidden''),
      (807, ''SSID bad Safe''),
      (808, ''SSID bad WPA type''),
      (809, ''SSID bad WPA rng''),
      (810, ''SSID bad Enc rng''),
      (811, ''SSID bad Safe rng''),
      (812, ''SSID Idx empty''),
      (813, ''SSID bad Idx''),
      (814, ''SSID Idx in use''),
      (815, ''SSID Hid save err''),
      (816, ''SSID Key save err''),
      (817, ''SSID Enc save err''),
      (818, ''SSID Aut save err''),
      (819, ''SSIDLIST save err''),
      (820, ''SSIDLIST Mem err''),
      (821, ''SSIDLIST Decry err''),
      (822, ''SSIDLIST Encry err''),
      (823, ''SSIDLIST Crypto mismatch''),
      (824, ''SSIDLIST Crypto verify err'')]"

definition wstrerr :: "cm_env \<Rightarrow> int \<Rightarrow> string" where
  "wstrerr c err =
     (if err = 0 then ''OK''
      else if err = EAGAIN then ''Timeout''
      else if err = EBUSY then ''Mutex busy''
      else if err = EBADE then ''Error response''
      else if err = ENXIO then ''DA is sleeping''
      else if err = EINVAL then ''Invalid argument''
      else if err = ENOMEM then ''Out of memory''
      else if err = EFAULT then ''No saved SSID found to connect to''
      else if err = ENOTCONN then ''MQTT not connected''
      else if err = EALREADY then ''Too soon to wake DA''
      else if err = EFBIG then ''Msg is too large fo the DA16200''
      else if err = 634 then ''DA reports MQTT is not active''
      else if err = ENODEV then ''DA or LTE not powered''
      else (case map_of aerrs err of Some str \<Rightarrow> str | None \<Rightarrow> strerror c err))"

text \<open>\<open>%20s\<close> fills up with blanks on the left.\<close>

definition pad_left :: "nat \<Rightarrow> string \<Rightarrow> string" where
  "pad_left n s = replicate (n - length s) (CHR '' '') @ s"

definition srf_factory_reset :: "cm_env \<Rightarrow> string \<Rightarrow> ('a cm_state_scheme, unit) state" where
  "srf_factory_reset c rid = do {
     s \<leftarrow> State_Monad.get;
     whenever (rm_get_active_mqtt_radio s = COMM_DEVICE_DA16200)
       (do { rm_switch_to COMM_DEVICE_NRF9160 False False; skip });
     ret \<leftarrow> wifi_saved_ssids_del_all (cenv c) 3000;
     ret \<leftarrow> (if ret \<noteq> 0 then return ret else wifi_get_ap_list (cenv c) 3000);
     (if ret = 0 then queue_srf_response c rid ''OK'' ''Factory Reset received''
      else queue_srf_response c rid ''ERROR''
             (CHR 0x27 # pad_left 20 (wstrerr c (- ret)) @ CHR 0x27 # ''('' @ show_int ret @
              '') executing Factory Reset''));
     skip
   }"

text \<open>The \<open>switch\<close> over the commands; \<open>pmic_reboot\<close> does not return.\<close>

definition srf_execute :: "cm_env \<Rightarrow> srf_data \<Rightarrow> ('a cm_state_scheme, unit) state" where
  "srf_execute c d =
     (if srf_command d = SRF_COMMAND_WHERE_IS_MY_DOG then
        whenever (param1 d \<noteq> []) (do {
          queue_WMD_work (param1 d);
          queue_srf_response c (srf_rid d) ''OK'' ''Where is my dog command received'';
          skip
        })
      else if srf_command d = SRF_COMMAND_FIND_MY_DOG then do {
        modify (\<lambda>s. s\<lparr>FMD_state := False, FMD_duration := 0\<rparr>);
        whenever (atoi (param1 d) > 0)
          (modify (\<lambda>s. s\<lparr>FMD_state := True, FMD_duration := of_int (atoi (param2 d))\<rparr>));
        modify (\<lambda>s. s\<lparr>FMD_pending := True\<rparr>);
        s \<leftarrow> State_Monad.get;
        queue_srf_response c (srf_rid d) ''OK'' (fmd_response s);
        skip
      }
      else if srf_command d = SRF_COMMAND_REBOOT then do {
        queue_srf_response c (srf_rid d) ''OK'' ''Rebooting'';
        ksleep (cenv c) (1000 * nat (max 10 (min 3600 (atoi (param1 d)))));
        call (cenv c) (PmicReboot ''SRF'');
        skip
      }
      else if srf_command d = SRF_COMMAND_CHECK_FOTA then do {
        call (cenv c) FotaUpdateAll;
        queue_srf_response c (srf_rid d) ''OK'' ''FOTA command received'';
        skip
      }
      else if srf_command d = SRF_COMMAND_GPS_ENABLE then do {
        modify (\<lambda>s. s\<lparr>my_gps_poll_period := of_int (atoi (param1 d)), gps_pending := True\<rparr>);
        queue_srf_response c (srf_rid d) ''OK'' ''GPS enable/disable received'';
        skip
      }
      else if srf_command d = SRF_COMMAND_FACTORY_RESET then srf_factory_reset c (srf_rid d)
      else if srf_command d = SRF_COMMAND_NOOP then do {
        queue_srf_response c (srf_rid d) ''OK'' ''Noop command received'';
        skip
      }
      else do { queue_srf_response c (srf_rid d) ''ERROR'' ''Unknown command''; skip })"

section \<open>The message\<close>

text \<open>
  The decoded text of the payload (up to its first NUL) with \<open>"0}"\<close> appended; \<open>None\<close> is the return
  of -1.  \<open>mem_ok\<close> says whether \<open>k_malloc\<close> finds memory.
\<close>

definition srf_payload :: "cm_env \<Rightarrow> bool \<Rightarrow> string \<Rightarrow> srf_fault + string option" where
  "srf_payload c mem_ok sm =
     (case strchr sm (CHR ''.'') of
        None \<Rightarrow> Inl NoPeriod
      | Some i \<Rightarrow>
          (let payload = drop (Suc i) sm
           in case strchr payload (CHR ''.'') of
                None \<Rightarrow> Inl NoPeriod
              | Some j \<Rightarrow>
                  (case base64_decode c 256 (take i sm) of
                     (ret, header_len, _) \<Rightarrow>
                       if ret \<noteq> 0 then Inr None
                       else
                         (let decoded_len = (case header_len of Some n \<Rightarrow> n | None \<Rightarrow> 0);
                              decoded_len = (case base64_decode c 0 (take j payload) of
                                               (_, Some n, _) \<Rightarrow> n | _ \<Rightarrow> decoded_len) + 32
                          in if \<not> mem_ok then Inr None
                             else
                               (case base64_decode c decoded_len (take j payload) of
                                  (ret, _, bytes) \<Rightarrow>
                                    if ret \<noteq> 0 then Inr None
                                    else Inr (Some (takeWhile (\<lambda>ch. ch \<noteq> CHR 0x00) bytes @ ''0}'')))))))"

definition srf_accepted :: "cm_env \<Rightarrow> 64 word \<Rightarrow> nat \<Rightarrow> srf_data \<Rightarrow> srf_fault + bool" where
  "srf_accepted c nonce now d =
     (if nonce \<noteq> srf_n d then Inr False
      else
        (case strchr (srf_aud d) (CHR ''_'') of
           None \<Rightarrow> Inl NoUnderscore
         | Some i \<Rightarrow>
             if machine_id c \<noteq> drop (Suc i) (srf_aud d) then Inr False
             else if srf_exp d < of_nat now then Inr False
             else Inr True))"

definition handle_srf_func_message ::
  "cm_env \<Rightarrow> srf_data \<Rightarrow> bool \<Rightarrow> cjson \<Rightarrow> ('a cm_state_scheme, srf_fault + int) state" where
  "handle_srf_func_message c junk mem_ok m =
     (case cJSON_GetObjectItem m ''SM'' of
        None \<Rightarrow> return (Inr (-1))
      | Some (JStr sm) \<Rightarrow>
          (case srf_payload c mem_ok sm of
             Inl f \<Rightarrow> return (Inl f)
           | Inr None \<Rightarrow> return (Inr (-1))
           | Inr (Some text) \<Rightarrow>
               (case json_parse_srf (ub64 c) (cJSON_Parse c text) junk of
                  Inl (Inl f) \<Rightarrow> return (Inl f)
                | Inl (Inr ret) \<Rightarrow> return (Inr (-1))
                | Inr d \<Rightarrow> do {
                    s \<leftarrow> State_Monad.get;
                    case srf_accepted c (srf_nonce s) (utc_time (wld s)) d of
                      Inl f \<Rightarrow> return (Inl f)
                    | Inr False \<Rightarrow> return (Inr (-1))
                    | Inr True \<Rightarrow> do { srf_execute c d; return (Inr 0) }
                  }))
      | Some _ \<Rightarrow> return (Inr 0))"

end
