(* ===== verification/CommEvents.thy ===== *)
theory CommEvents
  imports CommWork RemoteFunc
begin

text \<open>
  What the communication manager does with the messages it hears: \<open>comm_mgr_listener\<close>, the handlers of
  the messages of the cloud, of the status of the nRF9160 and of the DA16200's events, and the start of
  the manager.  A message waits as a work item of the pool that the radio manager uses, too;
  \<open>cm_live_blocks\<close> counts the blocks of the system heap that the listener allocates for it.
\<close>

section \<open>MQTT over LTE\<close>

abbreviation CONFIG_IOT_BROKER_HOST_NAME :: string where
  "CONFIG_IOT_BROKER_HOST_NAME \<equiv> ''a3hoon64f0fuap-ats.iot.eu-west-1.amazonaws.com''"

definition thing_id_of :: "string \<Rightarrow> string" where
  "thing_id_of mid = take 63 (show_nat CONFIG_IOT_MQTT_BRAND_ID @ ''_'' @ mid)"

definition c2d_topic :: "string \<Rightarrow> nat \<Rightarrow> string" where
  "c2d_topic thing_id n =
     take (CONFIG_IOT_MAX_TOPIC_LENGTH - 1)
       (''messages/'' @ show_nat CONFIG_IOT_MQTT_BRAND_ID @ ''/'' @ show_nat n @ ''/'' @ thing_id @ ''/c2d'')"

definition topicList1 :: "nat list" where "topicList1 = [3]"

definition topicList2 :: "nat list" where "topicList2 = [3, 4, 5, 10, 15, 22, 23, 24]"

text \<open>\<open>mem_ok\<close>: the allocations of the topics succeed.\<close>

definition subscribe_to_topics_9160 :: "cm_env \<Rightarrow> bool \<Rightarrow> ('a cm_state_scheme, unit) state" where
  "subscribe_to_topics_9160 c mem_ok = do {
     s \<leftarrow> State_Monad.get;
     if onboarded (das s) = DA_STATE_UNKNOWN then skip
     else if machine_id c = [] \<or> of_char (hd (machine_id c)) < (30 :: nat) \<or>
             of_char (hd (machine_id c)) > (126 :: nat) then skip
     else do {
       let thing_id = thing_id_of (machine_id c);
       ksleep (cenv c) 100;
       call (cenv c) (ModemSetMqttParams CONFIG_IOT_BROKER_HOST_NAME 8883 thing_id);
       if \<not> mem_ok then skip
       else do {
         s \<leftarrow> State_Monad.get;
         let topics = (if onboarded (das s) = DA_STATE_KNOWN_FALSE then topicList1
                       else if onboarded (das s) = DA_STATE_KNOWN_TRUE then topicList2 else []);
         ksleep (cenv c) 100;
         call (cenv c) (ModemSetMqttSubscriptions (map (c2d_topic thing_id) topics));
         modify (\<lambda>s. s\<lparr>modem_mqtt_config_state := LTE_MQTT_INITIALIZING\<rparr>)
       }
     }
   }"

definition handle_disconnect_from_mqtt :: "cm_env \<Rightarrow> ('a cm_state_scheme, unit) state" where
  "handle_disconnect_from_mqtt c = do {
     s \<leftarrow> State_Monad.get;
     whenever (\<not> srf_nonce_status s) (commMgr_queue_srf_nonce c)
   }"

definition lost_mqtt :: "('a cm_state_scheme, unit) state" where
  "lost_mqtt = modify (\<lambda>s. s\<lparr>srf_nonce_status := False, srf_nonce_pending := True\<rparr>)"

definition free_blocks :: "int \<Rightarrow> ('a cm_state_scheme, unit) state" where
  "free_blocks n = modify (\<lambda>s. s\<lparr>cm_live_blocks := cm_live_blocks s - n\<rparr>)"

section \<open>The status of the nRF9160\<close>

definition lte_power_change :: "cm_env \<Rightarrow> 32 word \<Rightarrow> 32 word \<Rightarrow> ('a cm_state_scheme, unit) state" where
  "lte_power_change c changed flags =
     whenever (changed AND update_status STATUS_POWERED_ON \<noteq> 0) (do {
       modify (\<lambda>s. s\<lparr>modem_mqtt_config_state := LTE_MQTT_NOT_INITIALIZED\<rparr>);
       (if status_getBit flags (status_pos STATUS_POWERED_ON)
        then do { call (cenv c) ModemGetVersion; skip }
        else modify (\<lambda>s. s\<lparr>first_9160_status_recieved := False\<rparr>))
     })"

definition lte_mqtt_change :: "32 word \<Rightarrow> 32 word \<Rightarrow> ('a cm_state_scheme, unit) state" where
  "lte_mqtt_change changed flags =
     whenever (changed AND update_status STATUS_MQTT_CONNECTED \<noteq> 0) (do {
       modify (\<lambda>s. s\<lparr>modem_mqtt_config_state := LTE_MQTT_INITIALIZED\<rparr>);
       whenever (\<not> status_getBit flags (status_pos STATUS_MQTT_CONNECTED)) lost_mqtt
     })"

definition lte_reset_seen :: "cm_env \<Rightarrow> bool \<Rightarrow> 64 word \<Rightarrow> ('a cm_state_scheme, unit) state" where
  "lte_reset_seen c mem_ok up = do {
     s \<leftarrow> State_Monad.get;
     whenever (last_9160_uptime s > up \<and> modem_is_powered_on s) (do {
       subscribe_to_topics_9160 c mem_ok;
       fm \<leftarrow> gets is_in_fmd_mode;
       whenever fm (do { call (cenv c) ModemSendGpsEnable; skip })
     });
     modify (\<lambda>s. s\<lparr>last_9160_uptime := up\<rparr>)
   }"

definition lte_mqtt_init :: "cm_env \<Rightarrow> bool \<Rightarrow> 32 word \<Rightarrow> 32 word \<Rightarrow> ('a cm_state_scheme, unit) state" where
  "lte_mqtt_init c mem_ok changed flags = do {
     whenever (changed AND update_status STATUS_MQTT_INITIALIZED \<noteq> 0 \<and>
               status_getBit flags (status_pos STATUS_MQTT_INITIALIZED))
       (modify (\<lambda>s. s\<lparr>modem_mqtt_config_state := LTE_MQTT_INITIALIZED\<rparr>));
     s \<leftarrow> State_Monad.get;
     whenever (\<not> status_getBit flags (status_pos STATUS_MQTT_INITIALIZED) \<and> modem_is_powered_on s \<and>
               modem_mqtt_config_state s \<noteq> LTE_MQTT_INITIALIZING \<and>
               modem_mqtt_config_state s \<noteq> LTE_MQTT_INITIALIZED)
       (subscribe_to_topics_9160 c mem_ok)
   }"

definition handle_9160_status_update ::
  "cm_env \<Rightarrow> bool \<Rightarrow> nat \<Rightarrow> 32 word \<Rightarrow> modem_status \<Rightarrow> ('a cm_state_scheme, unit) state" where
  "handle_9160_status_update c mem_ok wr changed st = do {
     let flags = ms_flags st;
     lte_power_change c changed flags;
     whenever (changed AND update_status STATUS_LTE_CONNECTED \<noteq> 0 \<and>
               status_getBit flags (status_pos STATUS_LTE_CONNECTED))
       (ksleep (cenv c) 50);
     lte_mqtt_change changed flags;
     lte_reset_seen c mem_ok (ms_uptime st);
     lte_mqtt_init c mem_ok changed flags;
     s \<leftarrow> State_Monad.get;
     whenever (changed AND update_status STATUS_MQTT_ENABLED \<noteq> 0 \<and>
               \<not> status_getBit flags (status_pos STATUS_MQTT_ENABLED) \<and>
               rm_get_active_mqtt_radio s = COMM_DEVICE_NRF9160 \<and> \<not> rm_is_switching_radios s)
       do_ssid_scan;
     whenever (ms_fota_state st \<noteq> 0)
       (do { call (cenv c) (FotaPublish (ms_fota_state st) (ucast (ms_fota_percentage st))); skip });
     modify (\<lambda>s. s\<lparr>first_9160_status_recieved := True\<rparr>);
     free_blocks 1;
     wr_release wr
   }"

section \<open>The events of the DA16200\<close>

definition zone_alert :: "cm_env \<Rightarrow> int \<Rightarrow> string \<Rightarrow> bool \<Rightarrow> ('a cm_state_scheme, unit) state" where
  "zone_alert c kind name entering = do {
     s \<leftarrow> State_Monad.get;
     let idx = wifi_find_saved_ssid name (wld s);
     whenever (idx \<ge> 0 \<and> wifi_saved_ssid_safe idx (wld s))
       (do { commMgr_queue_safe_zone_alert c (utc_time (wld s)) kind name entering; skip })
   }"

definition da_ap_change :: "cm_env \<Rightarrow> ('a cm_state_scheme, unit) state" where
  "da_ap_change c = do {
     s \<leftarrow> State_Monad.get;
     whenever (ap_connected (das s) = DA_STATE_KNOWN_TRUE) (do {
       modify (\<lambda>s. s\<lparr>g_quick_reconnect_cnt := 3\<rparr>);
       zone_alert c 1 (ap_name (das s)) True
     });
     s \<leftarrow> State_Monad.get;
     whenever (ap_connected (das s) = DA_STATE_KNOWN_FALSE) (do {
       whenever (strstr (ap_disconnect_reason (das s)) ''AUTH_NOT_VALID'' \<noteq> None)
         (modify (\<lambda>s. s\<lparr>g_quick_reconnect_cnt := 0\<rparr>));
       zone_alert c 2 (g_last_ap_name (wld s)) False
     })
   }"

definition da_state_work_handler :: "cm_env \<Rightarrow> nat \<Rightarrow> 32 word \<Rightarrow> ('a cm_state_scheme, unit) state" where
  "da_state_work_handler c wr events = do {
     whenever (events AND DA_EVENT_TYPE_HTTP_COMPLETE \<noteq> 0)
       (do { call (cenv c) (FotaHandleDaEvent events); skip });
     whenever (events AND DA_EVENT_TYPE_AP_CONNECT \<noteq> 0) (da_ap_change c);
     s \<leftarrow> State_Monad.get;
     whenever (events AND DA_EVENT_TYPE_AP_SAFE \<noteq> 0 \<and> ap_safe (das s) = DA_STATE_KNOWN_TRUE)
       (do { disable_fmd_mode c FMD_SAFE; skip });
     s \<leftarrow> State_Monad.get;
     whenever (events AND DA_EVENT_TYPE_MQTT_BROKER_CONNECT \<noteq> 0 \<and>
               mqtt_broker_connected (das s) \<noteq> DA_STATE_KNOWN_TRUE \<and>
               rm_get_active_mqtt_radio s = COMM_DEVICE_DA16200)
       lost_mqtt;
     free_blocks 1;
     wr_release wr
   }"

section \<open>Onboarding\<close>

text \<open>\<open>net_set_saved_bool\<close> and \<open>send_zbus_tri_event\<close> of \<^verbatim>\<open>net_mgr.c\<close>, for the flag \<open>onboarded\<close>.\<close>

abbreviation DA_NV_ONBOARDED_ADDR :: nat where "DA_NV_ONBOARDED_ADDR \<equiv> 0x3AD000 + 300"

definition set_onboarded :: "env \<Rightarrow> ('a rm_state_scheme, int) state" where
  "set_onboarded e = do {
     ret \<leftarrow> call e (WifiPutNvram DA_NV_ONBOARDED_ADDR ''01'' 1000);
     s \<leftarrow> State_Monad.get;
     whenever (ret = 0 \<and> onboarded (das s) \<noteq> DA_STATE_KNOWN_TRUE) (do {
       set_da (\<lambda>d. d\<lparr>onboarded := DA_STATE_KNOWN_TRUE\<rparr>);
       call e (ZbusPubDa (da_event 14));
       skip
     });
     return ret
   }"

text \<open>\<open>pmic_reboot\<close> restarts the device; what follows its call does not run there.\<close>

definition reconnect_broker :: "env \<Rightarrow> ('a rm_state_scheme, unit) state" where
  "reconnect_broker e = do {
     modify (\<lambda>s. s\<lparr>g_radio_mgmt := False\<rparr>);
     ret \<leftarrow> call e (WifiSetMqttState False 500);
     whenever (ret \<noteq> 0) (do { call e (PmicReboot ''Onboarding''); skip });
     call e (WifiSetMqttSubTopics topicList2 500);
     ret \<leftarrow> call e (WifiSetMqttState True 500);
     whenever (ret \<noteq> 0) (do { call e (PmicReboot ''Onboarding''); skip });
     modify (\<lambda>s. s\<lparr>g_radio_mgmt := True\<rparr>)
   }"

definition handle_onboarding_message :: "cm_env \<Rightarrow> cjson \<Rightarrow> ('a cm_state_scheme, int) state" where
  "handle_onboarding_message c m =
     (case cJSON_GetObjectItem m ''ST'' of
        None \<Rightarrow> return (-1)
      | Some st \<Rightarrow>
          if (case st of JStr v \<Rightarrow> strstr v ''OK'' \<noteq> None | _ \<Rightarrow> False) then do {
            b \<leftarrow> rm_prepare_radio_for_use (cenv c) COMM_DEVICE_DA16200 False 3000;
            if b = False then return (-1)
            else do {
              s \<leftarrow> State_Monad.get;
              ret \<leftarrow> set_onboarded (cenv c);
              whenever (ret = 0 \<and> onboarded (das s) \<noteq> DA_STATE_KNOWN_TRUE) (do {
                s \<leftarrow> State_Monad.get;
                if rm_get_active_mqtt_radio s = COMM_DEVICE_DA16200 then reconnect_broker (cenv c)
                else do { call (cenv c) (PmicReboot ''Onboarded OK''); skip }
              });
              rm_done_with_radio (cenv c) COMM_DEVICE_DA16200;
              return 0
            }
          }
          else return 0)"

section \<open>Messages of the cloud\<close>

text \<open>
  What the code takes from uninitialised stack variables, and whether the allocation of the decoded text
  of a remote function succeeds.
\<close>

record cm_stack =
  junk_doc :: shadow_doc_t
  junk_srf :: srf_data
  malloc_ok :: bool

definition if_fault :: "('f + int) \<Rightarrow> ('a cm_state_scheme, unit) state" where
  "if_fault r = (case r of Inl _ \<Rightarrow> modify (\<lambda>s. s\<lparr>cm_null_deref := True\<rparr>) | Inr _ \<Rightarrow> skip)"

definition cloud_message ::
  "cm_env \<Rightarrow> cm_stack \<Rightarrow> string \<Rightarrow> int \<Rightarrow> cjson \<Rightarrow> ('a cm_state_scheme, unit) state" where
  "cloud_message c k payload kind m =
     (if kind = uint MQTT_MESSAGE_TYPE_FOTA then do { call (cenv c) FotaMessage; skip }
      else if kind = uint MQTT_MESSAGE_TYPE_CONN_TEST then skip
      else if kind = uint MQTT_MESSAGE_TYPE_ONBOARDING then do { handle_onboarding_message c m; skip }
      else if kind = uint MQTT_MESSAGE_TYPE_SHADOW_PROXY
        then do { r \<leftarrow> handle_shadow_message c (junk_doc k) payload; if_fault r }
      else if kind = uint MQTT_MESSAGE_TYPE_SRF_FUNC
        then do { r \<leftarrow> handle_srf_func_message c (junk_srf k) (malloc_ok k) m; if_fault r }
      else skip)"

definition handle_mqtt_cloud_to_dev_message ::
  "cm_env \<Rightarrow> cm_stack \<Rightarrow> nat \<Rightarrow> mqtt_payload \<Rightarrow> ('a cm_state_scheme, unit) state" where
  "handle_mqtt_cloud_to_dev_message c k wr msg = do {
     (case cJSON_Parse c (mp_payload msg) of
        None \<Rightarrow> skip
      | Some tree \<Rightarrow>
          (case (cJSON_GetObjectItem tree ''T'', cJSON_GetObjectItem tree ''M'') of
             (Some t, Some m) \<Rightarrow> cloud_message c k (mp_payload msg) (cJSON_valueint t) m
           | _ \<Rightarrow> skip));
     free_blocks 2;
     wr_release wr
   }"

section \<open>The listener\<close>

text \<open>
  Runs in the publisher's thread.  \<open>mem\<close> says of each allocation in turn whether it succeeds;
  \<open>submitted\<close> is the result of \<open>k_work_submit_to_queue\<close>.
\<close>

definition queue_cm_item ::
  "32 word \<Rightarrow> bool \<Rightarrow> bool \<Rightarrow> (int \<Rightarrow> bool) \<Rightarrow> int \<Rightarrow> cm_msg \<Rightarrow> ('a cm_state_scheme, unit) state" where
  "queue_cm_item line mem mem2 accepted submitted msg =
     (if \<not> mem then skip
      else do {
        free_blocks (-1);
        s \<leftarrow> State_Monad.get;
        case wr_get (Some ()) line (wr_pool s) of
          Inl _ \<Rightarrow> modify (\<lambda>s. s\<lparr>wr_assert_failed := True\<rparr>)
        | Inr (None, p) \<Rightarrow> free_blocks 1
        | Inr (Some wr, p) \<Rightarrow> do {
            modify (\<lambda>s. s\<lparr>wr_pool := p\<rparr>);
            if \<not> mem2 then do { wr_release wr; free_blocks 1 }
            else do {
              let extra = (case msg of CmCloud _ \<Rightarrow> 1 | _ \<Rightarrow> 0);
              free_blocks (- extra);
              if accepted submitted then modify (\<lambda>s. s\<lparr>cm_work_items := cm_work_items s @ [(wr, msg)]\<rparr>)
              else do { wr_release wr; free_blocks (1 + extra) }
            }
          }
      })"

definition hear_cloud :: "bool \<Rightarrow> bool \<Rightarrow> int \<Rightarrow> mqtt_payload \<Rightarrow> ('a cm_state_scheme, unit) state" where
  "hear_cloud mem mem2 submitted msg = queue_cm_item 2511 mem mem2 (\<lambda>r. 0 < r) submitted (CmCloud msg)"

definition hear_lte_status ::
  "bool \<Rightarrow> int \<Rightarrow> 32 word \<Rightarrow> modem_status \<Rightarrow> ('a cm_state_scheme, unit) state" where
  "hear_lte_status mem submitted changed st =
     queue_cm_item 2554 mem True (\<lambda>r. 0 < r) submitted (CmLteStatus changed st)"

definition hear_da_state :: "bool \<Rightarrow> int \<Rightarrow> 32 word \<Rightarrow> ('a cm_state_scheme, unit) state" where
  "hear_da_state mem submitted events =
     queue_cm_item 2579 mem True (\<lambda>r. r = 1) submitted (CmDaState events)"

definition hear_fota :: "32 word \<Rightarrow> int \<Rightarrow> comm_device \<Rightarrow> ('a cm_state_scheme, unit) state" where
  "hear_fota st pct dev = modify (\<lambda>s. s\<lparr>fota_info := (st, pct, dev), fota_pending := True\<rparr>)"

definition hear_battery :: "rat \<Rightarrow> ('a cm_state_scheme, unit) state" where
  "hear_battery pct = modify (\<lambda>s. s\<lparr>battery_percentage :=
     (let pct = (if pct < 0 then 0 else pct) in if pct > 100 then 100 else pct)\<rparr>)"

definition hear_usb :: "bool \<Rightarrow> ('a cm_state_scheme, unit) state" where
  "hear_usb plugged = do {
     modify (\<lambda>s. s\<lparr>usb_connected := plugged\<rparr>);
     s \<leftarrow> State_Monad.get;
     whenever (shipping_flag (wld s) \<and> uptime (wld s) \<ge> 10000) (do {
       modify (\<lambda>s. s\<lparr>ble_info := (plugged, 60), ble_pending := True\<rparr>);
       whenever plugged
         (modify (\<lambda>s. s\<lparr>Fota_work_timer := Some (uptime (wld s) + 1800000)\<rparr>))
     })
   }"

definition fota_status_update_work_handler :: "cm_env \<Rightarrow> ('a cm_state_scheme, unit) state" where
  "fota_status_update_work_handler c = do {
     s \<leftarrow> State_Monad.get;
     let (st, pct, dev) = fota_info s
     in do { call (cenv c) (FotaStatusUpdate st pct dev); skip }
   }"

definition bluetooth_work_handler :: "cm_env \<Rightarrow> ('a cm_state_scheme, unit) state" where
  "bluetooth_work_handler c = do {
     s \<leftarrow> State_Monad.get;
     (if fst (ble_info s) = True then call (cenv c) (BleAdvertiseStart (snd (ble_info s)))
      else call (cenv c) BleStop);
     skip
   }"

section \<open>The start of the manager\<close>

text \<open>
  The parser reads and writes the same document here.  A buffer of 1000 bytes is read without a NUL at
  its end, so \<open>file_text\<close> is the file's text with what the heap holds behind it.
\<close>

definition read_shadow_doc :: "cm_env \<Rightarrow> bool \<Rightarrow> 8 word list \<Rightarrow> ('a cm_state_scheme, json_fault + int) state" where
  "read_shadow_doc c mem_ok app_version = do {
     ret \<leftarrow> call (cenv c) (FsOpen ''/lfs1/shadow_doc.txt'');
     if ret \<noteq> 0 then return (Inr (- ENOENT))
     else if \<not> mem_ok then do { call (cenv c) FsClose; return (Inr (- ENOMEM)) }
     else do {
       amt \<leftarrow> call (cenv c) (FsRead 1000);
       if amt > 0 then do {
         s \<leftarrow> State_Monad.get;
         case json_parse_shadow_report (ub16 c) (ub32 c) (cJSON_Parse c (file_text c (wld s)))
                (shadow_doc s) (shadow_doc s) of
           Inl f \<Rightarrow> return (Inl f)
         | Inr (ret, doc) \<Rightarrow> do {
             set_doc (\<lambda>_. doc\<lparr>mcuVer := app_version\<rparr>);
             call (cenv c) FsClose;
             return (Inr ret)
           }
       } else do {
         call (cenv c) FsClose;
         ret \<leftarrow> write_shadow_doc c;
         return (Inr ret)
       }
     }
   }"

definition commMgr_init :: "cm_env \<Rightarrow> bool \<Rightarrow> 8 word list \<Rightarrow> ('a cm_state_scheme, unit) state" where
  "commMgr_init c mem_ok app_version = do {
     r \<leftarrow> read_shadow_doc c mem_ok app_version;
     if_fault r;
     calculate_S_and_T False;
     start_S_timer 10000;
     call (cenv c) FotaCheckInProgress;
     s \<leftarrow> State_Monad.get;
     call (cenv c) (ImuSetDuration (sd_dur (shadow_doc s)));
     call (cenv c) (ImuSetThreshold (sd_ths (shadow_doc s)));
     skip
   }"

definition shadow_doc_default :: shadow_doc_t where
  "shadow_doc_default =
     \<lparr>S_Norm = 300, S_FMD = 30, T_Norm = 1, T_FMD = 1, sd_Rec = 300, sd_Q = 2, sd_dur = 2, sd_ths = 3,
      sd_mot_det = True, mcuVer = [0, 0, 0], wifiVer = [0, 0, 0], lteVer = [0, 0, 0],
      fota_in_progress_duration = 60, sd_gps_poll_period = 0,
      sd_zones = replicate NUM_ZONES \<lparr>z_ssid = [], z_safe = False\<rparr>\<rparr>"

text \<open>The static initial values; the periods are set by \<open>commMgr_init\<close>.\<close>

definition cm_boot :: "world \<Rightarrow> cm_state" where
  "cm_boot w = rm_state.extend (rm_boot w)
     (cm_state.fields shadow_doc_default 0 0 0 False 0 0 0 FMD_NOT_ACTIVE 0 False False False False [] [] None []
       False False False 0 False False False LTE_MQTT_NOT_INITIALIZED 0 False 0 [] [] False False 0 False
       False False [] 0 False (0, 0, COMM_DEVICE_NONE) False 0 (False, 0) False None)"

text \<open>
  The shell commands of \<^verbatim>\<open>commMgr.c\<close> that change something, each as the call it makes after reading its
  arguments, and the alert before an emergency shutdown.  An argument list leaves out the command's name.
\<close>

section \<open>Reading arguments\<close>

text \<open>
  \<open>strtoul(s, NULL, 10)\<close> saturates at 32 bits; a minus sign negates the value at that width.  The
  result is converted to \<open>int\<close>.
\<close>

definition strtoul10 :: "string \<Rightarrow> 32 word" where
  "strtoul10 s =
     (let t = dropWhile isspace s;
          neg = (t \<noteq> [] \<and> hd t = CHR ''-'');
          u = (if t \<noteq> [] \<and> (hd t = CHR ''-'' \<or> hd t = CHR ''+'') then tl t else t);
          v = digits_val (takeWhile isdigit u)
      in if v \<ge> 2 ^ 32 then - 1 else if neg then - of_nat v else of_nat v)"

definition int_arg :: "string \<Rightarrow> int" where
  "int_arg s = sint (strtoul10 s)"

section \<open>Commands\<close>

definition do_alert_send :: "cm_env \<Rightarrow> string list \<Rightarrow> ('a cm_state_scheme, unit) state" where
  "do_alert_send c args =
     (case args of [k, msg] \<Rightarrow> do { commMgr_queue_alert c (int_arg k) msg; skip } | _ \<Rightarrow> skip)"

definition do_connectivity :: "cm_env \<Rightarrow> string list \<Rightarrow> ('a cm_state_scheme, unit) state" where
  "do_connectivity c args =
     (case args of [n] \<Rightarrow> do { commMgr_queue_connectivity c (int_arg n); skip } | _ \<Rightarrow> skip)"

definition do_onboard :: "cm_env \<Rightarrow> ('a cm_state_scheme, unit) state" where
  "do_onboard c = do { commMgr_queue_onboarding c; skip }"

definition do_set_behavior_vars :: "cm_env \<Rightarrow> string list \<Rightarrow> ('a cm_state_scheme, unit) state" where
  "do_set_behavior_vars c args =
     (case args of
        [s_norm, s_fmd, t_norm, t_fmd, rc, q, save] \<Rightarrow> do {
          commMgr_set_vars c (int_arg s_norm) (int_arg s_fmd) (int_arg t_norm) (int_arg t_fmd)
            (int_arg rc) (int_arg q) (take 1 save = ''y'' \<or> take 1 save = ''1'');
          skip
        }
      | _ \<Rightarrow> skip)"

text \<open>The pairs of a shadow report: 39 characters of the key, and the value in quotes, cut at 59.\<close>

fun shadow_pairs :: "string list \<Rightarrow> (string \<times> string option) list" where
  "shadow_pairs (k # v # args) =
     (take 39 k, if v \<noteq> ''null'' then Some (take 59 (CHR 0x22 # v @ [CHR 0x22])) else None) #
     shadow_pairs args"
| "shadow_pairs _ = []"

definition do_report_shadow :: "cm_env \<Rightarrow> string list \<Rightarrow> ('a cm_state_scheme, unit) state" where
  "do_report_shadow c args =
     (let num_pairs = length args div 2
      in if 0 < num_pairs \<and> num_pairs \<le> 5
         then do { commMgr_queue_shadow c (Some (shadow_pairs args)); skip }
         else do { commMgr_queue_shadow c None; skip })"

definition do_safe_zone_alert :: "cm_env \<Rightarrow> string list \<Rightarrow> ('a cm_state_scheme, unit) state" where
  "do_safe_zone_alert c args =
     (case args of
        [ssid, kind, entering] \<Rightarrow> do {
          s \<leftarrow> State_Monad.get;
          commMgr_queue_safe_zone_alert c (utc_time (wld s)) (int_arg kind) ssid (strtoul10 entering = 1);
          skip
        }
      | _ \<Rightarrow> skip)"

definition do_send_telemetry :: "cm_env \<Rightarrow> ('a cm_state_scheme, unit) state" where
  "do_send_telemetry c = do { commMgr_queue_telemetry c True; skip }"

definition do_send_srf_nonce :: "cm_env \<Rightarrow> ('a cm_state_scheme, unit) state" where
  "do_send_srf_nonce c = do { commMgr_queue_srf_nonce c; skip }"

section \<open>The alert before a shutdown\<close>

text \<open>No code gives the semaphore \<open>nrt_sem\<close>, whose count is 0 at first: the wait ends after ten seconds.\<close>

definition send_shutdown_alert :: "cm_env \<Rightarrow> ('a cm_state_scheme, int) state" where
  "send_shutdown_alert c = do {
     ret \<leftarrow> commMgr_queue_alert c TEMPERATURE_SUB_TYPE ''Shutting down'';
     if ret = 0 then do { ksleep (cenv c) 10000; return (- EAGAIN) }
     else return ret
   }"

end
