(* ===== verification/CommFrames.thy ===== *)
theory CommFrames
  imports CommEvents
begin

text \<open>
  What the operations of the communication manager leave alone.  \<open>told e I\<close> is what the radio manager
  grants the listener of a finished switch: an invariant that reads the radio manager's variables only
  and survives chip calls and sleeps.  \<open>calm c I\<close> is what the functions of the manager need of an
  invariant: it survives chip calls and sleeps, it does not read the manager's plain variables, and it
  is kept by the three functions that touch the message queue and the timer of the periodic work.
  Every function that queues a message and every change of mode keeps a calm invariant (collection
  \<open>calm_intro\<close>), so the functions that the radio manager calls meet the contract
  \<open>switch_listener\<close>, and its invariants hold for the collar's own manager.
\<close>

section \<open>Invariants of the radio manager's variables\<close>

named_theorems calm_intro "invariants kept by the communication manager"

lemmas [calm_intro] =
  keeps_return keeps_gets keeps_get keeps_bind keeps_if keeps_whenever keeps_let keeps_or_else
  keeps_case_option keeps_case_prod keeps_case_list keeps_case_sum

definition told :: "env \<Rightarrow> ('a rm_state_scheme \<Rightarrow> bool) \<Rightarrow> bool" where
  "told e I \<longleftrightarrow> steady e I \<and> core I"

lemma told_robust: "robust e I \<Longrightarrow> core I \<Longrightarrow> told e I"
  by (simp add: told_def robust_def)

lemma told_own:
  fixes I :: "'a cm_state_scheme \<Rightarrow> bool"
  assumes "told e I" and "rm_state.truncate t = rm_state.truncate s" and "I s"
  shows "I t"
  using assms unfolding told_def core_def by metis

lemma keeps_own:
  fixes I :: "'a cm_state_scheme \<Rightarrow> bool"
  assumes "told e I" and "\<And>s. rm_state.truncate (f s) = rm_state.truncate s"
  shows "keeps I (modify f)"
  by (rule keeps_modify) (rule told_own [OF assms(1,2)])

lemma told_vars:
  assumes "told e I"
  shows "keeps I (modify (\<lambda>s. s\<lparr>mqtt_heap := f1 s\<rparr>))"
    "keeps I (modify (\<lambda>s. s\<lparr>mqttq := f2 s\<rparr>))"
    "keeps I (modify (\<lambda>s. s\<lparr>S_work_timer := f3 s\<rparr>))"
    "keeps I (modify (\<lambda>s. s\<lparr>S_work_pending := f4 s\<rparr>))"
    "keeps I (modify (\<lambda>s. s\<lparr>mqttQ_work_items := f5 s\<rparr>))"
    "keeps I (modify (\<lambda>s. s\<lparr>cm_work_items := f6 s\<rparr>))"
    "keeps I (calculate_S_and_T b)"
  unfolding calculate_S_and_T_def
  by (rule keeps_own [OF assms], simp add: rm_state.truncate_def Let_def)+

lemma steady_world:
  assumes "steady e I"
  shows "keeps I (ksleep e ms)" "keeps I (call e d)" "keeps I (set_zones g)" "keeps I (set_da h)"
    "keeps I (modify (\<lambda>s. s\<lparr>wld := (wld s)\<lparr>g_last_ssid_scan_time := t\<rparr>\<rparr>))"
  using assms by (simp_all add: steady_def keeps_def run)

lemma told_ksleep: "told e I \<Longrightarrow> keeps I (ksleep e ms)"
  by (simp add: told_def steady_world)

lemma told_queue_mqtt: "told (cenv c) I \<Longrightarrow> keeps I (commMgr_queue_mqtt_message c b l t q p)"
  unfolding commMgr_queue_mqtt_message_def k_heap_alloc_def k_heap_free_def k_msgq_put_def
  by (intro calm_intro told_vars told_ksleep)

lemma told_timer: "told e I \<Longrightarrow> keeps I (start_S_timer ms)" "told e I \<Longrightarrow> keeps I (reset_S_timer b)"
  unfolding start_S_timer_def reset_S_timer_def by (intro calm_intro told_vars; assumption)+

section \<open>Calm invariants\<close>

definition own_free :: "('a cm_state_scheme \<Rightarrow> bool) \<Rightarrow> bool" where
  "own_free I \<longleftrightarrow>
     (\<forall>s. I s \<longrightarrow>
        (\<forall>x. I (s\<lparr>shadow_doc := x\<rparr>)) \<and>
        (\<forall>x. I (s\<lparr>gS_val := x\<rparr>)) \<and>
        (\<forall>x. I (s\<lparr>gT_val := x\<rparr>)) \<and>
        (\<forall>x. I (s\<lparr>gT_count := x\<rparr>)) \<and>
        (\<forall>x. I (s\<lparr>is_in_fmd_mode := x\<rparr>)) \<and>
        (\<forall>x. I (s\<lparr>fmd_start_time := x\<rparr>)) \<and>
        (\<forall>x. I (s\<lparr>fmd_max_time_in_mins := x\<rparr>)) \<and>
        (\<forall>x. I (s\<lparr>last_fmd_ssid_scan := x\<rparr>)) \<and>
        (\<forall>x. I (s\<lparr>g_last_fmd_status := x\<rparr>)) \<and>
        (\<forall>x. I (s\<lparr>g_quick_reconnect_cnt := x\<rparr>)) \<and>
        (\<forall>x. I (s\<lparr>g_send_shadow := x\<rparr>)) \<and>
        (\<forall>x. I (s\<lparr>g_comm_mgr_disable_S_work := x\<rparr>)) \<and>
        (\<forall>x. I (s\<lparr>g_comm_mgr_disable_Q_work := x\<rparr>)) \<and>
        (\<forall>x. I (s\<lparr>usb_connected := x\<rparr>)) \<and>
        (\<forall>x. I (s\<lparr>wifi_ssids_fifo := x\<rparr>)) \<and>
        (\<forall>x. I (s\<lparr>g_5340_fota_in_progress := x\<rparr>)) \<and>
        (\<forall>x. I (s\<lparr>g_DA_fota_in_progress := x\<rparr>)) \<and>
        (\<forall>x. I (s\<lparr>g_9160_fota_in_progress := x\<rparr>)) \<and>
        (\<forall>x. I (s\<lparr>srf_nonce := x\<rparr>)) \<and>
        (\<forall>x. I (s\<lparr>srf_nonce_sent := x\<rparr>)) \<and>
        (\<forall>x. I (s\<lparr>srf_nonce_pending := x\<rparr>)) \<and>
        (\<forall>x. I (s\<lparr>srf_nonce_status := x\<rparr>)) \<and>
        (\<forall>x. I (s\<lparr>modem_mqtt_config_state := x\<rparr>)) \<and>
        (\<forall>x. I (s\<lparr>last_9160_uptime := x\<rparr>)) \<and>
        (\<forall>x. I (s\<lparr>first_9160_status_recieved := x\<rparr>)) \<and>
        (\<forall>x. I (s\<lparr>my_gps_poll_period := x\<rparr>)) \<and>
        (\<forall>x. I (s\<lparr>WMD_request_id := x\<rparr>)) \<and>
        (\<forall>x. I (s\<lparr>WMD_pending := x\<rparr>)) \<and>
        (\<forall>x. I (s\<lparr>FMD_state := x\<rparr>)) \<and>
        (\<forall>x. I (s\<lparr>FMD_duration := x\<rparr>)) \<and>
        (\<forall>x. I (s\<lparr>FMD_pending := x\<rparr>)) \<and>
        (\<forall>x. I (s\<lparr>gps_pending := x\<rparr>)) \<and>
        (\<forall>x. I (s\<lparr>cm_null_deref := x\<rparr>)) \<and>
        (\<forall>x. I (s\<lparr>cm_live_blocks := x\<rparr>)) \<and>
        (\<forall>x. I (s\<lparr>fota_info := x\<rparr>)) \<and>
        (\<forall>x. I (s\<lparr>fota_pending := x\<rparr>)) \<and>
        (\<forall>x. I (s\<lparr>battery_percentage := x\<rparr>)) \<and>
        (\<forall>x. I (s\<lparr>ble_info := x\<rparr>)) \<and>
        (\<forall>x. I (s\<lparr>ble_pending := x\<rparr>)) \<and>
        (\<forall>x. I (s\<lparr>Fota_work_timer := x\<rparr>)))"

definition calm :: "cm_env \<Rightarrow> ('a cm_state_scheme \<Rightarrow> bool) \<Rightarrow> bool" where
  "calm c I \<longleftrightarrow>
     steady (cenv c) I \<and> own_free I \<and>
     (\<forall>b l t q p. keeps I (commMgr_queue_mqtt_message c b l t q p)) \<and>
     (\<forall>b. keeps I (reset_S_timer b)) \<and> (\<forall>ms. keeps I (start_S_timer ms))"

lemma own_freeD:
  assumes "own_free I" and "I s"
  shows "\<And>x. I (s\<lparr>shadow_doc := x\<rparr>)"
    "\<And>x. I (s\<lparr>gS_val := x\<rparr>)"
    "\<And>x. I (s\<lparr>gT_val := x\<rparr>)"
    "\<And>x. I (s\<lparr>gT_count := x\<rparr>)"
    "\<And>x. I (s\<lparr>is_in_fmd_mode := x\<rparr>)"
    "\<And>x. I (s\<lparr>fmd_start_time := x\<rparr>)"
    "\<And>x. I (s\<lparr>fmd_max_time_in_mins := x\<rparr>)"
    "\<And>x. I (s\<lparr>last_fmd_ssid_scan := x\<rparr>)"
    "\<And>x. I (s\<lparr>g_last_fmd_status := x\<rparr>)"
    "\<And>x. I (s\<lparr>g_quick_reconnect_cnt := x\<rparr>)"
    "\<And>x. I (s\<lparr>g_send_shadow := x\<rparr>)"
    "\<And>x. I (s\<lparr>g_comm_mgr_disable_S_work := x\<rparr>)"
    "\<And>x. I (s\<lparr>g_comm_mgr_disable_Q_work := x\<rparr>)"
    "\<And>x. I (s\<lparr>usb_connected := x\<rparr>)"
    "\<And>x. I (s\<lparr>wifi_ssids_fifo := x\<rparr>)"
    "\<And>x. I (s\<lparr>g_5340_fota_in_progress := x\<rparr>)"
    "\<And>x. I (s\<lparr>g_DA_fota_in_progress := x\<rparr>)"
    "\<And>x. I (s\<lparr>g_9160_fota_in_progress := x\<rparr>)"
    "\<And>x. I (s\<lparr>srf_nonce := x\<rparr>)"
    "\<And>x. I (s\<lparr>srf_nonce_sent := x\<rparr>)"
    "\<And>x. I (s\<lparr>srf_nonce_pending := x\<rparr>)"
    "\<And>x. I (s\<lparr>srf_nonce_status := x\<rparr>)"
    "\<And>x. I (s\<lparr>modem_mqtt_config_state := x\<rparr>)"
    "\<And>x. I (s\<lparr>last_9160_uptime := x\<rparr>)"
    "\<And>x. I (s\<lparr>first_9160_status_recieved := x\<rparr>)"
    "\<And>x. I (s\<lparr>my_gps_poll_period := x\<rparr>)"
    "\<And>x. I (s\<lparr>WMD_request_id := x\<rparr>)"
    "\<And>x. I (s\<lparr>WMD_pending := x\<rparr>)"
    "\<And>x. I (s\<lparr>FMD_state := x\<rparr>)"
    "\<And>x. I (s\<lparr>FMD_duration := x\<rparr>)"
    "\<And>x. I (s\<lparr>FMD_pending := x\<rparr>)"
    "\<And>x. I (s\<lparr>gps_pending := x\<rparr>)"
    "\<And>x. I (s\<lparr>cm_null_deref := x\<rparr>)"
    "\<And>x. I (s\<lparr>cm_live_blocks := x\<rparr>)"
    "\<And>x. I (s\<lparr>fota_info := x\<rparr>)"
    "\<And>x. I (s\<lparr>fota_pending := x\<rparr>)"
    "\<And>x. I (s\<lparr>battery_percentage := x\<rparr>)"
    "\<And>x. I (s\<lparr>ble_info := x\<rparr>)"
    "\<And>x. I (s\<lparr>ble_pending := x\<rparr>)"
    "\<And>x. I (s\<lparr>Fota_work_timer := x\<rparr>)"
  using assms by (simp_all add: own_free_def del: split_paired_All)

lemma told_own_free: "told e I \<Longrightarrow> own_free I"
  unfolding own_free_def by (intro allI impI conjI; erule told_own; simp add: rm_state.truncate_def)

lemma told_calm: "told (cenv c) I \<Longrightarrow> calm c I"
  using told_own_free [of "cenv c" I] told_queue_mqtt [of c I] told_timer [of "cenv c" I]
  by (auto simp: calm_def told_def)

lemma calm_own: "calm c I \<Longrightarrow> own_free I"
  by (simp add: calm_def)

text \<open>Each assignment of the manager's plain variables keeps a calm invariant.\<close>

lemma keeps_own_vars [calm_intro]:
  assumes "calm c I"
  shows "keeps I (modify (\<lambda>s. s\<lparr>srf_nonce := f1 s\<rparr>))"
    "keeps I (modify (\<lambda>s. s\<lparr>srf_nonce_sent := f2 s\<rparr>))"
    "keeps I (modify (\<lambda>s. s\<lparr>wifi_ssids_fifo := f3 s\<rparr>))"
    "keeps I (modify (\<lambda>s. s\<lparr>g_send_shadow := f4 s\<rparr>))"
    "keeps I (modify (\<lambda>s. s\<lparr>shadow_doc := f5 s\<rparr>))"
    "keeps I (modify (\<lambda>s. s\<lparr>gT_count := f6 s\<rparr>))"
    "keeps I (modify (\<lambda>s. s\<lparr>g_last_fmd_status := f7 s\<rparr>))"
    "keeps I (modify (\<lambda>s. s\<lparr>is_in_fmd_mode := f8 s\<rparr>))"
    "keeps I (modify (\<lambda>s. s\<lparr>is_in_fmd_mode := f8 s, g_last_fmd_status := f7 s\<rparr>))"
    "keeps I (modify (\<lambda>s. s\<lparr>fmd_start_time := f9 s, fmd_max_time_in_mins := f10 s\<rparr>))"
    "keeps I (modify (\<lambda>s. s\<lparr>g_quick_reconnect_cnt := f11 s\<rparr>))"
    "keeps I (modify (\<lambda>s. s\<lparr>cm_null_deref := f12 s\<rparr>))"
    "keeps I (modify (\<lambda>s. s\<lparr>g_9160_fota_in_progress := f13 s\<rparr>))"
    "keeps I (modify (\<lambda>s. s\<lparr>g_DA_fota_in_progress := f14 s\<rparr>))"
    "keeps I (modify (\<lambda>s. s\<lparr>g_5340_fota_in_progress := f15 s\<rparr>))"
    "keeps I (modify (\<lambda>s. s\<lparr>WMD_request_id := f16 s, WMD_pending := f17 s\<rparr>))"
    "keeps I (modify (\<lambda>s. s\<lparr>FMD_state := f18 s, FMD_duration := f19 s\<rparr>))"
    "keeps I (modify (\<lambda>s. s\<lparr>FMD_pending := f20 s\<rparr>))"
    "keeps I (modify (\<lambda>s. s\<lparr>my_gps_poll_period := f21 s, gps_pending := f22 s\<rparr>))"
    "keeps I (modify (\<lambda>s. s\<lparr>fmd_start_time := f9 s, fmd_max_time_in_mins := f10 s,
        is_in_fmd_mode := f8 s, last_fmd_ssid_scan := f23 s\<rparr>))"
    "keeps I (modify (\<lambda>s. s\<lparr>g_comm_mgr_disable_S_work := f24 s\<rparr>))"
    "keeps I (modify (\<lambda>s. s\<lparr>g_comm_mgr_disable_Q_work := f25 s\<rparr>))"
    "keeps I (modify (\<lambda>s. s\<lparr>WMD_pending := f17 s\<rparr>))"
    "keeps I (modify (\<lambda>s. s\<lparr>gps_pending := f22 s\<rparr>))"
    "keeps I (modify (\<lambda>s. s\<lparr>srf_nonce_pending := f26 s\<rparr>))"
    "keeps I (modify (\<lambda>s. s\<lparr>srf_nonce_status := f27 s, srf_nonce_pending := f26 s\<rparr>))"
    "keeps I (modify (\<lambda>s. s\<lparr>cm_live_blocks := f28 s\<rparr>))"
    "keeps I (modify (\<lambda>s. s\<lparr>modem_mqtt_config_state := f29 s\<rparr>))"
    "keeps I (modify (\<lambda>s. s\<lparr>first_9160_status_recieved := f30 s\<rparr>))"
    "keeps I (modify (\<lambda>s. s\<lparr>last_9160_uptime := f31 s\<rparr>))"
    "keeps I (modify (\<lambda>s. s\<lparr>fota_info := f32 s, fota_pending := f33 s\<rparr>))"
    "keeps I (modify (\<lambda>s. s\<lparr>fota_pending := f33 s\<rparr>))"
    "keeps I (modify (\<lambda>s. s\<lparr>battery_percentage := f34 s\<rparr>))"
    "keeps I (modify (\<lambda>s. s\<lparr>usb_connected := f35 s\<rparr>))"
    "keeps I (modify (\<lambda>s. s\<lparr>ble_info := f36 s, ble_pending := f37 s\<rparr>))"
    "keeps I (modify (\<lambda>s. s\<lparr>ble_pending := f37 s\<rparr>))"
    "keeps I (modify (\<lambda>s. s\<lparr>Fota_work_timer := f38 s\<rparr>))"
    "keeps I (calculate_S_and_T b)"
  unfolding calculate_S_and_T_def Let_def
  by (rule keeps_modify; (rule own_freeD [OF calm_own [OF assms]])+; assumption)+

lemma calm_parts [calm_intro]:
  assumes "calm c I"
  shows "keeps I (ksleep (cenv c) ms)" "keeps I (call (cenv c) d)" "keeps I (set_zones g)"
    "keeps I (set_da h)" "keeps I (commMgr_queue_mqtt_message c b l t q p)"
    "keeps I (reset_S_timer fm)" "keeps I (start_S_timer ms)"
    "keeps I (modify (\<lambda>s. s\<lparr>wld := (wld s)\<lparr>g_last_ssid_scan_time := sc\<rparr>\<rparr>))"
  using assms steady_world [of "cenv c" I] by (simp_all add: calm_def)

section \<open>Queueing a message\<close>

lemma calm_queue_json [calm_intro]: "calm c I \<Longrightarrow> keeps I (queue_json c j t p)"
  unfolding queue_json_def by (intro calm_intro)

lemma calm_queue_req [calm_intro]: "calm c I \<Longrightarrow> keeps I (queue_req c r t p)"
  unfolding queue_req_def by (intro calm_intro)

lemma calm_queue_pieces [calm_intro]:
  assumes "calm c I"
  shows "keeps I (queue_pieces c t p ps r)"
proof (induction ps arbitrary: r)
  case Nil
  show ?case by (simp add: keeps_return)
next
  case (Cons q ps)
  show ?case
    by (cases q) (simp only: queue_pieces.simps, intro calm_intro Cons.IH; rule assms)
qed

lemma calm_queue_long [calm_intro]: "calm c I \<Longrightarrow> keeps I (queue_long c r t p)"
  unfolding queue_long_def by (intro calm_intro)

lemma calm_put_scan [calm_intro]: "calm c I \<Longrightarrow> keeps I put_scan_in_fifo"
  unfolding put_scan_in_fifo_def by (intro calm_intro)

lemma calm_messages [calm_intro]:
  assumes "calm c I"
  shows "keeps I (commMgr_queue_srf_nonce c)" "keeps I (commMgr_queue_telemetry c b)"
    "keeps I (commMgr_queue_fmd_telemetry c)" "keeps I (commMgr_queue_pairing_nonce c n)"
    "keeps I (commMgr_queue_safe_zone_alert c tm k ssid en)" "keeps I (commMgr_queue_connectivity c nb)"
    "keeps I (commMgr_queue_alert c st msg)" "keeps I (commMgr_queue_onboarding c)"
    "keeps I (commMgr_queue_shadow c ex)" "keeps I (queue_srf_response c rid er em)"
  unfolding commMgr_queue_srf_nonce_def commMgr_queue_telemetry_def commMgr_queue_fmd_telemetry_def
    commMgr_queue_pairing_nonce_def commMgr_queue_safe_zone_alert_def commMgr_queue_connectivity_def
    commMgr_queue_alert_def commMgr_queue_onboarding_def commMgr_queue_shadow_def queue_srf_response_def
  by (intro calm_intro assms; (rule assms)?)+

lemma calm_send_temp [calm_intro]: "calm c I \<Longrightarrow> keeps I (send_temp_alert c g)"
  unfolding send_temp_alert_def by (cases g) (simp_all only: goldilocks.case, (intro calm_intro; assumption)+)

lemma calm_report_switch [calm_intro]: "calm c I \<Longrightarrow> keeps I (report_switch c)"
  unfolding report_switch_def by (intro calm_intro)

section \<open>The manager is a listener of the radio manager\<close>

interpretation cm: switch_listener "cenv c" "commMgr_switched_to_wifi c" "commMgr_switched_to_lte c"
  for c :: cm_env
proof
  fix I :: "'a cm_state_scheme \<Rightarrow> bool"
  assume "steady (cenv c) I" and "core I"
  then have "calm c I" by (intro told_calm) (simp add: told_def)
  then show "keeps I (commMgr_switched_to_wifi c)" and "keeps I (commMgr_switched_to_lte c)"
    by (simp_all add: commMgr_switched_to_wifi_def commMgr_switched_to_lte_def calm_report_switch)
qed

section \<open>Settings and modes\<close>

lemma calm_modes [calm_intro]:
  assumes "calm c I"
  shows "keeps I (write_shadow_doc c)" "keeps I clear_fmd_states" "keeps I (enable_fmd_mode c n)"
    "keeps I (disable_fmd_mode c r)" "keeps I (set_doc f)"
  unfolding write_shadow_doc_def clear_fmd_states_def enable_fmd_mode_def disable_fmd_mode_def set_doc_def
  by (intro calm_intro assms; (rule assms)?)+

lemma calm_mode_handlers [calm_intro]:
  assumes "calm c I"
  shows "keeps I (FMD_work_handler c b d)" "keeps I (do_fmd_enable c f as)" "keeps I (gps_handler c)"
    "keeps I (commMgr_set_vars c s1 s2 t1 t2 rc q sv)" "keeps I (fota_set_in_progress_timer c n sv)"
  unfolding FMD_work_handler_def do_fmd_enable_def gps_handler_def commMgr_set_vars_def
    fota_set_in_progress_timer_def
  by (intro calm_intro assms; (rule assms)?)+

lemma calm_do_cm_enable [calm_intro]: "calm c I \<Longrightarrow> keeps I (do_cm_enable as)"
  unfolding do_cm_enable_def commMgr_enable_S_work_def commMgr_enable_Q_work_def by (intro calm_intro)

lemma calm_zone_change [calm_intro]: "calm c I \<Longrightarrow> keeps I (shadow_zone_change c d i r)"
  unfolding shadow_zone_change_def wifi_saved_ssids_del_def wifi_set_zone_safe_def
  by (cases r) (simp only: prod.case, intro calm_intro)

lemma calm_zone_changes [calm_intro]:
  assumes "calm c I"
  shows "keeps I (shadow_zone_changes c d is r)"
proof (induction "is" arbitrary: r)
  case Nil
  show ?case by (simp add: keeps_return)
next
  case (Cons i "is")
  show ?case
    by (simp only: shadow_zone_changes.simps, intro calm_intro Cons.IH; rule assms)
qed

lemma calm_shadow [calm_intro]:
  assumes "calm c I"
  shows "keeps I (apply_shadow c d)" "keeps I (handle_shadow_message c junk payload)"
  unfolding apply_shadow_def handle_shadow_message_def
  by (intro calm_intro assms; (rule assms)?)+

lemma calm_do_scan [calm_intro]: "calm c I \<Longrightarrow> keeps I do_ssid_scan"
  unfolding do_ssid_scan_def by (intro calm_intro)

lemma calm_subscribe [calm_intro]: "calm c I \<Longrightarrow> keeps I (subscribe_to_topics_9160 c mem)"
  unfolding subscribe_to_topics_9160_def by (intro calm_intro)

lemma calm_events [calm_intro]:
  assumes "calm c I"
  shows "keeps I (handle_disconnect_from_mqtt c)" "keeps I lost_mqtt" "keeps I (free_blocks n)"
    "keeps I (zone_alert c k nm en)" "keeps I (fota_status_update_work_handler c)"
    "keeps I (bluetooth_work_handler c)" "keeps I (if_fault r)" "keeps I (hear_fota st pct dev)"
    "keeps I (hear_battery q)" "keeps I (hear_usb b)"
  unfolding handle_disconnect_from_mqtt_def lost_mqtt_def free_blocks_def zone_alert_def
    fota_status_update_work_handler_def bluetooth_work_handler_def if_fault_def hear_fota_def
    hear_battery_def hear_usb_def
  by (intro calm_intro assms; (rule assms)?)+

lemma calm_da_ap_change [calm_intro]: "calm c I \<Longrightarrow> keeps I (da_ap_change c)"
  unfolding da_ap_change_def by (intro calm_intro)

lemma calm_read_shadow [calm_intro]: "calm c I \<Longrightarrow> keeps I (read_shadow_doc c mem ver)"
  unfolding read_shadow_doc_def by (intro calm_intro)

lemma calm_init [calm_intro]: "calm c I \<Longrightarrow> keeps I (commMgr_init c mem ver)"
  unfolding commMgr_init_def by (intro calm_intro)

end
