(* ===== verification/SystemInv.thy ===== *)
theory SystemInv
  imports CommFrames
begin

text \<open>
  The two managers together: an event is one event of the radio manager (with the communication manager
  as its listener), a bus message heard by the communication manager, one of its work items, the
  expiry of a timer, or a call of another module.
\<close>

section \<open>Events\<close>

datatype cm_event =
  RadioEv rm_event
| STimer
| SWork int
| QTimer int
| QWork
| WmdWork
| FmdWork
| GpsWork
| NonceWork
| FotaWork
| BleWork
| ItemWork cm_stack bool
| HearCloud bool bool int mqtt_payload
| HearLte bool int "32 word" modem_status
| HearDa bool int "32 word"
| HearFota "32 word" int comm_device
| HearBattery rat
| HearUsb bool
| FotaTimer
| FotaStart comm_device
| FotaEnd comm_device
| SetVars int int int int int int bool
| QueueAlert int string
| TempAlert goldilocks
| QueuePairing string
| QueueOnboarding
| QueueConn int
| QueueShadow "(string \<times> string option) list option"
| QueueTelemetry bool
| CmEnable "string list"
| SsidScan
| FmdShell "string \<Rightarrow> int \<Rightarrow> bool" "string list"

definition S_timer_handler :: "('a cm_state_scheme, unit) state" where
  "S_timer_handler = do {
     t \<leftarrow> gets S_work_timer;
     whenever (t \<noteq> None) (modify (\<lambda>s. s\<lparr>S_work_timer := None, S_work_pending := True\<rparr>))
   }"

definition Fota_timer_handler :: "cm_env \<Rightarrow> ('a cm_state_scheme, unit) state" where
  "Fota_timer_handler c = do {
     t \<leftarrow> gets Fota_work_timer;
     whenever (t \<noteq> None) (do {
       modify (\<lambda>s. s\<lparr>Fota_work_timer := None\<rparr>);
       call (cenv c) FotaUpdateAll;
       skip
     })
   }"

definition run_cm_item ::
  "cm_env \<Rightarrow> cm_stack \<Rightarrow> bool \<Rightarrow> nat \<times> cm_msg \<Rightarrow> ('a cm_state_scheme, unit) state" where
  "run_cm_item c k mem item =
     (case snd item of
        CmCloud msg \<Rightarrow> handle_mqtt_cloud_to_dev_message c k (fst item) msg
      | CmLteStatus changed st \<Rightarrow> handle_9160_status_update c mem (fst item) changed st
      | CmDaState events \<Rightarrow> da_state_work_handler c (fst item) events)"

type_synonym qsort_fun =
  "(int \<times> int \<Rightarrow> int \<times> int \<Rightarrow> int) \<Rightarrow> (int \<times> int) list \<Rightarrow> (int \<times> int) list"

definition pending ::
  "('s \<Rightarrow> bool) \<Rightarrow> ('s \<Rightarrow> 's) \<Rightarrow> ('s, unit) state \<Rightarrow> ('s, unit) state" where
  "pending p clear m = do { b \<leftarrow> gets p; whenever b (do { modify clear; m }) }"

definition run_cm_event ::
  "qsort_fun \<Rightarrow> cm_env \<Rightarrow> cm_event \<Rightarrow> ('a cm_state_scheme, unit) state" where
  "run_cm_event qsort c ev =
     (case ev of
        RadioEv r \<Rightarrow> run_event (cenv c) (commMgr_switched_to_wifi c) (commMgr_switched_to_lte c) r
      | STimer \<Rightarrow> S_timer_handler
      | SWork submitted \<Rightarrow>
          pending S_work_pending (\<lambda>s. s\<lparr>S_work_pending := False\<rparr>) (S_work_handler qsort c submitted)
      | QTimer submitted \<Rightarrow> handle_queue_mqttQ_work submitted
      | QWork \<Rightarrow> do {
          items \<leftarrow> gets mqttQ_work_items;
          case items of [] \<Rightarrow> skip
          | wr # rest \<Rightarrow> do {
              modify (\<lambda>s. s\<lparr>mqttQ_work_items := rest\<rparr>);
              mqttQ_work_handler c (Some wr)
            }
        }
      | WmdWork \<Rightarrow> do {
          rid \<leftarrow> gets WMD_request_id;
          pending WMD_pending (\<lambda>s. s\<lparr>WMD_pending := False\<rparr>) (WMD_work_handler c rid)
        }
      | FmdWork \<Rightarrow> do {
          s \<leftarrow> State_Monad.get;
          pending FMD_pending (\<lambda>s. s\<lparr>FMD_pending := False\<rparr>)
            (FMD_work_handler c (FMD_state s) (FMD_duration s))
        }
      | GpsWork \<Rightarrow> pending gps_pending (\<lambda>s. s\<lparr>gps_pending := False\<rparr>) (gps_handler c)
      | NonceWork \<Rightarrow>
          pending srf_nonce_pending (\<lambda>s. s\<lparr>srf_nonce_pending := False\<rparr>) (handle_disconnect_from_mqtt c)
      | FotaWork \<Rightarrow>
          pending fota_pending (\<lambda>s. s\<lparr>fota_pending := False\<rparr>) (fota_status_update_work_handler c)
      | BleWork \<Rightarrow> pending ble_pending (\<lambda>s. s\<lparr>ble_pending := False\<rparr>) (bluetooth_work_handler c)
      | ItemWork k mem \<Rightarrow> do {
          items \<leftarrow> gets cm_work_items;
          case items of [] \<Rightarrow> skip
          | item # rest \<Rightarrow> do {
              modify (\<lambda>s. s\<lparr>cm_work_items := rest\<rparr>);
              run_cm_item c k mem item
            }
        }
      | HearCloud m1 m2 r msg \<Rightarrow> hear_cloud m1 m2 r msg
      | HearLte m r changed st \<Rightarrow> hear_lte_status m r changed st
      | HearDa m r events \<Rightarrow> hear_da_state m r events
      | HearFota st pct dev \<Rightarrow> hear_fota st pct dev
      | HearBattery pct \<Rightarrow> hear_battery pct
      | HearUsb b \<Rightarrow> hear_usb b
      | FotaTimer \<Rightarrow> Fota_timer_handler c
      | FotaStart dev \<Rightarrow> drop_result (commMgr_fota_start c dev)
      | FotaEnd dev \<Rightarrow> commMgr_fota_end c dev
      | SetVars s1 s2 t1 t2 rc q save \<Rightarrow> drop_result (commMgr_set_vars c s1 s2 t1 t2 rc q save)
      | QueueAlert k msg \<Rightarrow> drop_result (commMgr_queue_alert c k msg)
      | TempAlert g \<Rightarrow> drop_result (send_temp_alert c g)
      | QueuePairing nonce \<Rightarrow> drop_result (commMgr_queue_pairing_nonce c nonce)
      | QueueOnboarding \<Rightarrow> drop_result (commMgr_queue_onboarding c)
      | QueueConn n \<Rightarrow> drop_result (commMgr_queue_connectivity c n)
      | QueueShadow extra \<Rightarrow> drop_result (commMgr_queue_shadow c extra)
      | QueueTelemetry b \<Rightarrow> drop_result (commMgr_queue_telemetry c b)
      | CmEnable args \<Rightarrow> do_cm_enable args
      | SsidScan \<Rightarrow> do_ssid_scan
      | FmdShell f args \<Rightarrow> do_fmd_enable c f args)"

text \<open>\<open>cm_reach qsort c A s t\<close>: events of the kind \<open>A\<close> lead from \<open>s\<close> to \<open>t\<close>.\<close>

inductive cm_reach ::
  "qsort_fun \<Rightarrow> cm_env \<Rightarrow> (cm_event \<Rightarrow> bool) \<Rightarrow> 'a cm_state_scheme \<Rightarrow> 'a cm_state_scheme \<Rightarrow> bool"
  for qsort c A where
  cm_here: "cm_reach qsort c A s s"
| cm_more: "cm_reach qsort c A s t \<Longrightarrow> A ev \<Longrightarrow> cm_reach qsort c A s (after (run_cm_event qsort c ev) t)"

inductive_cases cm_reach_elim: "cm_reach qsort c A s t"

lemma cm_reach_inv:
  assumes "cm_reach qsort c A s t" and "I s"
    and "\<And>ev. A ev \<Longrightarrow> keeps I (run_cm_event qsort c ev)"
  shows "I t"
  using assms(1,2)
proof (induction rule: cm_reach.induct)
  case (cm_more s t ev)
  with keepsD [OF assms(3) [OF cm_more(2)]] show ?case by simp
qed

lemma cm_reach_run:
  "list_all A evs \<Longrightarrow> cm_reach qsort c A s (fold (\<lambda>ev. after (run_cm_event qsort c ev)) evs s)"
  by (induction evs rule: rev_induct) (auto intro: cm_here cm_more)

text \<open>
  Invariants of the two managers together.  \<open>system_inv\<close> is the contract of an invariant of the
  system: every handler of the communication manager keeps an invariant that meets it, so it holds in
  every reachable state.  Three invariants follow: the radios that may be active, the wake-up of a
  switch under way, and the wake-up of the periodic work.
\<close>

lemma reset_S_timer_runs: "S_work_timer (after (reset_S_timer b) s) \<noteq> None"
  by (simp add: reset_S_timer_def start_S_timer_def run Let_def)

lemma S_work_restarts: "S_work_timer (after (S_work_handler qsort c r) s) \<noteq> None"
  by (simp only: S_work_handler_def after_bind reset_S_timer_runs not_False_eq_True)

section \<open>The contract of an invariant\<close>

locale system_inv =
  fixes c :: cm_env
    and I :: "'a cm_state_scheme \<Rightarrow> bool"
    and A :: "cm_event \<Rightarrow> bool"
  assumes robust_I: "robust (cenv c) I"
    and calm_I: "calm c I"
    and aside_I: "aside I"
    and lists_I: "I s \<Longrightarrow> I (s\<lparr>mqttQ_work_items := x\<rparr>) \<and> I (s\<lparr>cm_work_items := y\<rparr>)"
    and sends_I: "keeps I (send_queued c d n)"
    and expiry_I: "keeps I S_timer_handler"
    and resume_I: "I s \<Longrightarrow> keeps I (m :: ('a cm_state_scheme, unit) state) \<Longrightarrow>
      (\<And>t. S_work_timer (after m t) \<noteq> None) \<Longrightarrow> I (after m (s\<lparr>S_work_pending := False\<rparr>))"
    and radio_I: "A (RadioEv r) \<Longrightarrow>
      keeps I (run_event (cenv c) (commMgr_switched_to_wifi c) (commMgr_switched_to_lte c) r)"
begin

lemmas base = robust_I calm_I aside_I

lemma keeps_lists:
  "keeps I (modify (\<lambda>s. s\<lparr>mqttQ_work_items := f s\<rparr>))" "keeps I (modify (\<lambda>s. s\<lparr>cm_work_items := g s\<rparr>))"
  using lists_I by (simp_all add: keeps_def)

lemma keeps_forget: "keeps I forget_ap"
  unfolding forget_ap_def by (intro calm_intro base; rule base)

lemma keeps_world: "keeps I (call (cenv c) d)" "keeps I (ksleep (cenv c) ms)"
  by (intro calm_intro base)+

lemma keeps_fota: "keeps I (commMgr_fota_start c dev)" "keeps I (commMgr_fota_end c dev)"
proof -
  have over: "keeps I (fota_over c what)" for what
    unfolding fota_over_def by (intro keeps_intro keeps_world base)
  show "keeps I (commMgr_fota_start c dev)"
    by (cases dev) (simp_all only: commMgr_fota_start_def comm_device.case,
      (intro calm_intro keeps_prepare base; rule base)+)
  show "keeps I (commMgr_fota_end c dev)"
    by (cases dev) (simp_all only: commMgr_fota_end_def comm_device.case,
      (intro calm_intro over base; rule base)+)
qed

text \<open>The rules for the actions of the handlers; the premises are the contract's.\<close>

lemmas acts =
  keeps_return keeps_gets keeps_get keeps_bind keeps_if keeps_whenever keeps_let keeps_or_else
  keeps_case_option keeps_case_prod keeps_case_list keeps_case_sum
  keeps_world keeps_forget keeps_lists
  keeps_rm_switch_to [OF robust_I] keeps_prepare [OF robust_I] keeps_done [OF robust_I]
  keeps_disconnect [OF robust_I] keeps_by_index [OF robust_I] keeps_saved_del_all [OF robust_I]
  keeps_free_vars(8) [OF robust_I] keeps_aside [OF aside_I]
  keeps_own_vars [OF calm_I] calm_parts [OF calm_I] calm_queue_json [OF calm_I] calm_put_scan [OF calm_I]
  calm_messages [OF calm_I] calm_modes [OF calm_I] calm_mode_handlers [OF calm_I] calm_shadow [OF calm_I]
  calm_events [OF calm_I] calm_da_ap_change [OF calm_I] calm_subscribe [OF calm_I] calm_do_scan [OF calm_I]

lemma keeps_send_mqtt: "keeps I (send_mqtt_message c msg len t q)"
  unfolding send_mqtt_message_def by (intro acts)

lemma keeps_ap_list: "keeps I (wifi_get_ap_list (cenv c) ms)"
  unfolding wifi_get_ap_list_def by (intro acts)

lemma keeps_known_ssid: "keeps I (wifi_check_for_known_ssid qsort (cenv c))"
  unfolding wifi_check_for_known_ssid_def by (intro acts keeps_ap_list)

lemma keeps_queue_work: "keeps I (handle_queue_mqttQ_work r)"
  unfolding handle_queue_mqttQ_work_def by (intro acts)

lemma keeps_mqttQ_work: "keeps I (mqttQ_work_handler c w)"
  unfolding mqttQ_work_handler_def check_still_on_ap_def by (intro acts sends_I)

lemma keeps_S_work: "keeps I (S_work_handler qsort c r)"
  unfolding S_work_handler_def S_work_body_def S_scan_def S_rssi_def S_telemetry_def S_send_def
    reconnect_after_scan_def
  by (intro acts keeps_known_ssid keeps_queue_work)

lemma keeps_unchecked: "keeps I (queue_pieces_unchecked c ps)"
proof (induction ps)
  case Nil
  show ?case by (simp add: keeps_return)
next
  case (Cons p ps)
  show ?case
    by (cases p) (simp only: queue_pieces_unchecked.simps, intro acts Cons.IH)
qed

lemma keeps_WMD: "keeps I (WMD_work_handler c rid)"
  unfolding WMD_work_handler_def by (intro acts keeps_unchecked)

lemma keeps_srf: "keeps I (handle_srf_func_message c junk mem m)"
proof -
  have reset: "keeps I (srf_factory_reset c rid)" for rid
    unfolding srf_factory_reset_def by (intro acts keeps_ap_list)
  have go: "keeps I (srf_execute c d)" for d
    unfolding srf_execute_def queue_WMD_work_def by (intro acts reset)
  have checked: "keeps I (do {
      s \<leftarrow> State_Monad.get;
      case srf_accepted c (srf_nonce s) (utc_time (wld s)) d of
        Inl f \<Rightarrow> return (Inl f)
      | Inr False \<Rightarrow> return (Inr (-1))
      | Inr True \<Rightarrow> do { srf_execute c d; return (Inr 0) } })" for d
    by (intro acts, rename_tac b, case_tac b) (simp_all only: bool.case, (intro acts go)+)
  show ?thesis
    unfolding handle_srf_func_message_def
    by (auto simp: keeps_return checked split: option.split cjson.split sum.split)
qed

lemma keeps_onboarding: "keeps I (handle_onboarding_message c m)"
  unfolding handle_onboarding_message_def set_onboarded_def reconnect_broker_def by (intro acts)

lemma keeps_cloud: "keeps I (cloud_message c k payload kind m)"
  unfolding cloud_message_def by (intro acts keeps_onboarding keeps_srf)

lemma keeps_lte_status: "keeps I (handle_9160_status_update c mem wr changed st)"
  unfolding handle_9160_status_update_def lte_power_change_def lte_mqtt_change_def lte_reset_seen_def
    lte_mqtt_init_def
  by (intro acts)

lemma keeps_item: "keeps I (run_cm_item c k mem item)"
  unfolding run_cm_item_def handle_mqtt_cloud_to_dev_message_def da_state_work_handler_def
  by (cases "snd item") (simp_all only: cm_msg.case, (intro acts keeps_cloud keeps_lte_status)+)

lemma keeps_heard: "keeps I (queue_cm_item line m1 m2 acc r msg)"
  unfolding queue_cm_item_def by (intro acts)

lemma keeps_pending: "keeps I (modify clear) \<Longrightarrow> keeps I m \<Longrightarrow> keeps I (pending p clear m)"
  unfolding pending_def by (intro acts)

lemma keeps_S_event:
  "keeps I (pending S_work_pending (\<lambda>s. s\<lparr>S_work_pending := False\<rparr>) (S_work_handler qsort c r))"
proof (rule keepsI)
  fix s :: "'a cm_state_scheme"
  assume "I s"
  then have "I (after (S_work_handler qsort c r) (s\<lparr>S_work_pending := False\<rparr>))"
    by (rule resume_I) (rule keeps_S_work, rule S_work_restarts)
  with \<open>I s\<close> show
    "I (after (pending S_work_pending (\<lambda>s. s\<lparr>S_work_pending := False\<rparr>) (S_work_handler qsort c r)) s)"
    by (simp add: pending_def)
qed

lemma keeps_cm_event:
  assumes "A ev"
  shows "keeps I (run_cm_event qsort c ev)"
proof -
  note handlers = keeps_S_event keeps_queue_work keeps_mqttQ_work keeps_WMD keeps_item keeps_fota keeps_heard
    expiry_I keeps_pending calm_send_temp [OF calm_I] calm_do_cm_enable [OF calm_I]
  show ?thesis
    by (cases ev; (use radio_I assms in \<open>simp add: run_cm_event_def; fail\<close>)?;
        simp only: run_cm_event_def cm_event.case drop_result_def hear_cloud_def hear_lte_status_def
          hear_da_state_def Fota_timer_handler_def;
        (intro acts handlers)?)
qed

lemma reach_I: "cm_reach qsort c A s t \<Longrightarrow> I s \<Longrightarrow> I t"
  by (erule cm_reach_inv) (simp_all add: keeps_cm_event)

end

section \<open>Invariants of the radio manager hold in the system\<close>

lemma free_sends:
  assumes "robust (cenv c) I" and "\<And>f. keeps I (modify (\<lambda>s. s\<lparr>mqttq := f s\<rparr>))"
    and "\<And>f. keeps I (modify (\<lambda>s. s\<lparr>mqtt_heap := f s\<rparr>))"
  shows "keeps I (send_queued c d n)"
proof (induction n)
  case 0
  show ?case by (simp add: keeps_return)
next
  case (Suc n)
  note rob = keeps_rm_switch_to keeps_done keeps_prepare keeps_ksleep keeps_call
  have q: "keeps I (k_msgq_put c msg tm)" "keeps I (k_heap_free b)" for msg tm b
    unfolding k_msgq_put_def k_heap_free_def by (intro calm_intro assms(2,3) rob; rule assms(1))+
  have send: "keeps I (send_mqtt_message c msg len tp qos)" for msg len tp qos
    unfolding send_mqtt_message_def by (intro calm_intro rob; rule assms(1))
  show ?case
    unfolding send_queued.simps
    by (intro calm_intro q send Suc assms(2) rob; rule assms(1))
qed

lemma told_system:
  assumes "robust (cenv c) I" and "core I" and "aside I"
    and "\<And>r. A (RadioEv r) \<Longrightarrow>
      keeps I (run_event (cenv c) (commMgr_switched_to_wifi c) (commMgr_switched_to_lte c) r)"
  shows "system_inv c I A"
proof
  note t = told_robust [OF assms(1,2)]
  show "robust (cenv c) I" "aside I" by fact+
  show "calm c I" by (rule told_calm [OF t])
  show "I s \<Longrightarrow> I (s\<lparr>mqttQ_work_items := x\<rparr>) \<and> I (s\<lparr>cm_work_items := y\<rparr>)" for s x y
    by (intro conjI; erule told_own [OF t, rotated]; simp add: rm_state.truncate_def)
  show "keeps I (send_queued c d n)" for d n by (rule free_sends [OF assms(1) told_vars(2,1) [OF t]])
  show "keeps I S_timer_handler"
    unfolding S_timer_handler_def
    by (intro calm_intro keeps_own [OF t]) (simp add: rm_state.truncate_def)
  show "I (after m (s\<lparr>S_work_pending := False\<rparr>))"
    if "I s" "keeps I m" for s and m :: "('a cm_state_scheme, unit) state"
    by (rule keepsD [OF that(2)]) (rule told_own [OF t _ that(1)], simp add: rm_state.truncate_def)
qed (fact assms(4))

interpretation radio: system_inv c radio_inv A for c A
  by (rule told_system [OF robust_radio_inv core_radio_inv aside_radio_inv cm.keeps_radio_event])

lemma core_sched: "core sched_inv"
  by (auto simp: core_def sched_inv_def stepping_def radio_inv_def rm_state.truncate_def)

lemma system_sched: "ships (cenv c) \<Longrightarrow> system_inv c sched_inv (\<lambda>ev. ev \<noteq> RadioEv EvStep)"
  by (rule told_system [OF robust_sched core_sched aside_sched cm.keeps_sched_event]) simp_all

section \<open>Invariants of the communication manager's own variables\<close>

definition unradio :: "('a rm_state_scheme \<Rightarrow> bool) \<Rightarrow> bool" where
  "unradio I \<longleftrightarrow>
     (\<forall>s b t a i.
        I (s\<lparr>sr_work_pending := b\<rparr>) = I s \<and> I (s\<lparr>continue_switching_timer := t\<rparr>) = I s \<and>
        I (s\<lparr>g_do_one_step := b\<rparr>) = I s \<and> I (s\<lparr>connecting_to_ap_pending := b\<rparr>) = I s \<and>
        I (s\<lparr>g_active_radio := a\<rparr>) = I s \<and> I (s\<lparr>g_switching_radios := b\<rparr>) = I s \<and>
        I (s\<lparr>sr_info := i\<rparr>) = I s)"

lemma keeps_unradio_event:
  fixes I :: "'a cm_state_scheme \<Rightarrow> bool"
  assumes "robust (cenv c) I" and "calm c I" and "aside I" and "unradio I"
  shows "keeps I (run_event (cenv c) (commMgr_switched_to_wifi c) (commMgr_switched_to_lte c) r)"
proof (cases "is_plain r")
  case True
  show ?thesis
    by (rule keeps_plain_event [OF assms(1,3) True]) (use assms(4) in \<open>simp add: unradio_def\<close>)
next
  case False
  have m: "keeps I (modify (\<lambda>s. s\<lparr>sr_work_pending := b\<rparr>))"
    "keeps I (modify (\<lambda>s. s\<lparr>continue_switching_timer := t\<rparr>))"
    "keeps I (modify (\<lambda>s. s\<lparr>g_do_one_step := b\<rparr>))" for b t
    using assms(4) by (simp_all add: unradio_def keeps_def)
  have lis: "keeps I (commMgr_switched_to_wifi c) \<and> keeps I (commMgr_switched_to_lte c)"
    using calm_report_switch [OF assms(2)] by (simp add: commMgr_switched_to_wifi_def commMgr_switched_to_lte_def)
  have "keeps I (switch_radios_work_handler (cenv c) (commMgr_switched_to_wifi c) (commMgr_switched_to_lte c))"
    by (rule cm.keeps_switch_handler [OF assms(1) lis]) (use assms(4) in \<open>simp_all add: unradio_def\<close>)
  then show ?thesis using False
    by (cases r) (simp_all add: is_plain_def run_event_def timer_expired_def do_step_def
        queue_switching_handler_def keeps_whenever keeps_bind keeps_gets keeps_get
        keeps_if keeps_return m)
qed

section \<open>The periodic work\<close>

text \<open>\<open>beats\<close>: the periodic work is queued or its timer runs.\<close>

definition beats :: "'a cm_state_scheme \<Rightarrow> bool" where
  "beats s \<longleftrightarrow> S_work_timer s \<noteq> None \<or> S_work_pending s"


lemma robust_beats: "robust e beats"
  by (simp add: robust_def steady_def free_vars_def keeps_def beats_def rm_switch_to_def
      queue_switching_handler_def run)

lemma plain_beats: "aside beats" "unradio beats" "own_free beats"
  by (simp_all add: aside_def unradio_def own_free_def beats_def)

lemma calm_beats: "calm c beats"
proof -
  have f: "same S_work_timer (commMgr_queue_mqtt_message c b l t q p)"
    "same S_work_pending (commMgr_queue_mqtt_message c b l t q p)" for b l t q p
    by (auto simp: same_def commMgr_queue_mqtt_message_def k_heap_alloc_def k_msgq_put_def k_heap_free_def run)
  have q: "keeps beats (commMgr_queue_mqtt_message c b l t q p)" for b l t q p
    by (simp add: keeps_def beats_def sameD [OF f(1)] sameD [OF f(2)])
  have st: "keeps beats (start_S_timer ms)" for ms
    by (simp add: keeps_def beats_def start_S_timer_def)
  have rs: "keeps beats (reset_S_timer b)" for b
    unfolding keeps_def beats_def using reset_S_timer_runs by blast
  show ?thesis
    unfolding calm_def
    by (intro conjI allI plain_beats q st rs robust_beats [unfolded robust_def, THEN conjunct1])
qed

interpretation beat: system_inv c beats A for c A
proof
  show "keeps beats (send_queued c d n)" for d n
    by (rule free_sends [OF robust_beats]) (simp_all add: keeps_def beats_def)
  show "beats s \<Longrightarrow> beats (s\<lparr>mqttQ_work_items := x\<rparr>) \<and> beats (s\<lparr>cm_work_items := y\<rparr>)" for s x y
    by (simp add: beats_def)
  show "keeps beats S_timer_handler"
    by (simp add: keeps_def beats_def S_timer_handler_def)
  show "beats (after m (s\<lparr>S_work_pending := False\<rparr>))"
    if "\<And>t. S_work_timer (after m t) \<noteq> None" for s and m :: "('a cm_state_scheme, unit) state"
    using that by (simp add: beats_def)
  show "keeps beats (run_event (cenv c) (commMgr_switched_to_wifi c) (commMgr_switched_to_lte c) r)" for r
    by (rule keeps_unradio_event [OF robust_beats calm_beats plain_beats(1,2)])
qed (rule robust_beats calm_beats plain_beats)+

end
