(* ===== verification/MsgQueue.thy ===== *)
theory MsgQueue
  imports SystemInv "HOL-Library.Multiset" "HOL-Library.Sublist"
begin

text \<open>
  The queue of messages for the cloud.  The contract \<open>mailbox\<close> is a bounded FIFO: a message that is
  accepted goes to the end, a refused one changes nothing.  \<open>commMgr_queue_mqtt_message\<close> meets it, and
  \<open>mqttQ_work_handler\<close> delivers from its front.  The texts live in a heap of their own: \<open>acct\<close> says that
  every queued message has a block of its own there, in every reachable state of the system.
\<close>

section \<open>The contract of a mailbox\<close>

locale mailbox =
  fixes contents :: "'s \<Rightarrow> 'm list"
    and put :: "'m \<Rightarrow> 's \<Rightarrow> int \<times> 's"
    and fits :: "'m \<Rightarrow> 's \<Rightarrow> bool"
    and valid :: "'m \<Rightarrow> bool"
    and cap :: nat
  assumes put_room: "valid m \<Longrightarrow> length (contents s) < cap \<Longrightarrow> fits m s \<Longrightarrow>
      fst (put m s) = 0 \<and> contents (snd (put m s)) = contents s @ [m]"
    and put_refused: "valid m \<Longrightarrow> length (contents s) \<ge> cap \<or> \<not> fits m s \<Longrightarrow>
      fst (put m s) < 0 \<and> contents (snd (put m s)) = contents s"
begin

fun put_all :: "'m list \<Rightarrow> 's \<Rightarrow> 's" where
  "put_all [] s = s"
| "put_all (m # ms) s = put_all ms (snd (put m s))"

lemma put_all_subseq:
  "list_all valid ms \<Longrightarrow> \<exists>ys. subseq ys ms \<and> contents (put_all ms s) = contents s @ ys"
proof (induction ms arbitrary: s)
  case Nil
  show ?case by simp
next
  case (Cons m ms)
  then obtain ys where ys: "subseq ys ms" "contents (put_all ms (snd (put m s))) = contents (snd (put m s)) @ ys"
    by fastforce
  from Cons.prems have v: "valid m" by simp
  show ?case
  proof (cases "length (contents s) < cap \<and> fits m s")
    case True
    with ys put_room [OF v] have "subseq (m # ys) (m # ms)"
      "contents (put_all (m # ms) s) = contents s @ m # ys" by simp_all
    then show ?thesis by blast
  next
    case False
    with put_refused [OF v, of s] have "contents (snd (put m s)) = contents s" by auto
    with ys have "contents (put_all (m # ms) s) = contents s @ ys" by simp
    moreover have "subseq ys (m # ms)" using ys(1) by (rule list_emb_Cons)
    ultimately show ?thesis by blast
  qed
qed

lemma put_all_bound:
  "list_all valid ms \<Longrightarrow> length (contents s) \<le> cap \<Longrightarrow> length (contents (put_all ms s)) \<le> cap"
proof (induction ms arbitrary: s)
  case (Cons m ms)
  then have v: "valid m" by simp
  have "length (contents (snd (put m s))) \<le> cap"
    using Cons.prems put_room [OF v, of s] put_refused [OF v, of s]
    by (cases "length (contents s) < cap \<and> fits m s") auto
  with Cons show ?case by simp
qed simp

end

section \<open>The queue of the communication manager\<close>

type_synonym letter = "string \<times> 8 word \<times> 8 word \<times> 8 word"

definition letter_of :: "mqtt_msg \<Rightarrow> letter" where
  "letter_of m = (mm_msg m, mm_topic m, mm_qos m, mm_priority m)"

definition letters :: "'a cm_state_scheme \<Rightarrow> letter list" where
  "letters s = map letter_of (mqttq s)"

definition post :: "cm_env \<Rightarrow> letter \<Rightarrow> 'a cm_state_scheme \<Rightarrow> int \<times> 'a cm_state_scheme" where
  "post c = (\<lambda>(text, topic, qos, prio).
     run_state (commMgr_queue_mqtt_message c text (of_nat (length text)) topic qos prio))"

definition postable :: "cm_env \<Rightarrow> letter \<Rightarrow> 'a cm_state_scheme \<Rightarrow> bool" where
  "postable c l s \<longleftrightarrow>
     length (fst l) \<le> WIFI_MSG_SIZE \<and> heap_fits c (mqtt_heap s) (length (fst l) + 1)"

text \<open>The length is passed in 16 bits.\<close>

definition is_letter :: "letter \<Rightarrow> bool" where
  "is_letter l \<longleftrightarrow> length (fst l) < 2 ^ 16"

lemma queue_message_run:
  "run_state (commMgr_queue_mqtt_message c text len topic qos prio) s =
     (if unat len > WIFI_MSG_SIZE then (- EINVAL, s)
      else if \<not> heap_fits c (mqtt_heap s) (unat len + 1)
      then (- ENOMEM, s\<lparr>wld := k_sleep (cenv c) 10 (wld s)\<rparr>)
      else if length (mqttq s) < MQTTQ_LENGTH then
        (0, s\<lparr>mqtt_heap := (unat len + 1) # mqtt_heap s,
              mqttq := mqttq s @ [\<lparr>mm_msg = take (unat len) text, mm_len = unat len, mm_topic = topic,
                                    mm_qos = qos, mm_priority = prio\<rparr>]\<rparr>)
      else (- EAGAIN, s\<lparr>wld := k_sleep (cenv c) 20 (wld s)\<rparr>))"
  by (simp add: run_state_eq commMgr_queue_mqtt_message_def k_heap_alloc_def k_heap_free_def
      k_msgq_put_def run)

interpretation mq: mailbox letters "post c" "postable c" is_letter MQTTQ_LENGTH for c
proof
  fix l :: letter and s :: "'a cm_state_scheme"
  obtain b tp q p where l: "l = (b, tp, q, p)" by (cases l)
  assume "is_letter l"
  then have len: "unat (of_nat (length b) :: 16 word) = length b"
    by (simp add: is_letter_def l unat_of_nat)
  note r = queue_message_run [of c b "of_nat (length b)" tp q p s, unfolded len]
  show "fst (post c l s) = 0 \<and> letters (snd (post c l s)) = letters s @ [l]"
    if "length (letters s) < MQTTQ_LENGTH" "postable c l s"
    using that by (simp add: post_def l r postable_def letters_def letter_of_def)
  show "fst (post c l s) < 0 \<and> letters (snd (post c l s)) = letters s"
    if "length (letters s) \<ge> MQTTQ_LENGTH \<or> \<not> postable c l s"
    using that by (auto simp: post_def l r postable_def letters_def letter_of_def)
qed

section \<open>Every queued message has its block\<close>

definition block :: "mqtt_msg \<Rightarrow> nat" where
  "block m = mm_len m + 1"

text \<open>\<open>acct_with ms\<close>: the same with the messages \<open>ms\<close> taken out of the queue.\<close>

definition acct_with :: "mqtt_msg list \<Rightarrow> 'a cm_state_scheme \<Rightarrow> bool" where
  "acct_with ms s \<longleftrightarrow>
     mset (map block (ms @ mqttq s)) \<subseteq># mset (mqtt_heap s) \<and> length (ms @ mqttq s) \<le> MQTTQ_LENGTH \<and>
     list_all (\<lambda>m. mm_len m \<le> WIFI_MSG_SIZE) (ms @ mqttq s)"

abbreviation acct :: "'a cm_state_scheme \<Rightarrow> bool" where
  "acct \<equiv> acct_with []"

lemma robust_acct: "robust e (acct_with ms)"
  by (simp add: robust_def steady_def free_vars_def keeps_def acct_with_def rm_switch_to_def
      queue_switching_handler_def run)

lemma plain_acct: "aside (acct_with ms)" "unradio (acct_with ms)" "own_free (acct_with ms)"
  by (simp_all add: aside_def unradio_def own_free_def acct_with_def)

lemma queue_acct: "keeps acct (commMgr_queue_mqtt_message c b l t q p)"
  by (rule keepsI) (simp add: after_def queue_message_run acct_with_def block_def)

lemma timer_acct: "keeps acct (start_S_timer ms)" "keeps acct (reset_S_timer fm)"
  by (simp_all add: keeps_def acct_with_def start_S_timer_def reset_S_timer_def calculate_S_and_T_def
      run Let_def)

lemma calm_acct: "calm c acct"
  unfolding calm_def
  by (intro conjI allI plain_acct queue_acct timer_acct robust_acct [unfolded robust_def, THEN conjunct1])

lemma subset_add: "add_mset a A \<subseteq># B \<Longrightarrow> A \<subseteq># B - {#a#}" "add_mset a A \<subseteq># B \<Longrightarrow> A \<subseteq># B"
proof -
  assume "add_mset a A \<subseteq># B"
  then show "A \<subseteq># B - {#a#}" by (simp add: insert_subset_eq_iff)
  also have "\<dots> \<subseteq># B" by simp
  finally show "A \<subseteq># B" .
qed

lemma acct_pop: "acct s \<Longrightarrow> mqttq s = m # rest \<Longrightarrow> acct_with [m] (s\<lparr>mqttq := rest\<rparr>)"
  by (simp add: acct_with_def)

lemma acct_forget: "acct_with [m] s \<Longrightarrow> acct s"
  by (simp add: acct_with_def) (blast dest: subset_add(2))

lemma acct_back: "acct_with [m] s \<Longrightarrow> mm_len m' = mm_len m \<Longrightarrow> acct (after (k_msgq_put c m' 0) s)"
  by (simp add: acct_with_def k_msgq_put_def run block_def)

lemma acct_free: "acct_with [m] s \<Longrightarrow> n = mm_len m + 1 \<Longrightarrow> acct (after (k_heap_free n) s)"
  by (simp add: acct_with_def k_heap_free_def run block_def) (blast dest: subset_add(1))

lemma triple_gets: "(\<And>x. triple P (m x) Q) \<Longrightarrow> triple P (State_Monad.bind (gets f) m) Q"
  by (simp add: triple_def)

lemma keeps_send_message: "robust (cenv c) I \<Longrightarrow> keeps I (send_mqtt_message c msg len t q)"
  unfolding send_mqtt_message_def by (intro keeps_intro keeps_get)

text \<open>A message that is taken out to be sent goes back, or its block is freed, or its block is lost.\<close>

lemma sends_acct: "keeps (acct :: 'a cm_state_scheme \<Rightarrow> bool) (send_queued c d n)"
proof (induction n)
  case 0
  show ?case by (simp add: keeps_return)
next
  case (Suc n)
  have put: "triple (acct_with [m]) (k_msgq_put c m' 0) (\<lambda>_. acct)" if "mm_len m' = mm_len m" for m m'
    using that by (intro tripleI) (rule acct_back)
  have free: "triple (acct_with [m]) (k_heap_free b) (\<lambda>_. acct)" if "b = mm_len m + 1" for m b
    using that by (intro tripleI) (rule acct_free)
  have lose: "triple (acct_with [m]) (rm_switch_to r x f) (\<lambda>_. acct)" for m r x f
    by (rule tripleI) (rule acct_forget, rule keepsD [OF keeps_rm_switch_to [OF robust_acct]])
  have send: "triple (acct_with [m]) (send_mqtt_message c b l t q) (\<lambda>_. acct_with [m])" for m b l t q
    using keeps_send_message [OF robust_acct] by (simp add: keeps_triple)
  have on: "keeps acct (rm_switch_to r x f)" "keeps acct (rm_done_with_radio (cenv c) d)" for r x f
    by (rule keeps_rm_switch_to keeps_done, rule robust_acct)+
  note rec = Suc [unfolded keeps_triple] on [unfolded keeps_triple]
  have fin: "triple acct (return b) (\<lambda>_. acct)" for b
    by (simp add: triple_def)
  show ?case
  proof (rule keepsI)
    fix s :: "'a cm_state_scheme"
    assume s: "acct s"
    show "acct (after (send_queued c d (Suc n)) s)"
    proof (cases "mqttq s")
      case Nil
      with s show ?thesis by (simp add: run)
    next
      case (Cons m rest)
      have "triple (acct_with [m] :: 'a cm_state_scheme \<Rightarrow> bool) (do {
         s \<leftarrow> State_Monad.get;
         if onboarded (das s) \<noteq> DA_STATE_KNOWN_TRUE \<and> mm_topic m \<noteq> MQTT_MESSAGE_TYPE_ONBOARDING
         then do { k_msgq_put c m 0; send_queued c d n }
         else do {
           r \<leftarrow> send_mqtt_message c (mm_msg m) (mm_len m) (mm_topic m) (mm_qos m);
           let ret = fst r;
           let msg = m\<lparr>mm_msg := snd r\<rparr>;
           if ret = 0 then do { k_heap_free (mm_len msg + 1); send_queued c d n }
           else do {
             sw \<leftarrow> gets rm_is_switching_radios;
             if ret = - ENODEV \<and> d = COMM_DEVICE_NRF9160 \<and> \<not> sw
             then do { rm_switch_to COMM_DEVICE_NRF9160 False False; return False }
             else if ret = -634 then do {
               k_msgq_put c msg 0;
               rm_done_with_radio (cenv c) d;
               rm_switch_to COMM_DEVICE_NRF9160 False False;
               return False
             }
             else if ret = - EFBIG \<or> ret = - EINVAL
             then do { k_heap_free (mm_len msg + 1); send_queued c d n }
             else do { k_msgq_put c msg 0; return True }
           }
         }
       }) (\<lambda>_. acct)"
        unfolding Let_def mqtt_msg.simps
        by (intro triple_get triple_if triple_gets triple_bind [OF put] triple_bind [OF free]
            triple_bind [OF lose] triple_bind [OF send] triple_bind [OF on(1) [unfolded keeps_triple]]
            triple_bind [OF on(2) [unfolded keeps_triple]] rec fin) simp_all
      from tripleD [OF this acct_pop [OF s Cons]] show ?thesis
        by (simp add: Cons)
    qed
  qed
qed

interpretation account: system_inv c acct A for c A
proof
  show "acct s \<Longrightarrow> acct (s\<lparr>mqttQ_work_items := x\<rparr>) \<and> acct (s\<lparr>cm_work_items := y\<rparr>)" for s x y
    by (simp add: acct_with_def)
  show "keeps acct S_timer_handler"
    by (simp add: keeps_def acct_with_def S_timer_handler_def)
  show "acct (after m (s\<lparr>S_work_pending := False\<rparr>))"
    if "acct s" "keeps acct m" for s and m :: "('a cm_state_scheme, unit) state"
    by (rule keepsD [OF that(2)]) (use that(1) in \<open>simp add: acct_with_def\<close>)
  show "keeps acct (run_event (cenv c) (commMgr_switched_to_wifi c) (commMgr_switched_to_lte c) r)" for r
    by (rule keeps_unradio_event [OF robust_acct calm_acct plain_acct(1,2)])
qed (rule robust_acct calm_acct plain_acct sends_acct)+

end
