(* ===== verification/CommProps.thy ===== *)
theory CommProps
  imports MsgQueue RadioProps
begin

text \<open>
  The properties of the two managers running together: what holds in every reachable state, and what
  the queue of messages promises to those who fill it and to the cloud.
\<close>

section \<open>A concrete system\<close>

text \<open>An environment whose chips accept every call; it makes the same text for every request.\<close>

definition cm_mute :: cm_env where
  "cm_mute =
     \<lparr>cenv = mute, machine_id = ''DT1AM640000E'', json_text = (\<lambda>r w. Some ''{}''),
      json_pieces = (\<lambda>r f w. ((Some ''{}'', []), [])), sys_rand32 = (\<lambda>_. 7),
      heap_fits = (\<lambda>hs n. sum_list hs + n \<le> 20000), modem_info = (\<lambda>_. None),
      cJSON_Parse = (\<lambda>_. None), base64_decode = (\<lambda>_ _. (0, None, [])), strerror = (\<lambda>_. []),
      file_text = (\<lambda>_. []), ub16 = (\<lambda>_. 0), ub32 = (\<lambda>_. 0), ub64 = (\<lambda>_. 0)\<rparr>"

lemma cm_mute_env [simp]: "cenv cm_mute = mute"
  by (simp add: cm_mute_def)

lemma mute_idle [simp]: "ships mute"
  by (simp add: mute_def ships_def)

lemma cm_boot_radio [simp]:
  "wld (cm_boot w) = w" "sr_info (cm_boot w) = sr_info (rm_boot w)"
  "g_active_radio (cm_boot w) = g_active_radio (rm_boot w)"
  "g_switching_radios (cm_boot w) = g_switching_radios (rm_boot w)"
  "g_do_one_step (cm_boot w) = g_do_one_step (rm_boot w)"
  "prep_ref_cnt (cm_boot w) = (\<lambda>_. 0)" "g_is_connecting_to_ap (cm_boot w) = False"
  "g_use_wifi (cm_boot w) = g_use_wifi (rm_boot w)" "g_radio_mgmt (cm_boot w) = g_radio_mgmt (rm_boot w)"
  by (simp_all add: cm_boot_def rm_boot_def rm_state.defs)

lemma cm_boot_own [simp]:
  "mqttq (cm_boot w) = []" "mqtt_heap (cm_boot w) = []" "S_work_timer (cm_boot w) = None"
  "S_work_pending (cm_boot w) = False" "shadow_doc (cm_boot w) = shadow_doc_default"
  "g_comm_mgr_disable_Q_work (cm_boot w) = False" "is_in_fmd_mode (cm_boot w) = False"
  by (simp_all add: cm_boot_def rm_boot_def rm_state.defs cm_state.defs)

section \<open>What holds in every reachable state\<close>

lemma boot_radio_inv: "radio_inv (cm_boot w)"
  by (simp add: radio_inv_def rm_boot_def switch_radios_info_init_def)

text \<open>
  Claim C1.  In every state that the two managers reach from the start, by events in any order, the
  active radio is none, LTE or Wi-Fi and the target of a switch is LTE or Wi-Fi.
\<close>

theorem active_radio_known:
  assumes "cm_reach qsort c A (cm_boot w) t"
  shows "g_active_radio t \<in> {COMM_DEVICE_NONE, COMM_DEVICE_NRF9160, COMM_DEVICE_DA16200} \<and>
    target_radio (sr_info t) \<in> {COMM_DEVICE_NRF9160, COMM_DEVICE_DA16200}"
  using radio.reach_I [OF assms boot_radio_inv] by (simp add: radio_inv_def)

theorem active_radio_known_witness:
  "target_radio (sr_info (fold (\<lambda>ev. after (run_cm_event (\<lambda>f xs. xs) cm_mute ev))
     [RadioEv (EvSwitchTo COMM_DEVICE_DA16200 False False), STimer] (cm_boot world0)))
   \<in> {COMM_DEVICE_NRF9160, COMM_DEVICE_DA16200}"
  by (rule active_radio_known [of _ cm_mute "\<lambda>_. True", THEN conjunct2], rule cm_reach_run) simp

text \<open>
  Claim C2.  On a shipped collar a switch of radios under way is never forgotten: in every reachable
  state its work item is queued or its timer runs, unless the shell command that steps the machine by
  hand is used.
\<close>

theorem switch_is_resumed:
  assumes "ships (cenv c)" and "shipping_flag w"
    and "cm_reach qsort c (\<lambda>ev. ev \<noteq> RadioEv EvStep) (cm_boot w) t" and "g_switching_radios t"
  shows "sr_work_pending t \<or> continue_switching_timer t \<noteq> None"
proof -
  have "sched_inv (cm_boot w)"
    using assms(2) boot_radio_inv [of w] by (simp add: sched_inv_def stepping_def rm_boot_def)
  from system_inv.reach_I [OF system_sched [OF assms(1)] assms(3) this] assms(4) show ?thesis
    by (simp add: sched_inv_def)
qed

theorem switch_is_resumed_witness:
  "let t = fold (\<lambda>ev. after (run_cm_event (\<lambda>f xs. xs) cm_mute ev))
       [RadioEv (EvSwitchTo COMM_DEVICE_DA16200 False False)] (cm_boot world0)
   in sr_work_pending t \<or> continue_switching_timer t \<noteq> None"
  unfolding Let_def
  by (rule switch_is_resumed [of cm_mute world0 "\<lambda>f xs. xs"], simp, simp add: world0_def,
      rule cm_reach_run, simp, simp add: run_cm_event_def run_event_def drop_result_def rm_switch_to_def
        queue_switching_handler_def whenever_def run rm_boot_def)

text \<open>
  Claim C3.  The periodic work never stops: from the start of the manager on, in every reachable state,
  it is queued or its timer runs.
\<close>

theorem periodic_work_goes_on:
  assumes "cm_reach qsort c A (after (commMgr_init c mem ver) (cm_boot w)) t"
  shows "S_work_timer t \<noteq> None \<or> S_work_pending t"
proof -
  have "beats (after (commMgr_init c mem ver) (cm_boot w))"
    by (simp add: beats_def commMgr_init_def run start_S_timer_def)
  from beat.reach_I [OF assms this] show ?thesis by (simp add: beats_def)
qed

theorem periodic_work_goes_on_witness:
  "let t = fold (\<lambda>ev. after (run_cm_event (\<lambda>f xs. xs) cm_mute ev)) [STimer, SWork 1]
       (after (commMgr_init cm_mute True [1, 2, 3]) (cm_boot world0))
   in S_work_timer t \<noteq> None \<or> S_work_pending t"
  unfolding Let_def by (rule periodic_work_goes_on [of _ cm_mute "\<lambda>_. True"], rule cm_reach_run) simp



section \<open>Delivery over LTE\<close>

text \<open>
  \<open>online e\<close>: every call to a chip succeeds, and neither the calls nor time change the status of the
  modem or the shadow of the DA16200.
\<close>

definition online :: "env \<Rightarrow> bool" where
  "online e \<longleftrightarrow>
     (\<forall>d w. fst (answer e d w) = 0 \<and> status_flags (snd (answer e d w)) = status_flags w \<and>
            da (snd (answer e d w)) = da w) \<and>
     (\<forall>ms w. status_flags (passing e ms w) = status_flags w \<and> da (passing e ms w) = da w)"

lemma online_call:
  "online e \<Longrightarrow> fst (do_call e d w) = 0 \<and> status_flags (snd (do_call e d w)) = status_flags w \<and>
     da (snd (do_call e d w)) = da w"
  by (simp add: online_def do_call_def advance_def split_beta)

lemma online_sleep:
  "online e \<Longrightarrow> status_flags (k_sleep e ms w) = status_flags w \<and> da (k_sleep e ms w) = da w"
  by (simp add: online_def k_sleep_def advance_def)

text \<open>What the modem is asked to send for a message, at some time.\<close>

definition sent_as :: "cm_env \<Rightarrow> mqtt_msg \<Rightarrow> drv \<Rightarrow> bool" where
  "sent_as c m d \<longleftrightarrow>
     (\<exists>now. d = ModemSendMqtt (take 42 (d2c_topic (machine_id c) (mm_topic m)))
                  (int (length (d2c_topic (machine_id c) (mm_topic m))))
                  (stamp_sent_at now (mm_msg m)) (mm_len m) (mm_qos m) 15000)"

definition on_lte :: "'a cm_state_scheme \<Rightarrow> bool" where
  "on_lte s \<longleftrightarrow> g_active_radio s = COMM_DEVICE_NRF9160 \<and> modem_bit STATUS_MQTT_CONNECTED (wld s) \<and>
     counts_ok (prep_ref_cnt s) \<and> onboarded (das s) = DA_STATE_KNOWN_TRUE"

lemma prepare_lte:
  assumes "on_lte s"
  shows "run_state (rm_prepare_radio_for_use e COMM_DEVICE_NRF9160 True t) s =
    (True, s\<lparr>prep_ref_cnt := (prep_ref_cnt s)(radio_idx COMM_DEVICE_NRF9160 :=
       prep_ref_cnt s (radio_idx COMM_DEVICE_NRF9160) + 1)\<rparr>)"
  using assms by (simp add: on_lte_def run_state_eq rm_prepare_radio_for_use_def run poll_until_now add_ref_def)

lemma done_lte:
  assumes "counts_ok (prep_ref_cnt s)"
  shows "run_state (rm_done_with_radio e COMM_DEVICE_NRF9160)
    (s\<lparr>prep_ref_cnt := (prep_ref_cnt s)(radio_idx COMM_DEVICE_NRF9160 :=
       prep_ref_cnt s (radio_idx COMM_DEVICE_NRF9160) + 1), wld := w\<rparr>) = (0, s\<lparr>wld := w\<rparr>)"
proof -
  have "0 \<le> sint (prep_ref_cnt s (radio_idx COMM_DEVICE_NRF9160))"
    "sint (prep_ref_cnt s (radio_idx COMM_DEVICE_NRF9160)) < 2 ^ 15 - 1"
    using assms unfolding counts_ok_def by blast+
  with sint_plus_1 [OF this(2)] show ?thesis
    by (simp add: run_state_eq rm_done_with_radio_def run add_ref_def)
qed

lemma send_lte:
  assumes "online (cenv c)" and "on_lte s"
  shows "\<exists>w d. run_state (send_mqtt_message c (mm_msg m) (mm_len m) (mm_topic m) (mm_qos m)) s =
      ((0, stamp_sent_at (utc_time (wld s)) (mm_msg m)), s\<lparr>wld := w\<rparr>) \<and>
    on_lte (s\<lparr>wld := w\<rparr>) \<and> calls w = calls (wld s) @ [d] \<and> sent_as c m d"
proof -
  let ?d = "ModemSendMqtt (take 42 (d2c_topic (machine_id c) (mm_topic m)))
    (int (length (d2c_topic (machine_id c) (mm_topic m))))
    (stamp_sent_at (utc_time (wld s)) (mm_msg m)) (mm_len m) (mm_qos m) 15000"
  define w1 where "w1 = snd (do_call (cenv c) ?d (wld s))"
  define w where "w = k_sleep (cenv c) 1000 w1"
  have r: "g_active_radio s = COMM_DEVICE_NRF9160" and ok: "counts_ok (prep_ref_cnt s)"
    using assms(2) by (simp_all add: on_lte_def)
  note dn = done_lte [OF ok, of "cenv c" w1]
  have "run_state (send_mqtt_message c (mm_msg m) (mm_len m) (mm_topic m) (mm_qos m)) s =
      ((0, stamp_sent_at (utc_time (wld s)) (mm_msg m)), s\<lparr>wld := w\<rparr>)"
    using online_call [OF assms(1), of ?d "wld s"] prepare_lte [OF assms(2), of "cenv c" 3000] dn
    by (simp add: run_state_eq send_mqtt_message_def run rm_get_active_mqtt_radio_def r w_def w1_def Let_def)
  moreover have "on_lte (s\<lparr>wld := w\<rparr>)"
    using assms(2) online_call [OF assms(1), of ?d "wld s"] online_sleep [OF assms(1), of 1000 w1]
    by (simp add: on_lte_def w_def w1_def modem_bit_def)
  moreover have "calls w = calls (wld s) @ [?d]" by (simp add: w_def w1_def)
  moreover have "sent_as c m ?d" unfolding sent_as_def by blast
  ultimately show ?thesis by blast
qed

lemma after_heap_free: "after (k_heap_free n) s = s\<lparr>mqtt_heap := remove1 n (mqtt_heap s)\<rparr>"
  by (simp add: k_heap_free_def)

lemma send_queued_lte:
  assumes "online (cenv c)" and "on_lte s"
  shows "\<exists>w h ds. run_state (send_queued c COMM_DEVICE_NRF9160 (length (mqttq s))) s =
      (True, s\<lparr>wld := w, mqttq := [], mqtt_heap := h\<rparr>) \<and> on_lte (s\<lparr>wld := w\<rparr>) \<and>
    calls w = calls (wld s) @ ds \<and> list_all2 (sent_as c) (mqttq s) ds \<and>
    mset h = mset (mqtt_heap s) - mset (map block (mqttq s))"
  using assms(2)
proof (induction "mqttq s" arbitrary: s)
  case Nil
  then show ?case
    by (intro exI [of _ "wld s"] exI [of _ "mqtt_heap s"] exI [of _ "[]"]) (simp add: Nil(1) [symmetric])
next
  case (Cons m rest)
  let ?t = "s\<lparr>mqttq := rest\<rparr>"
  have t: "on_lte ?t" using Cons.prems by (simp add: on_lte_def)
  from send_lte [OF assms(1) t, of m] obtain w d where sent:
    "run_state (send_mqtt_message c (mm_msg m) (mm_len m) (mm_topic m) (mm_qos m)) ?t =
      ((0, stamp_sent_at (utc_time (wld s)) (mm_msg m)), ?t\<lparr>wld := w\<rparr>)"
    "on_lte (?t\<lparr>wld := w\<rparr>)" "calls w = calls (wld s) @ [d]" "sent_as c m d" by auto
  let ?u = "?t\<lparr>wld := w, mqtt_heap := remove1 (mm_len m + 1) (mqtt_heap s)\<rparr>"
  have u: "on_lte ?u" using sent(2) by (simp add: on_lte_def)
  from Cons.hyps(1) [of ?u, OF _ u] obtain v h ds where rec:
    "run_state (send_queued c COMM_DEVICE_NRF9160 (length rest)) ?u =
      (True, ?u\<lparr>wld := v, mqttq := [], mqtt_heap := h\<rparr>)" "on_lte (?u\<lparr>wld := v\<rparr>)"
    "calls v = calls w @ ds" "list_all2 (sent_as c) rest ds"
    "mset h = mset (remove1 (mm_len m + 1) (mqtt_heap s)) - mset (map block rest)" by auto
  have q: "mqttq s = m # rest" using Cons.hyps(2) by simp
  have "onboarded (das ?t) = DA_STATE_KNOWN_TRUE" using t by (simp add: on_lte_def)
  then have "run_state (send_queued c COMM_DEVICE_NRF9160 (length (mqttq s))) s =
      (True, s\<lparr>wld := v, mqttq := [], mqtt_heap := h\<rparr>)"
    using sent(1) rec(1) q by (simp add: run_state_eq run Let_def after_heap_free)
  moreover have "on_lte (s\<lparr>wld := v\<rparr>)" using rec(2) by (simp add: on_lte_def)
  moreover have "calls v = calls (wld s) @ d # ds" using rec(3) sent(3) by simp
  moreover have "list_all2 (sent_as c) (mqttq s) (d # ds)" using rec(4) sent(4) q by simp
  moreover have "mset h = mset (mqtt_heap s) - mset (map block (mqttq s))"
    using rec(5) q by (simp add: block_def)
  ultimately show ?case by blast
qed

lemma after_release: "\<exists>p b. after (wr_release i) s = s\<lparr>wr_pool := p, wr_assert_failed := b\<rparr>"
proof (cases "wr_put i (wr_pool s)")
  case (Inl x)
  then show ?thesis
    by (intro exI [of _ "wr_pool s"] exI [of _ True]) (simp add: wr_release_def)
next
  case (Inr p)
  then show ?thesis
    by (intro exI [of _ p] exI [of _ "wr_assert_failed s"]) (simp add: wr_release_def)
qed

lemma drain_lte:
  assumes "online (cenv c)" and "on_lte s" and "\<not> g_comm_mgr_disable_Q_work s"
    and "\<not> rm_is_switching_radios s" and "sint (prep_ref_cnt s (radio_idx COMM_DEVICE_NRF9160)) < 2 ^ 15 - 2"
  shows "mqttq (after (mqttQ_work_handler c (Some wr)) s) = [] \<and>
    mset (mqtt_heap (after (mqttQ_work_handler c (Some wr)) s)) =
      mset (mqtt_heap s) - mset (map block (mqttq s)) \<and>
    (\<exists>ds. calls (wld (after (mqttQ_work_handler c (Some wr)) s)) = calls (wld s) @ ds \<and>
      list_all2 (sent_as c) (mqttq s) ds)"
proof -
  obtain p b where rel: "after (wr_release wr) s = s\<lparr>wr_pool := p, wr_assert_failed := b\<rparr>"
    using after_release by blast
  let ?s = "s\<lparr>wr_pool := p, wr_assert_failed := b\<rparr>"
  have on: "on_lte ?s" using assms(2) by (simp add: on_lte_def)
  show ?thesis
  proof (cases "mqttq s")
    case Nil
    then show ?thesis
      by (simp add: mqttQ_work_handler_def run rel)
  next
    case (Cons m ms)
    let ?p = "?s\<lparr>prep_ref_cnt := (prep_ref_cnt s)(radio_idx COMM_DEVICE_NRF9160 :=
       prep_ref_cnt s (radio_idx COMM_DEVICE_NRF9160) + 1)\<rparr>"
    have cnt: "counts_ok (prep_ref_cnt s)" "counts_ok (prep_ref_cnt ?p)"
      using assms(2,5) sint_plus_1 [of "prep_ref_cnt s (radio_idx COMM_DEVICE_NRF9160)"]
      by (auto simp: on_lte_def counts_ok_def)
    have "on_lte ?p" using assms(2) cnt(2) by (simp add: on_lte_def)
    from send_queued_lte [OF assms(1) this] obtain w h ds where q:
      "run_state (send_queued c COMM_DEVICE_NRF9160 (length (mqttq s))) ?p =
        (True, ?p\<lparr>wld := w, mqttq := [], mqtt_heap := h\<rparr>)"
      "calls w = calls (wld s) @ ds" "list_all2 (sent_as c) (mqttq s) ds"
      "mset h = mset (mqtt_heap s) - mset (map block (mqttq s))" by auto
    have same: "same mqttq (rm_done_with_radio e COMM_DEVICE_NRF9160)"
      "same mqtt_heap (rm_done_with_radio e COMM_DEVICE_NRF9160)"
      "same wld (rm_done_with_radio e COMM_DEVICE_NRF9160)"
      for e :: env
      by (simp_all add: same_def rm_done_with_radio_def run add_ref_def)
    have ne: "mqttq s \<noteq> []" using Cons by simp
    have r: "g_active_radio s = COMM_DEVICE_NRF9160" "modem_bit STATUS_MQTT_CONNECTED (wld s)"
      using assms(2) by (simp_all add: on_lte_def)
    have "after (mqttQ_work_handler c (Some wr)) s =
      after (rm_done_with_radio (cenv c) COMM_DEVICE_NRF9160) (?p\<lparr>wld := w, mqttq := [], mqtt_heap := h\<rparr>)"
      using prepare_lte [OF on, of "cenv c" 3000] q(1) assms(3,4) ne r
      by (simp add: mqttQ_work_handler_def run rel run_state_eq rm_is_active_radio_mqtt_connected_def
          rm_get_active_mqtt_radio_def is_lte_mqtt_connected_def rm_is_switching_radios_def)
    with q(2-) show ?thesis
      by (simp add: sameD [OF same(1)] sameD [OF same(2)] sameD [OF same(3)])
  qed
qed

lemmas queue_drained_lte_calls = drain_lte [THEN conjunct2, THEN conjunct2]



end
