(* ===== verification/CommCounts.thy ===== *)
theory CommCounts
  imports CommProps
begin

text \<open>
  The reference counts of prepared radios across the handlers of the communication manager: what a handler
  prepares it releases, on every path but one.
\<close>

section \<open>Preparing and releasing\<close>

text \<open>Counts that leave room for two more users of a radio.\<close>

definition counts_room :: "(nat \<Rightarrow> 16 word) \<Rightarrow> bool" where
  "counts_room c \<longleftrightarrow> (\<forall>i. 0 \<le> sint (c i) \<and> sint (c i) < 2 ^ 15 - 2)"

definition held_by :: "(nat \<Rightarrow> 16 word) \<Rightarrow> comm_device \<Rightarrow> nat \<Rightarrow> 16 word" where
  "held_by c d = c(radio_idx d := c (radio_idx d) + 1)"

lemma counts_roomD: "counts_room c \<Longrightarrow> 0 \<le> sint (c i) \<and> sint (c i) < 2 ^ 15 - 2"
  by (simp add: counts_room_def)

lemma counts_room_ok: "counts_room c \<Longrightarrow> counts_ok c"
  using counts_roomD [of c] by (simp add: counts_ok_def order_less_trans [of _ "2 ^ 15 - 2"])

lemma counts_room_held: "counts_room c \<Longrightarrow> counts_ok (held_by c d)"
proof -
  assume c: "counts_room c"
  have "sint (held_by c d i) = sint (c i) + (if i = radio_idx d then 1 else 0)" for i
    using sint_plus_1 [of "c (radio_idx d)"] counts_roomD [OF c, of "radio_idx d"]
    by (simp add: held_by_def)
  then show ?thesis
    using counts_roomD [OF c] unfolding counts_ok_def
    by (smt (verit, best))
qed

abbreviation cnt :: "(nat \<Rightarrow> 16 word) \<Rightarrow> 'a rm_state_scheme \<Rightarrow> bool" where
  "cnt c s \<equiv> prep_ref_cnt s = c"

lemma prepare_cnt:
  "triple (cnt c) (rm_prepare_radio_for_use e d mq t) (\<lambda>b. cnt (if b then held_by c d else c))"
  by (rule tripleI) (simp add: prepare_counts held_by_def)

lemma done_cnt:
  assumes "counts_ok c"
  shows "triple (cnt (held_by c d)) (rm_done_with_radio e d) (\<lambda>_. cnt c)"
proof (rule tripleI)
  fix s :: "'a rm_state_scheme"
  assume s: "cnt (held_by c d) s"
  have "0 \<le> sint (c (radio_idx d))" "sint (c (radio_idx d)) < 2 ^ 15 - 1"
    using assms by (auto simp: counts_ok_def)
  with sint_plus_1 [OF this(2)] s show "cnt c (after (rm_done_with_radio e d) s)"
    by (simp add: done_counts held_by_def)
qed

text \<open>The actions that leave the counts alone.\<close>

lemma cnt_same: "same prep_ref_cnt m \<Longrightarrow> triple (cnt c) m (\<lambda>_. cnt c)"
  by (simp add: triple_def same_def)

lemma cnt_calm: "calm c (cnt n)"
  by (rule told_calm) (simp add: told_def steady_def core_def rm_state.truncate_def)

lemma cnt_keeps: "keeps (cnt c) m \<Longrightarrow> triple (cnt c) m (\<lambda>_. cnt c)"
  by (simp add: keeps_triple)

lemma cnt_acts:
  "triple (cnt n) (call e d) (\<lambda>_. cnt n)" "triple (cnt n) (ksleep e ms) (\<lambda>_. cnt n)"
  "triple (cnt n) (rm_switch_to r x f) (\<lambda>_. cnt n)" "triple (cnt n) forget_ap (\<lambda>_. cnt n)"
  "triple (cnt n) (wifi_disconnect_from_AP e tm) (\<lambda>_. cnt n)"
  "triple (cnt n) (wifi_check_for_known_ssid q e) (\<lambda>_. cnt n)"
  "triple (cnt n) (rm_connect_to_AP_by_index i) (\<lambda>_. cnt n)"
  by (rule cnt_same,
      (simp add: same_intro forget_ap_def rm_connect_to_AP_by_index_def apart_free
        queue_connect_to_ap_work_def same_modify split: option.split; fail))+

lemmas cnt_messages =
  calm_messages [OF cnt_calm, THEN cnt_keeps] calm_modes [OF cnt_calm, THEN cnt_keeps]
  calm_queue_json [OF cnt_calm, THEN cnt_keeps] calm_put_scan [OF cnt_calm, THEN cnt_keeps]
  keeps_own_vars [OF cnt_calm, THEN cnt_keeps] calm_parts(6) [OF cnt_calm, THEN cnt_keeps]

lemma triple_whenever: "triple P m (\<lambda>_. P) \<Longrightarrow> triple P (whenever b m) (\<lambda>_. P)"
  by (simp add: triple_def whenever_def)

lemma triple_skip: "triple P skip (\<lambda>_. P)"
  by (simp add: triple_def)

lemma triple_case_list:
  "(x = [] \<Longrightarrow> triple P m Q) \<Longrightarrow> (\<And>a b. x = a # b \<Longrightarrow> triple P (n a b) Q) \<Longrightarrow>
   triple P (case x of [] \<Rightarrow> m | a # b \<Rightarrow> n a b) Q"
  by (cases x) simp_all

lemma triple_ret: "(\<And>s. P s \<Longrightarrow> Q x s) \<Longrightarrow> triple P (return x) Q"
  by (simp add: triple_def)

lemma triple_let: "triple P (m x) Q \<Longrightarrow> triple P (let y = x in m y) Q"
  by simp

text \<open>A block after which the counts are as before: the rule for sequences of such blocks.\<close>

lemma cnt_seq: "triple (cnt n) m (\<lambda>_. cnt n) \<Longrightarrow> (\<And>a. triple (cnt n) (k a) Q) \<Longrightarrow>
    triple (cnt n) (State_Monad.bind m k) Q"
  by (rule triple_bind)

lemma cnt_prep:
  assumes "triple (cnt n) (k False) Q" and "triple (cnt (held_by n d)) (k True) Q"
  shows "triple (cnt n) (State_Monad.bind (rm_prepare_radio_for_use e d mq t) k) Q"
proof (rule tripleI)
  fix s :: "'a rm_state_scheme"
  assume s: "cnt n s"
  note p = tripleD [OF prepare_cnt [of n e d mq t] s]
  show "Q (result (State_Monad.bind (rm_prepare_radio_for_use e d mq t) k) s)
      (after (State_Monad.bind (rm_prepare_radio_for_use e d mq t) k) s)"
    using p tripleD [OF assms(1)] tripleD [OF assms(2)]
    by (cases "result (rm_prepare_radio_for_use e d mq t) s") simp_all
qed

section \<open>Sending a message\<close>

lemma send_message_cnt:
  assumes "counts_ok n"
  shows "triple (cnt n) (send_mqtt_message c msg len tp q) (\<lambda>_. cnt n)"
  unfolding send_mqtt_message_def Let_def
  by (intro triple_gets cnt_prep)
     (simp_all only: simp_thms if_True if_False eq_False not_True_eq_False,
      (intro triple_ret triple_gets triple_bind [OF triple_if [OF cnt_acts(1) cnt_acts(1)]]
        triple_bind [OF done_cnt [OF assms]] triple_bind [OF cnt_acts(2)]; assumption?)+)

section \<open>The periodic work\<close>

lemma S_telemetry_cnt: "triple (cnt n) (S_telemetry c b) (\<lambda>_. cnt n)"
proof -
  have "keeps (cnt n) (S_telemetry c b)"
    unfolding S_telemetry_def by (intro calm_intro; rule cnt_calm)
  then show ?thesis by (rule cnt_keeps)
qed

lemma queue_work_cnt: "triple (cnt n) (handle_queue_mqttQ_work r) (\<lambda>_. cnt n)"
  by (rule cnt_same) (auto simp: same_def handle_queue_mqttQ_work_def run wr_release_def split: sum.split option.split)

lemma queue_work_radio: "same g_active_radio (handle_queue_mqttQ_work r)"
  by (auto simp: same_def handle_queue_mqttQ_work_def run wr_release_def split: sum.split option.split)

lemma prepare_radio: "same g_active_radio (rm_prepare_radio_for_use e d mq t)"
  unfolding rm_prepare_radio_for_use_def by (intro same_intro) (simp_all add: same_def add_ref_def)

lemma S_send_cnt:
  assumes "counts_ok n"
  shows "triple (cnt n) (S_send c r) (\<lambda>_. cnt n)"
proof (rule tripleI)
  fix s :: "'a cm_state_scheme"
  assume s: "cnt n s"
  let ?d = "rm_get_active_mqtt_radio s"
  note p = tripleD [OF prepare_cnt [of n "cenv c" ?d True 3000] s]
  show "cnt n (after (S_send c r) s)"
  proof (cases "rm_is_active_radio_mqtt_connected s \<and> result (rm_prepare_radio_for_use (cenv c) ?d True 3000) s")
    case True
    let ?t = "after (handle_queue_mqttQ_work r) (after (rm_prepare_radio_for_use (cenv c) ?d True 3000) s)"
    have "rm_get_active_mqtt_radio ?t = ?d"
      by (simp add: rm_get_active_mqtt_radio_def sameD [OF queue_work_radio] sameD [OF prepare_radio])
    moreover have "cnt (held_by n ?d) ?t"
      by (rule tripleD [OF queue_work_cnt]) (use p True in simp)
    ultimately show ?thesis
      using tripleD [OF done_cnt [OF assms, of ?d "cenv c"], of ?t] True by (simp add: S_send_def run)
  next
    case False
    with p s show ?thesis by (auto simp: S_send_def run)
  qed
qed

lemma reconnect_cnt: "triple (cnt n) (reconnect_after_scan q c) (\<lambda>_. cnt n)"
  unfolding reconnect_after_scan_def
  by (intro triple_get triple_gets triple_skip triple_whenever cnt_messages
      cnt_seq [OF triple_whenever] cnt_seq [OF cnt_acts(5)] cnt_seq [OF cnt_acts(6)] cnt_seq [OF cnt_acts(7)])

text \<open>What a block of the periodic work holds when it ends: the DA16200, when it says so.\<close>

abbreviation cnt_da :: "(nat \<Rightarrow> 16 word) \<Rightarrow> bool \<Rightarrow> 'a rm_state_scheme \<Rightarrow> bool" where
  "cnt_da n prepared \<equiv> cnt (if prepared then held_by n COMM_DEVICE_DA16200 else n)"

lemma S_scan_cnt: "triple (cnt n) (S_scan q c b) (\<lambda>r. cnt_da n (snd r))"
  unfolding S_scan_def
  by (intro triple_get triple_if cnt_prep)
     (simp_all only: simp_thms if_True if_False eq_False not_True_eq_False,
      (intro triple_get triple_gets triple_ret triple_if triple_skip
        cnt_seq [OF cnt_acts(1)] cnt_seq [OF cnt_acts(2)] cnt_seq [OF triple_if] reconnect_cnt
        triple_whenever cnt_seq [OF cnt_acts(3)]; simp?)+)

lemma S_rssi_cnt: "triple (cnt_da n p) (S_rssi c p) (\<lambda>r. cnt_da n (snd r))"
proof (rule tripleI)
  fix s :: "'a cm_state_scheme"
  assume s: "cnt_da n p s"
  then show "cnt_da n (snd (result (S_rssi c p) s)) (after (S_rssi c p) s)"
    using tripleD [OF prepare_cnt [of n "cenv c" COMM_DEVICE_DA16200 False 3000], of s]
    by (cases p; cases "result (rm_prepare_radio_for_use (cenv c) COMM_DEVICE_DA16200 False 3000) s")
       (simp_all add: S_rssi_def run)
qed

lemma S_body_cnt:
  assumes "counts_room n"
  shows "triple (cnt n) (S_work_body q c r b) (\<lambda>p. cnt_da n p)"
proof -
  have rest: "triple (cnt_da n p) (do {
        s \<leftarrow> State_Monad.get;
        whenever (rm_get_active_mqtt_radio s = COMM_DEVICE_NONE)
          (do { rm_switch_to COMM_DEVICE_NRF9160 False False; skip });
        S_telemetry c b;
        S_send c r;
        return p }) (\<lambda>p. cnt_da n p)" for p
    using counts_room_ok [OF assms] counts_room_held [OF assms]
    by (intro triple_get cnt_seq [OF triple_whenever] cnt_seq [OF cnt_acts(3)] triple_skip
        cnt_seq [OF S_telemetry_cnt] cnt_seq [OF S_send_cnt] triple_ret) simp_all
  have rssi: "triple (cnt_da n p) (do {
        x \<leftarrow> S_rssi c p;
        if fst x then return (snd x)
        else do {
          s \<leftarrow> State_Monad.get;
          whenever (rm_get_active_mqtt_radio s = COMM_DEVICE_NONE)
            (do { rm_switch_to COMM_DEVICE_NRF9160 False False; skip });
          S_telemetry c b;
          S_send c r;
          return (snd x) } }) (\<lambda>p. cnt_da n p)" for p
    by (rule triple_bind [OF S_rssi_cnt], rule triple_if, rule triple_ret, assumption, rule rest)
  show ?thesis
    unfolding S_work_body_def
    by (rule triple_bind [OF S_scan_cnt], rule triple_if, rule triple_ret, assumption, rule rssi)
qed

text \<open>
  Claim C7.  The periodic work gives back every radio that it prepares: on all of its paths, errors
  included, the reference counts of both radios are as before.
\<close>

theorem S_work_balanced:
  fixes s :: "'a cm_state_scheme"
  assumes "counts_room (prep_ref_cnt s)"
  shows "prep_ref_cnt (after (S_work_handler q c r) s) = prep_ref_cnt s"
proof -
  let ?n = "prep_ref_cnt s"
  note ok = counts_room_ok [OF assms]
  have fin: "triple (cnt_da ?n p) (do {
      whenever p (do { rm_done_with_radio (cenv c) COMM_DEVICE_DA16200; skip });
      fm \<leftarrow> gets is_in_fmd_mode;
      reset_S_timer fm }) (\<lambda>_. cnt ?n)" for p
    using done_cnt [OF ok, of COMM_DEVICE_DA16200 "cenv c"]
    by (cases p) (simp_all add: whenever_def, (intro triple_bind [where R = "\<lambda>_. cnt ?n"] triple_gets
          cnt_messages; assumption?)+)
  have "triple (cnt ?n) (S_work_handler q c r :: ('a cm_state_scheme, unit) state) (\<lambda>_. cnt ?n)"
    unfolding S_work_handler_def
    by (rule triple_get, rule triple_bind [OF _ fin],
        intro triple_if triple_ret S_body_cnt assms) simp_all
  from tripleD [OF this refl] show ?thesis .
qed

theorem S_work_balanced_witness:
  "prep_ref_cnt (after (S_work_handler (\<lambda>f xs. xs) cm_mute 1) (cm_boot world0)) = (\<lambda>_. 0)"
  by (subst S_work_balanced) (simp_all add: counts_room_def)

section \<open>Sending the queued messages\<close>

text \<open>The loop ends with the radio held when its result is true, and on the DA16200 only then.\<close>

lemma sends_cnt:
  assumes "counts_room n" and "d \<noteq> COMM_DEVICE_NRF9160"
  shows "triple (cnt (held_by n d)) (send_queued c d k) (\<lambda>b. cnt (if b then held_by n d else n))"
proof (induction k)
  case 0
  show ?case by (simp add: triple_def)
next
  case (Suc k)
  note ok = counts_room_ok [OF assms(1)] counts_room_held [OF assms(1)]
  have q: "triple (cnt m) (k_msgq_put c msg tm) (\<lambda>_. cnt m)" "triple (cnt m) (k_heap_free b) (\<lambda>_. cnt m)"
    "triple (cnt m) (modify (\<lambda>s. s\<lparr>mqttq := f s\<rparr>)) (\<lambda>_. cnt m)" for m msg tm b f
    by (rule cnt_same, simp add: same_def k_msgq_put_def k_heap_free_def run)+
  show ?case
    unfolding send_queued.simps Let_def
    by (intro triple_gets triple_case_list triple_get triple_if cnt_seq [OF q(1)] cnt_seq [OF q(2)]
        cnt_seq [OF q(3)] triple_bind [OF send_message_cnt [OF ok(2)]] cnt_seq [OF cnt_acts(3)]
        triple_bind [OF done_cnt [OF ok(1)]] Suc triple_ret)
       (use assms(2) in simp_all)
qed

text \<open>
  When the messages go over Wi-Fi, the handler of the message queue gives the radio back on
  every path, also when a message cannot be sent and when the access point is lost.
\<close>

theorem mqttQ_balanced:
  fixes s :: "'a cm_state_scheme"
  assumes "counts_room (prep_ref_cnt s)" and "rm_get_active_mqtt_radio s \<noteq> COMM_DEVICE_NRF9160"
  shows "prep_ref_cnt (after (mqttQ_work_handler c w) s) = prep_ref_cnt s"
proof -
  let ?n = "prep_ref_cnt s" and ?d = "rm_get_active_mqtt_radio s"
  have rel: "prep_ref_cnt (after (wr_release i) t) = prep_ref_cnt t"
    "rm_get_active_mqtt_radio (after (wr_release i) t) = rm_get_active_mqtt_radio t"
    for i and t :: "'a cm_state_scheme"
    using after_release [of i t] by (auto simp: rm_get_active_mqtt_radio_def)
  have still: "triple (cnt m) (check_still_on_ap c) (\<lambda>_. cnt m)" for m
    unfolding check_still_on_ap_def
    by (intro cnt_seq [OF cnt_acts(1)] cnt_seq [OF cnt_acts(2)] cnt_seq [OF cnt_acts(3)]
        cnt_seq [OF cnt_acts(4)] triple_whenever triple_skip)
  have fin: "triple (cnt (if b then held_by ?n ?d else ?n))
      (whenever b (do { rm_done_with_radio (cenv c) ?d; skip })) (\<lambda>_. cnt ?n)" for b
    using done_cnt [OF counts_room_ok [OF assms(1)], of ?d "cenv c"]
    by (cases b) (simp_all add: whenever_def triple_def)
  have go: "triple (cnt ?n) (do {
      b \<leftarrow> rm_prepare_radio_for_use (cenv c) ?d True 3000;
      if b = False then skip
      else do {
        whenever (?d = COMM_DEVICE_DA16200) (check_still_on_ap c);
        to_end \<leftarrow> send_queued c ?d k;
        whenever to_end (do { rm_done_with_radio (cenv c) ?d; skip })
      } } :: ('a cm_state_scheme, unit) state) (\<lambda>_. cnt ?n)" for k
    by (rule cnt_prep; simp only: simp_thms if_True if_False)
       (intro triple_skip cnt_seq [OF triple_whenever] still
         triple_bind [OF sends_cnt [OF assms] fin])+
  let ?t = "case w of None \<Rightarrow> s | Some i \<Rightarrow> after (wr_release i) s"
  have t: "after (case w of None \<Rightarrow> skip | Some i \<Rightarrow> wr_release i) s = ?t" "cnt ?n ?t"
    "rm_get_active_mqtt_radio ?t = ?d"
    by (cases w; simp add: rel)+
  from tripleD [OF go t(2)] t show ?thesis
    by (simp add: mqttQ_work_handler_def Let_def)
qed

theorem mqttQ_balanced_witness:
  "prep_ref_cnt (after (mqttQ_work_handler cm_mute None) (cm_boot world0)) = (\<lambda>_. 0)"
  by (subst mqttQ_balanced) (simp_all add: counts_room_def rm_get_active_mqtt_radio_def rm_boot_def)

end
