(* ===== verification/QueueProps.thy ===== *)
theory QueueProps
  imports CommCounts
begin

text \<open>
  The queue of messages for the cloud as a bounded FIFO, from the call that queues a message to the modem
  that sends it, and the message that is lost when the modem is off.
\<close>

section \<open>A bounded FIFO\<close>

definition fifo_put :: "nat \<Rightarrow> bool \<Rightarrow> 'm \<Rightarrow> 'm list \<Rightarrow> 'm list" where
  "fifo_put cap fits m q = (if fits \<and> length q < cap then q @ [m] else q)"

text \<open>
  Claim C4.  Queueing a message implements a FIFO of 30 places: a message that fits in the heap is put at the
  end while there is a place, any other call changes nothing in the queue, and the result is 0 exactly
  when the message was put.
\<close>

theorem queue_refines_fifo:
  "letters (after (commMgr_queue_mqtt_message c b len topic qos prio) s) =
     fifo_put 30 (unat len \<le> 2100 \<and> heap_fits c (mqtt_heap s) (unat len + 1))
       (take (unat len) b, topic, qos, prio) (letters s) \<and>
   (result (commMgr_queue_mqtt_message c b len topic qos prio) s = 0 \<longleftrightarrow>
     letters (after (commMgr_queue_mqtt_message c b len topic qos prio) s) \<noteq> letters s)"
  by (simp add: after_def result_def queue_message_run fifo_put_def letters_def letter_of_def)

section \<open>From a call to the modem\<close>

text \<open>\<open>post_all\<close> queues messages one after the other.\<close>

definition post_all :: "cm_env \<Rightarrow> letter list \<Rightarrow> 'a cm_state_scheme \<Rightarrow> 'a cm_state_scheme" where
  "post_all c ls s = fold (\<lambda>l s. snd (post c l s)) ls s"

lemma post_all_mailbox: "post_all c ls s = mq.put_all c ls s"
  unfolding post_all_def by (induction ls arbitrary: s) simp_all


definition letter_sent_as :: "cm_env \<Rightarrow> letter \<Rightarrow> drv \<Rightarrow> bool" where
  "letter_sent_as c l d \<longleftrightarrow>
     (\<exists>m. letter_of m = l \<and> sent_as c m d)"

lemma post_on_lte:
  assumes "online (cenv c)" and "on_lte s"
  shows "on_lte (post_all c ls s) \<and> calls (wld (post_all c ls s)) = calls (wld s) \<and>
    prep_ref_cnt (post_all c ls s) = prep_ref_cnt s \<and>
    g_comm_mgr_disable_Q_work (post_all c ls s) = g_comm_mgr_disable_Q_work s \<and>
    rm_is_switching_radios (post_all c ls s) = rm_is_switching_radios s"
  using assms(2)
proof (induction ls arbitrary: s)
  case Nil
  then show ?case by (simp add: post_all_def)
next
  case (Cons l ls)
  obtain b tp q p where l: "l = (b, tp, q, p)" by (cases l)
  have "on_lte (snd (post c l s)) \<and> calls (wld (snd (post c l s))) = calls (wld s) \<and>
    prep_ref_cnt (snd (post c l s)) = prep_ref_cnt s \<and>
    g_comm_mgr_disable_Q_work (snd (post c l s)) = g_comm_mgr_disable_Q_work s \<and>
    rm_is_switching_radios (snd (post c l s)) = rm_is_switching_radios s"
    using Cons.prems online_sleep [OF assms(1)]
    by (simp add: l post_def queue_message_run on_lte_def rm_is_switching_radios_def modem_bit_def)
  with Cons.IH [of "snd (post c l s)"] show ?case by (simp add: post_all_def)
qed

text \<open>
  Whatever messages the collar queues while it is connected over LTE, the next run of the
  handler sends those that the queue has accepted: after those that were queued before, each once, in
  the order in which they were queued, to the topic they were queued for.
\<close>

theorem posted_then_sent:
  assumes "online (cenv c)" and "on_lte s" and "\<not> g_comm_mgr_disable_Q_work s"
    and "\<not> rm_is_switching_radios s" and "sint (prep_ref_cnt s (radio_idx COMM_DEVICE_NRF9160)) < 2 ^ 15 - 2"
    and "list_all is_letter ls"
  shows "\<exists>ys ds. subseq ys ls \<and>
    calls (wld (after (mqttQ_work_handler c (Some wr)) (post_all c ls s))) = calls (wld s) @ ds \<and>
    list_all2 (letter_sent_as c) (letters s @ ys) ds"
proof -
  let ?t = "post_all c ls s"
  note t = post_on_lte [OF assms(1,2), of ls]
  obtain ys where ys: "subseq ys ls" "letters ?t = letters s @ ys"
    using mq.put_all_subseq [OF assms(6), of c s] unfolding post_all_mailbox by blast
  have "on_lte ?t" "\<not> g_comm_mgr_disable_Q_work ?t" "\<not> rm_is_switching_radios ?t"
    "sint (prep_ref_cnt ?t (radio_idx COMM_DEVICE_NRF9160)) < 2 ^ 15 - 2"
    using t assms(3-5) by simp_all
  from queue_drained_lte_calls [OF assms(1) this, of wr] obtain ds where
    "calls (wld (after (mqttQ_work_handler c (Some wr)) ?t)) = calls (wld ?t) @ ds"
    "list_all2 (sent_as c) (mqttq ?t) ds" by blast
  moreover from this(2) have "list_all2 (letter_sent_as c) (letters ?t) ds"
    unfolding letters_def list_all2_map1 by (rule list_all2_mono) (auto simp: letter_sent_as_def)
  ultimately show ?thesis using t ys by (auto intro!: exI [of _ ys] exI [of _ ds])
qed

text \<open>A collar that is connected to the cloud over LTE.\<close>

definition lte_collar :: cm_state where
  "lte_collar =
     (cm_boot (world0\<lparr>status_flags := 16, da := da_unknown\<lparr>onboarded := DA_STATE_KNOWN_TRUE\<rparr>\<rparr>))
       \<lparr>g_active_radio := COMM_DEVICE_NRF9160\<rparr>"

lemma lte_collar_ready:
  "on_lte lte_collar" "\<not> g_comm_mgr_disable_Q_work lte_collar" "\<not> rm_is_switching_radios lte_collar"
  "sint (prep_ref_cnt lte_collar (radio_idx COMM_DEVICE_NRF9160)) < 2 ^ 15 - 2"
  by (simp_all add: lte_collar_def on_lte_def counts_ok_def modem_bit_def status_getBit_bit
      rm_is_switching_radios_def rm_boot_def)

lemma mute_online: "online (cenv cm_mute)"
  by (simp add: online_def mute_def)

theorem posted_then_sent_witness:
  "\<exists>ys ds. subseq ys [(''hello'', 29, 0, 10), (''world'', 29, 0, 10)] \<and>
    calls (wld (after (mqttQ_work_handler cm_mute (Some 0))
      (post_all cm_mute [(''hello'', 29, 0, 10), (''world'', 29, 0, 10)] lte_collar))) =
      calls (wld lte_collar) @ ds \<and>
    list_all2 (letter_sent_as cm_mute) (letters lte_collar @ ys) ds"
  by (rule posted_then_sent [OF mute_online lte_collar_ready]) (simp add: is_letter_def)

section \<open>A modem that is off\<close>

text \<open>
  When the modem answers that it is off while the manager believes it to be on, the first
  message is lost: it is no longer in the queue, its block stays in the heap, and the handler returns
  with the radio still counted as in use.
\<close>

theorem lte_off_loses_message:
  assumes "on_lte s" and "\<not> g_comm_mgr_disable_Q_work s" and "\<not> rm_is_switching_radios s"
    and "sint (prep_ref_cnt s (radio_idx COMM_DEVICE_NRF9160)) < 2 ^ 15 - 2"
    and "mqttq s = m # ms" and "\<And>d w. fst (answer (cenv c) d w) = - ENODEV"
  shows "let t = after (mqttQ_work_handler c None) s
    in mqttq t = ms \<and> mqtt_heap t = mqtt_heap s \<and>
       prep_ref_cnt t (radio_idx COMM_DEVICE_NRF9160) = prep_ref_cnt s (radio_idx COMM_DEVICE_NRF9160) + 1"
proof -
  let ?p = "s\<lparr>prep_ref_cnt := (prep_ref_cnt s)(radio_idx COMM_DEVICE_NRF9160 :=
       prep_ref_cnt s (radio_idx COMM_DEVICE_NRF9160) + 1)\<rparr>"
  let ?q = "?p\<lparr>mqttq := ms\<rparr>"
  have cnt: "counts_ok (prep_ref_cnt ?p)"
    using assms(1,4) sint_plus_1 [of "prep_ref_cnt s (radio_idx COMM_DEVICE_NRF9160)"]
    by (auto simp: on_lte_def counts_ok_def)
  have q: "on_lte ?q" using assms(1) cnt by (simp add: on_lte_def)
  have r: "g_active_radio s = COMM_DEVICE_NRF9160" "modem_bit STATUS_MQTT_CONNECTED (wld s)"
      "onboarded (das s) = DA_STATE_KNOWN_TRUE"
    using assms(1) by (simp_all add: on_lte_def)
  have off: "fst (do_call (cenv c) d w) = - ENODEV" for d w
    using assms(6) by (simp add: do_call_def split_beta)
  have "\<exists>w. run_state (send_mqtt_message c (mm_msg m) (mm_len m) (mm_topic m) (mm_qos m)) ?q =
      ((- ENODEV, stamp_sent_at (utc_time (wld s)) (mm_msg m)), ?q\<lparr>wld := w\<rparr>)"
    using prepare_lte [OF q, of "cenv c" 3000] done_lte [of ?q "cenv c"] cnt r off
    by (auto simp: run_state_eq send_mqtt_message_def run rm_get_active_mqtt_radio_def Let_def)
  then obtain w where sent: "run_state (send_mqtt_message c (mm_msg m) (mm_len m) (mm_topic m) (mm_qos m)) ?q =
      ((- ENODEV, stamp_sent_at (utc_time (wld s)) (mm_msg m)), ?q\<lparr>wld := w\<rparr>)" ..
  have sw: "mqttq (after (rm_switch_to rd x f) t) = mqttq t"
    "mqtt_heap (after (rm_switch_to rd x f) t) = mqtt_heap t"
    "prep_ref_cnt (after (rm_switch_to rd x f) t) = prep_ref_cnt t"
    for rd x f and t :: "'a cm_state_scheme"
    by (simp_all add: rm_switch_to_def queue_switching_handler_def run)
  have "after (mqttQ_work_handler c None) s =
      after (rm_switch_to COMM_DEVICE_NRF9160 False False) (?q\<lparr>wld := w\<rparr>)"
    using prepare_lte [OF assms(1), of "cenv c" 3000] sent assms(2,3,5) r
    by (simp add: mqttQ_work_handler_def run run_state_eq rm_is_active_radio_mqtt_connected_def
        rm_get_active_mqtt_radio_def is_lte_mqtt_connected_def rm_is_switching_radios_def Let_def)
  then show ?thesis by (simp add: sw)
qed

theorem lte_off_loses_message_witness:
  "mqttq (after (mqttQ_work_handler (cm_mute\<lparr>cenv := mute\<lparr>answer := \<lambda>d w. (- ENODEV, w)\<rparr>\<rparr>) None)
     (lte_collar\<lparr>mqtt_heap := [6],
        mqttq := [\<lparr>mm_msg = ''hello'', mm_len = 5, mm_topic = 29, mm_qos = 0, mm_priority = 10\<rparr>]\<rparr>)) = []"
  by (rule lte_off_loses_message [unfolded Let_def, THEN conjunct1])
     (use lte_collar_ready in \<open>simp_all add: on_lte_def rm_is_switching_radios_def\<close>)

end
