(* ===== verification/ShadowProps.thy ===== *)
theory ShadowProps
  imports CommProps
begin

text \<open>
  The shadow document: the ranges of its numbers and texts hold for whatever message the cloud sends,
  and what the setters of \<^verbatim>\<open>commMgr.c\<close> let through.
\<close>

section \<open>Documents in range\<close>

definition vars_ok :: "shadow_doc_t \<Rightarrow> bool" where
  "vars_ok d \<longleftrightarrow>
     10 \<le> unat (S_Norm d) \<and> unat (S_Norm d) \<le> 65534 \<and> 10 \<le> unat (S_FMD d) \<and> unat (S_FMD d) \<le> 65534 \<and>
     1 \<le> unat (T_Norm d) \<and> unat (T_Norm d) \<le> 100 \<and> 1 \<le> unat (T_FMD d) \<and> unat (T_FMD d) \<le> 100 \<and>
     10 \<le> unat (sd_Rec d) \<and> unat (sd_Rec d) \<le> 65534 \<and> 1 \<le> unat (sd_Q d) \<and> unat (sd_Q d) \<le> 65534"

definition zones_fit :: "shadow_doc_t \<Rightarrow> bool" where
  "zones_fit d \<longleftrightarrow> length (sd_zones d) = NUM_ZONES \<and> list_all (\<lambda>z. length (z_ssid z) \<le> 32) (sd_zones d)"

definition doc_ok :: "shadow_doc_t \<Rightarrow> bool" where
  "doc_ok d \<longleftrightarrow> vars_ok d \<and> unat (sd_ths d) \<le> 7 \<and> zones_fit d"

lemma doc_ok_default: "doc_ok shadow_doc_default"
  by (simp add: doc_ok_def vars_ok_def zones_fit_def shadow_doc_default_def NUM_ZONES_def list_all_iff)

lemma clamp16_range:
  assumes "lo \<le> hi" and "hi \<le> 65535"
  shows "lo \<le> unat (clamp16 lo hi x) \<and> unat (clamp16 lo hi x) \<le> hi"
  using assms by (simp add: clamp16_def Let_def unat_of_nat take_bit_eq_mod)

lemma parse_u16_keeps:
  assumes "I (snd p)" and "\<And>d v. I d \<Longrightarrow> lo \<le> unat v \<Longrightarrow> unat v \<le> hi \<Longrightarrow> I (upd (\<lambda>_. v) d)"
    and "lo \<le> hi" and "hi \<le> 65535"
  shows "I (snd (parse_u16 ub m name lo hi upd p))"
  using assms(1) by (cases p) (simp add: parse_u16_def assms(2) clamp16_range [OF assms(3,4)] split: option.split)

lemma list_all_update: "list_all P xs \<Longrightarrow> P x \<Longrightarrow> list_all P (xs[i := x])"
  by (induction xs arbitrary: i) (auto split: nat.split)

lemma zones_fit_update:
  "zones_fit d \<Longrightarrow> length (z_ssid z) \<le> 32 \<Longrightarrow> zones_fit (d\<lparr>sd_zones := (sd_zones d)[i := z]\<rparr>)"
  by (simp add: zones_fit_def list_all_update)

lemma zones_fit_nth: "zones_fit d \<Longrightarrow> i < NUM_ZONES \<Longrightarrow> length (z_ssid (sd_zones d ! i)) \<le> 32"
  by (auto simp: zones_fit_def list_all_length)

lemma doc_ok_set_zone:
  "doc_ok d \<Longrightarrow> length (z_ssid z) \<le> 32 \<Longrightarrow> doc_ok (d\<lparr>sd_zones := (sd_zones d)[i := z]\<rparr>)"
  using zones_fit_update [of d z i] by (simp add: doc_ok_def vars_ok_def)

lemma doc_ok_set_safe:
  assumes "doc_ok d" and "i < NUM_ZONES"
  shows "doc_ok (d\<lparr>sd_zones := (sd_zones d)[i := (sd_zones d ! i)\<lparr>z_safe := b\<rparr>]\<rparr>)"
  using assms zones_fit_nth [of d i] by (intro doc_ok_set_zone) (simp_all add: doc_ok_def)

lemma parse_zone_ok:
  assumes "doc_ok d"
  shows "doc_ok (parse_zone z d)"
proof -
  have n: "doc_ok (d\<lparr>sd_zones := (sd_zones d)[i := (sd_zones d ! i)\<lparr>z_ssid := strncpy_z 32 x\<rparr>]\<rparr>)" for i x
    using assms by (rule doc_ok_set_zone) simp
  have s: "doc_ok (d\<lparr>sd_zones := zs[i := (zs ! i)\<lparr>z_safe := b\<rparr>]\<rparr>)"
    if "doc_ok (d\<lparr>sd_zones := zs\<rparr>)" and "i < NUM_ZONES" for i b zs
    using doc_ok_set_safe [OF that, of b] by simp
  show ?thesis
    unfolding parse_zone_def using assms
    by (auto simp: Let_def intro!: s n simp del: list_update_overwrite split: option.split cjson.split)
qed

lemma parse_zones_ok: "doc_ok d \<Longrightarrow> doc_ok (snd (parse_zones m (r, d)))"
proof -
  have "doc_ok d \<Longrightarrow> doc_ok (fold parse_zone zs d)" for zs d
    by (induction zs arbitrary: d) (simp_all add: parse_zone_ok)
  then show "doc_ok d \<Longrightarrow> doc_ok (snd (parse_zones m (r, d)))"
    by (simp add: parse_zones_def split: option.split)
qed

lemma start_doc_ok: "doc_ok old \<Longrightarrow> doc_ok (start_doc d old)"
  by (simp add: doc_ok_def vars_ok_def zones_fit_def start_doc_def list_all_iff)

lemmas doc_oks = doc_ok_def vars_ok_def zones_fit_def

lemma parse_u16_ok:
  assumes "doc_ok (snd p)"
  shows "doc_ok (snd (parse_u16 ub m k 10 65534 S_Norm_update p))"
    "doc_ok (snd (parse_u16 ub m k 10 65534 S_FMD_update p))"
    "doc_ok (snd (parse_u16 ub m k 1 100 T_Norm_update p))"
    "doc_ok (snd (parse_u16 ub m k 1 100 T_FMD_update p))"
    "doc_ok (snd (parse_u16 ub m k 10 65534 sd_Rec_update p))"
    "doc_ok (snd (parse_u16 ub m k 1 65534 sd_Q_update p))"
    "doc_ok (snd (parse_u16 ub m k 0 7 sd_ths_update p))"
    "doc_ok (snd (parse_u16 ub m k 0 65535 sd_dur_update p))"
  by (rule parse_u16_keeps [where I = doc_ok, OF assms]; simp add: doc_oks)+

lemma parse_rest_ok:
  assumes "doc_ok (snd p)"
  shows "doc_ok (snd (parse_mot_det m p))"
    "doc_ok (snd (parse_u32 ub m k sd_gps_poll_period_update p))"
    "doc_ok (snd (parse_u32 ub m k fota_in_progress_duration_update p))"
    "doc_ok (snd (parse_zones m p))"
  using assms parse_zones_ok [of "snd p" m "fst p"]
  by (auto simp: parse_mot_det_def parse_u32_def doc_ok_def vars_ok_def zones_fit_def
      split: option.split prod.splits)

lemma parse_report_ok:
  assumes "doc_ok old" and "json_parse_shadow_report ub ubw json d old = Inr (ret, new)"
  shows "doc_ok new"
proof (cases "json = None \<or> (\<exists>j. json = Some j \<and> cJSON_GetObjectItem j ''M'' = None)")
  case True
  with assms start_doc_ok [of old d] show ?thesis
    by (auto simp: json_parse_shadow_report_def Let_def)
next
  case False
  then obtain j m where j: "json = Some j" "cJSON_GetObjectItem j ''M'' = Some m" by auto
  have n: "doc_ok (snd (parse_numbers ub m (- EINVAL, start_doc d old)))"
    unfolding parse_numbers_def comp_apply by (intro parse_u16_ok) (simp add: start_doc_ok assms(1))
  obtain r1 d1 where p: "parse_numbers ub m (- EINVAL, start_doc d old) = (r1, d1)"
    by (cases "parse_numbers ub m (- EINVAL, start_doc d old)")
  have "(ret, new) = (parse_zones m \<circ> parse_mot_det m \<circ> parse_u32 ubw m ''GPS_PER'' sd_gps_poll_period_update \<circ>
      parse_u32 ubw m ''F_P_DUR'' fota_in_progress_duration_update) (r1, d1)"
    using assms(2) unfolding json_parse_shadow_report_def Let_def j option.case p prod.case
    by (auto split: list.splits)
  then have "doc_ok (snd (ret, new))"
    using n p by (simp only: comp_apply, intro parse_rest_ok) simp
  then show ?thesis by simp
qed

section \<open>The functions that leave the document alone\<close>

lemma apart_doc [simp]: "apart shadow_doc" "of_private shadow_doc"
  by (simp_all add: apart_def of_private_def)

lemma doc_queue_mqtt [same_intro]: "same shadow_doc (commMgr_queue_mqtt_message c b l t q p)"
  unfolding commMgr_queue_mqtt_message_def k_heap_alloc_def k_msgq_put_def k_heap_free_def
  by (intro same_intro same_modify; simp)

lemma doc_queue_shadow [same_intro]: "same shadow_doc (commMgr_queue_shadow c x)"
  unfolding commMgr_queue_shadow_def queue_req_def queue_json_def by (intro same_intro; simp)

lemma doc_write [same_intro]: "same shadow_doc (write_shadow_doc c)"
  unfolding write_shadow_doc_def by (intro same_intro; simp)

lemma doc_reset_timer [same_intro]: "same shadow_doc (reset_S_timer b)"
  unfolding reset_S_timer_def calculate_S_and_T_def start_S_timer_def Let_def
  by (intro same_intro same_modify; simp)

section \<open>A message keeps the document in range\<close>

abbreviation in_range :: "'a cm_state_scheme \<Rightarrow> bool" where
  "in_range s \<equiv> doc_ok (shadow_doc s)"

lemma in_range_same: "same shadow_doc m \<Longrightarrow> keeps in_range m"
  by (rule keeps_of_same)

lemma or_old_range:
  "v \<noteq> 0 \<Longrightarrow> (of_int (or_old (uint v) old) :: 16 word) = v"
  by (simp add: or_old_def uint_0_iff)

lemma set_vars_range:
  assumes "vars_ok d"
  shows "keeps in_range (commMgr_set_vars c (uint (S_Norm d)) (uint (S_FMD d)) (uint (T_Norm d))
    (uint (T_FMD d)) (uint (sd_Rec d)) (uint (sd_Q d)) save)"
proof -
  have nz: "S_Norm d \<noteq> 0" "S_FMD d \<noteq> 0" "T_Norm d \<noteq> 0" "T_FMD d \<noteq> 0" "sd_Rec d \<noteq> 0"
    using assms by (auto simp: vars_ok_def)
  show ?thesis
    unfolding commMgr_set_vars_def Let_def
    by (intro keeps_bind keeps_gets keeps_if keeps_return keeps_whenever)
      ((rule in_range_same, intro same_intro; simp) |
       (rule keeps_modify, use assms in \<open>simp add: or_old_range nz doc_oks\<close>))+
qed

lemma zone_change_range:
  assumes "i < NUM_ZONES"
  shows "keeps in_range (shadow_zone_change c d i r)"
proof -
  have "in_range s \<Longrightarrow> in_range (after (set_doc (\<lambda>d. d\<lparr>sd_zones := (sd_zones d)[i := \<lparr>z_ssid = [], z_safe = b\<rparr>]\<rparr>)) s)"
    for b and s :: "'a cm_state_scheme"
    by (simp add: set_doc_def doc_ok_set_zone)
  moreover have "in_range s \<Longrightarrow>
      in_range (after (set_doc (\<lambda>d. d\<lparr>sd_zones := (sd_zones d)[i := (sd_zones d ! i)\<lparr>z_safe := b\<rparr>]\<rparr>)) s)"
    for b and s :: "'a cm_state_scheme"
    by (simp add: set_doc_def doc_ok_set_safe [OF _ assms])
  ultimately show ?thesis
    unfolding shadow_zone_change_def split_beta Let_def
    by (intro keeps_bind keeps_gets keeps_if keeps_return)
      ((rule in_range_same, intro same_intro; simp) | (rule keepsI, blast))+
qed

lemma zone_changes_range:
  "list_all (\<lambda>i. i < NUM_ZONES) is \<Longrightarrow> keeps in_range (shadow_zone_changes c d is r)"
  by (induction "is" arbitrary: r) (simp_all add: keeps_return keeps_bind zone_change_range)

lemma apply_shadow_range:
  assumes "doc_ok d"
  shows "keeps in_range (apply_shadow c d)"
proof -
  have "keeps in_range (commMgr_set_vars c (uint (S_Norm d)) (uint (S_FMD d)) (uint (T_Norm d))
      (uint (T_FMD d)) (uint (sd_Rec d)) (uint (sd_Q d)) True)"
    using assms by (intro set_vars_range) (simp add: doc_ok_def)
  moreover have "keeps in_range (set_doc (sd_ths_update (\<lambda>_. sd_ths d)))"
    "keeps in_range (set_doc (sd_mot_det_update (\<lambda>_. sd_mot_det d)))"
    "keeps in_range (set_doc (sd_dur_update (\<lambda>_. sd_dur d)))"
    unfolding set_doc_def using assms by (auto intro!: keeps_modify simp: doc_oks)
  moreover have "keeps in_range (fota_set_in_progress_timer c n True)" for n
    unfolding fota_set_in_progress_timer_def
    by (intro keeps_bind keeps_gets keeps_if keeps_return keeps_whenever)
      ((rule in_range_same, intro same_intro; simp) | (rule keeps_modify, simp add: doc_oks))+
  moreover have "keeps in_range (shadow_zone_changes c d [0..<NUM_ZONES] r)" for r
    by (rule zone_changes_range) (simp add: list_all_iff)
  moreover have "keeps in_range (call e x)" for e x
    by (intro in_range_same same_intro) simp
  ultimately show ?thesis
    unfolding apply_shadow_def by (intro keeps_bind keeps_gets keeps_if keeps_return)
qed

text \<open>
  Claim C18.  The document stays in range whatever the cloud sends: the periods from 10 to 65534 seconds,
  the telemetry factors from 1 to 100, the threshold up to 7, five zones with names of at most 32
  characters.  The content of the message, the conversions of numbers that C leaves undefined, the
  answers of the chips and the junk on the stack are arbitrary.
\<close>

theorem shadow_message_keeps_range:
  assumes "doc_ok (shadow_doc s)"
  shows "doc_ok (shadow_doc (after (handle_shadow_message c junk payload) s))"
proof -
  have io: "keeps (in_range :: 'a cm_state_scheme \<Rightarrow> bool) (write_shadow_doc c)"
    "keeps (in_range :: 'a cm_state_scheme \<Rightarrow> bool) (commMgr_queue_shadow c x)" for x
    by (rule in_range_same, intro same_intro)+
  have *: "in_range (after (apply_shadow c new) s)"
    if "json_parse_shadow_report (ub16 c) (ub32 c) json junk (shadow_doc s) = Inr (0, new)" for new json
    using parse_report_ok [OF assms that] assms by (intro keepsD [OF apply_shadow_range])
  show ?thesis
    using assms * io [THEN keepsD]
    by (auto simp: handle_shadow_message_def run Let_def split: sum.split prod.split)
qed

theorem shadow_message_keeps_range_witness:
  "doc_ok (shadow_doc (after (handle_shadow_message
     (cm_mute\<lparr>cJSON_Parse := \<lambda>_. Some (JObj [(''M'', JObj [(''S_Norm'', JNum 3)])])\<rparr>)
     shadow_doc_default ''{ 'M': { 'S_Norm': 3 } }'') (cm_boot world0)))"
  by (rule shadow_message_keeps_range) (simp add: doc_ok_default)

section \<open>The setter\<close>

text \<open>
  \<open>commMgr_set_vars\<close> refuses nothing, though its comment announces \<open>-EINVAL\<close> for a value out of
  range: it returns 0 and stores the lower 16 bits of every argument that is not 0, but \<open>Q\<close>, which no
  call changes.
\<close>

theorem set_vars_stores_anything:
  "let t = after (commMgr_set_vars c s1 s2 t1 t2 rc q save) s; d = shadow_doc s
   in result (commMgr_set_vars c s1 s2 t1 t2 rc q save) s = 0 \<and>
      shadow_doc t = d\<lparr>S_Norm := if s1 = 0 then S_Norm d else of_int s1,
        S_FMD := if s2 = 0 then S_FMD d else of_int s2, T_Norm := if t1 = 0 then T_Norm d else of_int t1,
        T_FMD := if t2 = 0 then T_FMD d else of_int t2, sd_Rec := if rc = 0 then sd_Rec d else of_int rc\<rparr>"
proof -
  have doc: "shadow_doc (after (write_shadow_doc c) u) = shadow_doc u"
    "shadow_doc (after (reset_S_timer b) u) = shadow_doc u" for b and u :: "'a cm_state_scheme"
    by (rule sameD, rule same_intro)+
  have none: "((x::int) < 10 \<and> 65534 < x) = False" "((x::int) < 1 \<and> 100 < x) = False"
    "((x::int) < 1 \<and> 65534 < x) = False" for x
    by arith+
  have old: "of_int (or_old v w) = (if v = 0 then w else of_int v)" for v and w :: "16 word"
    by (simp add: or_old_def)
  show ?thesis
    unfolding commMgr_set_vars_def Let_def none if_False
    by (simp add: run doc old)
qed

section \<open>The period of the telemetry\<close>

lemma hd_filter_least:
  assumes "P k" and "k < n"
  shows "P (hd (filter P [0..<n])) \<and> hd (filter P [0..<n]) \<le> k"
proof -
  have "k \<in> set (filter P [0..<n])" using assms by simp
  then obtain x xs where f: "filter P [0..<n] = x # xs" by (cases "filter P [0..<n]") auto
  moreover have "sorted (x # xs)" unfolding f [symmetric] by (simp add: sorted_wrt_filter)
  moreover have "P x" using f by (metis filter_eq_ConsD)
  moreover have "k \<in> set (x # xs)" using assms f [symmetric] by simp
  ultimately show ?thesis by auto
qed

lemma rne_exact: "0 < d \<Longrightarrow> rne (q * d) d = q"
  by (simp add: rne_def Let_def)

text \<open>The float quotient and the product are exact where the quotient is whole and the product has 24 bits.\<close>

lemma f32_exact:
  assumes "0 < b" and "0 < q" and "q * t < 2 ^ 24"
  shows "f32_mul_trunc (f32_div (q * b) b) t = q * t"
proof -
  define k where "k = hd (filter (\<lambda>k. 2 ^ 23 * b \<le> q * b * 2 ^ k) [0..<64])"
  have "2 ^ 23 * b \<le> q * b * 2 ^ 23" using assms by simp
  then have k: "k \<le> 23"
    using hd_filter_least [of "\<lambda>k. 2 ^ 23 * b \<le> q * b * 2 ^ k" 23 64] by (simp add: k_def)
  have m: "f32_div (q * b) b = (q * 2 ^ k, k)"
    using rne_exact [OF assms(1), of "q * 2 ^ k"]
    by (simp only: f32_div_def Let_def k_def [symmetric]) (simp add: mult_ac)
  define p where "p = q * 2 ^ k * t"
  define j where "j = hd (filter (\<lambda>j. p div 2 ^ j < 2 ^ 24) [0..<64])"
  have pk: "p = (q * t) * 2 ^ k" by (simp add: p_def)
  then have "j \<le> k"
    using hd_filter_least [of "\<lambda>j. p div 2 ^ j < 2 ^ 24" k 64] k assms(3) by (simp add: j_def)
  then obtain i where i: "k = j + i" using le_Suc_ex by blast
  have "rne p (2 ^ j) * 2 ^ j = p"
    using rne_exact [of "2 ^ j" "q * t * 2 ^ i"] unfolding pk i by (simp add: power_add mult_ac)
  moreover have "p div 2 ^ k = q * t" by (simp add: pk)
  ultimately show ?thesis
    by (simp only: f32_mul_trunc_def m Let_def fst_conv snd_conv p_def [symmetric] j_def [symmetric])
qed

text \<open>
  The manager works every \<open>gS_val\<close> seconds, a number that depends on the radio and on what
  is plugged in, and sends telemetry in every \<open>gT_val\<close>-th run.  Where \<open>gS_val\<close> divides the configured
  period the two together always make the configured telemetry period S * T, single precision
  notwithstanding.
\<close>

theorem telemetry_period_kept:
  assumes "t = after (calculate_S_and_T fmd) s"
    and "S = unat (if fmd then S_FMD (shadow_doc s) else S_Norm (shadow_doc s))"
    and "T = unat (if fmd then T_FMD (shadow_doc s) else T_Norm (shadow_doc s))"
    and "0 < gS_val t" and "gS_val t dvd int S" and "0 < S" and "0 < T" and "S * T < 2 ^ 24"
  shows "gS_val t * gT_val t = int S * int T"
proof -
  obtain b where b: "gS_val t = int b" "0 < b" using assms(4) by (metis zero_less_imp_eq_int)
  with assms(5) obtain q where q: "S = q * b" by (metis dvd_def int_dvd_int_iff mult.commute)
  have "q * T \<le> S * T" using b by (simp add: q)
  with assms(8) have qT: "q * T < 2 ^ 24" by linarith
  then have e: "f32_mul_trunc (f32_div S b) T = q * T"
    unfolding q using assms(6) b q qT by (intro f32_exact) auto
  have "gT_val t = scaled_T (int S) (gS_val t) (int T)"
    by (simp add: assms(1-3) calculate_S_and_T_def Let_def)
  also have "\<dots> = int q * int T"
    using assms(6,7) b by (simp add: scaled_T_def e)
  finally show ?thesis by (simp add: b q)
qed

theorem telemetry_period_kept_witness:
  "gS_val (after (calculate_S_and_T False) (cm_boot world0)) *
   gT_val (after (calculate_S_and_T False) (cm_boot world0)) = int 300 * int 1"
  by (rule telemetry_period_kept [where fmd = False and s = "cm_boot world0"])
    (simp_all add: shadow_doc_default_def calculate_S_and_T_def Let_def rm_get_active_mqtt_radio_def)

end
