(* ===== verification/ModeProps.thy ===== *)
theory ModeProps
  imports CommProps CommEvents
begin

text \<open>
  The topics and the time stamp of a sent message, the find-my-dog mode, the command that switches the
  periodic work, the firmware updates, and the remote functions.
\<close>

section \<open>Topics\<close>

lemma tokens_step:
  assumes "x \<noteq> []" and "sep \<notin> set x" and "rest = [] \<or> hd rest = sep"
  shows "tokens sep (x @ rest) = x # tokens sep rest"
proof -
  have "dropWhile (\<lambda>c. c = sep) (x @ rest) = x @ rest"
    using assms(1,2) by (cases x) auto
  moreover have "takeWhile (\<lambda>c. c \<noteq> sep) (x @ rest) = x" "dropWhile (\<lambda>c. c \<noteq> sep) (x @ rest) = rest"
    using assms(2,3) by (cases rest; auto simp: takeWhile_append dropWhile_append)+
  ultimately show ?thesis
    by (subst tokens.simps) (use assms(1) in \<open>simp add: Let_def\<close>)
qed

lemma tokens_sep: "tokens sep (sep # s) = tokens sep s"
  by (subst tokens.simps, subst (2) tokens.simps) simp

lemma no_slash_digits: "CHR ''/'' \<notin> set (show_nat n)"
  using show_nat_digits [of n] by (auto simp: isdigit_def)

lemma atoi_show_nat: "n < 2 ^ 31 \<Longrightarrow> atoi (show_nat n) = int n"
  using strtol10_digits [of "show_nat n" "[]"] show_nat_digits [of n] by (simp add: atoi_def)

lemma show_nat_length: "n < 10 ^ Suc k \<Longrightarrow> length (show_nat n) \<le> Suc k"
  by (induction k arbitrary: n) (simp add: show_nat.simps, subst show_nat.simps, auto)

lemma show_35: "show_nat 35 = ''35''"
  by code_simp

lemma tokens_topic:
  "tokens (CHR ''/'') (''messages/35/'' @ show_nat n @ CHR ''/'' # rest) =
     ''messages'' # ''35'' # show_nat n # tokens (CHR ''/'') rest"
proof -
  have "tokens (CHR ''/'') (''messages'' @ ''/'' @ ''35'' @ ''/'' @ show_nat n @ CHR ''/'' # rest) =
     ''messages'' # tokens (CHR ''/'') (''/'' @ ''35'' @ ''/'' @ show_nat n @ CHR ''/'' # rest)"
    by (rule tokens_step) simp_all
  also have "tokens (CHR ''/'') (''/'' @ ''35'' @ ''/'' @ show_nat n @ CHR ''/'' # rest) =
     tokens (CHR ''/'') (''35'' @ ''/'' @ show_nat n @ CHR ''/'' # rest)"
    by (simp only: append.simps tokens_sep)
  also have "\<dots> = ''35'' # tokens (CHR ''/'') (''/'' @ show_nat n @ CHR ''/'' # rest)"
    by (rule tokens_step) simp_all
  also have "tokens (CHR ''/'') (''/'' @ show_nat n @ CHR ''/'' # rest) =
     tokens (CHR ''/'') (show_nat n @ CHR ''/'' # rest)"
    by (simp only: append.simps tokens_sep)
  also have "\<dots> = show_nat n # tokens (CHR ''/'') (CHR ''/'' # rest)"
    by (rule tokens_step) (simp_all add: no_slash_digits)
  finally show ?thesis by (simp add: tokens_sep)
qed

text \<open>
  Over Wi-Fi the message type is read back from the text of the topic; whatever the machine
  id is, though the topic is cut off at 42 characters, the type is the one the message was queued with.
\<close>

theorem topic_type_roundtrip:
  "topic_type (take (CONFIG_IOT_MAX_TOPIC_LENGTH - 1) (d2c_topic mid n)) = uint n"
proof -
  have n: "unat n < 1000" by (rule less_trans [OF unsigned_less]) simp
  have d: "d2c_topic mid n = (''messages/35/'' @ show_nat (unat n) @ ''/'') @ (''35_'' @ mid @ ''/d2c'')"
    by (simp add: d2c_topic_def show_35)
  have "take 42 (d2c_topic mid n) = ''messages/35/'' @ show_nat (unat n) @ CHR ''/'' #
      take (29 - length (show_nat (unat n))) (''35_'' @ mid @ ''/d2c'')"
    using show_nat_length [of "unat n" 2] n unfolding d take_append by simp
  then have "topic_type (take 42 (d2c_topic mid n)) = atoi (show_nat (unat n))"
    by (simp only: topic_type_def tokens_topic) simp
  also have "\<dots> = uint n" using n by (simp add: atoi_show_nat)
  finally show ?thesis by simp
qed

section \<open>The time stamp\<close>

lemma show_nat_Suc: "10 \<le> n \<Longrightarrow> show_nat n = show_nat (n div 10) @ [digit n]"
  by (subst show_nat.simps) simp

lemma show_nat_length_ge: "10 ^ k \<le> n \<Longrightarrow> Suc k \<le> length (show_nat n)"
proof (induction k arbitrary: n)
  case (Suc k)
  then have "10 ^ k \<le> n div 10" by (simp add: less_eq_div_iff_mult_less_eq)
  moreover have "10 \<le> n" using Suc.prems order_trans [of 10 "10 ^ Suc k" n] by simp
  ultimately show ?case using Suc.IH by (simp add: show_nat_Suc)
qed (simp add: Suc_leI)

lemma strstr_bound: "strstr s p = Some i \<Longrightarrow> i \<le> length s"
proof (induction s arbitrary: i)
  case Nil
  then show ?case by (simp split: if_splits)
next
  case (Cons x xs)
  then show ?case by (auto split: if_splits)
qed

text \<open>
  The stamp of the sending time overwrites nine digits only (\<open>snprintf\<close> into ten bytes keeps
  nine), so of a time of ten digits, any from the year 2001 to 2286, the last digit is the placeholder's:
  the cloud reads the time of day up to nine seconds wrong.
\<close>

theorem sent_at_wrong_digit:
  assumes "10 ^ 9 \<le> now" and "now < 10 ^ 10"
    and "strstr msg (CHR 0x22 # ''SENT_AT'' @ [CHR 0x22, CHR '':'']) = Some p"
    and "take 10 (drop (p + 10) msg) = ds @ [digit k]" and "length ds = 9"
  shows "digits_val (take 10 (drop (p + 10) (stamp_sent_at now msg))) = 10 * (now div 10) + k mod 10"
proof -
  have "length (show_nat now) = 10"
    using show_nat_length [of now 9] show_nat_length_ge [of 9 now] assms(1,2) by simp
  then have l: "length (show_nat (now div 10)) = 9" and sn: "take 9 (show_nat now) = show_nat (now div 10)"
    using assms(1) show_nat_Suc [of now] by simp_all
  have long: "p + 20 \<le> length msg"
    using arg_cong [OF assms(4), of length] assms(5) by simp
  then have "drop (p + 10) (stamp_sent_at now msg) = show_nat (now div 10) @ drop (p + 19) msg"
    unfolding stamp_sent_at_def assms(3) by (simp add: Let_def sn l add.commute)
  moreover have "take 1 (drop (p + 19) msg) = [digit k]"
  proof -
    have "drop 9 (take 10 (drop (p + 10) msg)) = take 1 (drop (p + 19) msg)"
      by (simp add: drop_take add.commute)
    then show ?thesis by (simp add: assms(4,5))
  qed
  ultimately have "take 10 (drop (p + 10) (stamp_sent_at now msg)) = show_nat (now div 10) @ [digit k]"
    by (simp add: l)
  then show ?thesis by (simp add: digits_val_snoc)
qed

theorem sent_at_wrong_digit_witness:
  "digits_val (take 10 (drop (0 + 10) (stamp_sent_at 1731000000
     (CHR 0x22 # ''SENT_AT'' @ [CHR 0x22, CHR '':''] @ ''1919191919'')))) = 1731000009"
  by (rule sent_at_wrong_digit [where ds = "''191919191''" and k = 9, THEN trans])
    (simp_all add: digit_def, code_simp)

section \<open>Switching the periodic work on and off\<close>

text \<open>
  The shell command works the other way round: the argument \<open>on\<close> switches both kinds of
  periodic work off, and every other argument, \<open>off\<close> among them, switches both on.
\<close>

theorem cm_enable_inverted:
  "after (do_cm_enable [arg]) s =
     s\<lparr>g_comm_mgr_disable_S_work := (arg = ''on''), g_comm_mgr_disable_Q_work := (arg = ''on'')\<rparr>"
proof -
  have "take (Suc 0) arg \<noteq> ''1'' \<and> arg = ''on'' \<longleftrightarrow> arg = ''on''" by auto
  then show ?thesis
    by (simp add: do_cm_enable_def commMgr_enable_S_work_def commMgr_enable_Q_work_def Let_def)
qed

section \<open>Firmware updates\<close>

lemma boot_modes: "\<not> g_9160_fota_in_progress (cm_boot w)" "srf_nonce (cm_boot w) = 0"
  by (simp_all add: cm_boot_def rm_boot_def rm_state.defs cm_state.defs)


text \<open>
  The start of a firmware update of the modem takes no reference to the Wi-Fi chip, yet its end
  gives one back: the reference that another user of the chip holds is gone afterwards.
\<close>

theorem lte_fota_drops_reference:
  assumes "\<not> g_9160_fota_in_progress s" and "counts_ok (prep_ref_cnt s)"
    and "sint (prep_ref_cnt s (radio_idx COMM_DEVICE_DA16200)) = n" and "0 < n"
  shows "sint (prep_ref_cnt (after (commMgr_fota_end c COMM_DEVICE_NRF9160)
      (after (commMgr_fota_start c COMM_DEVICE_NRF9160) s)) (radio_idx COMM_DEVICE_DA16200)) = n - 1"
proof -
  have start: "g_9160_fota_in_progress (after (commMgr_fota_start c COMM_DEVICE_NRF9160) s)"
    "prep_ref_cnt (after (commMgr_fota_start c COMM_DEVICE_NRF9160) s) = prep_ref_cnt s"
    using assms(1) by (simp_all add: commMgr_fota_start_def run)
  have "sint (prep_ref_cnt s (radio_idx COMM_DEVICE_DA16200) - 1) = n - 1"
    using assms(3,4) sint_minus_1 [of "prep_ref_cnt s (radio_idx COMM_DEVICE_DA16200)"] by simp
  then show ?thesis
    using start assms(3,4) by (simp add: commMgr_fota_end_def fota_over_def run done_counts)
qed

theorem lte_fota_drops_reference_witness:
  "sint (prep_ref_cnt (after (commMgr_fota_end cm_mute COMM_DEVICE_NRF9160)
     (after (commMgr_fota_start cm_mute COMM_DEVICE_NRF9160)
       ((cm_boot world0)\<lparr>prep_ref_cnt := \<lambda>i. 1\<rparr>))) (radio_idx COMM_DEVICE_DA16200)) = 1 - 1"
  by (rule lte_fota_drops_reference) (simp_all add: counts_ok_def boot_modes)

section \<open>Remote functions\<close>

lemma strchr_split: "strchr s x = Some i \<Longrightarrow> s = take i s @ x # drop (Suc i) s"
  by (auto simp: strchr_some id_take_nth_drop [symmetric])

lemma srf_accepted_True:
  assumes "srf_accepted c nonce now d = Inr True"
  shows "srf_n d = nonce \<and> (\<exists>brand. srf_aud d = brand @ CHR ''_'' # machine_id c) \<and> of_nat now \<le> srf_exp d"
  using assms strchr_split [of "srf_aud d" "CHR ''_''"]
  by (auto simp: srf_accepted_def split: option.splits if_splits)


text \<open>A command for the collar 123 in the parts of a message; the decoder leaves the text as it is.\<close>

definition plain_base64 :: "nat \<Rightarrow> string \<Rightarrow> int \<times> nat option \<times> string" where
  "plain_base64 n s = (0, Some (length s), s)"

definition noop_tree :: cjson where
  "noop_tree = JObj [(''rid'', JStr ''r1''), (''exp'', JNum 100), (''n'', JNum 7), (''aud'', JStr ''35_123''),
     (''fpar'', JObj [(''params'', JObj [(''cmd'', JStr ''noop'')])])]"

definition srf_junk :: srf_data where
  "srf_junk = \<lparr>srf_command = 0, srf_rid = [], srf_sub = [], srf_exp = 0, srf_iss = [], srf_n = 0,
     srf_aud = [], srf_iat = 0, param1 = [], param2 = [], param3 = [], param4 = []\<rparr>"

definition srf_env :: cm_env where
  "srf_env = cm_mute\<lparr>machine_id := ''123'', base64_decode := plain_base64, cJSON_Parse := \<lambda>_. Some noop_tree,
     json_text := \<lambda>_ _. Some ''{}'', heap_fits := \<lambda>_ _. True\<rparr>"

lemma noop_parsed:
  "json_parse_srf ub (Some noop_tree) srf_junk =
     Inr (srf_junk\<lparr>srf_rid := ''r1'', srf_exp := 100, srf_n := 7, srf_aud := ''35_123'', srf_command := 7\<rparr>)"
  by (simp add: json_parse_srf_def noop_tree_def srf_bind_def srf_string_def srf_number_def srf_cmd_def
      srf_param_def srf_lookup_def srf_command_strings_def tolower_def to_unsigned_def cut_def srf_junk_def
      upt_rec)

lemma noop_payload: "srf_payload srf_env True ''h.p.s'' = Inr (Some ''p0}'')"
  by (simp add: srf_payload_def srf_env_def plain_base64_def Let_def)

definition srf_collar :: cm_state where
  "srf_collar = (cm_boot world0)\<lparr>srf_nonce := 7\<rparr>"

definition noop_message :: cjson where
  "noop_message = JObj [(''SM'', JStr ''h.p.s'')]"

lemma noop_done:
  "after (handle_srf_func_message srf_env srf_junk True noop_message) srf_collar =
     after (srf_execute srf_env (srf_junk\<lparr>srf_rid := ''r1'', srf_exp := 100, srf_n := 7, srf_aud := ''35_123'',
       srf_command := 7\<rparr>)) srf_collar"
proof -
  have "cJSON_GetObjectItem noop_message ''SM'' = Some (JStr ''h.p.s'')"
    by (simp add: noop_message_def)
  moreover have "cJSON_Parse srf_env t = Some noop_tree" "machine_id srf_env = ''123''" for t
    by (simp_all add: srf_env_def)
  moreover have "utc_time (wld srf_collar) = 0" "srf_nonce srf_collar = 7"
    by (simp_all add: srf_collar_def world0_def)
  ultimately show ?thesis
    by (simp add: handle_srf_func_message_def noop_payload noop_parsed run srf_accepted_def)
qed

lemma noop_answered: "mqttq (after (handle_srf_func_message srf_env srf_junk True noop_message) srf_collar) \<noteq> []"
  unfolding noop_done
  by (simp add: srf_execute_def srf_junk_def run queue_srf_response_def queue_req_def queue_json_def
      commMgr_queue_mqtt_message_def k_heap_alloc_def k_msgq_put_def srf_env_def srf_collar_def)


lemma nonce_apart [simp]: "apart srf_nonce" "of_private srf_nonce"
  by (simp_all add: apart_def of_private_def)

lemma nonce_queue [same_intro]: "same srf_nonce (commMgr_queue_mqtt_message c b l t q p)"
  unfolding commMgr_queue_mqtt_message_def k_heap_alloc_def k_msgq_put_def k_heap_free_def
  by (intro same_intro same_modify; simp)

lemma nonce_answer [same_intro]: "same srf_nonce (queue_srf_response c r e m)"
  unfolding queue_srf_response_def queue_req_def queue_json_def by (intro same_intro; simp)

lemma nonce_execute: "same srf_nonce (srf_execute c d)"
  unfolding srf_execute_def srf_factory_reset_def queue_WMD_work_def
  by (intro same_intro same_modify; simp)

text \<open>
  A remote function does not use up its nonce: none of the commands changes it, so the text of
  a command that was accepted once is accepted as often as it comes until it expires.
\<close>

theorem remote_function_replay:
  assumes "json_parse_srf (ub64 c) (cJSON_Parse c body) junk = Inr d"
    and "cJSON_GetObjectItem m ''SM'' = Some (JStr sm)" and "srf_payload c mem sm = Inr (Some body)"
    and "result (handle_srf_func_message c junk mem m) s = Inr 0"
    and "t = after (handle_srf_func_message c junk mem m) s"
    and "of_nat (utc_time (wld t)) \<le> srf_exp d"
  shows "after (handle_srf_func_message c junk mem m) t = after (srf_execute c d) t"
proof -
  have "srf_accepted c (srf_nonce s) (utc_time (wld s)) d = Inr True"
    using assms(4) by (auto simp: handle_srf_func_message_def assms(1-3) run split: sum.splits bool.splits)
  moreover from this have "t = after (srf_execute c d) s"
    using assms(5) by (simp add: handle_srf_func_message_def assms(1-3) run)
  then have "srf_nonce t = srf_nonce s" using sameD [OF nonce_execute] by simp
  ultimately have "srf_accepted c (srf_nonce t) (utc_time (wld t)) d = Inr True"
    using assms(6) by (auto simp: srf_accepted_def split: option.splits if_splits)
  then show ?thesis by (simp add: handle_srf_func_message_def assms(1-3) run)
qed

theorem remote_function_replay_witness:
  "\<exists>d. after (handle_srf_func_message srf_env srf_junk True noop_message)
     (after (handle_srf_func_message srf_env srf_junk True noop_message) srf_collar) =
   after (srf_execute srf_env d) (after (handle_srf_func_message srf_env srf_junk True noop_message) srf_collar)"
proof -
  have p: "json_parse_srf (ub64 srf_env) (cJSON_Parse srf_env ''p0}'') srf_junk =
      Inr (srf_junk\<lparr>srf_rid := ''r1'', srf_exp := 100, srf_n := 7, srf_aud := ''35_123'', srf_command := 7\<rparr>)"
    by (simp add: srf_env_def noop_parsed)
  have w: "utc_time (wld (after (handle_srf_func_message srf_env srf_junk True noop_message) srf_collar)) = 0"
    unfolding noop_done
    by (simp add: srf_execute_def srf_junk_def run queue_srf_response_def queue_req_def queue_json_def
        commMgr_queue_mqtt_message_def k_heap_alloc_def k_msgq_put_def srf_env_def srf_collar_def world0_def)
  have r: "result (handle_srf_func_message srf_env srf_junk True noop_message) srf_collar = Inr 0"
    by (simp add: handle_srf_func_message_def noop_message_def noop_payload p run srf_accepted_def)
      (simp add: srf_env_def srf_collar_def world0_def)
  show ?thesis
    by (rule exI, rule remote_function_replay [OF p _ noop_payload r refl])
      (simp add: noop_message_def, simp add: w)
qed

text \<open>
  A command whose name is unknown is not refused: the number of the command stays what the
  stack held, and the command of that number is executed.
\<close>

theorem unknown_command_runs_junk:
  assumes "cJSON_GetObjectItem params ''cmd'' = Some (JStr name)" and "srf_lookup (take 64 name) = None"
    and "srf_cmd params d = Inr d'"
  shows "srf_command d' = srf_command d"
proof -
  have p: "srf_command d' = srf_command d" if "srf_param q k upd d = Inr d'"
    and "\<And>f d. srf_command (upd f d) = srf_command d" for q k upd d d'
    using that by (auto simp: srf_param_def split: option.splits cjson.splits if_splits)
  have b: "srf_bind x f = Inr y \<longleftrightarrow> (\<exists>d. x = Inr d \<and> f d = Inr y)" for x f y
    by (simp add: srf_bind_def split: sum.split)
  from assms show ?thesis
    by (auto simp: srf_cmd_def b Let_def dest!: p)
qed

theorem unknown_command_runs_junk_witness:
  "\<exists>d'. srf_cmd (JObj [(''cmd'', JStr ''dance'')]) (srf_junk\<lparr>srf_command := SRF_COMMAND_FACTORY_RESET\<rparr>) = Inr d' \<and>
     srf_command d' = srf_command (srf_junk\<lparr>srf_command := SRF_COMMAND_FACTORY_RESET\<rparr>)"
proof (intro exI conjI)
  let ?d = "srf_junk\<lparr>srf_command := SRF_COMMAND_FACTORY_RESET\<rparr>"
  show d: "srf_cmd (JObj [(''cmd'', JStr ''dance'')]) ?d = Inr ?d"
    by (simp add: srf_cmd_def srf_bind_def srf_param_def srf_lookup_def srf_command_strings_def upt_rec tolower_def)
  show "srf_command ?d = srf_command ?d"
    by (rule unknown_command_runs_junk [OF _ _ d, where name = "''dance''"])
      (simp_all add: srf_lookup_def srf_command_strings_def upt_rec)
qed

end
