(* ===== verification/Uicr.thy ===== *)
theory Uicr
  imports CStrings
begin

text \<open>
  The factory data of the collar, \<^verbatim>\<open>c_modules/uicr/src/uicr.c\<close>: serial number, hardware addresses, test
  flags, tuning value and the shipping state in the user information configuration registers.  The
  structure of 96 bytes is the list of the 24 words by which the code also addresses it; the offsets
  of its members are named.  Flash is written through the hardware library, which is a parameter: what
  a word or half word holds after a value has been written over another.
\<close>

record nvmc =
  nrfx_nvmc_word_write :: "32 word \<Rightarrow> 32 word \<Rightarrow> 32 word"
  nrfx_nvmc_halfword_write :: "16 word \<Rightarrow> 16 word \<Rightarrow> 16 word"

record uicr =
  u_words :: "32 word list"
  serial_override :: string
  u_approtect :: "32 word"

abbreviation EROFS :: int where "EROFS \<equiv> 30"

definition UICR_WORDS :: nat where "UICR_WORDS = 24"
definition U_VERSION :: nat where "U_VERSION = 0"
definition U_SERIAL :: nat where "U_SERIAL = 1"
definition U_BLE_MAC :: nat where "U_BLE_MAC = 4"
definition U_WIFI_MAC :: nat where "U_WIFI_MAC = 7"
definition U_TEST_FLAG :: nat where "U_TEST_FLAG = 10"
definition U_TUNING :: nat where "U_TUNING = 16"
definition U_SHIPPING :: nat where "U_SHIPPING = 17"
definition U_IN_FACTORY :: nat where "U_IN_FACTORY = 18"
definition NUM_TEST_SLOTS :: nat where "NUM_TEST_SLOTS = 12"

definition ERASED :: "32 word" where "ERASED = 0xFFFFFFFF"
definition MY_UICR_SCHEMA_VERSION :: "32 word" where "MY_UICR_SCHEMA_VERSION = 0xBEEF0004"
definition MAGIC_SHIPPED_SIGNATURE :: "32 word" where "MAGIC_SHIPPED_SIGNATURE = 0xDEADBEEF"
definition MAGIC_IN_FACTORY_SIGNATURE :: "32 word" where "MAGIC_IN_FACTORY_SIGNATURE = 0xDEADFFFF"

section \<open>Words and characters\<close>

text \<open>The four characters of a word, and the word at a pointer to four characters.\<close>

definition word_chars :: "32 word \<Rightarrow> string" where
  "word_chars w = map (\<lambda>k. char_of (unat (drop_bit (8 * k) w AND 0xFF))) [0, 1, 2, 3]"

definition chars_word :: "string \<Rightarrow> 32 word" where
  "chars_word s = word_of_nat (foldr (\<lambda>c n. of_char c + 256 * n) (take 4 s) 0)"

definition chars_at :: "nat \<Rightarrow> uicr \<Rightarrow> string" where
  "chars_at k u = concat (map word_chars (take 3 (drop k (u_words u))))"

definition word_write :: "nvmc \<Rightarrow> nat \<Rightarrow> 32 word \<Rightarrow> uicr \<Rightarrow> uicr" where
  "word_write h k v u = u\<lparr>u_words := (u_words u)[k := nrfx_nvmc_word_write h (u_words u ! k) v]\<rparr>"

definition write_chars :: "nvmc \<Rightarrow> nat \<Rightarrow> string \<Rightarrow> uicr \<Rightarrow> uicr" where
  "write_chars h k s u =
     word_write h (k + 2) (chars_word (drop 8 s))
       (word_write h (k + 1) (chars_word (drop 4 s))
         (word_write h k (chars_word s) u))"

text \<open>The test that refuses a second write: all three words must differ from the erased one.\<close>

definition all_set :: "nat \<Rightarrow> uicr \<Rightarrow> bool" where
  "all_set k u \<longleftrightarrow> u_words u ! k \<noteq> ERASED \<and> u_words u ! (k + 1) \<noteq> ERASED \<and> u_words u ! (k + 2) \<noteq> ERASED"

section \<open>Serial number and addresses\<close>

definition uicr_serial_number_set_override :: "string \<Rightarrow> uicr \<Rightarrow> uicr" where
  "uicr_serial_number_set_override serial u = u\<lparr>serial_override := take 12 serial\<rparr>"

definition c_string :: "string \<Rightarrow> string" where
  "c_string s = takeWhile (\<lambda>c. c \<noteq> CHR 0x00) s"

definition uicr_serial_number_get :: "uicr \<Rightarrow> string" where
  "uicr_serial_number_get u =
     (if serial_override u \<noteq> [] then serial_override u else c_string (chars_at U_SERIAL u))"

definition uicr_ble_mac_address_get :: "uicr \<Rightarrow> string" where
  "uicr_ble_mac_address_get u = c_string (chars_at U_BLE_MAC u)"

definition uicr_wifi_mac_address_get :: "uicr \<Rightarrow> string" where
  "uicr_wifi_mac_address_get u = c_string (chars_at U_WIFI_MAC u)"

definition uicr_serial_number_set :: "nvmc \<Rightarrow> string \<Rightarrow> uicr \<Rightarrow> int \<times> uicr" where
  "uicr_serial_number_set h s u =
     (if take 2 s \<noteq> ''DT'' then (- EROFS, u)
      else if length s \<noteq> 12 then (- EROFS, u)
      else if all_set U_SERIAL u then (- EROFS, u)
      else (0, write_chars h U_SERIAL s u))"

definition is_xdigit :: "char \<Rightarrow> bool" where
  "is_xdigit c \<longleftrightarrow>
     (let n = of_char c :: nat in 48 \<le> n \<and> n \<le> 57 \<or> 97 \<le> n \<and> n \<le> 102 \<or> 65 \<le> n \<and> n \<le> 70)"

text \<open>The two setters of an address differ in the member only.\<close>

definition mac_address_set :: "nat \<Rightarrow> nvmc \<Rightarrow> string \<Rightarrow> uicr \<Rightarrow> int \<times> uicr" where
  "mac_address_set k h s u =
     (if all_set k u then (- EROFS, u)
      else if length s \<noteq> 12 then (- EROFS, u)
      else if \<not> list_all is_xdigit s then (- EROFS, u)
      else (0, write_chars h k s u))"

definition uicr_ble_mac_address_set :: "nvmc \<Rightarrow> string \<Rightarrow> uicr \<Rightarrow> int \<times> uicr" where
  "uicr_ble_mac_address_set = mac_address_set U_BLE_MAC"

definition uicr_wifi_mac_address_set :: "nvmc \<Rightarrow> string \<Rightarrow> uicr \<Rightarrow> int \<times> uicr" where
  "uicr_wifi_mac_address_set = mac_address_set U_WIFI_MAC"

section \<open>Version, tuning value and flags\<close>

definition uicr_version_get :: "uicr \<Rightarrow> 32 word" where
  "uicr_version_get u = u_words u ! U_VERSION"

definition uicr_version_init :: "nvmc \<Rightarrow> uicr \<Rightarrow> int \<times> uicr" where
  "uicr_version_init h u =
     (0, if u_words u ! U_VERSION = ERASED then word_write h U_VERSION MY_UICR_SCHEMA_VERSION u else u)"

definition uicr_wifi_tuning_value_get :: "uicr \<Rightarrow> 32 word" where
  "uicr_wifi_tuning_value_get u = u_words u ! U_TUNING"

definition uicr_wifi_tuning_value_set :: "nvmc \<Rightarrow> 32 word \<Rightarrow> uicr \<Rightarrow> int \<times> uicr" where
  "uicr_wifi_tuning_value_set h v u =
     (if v > 128 then (- EROFS, u)
      else if u_words u ! U_TUNING \<noteq> ERASED then (- EROFS, u)
      else (0, word_write h U_TUNING v u))"

definition uicr_shipping_flag_get :: "uicr \<Rightarrow> bool" where
  "uicr_shipping_flag_get u \<longleftrightarrow>
     (u_words u ! U_VERSION AND 0x0000FFFF < 4 \<or> u_words u ! U_SHIPPING = MAGIC_SHIPPED_SIGNATURE)"

definition uicr_in_factory_flag_get :: "uicr \<Rightarrow> bool" where
  "uicr_in_factory_flag_get u \<longleftrightarrow>
     u_words u ! U_SHIPPING \<noteq> MAGIC_SHIPPED_SIGNATURE \<and> u_words u ! U_IN_FACTORY = MAGIC_IN_FACTORY_SIGNATURE"

definition uicr_in_factory_flag_set :: "nvmc \<Rightarrow> uicr \<Rightarrow> int \<times> uicr" where
  "uicr_in_factory_flag_set h u =
     (let fflag = u_words u ! U_IN_FACTORY in
      if fflag = MAGIC_IN_FACTORY_SIGNATURE then (0, u)
      else if fflag \<noteq> ERASED then (- EROFS, u)
      else (0, word_write h U_IN_FACTORY MAGIC_IN_FACTORY_SIGNATURE u))"

definition uicr_shipping_flag_set :: "nvmc \<Rightarrow> uicr \<Rightarrow> int \<times> uicr" where
  "uicr_shipping_flag_set h u =
     (let u = snd (uicr_in_factory_flag_set h u); sflag = u_words u ! U_SHIPPING in
      if sflag = MAGIC_SHIPPED_SIGNATURE then (0, u)
      else if sflag \<noteq> ERASED then (- EROFS, u)
      else (0, word_write h U_SHIPPING MAGIC_SHIPPED_SIGNATURE u))"

definition uicr_approtect_get :: "uicr \<Rightarrow> int" where
  "uicr_approtect_get u = sint (u_approtect u)"

definition uicr_approtect_set :: "nvmc \<Rightarrow> uicr \<Rightarrow> int \<times> uicr" where
  "uicr_approtect_set h u = (0, u\<lparr>u_approtect := nrfx_nvmc_word_write h (u_approtect u) 0\<rparr>)"

section \<open>Test flags\<close>

text \<open>Half words in the words, the lower one first.\<close>

definition half_read :: "nat \<Rightarrow> uicr \<Rightarrow> 16 word" where
  "half_read i u = ucast (drop_bit (16 * (i mod 2)) (u_words u ! (U_TEST_FLAG + i div 2)))"

definition half_write :: "nvmc \<Rightarrow> nat \<Rightarrow> 16 word \<Rightarrow> uicr \<Rightarrow> uicr" where
  "half_write h i v u =
     (let k = U_TEST_FLAG + i div 2; w = u_words u ! k;
          v = nrfx_nvmc_halfword_write h (half_read i u) v
      in u\<lparr>u_words := (u_words u)[k :=
           (if i mod 2 = 0 then word_cat (ucast (drop_bit 16 w) :: 16 word) v
            else word_cat v (ucast w :: 16 word))]\<rparr>)"

text \<open>The loop over the slots: the first that is erased, or \<open>NUM_TEST_SLOTS\<close>.\<close>

definition empty_slot :: "uicr \<Rightarrow> nat" where
  "empty_slot u = length (takeWhile (\<lambda>i. half_read i u \<noteq> 0xFFFF) [0..<NUM_TEST_SLOTS])"

definition uicr_test_flag_set :: "nvmc \<Rightarrow> 16 word \<Rightarrow> uicr \<Rightarrow> int \<times> uicr" where
  "uicr_test_flag_set h v u =
     (let i = empty_slot u in
      if i = NUM_TEST_SLOTS then (- EROFS, u) else (0, half_write h i v u))"

text \<open>The error code is returned as an unsigned half word.\<close>

definition uicr_test_flag_get :: "uicr \<Rightarrow> 16 word" where
  "uicr_test_flag_get u =
     (let i = empty_slot u in if i = 0 then word_of_int (- EROFS) else half_read (i - 1) u)"

section \<open>Backup\<close>

definition uicr_export :: "uicr \<Rightarrow> 32 word list" where
  "uicr_export u = take UICR_WORDS (u_words u)"

text \<open>
  The loop from word \<open>i\<close> on.  A word that differs is written when it is erased; otherwise the loop
  returns, with the words before it already written.
\<close>

fun cmp_restore :: "nvmc \<Rightarrow> 32 word list \<Rightarrow> nat \<Rightarrow> int \<Rightarrow> uicr \<Rightarrow> int \<times> uicr" where
  "cmp_restore h [] i changed u = (changed, u)"
| "cmp_restore h (b # bs) i changed u =
     (if u_words u ! i = b then cmp_restore h bs (i + 1) changed u
      else if u_words u ! i = ERASED \<and> b \<noteq> ERASED
      then cmp_restore h bs (i + 1) 1 (word_write h i b u)
      else (- EINVAL, u))"

definition uicr_backup_cmp_restore :: "nvmc \<Rightarrow> 32 word list \<Rightarrow> uicr \<Rightarrow> int \<times> uicr" where
  "uicr_backup_cmp_restore h backup u = cmp_restore h (take UICR_WORDS backup) 0 0 u"

text \<open>The arrays are indexed also behind the end of the string.\<close>

definition uicr_verify :: "uicr \<Rightarrow> int" where
  "uicr_verify u =
     (let ble = chars_at U_BLE_MAC u; wifi = chars_at U_WIFI_MAC u; sn = uicr_serial_number_get u;
          purina = (\<lambda>m. (m ! 0 = CHR ''b'' \<or> m ! 0 = CHR ''B'') \<and> (m ! 1 = CHR ''c'' \<or> m ! 1 = CHR ''C'') \<and>
            take 4 (drop 2 m) = ''0866'')
      in if (int (of_char (wifi ! 0)) - 48) mod 2 \<noteq> 0 then -1
         else if \<not> purina wifi \<or> \<not> purina ble then -1
         else if length sn < 12 \<or> take 2 sn \<noteq> ''DT'' then -1
         else if u_words u ! U_TUNING = ERASED then -1
         else 0)"

section \<open>Shell commands that write\<close>

definition sn_write_test :: "nvmc \<Rightarrow> uicr \<Rightarrow> uicr" where
  "sn_write_test h u = fold (\<lambda>s u. snd (uicr_serial_number_set h s u))
     [''TD1AM640000E'', ''DT1AM64000'', ''DT1AM6400000M'', ''DT1AM640000E''] u"

definition ble_mac_write_test :: "nvmc \<Rightarrow> uicr \<Rightarrow> uicr" where
  "ble_mac_write_test h u = snd (uicr_ble_mac_address_set h ''112233445566'' u)"

definition wifi_mac_write_test :: "nvmc \<Rightarrow> uicr \<Rightarrow> uicr" where
  "wifi_mac_write_test h u = snd (uicr_wifi_mac_address_set h ''ABCDEF123456'' u)"

definition uicr_tune_write_handler :: "nvmc \<Rightarrow> uicr \<Rightarrow> uicr" where
  "uicr_tune_write_handler h u = snd (uicr_wifi_tuning_value_set h 55 u)"

definition test_flag_test_handler :: "nvmc \<Rightarrow> uicr \<Rightarrow> uicr" where
  "test_flag_test_handler h u =
     fold (\<lambda>i u. snd (uicr_test_flag_set h (word_of_nat (i * 11)) u)) [0..<NUM_TEST_SLOTS] u"

text \<open>A collar whose factory data was never written.\<close>

definition blank :: uicr where
  "blank = \<lparr>u_words = replicate UICR_WORDS ERASED, serial_override = [], u_approtect = ERASED\<rparr>"

end
