(* ===== verification/WifiSpi.thy ===== *)
theory WifiSpi
  imports Platform CStrings Uicr
begin

text \<open>
  The state behind the Wi-Fi chip DA16200: the bus and its message queue
  (\<^verbatim>\<open>commercial_collar/src/wifi/src/wifi_spi.c\<close> and \<^verbatim>\<open>wifi.c\<close>) and the network manager
  (\<^verbatim>\<open>net_mgr.c\<close>).  The uptime, the part of \<open>da_state\<close> the radio manager reads and the saved access
  points are those of the \<open>world\<close> of the radio manager; the rest of \<open>da_state\<close> is \<open>da_more\<close>.
  Messages carry a pointer into an explicit heap, because copies of a message share its block.
  What the chip answers, whether memory is left and whether another thread holds the mutex is the
  environment \<open>wenv\<close>.
\<close>

section \<open>Messages and their blocks\<close>

text \<open>The pointer of a message: a block of the heap, memory of the sender, or \<open>NULL\<close>.\<close>

datatype data_ptr = Block nat | Local string | Null

record wifi_msg =
  m_time :: nat
  m_ref :: int
  m_incoming :: bool
  m_len :: nat
  m_data :: data_ptr

text \<open>
  What the chip offers when it raises its data line: the response header, \<open>None\<close> when the transfer
  fails, and the bytes found at the address of the header, \<open>None\<close> when that transfer fails.
\<close>

record da_rsp =
  rsp_addr :: "32 word"
  rsp_length :: "16 word"
  rsp_code :: "8 word"

record da_reply =
  r_header :: "da_rsp option"
  r_body :: "string option"

section \<open>The shadow of the chip and the events about it\<close>

text \<open>\<open>das_bu_status_t\<close> and \<open>da_ota_progress_t\<close> are integers: the latter also holds percentages.\<close>

record da_more =
  initialized :: das_tri_state
  mqtt_last_msg_time :: nat
  mqtt_certs_installed :: das_tri_state
  mqtt_client_id :: string
  mqtt_sub_topic_count :: int
  mqtt_sub_topics :: "string list"
  ntp_server_set :: das_tri_state
  dhcp_client_name_set :: das_tri_state
  dhcp_client_name :: string
  last_cmd :: string
  uicr_bu_status :: int
  uicr_bu :: "32 word list"
  mac_set :: das_tri_state
  xtal_set :: das_tri_state
  ota_progress :: int
  reboot_cnt :: int
  da_version :: "8 word list"
  ap_profile_disabled :: das_tri_state
  rtc_wake_time :: nat

datatype ev_value =
  EvTri das_tri_state | EvInt int | EvBu int | EvOta int | EvVer "8 word list" | EvTime nat | EvNone

record da_event =
  ev_bit :: nat
  ev_time :: nat
  ev_old :: ev_value
  ev_new :: ev_value

definition DA_STATE_INIT :: da_state where
  "DA_STATE_INIT = \<lparr>ap_connected = DA_STATE_KNOWN_FALSE, ap_safe = DA_STATE_KNOWN_FALSE,
     ap_disconnect_reason = [], ap_name = [], ip_address = [], dpm_mode = DA_STATE_UNKNOWN,
     is_sleeping = DA_STATE_UNKNOWN, mqtt_enabled = DA_STATE_UNKNOWN,
     mqtt_broker_connected = DA_STATE_UNKNOWN, onboarded = DA_STATE_UNKNOWN,
     mqtt_on_boot = DA_STATE_UNKNOWN, powered_on = DA_STATE_KNOWN_TRUE, da_rssi = 100\<rparr>"

definition DA_MORE_INIT :: da_more where
  "DA_MORE_INIT = \<lparr>initialized = DA_STATE_KNOWN_FALSE, mqtt_last_msg_time = 0,
     mqtt_certs_installed = DA_STATE_UNKNOWN, mqtt_client_id = [], mqtt_sub_topic_count = 0,
     mqtt_sub_topics = replicate 9 [], ntp_server_set = DA_STATE_UNKNOWN,
     dhcp_client_name_set = DA_STATE_UNKNOWN, dhcp_client_name = [], last_cmd = [],
     uicr_bu_status = -1, uicr_bu = replicate UICR_WORDS 0, mac_set = DA_STATE_UNKNOWN, xtal_set = DA_STATE_UNKNOWN, ota_progress = -1,
     reboot_cnt = 0, da_version = [0, 0, 0], ap_profile_disabled = DA_STATE_UNKNOWN, rtc_wake_time = 0\<rparr>"

section \<open>State\<close>

datatype cb_id = NET_MONITOR | BLE_CB | SHELL_BYPASS

datatype wifi_pin = WAKEUP_PIN | POWER_KEY_PIN | V3V0_PIN | LEVEL_SHIFTER_PIN | SWITCH_1V8

text \<open>
  Calls into the radio manager and the communication manager, whose models are \<^verbatim>\<open>RadioMgr\<close> and
  \<^verbatim>\<open>CommQueue\<close>.
\<close>

datatype rm_call = RmGotUCFromAP | RmDoneWithRadio | CmQueueShadow

datatype net_work = InitWork | WakeupWork | ResetWork | DisconnWork | TimeWork | OtaWork | WatchWork da_event

record ota_info =
  ota_url :: string
  expected_version :: "8 word list"
  ota_cancel :: bool
  ota_last :: "8 word"
  ota_reboot_cnt :: "8 word"
  download_complete :: bool
  ota_st :: int

record saved_ap =
  sa_ssid :: string
  sa_password :: string
  sa_sec :: "16 word"
  sa_keyidx :: "16 word"
  sa_enc :: "16 word"
  sa_hidden :: bool
  sa_time :: nat

text \<open>
  A message for the cloud side: the copy of the message structure that goes with it, the topic, and
  where in the block its payload starts and how long it is said to be.
\<close>

record mqtt_in =
  mi_copy :: wifi_msg
  mi_topic :: string
  mi_offset :: nat
  mi_len :: int

record http_dl =
  file_opened :: bool
  http_skip_headers :: bool
  http_amt_written :: nat
  http_crc :: "32 word"
  httpresultcode :: int
  http_file :: string

text \<open>
  An access point of the last scan.  The list of the scan is an array; the names and signal strengths
  of its entries are also \<open>g_last_ssid_list\<close> of the \<open>world\<close>.
\<close>

record wifi_obj =
  wo_ssid :: string
  wo_mac :: string
  wo_rssi :: int
  wo_channel :: nat
  wo_flags :: string

record wifi =
  ww :: world
  dax :: da_more
  wifi_msgq :: "wifi_msg list"
  wifi_heap :: "(nat \<times> string) list"
  next_block :: nat
  bad_free :: bool
  bad_read :: bool
  num_of_heap_elements :: int
  alloc_fails_in_a_row :: int
  wifi_tx_rx_cb :: "cb_id option list"
  lock_count :: nat
  inbox :: "(nat \<times> da_reply) list"
  spi_frames :: "8 word list list"
  pins :: "(wifi_pin \<times> bool) list"
  g_last_wake_time :: nat
  g_DA_needs_one_time_config :: bool
  g_wifi_power_key :: bool
  g_wifi_1v8_on :: bool
  g_wifi_3v0_on :: bool
  rm_calls :: "rm_call list"
  published :: "da_event list"
  net_works :: "net_work list"
  g_rebooting_da :: bool
  u_mem :: uicr
  shadow_zones :: "shadow_zone list"
  my_ota_info :: ota_info
  ota_timer :: bool
  ota_last_start_result :: string
  fota_states :: "(int \<times> int) list"
  g_last_conn_attempt :: saved_ap
  mqtt_incoming :: "mqtt_in list"
  null_deref :: bool
  shadow_wifiVer :: "8 word list"
  time_strings :: "string list"
  http :: http_dl
  g_last_dpm_change :: nat
  g_awake_on_boot :: bool
  ssid_array :: "nat \<Rightarrow> wifi_obj"
  g_last_dpm_wake :: nat

text \<open>The state after the initialisation: the static variables and the registered callback.\<close>

definition wifi_boot :: "world \<Rightarrow> wifi" where
  "wifi_boot w = \<lparr>ww = w\<lparr>da := DA_STATE_INIT\<rparr>, dax = DA_MORE_INIT, wifi_msgq = [], wifi_heap = [],
     next_block = 0, bad_free = False, bad_read = False, num_of_heap_elements = 0,
     alloc_fails_in_a_row = 0, wifi_tx_rx_cb = [Some NET_MONITOR, None, None, None, None],
     lock_count = 0, inbox = [], spi_frames = [], pins = [], g_last_wake_time = 10000,
     g_DA_needs_one_time_config = True, g_wifi_power_key = True, g_wifi_1v8_on = True,
     g_wifi_3v0_on = True, rm_calls = [], published = [], net_works = [], g_rebooting_da = True,
     u_mem = blank,
     shadow_zones = replicate 5 \<lparr>z_ssid = [], z_safe = False\<rparr>,
     my_ota_info = \<lparr>ota_url = [], expected_version = [0, 0, 0], ota_cancel = False, ota_last = 0,
       ota_reboot_cnt = 0, download_complete = False, ota_st = 0\<rparr>,
     ota_timer = False, ota_last_start_result = [], fota_states = [],
     g_last_conn_attempt = \<lparr>sa_ssid = [], sa_password = [], sa_sec = 0, sa_keyidx = 0, sa_enc = 0,
       sa_hidden = False, sa_time = 0\<rparr>,
     mqtt_incoming = [], null_deref = False, shadow_wifiVer = [0, 0, 0], time_strings = [],
     http = \<lparr>file_opened = False, http_skip_headers = False, http_amt_written = 0, http_crc = 0,
       httpresultcode = 0, http_file = []\<rparr>,
     g_last_dpm_change = 10000, g_awake_on_boot = False,
     ssid_array = (\<lambda>i. \<lparr>wo_ssid = [], wo_mac = [], wo_rssi = 0, wo_channel = 0, wo_flags = []\<rparr>),
     g_last_dpm_wake = 0\<rparr>"

section \<open>Environment\<close>

text \<open>
  \<open>spi_bus\<close> gets the bytes of a frame and answers the driver's return value and the replies the
  chip will offer, each with its delay; \<open>mutex_wait\<close> the result of locking a free mutex of
  another thread and how long that took; \<open>heap_fit\<close> decides whether \<open>k_heap_alloc\<close> finds room
  beside blocks of these sizes; \<open>stale\<close> is what freed memory holds; \<open>on_msg\<close> runs a registered
  callback on a message, which it may change; \<open>crc32_ieee_update\<close> and \<open>fs_write_ret\<close> are the kernel's,
  \<open>hal\<close> is the library that writes the factory data.
\<close>

record wenv =
  spi_bus :: "8 word list \<Rightarrow> wifi \<Rightarrow> int \<times> (nat \<times> da_reply) list"
  mutex_wait :: "nat \<Rightarrow> wifi \<Rightarrow> int \<times> nat"
  heap_fit :: "nat list \<Rightarrow> nat \<Rightarrow> bool"
  stale :: "nat \<Rightarrow> wifi \<Rightarrow> string"
  gpio_ret :: "wifi_pin \<Rightarrow> wifi \<Rightarrow> int"
  malloc_ok :: "nat \<Rightarrow> wifi \<Rightarrow> bool"
  on_msg :: "cb_id \<Rightarrow> wifi_msg \<Rightarrow> (wifi, wifi_msg) state"
  zbus_ret :: "wifi \<Rightarrow> int"
  crc32_ieee_update :: "32 word \<Rightarrow> string \<Rightarrow> 32 word"
  fs_write_ret :: "string \<Rightarrow> wifi \<Rightarrow> int"
  clock_is_set :: "wifi \<Rightarrow> bool"
  rm_switching :: "wifi \<Rightarrow> bool"
  hal :: nvmc

text \<open>A quiet environment for examples: the chip says nothing, memory is never short.\<close>

definition idle_env :: wenv where
  "idle_env = \<lparr>spi_bus = (\<lambda>f s. (0, [])), mutex_wait = (\<lambda>t s. (0, 0)), heap_fit = (\<lambda>bs n. True),
     stale = (\<lambda>n s. replicate n (CHR ''?'')), gpio_ret = (\<lambda>p s. 0), malloc_ok = (\<lambda>n s. True),
     on_msg = (\<lambda>cb m. return m), zbus_ret = (\<lambda>s. 0), crc32_ieee_update = (\<lambda>c t. c),
     fs_write_ret = (\<lambda>t s. int (length t)), clock_is_set = (\<lambda>s. True), rm_switching = (\<lambda>s. False),
     hal = \<lparr>nrfx_nvmc_word_write = (\<lambda>old v. old AND v), nrfx_nvmc_halfword_write = (\<lambda>old v. old AND v)\<rparr>\<rparr>"

definition idle_world :: world where
  "idle_world = \<lparr>uptime = 20000, da = DA_STATE_INIT, status_flags = 0, g_last_sleep_time = 0,
     shipping_flag = True, modem_powered = False, cached_zones = replicate 5 \<lparr>z_ssid = [], z_safe = False\<rparr>,
     cached_zones_valid = True, g_last_ssid_list = [], g_last_ssid_scan_time = 0, g_last_ap_name = [],
     utc_time = 0, calls = []\<rparr>"

section \<open>Reading and updating\<close>

definition now :: "wifi \<Rightarrow> nat" where
  "now s = uptime (ww s)"

definition set_now :: "nat \<Rightarrow> (wifi, unit) state" where
  "set_now t = modify (\<lambda>s. s\<lparr>ww := (ww s)\<lparr>uptime := max (now s) t\<rparr>\<rparr>)"

definition upd_da :: "(da_state \<Rightarrow> da_state) \<Rightarrow> (wifi, unit) state" where
  "upd_da f = modify (\<lambda>s. s\<lparr>ww := (ww s)\<lparr>da := f (da (ww s))\<rparr>\<rparr>)"

definition upd_more :: "(da_more \<Rightarrow> da_more) \<Rightarrow> (wifi, unit) state" where
  "upd_more f = modify (\<lambda>s. s\<lparr>dax := f (dax s)\<rparr>)"

text \<open>Calls to other parts of the application that are only recorded.\<close>

definition outside :: "drv \<Rightarrow> (wifi, unit) state" where
  "outside d = modify (\<lambda>s. s\<lparr>ww := (ww s)\<lparr>calls := calls (ww s) @ [d]\<rparr>\<rparr>)"

text \<open>The bytes of a pointer, and the string before the first NUL.\<close>

definition NUL :: char where
  "NUL = CHR 0x00"

definition cstr :: "string \<Rightarrow> string" where
  "cstr b = takeWhile (\<lambda>c. c \<noteq> NUL) b"

definition msg_bytes :: "wenv \<Rightarrow> data_ptr \<Rightarrow> wifi \<Rightarrow> string" where
  "msg_bytes e p s =
     (case p of Block a \<Rightarrow> (case map_of (wifi_heap s) a of Some t \<Rightarrow> t | None \<Rightarrow> stale e a s)
      | Local t \<Rightarrow> t | Null \<Rightarrow> [])"

definition is_stale :: "data_ptr \<Rightarrow> wifi \<Rightarrow> bool" where
  "is_stale p s = (case p of Block a \<Rightarrow> map_of (wifi_heap s) a = None | Local t \<Rightarrow> False | Null \<Rightarrow> True)"

definition CRLF :: string where
  "CRLF = [CHR 0x0D, CHR 0x0A]"

definition msg_text :: "wenv \<Rightarrow> wifi_msg \<Rightarrow> wifi \<Rightarrow> string" where
  "msg_text e m s = cstr (msg_bytes e (m_data m) s)"

text \<open>
  The frames the driver \<^verbatim>\<open>commercial_collar/src/wifi/src/wifi_spi.c\<close> puts on the bus to the
  DA16200: the request that writes a command, the header that reads a response, and the header that
  reads the data a response points to.  A frame is the list of its bytes.
\<close>

section \<open>Headers\<close>

definition ATCMD_ADDR :: "32 word" where "ATCMD_ADDR = 0x50080260"
definition RESP_ADDR :: "32 word" where "RESP_ADDR = 0x50080258"
definition AUTO_INC_WRITE_CMD :: "8 word" where "AUTO_INC_WRITE_CMD = 0x80"
definition AUTO_INC_READ_CMD :: "8 word" where "AUTO_INC_READ_CMD = 0xC0"

text \<open>The swapped address, and the packed header in the little-endian memory of the core.\<close>

definition swap_addr :: "32 word \<Rightarrow> 32 word" where
  "swap_addr t = push_bit 24 (t AND 0xFF) + push_bit 8 (t AND 0xFF00) +
     drop_bit 8 (t AND 0xFF0000) + drop_bit 24 (t AND 0xFF000000)"

definition da_header :: "32 word \<Rightarrow> 8 word \<Rightarrow> 8 word list \<Rightarrow> 8 word list" where
  "da_header addr_type c len3 =
     [ucast addr_type, ucast (drop_bit 8 addr_type), ucast (drop_bit 16 addr_type),
      ucast (drop_bit 24 addr_type), c] @ len3"

section \<open>Requests\<close>

definition char_byte :: "char \<Rightarrow> 8 word" where
  "char_byte c = of_nat (of_char c)"

text \<open>
  The data is followed by one to four zero bytes up to the next multiple of four; \<open>len_trucated\<close>
  is always smaller than \<open>len_aligned\<close>, so the second form of the transfer is never used.
\<close>

definition da_spi_write_rqst :: "32 word \<Rightarrow> string \<Rightarrow> 8 word list" where
  "da_spi_write_rqst type data =
     (let len = length data;
          len_aligned = (len div 4 + 1) * 4;
          len_trucated = len_aligned - 4;
          aligned = (of_nat len_aligned :: 32 word);
          tail = drop len_trucated data @ replicate (4 - (len - len_trucated)) NUL
      in da_header (swap_addr type) AUTO_INC_WRITE_CMD
           [ucast (drop_bit 16 (aligned AND 0xFF0000)), ucast (drop_bit 8 (aligned AND 0xFF00)),
            ucast (aligned AND 0xFF)] @
         map char_byte (take len_trucated data) @ map char_byte tail)"

definition da_spi_get_response :: "8 word list" where
  "da_spi_get_response = da_header (swap_addr RESP_ADDR) AUTO_INC_READ_CMD [0, 0, 8]"

definition da_spi_read_data :: "da_rsp \<Rightarrow> 8 word list" where
  "da_spi_read_data rsp = da_header (swap_addr (rsp_addr rsp)) AUTO_INC_READ_CMD
     [0, ucast (drop_bit 8 (rsp_length rsp)), ucast (rsp_length rsp)]"

section \<open>The bus\<close>

text \<open>Replies wait in the order in which they will arrive.\<close>

definition offer :: "nat \<times> da_reply \<Rightarrow> (nat \<times> da_reply) list \<Rightarrow> (nat \<times> da_reply) list" where
  "offer a as = takeWhile (\<lambda>b. fst b \<le> fst a) as @ a # dropWhile (\<lambda>b. fst b \<le> fst a) as"

definition wifi_spi_send :: "wenv \<Rightarrow> string \<Rightarrow> (wifi, int) state" where
  "wifi_spi_send e data = do {
     s \<leftarrow> State_Monad.get;
     let frame = da_spi_write_rqst ATCMD_ADDR data;
     let (err, replies) = spi_bus e frame s;
     modify (\<lambda>s. s\<lparr>spi_frames := spi_frames s @ [frame],
       inbox := fold (\<lambda>(d, r). offer (now s + d, r)) replies (inbox s)\<rparr>);
     return err
   }"

section \<open>What the chip reads\<close>

text \<open>
  The reader at the other end of the bus: address, command, and the bytes the length announces,
  as the DA16200's manual has them.
\<close>

definition chip_addr :: "8 word list \<Rightarrow> nat" where
  "chip_addr f = ((unat (f ! 0) * 256 + unat (f ! 1)) * 256 + unat (f ! 2)) * 256 + unat (f ! 3)"

definition chip_length :: "8 word list \<Rightarrow> nat" where
  "chip_length f = (unat (f ! 5) * 256 + unat (f ! 6)) * 256 + unat (f ! 7)"

definition chip_command :: "8 word list \<Rightarrow> string" where
  "chip_command f = cstr (map (\<lambda>b. char_of (unat b)) (take (chip_length f) (drop 8 f)))"

lemma unat_char_byte [simp]: "unat (char_byte c) = of_char c"
proof -
  have "(of_char c :: nat) < 256"
    by (metis char_of_char of_char_of mod_less_divisor zero_less_numeral)
  then show ?thesis by (simp add: char_byte_def unat_of_nat)
qed

lemma unat_byte: "unat (ucast (drop_bit k w) :: 8 word) = unat (w :: 32 word) div 2 ^ k mod 256"
proof -
  have "unat (ucast (drop_bit k w) :: 8 word) = unat (drop_bit k w) mod 256"
    by (simp only: unsigned_ucast_eq take_bit_eq_mod) simp
  also have "\<dots> = drop_bit k (unat w) mod 256" by (simp only: unat_drop_bit_eq)
  finally show ?thesis by (simp only: drop_bit_eq_div)
qed

lemma byte_masks:
  "(ucast (drop_bit 16 (w AND 0xFF0000)) :: 8 word) = ucast (drop_bit 16 (w :: 32 word))"
  "(ucast (drop_bit 8 (w AND 0xFF00)) :: 8 word) = ucast (drop_bit 8 w)"
  "(ucast (w AND 0xFF) :: 8 word) = ucast (drop_bit 0 w)"
proof -
  have m: "(0xFF0000 :: 32 word) = push_bit 16 (mask 8)" "(0xFF00 :: 32 word) = push_bit 8 (mask 8)"
    "(0xFF :: 32 word) = mask 8" by (simp_all add: mask_eq_exp_minus_1)
  show "(ucast (drop_bit 16 (w AND 0xFF0000)) :: 8 word) = ucast (drop_bit 16 (w :: 32 word))"
    "(ucast (drop_bit 8 (w AND 0xFF00)) :: 8 word) = ucast (drop_bit 8 w)"
    "(ucast (w AND 0xFF) :: 8 word) = ucast (drop_bit 0 w)"
    unfolding m by (auto intro!: bit_eqI simp: bit_simps)
qed

lemma three_bytes:
  assumes "n < 2 ^ 24"
  shows "(n div 2 ^ 16 mod 256 * 256 + n div 2 ^ 8 mod 256) * 256 + n div 2 ^ 0 mod 256 = (n :: nat)"
  using assms by (simp add: div_mult2_eq [of n 256 256, simplified])

lemma cstr_padded: "NUL \<notin> set s \<Longrightarrow> 0 < n \<Longrightarrow> cstr (s @ replicate n NUL) = s"
  by (cases n) (auto simp: cstr_def takeWhile_append)

lemma frame_data:
  assumes "k = length s div 4 * 4"
  shows "take k s @ drop k s @ replicate (4 - (length s - k)) NUL = s @ replicate (4 - length s mod 4) NUL"
  using assms by (simp add: minus_div_mult_eq_mod)

text \<open>
  Claim C20.  The frame of a command: the chip's reader finds the AT command address, as many bytes as the
  header announces, a multiple of four, and the command itself.
\<close>

theorem frame_roundtrip:
  assumes "NUL \<notin> set s" and "length s + 4 < 2 ^ 24"
  shows "chip_addr (da_spi_write_rqst ATCMD_ADDR s) = unat ATCMD_ADDR \<and>
    da_spi_write_rqst ATCMD_ADDR s ! 4 = AUTO_INC_WRITE_CMD \<and>
    length (da_spi_write_rqst ATCMD_ADDR s) = 8 + chip_length (da_spi_write_rqst ATCMD_ADDR s) \<and>
    4 dvd chip_length (da_spi_write_rqst ATCMD_ADDR s) \<and>
    chip_command (da_spi_write_rqst ATCMD_ADDR s) = s"
proof -
  let ?f = "da_spi_write_rqst ATCMD_ADDR s"
  define n where "n = (length s div 4 + 1) * 4"
  define w where "w = (of_nat n :: 32 word)"
  define body where "body = map char_byte (s @ replicate (4 - length s mod 4) NUL)"
  have "(q + 1) * 4 < 2 ^ 24 \<and> (q + 1) * 4 = l + (4 - r)"
    if "q * 4 + r = l" "r < 4" "l + 4 < 2 ^ 24" for q r l :: nat
    using that by simp
  from this [OF div_mult_mod_eq _ assms(2)]
  have "(length s div 4 + 1) * 4 < 2 ^ 24" "(length s div 4 + 1) * 4 = length s + (4 - length s mod 4)"
    by simp_all
  then have n: "n < 2 ^ 24" "n = length body" by (simp_all add: n_def body_def)
  then have w: "unat w = n" by (simp add: w_def unat_of_nat)
  have frame: "?f = da_header (swap_addr ATCMD_ADDR) AUTO_INC_WRITE_CMD
      [ucast (drop_bit 16 w), ucast (drop_bit 8 w), ucast (drop_bit 0 w)] @ body"
    unfolding da_spi_write_rqst_def Let_def byte_masks
    using frame_data [of "n - 4" s] by (simp add: n_def w_def body_def flip: map_append)
  then have bytes: "?f ! 5 = ucast (drop_bit 16 w)" "?f ! 6 = ucast (drop_bit 8 w)"
      "?f ! 7 = ucast (drop_bit 0 w)"
    by (simp_all add: da_header_def)
  have len: "chip_length ?f = n"
    unfolding chip_length_def bytes unat_byte w by (rule three_bytes [OF n(1)])
  moreover have "chip_command ?f = s"
    using assms(1) n(2) unfolding chip_command_def len
    by (simp add: frame da_header_def body_def o_def cstr_padded)
  moreover have "swap_addr ATCMD_ADDR = 0x60020850" by (simp add: swap_addr_def ATCMD_ADDR_def)
  then have "chip_addr ?f = unat ATCMD_ADDR" "?f ! 4 = AUTO_INC_WRITE_CMD" "length ?f = 8 + n"
    using n(2) unfolding frame by (simp_all add: da_header_def chip_addr_def, simp add: ATCMD_ADDR_def)
  ultimately show ?thesis by (simp add: n_def)
qed

theorem frame_roundtrip_witness:
  "chip_command (da_spi_write_rqst ATCMD_ADDR ''AT+DPM=1'') = ''AT+DPM=1''"
  by (rule frame_roundtrip [THEN conjunct2, THEN conjunct2, THEN conjunct2, THEN conjunct2])
     (simp_all add: NUL_def)

end
