(* ===== verification/WifiLink.thy ===== *)
theory WifiLink
  imports WifiSpi
begin

text \<open>
  The link to the DA16200, \<^verbatim>\<open>commercial_collar/src/wifi/src/wifi.c\<close> and the receiving half of
  \<^verbatim>\<open>wifi_spi.c\<close>: the message heap and the reference counts, the queue of received messages, the
  callbacks, the mutex, sending, and waiting for one of several patterns.  A message structure is a
  value that is copied, as in the source; its block is shared.

  The receiving work item runs while the calling thread waits: the replies the bus has in store are
  delivered in the order of their times before the thread goes on.  The 300 microseconds between
  header and data are below the millisecond of the clock.
\<close>

section \<open>Message heap\<close>

definition WIFI_MSG_SIZE :: nat where "WIFI_MSG_SIZE = 2100"
definition WIFI_MSG_Q_SIZE :: nat where "WIFI_MSG_Q_SIZE = 40"
definition WIFI_FLUSH_AGE :: nat where "WIFI_FLUSH_AGE = 2000"

definition k_heap_alloc :: "wenv \<Rightarrow> nat \<Rightarrow> (wifi, nat option) state" where
  "k_heap_alloc e amount = do {
     s \<leftarrow> State_Monad.get;
     if heap_fit e (map (\<lambda>b. length (snd b)) (wifi_heap s)) amount
     then do {
       modify (\<lambda>s. s\<lparr>wifi_heap := (next_block s, stale e amount s) # wifi_heap s,
         next_block := next_block s + 1\<rparr>);
       return (Some (next_block s))
     }
     else return None
   }"

text \<open>Giving back a pointer that is not an allocated block is undefined; the state remembers it.\<close>

definition k_heap_free :: "data_ptr \<Rightarrow> (wifi, unit) state" where
  "k_heap_free p = modify (\<lambda>s. case p of
     Block a \<Rightarrow> (if map_of (wifi_heap s) a = None then s\<lparr>bad_free := True\<rparr>
                 else s\<lparr>wifi_heap := filter (\<lambda>b. fst b \<noteq> a) (wifi_heap s)\<rparr>)
   | _ \<Rightarrow> s\<lparr>bad_free := True\<rparr>)"

definition write_block :: "nat \<Rightarrow> string \<Rightarrow> (wifi, unit) state" where
  "write_block a t = modify (\<lambda>s. s\<lparr>wifi_heap := map (\<lambda>b. if fst b = a then (a, t) else b) (wifi_heap s)\<rparr>)"

definition wifi_msg_free :: "wifi_msg \<Rightarrow> (wifi, wifi_msg) state" where
  "wifi_msg_free msg =
     (let m = msg\<lparr>m_ref := m_ref msg - 1\<rparr> in
      if m_ref m > 0 then return m
      else if m_ref m < 0 then return m
      else if m_data m = Null then return m
      else do {
        modify (\<lambda>s. s\<lparr>num_of_heap_elements := num_of_heap_elements s - 1\<rparr>);
        k_heap_free (m_data m);
        return (m\<lparr>m_data := Null\<rparr>)
      })"

definition wifi_inc_ref_count :: "wifi_msg \<Rightarrow> wifi_msg" where
  "wifi_inc_ref_count m = m\<lparr>m_ref := m_ref m + 1\<rparr>"

definition alloc_failed :: "(wifi, nat option) state" where
  "alloc_failed = do {
     modify (\<lambda>s. s\<lparr>alloc_fails_in_a_row := alloc_fails_in_a_row s + 1\<rparr>);
     s \<leftarrow> State_Monad.get;
     whenever (alloc_fails_in_a_row s > 5) (outside (PmicReboot ''wifi_msg_alloc''));
     return None
   }"

text \<open>
  The \<open>for\<close> loop with \<open>k\<close> rounds left; \<open>t\<close> is the time at the call.  A message is recent when at
  most \<open>WIFI_FLUSH_AGE\<close> have passed; a time stamp in the future would make the unsigned difference
  large.
\<close>

primrec alloc_loop :: "wenv \<Rightarrow> nat \<Rightarrow> nat \<Rightarrow> nat \<Rightarrow> int \<Rightarrow> (wifi, nat option) state" where
  "alloc_loop e amount t 0 qsize = return None"
| "alloc_loop e amount t (Suc k) qsize = do {
     data \<leftarrow> k_heap_alloc e amount;
     case data of
       Some a \<Rightarrow> do {
         modify (\<lambda>s. s\<lparr>alloc_fails_in_a_row := 0, num_of_heap_elements := num_of_heap_elements s + 1\<rparr>);
         return (Some a)
       }
     | None \<Rightarrow>
         if qsize \<le> 0 then alloc_failed
         else do {
           q \<leftarrow> gets wifi_msgq;
           case q of
             [] \<Rightarrow> alloc_failed
           | msg # rest \<Rightarrow>
               if m_time msg \<le> t \<and> t - m_time msg \<le> WIFI_FLUSH_AGE then alloc_failed
               else do {
                 modify (\<lambda>s. s\<lparr>wifi_msgq := rest\<rparr>);
                 wifi_msg_free msg;
                 alloc_loop e amount t k (qsize - 1)
               }
         }
   }"

definition wifi_msg_alloc :: "wenv \<Rightarrow> nat \<Rightarrow> (wifi, nat option) state" where
  "wifi_msg_alloc e amount = do {
     s \<leftarrow> State_Monad.get;
     alloc_loop e amount (now s) WIFI_MSG_Q_SIZE (int (length (wifi_msgq s)))
   }"

definition wifi_init_new_msg :: "wenv \<Rightarrow> bool \<Rightarrow> nat \<Rightarrow> (wifi, int \<times> wifi_msg) state" where
  "wifi_init_new_msg e incoming buf_size = do {
     t \<leftarrow> gets now;
     data \<leftarrow> wifi_msg_alloc e buf_size;
     return (case data of
       None \<Rightarrow> (- ENOMEM, \<lparr>m_time = t, m_ref = 0, m_incoming = incoming, m_len = 0, m_data = Null\<rparr>)
     | Some a \<Rightarrow> (0, \<lparr>m_time = t, m_ref = 1, m_incoming = incoming, m_len = buf_size, m_data = Block a\<rparr>))
   }"

section \<open>Callbacks\<close>

definition WIFI_NUM_RX_CB :: nat where "WIFI_NUM_RX_CB = 5"

text \<open>The first free slot, or \<open>-1\<close>.\<close>

definition wifi_add_tx_rx_cb :: "cb_id \<Rightarrow> (wifi, int) state" where
  "wifi_add_tx_rx_cb cb = do {
     cbs \<leftarrow> gets wifi_tx_rx_cb;
     case filter (\<lambda>i. cbs ! i = None) [0..<WIFI_NUM_RX_CB] of
       [] \<Rightarrow> return (-1)
     | i # _ \<Rightarrow> do { modify (\<lambda>s. s\<lparr>wifi_tx_rx_cb := cbs[i := Some cb]\<rparr>); return (int i) }
   }"

text \<open>Only the upper bound is checked: a negative id writes before the array.\<close>

definition wifi_rem_tx_rx_cb :: "int \<Rightarrow> (wifi, unit) state" where
  "wifi_rem_tx_rx_cb i = modify (\<lambda>s.
     if 0 \<le> i \<and> i < int WIFI_NUM_RX_CB then s\<lparr>wifi_tx_rx_cb := (wifi_tx_rx_cb s)[nat i := None]\<rparr> else s)"

fun run_callbacks :: "wenv \<Rightarrow> cb_id option list \<Rightarrow> wifi_msg \<Rightarrow> (wifi, wifi_msg) state" where
  "run_callbacks e [] msg = return msg"
| "run_callbacks e (None # cbs) msg = run_callbacks e cbs msg"
| "run_callbacks e (Some cb # cbs) msg =
     (if m_ref msg > 0 then do { msg \<leftarrow> on_msg e cb msg; run_callbacks e cbs msg }
      else run_callbacks e cbs msg)"

definition wifi_notify_cbs :: "wenv \<Rightarrow> wifi_msg \<Rightarrow> (wifi, int \<times> wifi_msg) state" where
  "wifi_notify_cbs e msg = do {
     cbs \<leftarrow> gets wifi_tx_rx_cb;
     msg \<leftarrow> run_callbacks e cbs msg;
     q \<leftarrow> gets wifi_msgq;
     if m_ref msg > 0 \<and> m_incoming msg
     then if length q < WIFI_MSG_Q_SIZE
          then do { modify (\<lambda>s. s\<lparr>wifi_msgq := q @ [msg]\<rparr>); return (0, msg) }
          else return (- ENOMSG, msg)
     else return (0, msg)
   }"

section \<open>Receiving\<close>

text \<open>\<open>(int8_t)rsp.rsp\<close> in the text of an error the chip reports in the header alone.\<close>

definition rsp_text :: "8 word \<Rightarrow> string" where
  "rsp_text c =
     (if c = 0x20 then CRLF @ ''OK'' @ CRLF
      else CRLF @ ''ERROR:'' @ show_int (sint c) @ CRLF)"

text \<open>The end of the handler: the callbacks and the queue, or the block goes back.\<close>

definition hand_over :: "wenv \<Rightarrow> wifi_msg \<Rightarrow> (wifi, unit) state" where
  "hand_over e msg = do {
     (ret, msg) \<leftarrow> wifi_notify_cbs e msg;
     whenever (ret \<noteq> 0) (do { wifi_msg_free msg; skip })
   }"

definition da_resp_work_fn :: "wenv \<Rightarrow> da_reply \<Rightarrow> (wifi, unit) state" where
  "da_resp_work_fn e r =
     (case r_header r of
        None \<Rightarrow> skip
      | Some rsp \<Rightarrow>
          if unat (rsp_length rsp) > WIFI_MSG_SIZE then skip
          else let no_data = (rsp_addr rsp = 0xffffffff);
                   len = (if no_data then 20 else unat (rsp_length rsp));
                   alloc_len = (if len mod 4 \<noteq> 0 then (len div 4 + 1) * 4 else len) + 1
          in do {
            (ret, msg) \<leftarrow> wifi_init_new_msg e True alloc_len;
            case m_data msg of
              Block a \<Rightarrow> do {
                write_block a (replicate alloc_len NUL);
                if no_data
                then do {
                  let t = rsp_text (rsp_code rsp);
                  write_block a (t @ replicate (alloc_len - length t) NUL);
                  hand_over e (msg\<lparr>m_len := length t\<rparr>)
                }
                else case r_body r of
                  None \<Rightarrow> do { wifi_msg_free (msg\<lparr>m_len := len\<rparr>); skip }
                | Some t \<Rightarrow> do {
                    let t = take (alloc_len - 1) t;
                    write_block a (t @ replicate (alloc_len - length t) NUL);
                    if len = 0
                    then do { wifi_msg_free (msg\<lparr>m_len := len\<rparr>); skip }
                    else hand_over e (msg\<lparr>m_len := len\<rparr>)
                  }
              }
            | _ \<Rightarrow> skip
          })"

section \<open>Time\<close>

primrec deliver_all :: "wenv \<Rightarrow> (nat \<times> da_reply) list \<Rightarrow> (wifi, unit) state" where
  "deliver_all e [] = skip"
| "deliver_all e (a # as) = do { set_now (fst a); da_resp_work_fn e (snd a); deliver_all e as }"

definition pass_until :: "wenv \<Rightarrow> nat \<Rightarrow> (wifi, unit) state" where
  "pass_until e t = do {
     as \<leftarrow> gets inbox;
     modify (\<lambda>s. s\<lparr>inbox := dropWhile (\<lambda>a. fst a \<le> t) as\<rparr>);
     deliver_all e (takeWhile (\<lambda>a. fst a \<le> t) as);
     set_now t
   }"

definition k_sleep_ms :: "wenv \<Rightarrow> nat \<Rightarrow> (wifi, unit) state" where
  "k_sleep_ms e ms = do { t \<leftarrow> gets now; pass_until e (t + ms) }"

text \<open>\<open>sys_timepoint_timeout\<close>: what is left until a time point.\<close>

definition ms_left :: "nat \<Rightarrow> (wifi, nat) state" where
  "ms_left tp = gets (\<lambda>s. tp - now s)"

section \<open>The mutex\<close>

text \<open>
  The mutex is recursive: \<open>lock_count\<close> counts the calling thread's locks.  Only the first one may
  have to wait for another thread.
\<close>

definition wifi_get_mutex :: "wenv \<Rightarrow> nat \<Rightarrow> (wifi, int) state" where
  "wifi_get_mutex e timeout = do {
     s \<leftarrow> State_Monad.get;
     if lock_count s > 0
     then do { modify (\<lambda>s. s\<lparr>lock_count := lock_count s + 1\<rparr>); return 0 }
     else do {
       let (ret, waited) = mutex_wait e timeout s;
       pass_until e (now s + min waited timeout);
       whenever (ret = 0) (modify (\<lambda>s. s\<lparr>lock_count := 1\<rparr>));
       return ret
     }
   }"

definition wifi_release_mutex :: "(wifi, unit) state" where
  "wifi_release_mutex = modify (\<lambda>s. s\<lparr>lock_count := lock_count s - 1\<rparr>)"

section \<open>Sending and receiving\<close>

definition wifi_send_timeout :: "wenv \<Rightarrow> string \<Rightarrow> nat \<Rightarrow> (wifi, int) state" where
  "wifi_send_timeout e buf timeout = do {
     m \<leftarrow> wifi_get_mutex e timeout;
     if m \<noteq> 0 then return (- EBUSY)
     else do {
       t \<leftarrow> gets now;
       wifi_notify_cbs e \<lparr>m_time = t, m_ref = 1, m_incoming = False, m_len = length buf, m_data = Local buf\<rparr>;
       ret \<leftarrow> wifi_spi_send e buf;
       wifi_release_mutex;
       return ret
     }
   }"

text \<open>
  Taking a message from the queue, waiting for one until the time point \<open>tp\<close>: the replies that
  arrive until then are delivered one by one until a message is in the queue.
\<close>

primrec take_or_wait ::
  "wenv \<Rightarrow> nat \<Rightarrow> (nat \<times> da_reply) list \<Rightarrow> (wifi, wifi_msg option) state" where
  "take_or_wait e tp [] = do {
     q \<leftarrow> gets wifi_msgq;
     case q of [] \<Rightarrow> do { set_now tp; return None }
     | m # rest \<Rightarrow> do { modify (\<lambda>s. s\<lparr>wifi_msgq := rest\<rparr>); return (Some m) }
   }"
| "take_or_wait e tp (a # as) = do {
     q \<leftarrow> gets wifi_msgq;
     case q of [] \<Rightarrow> do { set_now (fst a); da_resp_work_fn e (snd a); take_or_wait e tp as }
     | m # rest \<Rightarrow> do {
         modify (\<lambda>s. s\<lparr>wifi_msgq := rest, inbox := (a # as) @ inbox s\<rparr>);
         return (Some m)
       }
   }"

definition k_msgq_get :: "wenv \<Rightarrow> nat \<Rightarrow> (wifi, int \<times> wifi_msg option) state" where
  "k_msgq_get e timeout = do {
     s \<leftarrow> State_Monad.get;
     let tp = now s + timeout;
     if timeout = 0
     then case wifi_msgq s of
       [] \<Rightarrow> return (- ENOMSG, None)
     | m # rest \<Rightarrow> do { modify (\<lambda>s. s\<lparr>wifi_msgq := rest\<rparr>); return (0, Some m) }
     else do {
       modify (\<lambda>s. s\<lparr>inbox := dropWhile (\<lambda>a. fst a \<le> tp) (inbox s)\<rparr>);
       m \<leftarrow> take_or_wait e tp (takeWhile (\<lambda>a. fst a \<le> tp) (inbox s));
       return (case m of None \<Rightarrow> (- EAGAIN, None) | Some m \<Rightarrow> (0, Some m))
     }
   }"

definition wifi_recv :: "wenv \<Rightarrow> nat \<Rightarrow> (wifi, int \<times> wifi_msg option) state" where
  "wifi_recv e timeout = do {
     tp \<leftarrow> gets (\<lambda>s. now s + timeout);
     m \<leftarrow> wifi_get_mutex e timeout;
     if m \<noteq> 0 then return (- EBUSY, None)
     else do {
       left \<leftarrow> ms_left tp;
       r \<leftarrow> k_msgq_get e left;
       wifi_release_mutex;
       return r
     }
   }"

primrec free_all :: "wifi_msg list \<Rightarrow> (wifi, unit) state" where
  "free_all [] = skip"
| "free_all (m # ms) = do { wifi_msg_free m; free_all ms }"

definition wifi_flush_msgs :: "wenv \<Rightarrow> (wifi, unit) state" where
  "wifi_flush_msgs e = do {
     m \<leftarrow> wifi_get_mutex e 0;
     if m \<noteq> 0 then skip
     else do {
       q \<leftarrow> gets wifi_msgq;
       modify (\<lambda>s. s\<lparr>wifi_msgq := []\<rparr>);
       free_all q;
       wifi_release_mutex
     }
   }"

text \<open>The result of putting the message back is not looked at: with a full queue it is lost.\<close>

definition wifi_requeue :: "wenv \<Rightarrow> wifi_msg \<Rightarrow> (wifi, unit) state" where
  "wifi_requeue e msg = do {
     m \<leftarrow> wifi_get_mutex e 0;
     if m \<noteq> 0 then skip
     else do {
       modify (\<lambda>s. if length (wifi_msgq s) < WIFI_MSG_Q_SIZE then s\<lparr>wifi_msgq := wifi_msgq s @ [msg]\<rparr> else s);
       wifi_release_mutex
     }
   }"

end
