(* ===== verification/WifiWait.thy ===== *)
theory WifiWait
  imports WifiLink
begin

text \<open>
  Waiting for one of several patterns in \<^verbatim>\<open>commercial_collar/src/wifi/src/wifi.c\<close>: the array of
  patterns with the callers' buffers, the matching of a message, the wait itself and the exchange
  of a command for an answer; and the functions that switch the chip's supply and wake lines.
  A buffer is the list of its bytes; the caller reads the string before the first NUL.
\<close>

section \<open>Scanning\<close>

text \<open>
  \<open>sscanf\<close> for the formats the sources use: white space, literal characters, \<open>%<width>s\<close> and \<open>%d\<close>,
  whose token is the text of the number.  The second argument is the width read so far inside a conversion.  The result is \<open>sscanf\<close>'s and the
  tokens it stores.
\<close>

fun sscan :: "string \<Rightarrow> nat option \<Rightarrow> string \<Rightarrow> string list \<Rightarrow> int \<times> string list" where
  "sscan [] w s toks = (int (length toks), toks)"
| "sscan (c # f) None s toks =
     (if isspace c then sscan f None (dropWhile isspace s) toks
      else if c = CHR ''%'' then sscan f (Some 0) s toks
      else (case s of
        [] \<Rightarrow> (if toks = [] then -1 else int (length toks), toks)
      | x # xs \<Rightarrow> if x = c then sscan f None xs toks else (int (length toks), toks)))"
| "sscan (c # f) (Some w) s toks =
     (if isdigit c then sscan f (Some (10 * w + digits_val [c])) s toks
      else if c = CHR ''s''
      then let s' = dropWhile isspace s;
               word = takeWhile (\<lambda>x. \<not> isspace x) s';
               tok = (if w = 0 then word else take w word)
           in if s' = [] then (if toks = [] then -1 else int (length toks), toks)
              else sscan f None (drop (length tok) s') (toks @ [tok])
      else if c = CHR ''d''
      then let s' = dropWhile isspace s;
               u = (if s' \<noteq> [] \<and> (hd s' = CHR ''-'' \<or> hd s' = CHR ''+'') then tl s' else s');
               ds = takeWhile isdigit u;
               tok = take (length s' - length u) s' @ ds
           in if s' = [] then (if toks = [] then -1 else int (length toks), toks)
              else if ds = [] then (int (length toks), toks)
              else sscan f None (drop (length tok) s') (toks @ [tok])
      else (int (length toks), toks))"

definition sscanf_s :: "string \<Rightarrow> string \<Rightarrow> int \<times> string list" where
  "sscanf_s fmt s = sscan fmt None s []"

definition put_string :: "string \<Rightarrow> string \<Rightarrow> string" where
  "put_string tok old = tok @ NUL # drop (length tok + 1) old"

definition put_bytes :: "string \<Rightarrow> string \<Rightarrow> string" where
  "put_bytes bs old = bs @ drop (length bs) old"

section \<open>Patterns\<close>

definition WIFI_MAX_WAIT_MSGS :: nat where "WIFI_MAX_WAIT_MSGS = 5"
definition WIFI_MAX_WAIT_MSG_PARAMS :: nat where "WIFI_MAX_WAIT_MSG_PARAMS = 5"

record wait_entry =
  we_fmt :: string
  we_nparams :: nat
  we_bufs :: "string list"
  we_stop :: bool
  we_matched :: int

definition wifi_add_wait_msg ::
  "string \<Rightarrow> bool \<Rightarrow> string list \<Rightarrow> wait_entry list \<Rightarrow> wait_entry list" where
  "wifi_add_wait_msg fmt stop bufs wm =
     (if length wm < WIFI_MAX_WAIT_MSGS
      then wm @ [\<lparr>we_fmt = fmt, we_nparams = length bufs, we_bufs = take WIFI_MAX_WAIT_MSG_PARAMS bufs,
             we_stop = stop, we_matched = 0\<rparr>]
      else wm)"

text \<open>
  The body of the loop of \<open>match_message\<close>: \<open>None\<close> is \<open>continue\<close>.  A pattern that starts with a
  conversion takes the bytes of the message as they are.  Otherwise the text before the first
  \<open>%\<close>, cut to nine characters, is searched in the message and the message scanned from there; the
  number of conversions that succeed is stored but does not decide.
\<close>

definition whole_width :: "string \<Rightarrow> nat option" where
  "whole_width fmt =
     (case fmt of
        [] \<Rightarrow> None
      | c # f \<Rightarrow>
          if c = CHR ''%''
          then let ds = takeWhile isdigit f; rest = drop (length ds) f
               in if rest \<noteq> [] \<and> hd rest = CHR ''s''
                  then Some (if ds \<noteq> [] then min (nat (atoi f)) WIFI_MSG_SIZE else WIFI_MSG_SIZE)
                  else None
          else None)"

definition scan_from :: "string \<Rightarrow> string \<Rightarrow> string option" where
  "scan_from fmt t =
     (case strchr fmt (CHR ''%'') of
        Some k \<Rightarrow> map_option (\<lambda>j. drop j t) (strstr t (take (min k 9) fmt))
      | None \<Rightarrow> Some t)"

definition match_entry :: "string \<Rightarrow> nat \<Rightarrow> wait_entry \<Rightarrow> wait_entry option" where
  "match_entry bytes len w =
     (case whole_width (we_fmt w) of
        Some amt \<Rightarrow> Some (w\<lparr>we_bufs := (we_bufs w)[0 := put_bytes (take (min amt len) bytes) (we_bufs w ! 0)]\<rparr>)
      | None \<Rightarrow>
          (case scan_from (we_fmt w) (cstr bytes) of
             None \<Rightarrow> None
           | Some t \<Rightarrow>
               if we_nparams w = 0
               then (if strstr t (we_fmt w) = None then None else Some (w\<lparr>we_matched := 0\<rparr>))
               else if we_nparams w \<le> 5
               then (let (n, toks) = sscanf_s (we_fmt w) t
                     in Some (w\<lparr>we_matched := n,
                          we_bufs := map2 put_string toks (take (length toks) (we_bufs w)) @
                            drop (length toks) (we_bufs w)\<rparr>))
               else None))"

fun match_list :: "string \<Rightarrow> nat \<Rightarrow> nat \<Rightarrow> wait_entry list \<Rightarrow> int \<times> wait_entry list" where
  "match_list bytes len i [] = (- ENOMSG, [])"
| "match_list bytes len i (w # ws) =
     (case match_entry bytes len w of
        Some w' \<Rightarrow> (int i, w' # ws)
      | None \<Rightarrow> (let (r, ws') = match_list bytes len (i + 1) ws in (r, w # ws')))"

text \<open>A message whose block has been given back is read all the same; the state remembers it.\<close>

definition match_message ::
  "wenv \<Rightarrow> wifi_msg \<Rightarrow> wait_entry list \<Rightarrow> (wifi, int \<times> wait_entry list) state" where
  "match_message e msg wm = do {
     s \<leftarrow> State_Monad.get;
     whenever (is_stale (m_data msg) s) (modify (\<lambda>s. s\<lparr>bad_read := True\<rparr>));
     return (match_list (msg_bytes e (m_data msg) s) (m_len msg) 0 wm)
   }"

section \<open>Waiting\<close>

text \<open>
  The loop of \<open>wifi_wait_for\<close>, with a bound on its rounds: every round but the last takes a message
  from the queue, so the messages that are queued or still to come, and one more, bound it.  The
  third component of the result tells that the bound was not reached.
\<close>

primrec wait_loop ::
  "wenv \<Rightarrow> nat \<Rightarrow> nat \<Rightarrow> wait_entry list \<Rightarrow> int \<Rightarrow> (wifi, int \<times> wait_entry list \<times> bool) state" where
  "wait_loop e 0 tp wm ret = return (ret, wm, False)"
| "wait_loop e (Suc n) tp wm ret = do {
     left \<leftarrow> ms_left tp;
     if left = 0 then return (ret, wm, True)
     else do {
       (r, m) \<leftarrow> wifi_recv e left;
       case m of
         None \<Rightarrow> if r = - ENOMSG then wait_loop e n tp wm r else return (r, wm, True)
       | Some msg \<Rightarrow> do {
           (r, wm) \<leftarrow> match_message e msg wm;
           wifi_msg_free msg;
           if r > -1 \<and> we_stop (wm ! nat r) then return (r, wm, True)
           else wait_loop e n tp wm r
         }
     }
   }"

definition wait_rounds :: "wifi \<Rightarrow> nat" where
  "wait_rounds s = Suc (length (wifi_msgq s) + length (inbox s))"

definition wifi_wait_for ::
  "wenv \<Rightarrow> wait_entry list \<Rightarrow> nat \<Rightarrow> (wifi, int \<times> wait_entry list) state" where
  "wifi_wait_for e wm timeout = do {
     tp \<leftarrow> gets (\<lambda>s. now s + timeout);
     if length wm > WIFI_MAX_WAIT_MSGS then return (- EINVAL, wm)
     else do {
       m \<leftarrow> wifi_get_mutex e timeout;
       if m \<noteq> 0 then return (- EBUSY, wm)
       else do {
         n \<leftarrow> gets wait_rounds;
         (ret, wm, _) \<leftarrow> wait_loop e n tp wm (- EAGAIN);
         wifi_release_mutex;
         return (ret, wm)
       }
     }
   }"

definition wifi_send_and_wait_for ::
  "wenv \<Rightarrow> string \<Rightarrow> wait_entry list \<Rightarrow> nat \<Rightarrow> (wifi, int \<times> wait_entry list) state" where
  "wifi_send_and_wait_for e cmd wm timeout = do {
     tp \<leftarrow> gets (\<lambda>s. now s + timeout);
     m \<leftarrow> wifi_get_mutex e timeout;
     if m \<noteq> 0 then return (-1, wm)
     else do {
       left \<leftarrow> ms_left tp;
       r \<leftarrow> wifi_send_timeout e cmd left;
       if r \<noteq> 0 then do { wifi_release_mutex; return (-1, wm) }
       else do {
         left \<leftarrow> ms_left tp;
         r \<leftarrow> wifi_wait_for e wm left;
         wifi_release_mutex;
         return r
       }
     }
   }"

section \<open>Supply and wake lines\<close>

definition set_pin :: "wenv \<Rightarrow> wifi_pin \<Rightarrow> bool \<Rightarrow> (wifi, int) state" where
  "set_pin e p v = do {
     s \<leftarrow> State_Monad.get;
     modify (\<lambda>s. s\<lparr>pins := pins s @ [(p, v)]\<rparr>);
     return (gpio_ret e p s)
   }"

definition wifi_wake_DA :: "wenv \<Rightarrow> nat \<Rightarrow> (wifi, unit) state" where
  "wifi_wake_DA e ms_delay = do {
     modify (\<lambda>s. s\<lparr>g_last_wake_time := now s\<rparr>);
     set_pin e WAKEUP_PIN True;
     k_sleep_ms e ms_delay;
     set_pin e WAKEUP_PIN False;
     skip
   }"

definition wifi_set_power_key :: "wenv \<Rightarrow> bool \<Rightarrow> (wifi, int) state" where
  "wifi_set_power_key e newState =
     (if newState then do {
        modify (\<lambda>s. s\<lparr>g_wifi_power_key := True, g_last_wake_time := now s\<rparr>);
        set_pin e POWER_KEY_PIN True
      } else do {
        modify (\<lambda>s. s\<lparr>g_wifi_power_key := False\<rparr>);
        set_pin e POWER_KEY_PIN False
      })"

definition wifi_set_3v0_enable :: "wenv \<Rightarrow> bool \<Rightarrow> (wifi, int) state" where
  "wifi_set_3v0_enable e newState =
     (if newState then do {
        ret \<leftarrow> set_pin e V3V0_PIN True;
        modify (\<lambda>s. s\<lparr>g_wifi_3v0_on := True\<rparr>);
        return ret
      } else do {
        modify (\<lambda>s. s\<lparr>g_DA_needs_one_time_config := True, g_wifi_3v0_on := False\<rparr>);
        set_pin e V3V0_PIN False
      })"

definition wifi_1v8_on :: "wenv \<Rightarrow> (wifi, int) state" where
  "wifi_1v8_on e = do {
     set_pin e SWITCH_1V8 True; modify (\<lambda>s. s\<lparr>g_wifi_1v8_on := True\<rparr>); return 0 }"

definition wifi_1v8_off :: "wenv \<Rightarrow> (wifi, int) state" where
  "wifi_1v8_off e = do {
     set_pin e SWITCH_1V8 False; modify (\<lambda>s. s\<lparr>g_wifi_1v8_on := False\<rparr>); return 0 }"

definition wifi_set_wakeup :: "wenv \<Rightarrow> bool \<Rightarrow> (wifi, int) state" where
  "wifi_set_wakeup e newState = set_pin e WAKEUP_PIN newState"

definition wifi_set_level_shifter :: "wenv \<Rightarrow> bool \<Rightarrow> (wifi, int) state" where
  "wifi_set_level_shifter e new_state = set_pin e LEVEL_SHIFTER_PIN new_state"

definition wifi_reset :: "wenv \<Rightarrow> (wifi, unit) state" where
  "wifi_reset e = do {
     wifi_1v8_off e;
     wifi_set_power_key e False;
     wifi_set_3v0_enable e False;
     wifi_set_level_shifter e False;
     k_sleep_ms e 1;
     wifi_1v8_on e;
     wifi_set_power_key e True;
     wifi_set_3v0_enable e True;
     wifi_set_level_shifter e True;
     k_sleep_ms e 1
   }"

end
