(* ===== verification/NetEvents.thy ===== *)
theory NetEvents
  imports WifiWait
begin

text \<open>
  How \<^verbatim>\<open>commercial_collar/src/wifi/src/net_mgr.c\<close> changes \<open>da_state\<close>: a variable that gets a new
  value is written first and the change is published on \<open>da_state_chan\<close>, whose listener queues a
  work item.  The work queue of the network manager is a list; an item that is queued already is not
  queued again.  What the radio manager and the communication manager do with an event is their model
  in \<^verbatim>\<open>RadioEvents\<close> and \<^verbatim>\<open>CommEvents\<close>.
\<close>

section \<open>Variables\<close>

datatype tri_var =
  V_INITIALIZED | V_AP_CONNECTED | V_AP_SAFE | V_DPM_MODE | V_IS_SLEEPING | V_MQTT_ENABLED
| V_MQTT_BROKER_CONNECTED | V_MQTT_CERTS | V_NTP_SERVER_SET | V_DHCP_CLIENT_NAME_SET | V_MAC_SET
| V_XTAL_SET | V_ONBOARDED | V_MQTT_ON_BOOT | V_AP_PROFILE_DISABLED | V_POWERED_ON

fun tri_get :: "tri_var \<Rightarrow> wifi \<Rightarrow> das_tri_state" where
  "tri_get V_INITIALIZED s = initialized (dax s)"
| "tri_get V_AP_CONNECTED s = ap_connected (da (ww s))"
| "tri_get V_AP_SAFE s = ap_safe (da (ww s))"
| "tri_get V_DPM_MODE s = dpm_mode (da (ww s))"
| "tri_get V_IS_SLEEPING s = is_sleeping (da (ww s))"
| "tri_get V_MQTT_ENABLED s = mqtt_enabled (da (ww s))"
| "tri_get V_MQTT_BROKER_CONNECTED s = mqtt_broker_connected (da (ww s))"
| "tri_get V_MQTT_CERTS s = mqtt_certs_installed (dax s)"
| "tri_get V_NTP_SERVER_SET s = ntp_server_set (dax s)"
| "tri_get V_DHCP_CLIENT_NAME_SET s = dhcp_client_name_set (dax s)"
| "tri_get V_MAC_SET s = mac_set (dax s)"
| "tri_get V_XTAL_SET s = xtal_set (dax s)"
| "tri_get V_ONBOARDED s = onboarded (da (ww s))"
| "tri_get V_MQTT_ON_BOOT s = mqtt_on_boot (da (ww s))"
| "tri_get V_AP_PROFILE_DISABLED s = ap_profile_disabled (dax s)"
| "tri_get V_POWERED_ON s = powered_on (da (ww s))"

fun tri_put :: "tri_var \<Rightarrow> das_tri_state \<Rightarrow> (wifi, unit) state" where
  "tri_put V_INITIALIZED v = upd_more (\<lambda>d. d\<lparr>initialized := v\<rparr>)"
| "tri_put V_AP_CONNECTED v = upd_da (\<lambda>d. d\<lparr>ap_connected := v\<rparr>)"
| "tri_put V_AP_SAFE v = upd_da (\<lambda>d. d\<lparr>ap_safe := v\<rparr>)"
| "tri_put V_DPM_MODE v = upd_da (\<lambda>d. d\<lparr>dpm_mode := v\<rparr>)"
| "tri_put V_IS_SLEEPING v = upd_da (\<lambda>d. d\<lparr>is_sleeping := v\<rparr>)"
| "tri_put V_MQTT_ENABLED v = upd_da (\<lambda>d. d\<lparr>mqtt_enabled := v\<rparr>)"
| "tri_put V_MQTT_BROKER_CONNECTED v = upd_da (\<lambda>d. d\<lparr>mqtt_broker_connected := v\<rparr>)"
| "tri_put V_MQTT_CERTS v = upd_more (\<lambda>d. d\<lparr>mqtt_certs_installed := v\<rparr>)"
| "tri_put V_NTP_SERVER_SET v = upd_more (\<lambda>d. d\<lparr>ntp_server_set := v\<rparr>)"
| "tri_put V_DHCP_CLIENT_NAME_SET v = upd_more (\<lambda>d. d\<lparr>dhcp_client_name_set := v\<rparr>)"
| "tri_put V_MAC_SET v = upd_more (\<lambda>d. d\<lparr>mac_set := v\<rparr>)"
| "tri_put V_XTAL_SET v = upd_more (\<lambda>d. d\<lparr>xtal_set := v\<rparr>)"
| "tri_put V_ONBOARDED v = upd_da (\<lambda>d. d\<lparr>onboarded := v\<rparr>)"
| "tri_put V_MQTT_ON_BOOT v = upd_da (\<lambda>d. d\<lparr>mqtt_on_boot := v\<rparr>)"
| "tri_put V_AP_PROFILE_DISABLED v = upd_more (\<lambda>d. d\<lparr>ap_profile_disabled := v\<rparr>)"
| "tri_put V_POWERED_ON v = upd_da (\<lambda>d. d\<lparr>powered_on := v\<rparr>)"

text \<open>The bit of \<open>da_event_type_t\<close> that goes with a variable.\<close>

fun tri_bit :: "tri_var \<Rightarrow> nat" where
  "tri_bit V_INITIALIZED = 0"
| "tri_bit V_AP_CONNECTED = 1"
| "tri_bit V_AP_SAFE = 18"
| "tri_bit V_DPM_MODE = 2"
| "tri_bit V_IS_SLEEPING = 3"
| "tri_bit V_MQTT_ENABLED = 23"
| "tri_bit V_MQTT_BROKER_CONNECTED = 4"
| "tri_bit V_MQTT_CERTS = 6"
| "tri_bit V_NTP_SERVER_SET = 7"
| "tri_bit V_DHCP_CLIENT_NAME_SET = 8"
| "tri_bit V_MAC_SET = 12"
| "tri_bit V_XTAL_SET = 13"
| "tri_bit V_ONBOARDED = 14"
| "tri_bit V_MQTT_ON_BOOT = 15"
| "tri_bit V_AP_PROFILE_DISABLED = 24"
| "tri_bit V_POWERED_ON = 25"

abbreviation DA_EVENT_TYPE_MQTT_MSG_SENT :: nat where "DA_EVENT_TYPE_MQTT_MSG_SENT \<equiv> 5"
abbreviation DA_EVENT_TYPE_MQTT_SUB_TOP_CHANGED :: nat where "DA_EVENT_TYPE_MQTT_SUB_TOP_CHANGED \<equiv> 9"
abbreviation DA_EVENT_TYPE_UICR_BU_STATUS :: nat where "DA_EVENT_TYPE_UICR_BU_STATUS \<equiv> 11"
abbreviation DA_EVENT_TYPE_DA_RESTARTED :: nat where "DA_EVENT_TYPE_DA_RESTARTED \<equiv> 16"
abbreviation DA_EVENT_TYPE_HTTP_COMPLETE :: nat where "DA_EVENT_TYPE_HTTP_COMPLETE \<equiv> 17"
abbreviation DA_EVENT_TYPE_OTA_PROGRESS :: nat where "DA_EVENT_TYPE_OTA_PROGRESS \<equiv> 19"
abbreviation DA_EVENT_TYPE_REBOOT_CNT :: nat where "DA_EVENT_TYPE_REBOOT_CNT \<equiv> 20"
abbreviation DA_EVENT_TYPE_VERSION :: nat where "DA_EVENT_TYPE_VERSION \<equiv> 21"
abbreviation DA_EVENT_TYPE_DISCONNECT_REASON :: nat where "DA_EVENT_TYPE_DISCONNECT_REASON \<equiv> 26"
abbreviation DA_EVENT_TYPE_RSSI :: nat where "DA_EVENT_TYPE_RSSI \<equiv> 27"
abbreviation RSSI_NOT_CONNECTED :: int where "RSSI_NOT_CONNECTED \<equiv> 100"
abbreviation CONFIG_IOT_MAX_TOPIC_NUM :: nat where "CONFIG_IOT_MAX_TOPIC_NUM \<equiv> 9"

definition tri_of_bool :: "bool \<Rightarrow> das_tri_state" where
  "tri_of_bool b = (if b then DA_STATE_KNOWN_TRUE else DA_STATE_KNOWN_FALSE)"

section \<open>Work\<close>

definition submit_work :: "net_work \<Rightarrow> (wifi, unit) state" where
  "submit_work w = modify (\<lambda>s. if w \<in> set (net_works s) then s else s\<lparr>net_works := net_works s @ [w]\<rparr>)"

definition queue_da_init_work :: "(wifi, unit) state" where
  "queue_da_init_work = submit_work InitWork"

definition queue_WAKEUP_work :: "(wifi, unit) state" where
  "queue_WAKEUP_work = submit_work WakeupWork"

definition queue_reset_da_work :: "(wifi, unit) state" where
  "queue_reset_da_work = submit_work ResetWork"

definition queue_disconn_work :: "(wifi, unit) state" where
  "queue_disconn_work = submit_work DisconnWork"

definition queue_get_time_work :: "wenv \<Rightarrow> (wifi, unit) state" where
  "queue_get_time_work e = do {
     s \<leftarrow> State_Monad.get;
     whenever (\<not> clock_is_set e s) (submit_work TimeWork)
   }"

definition queue_ota_work :: "(wifi, unit) state" where
  "queue_ota_work = submit_work OtaWork"

text \<open>The listener allocates a work item of its own for each event.\<close>

definition watcher_listener :: "wenv \<Rightarrow> da_event \<Rightarrow> (wifi, unit) state" where
  "watcher_listener e ev = do {
     s \<leftarrow> State_Monad.get;
     whenever (malloc_ok e 60 s) (modify (\<lambda>s. s\<lparr>net_works := net_works s @ [WatchWork ev]\<rparr>))
   }"

section \<open>Publishing\<close>

definition publish :: "wenv \<Rightarrow> nat \<Rightarrow> ev_value \<Rightarrow> ev_value \<Rightarrow> (wifi, unit) state" where
  "publish e eb old new = do {
     s \<leftarrow> State_Monad.get;
     let ev = \<lparr>ev_bit = eb, ev_time = now s, ev_old = old, ev_new = new\<rparr>;
     whenever (zbus_ret e s = 0)
       (do { modify (\<lambda>s. s\<lparr>published := published s @ [ev]\<rparr>); watcher_listener e ev })
   }"

definition send_zbus_tri_event :: "wenv \<Rightarrow> tri_var \<Rightarrow> das_tri_state \<Rightarrow> (wifi, unit) state" where
  "send_zbus_tri_event e v new = do {
     old \<leftarrow> gets (tri_get v);
     if old = new then skip
     else do { tri_put v new; publish e (tri_bit v) (EvTri old) (EvTri new) }
   }"

text \<open>For the integer variables, the caller gives how the variable is read and written.\<close>

definition send_zbus_int_event ::
  "wenv \<Rightarrow> nat \<Rightarrow> int \<Rightarrow> (wifi \<Rightarrow> int) \<Rightarrow> (int \<Rightarrow> (wifi, unit) state) \<Rightarrow> bool \<Rightarrow> (wifi, unit) state" where
  "send_zbus_int_event e eb new get put force = do {
     old \<leftarrow> gets get;
     if \<not> force \<and> old = new then skip
     else do { put new; publish e eb (EvInt old) (EvInt new) }
   }"

definition send_zbus_bu_event :: "wenv \<Rightarrow> int \<Rightarrow> (wifi, unit) state" where
  "send_zbus_bu_event e new = do {
     old \<leftarrow> gets (\<lambda>s. uicr_bu_status (dax s));
     if old = new then skip
     else do {
       upd_more (\<lambda>d. d\<lparr>uicr_bu_status := new\<rparr>);
       publish e DA_EVENT_TYPE_UICR_BU_STATUS (EvBu old) (EvBu new)
     }
   }"

definition send_zbus_ota_event :: "wenv \<Rightarrow> int \<Rightarrow> (wifi, unit) state" where
  "send_zbus_ota_event e new = do {
     old \<leftarrow> gets (\<lambda>s. ota_progress (dax s));
     if old = new then skip
     else do {
       upd_more (\<lambda>d. d\<lparr>ota_progress := new\<rparr>);
       publish e DA_EVENT_TYPE_OTA_PROGRESS (EvOta old) (EvOta new)
     }
   }"

definition send_zbus_version_event :: "wenv \<Rightarrow> 8 word list \<Rightarrow> (wifi, unit) state" where
  "send_zbus_version_event e ver = do {
     old \<leftarrow> gets (\<lambda>s. da_version (dax s));
     if old = ver then skip
     else do {
       upd_more (\<lambda>d. d\<lparr>da_version := ver\<rparr>);
       modify (\<lambda>s. s\<lparr>shadow_wifiVer := ver\<rparr>);
       publish e DA_EVENT_TYPE_VERSION (EvVer old) (EvVer ver)
     }
   }"

definition send_zbus_timestamp_event ::
  "wenv \<Rightarrow> nat \<Rightarrow> nat \<Rightarrow> (wifi \<Rightarrow> nat) \<Rightarrow> (nat \<Rightarrow> (wifi, unit) state) \<Rightarrow> (wifi, unit) state" where
  "send_zbus_timestamp_event e eb new get put = do {
     old \<leftarrow> gets get;
     if old = new then skip
     else do { put new; publish e eb (EvTime old) (EvTime new) }
   }"

text \<open>The \<open>strncpy\<close> of a string that fills the buffer leaves it without a terminator.\<close>

definition send_zbus_string_event ::
  "wenv \<Rightarrow> nat \<Rightarrow> string \<Rightarrow> (string \<Rightarrow> (wifi, unit) state) \<Rightarrow> nat \<Rightarrow> (wifi, unit) state" where
  "send_zbus_string_event e eb new put maxsize = do {
     put (take maxsize new);
     publish e eb EvNone EvNone
   }"

section \<open>The event's work\<close>

definition watch_work_fn :: "da_event \<Rightarrow> (wifi, unit) state" where
  "watch_work_fn ev = do {
     s \<leftarrow> State_Monad.get;
     whenever (ev_bit ev = tri_bit V_IS_SLEEPING \<and> is_sleeping (da (ww s)) = DA_STATE_KNOWN_TRUE)
       (modify (\<lambda>s. s\<lparr>ww := (ww s)\<lparr>g_last_sleep_time := now s\<rparr>\<rparr>));
     whenever (ev_bit ev = tri_bit V_INITIALIZED \<and> initialized (dax s) = DA_STATE_KNOWN_TRUE)
       queue_reset_da_work
   }"

text \<open>The DA's shadow at the last known access point, and forgetting it.\<close>

definition remember_ap_name :: "(wifi, unit) state" where
  "remember_ap_name = modify (\<lambda>s. s\<lparr>ww := (ww s)\<lparr>g_last_ap_name := strncpy_z 32 (ap_name (da (ww s)))\<rparr>\<rparr>)"

definition forget_ap :: "(wifi, unit) state" where
  "forget_ap = upd_da (\<lambda>d. d\<lparr>ap_name := [], ip_address := []\<rparr>)"

section \<open>Power\<close>

definition net_mgr_wifi_power :: "wenv \<Rightarrow> bool \<Rightarrow> (wifi, unit) state" where
  "net_mgr_wifi_power e powered = do {
     is_powered \<leftarrow> gets g_wifi_power_key;
     whenever (powered \<and> \<not> is_powered) (do {
       wifi_set_power_key e True;
       modify (\<lambda>s. s\<lparr>g_rebooting_da := True\<rparr>);
       send_zbus_tri_event e V_POWERED_ON DA_STATE_KNOWN_TRUE;
       k_sleep_ms e 1500
     });
     whenever (\<not> powered \<and> is_powered) (do {
       wifi_set_power_key e False;
       modify (\<lambda>s. s\<lparr>g_DA_needs_one_time_config := True\<rparr>);
       send_zbus_tri_event e V_POWERED_ON DA_STATE_KNOWN_FALSE;
       s \<leftarrow> State_Monad.get;
       whenever (ap_connected (da (ww s)) = DA_STATE_KNOWN_TRUE) remember_ap_name;
       forget_ap;
       send_zbus_tri_event e V_AP_CONNECTED DA_STATE_KNOWN_FALSE;
       send_zbus_tri_event e V_AP_SAFE DA_STATE_UNKNOWN;
       send_zbus_tri_event e V_IS_SLEEPING DA_STATE_KNOWN_TRUE;
       send_zbus_tri_event e V_MQTT_ENABLED DA_STATE_KNOWN_FALSE;
       send_zbus_tri_event e V_MQTT_BROKER_CONNECTED DA_STATE_KNOWN_FALSE;
       upd_more (\<lambda>d. d\<lparr>dhcp_client_name := []\<rparr>);
       send_zbus_tri_event e V_DHCP_CLIENT_NAME_SET DA_STATE_UNKNOWN;
       upd_more (\<lambda>d. d\<lparr>mqtt_sub_topics := map (\<lambda>_. []) (mqtt_sub_topics d)\<rparr>);
       send_zbus_int_event e DA_EVENT_TYPE_MQTT_SUB_TOP_CHANGED 0
         (\<lambda>s. mqtt_sub_topic_count (dax s)) (\<lambda>v. upd_more (\<lambda>d. d\<lparr>mqtt_sub_topic_count := v\<rparr>)) False;
       send_zbus_tri_event e V_MAC_SET DA_STATE_UNKNOWN;
       send_zbus_tri_event e V_XTAL_SET DA_STATE_UNKNOWN;
       send_zbus_ota_event e (-1);
       send_zbus_tri_event e V_AP_PROFILE_DISABLED DA_STATE_UNKNOWN
     })
   }"

text \<open>Two reports that are only printed, and the names of the codes.\<close>

definition report_evt :: "da_event \<Rightarrow> nat \<Rightarrow> das_tri_state \<Rightarrow> bool" where
  "report_evt ev eb st = (ev_bit ev = eb \<and> st = DA_STATE_KNOWN_TRUE)"

definition tristate_str :: "das_tri_state \<Rightarrow> string" where
  "tristate_str v = (case v of DA_STATE_UNKNOWN \<Rightarrow> ''?'' | DA_STATE_KNOWN_FALSE \<Rightarrow> ''F'' | DA_STATE_KNOWN_TRUE \<Rightarrow> ''T'')"

text \<open>
  The download of a file over HTTP in \<^verbatim>\<open>commercial_collar/src/wifi/src/wifi_at.c\<close>: the chip sends the
  response in pieces, each with its length; the handlers write the pieces to a file and free the
  message.  The file is the string of the bytes written to it.
\<close>

definition upd_http :: "(http_dl \<Rightarrow> http_dl) \<Rightarrow> (wifi, unit) state" where
  "upd_http f = modify (\<lambda>s. s\<lparr>http := f (http s)\<rparr>)"

definition wifi_at_http_status :: "wenv \<Rightarrow> wifi_msg \<Rightarrow> (wifi, wifi_msg) state" where
  "wifi_at_http_status e msg = do {
     s \<leftarrow> State_Monad.get;
     let t = msg_text e msg s;
     case strstr t ''+NWHTCSTATUS:'' of
       None \<Rightarrow> wifi_msg_free msg
     | Some i \<Rightarrow>
         if \<not> file_opened (http s) then wifi_msg_free msg
         else do {
           let newcode = fst (strtol10 (drop (i + 13) t));
           send_zbus_int_event e DA_EVENT_TYPE_HTTP_COMPLETE newcode
             (\<lambda>s. httpresultcode (http s)) (\<lambda>v. upd_http (\<lambda>h. h\<lparr>httpresultcode := v\<rparr>)) True;
           upd_http (\<lambda>h. h\<lparr>file_opened := False\<rparr>);
           wifi_msg_free msg
         }
   }"

text \<open>
  Positions in the block replace the pointers \<open>datastart\<close> and \<open>packetend\<close>.  \<open>http_chunk\<close> is the part
  after the headers have been dealt with: it writes the bytes from \<open>i\<close> to \<open>packetend\<close>.  The length
  the chip announces is not compared with the length of the message, so the bytes may lie beyond its
  block.
\<close>

definition http_chunk :: "wenv \<Rightarrow> wifi_msg \<Rightarrow> string \<Rightarrow> nat \<Rightarrow> nat \<Rightarrow> (wifi, wifi_msg) state" where
  "http_chunk e msg bytes i packetend =
     (let writelen = int packetend - int i in
      if writelen < 1 then wifi_msg_free msg
      else do {
        s \<leftarrow> State_Monad.get;
        let piece = take (nat writelen) (drop i bytes @ stale e (nat writelen) s);
        whenever (length bytes < packetend) (modify (\<lambda>s. s\<lparr>bad_read := True\<rparr>));
        upd_http (\<lambda>h. h\<lparr>http_crc := crc32_ieee_update e (if http_amt_written h = 0 then 0 else http_crc h) piece,
          http_amt_written := http_amt_written h + nat writelen\<rparr>);
        let ret = fs_write_ret e piece s;
        upd_http (\<lambda>h. h\<lparr>http_file := http_file h @ take (nat ret) piece,
          file_opened := (file_opened h \<and> ret = writelen)\<rparr>);
        wifi_msg_free msg
      })"

definition wifi_at_http_write :: "wenv \<Rightarrow> wifi_msg \<Rightarrow> (wifi, wifi_msg) state" where
  "wifi_at_http_write e msg = do {
     s \<leftarrow> State_Monad.get;
     let bytes = msg_bytes e (m_data msg) s;
     let t = cstr bytes;
     case strstr t ''+NWHTCDATA:'' of
       None \<Rightarrow> wifi_msg_free msg
     | Some i \<Rightarrow>
         if \<not> file_opened (http s) then wifi_msg_free msg
         else case strchr (drop (i + 11) t) (CHR '','') of
           None \<Rightarrow> wifi_msg_free msg
         | Some k \<Rightarrow>
             let datastart = i + 11 + k + 1;
                 datalen = fst (strtol10 (take k (drop (i + 11) t)))
             in if datalen < 1 then wifi_msg_free msg
                else if http_skip_headers (http s)
                then (case strstr (cstr (drop datastart bytes)) (CRLF @ CRLF) of
                  None \<Rightarrow> wifi_msg_free msg
                | Some j \<Rightarrow> do {
                    upd_http (\<lambda>h. h\<lparr>http_skip_headers := False\<rparr>);
                    http_chunk e msg bytes (datastart + j + 4) (datastart + nat datalen)
                  })
                else http_chunk e msg bytes datastart (datastart + nat datalen)
   }"

definition wifi_at_get_http_amt_downloaded :: "wifi \<Rightarrow> nat" where
  "wifi_at_get_http_amt_downloaded s = http_amt_written (http s)"

end
