(* ===== verification/WifiAt.thy ===== *)
theory WifiAt
  imports NetEvents
begin

text \<open>
  The AT command layer, \<^verbatim>\<open>commercial_collar/src/wifi/src/wifi_at.c\<close>: a command that is answered with
  \<open>OK\<close> or \<open>ERROR\<close>, the queries that also have a value, the commands that switch DPM and MQTT, and the
  scan for access points.  A local array that the function does not initialise holds what \<open>stale\<close>
  gives.
\<close>

section \<open>OK or ERROR\<close>

text \<open>
  Both patterns end the wait, so the loop around it runs once.  The text of an error is read from
  the buffer also when the conversion has failed.
\<close>

definition ok_err_result :: "int \<Rightarrow> string \<Rightarrow> int" where
  "ok_err_result ret errtmp =
     (if ret < 0 then ret
      else if ret = 0 then 0
      else if errtmp \<noteq> [] \<and> hd errtmp = CHR ''-'' then - atoi (tl errtmp)
      else - EBADE)"

definition wifi_send_ok_err_atcmd :: "wenv \<Rightarrow> string \<Rightarrow> nat \<Rightarrow> (wifi, int) state" where
  "wifi_send_ok_err_atcmd e cmd timeout = do {
     s \<leftarrow> State_Monad.get;
     let tp = now s + timeout;
     if powered_on (da (ww s)) = DA_STATE_KNOWN_FALSE then return (- ENODEV)
     else if is_sleeping (da (ww s)) = DA_STATE_KNOWN_TRUE then return (- ENXIO)
     else do {
       m \<leftarrow> wifi_get_mutex e timeout;
       if m \<noteq> 0 then return (- EBUSY)
       else do {
         wifi_flush_msgs e;
         left \<leftarrow> ms_left tp;
         result \<leftarrow> wifi_send_timeout e cmd left;
         if result \<noteq> 0 then do { wifi_release_mutex; return result }
         else do {
           let wm = wifi_add_wait_msg (CRLF @ ''ERROR:%19s'' @ CRLF) True [stale e 20 s]
                      (wifi_add_wait_msg (CRLF @ ''OK'' @ CRLF) True [] []);
           left \<leftarrow> ms_left tp;
           (ret, wm) \<leftarrow> wifi_wait_for e wm left;
           wifi_release_mutex;
           return (ok_err_result ret (cstr (we_bufs (wm ! 1) ! 0)))
         }
       }
     }
   }"

section \<open>Queries\<close>

text \<open>
  Three functions ask for a flag the same way; they differ in the command, the pattern of the
  value and the result when the command cannot be sent.  The loop takes at least one message per
  round.
\<close>

primrec query_loop :: "wenv \<Rightarrow> nat \<Rightarrow> nat \<Rightarrow> wait_entry list \<Rightarrow> int \<Rightarrow> (wifi, int) state" where
  "query_loop e 0 tp wm res = return res"
| "query_loop e (Suc n) tp wm res = do {
     left \<leftarrow> ms_left tp;
     (ret, wm) \<leftarrow> wifi_wait_for e wm left;
     if ret < 0 then return ret
     else if ret = 0 \<and> res \<ge> 0 then return res
     else if ret = 1 then query_loop e n tp wm (if take 1 (we_bufs (wm ! 1) ! 0) = ''1'' then 1 else 0)
     else if ret = 2 then return (- EBADE)
     else query_loop e n tp wm res
   }"

definition flag_query :: "wenv \<Rightarrow> string \<Rightarrow> string \<Rightarrow> int option \<Rightarrow> nat \<Rightarrow> (wifi, int) state" where
  "flag_query e cmd pat unsent timeout = do {
     s \<leftarrow> State_Monad.get;
     let tp = now s + timeout;
     if powered_on (da (ww s)) = DA_STATE_KNOWN_FALSE then return (- ENODEV)
     else if is_sleeping (da (ww s)) = DA_STATE_KNOWN_TRUE then return (- ENXIO)
     else do {
       m \<leftarrow> wifi_get_mutex e timeout;
       if m \<noteq> 0 then return (- EBUSY)
       else do {
         wifi_flush_msgs e;
         left \<leftarrow> ms_left tp;
         ret \<leftarrow> wifi_send_timeout e cmd left;
         if ret \<noteq> 0
         then do { wifi_release_mutex; return (case unsent of Some r \<Rightarrow> r | None \<Rightarrow> ret) }
         else do {
           let wm = wifi_add_wait_msg (CRLF @ ''ERROR%19s'' @ CRLF) True [stale e 20 s]
                      (wifi_add_wait_msg (pat @ ''%1s'' @ CRLF) True [stale e 5 s]
                        (wifi_add_wait_msg (CRLF @ ''OK'' @ CRLF) True [] []));
           n \<leftarrow> gets wait_rounds;
           result \<leftarrow> query_loop e n tp wm (- EAGAIN);
           wifi_release_mutex;
           return result
         }
       }
     }
   }"

definition wifi_get_dpm_state :: "wenv \<Rightarrow> nat \<Rightarrow> (wifi, int) state" where
  "wifi_get_dpm_state e = flag_query e ''AT+DPM=?'' ''+DPM:'' (Some (- EAGAIN))"

definition wifi_get_mqtt_state :: "wenv \<Rightarrow> nat \<Rightarrow> (wifi, int) state" where
  "wifi_get_mqtt_state e = flag_query e ''AT+NWMQCL=?'' ''+NWMQCL:'' None"

definition wifi_get_mqtt_boot_state :: "wenv \<Rightarrow> nat \<Rightarrow> (wifi, int) state" where
  "wifi_get_mqtt_boot_state e = flag_query e ''AT+NWMQAUTO=?'' ''+NWMQAUTO:'' None"

section \<open>Switching\<close>

definition wifi_set_dpm_state :: "wenv \<Rightarrow> 8 word \<Rightarrow> bool \<Rightarrow> nat \<Rightarrow> (wifi, int) state" where
  "wifi_set_dpm_state e new_state awake_on_boot timeout = do {
     s \<leftarrow> State_Monad.get;
     if powered_on (da (ww s)) = DA_STATE_KNOWN_FALSE then return (- ENODEV)
     else if is_sleeping (da (ww s)) = DA_STATE_KNOWN_TRUE then return (- ENXIO)
     else do {
       ret \<leftarrow> wifi_send_ok_err_atcmd e (''AT+DPM='' @ (if new_state \<noteq> 0 then ''1'' else ''0'')) timeout;
       whenever (ret = 0) (modify (\<lambda>s. s\<lparr>g_awake_on_boot := (new_state = 1 \<and> awake_on_boot),
         g_last_dpm_change := now s\<rparr>));
       return ret
     }
   }"

text \<open>
  The callers give 0 or 1.  A state that is wanted already is asked for instead of set.
\<close>

definition wifi_set_mqtt_state :: "wenv \<Rightarrow> bool \<Rightarrow> nat \<Rightarrow> (wifi, int) state" where
  "wifi_set_mqtt_state e new_state timeout = do {
     s \<leftarrow> State_Monad.get;
     if powered_on (da (ww s)) = DA_STATE_KNOWN_FALSE then return (- ENODEV)
     else if is_sleeping (da (ww s)) = DA_STATE_KNOWN_TRUE then return (- ENXIO)
     else do {
       m \<leftarrow> wifi_get_mutex e timeout;
       if m \<noteq> 0 then return (- EBUSY)
       else do {
         conn \<leftarrow> gets (tri_get V_MQTT_BROKER_CONNECTED);
         result \<leftarrow> wifi_send_ok_err_atcmd e
           (if tri_of_bool new_state = conn then ''AT+NWMQCL=?''
            else ''AT+NWMQCL='' @ (if new_state then ''1'' else ''0'')) timeout;
         whenever (result = 0) (do {
           send_zbus_tri_event e V_MQTT_ENABLED (tri_of_bool new_state);
           whenever (\<not> new_state) (send_zbus_tri_event e V_MQTT_BROKER_CONNECTED DA_STATE_KNOWN_FALSE)
         });
         wifi_release_mutex;
         return result
       }
     }
   }"

definition wifi_set_mqtt_boot_state :: "wenv \<Rightarrow> bool \<Rightarrow> nat \<Rightarrow> (wifi, int) state" where
  "wifi_set_mqtt_boot_state e new_state timeout = do {
     s \<leftarrow> State_Monad.get;
     if powered_on (da (ww s)) = DA_STATE_KNOWN_FALSE then return (- ENODEV)
     else if is_sleeping (da (ww s)) = DA_STATE_KNOWN_TRUE then return (- ENXIO)
     else do {
       m \<leftarrow> wifi_get_mutex e timeout;
       if m \<noteq> 0 then return (- EBUSY)
       else do {
         on_boot \<leftarrow> gets (tri_get V_MQTT_ON_BOOT);
         ret \<leftarrow> wifi_send_ok_err_atcmd e
           (if tri_of_bool new_state = on_boot then ''AT+NWMQAUTO=?''
            else ''AT+NWMQAUTO='' @ (if new_state then ''1'' else ''0'')) timeout;
         whenever (ret = 0) (send_zbus_tri_event e V_MQTT_ON_BOOT (tri_of_bool new_state));
         wifi_release_mutex;
         return ret
       }
     }
   }"

definition wifi_set_ap_profile_use :: "wenv \<Rightarrow> bool \<Rightarrow> nat \<Rightarrow> (wifi, int) state" where
  "wifi_set_ap_profile_use e use_profile timeout =
     wifi_send_ok_err_atcmd e (''AT+WFDIS='' @ (if use_profile then ''0'' else ''1'')) timeout"

section \<open>Scanning for access points\<close>

text \<open>The rows are channel, first and last frequency in MHz; the first row that contains the frequency wins.\<close>

definition freq_conv :: "(nat \<times> nat \<times> nat) list" where
  "freq_conv =
     [(1, 2401, 2423), (2, 2406, 2428), (3, 2411, 2433), (4, 2416, 2438), (5, 2421, 2443), (6, 2426, 2448),
      (7, 2431, 2453), (8, 2436, 2458), (9, 2441, 2463), (10, 2446, 2468), (11, 2451, 2473), (12, 2456, 2478),
      (13, 2461, 2483), (14, 2473, 2495), (184, 4910, 4930), (188, 4930, 4950), (192, 4950, 4970),
      (196, 4970, 4990), (8, 5030, 5050), (12, 5050, 5070), (16, 5070, 5090)]"

definition freq_to_channel :: "int \<Rightarrow> nat" where
  "freq_to_channel freq =
     (case filter (\<lambda>(ch, a, b). int a \<le> freq \<and> freq \<le> int b) freq_conv of [] \<Rightarrow> 0 | (ch, _) # _ \<Rightarrow> ch)"

text \<open>
  One line of the scan.  A line with five fields has a name, which is taken from behind the last
  tab so that it keeps its spaces; a hidden network has four and keeps the signal strength that the
  entry had.  \<open>old\<close> is the entry of the array that is filled.
\<close>

definition last_field :: "string \<Rightarrow> string option" where
  "last_field l = (if CHR 0x09 \<in> set l then Some (rev (takeWhile (\<lambda>c. c \<noteq> CHR 0x09) (rev l))) else None)"

definition parse_scan_line :: "bool \<Rightarrow> string \<Rightarrow> wifi_obj \<Rightarrow> wifi_obj option \<times> wifi_obj" where
  "parse_scan_line skip_hidden l old =
     (let tab = [CHR 0x09];
          (n, toks) = sscanf_s (''%s'' @ tab @ ''%d'' @ tab @ ''%d'' @ tab @ ''%s'' @ tab @ ''%s'') l
      in if n = 5
         then (let w = \<lparr>wo_ssid = (case last_field l of Some x \<Rightarrow> take 32 x | None \<Rightarrow> toks ! 4),
                        wo_mac = toks ! 0, wo_rssi = atoi (toks ! 2),
                        wo_channel = freq_to_channel (atoi (toks ! 1)), wo_flags = take 99 (toks ! 3)\<rparr>
               in (Some w, w))
         else if n = 4 \<and> \<not> skip_hidden
         then (let w = old\<lparr>wo_ssid := [], wo_mac := toks ! 0,
                        wo_channel := freq_to_channel (atoi (toks ! 1)), wo_flags := take 99 (toks ! 3)\<rparr>
               in (Some w, w))
         else (None, old))"

text \<open>
  The loop over the lines; a rest of at most ten characters ends it.  \<open>arr\<close> is the array from the
  current entry on: the loop does not compare the number of entries with its size, so the array is
  taken as long as needed and entries past its end are the source's overrun.
\<close>

fun scan_lines :: "string \<Rightarrow> string list" where
  "scan_lines s =
     (if length s \<le> 10 then []
      else let l = takeWhile (\<lambda>c. c \<noteq> CHR 0x0A) s
           in if l = s then [l] else l # scan_lines (drop (length l + 1) s))"

declare scan_lines.simps [simp del]

fun parse_lines :: "bool \<Rightarrow> string list \<Rightarrow> (nat \<Rightarrow> wifi_obj) \<Rightarrow> nat \<Rightarrow> wifi_obj list" where
  "parse_lines skip_hidden [] arr i = []"
| "parse_lines skip_hidden (l # ls) arr i =
     (case parse_scan_line skip_hidden l (arr i) of
        (Some w, _) \<Rightarrow> w # parse_lines skip_hidden ls arr (i + 1)
      | (None, _) \<Rightarrow> parse_lines skip_hidden ls arr i)"

definition parse_wfscan :: "string \<Rightarrow> bool \<Rightarrow> (nat \<Rightarrow> wifi_obj) \<Rightarrow> wifi_obj list" where
  "parse_wfscan sub skip_hidden arr = parse_lines skip_hidden (scan_lines (drop 10 sub)) arr 0"

end
