(* ===== verification/WifiAsk.thy ===== *)
theory WifiAsk
  imports WifiAt
begin

text \<open>
  The queries of \<^verbatim>\<open>commercial_collar/src/wifi/src/wifi_at.c\<close> that read more than one answer: version,
  scan, status and signal strength, and the registers, memory and addresses of the chip.  They all
  check that the chip is on and awake, lock, send, and then loop around \<open>wifi_wait_for\<close>; they differ
  in the patterns and in what the body of the loop does with the index of the pattern.  \<open>asking\<close> is
  the common part, a \<open>verdict\<close> the end of one run of the body.
\<close>

section \<open>Asking\<close>

text \<open>The checks every function starts with, as the code they return.\<close>

definition da_unusable :: "wifi \<Rightarrow> int" where
  "da_unusable s =
     (if powered_on (da (ww s)) = DA_STATE_KNOWN_FALSE then - ENODEV
      else if is_sleeping (da (ww s)) = DA_STATE_KNOWN_TRUE then - ENXIO else 0)"

definition guarded :: "(int \<Rightarrow> 'r) \<Rightarrow> (wifi, 'r) state \<Rightarrow> (wifi, 'r) state" where
  "guarded fail act = do { r \<leftarrow> gets da_unusable; if r \<noteq> 0 then return (fail r) else act }"

definition locked :: "wenv \<Rightarrow> nat \<Rightarrow> 'r \<Rightarrow> (wifi, 'r) state \<Rightarrow> (wifi, 'r) state" where
  "locked e timeout busy act = do {
     m \<leftarrow> wifi_get_mutex e timeout;
     if m \<noteq> 0 then return busy
     else do { r \<leftarrow> act; wifi_release_mutex; return r }
   }"

datatype ('a, 'r) verdict = Again "wait_entry list" 'a | Done 'r

text \<open>
  The loop with a bound on its rounds; \<open>out\<close> is the result when the loop has a condition and the time
  is out, \<open>None\<close> for \<open>while (1)\<close>.  The result is \<open>None\<close> when the bound is reached.
\<close>

primrec ask_loop ::
  "wenv \<Rightarrow> nat \<Rightarrow> nat \<Rightarrow> ('a \<Rightarrow> 'r) option \<Rightarrow> (int \<Rightarrow> wait_entry list \<Rightarrow> 'a \<Rightarrow> ('a, 'r) verdict) \<Rightarrow>
   wait_entry list \<Rightarrow> 'a \<Rightarrow> (wifi, 'r option) state" where
  "ask_loop e 0 tp out body wm a = return None"
| "ask_loop e (Suc n) tp out body wm a = do {
     left \<leftarrow> ms_left tp;
     if left = 0 \<and> out \<noteq> None then return (Some (the out a))
     else do {
       (ret, wm) \<leftarrow> wifi_wait_for e wm left;
       case body ret wm a of
         Done r \<Rightarrow> return (Some r)
       | Again wm a \<Rightarrow> ask_loop e n tp out body wm a
     }
   }"

text \<open>The loop with a bound that is enough: see \<^verbatim>\<open>LinkAsk\<close>.\<close>

definition answers ::
  "wenv \<Rightarrow> nat \<Rightarrow> ('a \<Rightarrow> 'r) option \<Rightarrow> (int \<Rightarrow> wait_entry list \<Rightarrow> 'a \<Rightarrow> ('a, 'r) verdict) \<Rightarrow> 'r \<Rightarrow>
   wait_entry list \<Rightarrow> 'a \<Rightarrow> (wifi, 'r) state" where
  "answers e tp out body dflt wm a = do {
     n \<leftarrow> gets wait_rounds;
     r \<leftarrow> ask_loop e n tp out body wm a;
     return (case r of Some r \<Rightarrow> r | None \<Rightarrow> dflt)
   }"

text \<open>
  \<open>flush\<close> tells whether older messages are discarded first; the patterns depend on the state only
  through the contents of arrays that are not initialised.
\<close>

definition asking ::
  "wenv \<Rightarrow> (int \<Rightarrow> 'r) \<Rightarrow> bool \<Rightarrow> string \<Rightarrow> nat \<Rightarrow> (wifi \<Rightarrow> wait_entry list) \<Rightarrow>
   (int \<Rightarrow> wait_entry list \<Rightarrow> 'a \<Rightarrow> ('a, 'r) verdict) \<Rightarrow> 'a \<Rightarrow> (wifi, 'r) state" where
  "asking e fail flush cmd timeout pats body a = guarded fail (do {
     tp \<leftarrow> gets (\<lambda>s. now s + timeout);
     locked e timeout (fail (- EBUSY)) (do {
       whenever flush (wifi_flush_msgs e);
       left \<leftarrow> ms_left tp;
       ret \<leftarrow> wifi_send_timeout e cmd left;
       if ret \<noteq> 0 then return (fail ret)
       else do {
         wm \<leftarrow> gets pats;
         answers e tp None body (fail (- EAGAIN)) wm a
       }
     })
   })"

text \<open>The string in the first buffer of a pattern, and the patterns of \<open>OK\<close> and \<open>ERROR\<close>.\<close>

definition got :: "wait_entry list \<Rightarrow> nat \<Rightarrow> string" where
  "got wm i = cstr (we_bufs (wm ! i) ! 0)"

definition OK_TXT :: string where "OK_TXT = CRLF @ ''OK'' @ CRLF"
definition ERROR_TXT :: "string \<Rightarrow> string" where "ERROR_TXT w = CRLF @ ''ERROR'' @ w @ CRLF"

section \<open>Hexadecimal numbers\<close>

definition xdigit_val :: "char \<Rightarrow> nat option" where
  "xdigit_val c =
     (let n = of_char c in
      if 48 \<le> n \<and> n \<le> 57 then Some (n - 48)
      else if 65 \<le> n \<and> n \<le> 70 then Some (n - 55)
      else if 97 \<le> n \<and> n \<le> 102 then Some (n - 87) else None)"

definition strtol16 :: "string \<Rightarrow> int" where
  "strtol16 s =
     (let t = dropWhile isspace s;
          neg = (t \<noteq> [] \<and> hd t = CHR ''-'');
          u = (if t \<noteq> [] \<and> (hd t = CHR ''-'' \<or> hd t = CHR ''+'') then tl t else t);
          v = (if (take 2 u = ''0x'' \<or> take 2 u = ''0X'') \<and> length u > 2 \<and> xdigit_val (u ! 2) \<noteq> None
               then drop 2 u else u);
          n = int (foldl (\<lambda>a c. 16 * a + the (xdigit_val c)) 0 (takeWhile (\<lambda>c. xdigit_val c \<noteq> None) v))
      in long_clamp (if neg then - n else n))"

definition xdigit :: "bool \<Rightarrow> nat \<Rightarrow> char" where
  "xdigit up n = char_of (if n < 10 then n + 48 else if up then n + 55 else n + 87)"

fun show_hex :: "bool \<Rightarrow> nat \<Rightarrow> string" where
  "show_hex up n = (if n < 16 then [xdigit up n] else show_hex up (n div 16) @ [xdigit up (n mod 16)])"

declare show_hex.simps [simp del]

text \<open>\<open>%x\<close> of an \<open>int\<close>.\<close>

definition show_hexi :: "int \<Rightarrow> string" where
  "show_hexi i = show_hex False (nat (i mod 2 ^ 32))"

section \<open>Version, status, signal strength\<close>

text \<open>
  The caller's buffer has \<open>len\<close> bytes; the second component is what it holds at the end, \<open>None\<close> when
  it was not written.
\<close>

definition fw_ver_body ::
  "nat \<Rightarrow> int \<Rightarrow> wait_entry list \<Rightarrow> string option \<Rightarrow> (string option, int \<times> string option) verdict" where
  "fw_ver_body len ret wm fwver =
     (if ret < 0 then Done (ret, fwver)
      else if ret = 0 \<and> got wm 1 \<noteq> [] then Done (ret, fwver)
      else if ret = 1 then Again wm (Some (take (len - 1) (got wm 1)))
      else if ret = 2 then Done (- EBADE, fwver)
      else Again wm fwver)"

definition wifi_get_da_fw_ver :: "wenv \<Rightarrow> nat \<Rightarrow> nat \<Rightarrow> (wifi, int \<times> string option) state" where
  "wifi_get_da_fw_ver e len timeout =
     asking e (\<lambda>r. (r, None)) True ''AT+VER'' timeout
       (\<lambda>s. wifi_add_wait_msg (ERROR_TXT ''%19s'') True [stale e 20 s]
              (wifi_add_wait_msg (''+VER:%40s'' @ CRLF) True [replicate 40 NUL]
                (wifi_add_wait_msg OK_TXT True [] [])))
       (fw_ver_body len) None"

text \<open>
  The scan as text.  \<open>buf\<close> are the \<open>len\<close> bytes of the caller; moving the text behind the header to the
  front also moves eight bytes from behind the buffer, \<open>junk\<close>.
\<close>

definition wfscan_body ::
  "nat \<Rightarrow> string \<Rightarrow> int \<Rightarrow> wait_entry list \<Rightarrow> bool \<times> bool \<Rightarrow> (bool \<times> bool, int \<times> string) verdict" where
  "wfscan_body len junk ret wm st = (case st of (got_ok, got_scan) \<Rightarrow>
     (let buf = we_bufs (wm ! 2) ! 0;
          put = (\<lambda>b. wm[2 := (wm ! 2)\<lparr>we_bufs := [b]\<rparr>])
      in if ret < 0 then Done (ret, buf)
         else if ret = 0 then (if got_scan then Done (0, buf) else Again wm (True, got_scan))
         else if ret = 2
         then (case strstr (cstr buf) ''+WFSCAN:'' of
                 Some i \<Rightarrow>
                   (let b = put_bytes (take (len - i) (drop (i + 8) (buf @ junk))) buf
                    in if got_ok then Done (2, b) else Again (put b) (got_ok, True))
               | None \<Rightarrow> Again (if got_scan then wm else put (buf[0 := NUL])) (got_ok, got_scan))
         else if ret = 1 then Done (- EBADE, buf)
         else Again wm (got_ok, got_scan)))"

definition wifi_get_wfscan :: "wenv \<Rightarrow> string \<Rightarrow> nat \<Rightarrow> (wifi, int \<times> string) state" where
  "wifi_get_wfscan e buf timeout = do {
     s \<leftarrow> State_Monad.get;
     asking e (\<lambda>r. (r, buf)) True ''AT+WFSCAN'' timeout
       (\<lambda>s. wifi_add_wait_msg (take 39 (''%'' @ show_nat (length buf) @ ''s'' @ CRLF)) True [buf[0 := NUL]]
              (wifi_add_wait_msg (ERROR_TXT ''%19s'') True [stale e 20 s]
                (wifi_add_wait_msg OK_TXT True [] [])))
       (wfscan_body (length buf) (stale e 8 s)) (False, False)
   }"

text \<open>The signal strength; \<open>wanted\<close> tells whether the caller gave a place for it.\<close>

definition rssi_body ::
  "bool \<Rightarrow> int \<Rightarrow> wait_entry list \<Rightarrow> bool \<times> bool \<times> int option \<Rightarrow>
   (bool \<times> bool \<times> int option, int \<times> int option) verdict" where
  "rssi_body wanted ret wm st = (case st of (got_ok, got_rssi, rssi) \<Rightarrow>
     (if ret < 0 then Done (ret, rssi)
      else
        let got_ok = (got_ok \<or> ret = 0); got_rssi = (got_rssi \<or> ret = 1);
            rssi = (if ret = 1 \<and> wanted then Some (atoi (got wm 1)) else rssi);
            ret = (if ret = 1 \<and> wanted \<and> take 8 (got wm 1) = ''NOT_CONN'' then - EBADE else ret)
        in if ret = 2 then Done (- EBADE, rssi)
           else if got_ok \<and> got_rssi then Done (0, rssi)
           else Again wm (got_ok, got_rssi, rssi)))"

definition wifi_get_rssi :: "wenv \<Rightarrow> bool \<Rightarrow> nat \<Rightarrow> (wifi, int \<times> int option) state" where
  "wifi_get_rssi e wanted timeout =
     asking e (\<lambda>r. (r, None)) False ''AT+WFRSSI'' timeout
       (\<lambda>s. wifi_add_wait_msg (ERROR_TXT ''%50s'') True [stale e 50 s]
              (wifi_add_wait_msg ''+RSSI:%20s'' True [replicate 20 NUL]
                (wifi_add_wait_msg OK_TXT True [] [])))
       (rssi_body wanted) (False, False, None)"

text \<open>\<open>got_status\<close> is set by the same index as \<open>got_ok\<close>.\<close>

definition wfstat_body :: "int \<Rightarrow> wait_entry list \<Rightarrow> bool \<times> bool \<Rightarrow> (bool \<times> bool, int) verdict" where
  "wfstat_body ret wm st = (case st of (got_ok, got_status) \<Rightarrow>
     (if ret < 0 then Done ret
      else if ret = 1 then Done (- EBADE)
      else
        let got_ok = (got_ok \<or> ret = 0); got_status = (got_status \<or> ret = 0)
        in if got_ok \<and> got_status
           then Done (if strstr (got wm 2) ''DISCONNECTED'' \<noteq> None then 0 else 1)
           else Again wm (got_ok, got_status)))"

definition wifi_get_wfstat :: "wenv \<Rightarrow> nat \<Rightarrow> (wifi, int) state" where
  "wifi_get_wfstat e timeout =
     asking e (\<lambda>r. r) True ''AT+WFSTAT'' timeout
       (\<lambda>s. wifi_add_wait_msg ''wpa_state=%99s'' True [stale e 100 s]
              (wifi_add_wait_msg (ERROR_TXT ''%19s'') True [stale e 20 s]
                (wifi_add_wait_msg OK_TXT True [] [])))
       wfstat_body (False, False)"

section \<open>Registers\<close>

text \<open>
  The one-time programmable memory.  The digits come in pieces of their own; a piece is at most the
  50 bytes of \<open>data\<close>.  An \<open>ERROR\<close> has index 0, which is the result.
\<close>

definition otp_body :: "int \<Rightarrow> wait_entry list \<Rightarrow> string \<Rightarrow> (string, int) verdict" where
  "otp_body ret wm cmd =
     (if ret \<le> 0 then Done ret
      else if ret = 4 then Again wm (cmd @ take (50 - length (got wm 4)) (got wm 4))
      else if ret = 1 then Done (strtol16 cmd)
      else Again wm cmd)"

definition wifi_get_otp_register :: "wenv \<Rightarrow> int \<Rightarrow> int \<Rightarrow> nat \<Rightarrow> (wifi, int) state" where
  "wifi_get_otp_register e reg n_bytes timeout =
     asking e (\<lambda>r. r) False (take 49 (''AT+UOTPRDASC='' @ show_hexi reg @ '','' @ show_int n_bytes)) timeout
       (\<lambda>s. wifi_add_wait_msg ''%50s'' True [stale e 50 s]
              (wifi_add_wait_msg (take 1 CRLF) False []
                (wifi_add_wait_msg CRLF False []
                  (wifi_add_wait_msg OK_TXT True []
                    (wifi_add_wait_msg (ERROR_TXT ''%50s'') True [stale e 50 s] [])))))
       otp_body []"

text \<open>
  The value is written only where reading gave 0.  A value that does not fit is refused with a
  release of the mutex that was not locked.  \<open>n_bytes\<close> is 1, 2 or 3: the source's shift is undefined
  from 4 on.
\<close>

definition wifi_set_otp_register :: "wenv \<Rightarrow> int \<Rightarrow> nat \<Rightarrow> int \<Rightarrow> nat \<Rightarrow> (wifi, int) state" where
  "wifi_set_otp_register e reg n_bytes newval timeout = guarded (\<lambda>r. r) (
     if newval > 2 ^ (n_bytes * 8) - 1 then do { wifi_release_mutex; return (- EINVAL) }
     else do {
       tp \<leftarrow> gets (\<lambda>s. now s + timeout);
       locked e timeout (- EBUSY) (do {
         left \<leftarrow> ms_left tp;
         ret \<leftarrow> wifi_get_otp_register e reg (int n_bytes) left;
         if ret \<noteq> 0 then return ret
         else do {
           left \<leftarrow> ms_left tp;
           wifi_send_ok_err_atcmd e (take 49
             (''AT+UOTPWRASC='' @ show_hexi reg @ '','' @ show_nat n_bytes @ '','' @ show_hexi newval)) left
         }
       })
     })"

text \<open>The chip's flash memory; \<open>buf\<close> is what the caller's buffer holds before.\<close>

definition nvram_body :: "int \<Rightarrow> wait_entry list \<Rightarrow> unit \<Rightarrow> (unit, int \<times> string) verdict" where
  "nvram_body ret wm u =
     (let buf = we_bufs (wm ! 3) ! 0 in
      if ret < 0 then Done (ret, buf)
      else if ret = 0 then Done (- EBADE, buf)
      else if ret = 1 then Done (0, buf)
      else Again wm ())"

definition wifi_get_nvram :: "wenv \<Rightarrow> nat \<Rightarrow> string \<Rightarrow> nat \<Rightarrow> (wifi, int \<times> string) state" where
  "wifi_get_nvram e addr buf timeout =
     asking e (\<lambda>r. (r, buf)) False (take 49 (''AT+FLASHDUMP='' @ show_hex True addr @ '','' @ show_nat (length buf)))
       timeout
       (\<lambda>s. wifi_add_wait_msg (take 19 (''%'' @ show_nat (length buf) @ ''s'')) True [buf]
              (wifi_add_wait_msg CRLF False []
                (wifi_add_wait_msg OK_TXT True []
                  (wifi_add_wait_msg (ERROR_TXT ''%50s'') True [stale e 50 s] []))))
       nvram_body ()"

definition put_nvram_body :: "int \<Rightarrow> wait_entry list \<Rightarrow> unit \<Rightarrow> (unit, int) verdict" where
  "put_nvram_body ret wm u =
     (if ret < 0 then Done ret else if ret = 0 then Done ret
      else if ret = 1 then Done (- EBADE) else Again wm ())"

definition wifi_put_nvram :: "wenv \<Rightarrow> nat \<Rightarrow> string \<Rightarrow> nat \<Rightarrow> (wifi, int) state" where
  "wifi_put_nvram e addr buf timeout =
     (if addr < 0x003AD000 \<or> addr \<ge> 0x003ED000 then return (- EINVAL)
      else if length buf > WIFI_MSG_SIZE - 50 then return (- EINVAL)
      else guarded (\<lambda>r. r) (do {
        tp \<leftarrow> gets (\<lambda>s. now s + timeout);
        locked e timeout (- EBUSY) (do {
          s \<leftarrow> State_Monad.get;
          if \<not> malloc_ok e (length buf + 50) s then return (- ENOMEM)
          else do {
            left \<leftarrow> ms_left tp;
            ret \<leftarrow> wifi_send_timeout e (take 49 (''AT+FLASHWRITE='' @ show_hex True addr @ '','') @ buf) left;
            if ret \<noteq> 0 then return ret
            else do {
              s \<leftarrow> State_Monad.get;
              answers e tp None put_nvram_body (- EAGAIN)
                (wifi_add_wait_msg (ERROR_TXT ''%50s'') True [stale e 50 s]
                  (wifi_add_wait_msg OK_TXT True [] [])) ()
            }
          }
        })
      }))"

section \<open>Addresses and crystal\<close>

text \<open>
  Three patterns share one buffer, which is the result: after a round the entries behind the first
  two hold what the entry that matched holds.
\<close>

definition share_buf :: "int \<Rightarrow> wait_entry list \<Rightarrow> wait_entry list" where
  "share_buf ret wm =
     (if ret < 2 then wm
      else map2 (\<lambda>i w. if i \<ge> 2 then w\<lparr>we_bufs := we_bufs (wm ! nat ret)\<rparr> else w) [0..<length wm] wm)"

definition mac_body ::
  "int \<Rightarrow> wait_entry list \<Rightarrow> int option \<Rightarrow> (int option, string option \<times> int option) verdict" where
  "mac_body ret wm which =
     (if ret < 0 then Done (None, which)
      else if ret = 0 then Done (Some (got wm 2), which)
      else if ret = 1 then Done (None, which)
      else Again (share_buf ret wm) (Some (ret - 2)))"

definition mac_patterns :: "wenv \<Rightarrow> bool \<Rightarrow> wifi \<Rightarrow> wait_entry list" where
  "mac_patterns e stop s =
     wifi_add_wait_msg ''+WFOTP:%50s'' stop [replicate 50 NUL]
       (wifi_add_wait_msg ''+WFSPF:%50s'' stop [replicate 50 NUL]
         (wifi_add_wait_msg ''+WFMAC:%50s'' stop [replicate 50 NUL]
           (wifi_add_wait_msg (ERROR_TXT ''%50s'') True [stale e 50 s]
             (wifi_add_wait_msg OK_TXT True [] []))))"

definition wifi_get_mac :: "wenv \<Rightarrow> nat \<Rightarrow> (wifi, string option \<times> int option) state" where
  "wifi_get_mac e timeout =
     asking e (\<lambda>r. (None, None)) False ''AT+WFMAC=?'' timeout (mac_patterns e True) mac_body None"

text \<open>Here the buffer is not read; setting differs from writing the flash memory in its patterns only.\<close>

definition wifi_set_mac :: "wenv \<Rightarrow> string \<Rightarrow> nat \<Rightarrow> (wifi, int) state" where
  "wifi_set_mac e newmac timeout =
     asking e (\<lambda>r. r) False (take 49 (''AT+WFSPF='' @ newmac)) timeout (mac_patterns e False)
       put_nvram_body ()"

definition xtal_body :: "int \<Rightarrow> wait_entry list \<Rightarrow> unit \<Rightarrow> (unit, int) verdict" where
  "xtal_body ret wm u =
     (if ret < 0 then Done ret
      else if ret = 0 then Done (strtol16 (got wm 2))
      else if ret = 1 then Done (- EBADE) else Again wm ())"

definition wifi_get_xtal :: "wenv \<Rightarrow> nat \<Rightarrow> (wifi, int) state" where
  "wifi_get_xtal e timeout =
     asking e (\<lambda>r. r) False ''AT+XTALRD'' timeout
       (\<lambda>s. wifi_add_wait_msg ''0x%50s'' False [replicate 50 NUL]
              (wifi_add_wait_msg (ERROR_TXT ''%50s'') True [stale e 50 s]
                (wifi_add_wait_msg OK_TXT True [] [])))
       xtal_body ()"

definition wifi_set_xtal :: "wenv \<Rightarrow> int \<Rightarrow> nat \<Rightarrow> (wifi, int) state" where
  "wifi_set_xtal e newval timeout =
     wifi_send_ok_err_atcmd e (take 49 (''AT+XTALWR='' @ show_hexi newval)) timeout"

definition wifi_stop_XTAL_test :: "wenv \<Rightarrow> (wifi, unit) state" where
  "wifi_stop_XTAL_test e = do {
     ret \<leftarrow> wifi_send_ok_err_atcmd e ''AT+TMRFNOINIT=0'' 100;
     if ret \<noteq> 0 then skip
     else do { wifi_send_ok_err_atcmd e ''AT+RESTART'' 100; skip }
   }"

definition wifi_start_XTAL_test :: "wenv \<Rightarrow> (wifi, int) state" where
  "wifi_start_XTAL_test e = guarded (\<lambda>r. r) (locked e 0 (- EBUSY) (do {
     ret \<leftarrow> wifi_send_ok_err_atcmd e ''AT+TMRFNOINIT=1'' 1000;
     if ret < 0 then return ret
     else do {
       ret \<leftarrow> wifi_send_ok_err_atcmd e ''AT+RESTART'' 1000;
       if ret < 0 then return ret
       else do {
         k_sleep_ms e 3000;
         ret \<leftarrow> wifi_send_ok_err_atcmd e ''AT+RFTESTSTART'' 1000;
         if ret < 0 then do { wifi_stop_XTAL_test e; return ret }
         else do {
           ret \<leftarrow> wifi_send_ok_err_atcmd e ''AT+RFCWTEST=2412,0,0'' 1000;
           whenever (ret < 0) (wifi_stop_XTAL_test e);
           return ret
         }
       }
     }
   }))"

end
