(* ===== verification/NetMonitor.thy ===== *)
theory NetMonitor
  imports NetEvents SavedAps
begin

text \<open>
  The callback through which the network manager watches every message of the DA16200
  (\<open>net_monitor_DA\<close> of \<^verbatim>\<open>commercial_collar/src/wifi/src/net_mgr.c\<close>) and the handlers it calls: start and
  wake-up of the chip, access points, subscribed topics, messages from the cloud, and the simple
  state reports.  A pointer into the message is its text from there.
\<close>

section \<open>Start and wake-up\<close>

definition lost_ap :: "wenv \<Rightarrow> (wifi, unit) state" where
  "lost_ap e = do {
     s \<leftarrow> State_Monad.get;
     whenever (ap_connected (da (ww s)) = DA_STATE_KNOWN_TRUE) remember_ap_name;
     forget_ap;
     send_zbus_tri_event e V_AP_CONNECTED DA_STATE_KNOWN_FALSE;
     send_zbus_tri_event e V_AP_SAFE DA_STATE_UNKNOWN
   }"

definition net_handle_DA_Init :: "wenv \<Rightarrow> string \<Rightarrow> (wifi, unit) state" where
  "net_handle_DA_Init e msgPtr = do {
     s \<leftarrow> State_Monad.get;
     let subtype = drop 8 msgPtr;
     if \<not> uicr_in_factory_flag_get (u_mem s) \<and> \<not> uicr_shipping_flag_get (u_mem s) then queue_da_init_work
     else if starts_with ''DONE'' subtype
     then do {
       (case strstr subtype '',DPM='' of
         None \<Rightarrow> skip
       | Some i \<Rightarrow>
           let dpmstate = drop i subtype;
               tri = (if starts_with '',DPM=0'' dpmstate then DA_STATE_KNOWN_FALSE
                      else if starts_with '',DPM=1'' dpmstate then DA_STATE_KNOWN_TRUE
                      else DA_STATE_UNKNOWN)
           in send_zbus_tri_event e V_DPM_MODE tri);
       if ota_st (my_ota_info s) \<noteq> 4 \<and> \<not> g_rebooting_da s
       then send_zbus_tri_event e V_IS_SLEEPING DA_STATE_KNOWN_FALSE
       else do {
         modify (\<lambda>s. s\<lparr>g_rebooting_da := False\<rparr>);
         queue_da_init_work;
         publish e DA_EVENT_TYPE_DA_RESTARTED (EvTri DA_STATE_UNKNOWN) (EvTri DA_STATE_KNOWN_TRUE);
         send_zbus_int_event e DA_EVENT_TYPE_REBOOT_CNT (reboot_cnt (dax s) + 1)
           (\<lambda>s. reboot_cnt (dax s)) (\<lambda>v. upd_more (\<lambda>d. d\<lparr>reboot_cnt := v\<rparr>)) False;
         lost_ap e;
         send_zbus_tri_event e V_IS_SLEEPING DA_STATE_KNOWN_FALSE;
         send_zbus_tri_event e V_MQTT_BROKER_CONNECTED DA_STATE_KNOWN_FALSE
       }
     }
     else if starts_with ''WAKEUP,'' subtype
     then do {
       let waketype = drop 7 subtype;
       queue_WAKEUP_work;
       send_zbus_tri_event e V_DPM_MODE DA_STATE_KNOWN_TRUE;
       whenever (starts_with ''DEAUTH'' waketype \<or> starts_with ''NOBCN'' waketype) (do {
         lost_ap e;
         send_zbus_tri_event e V_MQTT_BROKER_CONNECTED DA_STATE_KNOWN_FALSE
       })
     }
     else skip
   }"

section \<open>Access points\<close>

text \<open>
  \<open>net_handle_DA_APConn\<close>: \<open>sub\<close> is the position of \<open>msgPtr\<close> in the message.  Names and addresses are
  compared over the length of the new one.
\<close>

definition net_handle_DA_APConn :: "wenv \<Rightarrow> wifi_msg \<Rightarrow> string \<Rightarrow> nat \<Rightarrow> (wifi, unit) state" where
  "net_handle_DA_APConn e msg t sub =
     (case strchr (drop sub t) (CHR 0x27) of
        None \<Rightarrow> skip
      | Some i \<Rightarrow>
          let apname = drop (sub + i + 1) t;
              apnamelen = length (takeWhile (\<lambda>c. c \<noteq> CHR 0x27) apname);
              ip = drop (apnamelen + 2) apname;
              iplen = length (takeWhile (\<lambda>c. c = CHR ''.'' \<or> isdigit c) ip)
          in if sub + i + 1 + apnamelen + 2 \<ge> m_len msg then skip
             else if iplen < 8 \<or> iplen > 15 then skip
             else do {
               s \<leftarrow> State_Monad.get;
               whenever (\<not> strneq apnamelen apname (ap_name (da (ww s))))
                 (upd_da (\<lambda>d. d\<lparr>ap_name := take (min 32 apnamelen) apname\<rparr>));
               whenever (\<not> strneq iplen ip (ip_address (da (ww s))))
                 (upd_da (\<lambda>d. d\<lparr>ip_address := take (min 20 iplen) ip\<rparr>));
               send_zbus_tri_event e V_AP_CONNECTED DA_STATE_KNOWN_TRUE;
               s \<leftarrow> State_Monad.get;
               let apidx = wifi_find_saved_ssid (ap_name (da (ww s))) (ww s);
               if apidx \<ge> 0
               then send_zbus_tri_event e V_AP_SAFE (tri_of_bool (wifi_saved_ssid_safe apidx (ww s)))
               else send_zbus_tri_event e V_AP_SAFE DA_STATE_KNOWN_FALSE
             })"

definition net_stage_ssid_for_saving ::
  "string \<Rightarrow> string \<Rightarrow> 16 word \<Rightarrow> 16 word \<Rightarrow> 16 word \<Rightarrow> bool \<Rightarrow> (wifi, unit) state" where
  "net_stage_ssid_for_saving ssid pass sec keyidx enc hidden =
     modify (\<lambda>s. s\<lparr>g_last_conn_attempt := \<lparr>sa_ssid = strncpy_z 32 ssid, sa_password = strncpy_z 64 pass,
       sa_sec = sec, sa_keyidx = keyidx, sa_enc = enc, sa_hidden = hidden, sa_time = utc_time (ww s)\<rparr>\<rparr>)"

definition net_unstage_ssid_for_saving :: "(wifi, unit) state" where
  "net_unstage_ssid_for_saving =
     modify (\<lambda>s. s\<lparr>g_last_conn_attempt := (g_last_conn_attempt s)\<lparr>sa_ssid := [], sa_password := []\<rparr>\<rparr>)"

text \<open>
  The default reason is computed and not used.  An unknown \<open>ap_connected\<close> counts as connected.
\<close>

definition net_handle_DA_APDiscon :: "wenv \<Rightarrow> string \<Rightarrow> (wifi, unit) state" where
  "net_handle_DA_APDiscon e t = do {
     net_unstage_ssid_for_saving;
     (case (case strstr t (CRLF @ ''+WFDAP:0'') of Some i \<Rightarrow> Some i | None \<Rightarrow> strstr t (CRLF @ ''+WFJAP:0'')) of
       None \<Rightarrow> skip
     | Some i \<Rightarrow> send_zbus_string_event e DA_EVENT_TYPE_DISCONNECT_REASON (drop (i + 10) t)
         (\<lambda>v. upd_da (\<lambda>d. d\<lparr>ap_disconnect_reason := v\<rparr>)) 40);
     queue_disconn_work;
     send_zbus_tri_event e V_IS_SLEEPING DA_STATE_KNOWN_FALSE;
     s \<leftarrow> State_Monad.get;
     whenever (tri_int (ap_connected (da (ww s))) \<noteq> 0) remember_ap_name;
     forget_ap;
     send_zbus_tri_event e V_AP_CONNECTED DA_STATE_KNOWN_FALSE;
     send_zbus_tri_event e V_AP_SAFE DA_STATE_KNOWN_FALSE;
     send_zbus_int_event e DA_EVENT_TYPE_RSSI RSSI_NOT_CONNECTED
       (\<lambda>s. da_rssi (da (ww s))) (\<lambda>v. upd_da (\<lambda>d. d\<lparr>da_rssi := v\<rparr>)) False
   }"

section \<open>Subscribed topics\<close>

text \<open>
  The loop over the topics, from topic \<open>i\<close> on: \<open>None\<close> when a quote is missing, which ends the
  handler.  A topic is cut at 44 characters, one more than its array holds.
\<close>

fun sub_topics :: "nat \<Rightarrow> int \<Rightarrow> string \<Rightarrow> string list \<Rightarrow> (string list \<times> bool) \<times> bool" where
  "sub_topics i n sub [] = (([], False), True)"
| "sub_topics i n sub (t # ts) =
     (if int i \<ge> n
      then (let ((ts', ch), ok) = sub_topics (i + 1) n sub ts in (([] # ts', ch \<or> t \<noteq> []), ok))
      else (case strchr sub (CHR 0x22) of
        None \<Rightarrow> ((t # ts, False), False)
      | Some q \<Rightarrow>
          let name = drop (q + 1) sub;
              sublen = length (takeWhile (\<lambda>c. c \<noteq> CHR 0x22) name);
              differs = \<not> strneq sublen name t;
              t' = (if differs then take (min sublen (CONFIG_IOT_MAX_TOPIC_LENGTH + 1)) name else t);
              ((ts', ch), ok) = sub_topics (i + 1) n (drop (sublen + 1) name) ts
          in ((t' # ts', ch \<or> differs), ok)))"

definition net_handle_DA_SubTopic :: "wenv \<Rightarrow> string \<Rightarrow> (wifi, unit) state" where
  "net_handle_DA_SubTopic e msgPtr = do {
     s \<leftarrow> State_Monad.get;
     let num_topics = atoi (drop 10 msgPtr);
     if num_topics > int CONFIG_IOT_MAX_TOPIC_NUM then skip
     else do {
       let ((topics, ch), ok) = sub_topics 0 num_topics (drop 12 msgPtr) (mqtt_sub_topics (dax s));
       let topics_changed = (ch \<or> mqtt_sub_topic_count (dax s) \<noteq> num_topics);
       upd_more (\<lambda>d. d\<lparr>mqtt_sub_topics := topics\<rparr>);
       whenever (ok \<and> topics_changed) (do {
         whenever (mqtt_sub_topic_count (dax s) = num_topics)
           (upd_more (\<lambda>d. d\<lparr>mqtt_sub_topic_count := num_topics + 1\<rparr>));
         send_zbus_int_event e DA_EVENT_TYPE_MQTT_SUB_TOP_CHANGED num_topics
           (\<lambda>s. mqtt_sub_topic_count (dax s)) (\<lambda>v. upd_more (\<lambda>d. d\<lparr>mqtt_sub_topic_count := v\<rparr>)) True
       })
     }
   }"

section \<open>Messages from the cloud\<close>

text \<open>
  The positions of the commas from the end.  The test for \<open>i < 0\<close> after the loop never holds, so that
  a message with fewer than two commas is read through a null pointer.
\<close>

definition commas_from_end :: "string \<Rightarrow> nat \<Rightarrow> nat list" where
  "commas_from_end bytes len = filter (\<lambda>i. i < length bytes \<and> bytes ! i = CHR '','') (rev [1..<Suc len])"

text \<open>
  The copy of the message that goes with the payload is made before the reference count is
  raised: the copy counts one reference, the structure the queue will hold counts two.
\<close>

definition net_handle_DA_MQTT_Msg :: "wenv \<Rightarrow> wifi_msg \<Rightarrow> nat \<Rightarrow> (wifi, wifi_msg) state" where
  "net_handle_DA_MQTT_Msg e msg sub = do {
     s \<leftarrow> State_Monad.get;
     let bytes = msg_bytes e (m_data msg) s;
     case commas_from_end bytes (m_len msg) of
       l # t # _ \<Rightarrow>
         let msglen = atoi (cstr (drop (l + 1) bytes));
             topicstr = cstr (drop (t + 1) bytes)
         in if msglen > int (m_len msg) then return msg
            else if \<not> starts_with ''messages/'' topicstr then return msg
            else if strchr (drop 9 topicstr) (CHR ''/'') = None then return msg
            else if \<not> malloc_ok e 24 s then return msg
            else do {
              whenever (zbus_ret e s = 0) (modify (\<lambda>s. s\<lparr>mqtt_incoming := mqtt_incoming s @
                [\<lparr>mi_copy = msg, mi_topic = take (l - t - 1) topicstr, mi_offset = sub + 11, mi_len = msglen\<rparr>]\<rparr>));
              return (wifi_inc_ref_count msg)
            }
     | _ \<Rightarrow> do { modify (\<lambda>s. s\<lparr>null_deref := True\<rparr>); return msg }
   }"

text \<open>The end of the cloud side's work on a message: its copy is freed.\<close>

definition free_mqtt_copy :: "(wifi, unit) state" where
  "free_mqtt_copy = do {
     q \<leftarrow> gets mqtt_incoming;
     case q of [] \<Rightarrow> skip
     | m # rest \<Rightarrow> do { modify (\<lambda>s. s\<lparr>mqtt_incoming := rest\<rparr>); wifi_msg_free (mi_copy m); skip }
   }"

section \<open>State reports\<close>

definition net_handle_DA_DPM :: "wenv \<Rightarrow> string \<Rightarrow> (wifi, unit) state" where
  "net_handle_DA_DPM e t =
     (if strstr t (CRLF @ ''+DPM:1'') \<noteq> None then send_zbus_tri_event e V_DPM_MODE DA_STATE_KNOWN_TRUE
      else if strstr t (CRLF @ ''+DPM:0'') \<noteq> None then send_zbus_tri_event e V_DPM_MODE DA_STATE_KNOWN_FALSE
      else if strstr t (CRLF @ ''+DPM_ABNORM_SLEEP'') \<noteq> None
      then do {
        send_zbus_tri_event e V_DPM_MODE DA_STATE_KNOWN_TRUE;
        send_zbus_tri_event e V_IS_SLEEPING DA_STATE_KNOWN_TRUE
      }
      else skip)"

text \<open>
  One line of the list of saved access points: index, name and, as its sixth field, the safe flag;
  \<open>strtok\<close> skips empty fields.
\<close>

definition add_to_list :: "string \<Rightarrow> shadow_zone list \<Rightarrow> shadow_zone list" where
  "add_to_list line zs =
     fold (\<lambda>i zs.
       if line \<noteq> [] \<and> hd line = char_of (48 + i) \<and> tl line \<noteq> [] \<and> hd (tl line) = CHR '',''
       then (case tokens (CHR '','') (drop 2 line) of
          [] \<Rightarrow> zs
        | ssid # flds \<Rightarrow> zs[i := \<lparr>z_ssid = strncpy_z 32 ssid,
            z_safe = (if length flds > 4 then hd (flds ! 4) = CHR ''1'' else z_safe (zs ! i))\<rparr>])
       else zs) [0..<MAX_SAVED_SSIDS] zs"

definition wifi_add_SSID_to_cached_list :: "string \<Rightarrow> (wifi, unit) state" where
  "wifi_add_SSID_to_cached_list line = modify (\<lambda>s. s\<lparr>ww := (ww s)
     \<lparr>cached_zones := add_to_list line (cached_zones (ww s)), cached_zones_valid := True\<rparr>\<rparr>)"

primrec add_lines :: "string list \<Rightarrow> (wifi, unit) state" where
  "add_lines [] = skip"
| "add_lines (l # ls) = do { wifi_add_SSID_to_cached_list l; add_lines ls }"

section \<open>The callback\<close>

definition LAST_CMD_LEN :: nat where "LAST_CMD_LEN = 40"

definition after_prefix :: "string \<Rightarrow> string \<Rightarrow> string option" where
  "after_prefix t p = map_option (\<lambda>i. drop i t) (strstr t (CRLF @ p))"

definition byte_digit :: "string \<Rightarrow> nat \<Rightarrow> 8 word" where
  "byte_digit t i = (if i < length t then char_byte (t ! i) else 0) - 48"

text \<open>The reports of one line that only change a variable, in the order of the tests.\<close>

definition net_monitor_report :: "wenv \<Rightarrow> wifi_msg \<Rightarrow> string \<Rightarrow> (wifi, wifi_msg) state" where
  "net_monitor_report e msg t =
     (case after_prefix t ''+NWCCRT:'' of Some sub \<Rightarrow> do {
        send_zbus_tri_event e V_MQTT_CERTS (tri_of_bool ((of_int (atoi (drop 10 sub)) :: 32 word) AND 7 \<noteq> 0));
        return msg }
      | None \<Rightarrow> (case strstr t (CRLF @ ''+NWMQMSG:'') of Some i \<Rightarrow> do {
        msg \<leftarrow> net_handle_DA_MQTT_Msg e msg i;
        queue_get_time_work e;
        return msg }
      | None \<Rightarrow> (case after_prefix t ''+NWMQAUTO:'' of Some sub \<Rightarrow> do {
        send_zbus_tri_event e V_MQTT_ON_BOOT (tri_of_bool (atoi (drop 12 sub) = 1));
        return msg }
      | None \<Rightarrow> (case after_prefix t ''+WFDIS:'' of Some sub \<Rightarrow> do {
        send_zbus_tri_event e V_AP_PROFILE_DISABLED (tri_of_bool (take 1 (drop 9 sub) = ''1''));
        return msg }
      | None \<Rightarrow> (case after_prefix t ''+NWHTCSTATUS:'' of Some sub \<Rightarrow> wifi_at_http_status e msg
      | None \<Rightarrow> (case after_prefix t ''+NWHTCDATA:'' of Some sub \<Rightarrow> wifi_at_http_write e msg
      | None \<Rightarrow> (case after_prefix t ''+NWOTADWSTART:'' of Some sub \<Rightarrow> do {
        modify (\<lambda>s. s\<lparr>ota_last_start_result := take 4 (drop 16 sub)\<rparr>);
        return msg }
      | None \<Rightarrow> (case after_prefix t ''+SSIDLIST:'' of Some sub \<Rightarrow> do {
        s \<leftarrow> State_Monad.get;
        whenever (malloc_ok e (m_len msg + 2) s)
          (add_lines (tokens (CHR 0x0A) (drop (length t - length sub) (take (m_len msg) t))));
        return msg }
      | None \<Rightarrow> (case after_prefix t ''+VER:FRTOS-GEN01-01-TDEVER_'' of Some sub \<Rightarrow> do {
        send_zbus_version_event e [byte_digit sub 29, byte_digit sub 30, byte_digit sub 31];
        return msg }
      | None \<Rightarrow> return msg)))))))))"

definition net_monitor_DA :: "wenv \<Rightarrow> wifi_msg \<Rightarrow> (wifi, wifi_msg) state" where
  "net_monitor_DA e msg = do {
     s \<leftarrow> State_Monad.get;
     let t = msg_text e msg s;
     if m_incoming msg
     then (case after_prefix t ''+INIT:'' of Some sub \<Rightarrow> do {
        whenever (uicr_shipping_flag_get (u_mem s) \<or> \<not> uicr_in_factory_flag_get (u_mem s)) (net_handle_DA_Init e sub);
        return msg }
      | None \<Rightarrow> (case after_prefix t ''+WFJAP:'' of Some sub \<Rightarrow> do {
        (case strstr t (CRLF @ ''+WFJAP:1'') of None \<Rightarrow> skip | Some i \<Rightarrow> net_handle_DA_APConn e msg t i);
        (case strstr t (CRLF @ ''+WFJAP:0'') of None \<Rightarrow> skip | Some i \<Rightarrow> net_handle_DA_APDiscon e t);
        return msg }
      | None \<Rightarrow> (case after_prefix t ''+WFDAP'' of Some sub \<Rightarrow> do {
        net_handle_DA_APDiscon e t;
        return msg }
      | None \<Rightarrow> (case after_prefix t ''+DPM'' of Some sub \<Rightarrow> do {
        net_handle_DA_DPM e t;
        return msg }
      | None \<Rightarrow> (case after_prefix t ''+TIME'' of Some sub \<Rightarrow> do {
        modify (\<lambda>s. s\<lparr>time_strings := time_strings s @ [sub]\<rparr>);
        return msg }
      | None \<Rightarrow> (case after_prefix t ''+RSSI:'' of Some sub \<Rightarrow> do {
        let d = drop 8 sub;
        let rssi = (if d \<noteq> [] \<and> (hd d = CHR ''-'' \<or> isdigit (hd d)) then fst (strtol10 d) else RSSI_NOT_CONNECTED);
        send_zbus_int_event e DA_EVENT_TYPE_RSSI rssi
          (\<lambda>s. da_rssi (da (ww s))) (\<lambda>v. upd_da (\<lambda>d. d\<lparr>da_rssi := v\<rparr>)) False;
        return msg }
      | None \<Rightarrow> (case after_prefix t ''+NWMQCL:1'' of Some sub \<Rightarrow> do {
        queue_get_time_work e;
        send_zbus_tri_event e V_MQTT_ENABLED DA_STATE_KNOWN_TRUE;
        send_zbus_tri_event e V_MQTT_BROKER_CONNECTED DA_STATE_KNOWN_TRUE;
        return msg }
      | None \<Rightarrow> (case after_prefix t ''+NWMQCL:0'' of Some sub \<Rightarrow> do {
        send_zbus_tri_event e V_MQTT_BROKER_CONNECTED DA_STATE_KNOWN_FALSE;
        return msg }
      | None \<Rightarrow> (case after_prefix t ''+NWMQMSGSND'' of Some sub \<Rightarrow> do {
        send_zbus_timestamp_event e DA_EVENT_TYPE_MQTT_MSG_SENT (now s)
          (\<lambda>s. mqtt_last_msg_time (dax s)) (\<lambda>v. upd_more (\<lambda>d. d\<lparr>mqtt_last_msg_time := v\<rparr>));
        queue_get_time_work e;
        return msg }
      | None \<Rightarrow> (case after_prefix t ''+NWMQTS:'' of Some sub \<Rightarrow> do {
        net_handle_DA_SubTopic e sub;
        return msg }
      | None \<Rightarrow> net_monitor_report e msg t))))))))))
     else do {
       upd_more (\<lambda>d. d\<lparr>last_cmd := strncpy_z (LAST_CMD_LEN - 1) t\<rparr>);
       return msg
     }
   }"

text \<open>
  The environment of the running system: the network manager's callback is registered.  The
  callback of the Bluetooth service and the shell's bypass keep to their own state.
\<close>

definition monitored :: "wenv \<Rightarrow> wenv" where
  "monitored e = e\<lparr>on_msg := (\<lambda>cb msg. if cb = NET_MONITOR then net_monitor_DA e msg else return msg)\<rparr>"

end
