(* ===== verification/WifiScan.thy ===== *)
theory WifiScan
  imports WifiAsk NetMonitor SavedAps
begin

text \<open>
  Finding and joining an access point in \<^verbatim>\<open>commercial_collar/src/wifi/src/wifi_at.c\<close>: the scan that is
  kept for the application, the list of saved access points, the command to join one, and the start
  of a download over HTTP.  The names \<open>..._da\<close> are the versions of functions that \<^verbatim>\<open>SavedAps\<close> models
  for the radio manager with the exchange as a call of the environment.
\<close>

section \<open>Keeping the scan\<close>

definition u64 :: "int \<Rightarrow> int" where
  "u64 i = i mod 2 ^ 64"

text \<open>What \<open>parse_wfscan\<close> leaves in the list; entries behind its end keep their contents.\<close>

definition keep_scan :: "string \<Rightarrow> bool \<Rightarrow> (wifi, unit) state" where
  "keep_scan sub skip_hidden = modify (\<lambda>s.
     let objs = parse_wfscan sub skip_hidden (ssid_array s)
     in s\<lparr>ssid_array := (\<lambda>i. if i < length objs then objs ! i else ssid_array s i),
          ww := (ww s)\<lparr>g_last_ssid_list := map (\<lambda>w. (wo_ssid w, wo_rssi w)) objs,
                       g_last_ssid_scan_time := utc_time (ww s)\<rparr>\<rparr>)"

text \<open>
  A message is looked at for \<open>ERROR\<close>, then \<open>OK\<close>, then the scan.  After \<open>OK\<close> the message has been given
  back and its pointer is \<open>NULL\<close> when the scan is searched in it.  A message with none of them is
  not given back.
\<close>

definition refresh_msg ::
  "wenv \<Rightarrow> bool \<Rightarrow> wifi_msg \<Rightarrow> bool \<Rightarrow> bool \<Rightarrow> (wifi, int option \<times> bool \<times> bool) state" where
  "refresh_msg e skip_hidden msg got_ok got_scan = do {
     s \<leftarrow> State_Monad.get;
     let t = msg_text e msg s;
     if strstr t (CRLF @ ''ERROR'') \<noteq> None
     then do { wifi_msg_free msg; return (Some (- EBADE), got_ok, got_scan) }
     else do {
       let ok = (strstr t OK_TXT \<noteq> None);
       msg \<leftarrow> (if ok then wifi_msg_free msg else return msg);
       let got_ok = (got_ok \<or> ok);
       if ok \<and> got_scan then return (Some 0, got_ok, got_scan)
       else do {
         whenever (m_data msg = Null) (modify (\<lambda>s. s\<lparr>null_deref := True\<rparr>));
         s \<leftarrow> State_Monad.get;
         let t = msg_text e msg s;
         case strstr t (CRLF @ ''+WFSCAN:'') of
           None \<Rightarrow> return (None, got_ok, got_scan)
         | Some i \<Rightarrow> do {
             keep_scan (drop i t) skip_hidden;
             wifi_msg_free msg;
             return (if got_ok then Some 0 else None, got_ok, True)
           }
       }
     }
   }"

primrec refresh_loop ::
  "wenv \<Rightarrow> nat \<Rightarrow> nat \<Rightarrow> bool \<Rightarrow> bool \<Rightarrow> bool \<Rightarrow> (wifi, int option) state" where
  "refresh_loop e 0 tp skip_hidden got_ok got_scan = return None"
| "refresh_loop e (Suc n) tp skip_hidden got_ok got_scan = do {
     left \<leftarrow> ms_left tp;
     (ret, m) \<leftarrow> wifi_recv e left;
     case m of
       None \<Rightarrow> return (Some ret)
     | Some msg \<Rightarrow> do {
         (r, got_ok, got_scan) \<leftarrow> refresh_msg e skip_hidden msg got_ok got_scan;
         case r of Some ret \<Rightarrow> return (Some ret) | None \<Rightarrow> refresh_loop e n tp skip_hidden got_ok got_scan
       }
   }"

text \<open>The ages are compared as unsigned numbers of 64 bits.\<close>

definition scan_is_fresh :: "int \<Rightarrow> wifi \<Rightarrow> bool" where
  "scan_is_fresh max_age_sec s \<longleftrightarrow>
     int (now s) > u64 (max_age_sec * 1000) \<and>
     u64 (int (utc_time (ww s)) - int (g_last_ssid_scan_time (ww s))) < u64 max_age_sec"

definition wifi_refresh_ssid_list :: "wenv \<Rightarrow> bool \<Rightarrow> int \<Rightarrow> nat \<Rightarrow> (wifi, int) state" where
  "wifi_refresh_ssid_list e skip_hidden max_age_sec timeout = do {
     s \<leftarrow> State_Monad.get;
     let tp = now s + timeout;
     if scan_is_fresh max_age_sec s then return 0
     else guarded (\<lambda>r. r) (locked e timeout (- EBUSY) (do {
       left \<leftarrow> ms_left tp;
       wifi_flush_msgs e;
       ret \<leftarrow> wifi_send_timeout e ''AT+WFSCAN'' left;
       if ret \<noteq> 0 then return ret
       else do {
         n \<leftarrow> gets wait_rounds;
         r \<leftarrow> refresh_loop e n tp skip_hidden False False;
         return (case r of Some r \<Rightarrow> r | None \<Rightarrow> - EAGAIN)
       }
     }))
   }"

section \<open>The saved access points\<close>

definition MAX_SSIDLIST_RESPONSE :: nat where "MAX_SSIDLIST_RESPONSE = 274"

text \<open>
  The pattern takes up to 300 bytes into a block of 274.  All lines of the block are looked at once
  the header is somewhere in it.  \<open>errstr\<close> starts with the minus of the code.
\<close>

definition ap_list_body ::
  "int \<Rightarrow> wait_entry list \<Rightarrow> bool \<times> bool \<times> shadow_zone list \<Rightarrow>
   (bool \<times> bool \<times> shadow_zone list, int \<times> bool \<times> shadow_zone list) verdict" where
  "ap_list_body ret wm st = (case st of (got_ok, got_list, zones) \<Rightarrow>
     (if ret < 0 then Done (ret, False, zones)
      else if ret = 1
      then Done (if got wm 1 \<noteq> [] \<and> hd (got wm 1) = CHR ''-'' then - atoi (tl (got wm 1)) else - EBADE,
                 False, zones)
      else
        let got_ok = (got_ok \<or> ret = 0);
            hit = (ret = 2 \<and> strstr (got wm 2) ''+SSIDLIST:'' \<noteq> None);
            zones = (if hit then fold add_to_list (tokens (CHR 0x0A) (got wm 2)) zones else zones);
            got_list = (got_list \<or> hit)
        in if got_list \<and> got_ok then Done (ret, True, zones) else Again wm (got_ok, got_list, zones)))"

text \<open>
  The list the caller gets, empty when its array is not written; the cache takes it when it is
  complete.  The result of a complete list is the index of the pattern that came last.
\<close>

definition wifi_get_ap_list_da :: "wenv \<Rightarrow> nat \<Rightarrow> (wifi, int \<times> shadow_zone list) state" where
  "wifi_get_ap_list_da e timeout = do {
     s \<leftarrow> State_Monad.get;
     if cached_zones_valid (ww s) then return (0, cached_zones (ww s))
     else guarded (\<lambda>r. (r, [])) (do {
       tp \<leftarrow> gets (\<lambda>s. now s + timeout);
       let empty = replicate MAX_SAVED_SSIDS \<lparr>z_ssid = [], z_safe = False\<rparr>;
       locked e timeout (- EBUSY, []) (do {
         s \<leftarrow> State_Monad.get;
         if \<not> malloc_ok e MAX_SSIDLIST_RESPONSE s then return (- ENOMEM, empty)
         else do {
           left \<leftarrow> ms_left tp;
           ret \<leftarrow> wifi_send_timeout e ''AT+SSIDLIST='' left;
           if ret \<noteq> 0 then return (ret, empty)
           else do {
             s \<leftarrow> State_Monad.get;
             (ret, complete, zones) \<leftarrow> answers e tp None ap_list_body (- EAGAIN, False, empty)
               (wifi_add_wait_msg ''%300s'' True [replicate MAX_SSIDLIST_RESPONSE NUL]
                 (wifi_add_wait_msg (CRLF @ ''ERROR:%19s'' @ CRLF) True [stale e 64 s]
                   (wifi_add_wait_msg OK_TXT True [] []))) (False, False, empty);
             whenever complete (modify (\<lambda>s. s\<lparr>ww := (ww s)\<lparr>cached_zones := zones, cached_zones_valid := True\<rparr>\<rparr>));
             return (ret, zones)
           }
         }
       })
     })
   }"

definition wifi_disconnect_from_AP_da :: "wenv \<Rightarrow> nat \<Rightarrow> (wifi, int) state" where
  "wifi_disconnect_from_AP_da e timeout = guarded (\<lambda>r. r) (locked e timeout (- EBUSY) (do {
     wifi_send_ok_err_atcmd e ''AT+WFDIS=1'' timeout;
     wifi_send_ok_err_atcmd e ''AT+WFQAP'' timeout
   }))"

section \<open>Joining\<close>

text \<open>The result and the command, which is cut to the 127 characters of its array.\<close>

definition connect_param_check ::
  "string \<Rightarrow> string \<Rightarrow> int \<Rightarrow> int \<Rightarrow> int \<Rightarrow> int \<Rightarrow> wifi \<Rightarrow> int \<times> string" where
  "connect_param_check ssid key sec keyidx enc hidden s =
     (let jap = ''AT+WFJAP='' @ [CHR 0x27] @ ssid @ [CHR 0x27] @ '','' @ show_int sec;
          cmd = (\<lambda>t. (0, take 127 (jap @ '','' @ t)))
      in if is_sleeping (da (ww s)) = DA_STATE_KNOWN_TRUE then (- ENXIO, [])
         else if length ssid > 32 then (- EINVAL, [])
         else if sec < 0 \<or> sec > 7 then (- EINVAL, [])
         else if hidden < 0 \<or> hidden > 1 then (- EINVAL, [])
         else if sec = 0 \<or> sec = 5 then cmd (show_int hidden)
         else if length key > 63 then (- EINVAL, [])
         else if sec = 1
         then (if keyidx < 0 \<or> keyidx > 3 then (- EINVAL, [])
               else cmd (show_int keyidx @ '','' @ key @ '','' @ show_int hidden))
         else (if enc < 0 \<or> enc > 2 then (- EINVAL, [])
               else cmd (show_int enc @ '','' @ key @ '','' @ show_int hidden)))"

definition wifi_initiate_connect_to_ssid ::
  "wenv \<Rightarrow> string \<Rightarrow> string \<Rightarrow> int \<Rightarrow> int \<Rightarrow> int \<Rightarrow> int \<Rightarrow> nat \<Rightarrow> (wifi, int) state" where
  "wifi_initiate_connect_to_ssid e ssid key sec keyidx enc hidden timeout = do {
     s \<leftarrow> State_Monad.get;
     let (ret, cmd) = connect_param_check ssid key sec keyidx enc hidden s;
     if ret \<noteq> 0 then return ret
     else do {
       ret \<leftarrow> wifi_send_ok_err_atcmd e cmd timeout;
       s \<leftarrow> State_Monad.get;
       whenever (ret = 0 \<and> wifi_num_saved_ssids (ww s) < int MAX_SAVED_SSIDS \<and>
                 wifi_find_saved_ssid ssid (ww s) < 0)
         (net_stage_ssid_for_saving ssid key (word_of_int sec) (word_of_int keyidx) (word_of_int enc) (hidden \<noteq> 0));
       return ret
     }
   }"

section \<open>Starting a download\<close>

abbreviation EIO :: int where "EIO \<equiv> 5"
abbreviation ENOSPC :: int where "ENOSPC \<equiv> 28"

definition MAXURL :: nat where "MAXURL = 1900"
definition HTTPFLEN :: nat where "HTTPFLEN = 100"

text \<open>
  The file system is a parameter: the result of \<open>fs_statvfs\<close> with the free bytes, and that of
  \<open>fs_open\<close>.  The string of written bytes starts again at the file's beginning.
\<close>

definition wifi_http_get ::
  "wenv \<Rightarrow> int \<times> nat \<Rightarrow> int \<Rightarrow> string \<Rightarrow> string \<Rightarrow> bool \<Rightarrow> nat \<Rightarrow> (wifi, int) state" where
  "wifi_http_get e statvfs fs_open_ret url filename skip_headers timeout = do {
     tp \<leftarrow> gets (\<lambda>s. now s + timeout);
     guarded (\<lambda>r. r) (do {
       s \<leftarrow> State_Monad.get;
       if length url > MAXURL - 40 then return (- EINVAL)
       else if length filename > HTTPFLEN - 7 then return (- EINVAL)
       else if file_opened (http s) then return (- EBUSY)
       else if fst statvfs \<noteq> 0 then return (fst statvfs)
       else if snd statvfs < 1024 then return (- ENOSPC)
       else do {
         upd_http (\<lambda>h. h\<lparr>http_skip_headers := skip_headers\<rparr>);
         if fs_open_ret < 0 then return (- EIO)
         else do {
           upd_http (\<lambda>h. h\<lparr>file_opened := True, http_crc := 0, http_amt_written := 0, http_file := []\<rparr>);
           m \<leftarrow> wifi_get_mutex e timeout;
           if m \<noteq> 0 then do { upd_http (\<lambda>h. h\<lparr>file_opened := False\<rparr>); return (- EBUSY) }
           else do {
             left \<leftarrow> ms_left tp;
             ret \<leftarrow> wifi_send_ok_err_atcmd e (take (MAXURL + 40 - 1) (''AT+NWHTCH='' @ url @ '',get'')) left;
             whenever (ret \<noteq> 0) (upd_http (\<lambda>h. h\<lparr>file_opened := False\<rparr>));
             wifi_release_mutex;
             return ret
           }
         }
       }
     })
   }"

end
