(* ===== verification/WifiSleep.thy ===== *)
theory WifiSleep
  imports WifiScan
begin

text \<open>
  Sleep of the chip in \<^verbatim>\<open>commercial_collar/src/wifi/src/wifi_at.c\<close>: finding out whether it sleeps and in
  which mode, waking it, letting it sleep, and the function that reaches one of four modes.  An enum
  value is returned together with error codes, so the results are integers.
\<close>

section \<open>Finding out\<close>

abbreviation DA_EVENT_TYPE_RTC_WAKE_TIME :: nat where "DA_EVENT_TYPE_RTC_WAKE_TIME \<equiv> 22"
abbreviation CONFIG_WIFI_AFTER_SLEEP_WAIT_DEFAULT :: nat where
  "CONFIG_WIFI_AFTER_SLEEP_WAIT_DEFAULT \<equiv> 500"

definition da_off :: "wifi \<Rightarrow> bool" where
  "da_off s \<longleftrightarrow> powered_on (da (ww s)) = DA_STATE_KNOWN_FALSE"

definition too_soon :: "wifi \<Rightarrow> bool" where
  "too_soon s \<longleftrightarrow> g_last_sleep_time (ww s) \<le> now s \<and>
     now s - g_last_sleep_time (ww s) < CONFIG_WIFI_AFTER_SLEEP_WAIT_DEFAULT"

text \<open>Both an answer and a timeout give \<open>DA_STATE_KNOWN_TRUE\<close>, which is 1.\<close>

definition wifi_check_sleeping :: "wenv \<Rightarrow> bool \<Rightarrow> (wifi, int) state" where
  "wifi_check_sleeping e change_state = do {
     s \<leftarrow> State_Monad.get;
     if da_off s then return (- ENODEV)
     else do {
       let old_sleeping = is_sleeping (da (ww s));
       tri_put V_IS_SLEEPING DA_STATE_KNOWN_FALSE;
       ret \<leftarrow> wifi_send_ok_err_atcmd e ''AT'' 80;
       tri_put V_IS_SLEEPING old_sleeping;
       whenever change_state (send_zbus_tri_event e V_IS_SLEEPING
         (if ret = - EAGAIN then DA_STATE_KNOWN_TRUE
          else if ret = 0 then DA_STATE_KNOWN_FALSE else DA_STATE_UNKNOWN));
       return (if ret = - EAGAIN then 1 else if ret = 0 then 1 else ret)
     }
   }"

text \<open>The message that ends the wait tells the mode, the result and the two variables.\<close>

definition sleep_mode_of :: "int \<Rightarrow> int \<times> das_tri_state \<times> das_tri_state" where
  "sleep_mode_of ret =
     (if ret < 0 then (0, DA_STATE_KNOWN_FALSE, DA_STATE_KNOWN_FALSE)
      else if ret = 0 then (1, DA_STATE_KNOWN_TRUE, DA_STATE_KNOWN_TRUE)
      else if ret = 2 then (3, DA_STATE_KNOWN_FALSE, DA_STATE_KNOWN_FALSE)
      else (2, DA_STATE_KNOWN_TRUE, DA_STATE_KNOWN_FALSE))"

definition wifi_check_sleep_mode :: "wenv \<Rightarrow> (wifi, int) state" where
  "wifi_check_sleep_mode e = do {
     s \<leftarrow> State_Monad.get;
     let tp = now s + 400;
     let t = now s;
     if da_off s then return (- ENODEV)
     else if too_soon s then return (- EAGAIN)
     else locked e 400 (- EBUSY) (do {
       left \<leftarrow> ms_left tp;
       s \<leftarrow> State_Monad.get;
       whenever (dpm_mode (da (ww s)) = DA_STATE_KNOWN_TRUE \<and> g_last_dpm_wake s \<noteq> 0)
         (modify (\<lambda>s. s\<lparr>g_last_dpm_wake := 0\<rparr>));
       wifi_wake_DA e 5;
       k_sleep_ms e 5;
       wifi_wake_DA e 5;
       (ret, wm) \<leftarrow> wifi_wait_for e
         (wifi_add_wait_msg ''+RUN:POR'' True []
           (wifi_add_wait_msg ''+INIT:DONE,0,DPM=1'' True []
             (wifi_add_wait_msg ''+INIT:DONE,0,DPM=0'' True []
               (wifi_add_wait_msg ''+RUN:RTCWAKEUP'' True []
                 (wifi_add_wait_msg ''+INIT:WAKEUP'' True [] []))))) left;
       let (mode, dpm, asleep) = sleep_mode_of ret;
       send_zbus_tri_event e V_DPM_MODE dpm;
       send_zbus_tri_event e V_IS_SLEEPING asleep;
       whenever (ret = 2) (send_zbus_timestamp_event e DA_EVENT_TYPE_RTC_WAKE_TIME t
         (\<lambda>s. rtc_wake_time (dax s)) (\<lambda>v. upd_more (\<lambda>d. d\<lparr>rtc_wake_time := v\<rparr>)));
       return mode
     })
   }"

section \<open>Waking and sleeping\<close>

text \<open>
  After a failed second command the mutex is released twice.  The result is that of the commands:
  what \<open>wifi_check_sleep_mode\<close> returned is not part of it.
\<close>

definition wifi_wake_no_sleep :: "wenv \<Rightarrow> nat \<Rightarrow> (wifi, int) state" where
  "wifi_wake_no_sleep e timeout = do {
     s \<leftarrow> State_Monad.get;
     if da_off s then return (- ENODEV)
     else if too_soon s then return (- EAGAIN)
     else do {
       m \<leftarrow> wifi_get_mutex e timeout;
       if m \<noteq> 0 then return (- EBUSY)
       else do {
         wifi_flush_msgs e;
         mode \<leftarrow> wifi_check_sleep_mode e;
         if mode = 0 \<or> mode = 3 then do { wifi_release_mutex; return 0 }
         else do {
           old \<leftarrow> gets (tri_get V_IS_SLEEPING);
           tri_put V_IS_SLEEPING DA_STATE_KNOWN_FALSE;
           ret \<leftarrow> wifi_send_ok_err_atcmd e ''AT+MCUWUDONE'' 50;
           if ret \<noteq> 0
           then do { tri_put V_IS_SLEEPING DA_STATE_KNOWN_TRUE; wifi_release_mutex; return ret }
           else do {
             ret \<leftarrow> wifi_send_ok_err_atcmd e ''AT+CLRDPMSLPEXT'' 50;
             if ret \<noteq> 0
             then do {
               tri_put V_IS_SLEEPING DA_STATE_KNOWN_TRUE;
               wifi_release_mutex; wifi_release_mutex; return ret
             }
             else do {
               modify (\<lambda>s. s\<lparr>g_last_dpm_wake := now s\<rparr>);
               tri_put V_IS_SLEEPING old;
               send_zbus_tri_event e V_IS_SLEEPING DA_STATE_KNOWN_FALSE;
               wifi_release_mutex;
               return ret
             }
           }
         }
       }
     }
   }"

text \<open>A sleeping chip is woken first, which restarts its clock.\<close>

definition wifi_rtc_sleep :: "wenv \<Rightarrow> int \<Rightarrow> (wifi, int) state" where
  "wifi_rtc_sleep e ms_to_sleep = do {
     s \<leftarrow> State_Monad.get;
     if da_off s then return (- ENODEV)
     else if ms_to_sleep < 0 \<or> ms_to_sleep > 2097151000 then return (- EINVAL)
     else locked e (nat ms_to_sleep) (- EBUSY) (do {
       s \<leftarrow> State_Monad.get;
       ret \<leftarrow> (if is_sleeping (da (ww s)) = DA_STATE_KNOWN_TRUE then wifi_wake_no_sleep e 400 else return 0);
       if ret < 0 then return ret
       else do {
         ret \<leftarrow> wifi_send_ok_err_atcmd e (''AT+SETSLEEP3EXT='' @ show_int ms_to_sleep) 100;
         if ret < 0 then return ret
         else do {
           send_zbus_tri_event e V_IS_SLEEPING DA_STATE_KNOWN_TRUE;
           t \<leftarrow> gets now;
           send_zbus_timestamp_event e DA_EVENT_TYPE_RTC_WAKE_TIME (t + nat ms_to_sleep)
             (\<lambda>s. rtc_wake_time (dax s)) (\<lambda>v. upd_more (\<lambda>d. d\<lparr>rtc_wake_time := v\<rparr>));
           return ret
         }
       }
     })
   }"

definition wifi_dpm_back_to_sleep :: "wenv \<Rightarrow> nat \<Rightarrow> (wifi, int) state" where
  "wifi_dpm_back_to_sleep e timeout = do {
     s \<leftarrow> State_Monad.get;
     if da_off s then return (- ENODEV)
     else if dpm_mode (da (ww s)) \<noteq> DA_STATE_KNOWN_TRUE then wifi_set_dpm_state e 1 False timeout
     else do {
       ret \<leftarrow> wifi_send_ok_err_atcmd e ''AT+SETDPMSLPEXT'' timeout;
       if ret \<noteq> - EAGAIN \<and> ret < 0 then return ret
       else do { send_zbus_tri_event e V_IS_SLEEPING DA_STATE_KNOWN_TRUE; return 0 }
     }
   }"

text \<open>Eight rounds; the check does not change the variable that the loop compares.\<close>

primrec wait_sleep_rounds :: "wenv \<Rightarrow> das_tri_state \<Rightarrow> nat \<Rightarrow> (wifi, bool) state" where
  "wait_sleep_rounds e st 0 = return False"
| "wait_sleep_rounds e st (Suc n) = do {
     ret \<leftarrow> wifi_check_sleeping e False;
     if ret < -1 then return False
     else do {
       s \<leftarrow> State_Monad.get;
       if is_sleeping (da (ww s)) = st then return True
       else do { k_sleep_ms e 10; wait_sleep_rounds e st n }
     }
   }"

definition wait_for_sleep_state :: "wenv \<Rightarrow> das_tri_state \<Rightarrow> (wifi, bool) state" where
  "wait_for_sleep_state e st = wait_sleep_rounds e st 8"

section \<open>Setting a mode\<close>

text \<open>\<open>-ENXIO\<close> when the state is not reached; \<open>g_last_sleep_time\<close> is set behind some of the waits.\<close>

definition reached :: "wenv \<Rightarrow> das_tri_state \<Rightarrow> int \<Rightarrow> (wifi, int) state" where
  "reached e st ret = do { ok \<leftarrow> wait_for_sleep_state e st; return (if ok then ret else - ENXIO) }"

definition note_sleep_time :: "(wifi, unit) state" where
  "note_sleep_time = modify (\<lambda>s. s\<lparr>ww := (ww s)\<lparr>g_last_sleep_time := now s\<rparr>\<rparr>)"

definition wake_if_asleep :: "wenv \<Rightarrow> int \<Rightarrow> (wifi, int) state" where
  "wake_if_asleep e ret = do {
     s \<leftarrow> State_Monad.get;
     if is_sleeping (da (ww s)) = DA_STATE_KNOWN_TRUE then wifi_wake_no_sleep e 400 else return ret
   }"

text \<open>The change of the mode, which makes the chip boot; the result of leaving the access point is not used.\<close>

definition change_dpm :: "wenv \<Rightarrow> bool \<Rightarrow> bool \<Rightarrow> nat \<Rightarrow> (wifi, int) state" where
  "change_dpm e dpm awake_on_boot boot_ms = do {
     s \<leftarrow> State_Monad.get;
     whenever (ap_connected (da (ww s)) = DA_STATE_KNOWN_TRUE)
       (do { wifi_disconnect_from_AP_da e 1000; skip });
     ret \<leftarrow> wifi_set_dpm_state e (if dpm then 1 else 0) awake_on_boot 1000;
     k_sleep_ms e boot_ms;
     return ret
   }"

definition sleep_none :: "wenv \<Rightarrow> (wifi, int) state" where
  "sleep_none e = do {
     s \<leftarrow> State_Monad.get;
     if dpm_mode (da (ww s)) = DA_STATE_KNOWN_FALSE \<and> is_sleeping (da (ww s)) = DA_STATE_KNOWN_FALSE
     then reached e DA_STATE_KNOWN_FALSE 0
     else do {
       ret \<leftarrow> wake_if_asleep e 0;
       ret \<leftarrow> (if ret = 0 then wifi_get_dpm_state e 1000 else return ret);
       ret \<leftarrow> (if ret = 1 then change_dpm e False False 1500 else return ret);
       if ret = 0 then reached e DA_STATE_KNOWN_FALSE ret else return ret
     }
   }"

definition sleep_dpm_asleep :: "wenv \<Rightarrow> (wifi, int) state" where
  "sleep_dpm_asleep e = do {
     s \<leftarrow> State_Monad.get;
     if dpm_mode (da (ww s)) = DA_STATE_KNOWN_TRUE \<and> is_sleeping (da (ww s)) = DA_STATE_KNOWN_TRUE
     then reached e DA_STATE_KNOWN_TRUE 0
     else do {
       ret \<leftarrow> (if dpm_mode (da (ww s)) = DA_STATE_KNOWN_TRUE then wifi_dpm_back_to_sleep e 4000
         else do {
           ret \<leftarrow> wake_if_asleep e 0;
           ret \<leftarrow> (if ret = 0 then wifi_get_dpm_state e 1000 else return ret);
           if ret = 0 then change_dpm e True False 1500 else wifi_dpm_back_to_sleep e 300
         });
       if ret = 0
       then do { ret \<leftarrow> reached e DA_STATE_KNOWN_TRUE ret; note_sleep_time; return ret }
       else return ret
     }
   }"

definition sleep_dpm_awake :: "wenv \<Rightarrow> (wifi, int) state" where
  "sleep_dpm_awake e = do {
     s \<leftarrow> State_Monad.get;
     if dpm_mode (da (ww s)) = DA_STATE_KNOWN_TRUE \<and> is_sleeping (da (ww s)) = DA_STATE_KNOWN_FALSE
     then reached e DA_STATE_KNOWN_FALSE 0
     else do {
       ret \<leftarrow> wake_if_asleep e 0;
       ret \<leftarrow> (if ret = 0 then wifi_get_dpm_state e 1000 else return ret);
       ret \<leftarrow> (if ret = 0 then change_dpm e True True 1000 else return 0);
       if ret = 0 then reached e DA_STATE_KNOWN_FALSE ret else return ret
     }
   }"

definition sleep_rtc_asleep :: "wenv \<Rightarrow> int \<Rightarrow> (wifi, int) state" where
  "sleep_rtc_asleep e dur_ms = do {
     s \<leftarrow> State_Monad.get;
     if dpm_mode (da (ww s)) = DA_STATE_KNOWN_FALSE \<and> is_sleeping (da (ww s)) = DA_STATE_KNOWN_TRUE
     then reached e DA_STATE_KNOWN_TRUE 0
     else do {
       ret \<leftarrow> wake_if_asleep e 0;
       ret \<leftarrow> (if ret = 0 then wifi_rtc_sleep e dur_ms else return ret);
       if ret = 0
       then do { ret \<leftarrow> reached e DA_STATE_KNOWN_TRUE ret; note_sleep_time; return ret }
       else return ret
     }
   }"

definition wifi_set_sleep_mode :: "wenv \<Rightarrow> wifi_sleep_state \<Rightarrow> int \<Rightarrow> (wifi, int) state" where
  "wifi_set_sleep_mode e sleep_state dur_ms = do {
     s \<leftarrow> State_Monad.get;
     if da_off s then return (- ENODEV)
     else do {
       ret \<leftarrow> wifi_get_mutex e 1000;
       if ret \<noteq> 0 then return ret
       else do {
         wifi_check_sleeping e True;
         ret \<leftarrow> (case sleep_state of
            WIFI_SLEEP_NONE \<Rightarrow> sleep_none e
          | WIFI_SLEEP_DPM_ASLEEP \<Rightarrow> sleep_dpm_asleep e
          | WIFI_SLEEP_DPM_AWAKE \<Rightarrow> sleep_dpm_awake e
          | WIFI_SLEEP_RTC_ASLEEP \<Rightarrow> sleep_rtc_asleep e dur_ms);
         whenever (ret < 0) (do { wifi_check_sleeping e True; skip });
         wifi_release_mutex;
         return ret
       }
     }
   }"

definition wifi_set_ntp_server :: "wenv \<Rightarrow> (wifi, int) state" where
  "wifi_set_ntp_server e = do {
     ret \<leftarrow> wifi_send_ok_err_atcmd e ''AT+NWSNTP=1,pool.ntp.org,86400'' 1000;
     if ret < 0 then return ret
     else do { send_zbus_tri_event e V_NTP_SERVER_SET DA_STATE_KNOWN_TRUE; return 0 }
   }"

end
