(* ===== verification/WifiTopics.thy ===== *)
theory WifiTopics
  imports WifiAsk
begin

text \<open>
  MQTT over the chip in \<^verbatim>\<open>commercial_collar/src/wifi/src/wifi_at.c\<close>: the topics it subscribes to and
  the messages it publishes.  The lists of topics are arrays of pointers that end with a null pointer;
  here they are lists.
\<close>

section \<open>Topics\<close>

abbreviation CONFIG_IOT_MAX_TOPIC_LENGTH :: nat where "CONFIG_IOT_MAX_TOPIC_LENGTH \<equiv> 43"

text \<open>
  The desired topics first, then those of the chip that are none of them, until there are nine.  The
  comparison runs over \<open>desired_cnt\<close> entries of the desired array, a number that grows with every
  topic taken over: from the second one on it reads the null pointer at the end and what is behind
  it.  The second component tells whether it did; such an entry counts as different.
\<close>

fun merge_topics :: "string list \<Rightarrow> string list \<Rightarrow> string list \<Rightarrow> string list \<times> bool" where
  "merge_topics desired merged [] = (merged, False)"
| "merge_topics desired merged (t # ts) =
     (if length merged \<ge> CONFIG_IOT_MAX_TOPIC_NUM \<or> t = [] then (merged, False)
      else if \<exists>d \<in> set desired. strneq CONFIG_IOT_MAX_TOPIC_LENGTH d t then merge_topics desired merged ts
      else (let (r, bad) = merge_topics desired (merged @ [t]) ts
            in (r, bad \<or> length merged > length desired)))"

text \<open>
  The verdict on the only answer; \<open>True\<close> when it was \<open>OK\<close>.  The loop is not entered when the time is
  out after sending, and the result is then that of sending.
\<close>

definition topics_body :: "int \<Rightarrow> wait_entry list \<Rightarrow> unit \<Rightarrow> (unit, int \<times> bool) verdict" where
  "topics_body ret wm u =
     (if ret = 0 then Done (0, True) else if ret < 0 then Done (ret, False) else Done (- EBADE, False))"

definition topics_cmd :: "string list \<Rightarrow> string" where
  "topics_cmd ts = ''AT+NWMQTS='' @ show_nat (length ts) @ concat (map (\<lambda>t. CHR '','' # t) ts)"

definition wifi_set_mqtt_sub_topics :: "wenv \<Rightarrow> string list \<Rightarrow> nat \<Rightarrow> (wifi, int) state" where
  "wifi_set_mqtt_sub_topics e new_topics timeout = do {
     tp \<leftarrow> gets (\<lambda>s. now s + timeout);
     guarded (\<lambda>r. r) (do {
       s \<leftarrow> State_Monad.get;
       let ts = take CONFIG_IOT_MAX_TOPIC_NUM new_topics;
       if mqtt_broker_connected (da (ww s)) = DA_STATE_KNOWN_TRUE then return (- ENXIO)
       else if \<exists>t \<in> set ts. length t \<ge> CONFIG_IOT_MAX_TOPIC_LENGTH then return (- EINVAL)
       else locked e timeout (- EBUSY) (do {
         left \<leftarrow> ms_left tp;
         s \<leftarrow> State_Monad.get;
         if \<not> malloc_ok e (13 + length ts * 65) s then return (-1)
         else do {
           ret \<leftarrow> wifi_send_timeout e (topics_cmd ts) left;
           if ret \<noteq> 0 then return ret
           else do {
             s \<leftarrow> State_Monad.get;
             (ret, accepted) \<leftarrow> answers e tp (Some (\<lambda>_. (0, False))) topics_body (- EAGAIN, False)
               (wifi_add_wait_msg (ERROR_TXT ''%19s'') True [stale e 70 s]
                 (wifi_add_wait_msg OK_TXT True [] [])) ();
             whenever accepted (do {
               upd_more (\<lambda>d. d\<lparr>mqtt_sub_topics := ts @ replicate (CONFIG_IOT_MAX_TOPIC_NUM - length ts) []\<rparr>);
               send_zbus_int_event e DA_EVENT_TYPE_MQTT_SUB_TOP_CHANGED (int (length ts))
                 (\<lambda>s. mqtt_sub_topic_count (dax s)) (\<lambda>v. upd_more (\<lambda>d. d\<lparr>mqtt_sub_topic_count := v\<rparr>)) True
             });
             return ret
           }
         }
       })
     })
   }"

definition wifi_insure_mqtt_sub_topics :: "wenv \<Rightarrow> string list \<Rightarrow> nat \<Rightarrow> (wifi, int) state" where
  "wifi_insure_mqtt_sub_topics e desired_topics timeout = do {
     s \<leftarrow> State_Monad.get;
     let desired = takeWhile (\<lambda>t. t \<noteq> []) (take CONFIG_IOT_MAX_TOPIC_NUM desired_topics);
     let (merged, bad) = merge_topics desired desired (mqtt_sub_topics (dax s));
     whenever bad (modify (\<lambda>s. s\<lparr>null_deref := True\<rparr>));
     wifi_set_mqtt_sub_topics e merged timeout
   }"

text \<open>The subscriptions by message type.\<close>

definition type_topic :: "string \<Rightarrow> int \<Rightarrow> string" where
  "type_topic client_id t =
     ''messages/'' @ show_nat CONFIG_IOT_MQTT_BRAND_ID @ ''/'' @ show_int t @ ''/'' @ client_id @ ''/c2d''"

definition wifi_set_mqtt_sub_topics_by_type :: "wenv \<Rightarrow> int list \<Rightarrow> nat \<Rightarrow> (wifi, int) state" where
  "wifi_set_mqtt_sub_topics_by_type e types timeout =
     (if length types > CONFIG_IOT_MAX_TOPIC_NUM then return (- EINVAL)
      else if \<exists>t \<in> set types. t < 0 \<or> t > 30 then return (- EINVAL)
      else do {
        s \<leftarrow> State_Monad.get;
        wifi_set_mqtt_sub_topics e (map (type_topic (mqtt_client_id (dax s))) types) timeout
      })"

section \<open>Publishing\<close>

text \<open>
  The buffer of the command also takes the confirmation, so what is behind a short one is the rest of
  the command.
\<close>

definition publish_body :: "bool \<Rightarrow> int \<Rightarrow> wait_entry list \<Rightarrow> unit \<Rightarrow> (unit, int) verdict" where
  "publish_body wait_for_send_conf ret wm u =
     (let errorstr = got wm 1; buf = we_bufs (wm ! 2) ! 0 in
      if ret < 0 then Done ret
      else if ret = 0 then (if wait_for_send_conf then Again wm () else Done 0)
      else if ret = 1
      then (let n = atoi errorstr
            in Done (if n = 0 \<and> take 1 errorstr \<noteq> ''0'' then - EBADE else n))
      else if ret = 2
      then (if take 1 (cstr buf) = ''1'' then Done 0
            else (let n = atoi (cstr (drop 2 buf)) in Done (if n > 0 then - n else n)))
      else Again wm ())"

definition publish_cmd :: "nat \<Rightarrow> string \<Rightarrow> string \<Rightarrow> string" where
  "publish_cmd message_type client_id msg =
     ''AT+NWMQMSG='' @ [CHR 0x27] @ msg @ [CHR 0x27] @ '','' @
     take 89 (''messages/'' @ show_nat CONFIG_IOT_MQTT_BRAND_ID @ ''/'' @ show_nat message_type @ ''/'' @
       client_id @ ''/d2c'')"

definition wifi_mqtt_publish :: "wenv \<Rightarrow> nat \<Rightarrow> string \<Rightarrow> bool \<Rightarrow> nat \<Rightarrow> (wifi, int) state" where
  "wifi_mqtt_publish e message_type msg wait_for_send_conf timeout = do {
     s \<leftarrow> State_Monad.get;
     let tp = now s + timeout;
     if message_type > 999 then return (- EINVAL)
     else if mqtt_broker_connected (da (ww s)) \<noteq> DA_STATE_KNOWN_TRUE then return (- ENXIO)
     else if mqtt_certs_installed (dax s) \<noteq> DA_STATE_KNOWN_TRUE then return (- ENXIO)
     else if ntp_server_set (dax s) \<noteq> DA_STATE_KNOWN_TRUE then return (- ENXIO)
     else guarded (\<lambda>r. r) (
       if length msg > WIFI_MSG_SIZE - 100 then return (- EFBIG)
       else do {
         let cmd = publish_cmd message_type (mqtt_client_id (dax s)) msg;
         locked e timeout (- EBUSY) (do {
           s \<leftarrow> State_Monad.get;
           if \<not> malloc_ok e (length cmd + 3) s then return (- ENOMEM)
           else do {
             left \<leftarrow> ms_left tp;
             ret \<leftarrow> wifi_send_timeout e cmd left;
             if ret \<noteq> 0 then return ret
             else do {
               s \<leftarrow> State_Monad.get;
               answers e tp (Some (\<lambda>_. 0)) (publish_body wait_for_send_conf) (- EAGAIN)
                 (wifi_add_wait_msg ''+NWMQMSGSND:%20s'' True [NUL # tl cmd @ replicate 3 NUL]
                   (wifi_add_wait_msg (CRLF @ ''ERROR:%19s'' @ CRLF) True [stale e 25 s]
                     (wifi_add_wait_msg OK_TXT True [] []))) ()
             }
           }
         })
       })
   }"

end
