(* ===== verification/NetInit.thy ===== *)
theory NetInit
  imports WifiSleep WifiTopics
begin

text \<open>
  What \<^verbatim>\<open>commercial_collar/src/wifi/src/net_mgr.c\<close> does when the chip has booted: the backup of the
  factory data in the chip's flash, the flags kept there, and the configuration of the chip.
\<close>

definition rm_call :: "rm_call \<Rightarrow> (wifi, unit) state" where
  "rm_call c = modify (\<lambda>s. s\<lparr>rm_calls := rm_calls s @ [c]\<rparr>)"

section \<open>Comparing MAC addresses\<close>

definition to_lower :: "char \<Rightarrow> char" where
  "to_lower c = (let n = of_char c :: nat in if 65 \<le> n \<and> n \<le> 90 then char_of (n + 32) else c)"

text \<open>
  The loop from the rests of the two addresses; after a colon is skipped the strings may be at
  their end, where the character is the terminator.
\<close>

definition skip_colon :: "string \<Rightarrow> string" where
  "skip_colon s = (if s \<noteq> [] \<and> hd s = CHR '':'' then tl s else s)"

definition char_at_end :: "string \<Rightarrow> char" where
  "char_at_end s = (if s = [] then NUL else hd s)"

function cmp_macs :: "string \<Rightarrow> string \<Rightarrow> int" where
  "cmp_macs a b =
     (if a = [] \<or> b = [] then 0
      else let a' = skip_colon a; b' = skip_colon b
           in if to_lower (char_at_end a') \<noteq> to_lower (char_at_end b') then -1
              else cmp_macs (tl a') (tl b'))"
  by pat_completeness auto
termination
proof (relation "measure (\<lambda>(a, b). length a)", goal_cases)
  case 1
  then show ?case by simp
next
  case (2 a b a' b')
  then show ?case by (cases a) (auto simp: skip_colon_def)
qed

declare cmp_macs.simps [simp del]

definition cmpMACs :: "string \<Rightarrow> string \<Rightarrow> int" where
  "cmpMACs mac1 mac2 = cmp_macs mac1 mac2"

section \<open>Flags in the chip's flash\<close>

definition DA_UICR_BACKUP_FLAG :: nat where "DA_UICR_BACKUP_FLAG = 0x003AD000"
definition DA_UICR_BACKUP_ADDR :: nat where "DA_UICR_BACKUP_ADDR = 0x003AD004"
definition DA_NV_ONBOARDED_ADDR :: nat where "DA_NV_ONBOARDED_ADDR = 0x003AD12C"

definition hex2 :: "bool \<Rightarrow> nat \<Rightarrow> string" where
  "hex2 up n = [xdigit up (n div 16 mod 16), xdigit up (n mod 16)]"

text \<open>The value is an unsigned byte; as a state, 1 is true and 0 false.\<close>

definition tri_of_byte :: "nat \<Rightarrow> das_tri_state" where
  "tri_of_byte n = (if n = 0 then DA_STATE_KNOWN_FALSE else DA_STATE_KNOWN_TRUE)"

definition net_set_saved_bool :: "wenv \<Rightarrow> nat \<Rightarrow> tri_var \<Rightarrow> bool \<Rightarrow> (wifi, int) state" where
  "net_set_saved_bool e addr v val = do {
     ret \<leftarrow> wifi_put_nvram e addr (hex2 True (if val then 1 else 0)) 1000;
     whenever (ret = 0) (send_zbus_tri_event e v (tri_of_bool val));
     return ret
   }"

text \<open>A value that is neither 0 nor 1 has never been set; the default is then also written.\<close>

definition net_get_saved_bool :: "wenv \<Rightarrow> nat \<Rightarrow> tri_var \<Rightarrow> bool \<Rightarrow> (wifi, int) state" where
  "net_get_saved_bool e addr v default_val = do {
     s \<leftarrow> State_Monad.get;
     (ret, buf) \<leftarrow> wifi_get_nvram e addr (take 1 (stale e 1 s)) 200;
     if ret \<noteq> 0 then return ret
     else do {
       let tmp = of_char (hd buf);
       let unset = (tmp \<noteq> (0::nat) \<and> tmp \<noteq> 1);
       let tmp = (if unset then (if default_val then 1 else 0) else tmp);
       whenever unset (do {
         ret \<leftarrow> wifi_put_nvram e addr (hex2 True tmp) 200;
         whenever (ret = 0) (send_zbus_tri_event e v (tri_of_byte tmp))
       });
       tri_put v (tri_of_byte tmp);
       return (int tmp)
     }
   }"

section \<open>Backup of the factory data\<close>

definition hex_dump :: "32 word list \<Rightarrow> string" where
  "hex_dump ws = concat (map (\<lambda>c. hex2 False (of_char c)) (concat (map word_chars ws)))"

fun words_of_bytes :: "string \<Rightarrow> 32 word list" where
  "words_of_bytes [] = []"
| "words_of_bytes (c # cs) = chars_word (c # cs) # words_of_bytes (drop 3 cs)"

definition write_uicr_backup :: "wenv \<Rightarrow> (wifi, int) state" where
  "write_uicr_backup e = do {
     s \<leftarrow> State_Monad.get;
     ret \<leftarrow> wifi_put_nvram e DA_UICR_BACKUP_ADDR (hex_dump (uicr_bu (dax s))) 500;
     if ret \<noteq> 0 then return ret
     else wifi_put_nvram e DA_UICR_BACKUP_FLAG ''EA'' 500
   }"

text \<open>
  The end of the comparison with an existing backup; \<open>ret\<close> is 1 also when everything matches.  The
  reboot does not come back in the source; here the code goes on.
\<close>

definition check_backup :: "wenv \<Rightarrow> (wifi, int) state" where
  "check_backup e = do {
     s \<leftarrow> State_Monad.get;
     if uicr_bu (dax s) ! 0 \<noteq> uicr_version_get (u_mem s)
     then do { send_zbus_bu_event e 2; return 1 }
     else do {
       let (ret, u) = uicr_backup_cmp_restore (hal e) (uicr_bu (dax s)) (u_mem s);
       modify (\<lambda>s. s\<lparr>u_mem := u\<rparr>);
       if ret < 0 then do { send_zbus_bu_event e 2; return 1 }
       else do {
         whenever (ret = 1) (outside (PmicReboot ''UICR update''));
         send_zbus_bu_event e 1;
         return 1
       }
     }
   }"

definition insure_uicr_backup :: "wenv \<Rightarrow> (wifi, int) state" where
  "insure_uicr_backup e = do {
     (ret, flag) \<leftarrow> wifi_get_nvram e DA_UICR_BACKUP_FLAG [NUL] 500;
     if ret < 0 then return ret
     else if of_char (hd flag) = (0xEA :: nat)
     then do {
       s \<leftarrow> State_Monad.get;
       (ret, bytes) \<leftarrow> wifi_get_nvram e DA_UICR_BACKUP_ADDR (concat (map word_chars (uicr_bu (dax s)))) 500;
       upd_more (\<lambda>d. d\<lparr>uicr_bu := words_of_bytes bytes\<rparr>);
       if ret < 0 then return ret
       else do {
         s \<leftarrow> State_Monad.get;
         if uicr_bu (dax s) ! 0 = 0xBEEF0003 \<and> uicr_version_get (u_mem s) = 0xBEEF0004
         then do {
           upd_more (\<lambda>d. d\<lparr>uicr_bu := (uicr_bu d)[U_VERSION := MY_UICR_SCHEMA_VERSION,
             U_SHIPPING := MAGIC_SHIPPED_SIGNATURE]\<rparr>);
           ret \<leftarrow> write_uicr_backup e;
           if ret < 0 then return ret else check_backup e
         }
         else check_backup e
       }
     }
     else do {
       s \<leftarrow> State_Monad.get;
       if uicr_verify (u_mem s) \<noteq> 0 then return (-1)
       else do {
         upd_more (\<lambda>d. d\<lparr>uicr_bu := uicr_export (u_mem s)\<rparr>);
         ret \<leftarrow> write_uicr_backup e;
         if ret < 0 then return ret
         else do { send_zbus_bu_event e 1; return 0 }
       }
     }
   }"

section \<open>Configuration after a boot\<close>

text \<open>A command whose result is only printed.\<close>

definition tell :: "wenv \<Rightarrow> string \<Rightarrow> nat \<Rightarrow> (wifi, unit) state" where
  "tell e cmd timeout = do { wifi_send_ok_err_atcmd e cmd timeout; skip }"

text \<open>The hardware address; the result tells whether the chip was restarted to use a new one.\<close>

definition init_mac :: "wenv \<Rightarrow> (wifi, bool) state" where
  "init_mac e = do {
     (mac, which) \<leftarrow> wifi_get_mac e 500;
     case mac of
       None \<Rightarrow> do { send_zbus_tri_event e V_MAC_SET DA_STATE_KNOWN_FALSE; return False }
     | Some mac \<Rightarrow> do {
         uicr_mac \<leftarrow> gets (\<lambda>s. uicr_wifi_mac_address_get (u_mem s));
         if cmpMACs mac uicr_mac \<noteq> 0
         then do {
           ret \<leftarrow> wifi_set_mac e uicr_mac 500;
           if ret = 0
           then do {
             send_zbus_tri_event e V_MAC_SET DA_STATE_KNOWN_TRUE;
             tell e ''AT+RESTART'' 100;
             return True
           }
           else do { send_zbus_tri_event e V_MAC_SET DA_STATE_KNOWN_FALSE; return False }
         }
         else do { send_zbus_tri_event e V_MAC_SET DA_STATE_KNOWN_TRUE; return False }
       }
   }"

text \<open>A value that is right already leaves the variable unknown.\<close>

definition init_xtal :: "wenv \<Rightarrow> (wifi, unit) state" where
  "init_xtal e = do {
     uicr_xtal \<leftarrow> gets (\<lambda>s. sint (uicr_wifi_tuning_value_get (u_mem s)));
     curr_xtal \<leftarrow> wifi_get_xtal e 200;
     whenever (curr_xtal \<ge> 0 \<and> uicr_xtal \<noteq> curr_xtal) (do {
       ret \<leftarrow> wifi_set_xtal e uicr_xtal 200;
       send_zbus_tri_event e V_XTAL_SET (tri_of_bool (ret = 0))
     })
   }"

definition init_dhcp_name :: "wenv \<Rightarrow> (wifi, unit) state" where
  "init_dhcp_name e = do {
     upd_name \<leftarrow> gets (\<lambda>s. take 31 (''Petivity-Tracker-'' @
       take 14 (if uicr_bu_status (dax s) = 1 then uicr_serial_number_get (u_mem s) else ''UNKNOWN'')));
     upd_more (\<lambda>d. d\<lparr>dhcp_client_name := upd_name\<rparr>);
     ret \<leftarrow> wifi_send_ok_err_atcmd e (take 69 (''AT+NWDHCHN='' @ upd_name)) 200;
     send_zbus_tri_event e V_DHCP_CLIENT_NAME_SET (tri_of_bool (ret = 0))
   }"

text \<open>The part for a collar with valid factory data; \<open>True\<close> when the chip restarts.\<close>

definition init_identity :: "wenv \<Rightarrow> (wifi, bool) state" where
  "init_identity e = do {
     s \<leftarrow> State_Monad.get;
     restarted \<leftarrow> (if mac_set (dax s) = DA_STATE_UNKNOWN then init_mac e else return False);
     if restarted then return True
     else do {
       s \<leftarrow> State_Monad.get;
       whenever (xtal_set (dax s) = DA_STATE_UNKNOWN) (init_xtal e);
       s \<leftarrow> State_Monad.get;
       whenever (dhcp_client_name_set (dax s) \<noteq> DA_STATE_KNOWN_TRUE) (init_dhcp_name e);
       tell e ''AT+NWMQTP=messages/0/0/0/0'' 200;
       return False
     }
   }"

primrec tell_all :: "wenv \<Rightarrow> (string \<times> nat) list \<Rightarrow> (wifi, unit) state" where
  "tell_all e [] = skip"
| "tell_all e (c # cs) = do { tell e (fst c) (snd c); tell_all e cs }"

definition init_queries :: "(string \<times> nat) list" where
  "init_queries = [(''AT+DPMTIMWU=30'', 250), (''AT+DPMKA=30000'', 150), (''AT+NWMQAUTO=?'', 150),
     (''AT+DPM=?'', 150), (''AT+VER'', 150), (''AT+WFDIS=?'', 150)]"

definition wifi_saved_ssids_del_all_da :: "wenv \<Rightarrow> nat \<Rightarrow> (wifi, int) state" where
  "wifi_saved_ssids_del_all_da e timeout = do {
     ret \<leftarrow> wifi_send_ok_err_atcmd e ''AT+SSIDDELALL'' timeout;
     if ret < 0 then return ret
     else do {
       modify (\<lambda>s. s\<lparr>ww := (ww s)\<lparr>cached_zones := map (\<lambda>z. \<lparr>z_ssid = [], z_safe = False\<rparr>) (cached_zones (ww s))\<rparr>\<rparr>);
       return 0
     }
   }"

text \<open>The zones of the shadow document take the names of the chip's list where they differ.\<close>

definition merge_zones :: "shadow_zone list \<Rightarrow> shadow_zone list \<Rightarrow> shadow_zone list" where
  "merge_zones from zones =
     map2 (\<lambda>f z. if strneq 32 (z_ssid f) (z_ssid z) then z
       else \<lparr>z_ssid = strncpy_z 32 (z_ssid f), z_safe = z_safe f\<rparr>) from zones"

definition init_zones :: "wenv \<Rightarrow> (wifi, unit) state" where
  "init_zones e = do {
     (ret, from) \<leftarrow> wifi_get_ap_list_da e 3000;
     (ret, from) \<leftarrow> (if ret = -821
       then do { wifi_saved_ssids_del_all_da e 3000; wifi_get_ap_list_da e 3000 }
       else return (ret, from));
     whenever (ret = 0) (do {
       s \<leftarrow> State_Monad.get;
       whenever (\<exists>i < 5. \<not> strneq 32 (z_ssid (from ! i)) (z_ssid (shadow_zones s ! i))) (do {
         modify (\<lambda>s. s\<lparr>shadow_zones := merge_zones from (shadow_zones s)\<rparr>);
         rm_call CmQueueShadow
       })
     })
   }"

definition CONFIG_IOT_BROKER_HOST_NAME :: string where
  "CONFIG_IOT_BROKER_HOST_NAME = ''a3hoon64f0fuap-ats.iot.eu-west-1.amazonaws.com''"

definition init_mqtt :: "wenv \<Rightarrow> (wifi, unit) state" where
  "init_mqtt e = do {
     s \<leftarrow> State_Monad.get;
     whenever (malloc_ok e (length CONFIG_IOT_BROKER_HOST_NAME + 21) s)
       (tell_all e [(''AT+NWMQCID='' @ mqtt_client_id (dax s), 1000), (''AT+NWMQCS=1'', 1000),
          (''AT+NWMQTLS=1'', 300), (''AT+WFCC=US'', 300),
          (''AT+NWMQBR='' @ CONFIG_IOT_BROKER_HOST_NAME @ '',8883'', 300)])
   }"

definition init_topics :: "das_tri_state \<Rightarrow> int list" where
  "init_topics onb = (if onb = DA_STATE_KNOWN_TRUE then [3, 4, 5, 10, 15, 22, 23, 25] else [3])"

text \<open>The configuration that is needed once; it is not done again when it was gone through.\<close>

definition init_one_time :: "wenv \<Rightarrow> (wifi, unit) state" where
  "init_one_time e = do {
     machine_id \<leftarrow> gets (\<lambda>s. uicr_serial_number_get (u_mem s));
     if take 2 machine_id \<noteq> ''DT'' then skip
     else do {
       ret \<leftarrow> wifi_set_mqtt_state e False 300;
       if ret \<noteq> 0 then skip
       else do {
         s \<leftarrow> State_Monad.get;
         whenever (mqtt_client_id (dax s) = []) (upd_more (\<lambda>d. d\<lparr>mqtt_client_id :=
           take 16 (show_nat CONFIG_IOT_MQTT_BRAND_ID @ ''_'' @ machine_id)\<rparr>));
         tell e ''AT+WFDIS=1'' 300;
         init_zones e;
         init_mqtt e;
         s \<leftarrow> State_Monad.get;
         wifi_set_mqtt_sub_topics_by_type e (init_topics (onboarded (da (ww s)))) 500;
         s \<leftarrow> State_Monad.get;
         whenever (mqtt_certs_installed (dax s) = DA_STATE_UNKNOWN) (tell e ''AT+NWCCRT'' 300);
         s \<leftarrow> State_Monad.get;
         whenever (ntp_server_set (dax s) \<noteq> DA_STATE_KNOWN_TRUE) (do { wifi_set_ntp_server e; k_sleep_ms e 2000 });
         modify (\<lambda>s. s\<lparr>g_DA_needs_one_time_config := False\<rparr>)
       }
     }
   }"

text \<open>What follows the check of the backup.\<close>

definition init_chip :: "wenv \<Rightarrow> bool \<Rightarrow> (wifi, unit) state" where
  "init_chip e uicr_valid = do {
     restarted \<leftarrow> (if uicr_valid then init_identity e else return False);
     if restarted then skip
     else do {
       tell_all e init_queries;
       ret \<leftarrow> net_get_saved_bool e DA_NV_ONBOARDED_ADDR V_ONBOARDED False;
       if ret < 0 then skip
       else do {
         s \<leftarrow> State_Monad.get;
         whenever (g_DA_needs_one_time_config s) (init_one_time e)
       }
     }
   }"

definition net_do_da_init_work_fn :: "wenv \<Rightarrow> (wifi, unit) state" where
  "net_do_da_init_work_fn e = do {
     t \<leftarrow> gets now;
     m \<leftarrow> wifi_get_mutex e 3000;
     if m \<noteq> 0 then skip
     else do {
       s \<leftarrow> State_Monad.get;
       let dpm_delta = int t - int (g_last_dpm_change s);
       (if \<not> uicr_in_factory_flag_get (u_mem s) \<and> dpm_delta < 3000 \<and> dpm_delta > 0
        then whenever (g_awake_on_boot s) (tell e ''AT+CLRDPMSLPEXT'' 150)
        else do {
          uicr_valid \<leftarrow> (if uicr_bu_status (dax s) = -1
            then do { ret \<leftarrow> insure_uicr_backup e; return (ret = 0) }
            else return (uicr_bu_status (dax s) = 1));
          s \<leftarrow> State_Monad.get;
          whenever (uicr_shipping_flag_get (u_mem s)) (init_chip e uicr_valid)
        });
       wifi_release_mutex
     }
   }"

end
