(* ===== verification/NetWork.thy ===== *)
theory NetWork
  imports NetInit
begin

text \<open>
  The work items of \<^verbatim>\<open>commercial_collar/src/wifi/src/net_mgr.c\<close> and its firmware update of the
  DA16200: a state machine that a timer runs once a second while an update is under way.  The states
  are 0 (none), 1 (start the download), 2 (downloading), 3 (downloaded) and 4 (wait for the restart).
\<close>

section \<open>Wake-up, disconnection, time, reset\<close>

definition net_process_WAKEUP_fn :: "wenv \<Rightarrow> (wifi, unit) state" where
  "net_process_WAKEUP_fn e = do {
     m \<leftarrow> wifi_get_mutex e 3000;
     if m \<noteq> 0 then skip
     else do {
       old \<leftarrow> gets (tri_get V_IS_SLEEPING);
       tri_put V_IS_SLEEPING DA_STATE_KNOWN_FALSE;
       ret \<leftarrow> wifi_send_ok_err_atcmd e ''AT+MCUWUDONE'' 80;
       if ret < 0 then wifi_release_mutex
       else do {
         ret \<leftarrow> wifi_send_ok_err_atcmd e ''AT+CLRDPMSLPEXT'' 50;
         if ret < 0 then wifi_release_mutex
         else do {
           tri_put V_IS_SLEEPING old;
           send_zbus_tri_event e V_IS_SLEEPING DA_STATE_KNOWN_FALSE;
           wifi_release_mutex;
           rm_call RmGotUCFromAP;
           k_sleep_ms e 500;
           rm_call RmDoneWithRadio
         }
       }
     }
   }"

definition net_disconn_work_fn :: "wenv \<Rightarrow> (wifi, unit) state" where
  "net_disconn_work_fn e = do {
     s \<leftarrow> State_Monad.get;
     if rm_switching e s then skip
     else do {
       osleep \<leftarrow> gets (tri_get V_IS_SLEEPING);
       tri_put V_IS_SLEEPING DA_STATE_KNOWN_FALSE;
       wifi_send_ok_err_atcmd e ''AT+WFDIS=1'' 5000;
       tri_put V_IS_SLEEPING osleep
     }
   }"

definition net_get_time_work_fn :: "wenv \<Rightarrow> (wifi, unit) state" where
  "net_get_time_work_fn e = do {
     s \<leftarrow> State_Monad.get;
     if clock_is_set e s then skip
     else do { wifi_send_ok_err_atcmd e ''AT+TIME=?'' 1000; skip }
   }"

definition net_reset_da_fn :: "wenv \<Rightarrow> (wifi, unit) state" where
  "net_reset_da_fn e = wifi_reset e"

section \<open>Firmware update of the DA16200\<close>

definition FOTA_DOWNLOAD_ERROR_CAUSE_NO_ERROR :: int where "FOTA_DOWNLOAD_ERROR_CAUSE_NO_ERROR = 0"
definition FOTA_DOWNLOAD_ERROR_CAUSE_DOWNLOAD_FAILED :: int where "FOTA_DOWNLOAD_ERROR_CAUSE_DOWNLOAD_FAILED = 1"
definition FOTA_DOWNLOAD_ERROR_CAUSE_INVALID_UPDATE :: int where "FOTA_DOWNLOAD_ERROR_CAUSE_INVALID_UPDATE = 2"
definition FOTA_DOWNLOAD_ERROR_CAUSE_INTERNAL :: int where "FOTA_DOWNLOAD_ERROR_CAUSE_INTERNAL = 4"

definition DA_OTA_PROGRESS_NO_OTA :: int where "DA_OTA_PROGRESS_NO_OTA = -1"
definition DA_OTA_ERR_STARTING_DL :: int where "DA_OTA_ERR_STARTING_DL = -3"
definition DA_OTA_TIMEOUT_GETTING_PROGRESS :: int where "DA_OTA_TIMEOUT_GETTING_PROGRESS = -4"
definition DA_OTA_ERROR_STOPPING :: int where "DA_OTA_ERROR_STOPPING = -6"
definition DA_OTA_PROGRESS_STALLED :: int where "DA_OTA_PROGRESS_STALLED = -7"
definition DA_OTA_ERROR_RENEWING :: int where "DA_OTA_ERROR_RENEWING = -8"
definition DA_OTA_VERSION_MISMATCH :: int where "DA_OTA_VERSION_MISMATCH = -10"
definition DA_OTA_DOWNLOAD_COMPLETE :: int where "DA_OTA_DOWNLOAD_COMPLETE = 100"
definition DA_OTA_PROGRESS_REBOOTING :: int where "DA_OTA_PROGRESS_REBOOTING = 101"

definition MAX_URL_LEN :: nat where "MAX_URL_LEN = 1900"

definition upd_ota :: "(ota_info \<Rightarrow> ota_info) \<Rightarrow> (wifi, unit) state" where
  "upd_ota f = modify (\<lambda>s. s\<lparr>my_ota_info := f (my_ota_info s)\<rparr>)"

text \<open>A flag \<open>cancel\<close> that an earlier update has left is not cleared here.\<close>

definition net_start_ota :: "string \<Rightarrow> 8 word list \<Rightarrow> (wifi, int) state" where
  "net_start_ota url version = do {
     s \<leftarrow> State_Monad.get;
     if length url > MAX_URL_LEN then return (-1)
     else if ota_st (my_ota_info s) \<noteq> 0 then return (-2)
     else do {
       upd_ota (\<lambda>i. i\<lparr>ota_url := take (MAX_URL_LEN + 40 - 1) (''AT+NWOTADWSTART=rtos,'' @ url),
         ota_st := 1, expected_version := version\<rparr>);
       modify (\<lambda>s. s\<lparr>ota_timer := True\<rparr>);
       return 0
     }
   }"

definition net_stop_ota :: "(wifi, int) state" where
  "net_stop_ota = do {
     s \<leftarrow> State_Monad.get;
     if ota_st (my_ota_info s) = 0 then return (-1)
     else do { upd_ota (\<lambda>i. i\<lparr>ota_cancel := True\<rparr>); return 0 }
   }"

definition ota_work_timer_handler :: "(wifi, unit) state" where
  "ota_work_timer_handler = do { s \<leftarrow> State_Monad.get; whenever (ota_timer s) queue_ota_work }"

definition ota_publish :: "wenv \<Rightarrow> int \<Rightarrow> int \<Rightarrow> int \<Rightarrow> (wifi, unit) state" where
  "ota_publish e fstat fper dpro = do {
     send_zbus_ota_event e dpro;
     modify (\<lambda>s. s\<lparr>fota_states := fota_states s @ [(fstat, fper)]\<rparr>)
   }"

text \<open>Leaving the machine: the state and the timer, and the cancellation when it was the reason.\<close>

definition ota_end :: "(wifi, unit) state" where
  "ota_end = do { upd_ota (\<lambda>i. i\<lparr>ota_st := 0\<rparr>); modify (\<lambda>s. s\<lparr>ota_timer := False\<rparr>) }"

definition ota_cancelled :: "(wifi, unit) state" where
  "ota_cancelled = do {
     upd_ota (\<lambda>i. i\<lparr>ota_st := 0, ota_cancel := False\<rparr>);
     modify (\<lambda>s. s\<lparr>ota_timer := False\<rparr>)
   }"

definition ota_state_1 :: "wenv \<Rightarrow> (wifi, unit) state" where
  "ota_state_1 e = do {
     s \<leftarrow> State_Monad.get;
     if ota_cancel (my_ota_info s) then ota_cancelled
     else do {
       ota_publish e 1 0 0;
       modify (\<lambda>s. s\<lparr>ota_last_start_result := []\<rparr>);
       ret \<leftarrow> wifi_send_ok_err_atcmd e (ota_url (my_ota_info s)) 2000;
       if ret \<noteq> 0
       then do {
         ota_publish e 2 FOTA_DOWNLOAD_ERROR_CAUSE_DOWNLOAD_FAILED DA_OTA_ERR_STARTING_DL;
         ota_end
       }
       else upd_ota (\<lambda>i. i\<lparr>ota_last := 0, ota_st := 2\<rparr>)
     }
   }"

text \<open>
  State 2 asks for the progress.  \<open>progstr\<close> is not initialised: when the pattern's search finds
  another message that begins like it, its digits are those of the stack.  The test of \<open>errno\<close> needs
  an overflow, which three characters cannot give.  The number is signed, as \<open>amount\<close> is.
\<close>

definition ota_fail :: "wenv \<Rightarrow> int \<Rightarrow> int \<Rightarrow> (wifi, unit) state" where
  "ota_fail e cause progress = do { ota_publish e 2 cause progress; ota_end }"

definition ota_amount :: "wenv \<Rightarrow> int \<Rightarrow> (wifi, unit) state" where
  "ota_amount e amount = do {
     s \<leftarrow> State_Monad.get;
     if amount \<ge> 100 then upd_ota (\<lambda>i. i\<lparr>download_complete := True, ota_st := 3\<rparr>)
     else do {
       whenever (amount > int (unat (ota_last (my_ota_info s))) + 2) (ota_publish e 1 amount amount);
       upd_ota (\<lambda>i. i\<lparr>ota_last := of_int amount\<rparr>)
     }
   }"

definition ota_state_2 :: "wenv \<Rightarrow> (wifi, unit) state" where
  "ota_state_2 e = do {
     s \<leftarrow> State_Monad.get;
     if ota_last_start_result s \<noteq> []
     then if starts_with ''0x00'' (ota_last_start_result s)
          then upd_ota (\<lambda>i. i\<lparr>download_complete := True, ota_st := 3\<rparr>)
          else ota_fail e FOTA_DOWNLOAD_ERROR_CAUSE_DOWNLOAD_FAILED DA_OTA_ERR_STARTING_DL
     else if ota_cancel (my_ota_info s)
     then do {
       ret \<leftarrow> wifi_send_ok_err_atcmd e ''AT+NWOTADWSTOP'' 2000;
       whenever (ret \<noteq> 0) (ota_publish e 2 FOTA_DOWNLOAD_ERROR_CAUSE_INTERNAL DA_OTA_ERROR_STOPPING);
       ota_cancelled
     }
     else do {
       let wm = wifi_add_wait_msg (CRLF @ ''+NWOTADWPROG:%3s'') True [stale e 5 s]
                  (wifi_add_wait_msg (CRLF @ ''ERROR%19s'') True [replicate 50 NUL] []);
       upd_ota (\<lambda>i. i\<lparr>download_complete := False\<rparr>);
       (ret, wm) \<leftarrow> wifi_send_and_wait_for e ''AT+NWOTADWPROG=rtos'' wm 15000;
       if ret < 0
       then ota_fail e FOTA_DOWNLOAD_ERROR_CAUSE_DOWNLOAD_FAILED DA_OTA_TIMEOUT_GETTING_PROGRESS
       else if ret = 0
       then ota_fail e FOTA_DOWNLOAD_ERROR_CAUSE_DOWNLOAD_FAILED DA_OTA_TIMEOUT_GETTING_PROGRESS
       else ota_amount e (fst (strtol10 (cstr (we_bufs (wm ! 1) ! 0))))
     }
   }"

definition ota_state_4 :: "wenv \<Rightarrow> (wifi, unit) state" where
  "ota_state_4 e = do {
     s \<leftarrow> State_Monad.get;
     if reboot_cnt (dax s) > int (unat (ota_reboot_cnt (my_ota_info s)))
     then if expected_version (my_ota_info s) \<noteq> da_version (dax s)
          then ota_fail e FOTA_DOWNLOAD_ERROR_CAUSE_INVALID_UPDATE DA_OTA_VERSION_MISMATCH
          else do {
            ota_publish e 3 FOTA_DOWNLOAD_ERROR_CAUSE_NO_ERROR DA_OTA_PROGRESS_NO_OTA;
            ota_end
          }
     else skip
   }"

text \<open>
  State 3 asks for the new image to be started and goes on with state 4 in the same run.  The
  counter of restarts is kept in eight bits.
\<close>

definition ota_state_3 :: "wenv \<Rightarrow> (wifi, unit) state" where
  "ota_state_3 e = do {
     s \<leftarrow> State_Monad.get;
     if ota_cancel (my_ota_info s) then ota_cancelled
     else if \<not> download_complete (my_ota_info s)
     then ota_fail e FOTA_DOWNLOAD_ERROR_CAUSE_DOWNLOAD_FAILED DA_OTA_PROGRESS_STALLED
     else do {
       ret \<leftarrow> wifi_send_ok_err_atcmd e ''AT+NWOTARENEW'' 1000;
       if ret \<noteq> 0 \<and> ret \<noteq> - EAGAIN
       then ota_fail e FOTA_DOWNLOAD_ERROR_CAUSE_INVALID_UPDATE DA_OTA_ERROR_RENEWING
       else do {
         ota_publish e 1 DA_OTA_DOWNLOAD_COMPLETE DA_OTA_PROGRESS_REBOOTING;
         n \<leftarrow> gets (\<lambda>s. reboot_cnt (dax s));
         upd_ota (\<lambda>i. i\<lparr>ota_reboot_cnt := of_int n, ota_st := 4\<rparr>);
         ota_state_4 e
       }
     }
   }"

definition net_ota_fn :: "wenv \<Rightarrow> (wifi, unit) state" where
  "net_ota_fn e = do {
     st \<leftarrow> gets (\<lambda>s. ota_st (my_ota_info s));
     if st = 1 then ota_state_1 e
     else if st = 2 then ota_state_2 e
     else if st = 3 then ota_state_3 e
     else if st = 4 then ota_state_4 e
     else skip
   }"

section \<open>The work queue\<close>

text \<open>The initialisation of the chip after its start is not modelled: its item does nothing here.\<close>

definition run_net_work :: "wenv \<Rightarrow> net_work \<Rightarrow> (wifi, unit) state" where
  "run_net_work e w =
     (case w of
        InitWork \<Rightarrow> net_do_da_init_work_fn e
      | WakeupWork \<Rightarrow> net_process_WAKEUP_fn e
      | ResetWork \<Rightarrow> net_reset_da_fn e
      | DisconnWork \<Rightarrow> net_disconn_work_fn e
      | TimeWork \<Rightarrow> net_get_time_work_fn e
      | OtaWork \<Rightarrow> net_ota_fn e
      | WatchWork ev \<Rightarrow> watch_work_fn ev)"

definition net_work_step :: "wenv \<Rightarrow> (wifi, unit) state" where
  "net_work_step e = do {
     q \<leftarrow> gets net_works;
     case q of [] \<Rightarrow> skip
     | w # rest \<Rightarrow> do { modify (\<lambda>s. s\<lparr>net_works := rest\<rparr>); run_net_work e w }
   }"

end
