(* ===== verification/LinkFrames.thy ===== *)
theory LinkFrames
  imports NetWork
begin

text \<open>
  What the operations on the Wi-Fi chip leave alone.  \<open>core\<close> is the part of the state that the link
  itself works on: clock, mutex, replies to come, queue, blocks and their owners.  The network
  manager's handlers change the shadow of the chip and queue work; but for the messages from the
  cloud and the pieces of a download they leave \<open>core\<close> alone.
\<close>

section \<open>Views\<close>

definition clock_view :: "wifi \<Rightarrow> nat \<times> nat \<times> (nat \<times> da_reply) list" where
  "clock_view s = (now s, lock_count s, inbox s)"

definition link_view :: "wifi \<Rightarrow> (nat \<times> nat \<times> (nat \<times> da_reply) list) \<times> wifi_msg list" where
  "link_view s = (clock_view s, wifi_msgq s)"

definition store_view ::
  "wifi \<Rightarrow> nat list \<times> nat \<times> bool \<times> int \<times> mqtt_in list \<times> cb_id option list" where
  "store_view s = (map fst (wifi_heap s), next_block s, bad_free s, num_of_heap_elements s,
     mqtt_incoming s, wifi_tx_rx_cb s)"

definition core where
  "core s = (link_view s, store_view s)"

lemmas views = core_def link_view_def clock_view_def store_view_def now_def

lemma same_link_clock: "same link_view m \<Longrightarrow> same clock_view m"
  by (simp add: same_def link_view_def)

lemma same_link_queue: "same link_view m \<Longrightarrow> same wifi_msgq m"
  by (simp add: same_def link_view_def)

lemma link_of_core: "same core m \<Longrightarrow> same link_view m"
  and store_of_core: "same core m \<Longrightarrow> same store_view m"
  by (simp_all add: same_def core_def)

lemma clock_viewD:
  "same clock_view m \<Longrightarrow> now (after m s) = now s"
  "same clock_view m \<Longrightarrow> lock_count (after m s) = lock_count s"
  "same clock_view m \<Longrightarrow> inbox (after m s) = inbox s"
  by (simp_all add: same_def clock_view_def)

text \<open>A write to a single variable, for any of the views.\<close>

lemma same_core_modify: "(\<And>s. core (f s) = core s) \<Longrightarrow> same core (modify f)"
  and same_link_modify: "(\<And>s. link_view (f s) = link_view s) \<Longrightarrow> same link_view (modify f)"
  and same_store_modify: "(\<And>s. store_view (f s) = store_view s) \<Longrightarrow> same store_view (modify f)"
  by (rule same_modify, blast)+

section \<open>Writers and events\<close>

lemma core_writers [same_intro]:
  "same core (upd_da f)" "same core (upd_more g)" "same core (upd_http h)" "same core (upd_ota k)"
  "same core (outside d)" "same core (submit_work w)" "same core (write_block a t)"
  by (simp_all add: same_def upd_da_def upd_more_def upd_http_def upd_ota_def outside_def
      submit_work_def write_block_def views o_def if_distrib cong: if_cong)

lemma core_publish [same_intro]: "same core (publish e b old new)"
  by (simp add: publish_def watcher_listener_def same_def views Let_def)

lemma core_tri_put [same_intro]: "same core (tri_put v x)"
  by (cases v) (simp_all add: core_writers)

lemma core_tri_event [same_intro]: "same core (send_zbus_tri_event e v x)"
  unfolding send_zbus_tri_event_def by (intro same_intro)

lemma core_int_event [same_intro]:
  "(\<And>v. same core (put v)) \<Longrightarrow> same core (send_zbus_int_event e b x get put f)"
  unfolding send_zbus_int_event_def by (intro same_intro) assumption

lemma core_timestamp_event [same_intro]:
  "(\<And>v. same core (put v)) \<Longrightarrow> same core (send_zbus_timestamp_event e b x get put)"
  unfolding send_zbus_timestamp_event_def by (intro same_intro) assumption

lemma core_string_event [same_intro]:
  "(\<And>v. same core (put v)) \<Longrightarrow> same core (send_zbus_string_event e b x put n)"
  unfolding send_zbus_string_event_def by (intro same_intro) assumption

lemma core_version_event [same_intro]: "same core (send_zbus_version_event e v)"
  unfolding send_zbus_version_event_def by (intro same_intro same_core_modify) (simp add: views)

lemma core_ota_event [same_intro]: "same core (send_zbus_ota_event e v)"
  unfolding send_zbus_ota_event_def by (intro same_intro)

lemma core_ap_names [same_intro]: "same core remember_ap_name" "same core forget_ap"
  unfolding remember_ap_name_def forget_ap_def
  by (intro same_intro same_core_modify; simp add: views)+

lemma core_lost_ap [same_intro]: "same core (lost_ap e)"
  unfolding lost_ap_def by (intro same_intro)

lemma core_queues [same_intro]:
  "same core queue_da_init_work" "same core queue_WAKEUP_work"
  "same core queue_disconn_work" "same core (queue_get_time_work e)"
  unfolding queue_da_init_work_def queue_WAKEUP_work_def queue_disconn_work_def queue_get_time_work_def
  by (intro same_intro)+

section \<open>Handlers that leave the core alone\<close>

lemma core_init [same_intro]: "same core (net_handle_DA_Init e t)"
  unfolding net_handle_DA_Init_def Let_def
  by (intro same_intro same_core_modify) (simp_all add: views)

lemma core_apconn [same_intro]: "same core (net_handle_DA_APConn e m t i)"
  unfolding net_handle_DA_APConn_def Let_def by (intro same_intro)

lemma core_unstage [same_intro]: "same core net_unstage_ssid_for_saving"
  unfolding net_unstage_ssid_for_saving_def by (rule same_core_modify) (simp add: views)

lemma core_apdiscon [same_intro]: "same core (net_handle_DA_APDiscon e t)"
  unfolding net_handle_DA_APDiscon_def by (intro same_intro)

lemma same_case_ptr [same_intro]:
  "(\<And>a. same f (m a)) \<Longrightarrow> (\<And>t. same f (g t)) \<Longrightarrow> same f h \<Longrightarrow>
   same f (case p of Block a \<Rightarrow> m a | Local t \<Rightarrow> g t | Null \<Rightarrow> h)"
  by (cases p) simp_all

lemma same_case_prod_app [same_intro]:
  "(\<And>a b. x = (a, b) \<Longrightarrow> same f (m a b c)) \<Longrightarrow> same f ((case x of (a, b) \<Rightarrow> m a b) c)"
  by (cases x) simp

lemma core_subtopic [same_intro]: "same core (net_handle_DA_SubTopic e t)"
  unfolding net_handle_DA_SubTopic_def Let_def by (intro same_intro)

lemma core_dpm [same_intro]: "same core (net_handle_DA_DPM e t)"
  unfolding net_handle_DA_DPM_def by (intro same_intro)

lemma core_add_lines [same_intro]: "same core (add_lines ls)"
  by (induction ls)
     (auto simp: wifi_add_SSID_to_cached_list_def intro!: same_intro same_core_modify, simp add: views)

lemma core_match [same_intro]: "same core (match_message e m wm)"
  unfolding match_message_def by (intro same_intro same_core_modify) (simp add: views)

section \<open>Operations on the blocks\<close>

lemma view_heap_free [same_intro]: "same link_view (k_heap_free p)"
  by (simp add: same_def k_heap_free_def views split: data_ptr.split)

lemma view_msg_free [same_intro]: "same link_view (wifi_msg_free m)"
  unfolding wifi_msg_free_def Let_def
  by (intro same_intro same_link_modify) (simp add: views)

lemma view_heap_alloc [same_intro]: "same link_view (k_heap_alloc e n)"
  by (simp add: k_heap_alloc_def same_def views)

lemma core_alloc_failed [same_intro]: "same core alloc_failed"
  by (simp add: alloc_failed_def same_def outside_def views)

text \<open>The same facts for the view of the link.\<close>

lemmas view_of_core [same_intro] =
  core_writers [THEN link_of_core] core_tri_event [THEN link_of_core]
  core_version_event [THEN link_of_core]
  core_init [THEN link_of_core] core_apconn [THEN link_of_core] core_apdiscon [THEN link_of_core]
  core_subtopic [THEN link_of_core] core_dpm [THEN link_of_core] core_add_lines [THEN link_of_core]
  core_match [THEN link_of_core] core_queues [THEN link_of_core] core_alloc_failed [THEN link_of_core]
  core_int_event [THEN link_of_core] core_timestamp_event [THEN link_of_core]

lemma view_mqtt_msg [same_intro]: "same link_view (net_handle_DA_MQTT_Msg e m i)"
  unfolding net_handle_DA_MQTT_Msg_def Let_def
  by (intro same_intro same_link_modify) (simp_all add: views)

lemma view_http [same_intro]:
  "same link_view (wifi_at_http_status e m)" "same link_view (wifi_at_http_write e m)"
  unfolding wifi_at_http_status_def wifi_at_http_write_def http_chunk_def Let_def
  by (intro same_intro same_link_modify; simp add: views)+

lemma view_report [same_intro]: "same link_view (net_monitor_report e m t)"
  unfolding net_monitor_report_def Let_def
  by (intro same_intro same_link_modify) (simp_all add: views)

lemma view_monitor [same_intro]: "same link_view (net_monitor_DA e m)"
  unfolding net_monitor_DA_def Let_def
  by (intro same_intro same_link_modify) (simp_all add: views)

end
