(* ===== verification/LinkTime.thy ===== *)
theory LinkTime
  imports LinkFrames
begin

text \<open>
  Time, mutex and rounds of the link to the DA16200.  The callbacks are an interface: what the link
  relies on is that they leave the clock, the mutex, the replies to come and the queue alone
  (\<open>link_callbacks\<close>).  Under this contract a wait ends within its rounds and by its deadline, and every
  exchange gives the mutex back.  The network manager's callback keeps the contract.
\<close>

section \<open>How much the queue can grow\<close>

definition grows :: "nat \<Rightarrow> (wifi, 'a) state \<Rightarrow> bool" where
  "grows n m \<longleftrightarrow> (\<forall>s. length (wifi_msgq (after m s)) \<le> n + length (wifi_msgq s))"

lemma growsD: "grows n m \<Longrightarrow> length (wifi_msgq (after m s)) \<le> n + length (wifi_msgq s)"
  by (simp add: grows_def)

named_theorems grows_intro "bounds of the growth of the message queue"

lemma grows_view [grows_intro]: "same link_view m \<Longrightarrow> grows n m"
  by (simp add: grows_def same_def link_view_def)

lemma grows_skip [grows_intro]: "grows n (return x)"
  by (simp add: grows_def)

lemma grows_bind_fst: "grows n m \<Longrightarrow> (\<And>a. grows 0 (f a)) \<Longrightarrow> grows n (State_Monad.bind m f)"
  by (simp add: grows_def) (meson le_trans)

lemma grows_bind_snd: "grows 0 m \<Longrightarrow> (\<And>a. grows n (f a)) \<Longrightarrow> grows n (State_Monad.bind m f)"
  by (simp add: grows_def) (meson add_left_mono le_trans)

lemma grows_whenever [grows_intro]: "grows n m \<Longrightarrow> grows n (whenever b m)"
  by (simp add: grows_def)

lemma grows_if [grows_intro]: "(b \<Longrightarrow> grows n m) \<Longrightarrow> (\<not> b \<Longrightarrow> grows n k) \<Longrightarrow> grows n (if b then m else k)"
  by simp

lemma grows_option [grows_intro]:
  "(x = None \<Longrightarrow> grows n m) \<Longrightarrow> (\<And>y. x = Some y \<Longrightarrow> grows n (f y)) \<Longrightarrow>
   grows n (case x of None \<Rightarrow> m | Some y \<Rightarrow> f y)"
  by (cases x) simp_all

lemma grows_prod [grows_intro]:
  "(\<And>a b. x = (a, b) \<Longrightarrow> grows n (f a b)) \<Longrightarrow> grows n (case x of (a, b) \<Rightarrow> f a b)"
  by (cases x) simp

lemma grows_ptr [grows_intro]:
  "(\<And>a. grows n (f a)) \<Longrightarrow> (\<And>t. grows n (g t)) \<Longrightarrow> grows n h \<Longrightarrow>
   grows n (case p of Block a \<Rightarrow> f a | Local t \<Rightarrow> g t | Null \<Rightarrow> h)"
  by (cases p) simp_all

lemmas clock_of_views [same_intro] =
  view_heap_alloc [THEN same_link_clock] core_alloc_failed [THEN link_of_core, THEN same_link_clock]
  view_msg_free [THEN same_link_clock] core_writers(7) [THEN link_of_core, THEN same_link_clock]

lemma clock_modify: "(\<And>s. clock_view (f s) = clock_view s) \<Longrightarrow> same clock_view (modify f)"
  by (rule same_modify)

lemma alloc_loop_clock [same_intro]: "same clock_view (alloc_loop e amount t k qsize)"
proof (induction k arbitrary: qsize)
  case 0
  show ?case by (simp add: same_return)
next
  case (Suc k)
  show ?case
    unfolding alloc_loop.simps
    by (intro same_intro Suc.IH clock_modify) (simp_all add: clock_view_def now_def)
qed

lemmas queue_same = view_heap_alloc [THEN same_link_queue, THEN sameD]
  core_alloc_failed [THEN link_of_core, THEN same_link_queue, THEN sameD]
  view_msg_free [THEN same_link_queue, THEN sameD]

lemma alloc_loop_shrinks [grows_intro]: "grows 0 (alloc_loop e amount t k qsize)"
proof (induction k arbitrary: qsize)
  case 0
  show ?case by (simp add: grows_skip)
next
  case (Suc k)
  have "length (wifi_msgq (after (alloc_loop e amount t k q) (after (wifi_msg_free m) (u\<lparr>wifi_msgq := rest\<rparr>))))
      \<le> length rest" for m q u rest
    using growsD [OF Suc.IH, of q "after (wifi_msg_free m) (u\<lparr>wifi_msgq := rest\<rparr>)"] by (simp add: queue_same)
  then show ?case
    unfolding grows_def alloc_loop.simps
    by (auto simp: queue_same le_SucI split: option.split list.split)
qed

lemma set_now_simps [simp]:
  "now (after (set_now t) s) = max (now s) t" "lock_count (after (set_now t) s) = lock_count s"
  "inbox (after (set_now t) s) = inbox s" "wifi_msgq (after (set_now t) s) = wifi_msgq s"
  by (simp_all add: set_now_def now_def)

lemma now_updates [simp]:
  "now (s\<lparr>wifi_msgq := q\<rparr>) = now s" "now (s\<lparr>inbox := i\<rparr>) = now s" "now (s\<lparr>lock_count := l\<rparr>) = now s"
  by (simp_all add: now_def)

lemma release_simps [simp]:
  "now (after wifi_release_mutex s) = now s" "lock_count (after wifi_release_mutex s) = lock_count s - 1"
  "inbox (after wifi_release_mutex s) = inbox s" "wifi_msgq (after wifi_release_mutex s) = wifi_msgq s"
  by (simp_all add: wifi_release_mutex_def now_def)

lemma ms_left_simps [simp]: "after (ms_left tp) s = s" "result (ms_left tp) s = tp - now s"
  by (simp_all add: ms_left_def)

text \<open>A thread that holds the mutex gets it again at once.\<close>

lemma get_mutex_again:
  "lock_count s > 0 \<Longrightarrow> result (wifi_get_mutex e t) s = 0"
  "lock_count s > 0 \<Longrightarrow> after (wifi_get_mutex e t) s = s\<lparr>lock_count := lock_count s + 1\<rparr>"
  by (simp_all add: wifi_get_mutex_def)

section \<open>The contract of the callbacks\<close>

locale link_callbacks =
  fixes e :: wenv
  assumes callback_view: "same link_view (on_msg e cb m)"
begin

lemma run_callbacks_view: "same link_view (run_callbacks e cbs m)"
proof (induction cbs arbitrary: m)
  case Nil
  show ?case by (simp add: same_return)
next
  case (Cons cb cbs)
  then show ?case by (cases cb) (auto intro!: same_bind callback_view)
qed

lemma notify_clock: "same clock_view (wifi_notify_cbs e m)"
  unfolding wifi_notify_cbs_def
  by (intro same_intro run_callbacks_view [THEN same_link_clock] clock_modify)
     (simp_all add: clock_view_def now_def)

lemma notify_grows: "grows 1 (wifi_notify_cbs e m)"
  using run_callbacks_view [THEN same_link_queue, THEN sameD]
  by (simp add: wifi_notify_cbs_def grows_def)

lemma new_msg_clock: "same clock_view (wifi_init_new_msg e b n)"
  unfolding wifi_init_new_msg_def wifi_msg_alloc_def by (intro same_intro)

lemma new_msg_shrinks: "grows 0 (wifi_init_new_msg e b n)"
  unfolding wifi_init_new_msg_def wifi_msg_alloc_def
  by (intro grows_bind_fst grows_intro same_intro)

lemma hand_over_clock: "same clock_view (hand_over e m)"
  unfolding hand_over_def by (intro same_intro notify_clock)

lemma hand_over_grows: "grows 1 (hand_over e m)"
  unfolding hand_over_def by (intro grows_bind_fst notify_grows grows_intro same_intro)

lemma resp_clock: "same clock_view (da_resp_work_fn e r)"
  unfolding da_resp_work_fn_def Let_def
  by (intro same_intro new_msg_clock hand_over_clock)

lemma resp_grows: "grows 1 (da_resp_work_fn e r)"
  unfolding da_resp_work_fn_def Let_def
  by (intro grows_intro grows_bind_snd [OF new_msg_shrinks] grows_bind_snd [OF core_writers(7) [THEN link_of_core, THEN grows_view]]
      grows_bind_snd [OF view_msg_free [THEN grows_view]] hand_over_grows)

lemmas resp_simps [simp] = resp_clock [THEN clock_viewD(1)] resp_clock [THEN clock_viewD(2)]
  resp_clock [THEN clock_viewD(3)]

lemma deliver_all_simps [simp]:
  "lock_count (after (deliver_all e as) s) = lock_count s"
  "inbox (after (deliver_all e as) s) = inbox s"
  by (induction as arbitrary: s) (simp_all add: run)

lemma deliver_all_now:
  "(\<And>a. a \<in> set as \<Longrightarrow> fst a \<le> t) \<Longrightarrow> now s \<le> t \<Longrightarrow> now (after (deliver_all e as) s) \<le> t"
  by (induction as arbitrary: s) (simp_all add: run)

lemma deliver_all_mono: "now s \<le> now (after (deliver_all e as) s)"
proof (induction as arbitrary: s)
  case Nil
  show ?case by simp
next
  case (Cons a as)
  have "now s \<le> max (now s) (fst a)" by simp
  also have "\<dots> \<le> now (after (deliver_all e as) (after (da_resp_work_fn e (snd a)) (after (set_now (fst a)) s)))"
    using Cons [of "after (da_resp_work_fn e (snd a)) (after (set_now (fst a)) s)"] by simp
  finally show ?case by (simp add: run)
qed

lemma pass_until_now: "now s \<le> t \<Longrightarrow> now (after (pass_until e t) s) = t"
  using deliver_all_now [of "takeWhile (\<lambda>a. fst a \<le> t) (inbox s)" t "s\<lparr>inbox := dropWhile (\<lambda>a. fst a \<le> t) (inbox s)\<rparr>"]
  by (auto simp: pass_until_def run dest: set_takeWhileD intro: max_absorb2)

lemma pass_until_lock: "lock_count (after (pass_until e t) s) = lock_count s"
  by (simp add: pass_until_def run)

lemma get_mutex_now: "now s \<le> now (after (wifi_get_mutex e t) s) \<and> now (after (wifi_get_mutex e t) s) \<le> now s + t"
proof (cases "lock_count s > 0")
  case True
  then show ?thesis by (simp add: get_mutex_again)
next
  case False
  obtain r w where "mutex_wait e t s = (r, w)" by fastforce
  then have "now (after (wifi_get_mutex e t) s) = now s + min w t"
    using False by (simp add: wifi_get_mutex_def run pass_until_now)
  then show ?thesis by simp
qed

lemma get_mutex_lock:
  "lock_count (after (wifi_get_mutex e t) s) =
     (if result (wifi_get_mutex e t) s = 0 then lock_count s + 1 else lock_count s)"
proof (cases "lock_count s > 0")
  case True
  then show ?thesis by (simp add: get_mutex_again)
next
  case False
  obtain r w where "mutex_wait e t s = (r, w)" by fastforce
  then show ?thesis
    using False by (simp add: wifi_get_mutex_def run pass_until_lock)
qed

lemma spi_send_simps [simp]:
  "now (after (wifi_spi_send e d) s) = now s" "lock_count (after (wifi_spi_send e d) s) = lock_count s"
  by (simp_all add: wifi_spi_send_def run now_def Let_def split: prod.split)

lemma send_now: "lock_count s > 0 \<Longrightarrow> now (after (wifi_send_timeout e d t) s) = now s"
  and send_lock: "lock_count s > 0 \<Longrightarrow> lock_count (after (wifi_send_timeout e d t) s) = lock_count s"
  using notify_clock [THEN clock_viewD(1)] notify_clock [THEN clock_viewD(2)]
  by (simp_all add: wifi_send_timeout_def run get_mutex_again)

section \<open>Receiving and waiting\<close>

text \<open>
  Taking a message: it came from the queue or from one of the replies, so the messages that are
  left and those to come are fewer by one at least.
\<close>

lemma take_or_wait_some:
  "result (take_or_wait e tp as) s = Some m \<Longrightarrow>
   Suc (length (wifi_msgq (after (take_or_wait e tp as) s)) + length (inbox (after (take_or_wait e tp as) s)))
     \<le> length (wifi_msgq s) + length as + length (inbox s)"
proof (induction as arbitrary: s)
  case Nil
  then show ?case by (simp add: run split: list.splits)
next
  case (Cons a as)
  let ?u = "after (da_resp_work_fn e (snd a)) (after (set_now (fst a)) s)"
  have "length (wifi_msgq ?u) \<le> Suc (length (wifi_msgq s))"
    using growsD [OF resp_grows, of "snd a" "after (set_now (fst a)) s"] by simp
  with Cons show ?case by (fastforce simp: run split: list.splits)
qed

lemma take_or_wait_time:
  assumes "\<And>a. a \<in> set as \<Longrightarrow> fst a \<le> tp" and "now s \<le> tp"
  shows "now s \<le> now (after (take_or_wait e tp as) s) \<and> now (after (take_or_wait e tp as) s) \<le> tp \<and>
    lock_count (after (take_or_wait e tp as) s) = lock_count s"
  using assms
proof (induction as arbitrary: s)
  case Nil
  then show ?case by (simp add: run split: list.splits)
next
  case (Cons a as)
  let ?u = "after (da_resp_work_fn e (snd a)) (after (set_now (fst a)) s)"
  have "now ?u \<le> tp" "now s \<le> now ?u" "lock_count ?u = lock_count s" using Cons.prems by simp_all
  with Cons show ?case by (fastforce simp: run split: list.splits)
qed

text \<open>Receiving under the mutex, before the deadline.\<close>

lemma recv_spec:
  assumes "lock_count s > 0" and "now s < tp"
  shows "now s \<le> now (after (wifi_recv e (tp - now s)) s)"
    and "now (after (wifi_recv e (tp - now s)) s) \<le> tp"
    and "lock_count (after (wifi_recv e (tp - now s)) s) = lock_count s"
    and "snd (result (wifi_recv e (tp - now s)) s) = None \<Longrightarrow> fst (result (wifi_recv e (tp - now s)) s) = - EAGAIN"
    and "snd (result (wifi_recv e (tp - now s)) s) = Some m \<Longrightarrow>
      Suc (length (wifi_msgq (after (wifi_recv e (tp - now s)) s)) + length (inbox (after (wifi_recv e (tp - now s)) s)))
        \<le> length (wifi_msgq s) + length (inbox s)"
proof -
  let ?l = "\<lambda>a. fst a \<le> tp"
  let ?u = "s\<lparr>lock_count := lock_count s + 1, inbox := dropWhile ?l (inbox s)\<rparr>"
  let ?m = "take_or_wait e tp (takeWhile ?l (inbox s))"
  have recv: "after (wifi_recv e (tp - now s)) s = after wifi_release_mutex (after ?m ?u)"
    "result (wifi_recv e (tp - now s)) s =
      (case result ?m ?u of None \<Rightarrow> (- EAGAIN, None) | Some m \<Rightarrow> (0, Some m))"
    using assms by (simp_all add: wifi_recv_def k_msgq_get_def run get_mutex_again Let_def split: option.split)
  have u: "now ?u \<le> tp" "now ?u = now s" using assms(2) by (simp_all add: now_def)
  have t: "now ?u \<le> now (after ?m ?u) \<and> now (after ?m ?u) \<le> tp \<and> lock_count (after ?m ?u) = lock_count ?u"
    by (rule take_or_wait_time [OF _ u(1)]) (auto dest: set_takeWhileD)
  show "now s \<le> now (after (wifi_recv e (tp - now s)) s)" "now (after (wifi_recv e (tp - now s)) s) \<le> tp"
    "lock_count (after (wifi_recv e (tp - now s)) s) = lock_count s"
    unfolding recv using t u(2) by simp_all
  show "snd (result (wifi_recv e (tp - now s)) s) = None \<Longrightarrow> fst (result (wifi_recv e (tp - now s)) s) = - EAGAIN"
    unfolding recv by (simp split: option.splits)
  have "length (takeWhile ?l (inbox s)) + length (dropWhile ?l (inbox s)) = length (inbox s)"
    using takeWhile_dropWhile_id [of ?l "inbox s"] by (metis length_append)
  then show "snd (result (wifi_recv e (tp - now s)) s) = Some m \<Longrightarrow>
      Suc (length (wifi_msgq (after (wifi_recv e (tp - now s)) s)) + length (inbox (after (wifi_recv e (tp - now s)) s)))
        \<le> length (wifi_msgq s) + length (inbox s)"
    unfolding recv using take_or_wait_some [of tp "takeWhile ?l (inbox s)" ?u m]
    by (simp split: option.splits)
qed

lemmas match_view = core_match [THEN link_of_core]

lemmas match_simps = match_view [THEN same_link_clock, THEN clock_viewD(1)]
  match_view [THEN same_link_clock, THEN clock_viewD(2)]
  match_view [THEN same_link_clock, THEN clock_viewD(3)] match_view [THEN same_link_queue, THEN sameD]
  view_msg_free [THEN same_link_clock, THEN clock_viewD(1)]
  view_msg_free [THEN same_link_clock, THEN clock_viewD(2)]
  view_msg_free [THEN same_link_clock, THEN clock_viewD(3)]
  view_msg_free [THEN same_link_queue, THEN sameD]

text \<open>The wait keeps the mutex and does not pass its deadline.\<close>

lemma wait_loop_time:
  assumes "lock_count s > 0" and "now s \<le> tp"
  shows "now s \<le> now (after (wait_loop e n tp wm ret) s) \<and> now (after (wait_loop e n tp wm ret) s) \<le> tp \<and>
    lock_count (after (wait_loop e n tp wm ret) s) = lock_count s"
  using assms
proof (induction n arbitrary: s wm ret)
  case 0
  then show ?case by simp
next
  case (Suc n)
  show ?case
  proof (cases "now s = tp")
    case True
    then show ?thesis by (simp add: run)
  next
    case False
    with Suc.prems have lt: "now s < tp" by simp
    obtain r mo where rm: "result (wifi_recv e (tp - now s)) s = (r, mo)" by fastforce
    let ?u = "after (wifi_recv e (tp - now s)) s"
    note u = recv_spec(1-3) [OF Suc.prems(1) lt]
    have ih: "now s \<le> now (after (wait_loop e n tp wm r) v) \<and> now (after (wait_loop e n tp wm r) v) \<le> tp \<and>
        lock_count (after (wait_loop e n tp wm r) v) = lock_count s"
      if "now v = now ?u" "lock_count v = lock_count ?u" for v wm r
      using Suc.IH [of v wm r] that u Suc.prems(1) le_trans [OF u(1)] by simp
    show ?thesis
    proof (cases mo)
      case None
      then have "r = - EAGAIN" using recv_spec(4) [OF Suc.prems(1) lt] rm by simp
      then show ?thesis using lt rm u None by (simp add: run)
    next
      case (Some m)
      obtain k wm' where k: "result (match_message e m wm) ?u = (k, wm')" by fastforce
      let ?v = "after (wifi_msg_free m) (after (match_message e m wm) ?u)"
      have "now ?v = now ?u" "lock_count ?v = lock_count ?u" by (simp_all add: match_simps)
      with ih [of ?v] u Some lt rm k show ?thesis by (auto simp: run)
    qed
  qed
qed

text \<open>Its bound is enough: as many rounds as there are messages, and one more.\<close>

lemma wait_loop_ends:
  assumes "lock_count s > 0" and "now s \<le> tp" and "length (wifi_msgq s) + length (inbox s) < n"
  shows "snd (snd (result (wait_loop e n tp wm ret) s))"
  using assms
proof (induction n arbitrary: s wm ret)
  case 0
  then show ?case by simp
next
  case (Suc n)
  show ?case
  proof (cases "now s = tp")
    case True
    then show ?thesis by (simp add: run)
  next
    case False
    with Suc.prems have lt: "now s < tp" by simp
    obtain r mo where rm: "result (wifi_recv e (tp - now s)) s = (r, mo)" by fastforce
    let ?u = "after (wifi_recv e (tp - now s)) s"
    note u = recv_spec [OF Suc.prems(1) lt]
    show ?thesis
    proof (cases mo)
      case None
      then have "r = - EAGAIN" using u(4) rm by simp
      then show ?thesis using lt rm None by (simp add: run)
    next
      case (Some m)
      obtain k wm' where k: "result (match_message e m wm) ?u = (k, wm')" by fastforce
      let ?v = "after (wifi_msg_free m) (after (match_message e m wm) ?u)"
      have "length (wifi_msgq ?v) + length (inbox ?v) < n"
        using u(5) [of m] rm Some Suc.prems(3) by (simp add: match_simps)
      then have "snd (snd (result (wait_loop e n tp wm' k) ?v))"
        using Suc.IH [of ?v wm' k] u(1-3) Suc.prems(1) by (simp add: match_simps)
      with Some lt rm k show ?thesis by (simp add: run)
    qed
  qed
qed

lemma wait_for_time:
  assumes "lock_count s > 0"
  shows "now s \<le> now (after (wifi_wait_for e wm t) s) \<and> now (after (wifi_wait_for e wm t) s) \<le> now s + t \<and>
    lock_count (after (wifi_wait_for e wm t) s) = lock_count s"
proof -
  let ?u = "s\<lparr>lock_count := lock_count s + 1\<rparr>"
  have "now s \<le> now (after (wait_loop e (wait_rounds ?u) (now s + t) wm (- EAGAIN)) ?u) \<and>
      now (after (wait_loop e (wait_rounds ?u) (now s + t) wm (- EAGAIN)) ?u) \<le> now s + t \<and>
      lock_count (after (wait_loop e (wait_rounds ?u) (now s + t) wm (- EAGAIN)) ?u) = lock_count s + 1"
    using wait_loop_time [of ?u "now s + t"] by simp
  then show ?thesis
    using assms by (simp add: wifi_wait_for_def run get_mutex_again split: prod.split)
qed

lemma free_all_view: "same link_view (free_all ms)"
  by (induction ms) (auto intro!: same_intro)

lemma flush_simps:
  "lock_count s > 0 \<Longrightarrow> now (after (wifi_flush_msgs e) s) = now s"
  "lock_count s > 0 \<Longrightarrow> lock_count (after (wifi_flush_msgs e) s) = lock_count s"
  "lock_count s > 0 \<Longrightarrow> wifi_msgq (after (wifi_flush_msgs e) s) = []"
  "lock_count s > 0 \<Longrightarrow> inbox (after (wifi_flush_msgs e) s) = inbox s"
  using free_all_view [THEN same_link_clock, THEN clock_viewD(1)]
    free_all_view [THEN same_link_clock, THEN clock_viewD(2)]
    free_all_view [THEN same_link_clock, THEN clock_viewD(3)]
    free_all_view [THEN same_link_queue, THEN sameD]
  by (simp_all add: wifi_flush_msgs_def run get_mutex_again)

lemma ok_err_time:
  "now s \<le> now (after (wifi_send_ok_err_atcmd e cmd t) s) \<and>
   now (after (wifi_send_ok_err_atcmd e cmd t) s) \<le> now s + t \<and>
   lock_count (after (wifi_send_ok_err_atcmd e cmd t) s) = lock_count s"
proof -
  let ?m = "after (wifi_get_mutex e t) s"
  let ?f = "after (wifi_flush_msgs e) ?m"
  let ?u = "after (wifi_send_timeout e cmd (now s + t - now ?f)) ?f"
  have m: "now s \<le> now ?m" "now ?m \<le> now s + t" using get_mutex_now [of s t] by simp_all
  show ?thesis
  proof (cases "result (wifi_get_mutex e t) s = 0")
    case True
    then have l: "lock_count ?m = lock_count s + 1" using get_mutex_lock [of t s] by simp
    then have f: "now ?f = now ?m" "lock_count ?f = lock_count s + 1" using flush_simps [of ?m] by simp_all
    then have u: "now ?u = now ?m" "lock_count ?u = lock_count s + 1"
      using send_now [of ?f] send_lock [of ?f] by simp_all
    have w: "now s \<le> now (after (wifi_wait_for e wm (now s + t - now ?u)) ?u) \<and>
        now (after (wifi_wait_for e wm (now s + t - now ?u)) ?u) \<le> now s + t \<and>
        lock_count (after (wifi_wait_for e wm (now s + t - now ?u)) ?u) = lock_count s + 1" for wm
      using wait_for_time [of ?u wm "now s + t - now ?u"] u m by simp
    show ?thesis
      using True m u f w by (auto simp: wifi_send_ok_err_atcmd_def run Let_def split: prod.split)
  next
    case False
    then show ?thesis
      using m get_mutex_lock [of t s] by (simp add: wifi_send_ok_err_atcmd_def run Let_def)
  qed
qed

end

section \<open>The network manager keeps the contract\<close>

interpretation monitor: link_callbacks "monitored e" for e
  by unfold_locales (auto simp: monitored_def intro!: same_intro)

text \<open>
  Claim C9.  A wait for one of several messages ends: whatever arrives and whatever the patterns are, the loop
  is left within one round more than there are messages queued or still to come, and the clock is
  then at the deadline at the latest, with the mutex as before.
\<close>

theorem wait_for_ends:
  assumes "lock_count s > 0" and "now s \<le> tp"
  shows "snd (snd (result (wait_loop (monitored e) (wait_rounds s) tp wm ret) s)) \<and>
    now (after (wait_loop (monitored e) (wait_rounds s) tp wm ret) s) \<le> tp \<and>
    lock_count (after (wait_loop (monitored e) (wait_rounds s) tp wm ret) s) = lock_count s"
proof -
  have "length (wifi_msgq s) + length (inbox s) < wait_rounds s" by (simp add: wait_rounds_def)
  from monitor.wait_loop_ends [OF assms this] monitor.wait_loop_time [OF assms] show ?thesis by blast
qed

theorem wait_for_ends_witness:
  "now (after (wait_loop (monitored idle_env) (wait_rounds ((wifi_boot idle_world)\<lparr>lock_count := 1\<rparr>)) 20500
      [] 0) ((wifi_boot idle_world)\<lparr>lock_count := 1\<rparr>)) \<le> 20500"
  by (rule wait_for_ends [THEN conjunct2, THEN conjunct1])
     (simp_all add: wifi_boot_def idle_world_def now_def)

text \<open>
  Claim C10.  A command that waits for OK or ERROR is back by its deadline and leaves the mutex as it found it,
  whatever the chip, the bus and the other threads do.
\<close>

theorem atcmd_returns_in_time:
  "now (after (wifi_send_ok_err_atcmd (monitored e) cmd t) s) \<le> now s + t \<and>
   lock_count (after (wifi_send_ok_err_atcmd (monitored e) cmd t) s) = lock_count s"
  using monitor.ok_err_time by blast

end
