(* ===== verification/LinkHeap.thy ===== *)
theory LinkHeap
  imports LinkTime
begin

text \<open>
  Who owns the blocks of the message heap.  A message in the queue with one reference owns its block;
  so does the copy that went to the cloud side with a message.  A queued message with two references
  is one whose block the cloud side owns: freeing it gives nothing back.  The invariant \<open>heap_ok\<close> says
  that every owner's block is allocated and no block has two owners; \<open>F\<close> lists the blocks of the
  messages in flight, and the flag \<open>b\<close> tells whether every block has an owner, which needs that the
  bus of the application accepts every message.
\<close>

section \<open>Owners\<close>

fun ptr_block :: "data_ptr \<Rightarrow> nat list" where
  "ptr_block (Block a) = [a]"
| "ptr_block _ = []"

definition claim :: "wifi_msg \<Rightarrow> nat list" where
  "claim m = (if m_ref m = 1 then ptr_block (m_data m) else [])"

definition owned :: "wifi \<Rightarrow> nat list" where
  "owned s = concat (map claim (wifi_msgq s)) @ concat (map (\<lambda>i. claim (mi_copy i)) (mqtt_incoming s))"

definition good_msg :: "wifi_msg \<Rightarrow> bool" where
  "good_msg m \<longleftrightarrow> (m_ref m = 1 \<or> m_ref m = 2) \<and> (\<exists>a. m_data m = Block a)"

definition heap_ok :: "bool \<Rightarrow> nat list \<Rightarrow> wifi \<Rightarrow> bool" where
  "heap_ok b F s \<longleftrightarrow>
     distinct (F @ owned s) \<and> distinct (map fst (wifi_heap s)) \<and>
     set (F @ owned s) \<subseteq> set (map fst (wifi_heap s)) \<and>
     (b \<longrightarrow> set (map fst (wifi_heap s)) \<subseteq> set (F @ owned s)) \<and>
     (\<forall>a \<in> set (map fst (wifi_heap s)). a < next_block s) \<and>
     num_of_heap_elements s = int (length (wifi_heap s)) \<and> \<not> bad_free s \<and>
     (\<forall>m \<in> set (wifi_msgq s). good_msg m) \<and>
     (\<forall>i \<in> set (mqtt_incoming s). good_msg (mi_copy i) \<and> m_ref (mi_copy i) = 1) \<and>
     count_list (wifi_tx_rx_cb s) (Some NET_MONITOR) \<le> 1"

lemma heap_ok_core: "core s = core t \<Longrightarrow> heap_ok b F s \<longleftrightarrow> heap_ok b F t"
  unfolding heap_ok_def owned_def views
  by (simp, metis length_map)

lemma heap_ok_frame: "same core m \<Longrightarrow> heap_ok b F (after m s) \<longleftrightarrow> heap_ok b F s"
  by (rule heap_ok_core) (simp add: same_def)

lemma keeps_core: "same core m \<Longrightarrow> keeps (heap_ok b F) m"
  by (simp add: keeps_def heap_ok_frame)

section \<open>Freeing\<close>

text \<open>Taking one key out of an association list without duplicates.\<close>

lemma length_filter_key:
  "distinct (map fst h) \<Longrightarrow> a \<in> fst ` set h \<Longrightarrow>
   length (filter (\<lambda>p. fst p \<noteq> a) h) = length h - 1"
proof (induction h)
  case (Cons p h)
  show ?case
  proof (cases "fst p = a")
    case True
    then have "filter (\<lambda>q. fst q \<noteq> a) h = h" using Cons.prems(1) by (auto simp: filter_id_conv image_iff)
    with True show ?thesis by simp
  next
    case False
    moreover have "h \<noteq> []" using False Cons.prems(2) by auto
    ultimately show ?thesis using Cons by (cases h) auto
  qed
qed simp

lemma free_shared:
  "m_ref m > 1 \<Longrightarrow> after (wifi_msg_free m) s = s"
  "m_ref m > 1 \<Longrightarrow> result (wifi_msg_free m) s = m\<lparr>m_ref := m_ref m - 1\<rparr>"
  by (simp_all add: wifi_msg_free_def Let_def)

lemma free_last:
  assumes "m_ref m = 1" and "m_data m = Block a" and "heap_ok b (a # F) s"
  shows "heap_ok b F (after (wifi_msg_free m) s)"
    and "result (wifi_msg_free m) s = m\<lparr>m_ref := 0, m_data := Null\<rparr>"
proof -
  have in_heap: "a \<in> fst ` set (wifi_heap s)" and d: "distinct (map fst (wifi_heap s))"
    and num: "num_of_heap_elements s = int (length (wifi_heap s))"
    using assms(3) by (simp_all add: heap_ok_def)
  then obtain y where some: "map_of (wifi_heap s) a = Some y" by (metis map_of_eq_None_iff not_Some_eq)
  let ?h = "filter (\<lambda>p. fst p \<noteq> a) (wifi_heap s)"
  have step: "after (wifi_msg_free m) s =
      s\<lparr>num_of_heap_elements := num_of_heap_elements s - 1, wifi_heap := ?h\<rparr>"
    using assms(1,2) some by (simp add: wifi_msg_free_def Let_def k_heap_free_def)
  have "length ?h = length (wifi_heap s) - 1" using length_filter_key [OF d in_heap] .
  moreover have "length (wifi_heap s) > 0" using in_heap by (cases "wifi_heap s") auto
  ultimately have len: "int (length ?h) = num_of_heap_elements s - 1" using num by linarith
  let ?s = "s\<lparr>num_of_heap_elements := num_of_heap_elements s - 1, wifi_heap := ?h\<rparr>"
  have own: "owned ?s = owned s" by (simp add: owned_def)
  have keys: "set (map fst ?h) = set (map fst (wifi_heap s)) - {a}" by auto
  have "a \<notin> set (F @ owned s)" using assms(3) by (simp add: heap_ok_def)
  then have "set (F @ owned ?s) \<subseteq> set (map fst ?h)"
    and "b \<longrightarrow> set (map fst ?h) \<subseteq> set (F @ owned ?s)"
    and "\<forall>x \<in> set (map fst ?h). x < next_block ?s"
    using assms(3) unfolding keys own by (auto simp: heap_ok_def)
  then show "heap_ok b F (after (wifi_msg_free m) s)"
    using assms(3) len unfolding step heap_ok_def own by (simp add: distinct_map_filter)
  show "result (wifi_msg_free m) s = m\<lparr>m_ref := 0, m_data := Null\<rparr>"
    using assms(1,2) by (simp add: wifi_msg_free_def Let_def)
qed

text \<open>Freeing a message that was taken out with its claim.\<close>

lemma free_claim:
  assumes "good_msg m" and "heap_ok b (claim m @ F) s"
  shows "heap_ok b F (after (wifi_msg_free m) s)"
  using assms free_last(1) [of m _ b F s] free_shared(1) [of m s]
  by (auto simp: good_msg_def claim_def)

lemma heap_ok_pop:
  assumes "heap_ok b F s" and "wifi_msgq s = m # rest"
  shows "heap_ok b (claim m @ F) (s\<lparr>wifi_msgq := rest\<rparr>)" and "good_msg m"
  using assms by (auto simp: heap_ok_def owned_def)

lemma pop_free:
  assumes "heap_ok b F s" and "wifi_msgq s = m # rest"
  shows "heap_ok b F (after (wifi_msg_free m) (s\<lparr>wifi_msgq := rest\<rparr>))"
  using free_claim heap_ok_pop [OF assms] by blast

section \<open>Allocating\<close>

lemma heap_ok_alloc:
  assumes "heap_ok b F s"
  shows "heap_ok b (next_block s # F)
     (s\<lparr>wifi_heap := (next_block s, t) # wifi_heap s, next_block := next_block s + 1,
        alloc_fails_in_a_row := 0, num_of_heap_elements := num_of_heap_elements s + 1\<rparr>)"
    (is "heap_ok b (?n # F) ?s")
proof -
  have own: "owned ?s = owned s" by (simp add: owned_def)
  have fresh: "?n \<notin> set (map fst (wifi_heap s))" using assms by (auto simp: heap_ok_def)
  then have "?n \<notin> set (F @ owned s)" using assms by (auto simp: heap_ok_def)
  moreover have "set (F @ owned ?s) \<subseteq> set (map fst (wifi_heap ?s))"
    and "\<forall>a \<in> set (map fst (wifi_heap ?s)). a < next_block ?s"
    using assms unfolding own by (auto simp: heap_ok_def)
  moreover have "b \<longrightarrow> set (map fst (wifi_heap ?s)) \<subseteq> set ((?n # F) @ owned ?s)"
    using assms unfolding own by (auto simp: heap_ok_def)
  ultimately show ?thesis
    using assms fresh unfolding heap_ok_def own by simp
qed

lemma alloc_loop_ok:
  "heap_ok b F s \<Longrightarrow>
   heap_ok b ((case result (alloc_loop e amount t k q) s of Some a \<Rightarrow> [a] | None \<Rightarrow> []) @ F)
     (after (alloc_loop e amount t k q) s)"
proof (induction k arbitrary: s q)
  case 0
  then show ?case by simp
next
  case (Suc k)
  have failed: "heap_ok b F (after alloc_failed s)" "result alloc_failed s = None"
    using Suc.prems by (simp_all add: heap_ok_frame core_alloc_failed) (simp add: alloc_failed_def)
  show ?case
  proof (cases "heap_fit e (map (\<lambda>b. length (snd b)) (wifi_heap s)) amount")
    case True
    then show ?thesis
      using heap_ok_alloc [OF Suc.prems] by (simp add: k_heap_alloc_def)
  next
    case False
    show ?thesis
    proof (cases "wifi_msgq s")
      case Nil
      with False failed show ?thesis by (simp add: k_heap_alloc_def)
    next
      case (Cons m rest)
      show ?thesis
        using False failed Cons Suc.IH [OF pop_free [OF Suc.prems Cons]]
        by (simp add: k_heap_alloc_def)
    qed
  qed
qed

end
