(* ===== verification/LinkBlocks.thy ===== *)
theory LinkBlocks
  imports LinkHeap
begin

text \<open>
  The blocks of the message heap over the life of the link.  A message under the callbacks is in
  flight with its claim; \<open>passes\<close> says that an action on it keeps every block with its owner.  From the
  contract \<open>link_blocks\<close> of the callbacks it follows that all operations of the link keep \<open>heap_ok\<close>;
  the network manager's callback keeps the contract.
\<close>

section \<open>Messages in flight\<close>

definition sound :: "wifi_msg \<Rightarrow> bool" where
  "sound m \<longleftrightarrow> m_ref m = 0 \<or> good_msg m"

definition passes :: "bool \<Rightarrow> wifi_msg \<Rightarrow> (wifi, wifi_msg) state \<Rightarrow> bool" where
  "passes b m act \<longleftrightarrow> (\<forall>F s. heap_ok b (claim m @ F) s \<longrightarrow>
     heap_ok b (claim (result act s) @ F) (after act s) \<and> sound (result act s) \<and>
     m_incoming (result act s) = m_incoming m)"

named_theorems passes_intro "actions on a message in flight"

lemma passes_return [passes_intro]: "sound m \<Longrightarrow> passes b m (return m)"
  by (simp add: passes_def)

lemma passes_quiet: "same core q \<Longrightarrow> (\<And>a. passes b m (f a)) \<Longrightarrow> passes b m (State_Monad.bind q f)"
  by (simp add: passes_def heap_ok_frame)

lemma passes_if [passes_intro]:
  "(c \<Longrightarrow> passes b m x) \<Longrightarrow> (\<not> c \<Longrightarrow> passes b m y) \<Longrightarrow> passes b m (if c then x else y)"
  by simp

lemma passes_option [passes_intro]:
  "(x = None \<Longrightarrow> passes b m y) \<Longrightarrow> (\<And>z. x = Some z \<Longrightarrow> passes b m (f z)) \<Longrightarrow>
   passes b m (case x of None \<Rightarrow> y | Some z \<Rightarrow> f z)"
  by (cases x) simp_all

lemma passes_list [passes_intro]:
  "(x = [] \<Longrightarrow> passes b m y) \<Longrightarrow> (\<And>z zs. x = z # zs \<Longrightarrow> passes b m (f z zs)) \<Longrightarrow>
   passes b m (case x of [] \<Rightarrow> y | z # zs \<Rightarrow> f z zs)"
  by (cases x) simp_all

lemma passes_free [passes_intro]:
  assumes "good_msg m" and "m_ref m = 1"
  shows "passes b m (wifi_msg_free m)"
proof -
  obtain a where a: "m_data m = Block a" using assms(1) by (auto simp: good_msg_def)
  have c: "claim m = [a]" using assms(2) a by (simp add: claim_def)
  have r: "result (wifi_msg_free m) s = m\<lparr>m_ref := 0, m_data := Null\<rparr>" for s
    using assms(2) a by (simp add: wifi_msg_free_def Let_def)
  show ?thesis
    unfolding passes_def r c using free_last(1) [OF assms(2) a] by (simp add: claim_def sound_def)
qed

text \<open>The message goes on to the cloud side with its block.\<close>

lemma passes_mqtt:
  assumes "good_msg m" and "m_ref m = 1" and "b \<Longrightarrow> r = (0::int)"
  shows "passes b m (do {
    whenever (r = 0) (modify (\<lambda>s. s\<lparr>mqtt_incoming := mqtt_incoming s @
      [\<lparr>mi_copy = m, mi_topic = t, mi_offset = i, mi_len = n\<rparr>]\<rparr>));
    return (wifi_inc_ref_count m) })"
proof -
  obtain a where a: "m_data m = Block a" using assms(1) by (auto simp: good_msg_def)
  have c: "claim m = [a]" "claim (wifi_inc_ref_count m) = []" "sound (wifi_inc_ref_count m)"
    using assms(2) a by (simp_all add: claim_def wifi_inc_ref_count_def sound_def good_msg_def)
  have "heap_ok b F (s\<lparr>mqtt_incoming := mqtt_incoming s @
      [\<lparr>mi_copy = m, mi_topic = t, mi_offset = i, mi_len = n\<rparr>]\<rparr>)" if "heap_ok b (a # F) s" for F s
    using that assms(1,2) c(1) by (auto simp: heap_ok_def owned_def)
  moreover have "heap_ok b F s" if "heap_ok b (a # F) s" and "r \<noteq> 0" for F s
    using that assms(3) by (auto simp: heap_ok_def)
  ultimately show ?thesis
    using c by (auto simp: passes_def run wifi_inc_ref_count_def)
qed

section \<open>The network manager's callback\<close>

lemma same_core_get: "same core State_Monad.get"
  by (simp add: same_def)

lemmas passes_steps = passes_intro passes_quiet same_intro

lemma core_upd_http: "same core (upd_http f)"
  by (rule core_writers)

lemma passes_http_chunk:
  "good_msg m \<Longrightarrow> m_ref m = 1 \<Longrightarrow> passes b m (http_chunk e m t i n)"
  unfolding http_chunk_def Let_def
  by (intro passes_intro passes_quiet same_intro same_core_modify) (simp_all add: views)

lemma passes_http:
  assumes "good_msg m" and "m_ref m = 1"
  shows "passes b m (wifi_at_http_status e m)" and "passes b m (wifi_at_http_write e m)"
  unfolding wifi_at_http_status_def wifi_at_http_write_def Let_def
  by (intro passes_intro passes_http_chunk passes_quiet assms same_intro)+

lemma passes_mqtt_msg:
  assumes "good_msg m" and "m_ref m = 1" and "b \<Longrightarrow> \<forall>s. zbus_ret e s = 0"
  shows "passes b m (net_handle_DA_MQTT_Msg e m i)"
proof -
  have "sound m" using assms(1) by (simp add: sound_def)
  then show ?thesis
    unfolding net_handle_DA_MQTT_Msg_def Let_def
    by (intro passes_quiet [OF same_core_get] passes_intro passes_quiet [OF same_core_modify]
        passes_mqtt assms(1,2)) (use assms(3) in \<open>simp_all add: views\<close>)
qed

text \<open>Something quiet after the handler.\<close>

lemma passes_then:
  "passes b m act \<Longrightarrow> same core q \<Longrightarrow> passes b m (do { m \<leftarrow> act; q; return m })"
  by (simp add: passes_def run heap_ok_frame)

lemma passes_report:
  assumes "good_msg m" and "m_ref m = 1" and "b \<Longrightarrow> \<forall>s. zbus_ret e s = 0"
  shows "passes b m (net_monitor_report e m t)"
proof -
  have "sound m" using assms(1) by (simp add: sound_def)
  then show ?thesis
    unfolding net_monitor_report_def Let_def
    by (intro passes_intro passes_http passes_then [OF passes_mqtt_msg] passes_quiet assms
        same_intro same_core_modify) (simp_all add: views assms(3))
qed

lemma passes_monitor:
  assumes "good_msg m" and "m_ref m = 1" and "b \<Longrightarrow> \<forall>s. zbus_ret e s = 0"
  shows "passes b m (net_monitor_DA e m)"
proof -
  have "sound m" using assms(1) by (simp add: sound_def)
  then show ?thesis
    unfolding net_monitor_DA_def Let_def
    by (intro passes_intro passes_report passes_quiet assms
        same_intro same_core_modify) (simp_all add: views assms(3))
qed

lemma monitor_outgoing:
  "\<not> m_incoming m \<Longrightarrow> same core (net_monitor_DA e m)"
  "\<not> m_incoming m \<Longrightarrow> result (net_monitor_DA e m) s = m"
  unfolding net_monitor_DA_def Let_def by (simp_all add: same_intro run)

section \<open>What the invariant does not see\<close>

definition own_view where
  "own_view s = (wifi_msgq s, store_view s)"

lemma heap_ok_own_eq: "own_view s = own_view t \<Longrightarrow> heap_ok b F s \<longleftrightarrow> heap_ok b F t"
  unfolding own_view_def heap_ok_def owned_def store_view_def
  by (simp, metis length_map)

lemma heap_ok_own: "same own_view q \<Longrightarrow> heap_ok b F (after q s) \<longleftrightarrow> heap_ok b F s"
  by (rule heap_ok_own_eq) (simp add: same_def)

lemma keeps_own_view: "same own_view q \<Longrightarrow> keeps (heap_ok b F) q"
  by (simp add: keeps_def heap_ok_own)

lemma own_of_core: "same core q \<Longrightarrow> same own_view q"
  by (simp add: same_def own_view_def views)

lemma own_modify [same_intro]:
  "same own_view (modify (\<lambda>s. s\<lparr>lock_count := f s\<rparr>))" "same own_view (modify (\<lambda>s. s\<lparr>inbox := g s\<rparr>))"
  "same own_view (set_now t)" "same own_view wifi_release_mutex"
  by (simp_all add: same_def own_view_def views set_now_def wifi_release_mutex_def)

lemma own_spi_send [same_intro]: "same own_view (wifi_spi_send e d)"
  by (simp add: wifi_spi_send_def same_def own_view_def views run Let_def split: prod.split)

section \<open>The contract of the callbacks\<close>

locale link_blocks = link_callbacks e for e :: wenv +
  fixes b :: bool
  assumes monitor_passes: "good_msg m \<Longrightarrow> m_ref m = 1 \<Longrightarrow> passes b m (on_msg e NET_MONITOR m)"
    and outgoing_quiet: "\<not> m_incoming m \<Longrightarrow> same core (on_msg e NET_MONITOR m)"
    and outgoing_result: "\<not> m_incoming m \<Longrightarrow> result (on_msg e NET_MONITOR m) s = m"
    and others_return: "cb \<noteq> NET_MONITOR \<Longrightarrow> on_msg e cb m = return m"
begin

lemma run_callbacks_others:
  "count_list cbs (Some NET_MONITOR) = 0 \<Longrightarrow> run_callbacks e cbs m = return m"
proof (induction cbs)
  case (Cons cb cbs)
  then show ?case by (cases cb) (auto simp: others_return split: if_splits)
qed simp

lemma run_callbacks_passes:
  assumes "count_list cbs (Some NET_MONITOR) \<le> 1" and "good_msg m" and "m_ref m = 1"
  shows "passes b m (run_callbacks e cbs m)"
  using assms
proof (induction cbs)
  case Nil
  then show ?case by (simp add: passes_return sound_def)
next
  case (Cons cb cbs)
  show ?case
  proof (cases "cb = Some NET_MONITOR")
    case True
    then have "run_callbacks e cbs = State_Monad.return"
      using Cons.prems(1) by (auto simp: run_callbacks_others)
    then show ?thesis using True Cons.prems monitor_passes by simp
  next
    case False
    then show ?thesis using Cons by (cases cb) (auto simp: others_return)
  qed
qed

lemma run_callbacks_outgoing:
  assumes "count_list cbs (Some NET_MONITOR) \<le> 1" and "\<not> m_incoming m"
  shows "same core (run_callbacks e cbs m) \<and> (\<forall>s. result (run_callbacks e cbs m) s = m)"
  using assms(1)
proof (induction cbs)
  case Nil
  show ?case by (simp add: same_return)
next
  case (Cons cb cbs)
  show ?case
  proof (cases "cb = Some NET_MONITOR")
    case True
    then have "run_callbacks e cbs = State_Monad.return"
      using Cons.prems(1) by (auto simp: run_callbacks_others)
    then show ?thesis
      using True assms(2) outgoing_quiet outgoing_result by (simp add: same_return)
  next
    case False
    then show ?thesis using Cons by (cases cb) (auto simp: others_return)
  qed
qed

text \<open>The end of the handler of a reply: queue, callbacks or the block goes back.\<close>

lemma heap_ok_push:
  "heap_ok b (claim m @ F) s \<Longrightarrow> good_msg m \<Longrightarrow> heap_ok b F (s\<lparr>wifi_msgq := wifi_msgq s @ [m]\<rparr>)"
proof -
  assume ok: "heap_ok b (claim m @ F) s" and good: "good_msg m"
  let ?s = "s\<lparr>wifi_msgq := wifi_msgq s @ [m]\<rparr>"
  have "set (F @ owned ?s) = set ((claim m @ F) @ owned s)" by (auto simp: owned_def)
  moreover have "distinct (F @ owned ?s) = distinct ((claim m @ F) @ owned s)" by (auto simp: owned_def)
  moreover have "\<forall>x \<in> set (wifi_msgq ?s). good_msg x" using ok good by (auto simp: heap_ok_def)
  ultimately show ?thesis using ok unfolding heap_ok_def by simp
qed

lemma hand_over_ok:
  assumes "heap_ok b (claim m @ F) s" and "good_msg m" and "m_ref m = 1" and "m_incoming m"
  shows "heap_ok b F (after (hand_over e m) s)"
proof -
  let ?run = "run_callbacks e (wifi_tx_rx_cb s) m"
  let ?m = "result ?run s" and ?s = "after ?run s"
  have "count_list (wifi_tx_rx_cb s) (Some NET_MONITOR) \<le> 1" using assms(1) by (simp add: heap_ok_def)
  from run_callbacks_passes [OF this assms(2,3)] assms(1,4)
  have ok: "heap_ok b (claim ?m @ F) ?s" and so: "sound ?m" and inc: "m_incoming ?m"
    by (simp_all add: passes_def)
  show ?thesis
  proof (cases "m_ref ?m > 0")
    case True
    then have good: "good_msg ?m" using so by (auto simp: sound_def)
    show ?thesis
      using True inc heap_ok_push [OF ok good] free_claim [OF good ok]
      by (simp add: hand_over_def wifi_notify_cbs_def run)
  next
    case False
    then have "claim ?m = []" by (simp add: claim_def)
    then show ?thesis
      using False ok by (simp add: hand_over_def wifi_notify_cbs_def run)
  qed
qed

lemma new_msg_ok:
  assumes "heap_ok b F s"
  shows "heap_ok b (claim (snd (result (wifi_init_new_msg e i n) s)) @ F) (after (wifi_init_new_msg e i n) s)"
    and "m_data (snd (result (wifi_init_new_msg e i n) s)) = Block a \<Longrightarrow>
      m_ref (snd (result (wifi_init_new_msg e i n) s)) = 1 \<and>
      m_incoming (snd (result (wifi_init_new_msg e i n) s)) = i"
proof -
  let ?r = "result (wifi_msg_alloc e n) s"
  have "heap_ok b ((case ?r of Some a \<Rightarrow> [a] | None \<Rightarrow> []) @ F) (after (wifi_init_new_msg e i n) s)"
    using alloc_loop_ok [OF assms, of e n "now s" WIFI_MSG_Q_SIZE "int (length (wifi_msgq s))"]
    by (simp add: wifi_init_new_msg_def wifi_msg_alloc_def run)
  moreover have "claim (snd (result (wifi_init_new_msg e i n) s)) = (case ?r of Some a \<Rightarrow> [a] | None \<Rightarrow> [])"
    by (simp add: wifi_init_new_msg_def run claim_def split: option.split)
  ultimately show "heap_ok b (claim (snd (result (wifi_init_new_msg e i n) s)) @ F)
      (after (wifi_init_new_msg e i n) s)" by simp
  show "m_data (snd (result (wifi_init_new_msg e i n) s)) = Block a \<Longrightarrow>
      m_ref (snd (result (wifi_init_new_msg e i n) s)) = 1 \<and>
      m_incoming (snd (result (wifi_init_new_msg e i n) s)) = i"
    by (cases "result (wifi_msg_alloc e n) s") (simp_all add: wifi_init_new_msg_def run)
qed

text \<open>An action that ends the flight of a message.\<close>

definition lands :: "wifi_msg \<Rightarrow> (wifi, unit) state \<Rightarrow> bool" where
  "lands m act \<longleftrightarrow> (\<forall>F s. heap_ok b (claim m @ F) s \<longrightarrow> heap_ok b F (after act s))"

lemma lands_quiet: "same core q \<Longrightarrow> (\<And>a. lands m (f a)) \<Longrightarrow> lands m (State_Monad.bind q f)"
  by (simp add: lands_def heap_ok_frame)

lemma claim_len [simp]: "claim (m\<lparr>m_len := n\<rparr>) = claim m" "good_msg (m\<lparr>m_len := n\<rparr>) = good_msg m"
  by (simp_all add: claim_def good_msg_def)

lemma lands_free: "good_msg m \<Longrightarrow> lands m (do { wifi_msg_free (m\<lparr>m_len := n\<rparr>); skip })"
  using free_claim [of "m\<lparr>m_len := n\<rparr>" b] by (simp add: lands_def)

lemma lands_hand_over:
  "good_msg m \<Longrightarrow> m_ref m = 1 \<Longrightarrow> m_incoming m \<Longrightarrow> lands m (hand_over e (m\<lparr>m_len := n\<rparr>))"
  using hand_over_ok [of "m\<lparr>m_len := n\<rparr>"] by (simp add: lands_def)

lemma keeps_new_msg:
  assumes "\<And>a m. good_msg m \<Longrightarrow> m_ref m = 1 \<Longrightarrow> m_incoming m = i \<Longrightarrow> lands m (k a m)"
  shows "keeps (heap_ok b F) (do {
    (ret, m) \<leftarrow> wifi_init_new_msg e i n;
    case m_data m of Block a \<Rightarrow> k a m | _ \<Rightarrow> skip })"
proof (rule keepsI)
  fix s assume "heap_ok b F s"
  note new = new_msg_ok [OF this, of i n]
  obtain r m where rm: "result (wifi_init_new_msg e i n) s = (r, m)" by fastforce
  show "heap_ok b F (after (do { (ret, m) \<leftarrow> wifi_init_new_msg e i n;
      case m_data m of Block a \<Rightarrow> k a m | _ \<Rightarrow> skip }) s)"
  proof (cases "m_data m")
    case (Block a)
    then have "good_msg m \<and> m_ref m = 1 \<and> m_incoming m = i" using new(2) rm by (auto simp: good_msg_def)
    with Block new(1) rm assms [of m a] show ?thesis by (simp add: run lands_def)
  next
    case (Local t)
    then have "claim m = []" by (simp add: claim_def)
    with Local new(1) rm show ?thesis by (simp add: run)
  next
    case Null
    then have "claim m = []" by (simp add: claim_def)
    with Null new(1) rm show ?thesis by (simp add: run)
  qed
qed

lemma lands_if: "(c \<Longrightarrow> lands m x) \<Longrightarrow> (\<not> c \<Longrightarrow> lands m y) \<Longrightarrow> lands m (if c then x else y)"
  and lands_option: "lands m x \<Longrightarrow> (\<And>a. lands m (f a)) \<Longrightarrow> lands m (case z of None \<Rightarrow> x | Some a \<Rightarrow> f a)"
  by (simp, cases z, simp_all)

lemma keeps_resp [keeps_intro]: "keeps (heap_ok b F) (da_resp_work_fn e r)"
  unfolding da_resp_work_fn_def Let_def
  by (intro keeps_intro keeps_new_msg lands_if lands_option lands_quiet [OF core_writers(7)]
      lands_free lands_hand_over) simp_all

section \<open>The operations of the link\<close>

lemmas keeps_lock [keeps_intro] = own_modify [THEN keeps_own_view] own_spi_send [THEN keeps_own_view]

lemma keeps_deliver [keeps_intro]: "keeps (heap_ok b F) (deliver_all e as)"
  by (induction as) (auto intro!: keeps_intro)

lemma keeps_pass [keeps_intro]: "keeps (heap_ok b F) (pass_until e t)" "keeps (heap_ok b F) (k_sleep_ms e n)"
  unfolding pass_until_def k_sleep_ms_def by (intro keeps_intro)+

lemma keeps_ms_left [keeps_intro]: "keeps (heap_ok b F) (ms_left t)"
  unfolding ms_left_def by (intro keeps_intro)

lemma keeps_get_mutex [keeps_intro]: "keeps (heap_ok b F) (wifi_get_mutex e t)"
  unfolding wifi_get_mutex_def Let_def by (intro keeps_intro)

lemma keeps_notify_outgoing: "\<not> m_incoming m \<Longrightarrow> keeps (heap_ok b F) (wifi_notify_cbs e m)"
proof (rule keepsI)
  fix s assume out: "\<not> m_incoming m" and ok: "heap_ok b F s"
  have "count_list (wifi_tx_rx_cb s) (Some NET_MONITOR) \<le> 1" using ok by (simp add: heap_ok_def)
  note run_callbacks_outgoing [OF this out]
  with ok out show "heap_ok b F (after (wifi_notify_cbs e m) s)"
    by (simp add: wifi_notify_cbs_def run heap_ok_frame)
qed

lemma keeps_send [keeps_intro]: "keeps (heap_ok b F) (wifi_send_timeout e d t)"
  unfolding wifi_send_timeout_def by (intro keeps_intro keeps_notify_outgoing) simp

text \<open>Receiving takes a message out of the queue with its claim.\<close>

definition took :: "nat list \<Rightarrow> wifi \<Rightarrow> wifi_msg option \<Rightarrow> bool" where
  "took F s r \<longleftrightarrow> (case r of None \<Rightarrow> heap_ok b F s | Some m \<Rightarrow> good_msg m \<and> heap_ok b (claim m @ F) s)"

definition takes :: "(wifi, 'a) state \<Rightarrow> ('a \<Rightarrow> wifi_msg option) \<Rightarrow> bool" where
  "takes act f \<longleftrightarrow> (\<forall>F s. heap_ok b F s \<longrightarrow> took F (after act s) (f (result act s)))"

lemma took_simps [simp]:
  "took F s None \<longleftrightarrow> heap_ok b F s" "took F s (Some m) \<longleftrightarrow> good_msg m \<and> heap_ok b (claim m @ F) s"
  by (simp_all add: took_def)

lemma took_keeps: "took F s r \<Longrightarrow> \<forall>F. keeps (heap_ok b F) q \<Longrightarrow> took F (after q s) r"
  by (cases r) (simp_all add: keeps_def)

lemma took_own: "own_view s = own_view t \<Longrightarrow> took F s r \<longleftrightarrow> took F t r"
  using heap_ok_own_eq [of s t b F] heap_ok_own_eq [of s t b "claim (the r) @ F"] by (cases r) simp_all

lemma takes_bind: "(\<And>F. keeps (heap_ok b F) q) \<Longrightarrow> (\<And>a. takes (g a) f) \<Longrightarrow> takes (State_Monad.bind q g) f"
  by (simp add: takes_def keeps_def run)

lemma takes_return: "f x = None \<Longrightarrow> takes (return x) f"
  by (simp add: takes_def)

lemma takes_if: "(c \<Longrightarrow> takes x f) \<Longrightarrow> (\<not> c \<Longrightarrow> takes y f) \<Longrightarrow> takes (if c then x else y) f"
  by simp

lemma takes_then:
  assumes "takes act f" and "\<And>F. keeps (heap_ok b F) q" and "\<And>r. g (h r) = f r"
  shows "takes (do { r \<leftarrow> act; q; return (h r) }) g"
  using assms(1) took_keeps [OF _ allI [OF assms(2)]] by (simp add: takes_def run assms(3))

text \<open>Popping.\<close>

lemma took_pop: "heap_ok b F s \<Longrightarrow> wifi_msgq s = m # rest \<Longrightarrow> took F (s\<lparr>wifi_msgq := rest\<rparr>) (Some m)"
  using heap_ok_pop by simp

lemma took_pop_inbox:
  "heap_ok b F s \<Longrightarrow> wifi_msgq s = m # rest \<Longrightarrow> took F (s\<lparr>wifi_msgq := rest, inbox := i\<rparr>) (Some m)"
  by (rule took_own [THEN iffD1, OF _ took_pop]) (simp_all add: own_view_def store_view_def)

lemma takes_take_or_wait: "takes (take_or_wait e tp as) (\<lambda>r. r)"
proof (induction as)
  case Nil
  have "keeps (heap_ok b F) (set_now tp)" for F by (intro keeps_intro)
  then show ?case
    using took_pop by (auto simp: takes_def run keeps_def split: list.split)
next
  case (Cons a as)
  have "keeps (heap_ok b F) (do { set_now (fst a); da_resp_work_fn e (snd a) })" for F
    by (intro keeps_intro)
  then show ?case
    using Cons took_pop_inbox by (auto simp: takes_def run keeps_def split: list.split)
qed

lemma takes_msgq_get: "takes (k_msgq_get e t) snd"
proof -
  have "took F (after (k_msgq_get e t) s) (snd (result (k_msgq_get e t) s))" if ok: "heap_ok b F s" for F s
  proof (cases "t = 0")
    case True
    then show ?thesis using ok took_pop by (simp add: k_msgq_get_def run split: list.split)
  next
    case False
    let ?tp = "now s + t"
    let ?w = "take_or_wait e ?tp (takeWhile (\<lambda>a. fst a \<le> ?tp) (inbox s))"
    let ?s = "s\<lparr>inbox := dropWhile (\<lambda>a. fst a \<le> ?tp) (inbox s)\<rparr>"
    have "heap_ok b F ?s" using ok keeps_own_view [OF own_modify(2), THEN keepsD] by simp
    then have "took F (after ?w ?s) (result ?w ?s)" using takes_take_or_wait by (simp add: takes_def)
    moreover have "after (k_msgq_get e t) s = after ?w ?s"
      and "snd (result (k_msgq_get e t) s) = result ?w ?s"
      using False by (simp_all add: k_msgq_get_def run Let_def split: option.split)
    ultimately show ?thesis by simp
  qed
  then show ?thesis by (simp add: takes_def)
qed

lemma takes_recv: "takes (wifi_recv e t) snd"
proof -
  have get: "takes (do { r \<leftarrow> k_msgq_get e n; wifi_release_mutex; return r }) snd" for n
    by (rule takes_then [OF takes_msgq_get]) (intro keeps_intro, simp)
  have left: "takes (do { left \<leftarrow> ms_left tp; r \<leftarrow> k_msgq_get e left; wifi_release_mutex; return r }) snd" for tp
    by (rule takes_bind [OF keeps_ms_left get])
  have "takes (if m \<noteq> 0 then return (- EBUSY, None) else do {
      left \<leftarrow> ms_left tp; r \<leftarrow> k_msgq_get e left; wifi_release_mutex; return r }) snd" for m :: int and tp
    by (intro takes_if takes_return left) simp
  then show ?thesis
    unfolding wifi_recv_def by (intro takes_bind [OF keeps_gets] takes_bind [OF keeps_get_mutex])
qed

text \<open>Waiting frees what it takes.\<close>

lemma keeps_wait_loop [keeps_intro]: "keeps (heap_ok b F) (wait_loop e n tp wm ret)"
proof (induction n arbitrary: wm ret)
  case 0
  show ?case by (simp add: keeps_return)
next
  case (Suc n)
  show ?case
  proof (rule keepsI)
    fix s assume ok: "heap_ok b F s"
    let ?r = "wifi_recv e (tp - now s)"
    obtain r mo where rm: "result ?r s = (r, mo)" by fastforce
    have "took F (after ?r s) (snd (result ?r s))" using takes_recv ok by (simp add: takes_def)
    with rm have t: "took F (after ?r s) mo" by simp
    show "heap_ok b F (after (wait_loop e (Suc n) tp wm ret) s)"
    proof (cases mo)
      case None
      then show ?thesis using t ok rm Suc by (simp add: run keeps_def)
    next
      case (Some m)
      let ?u = "after (match_message e m wm) (after ?r s)"
      have "heap_ok b (claim m @ F) ?u" "good_msg m" using t Some by (simp_all add: heap_ok_frame core_match)
      then have "heap_ok b F (after (wifi_msg_free m) ?u)" using free_claim by blast
      then show ?thesis
        using Some ok rm Suc by (auto simp: run keeps_def split: prod.split)
    qed
  qed
qed

lemma keeps_wait_for [keeps_intro]: "keeps (heap_ok b F) (wifi_wait_for e wm t)"
  unfolding wifi_wait_for_def by (intro keeps_intro)

lemma keeps_send_wait [keeps_intro]: "keeps (heap_ok b F) (wifi_send_and_wait_for e cmd wm t)"
  unfolding wifi_send_and_wait_for_def by (intro keeps_intro)

lemma free_all_ok:
  "\<forall>m \<in> set ms. good_msg m \<Longrightarrow> heap_ok b (concat (map claim ms) @ F) s \<Longrightarrow> heap_ok b F (after (free_all ms) s)"
  by (induction ms arbitrary: s) (simp_all add: run free_claim)

lemma keeps_flush [keeps_intro]: "keeps (heap_ok b F) (wifi_flush_msgs e)"
proof -
  have body: "keeps (heap_ok b F) (do {
      q \<leftarrow> gets wifi_msgq; modify (\<lambda>s. s\<lparr>wifi_msgq := []\<rparr>); free_all q; wifi_release_mutex })"
  proof (rule keepsI)
    fix s assume ok: "heap_ok b F s"
    let ?q = "wifi_msgq s" and ?s = "s\<lparr>wifi_msgq := []\<rparr>"
    have set: "set ((concat (map claim ?q) @ F) @ owned ?s) = set (F @ owned s)"
      by (auto simp: owned_def)
    have "distinct ((concat (map claim ?q) @ F) @ owned ?s)" using ok by (auto simp: heap_ok_def owned_def)
    then have "heap_ok b (concat (map claim ?q) @ F) ?s" using ok unfolding heap_ok_def set by simp
    moreover have "\<forall>m \<in> set ?q. good_msg m" using ok by (simp add: heap_ok_def)
    ultimately have "heap_ok b F (after (free_all ?q) ?s)" by (simp add: free_all_ok)
    moreover have "keeps (heap_ok b F) wifi_release_mutex" by (intro keeps_intro)
    ultimately show "heap_ok b F (after (do {
        q \<leftarrow> gets wifi_msgq; modify (\<lambda>s. s\<lparr>wifi_msgq := []\<rparr>); free_all q; wifi_release_mutex }) s)"
      by (simp add: run keeps_def)
  qed
  show ?thesis
    unfolding wifi_flush_msgs_def by (rule keeps_bind [OF keeps_get_mutex keeps_if [OF keeps_return body]])
qed

lemma keeps_ok_err [keeps_intro]: "keeps (heap_ok b F) (wifi_send_ok_err_atcmd e cmd t)"
  unfolding wifi_send_ok_err_atcmd_def Let_def by (intro keeps_intro)

section \<open>Queries, switches and the work of the network manager\<close>

lemma keeps_quiet: "same core q \<Longrightarrow> keeps (heap_ok b F) q"
  by (rule keeps_core)

lemmas keeps_events [keeps_intro] =
  core_writers [THEN keeps_quiet] core_tri_event [THEN keeps_quiet] core_tri_put [THEN keeps_quiet]
  core_ap_names [THEN keeps_quiet] core_queues [THEN keeps_quiet] core_ota_event [THEN keeps_quiet]
  core_publish [THEN keeps_quiet]

lemma keeps_query_loop [keeps_intro]: "keeps (heap_ok b F) (query_loop e n tp wm res)"
  by (induction n arbitrary: wm res) (auto intro!: keeps_intro)

lemma keeps_flag_query [keeps_intro]: "keeps (heap_ok b F) (flag_query e cmd pat u t)"
  unfolding flag_query_def Let_def by (intro keeps_intro)

lemma keeps_ok_quiet_modify:
  "(\<And>s. core (f s) = core s) \<Longrightarrow> keeps (heap_ok b F) (modify f)"
  by (rule keeps_quiet [OF same_core_modify])

lemma keeps_switches [keeps_intro]:
  "keeps (heap_ok b F) (wifi_set_dpm_state e v a t)" "keeps (heap_ok b F) (wifi_set_mqtt_state e x t)"
  "keeps (heap_ok b F) (wifi_set_mqtt_boot_state e x t)" "keeps (heap_ok b F) (wifi_set_ap_profile_use e x t)"
  unfolding wifi_set_dpm_state_def wifi_set_mqtt_state_def wifi_set_mqtt_boot_state_def
    wifi_set_ap_profile_use_def
  by (intro keeps_intro keeps_ok_quiet_modify; simp add: views)+

lemma keeps_pins [keeps_intro]:
  "keeps (heap_ok b F) (set_pin e p v)" "keeps (heap_ok b F) (wifi_set_power_key e v)"
  "keeps (heap_ok b F) (wifi_set_3v0_enable e v)" "keeps (heap_ok b F) (wifi_1v8_on e)"
  "keeps (heap_ok b F) (wifi_1v8_off e)" "keeps (heap_ok b F) (wifi_set_level_shifter e v)"
  unfolding wifi_set_power_key_def wifi_set_3v0_enable_def wifi_1v8_on_def wifi_1v8_off_def
    wifi_set_level_shifter_def set_pin_def
  by (intro keeps_intro keeps_ok_quiet_modify; simp add: views)+

lemma keeps_reset [keeps_intro]: "keeps (heap_ok b F) (wifi_reset e)"
  unfolding wifi_reset_def by (intro keeps_intro)

lemma keeps_power [keeps_intro]: "keeps (heap_ok b F) (net_mgr_wifi_power e v)"
  unfolding net_mgr_wifi_power_def
  by (intro keeps_intro keeps_quiet [OF core_int_event] core_writers keeps_ok_quiet_modify)
     (simp_all add: views)

lemma keeps_rm_call [keeps_intro]: "keeps (heap_ok b F) (rm_call c)"
  unfolding rm_call_def by (rule keeps_ok_quiet_modify) (simp add: views)

lemma keeps_works [keeps_intro]:
  "keeps (heap_ok b F) (net_process_WAKEUP_fn e)" "keeps (heap_ok b F) (net_disconn_work_fn e)"
  "keeps (heap_ok b F) (net_get_time_work_fn e)" "keeps (heap_ok b F) (net_reset_da_fn e)"
  unfolding net_process_WAKEUP_fn_def net_disconn_work_fn_def net_get_time_work_fn_def net_reset_da_fn_def
  by (intro keeps_intro)+

lemma keeps_watch [keeps_intro]: "keeps (heap_ok b F) (watch_work_fn ev)"
  unfolding watch_work_fn_def queue_reset_da_work_def
  by (intro keeps_intro keeps_ok_quiet_modify) (simp add: views)

lemma keeps_ota_parts [keeps_intro]:
  "keeps (heap_ok b F) (ota_publish e x y z)" "keeps (heap_ok b F) ota_end"
  "keeps (heap_ok b F) ota_cancelled" "keeps (heap_ok b F) (ota_fail e y z)"
  "keeps (heap_ok b F) (ota_amount e z)"
  unfolding ota_publish_def ota_end_def ota_cancelled_def ota_fail_def ota_amount_def
  by (intro keeps_intro keeps_ok_quiet_modify; simp add: views)+

lemma keeps_ota [keeps_intro]: "keeps (heap_ok b F) (net_ota_fn e)"
proof -
  have four: "keeps (heap_ok b F) (ota_state_4 e)"
    unfolding ota_state_4_def by (intro keeps_intro)
  have "keeps (heap_ok b F) (ota_state_1 e)" "keeps (heap_ok b F) (ota_state_2 e)"
    "keeps (heap_ok b F) (ota_state_3 e)"
    unfolding ota_state_1_def ota_state_2_def ota_state_3_def Let_def
    by (intro keeps_intro four keeps_ok_quiet_modify; simp add: views)+
  with four show ?thesis unfolding net_ota_fn_def by (intro keeps_bind keeps_if keeps_gets keeps_return)
qed

lemma keeps_free_copy [keeps_intro]: "keeps (heap_ok b F) free_mqtt_copy"
proof (rule keepsI)
  fix s assume ok: "heap_ok b F s"
  show "heap_ok b F (after free_mqtt_copy s)"
  proof (cases "mqtt_incoming s")
    case Nil
    then show ?thesis using ok by (simp add: free_mqtt_copy_def run)
  next
    case (Cons i rest)
    let ?s = "s\<lparr>mqtt_incoming := rest\<rparr>"
    have "set ((claim (mi_copy i) @ F) @ owned ?s) = set (F @ owned s)"
      and "distinct ((claim (mi_copy i) @ F) @ owned ?s) = distinct (F @ owned s)"
      using Cons by (auto simp: owned_def)
    then have "heap_ok b (claim (mi_copy i) @ F) ?s" and "good_msg (mi_copy i)"
      using ok Cons unfolding heap_ok_def by simp_all
    then show ?thesis using Cons free_claim by (simp add: free_mqtt_copy_def run)
  qed
qed

end

end
