(* ===== verification/LinkAsk.thy ===== *)
theory LinkAsk
  imports LinkBlocks WifiSleep WifiTopics
begin

text \<open>
  The loops around \<open>wifi_wait_for\<close>: they end, by their deadline, with the mutex as before, and they keep
  the blocks of the message heap.  Every function of the command layer is built from them.
\<close>

section \<open>Rounds\<close>

definition msgs :: "wifi \<Rightarrow> nat" where
  "msgs s = length (wifi_msgq s) + length (inbox s)"

text \<open>Under the mutex, whatever is done by a deadline and leaves the mutex alone.\<close>

definition prompt :: "nat \<Rightarrow> (wifi, 'a) state \<Rightarrow> bool" where
  "prompt tp act \<longleftrightarrow> (\<forall>s. lock_count s > 0 \<longrightarrow> now s \<le> tp \<longrightarrow>
     now s \<le> now (after act s) \<and> now (after act s) \<le> tp \<and> lock_count (after act s) = lock_count s)"

text \<open>Back by \<open>now s + t\<close> with the mutex as before, with or without it at the start.\<close>

definition in_time :: "nat \<Rightarrow> (wifi, 'a) state \<Rightarrow> bool" where
  "in_time t act \<longleftrightarrow> (\<forall>s. now s \<le> now (after act s) \<and> now (after act s) \<le> now s + t \<and>
     lock_count (after act s) = lock_count s)"

context link_callbacks
begin

text \<open>A wait that gives the index of a pattern has taken a message.\<close>

lemma wait_loop_takes:
  assumes "lock_count s > 0" and "now s \<le> tp" and "fst (result (wait_loop e n tp wm ret) s) \<ge> 0"
  shows "msgs (after (wait_loop e n tp wm ret) s) \<le> msgs s \<and>
    (ret \<ge> 0 \<or> Suc (msgs (after (wait_loop e n tp wm ret) s)) \<le> msgs s)"
  using assms
proof (induction n arbitrary: s wm ret)
  case 0
  then show ?case by simp
next
  case (Suc n)
  show ?case
  proof (cases "now s = tp")
    case True
    then show ?thesis using Suc.prems by (simp add: run)
  next
    case False
    with Suc.prems have lt: "now s < tp" by simp
    obtain r mo where rm: "result (wifi_recv e (tp - now s)) s = (r, mo)" by fastforce
    let ?u = "after (wifi_recv e (tp - now s)) s"
    note u = recv_spec [OF Suc.prems(1) lt]
    show ?thesis
    proof (cases mo)
      case None
      then have "r = - EAGAIN" using u(4) rm by simp
      then show ?thesis using lt rm None Suc.prems(3) by (simp add: run)
    next
      case (Some m)
      obtain k wm' where k: "result (match_message e m wm) ?u = (k, wm')" by fastforce
      let ?v = "after (wifi_msg_free m) (after (match_message e m wm) ?u)"
      have v: "Suc (msgs ?v) \<le> msgs s" using u(5) [of m] rm Some by (simp add: msgs_def match_simps)
      have "lock_count ?v > 0" "now ?v \<le> tp" using u(1-3) Suc.prems(1) by (simp_all add: match_simps)
      with Suc.IH [of ?v wm' k] Suc.prems(3) Some lt rm k v show ?thesis
        by (auto simp: run split: if_splits)
    qed
  qed
qed

lemma wait_for_takes:
  assumes "lock_count s > 0" and "fst (result (wifi_wait_for e wm t) s) \<ge> 0"
  shows "Suc (msgs (after (wifi_wait_for e wm t) s)) \<le> msgs s"
proof -
  let ?u = "s\<lparr>lock_count := lock_count s + 1\<rparr>"
  have "fst (result (wait_loop e (wait_rounds ?u) (now s + t) wm (- EAGAIN)) ?u) \<ge> 0"
    using assms by (simp add: wifi_wait_for_def run get_mutex_again split: prod.splits if_splits)
  from wait_loop_takes [OF _ _ this] have "length wm \<le> WIFI_MAX_WAIT_MSGS \<Longrightarrow>
      Suc (msgs (after (wait_loop e (wait_rounds ?u) (now s + t) wm (- EAGAIN)) ?u)) \<le> msgs s"
    by (simp add: msgs_def)
  then show ?thesis
    using assms by (simp add: wifi_wait_for_def run get_mutex_again msgs_def split: prod.splits if_splits)
qed

text \<open>The loop ends within the rounds it is given when the body stops at an error.\<close>

lemma ask_loop_ends:
  assumes stops: "\<And>r wm a. r < 0 \<Longrightarrow> \<exists>x. body r wm a = Done x"
    and "lock_count s > 0" and "msgs s < n"
  shows "result (ask_loop e n tp out body wm a) s \<noteq> None"
  using assms(2,3)
proof (induction n arbitrary: s wm a)
  case 0
  then show ?case by simp
next
  case (Suc n)
  obtain r wm' where r: "result (wifi_wait_for e wm (tp - now s)) s = (r, wm')" by fastforce
  let ?u = "after (wifi_wait_for e wm (tp - now s)) s"
  have u: "lock_count ?u > 0" using wait_for_time [OF Suc.prems(1)] Suc.prems(1) by simp
  show ?case
  proof (cases "body r wm' a")
    case (Again wm'' a'')
    then have "\<not> r < 0" using stops [of r wm' a] by auto
    then have "msgs ?u < n" using wait_for_takes [OF Suc.prems(1), of wm "tp - now s"] r Suc.prems(2) by simp
    then have "result (ask_loop e n tp out body wm'' a'') ?u \<noteq> None" by (rule Suc.IH [OF u])
    then show ?thesis using r Again by (simp add: run)
  next
    case (Done x)
    then show ?thesis using r by (simp add: run)
  qed
qed

lemma ask_loop_time:
  assumes "lock_count s > 0" and "now s \<le> tp"
  shows "now s \<le> now (after (ask_loop e n tp out body wm a) s) \<and>
    now (after (ask_loop e n tp out body wm a) s) \<le> tp \<and>
    lock_count (after (ask_loop e n tp out body wm a) s) = lock_count s"
  using assms
proof (induction n arbitrary: s wm a)
  case 0
  then show ?case by simp
next
  case (Suc n)
  obtain r wm' where r: "result (wifi_wait_for e wm (tp - now s)) s = (r, wm')" by fastforce
  let ?u = "after (wifi_wait_for e wm (tp - now s)) s"
  have u: "now s \<le> now ?u" "now ?u \<le> tp" "lock_count ?u = lock_count s"
    using wait_for_time [OF Suc.prems(1), of wm "tp - now s"] Suc.prems(2) by simp_all
  show ?case
  proof (cases "body r wm' a")
    case (Again wm'' a'')
    then show ?thesis using Suc.IH [of ?u wm'' a''] Suc.prems u r by (auto simp: run)
  next
    case (Done x)
    then show ?thesis using u r Suc.prems(2) by (simp add: run)
  qed
qed

lemma answers_time:
  assumes "lock_count s > 0" and "now s \<le> tp"
  shows "now s \<le> now (after (answers e tp out body d wm a) s) \<and>
    now (after (answers e tp out body d wm a) s) \<le> tp \<and>
    lock_count (after (answers e tp out body d wm a) s) = lock_count s"
  using ask_loop_time [OF assms] by (simp add: answers_def run)

lemma prompt_return: "prompt tp (return x)"
  by (simp add: prompt_def)

lemma prompt_bind:
  assumes "prompt tp act" and "\<And>x. prompt tp (f x)"
  shows "prompt tp (State_Monad.bind act f)"
  unfolding prompt_def
proof (intro allI impI)
  fix s assume s: "lock_count s > 0" "now s \<le> tp"
  let ?u = "after act s" and ?f = "f (result act s)"
  have u: "now s \<le> now ?u" "now ?u \<le> tp" "lock_count ?u = lock_count s"
    using assms(1) s by (simp_all add: prompt_def)
  then have "now ?u \<le> now (after ?f ?u)" "now (after ?f ?u) \<le> tp" "lock_count (after ?f ?u) = lock_count ?u"
    using assms(2) [of "result act s"] s by (simp_all add: prompt_def)
  with u show "now s \<le> now (after (State_Monad.bind act f) s) \<and>
      now (after (State_Monad.bind act f) s) \<le> tp \<and> lock_count (after (State_Monad.bind act f) s) = lock_count s"
    by simp
qed

lemma prompt_clock: "same clock_view act \<Longrightarrow> prompt tp act"
  using clock_viewD [of act] by (simp add: prompt_def)

lemma prompt_whenever: "prompt tp act \<Longrightarrow> prompt tp (whenever c act)"
  by (simp add: prompt_def)

lemma prompt_link:
  "prompt tp (wifi_flush_msgs e)" "prompt tp (ms_left t)" "prompt tp (gets g)" "prompt tp (State_Monad.get)"
  "prompt tp (wifi_send_timeout e d t)" "prompt tp (answers e tp out body r wm a)"
  using flush_simps send_now send_lock answers_time [of _ tp out body r wm a] by (simp_all add: prompt_def)

lemma prompt_if: "(c \<Longrightarrow> prompt tp x) \<Longrightarrow> (\<not> c \<Longrightarrow> prompt tp y) \<Longrightarrow> prompt tp (if c then x else y)"
  by simp

lemma prompt_prod: "(\<And>a b. prompt tp (g a b)) \<Longrightarrow> prompt tp (case x of (a, b) \<Rightarrow> g a b)"
  by (cases x) simp

lemmas prompt_intro = prompt_bind prompt_return prompt_whenever prompt_link prompt_if prompt_prod

lemma in_time_return: "in_time t (return x)"
  by (simp add: in_time_def)

lemma in_time_if: "(c \<Longrightarrow> in_time t x) \<Longrightarrow> (\<not> c \<Longrightarrow> in_time t y) \<Longrightarrow> in_time t (if c then x else y)"
  by simp

lemma in_time_gets:
  "(\<And>s. in_time t (f (g s))) \<Longrightarrow> in_time t (State_Monad.bind (gets g) f)"
  "(\<And>s. in_time t (f s)) \<Longrightarrow> in_time t (State_Monad.bind State_Monad.get f)"
  by (simp_all add: in_time_def)

lemma in_time_guarded: "in_time t act \<Longrightarrow> in_time t (guarded fail act)"
  by (simp add: in_time_def guarded_def run)

text \<open>The deadline is computed before the mutex is locked.\<close>

lemma in_time_locked:
  assumes "\<And>tp. prompt tp (act tp)"
  shows "in_time t (State_Monad.bind (gets (\<lambda>s. now s + t)) (\<lambda>tp. locked e t busy (act tp)))"
  unfolding in_time_def
proof
  fix s
  let ?m = "after (wifi_get_mutex e t) s" and ?act = "act (now s + t)"
  have m: "now s \<le> now ?m" "now ?m \<le> now s + t" using get_mutex_now [of s t] by simp_all
  have "now ?m \<le> now (after ?act ?m) \<and> now (after ?act ?m) \<le> now s + t \<and>
      lock_count (after ?act ?m) = lock_count ?m" if "lock_count ?m > 0"
    using assms [of "now s + t"] that m by (simp add: prompt_def)
  then show "now s \<le> now (after (State_Monad.bind (gets (\<lambda>s. now s + t)) (\<lambda>tp. locked e t busy (act tp))) s) \<and>
      now (after (State_Monad.bind (gets (\<lambda>s. now s + t)) (\<lambda>tp. locked e t busy (act tp))) s) \<le> now s + t \<and>
      lock_count (after (State_Monad.bind (gets (\<lambda>s. now s + t)) (\<lambda>tp. locked e t busy (act tp))) s) = lock_count s"
    using get_mutex_lock [of t s] m by (auto simp: locked_def run)
qed

lemma in_time_asking: "in_time t (asking e fail flush cmd t pats body a)"
  unfolding asking_def
  by (intro in_time_guarded in_time_locked prompt_bind [OF prompt_whenever] prompt_intro)

end

section \<open>Blocks\<close>

lemma keeps_verdict:
  "(\<And>wm a. keeps I (f wm a)) \<Longrightarrow> (\<And>r. keeps I (g r)) \<Longrightarrow>
   keeps I (case v of Again wm a \<Rightarrow> f wm a | Done r \<Rightarrow> g r)"
  by (cases v) simp_all

lemma core_keep_scan [same_intro]: "same core (keep_scan t h)"
  unfolding keep_scan_def Let_def by (rule same_core_modify) (simp add: views)

lemma core_sleep_time [same_intro]: "same core note_sleep_time" "same core (net_stage_ssid_for_saving a b c d f g)"
  unfolding note_sleep_time_def net_stage_ssid_for_saving_def
  by (rule same_core_modify, simp add: views)+

context link_blocks
begin

lemma keeps_ask_loop [keeps_intro]: "keeps (heap_ok b F) (ask_loop e n tp out body wm a)"
proof (induction n arbitrary: wm a)
  case 0
  show ?case by (simp add: keeps_return)
next
  case (Suc n)
  show ?case unfolding ask_loop.simps by (intro keeps_intro keeps_verdict Suc)
qed

lemma keeps_answers [keeps_intro]: "keeps (heap_ok b F) (answers e tp out body d wm a)"
  unfolding answers_def by (intro keeps_intro)

lemma keeps_guarded [keeps_intro]: "keeps (heap_ok b F) act \<Longrightarrow> keeps (heap_ok b F) (guarded fail act)"
  unfolding guarded_def by (intro keeps_intro)

lemma keeps_locked [keeps_intro]: "keeps (heap_ok b F) act \<Longrightarrow> keeps (heap_ok b F) (locked e t busy act)"
  unfolding locked_def by (intro keeps_intro)

lemma keeps_asking [keeps_intro]: "keeps (heap_ok b F) (asking e fail flush cmd t pats body a)"
  unfolding asking_def by (intro keeps_intro)

lemma keeps_queries [keeps_intro]:
  "keeps (heap_ok b F) (wifi_get_da_fw_ver e len t)" "keeps (heap_ok b F) (wifi_get_wfscan e buf t)"
  "keeps (heap_ok b F) (wifi_get_rssi e w t)" "keeps (heap_ok b F) (wifi_get_wfstat e t)"
  "keeps (heap_ok b F) (wifi_get_otp_register e r l t)" "keeps (heap_ok b F) (wifi_get_nvram e x buf t)"
  "keeps (heap_ok b F) (wifi_put_nvram e x buf t)" "keeps (heap_ok b F) (wifi_get_mac e t)"
  "keeps (heap_ok b F) (wifi_set_mac e m t)" "keeps (heap_ok b F) (wifi_get_xtal e t)"
  unfolding wifi_get_da_fw_ver_def wifi_get_wfscan_def wifi_get_rssi_def wifi_get_wfstat_def
    wifi_get_otp_register_def wifi_get_nvram_def wifi_put_nvram_def wifi_get_mac_def wifi_set_mac_def
    wifi_get_xtal_def
  by (intro keeps_intro)+

lemma keeps_settings [keeps_intro]:
  "keeps (heap_ok b F) (wifi_set_otp_register e r l v t)" "keeps (heap_ok b F) (wifi_set_xtal e v t)"
  "keeps (heap_ok b F) (wifi_stop_XTAL_test e)" "keeps (heap_ok b F) (wifi_set_ntp_server e)"
  unfolding wifi_set_otp_register_def wifi_set_xtal_def wifi_stop_XTAL_test_def wifi_set_ntp_server_def
  by (intro keeps_intro)+

lemma keeps_xtal_test [keeps_intro]: "keeps (heap_ok b F) (wifi_start_XTAL_test e)"
  unfolding wifi_start_XTAL_test_def by (intro keeps_intro)

lemma keeps_ap [keeps_intro]:
  "keeps (heap_ok b F) (wifi_get_ap_list_da e t)" "keeps (heap_ok b F) (wifi_disconnect_from_AP_da e t)"
  "keeps (heap_ok b F) (wifi_initiate_connect_to_ssid e x k sec i enc hid t)"
  "keeps (heap_ok b F) (wifi_http_get e fs r url file h t)"
  unfolding wifi_get_ap_list_da_def wifi_disconnect_from_AP_da_def wifi_initiate_connect_to_ssid_def
    wifi_http_get_def Let_def
  by (intro keeps_intro keeps_quiet [OF core_upd_http] keeps_quiet [OF core_sleep_time(2)]
      keeps_ok_quiet_modify; simp add: views)+

lemma keeps_topics [keeps_intro]:
  "keeps (heap_ok b F) (wifi_set_mqtt_sub_topics e ts t)" "keeps (heap_ok b F) (wifi_mqtt_publish e ty m w t)"
proof -
  have count: "keeps (heap_ok b F) (send_zbus_int_event e x v g (\<lambda>v. upd_more (h v)) z)" for x v g h z
    by (rule keeps_quiet, rule core_int_event) (rule core_writers)
  show "keeps (heap_ok b F) (wifi_set_mqtt_sub_topics e ts t)"
    unfolding wifi_set_mqtt_sub_topics_def Let_def by (intro keeps_intro count)
  show "keeps (heap_ok b F) (wifi_mqtt_publish e ty m w t)"
    unfolding wifi_mqtt_publish_def Let_def by (intro keeps_intro)
qed

lemma keeps_topic_lists [keeps_intro]:
  "keeps (heap_ok b F) (wifi_insure_mqtt_sub_topics e ts t)"
  "keeps (heap_ok b F) (wifi_set_mqtt_sub_topics_by_type e ns t)"
  unfolding wifi_insure_mqtt_sub_topics_def wifi_set_mqtt_sub_topics_by_type_def Let_def
  by (intro keeps_intro keeps_ok_quiet_modify; simp add: views)+

lemma keeps_wake_DA [keeps_intro]: "keeps (heap_ok b F) (wifi_wake_DA e ms)"
  unfolding wifi_wake_DA_def by (intro keeps_intro keeps_ok_quiet_modify) (simp add: views)

lemma keeps_check_sleeping [keeps_intro]: "keeps (heap_ok b F) (wifi_check_sleeping e c)"
  unfolding wifi_check_sleeping_def Let_def by (intro keeps_intro)

lemma keeps_rtc_time [keeps_intro]:
  "keeps (heap_ok b F) (send_zbus_timestamp_event e x v g (\<lambda>v. upd_more (h v)))"
  by (rule keeps_quiet, rule core_timestamp_event) (rule core_writers)

lemma keeps_check_sleep_mode [keeps_intro]: "keeps (heap_ok b F) (wifi_check_sleep_mode e)"
  unfolding wifi_check_sleep_mode_def Let_def
  by (intro keeps_intro keeps_ok_quiet_modify) (simp add: views)

lemma keeps_wake_no_sleep [keeps_intro]: "keeps (heap_ok b F) (wifi_wake_no_sleep e t)"
  unfolding wifi_wake_no_sleep_def by (intro keeps_intro keeps_ok_quiet_modify) (simp add: views)

lemma keeps_sleeps [keeps_intro]:
  "keeps (heap_ok b F) (wifi_rtc_sleep e ms)" "keeps (heap_ok b F) (wifi_dpm_back_to_sleep e t)"
  "keeps (heap_ok b F) note_sleep_time"
  unfolding wifi_rtc_sleep_def wifi_dpm_back_to_sleep_def note_sleep_time_def
  by (intro keeps_intro keeps_ok_quiet_modify; simp add: views)+

lemma keeps_wait_sleep [keeps_intro]: "keeps (heap_ok b F) (wait_sleep_rounds e st n)"
  by (induction n) (auto intro!: keeps_intro)

lemma keeps_sleep_parts [keeps_intro]:
  "keeps (heap_ok b F) (reached e st r)" "keeps (heap_ok b F) (wake_if_asleep e r)"
  "keeps (heap_ok b F) (change_dpm e d a ms)"
  unfolding reached_def wait_for_sleep_state_def wake_if_asleep_def change_dpm_def
  by (intro keeps_intro)+

lemma keeps_flags [keeps_intro]:
  "keeps (heap_ok b F) (wifi_get_dpm_state e t)" "keeps (heap_ok b F) (wifi_get_mqtt_state e t)"
  "keeps (heap_ok b F) (wifi_get_mqtt_boot_state e t)"
  unfolding wifi_get_dpm_state_def wifi_get_mqtt_state_def wifi_get_mqtt_boot_state_def
  by (intro keeps_intro)+

lemma keeps_sleep_modes [keeps_intro]:
  "keeps (heap_ok b F) (sleep_none e)" "keeps (heap_ok b F) (sleep_dpm_asleep e)"
  "keeps (heap_ok b F) (sleep_dpm_awake e)" "keeps (heap_ok b F) (sleep_rtc_asleep e ms)"
  unfolding sleep_none_def sleep_dpm_asleep_def sleep_dpm_awake_def sleep_rtc_asleep_def
  by (intro keeps_intro)+

lemma keeps_set_sleep_mode [keeps_intro]: "keeps (heap_ok b F) (wifi_set_sleep_mode e m ms)"
proof -
  have "keeps (heap_ok b F) (case m of WIFI_SLEEP_NONE \<Rightarrow> sleep_none e | WIFI_SLEEP_DPM_ASLEEP \<Rightarrow> sleep_dpm_asleep e
      | WIFI_SLEEP_DPM_AWAKE \<Rightarrow> sleep_dpm_awake e | WIFI_SLEEP_RTC_ASLEEP \<Rightarrow> sleep_rtc_asleep e ms)"
    by (cases m) (simp_all add: keeps_sleep_modes)
  then show ?thesis unfolding wifi_set_sleep_mode_def by (intro keeps_intro)
qed

end

end
