(* ===== verification/NetSystem.thy ===== *)
theory NetSystem
  imports LinkAsk
begin

text \<open>
  The work of the network manager, the set-up after a boot included, keeps the blocks of the message
  heap; and the network manager's own callback satisfies the contract of the callbacks.
\<close>

section \<open>The set-up of the chip\<close>

context link_blocks
begin

lemma keeps_tell [keeps_intro]: "keeps (heap_ok b F) (tell e cmd t)"
  unfolding tell_def by (intro keeps_intro)

lemma keeps_tell_all [keeps_intro]: "keeps (heap_ok b F) (tell_all e cs)"
  by (induction cs) (auto intro!: keeps_intro)

lemma keeps_saved_flag [keeps_intro]:
  "keeps (heap_ok b F) (net_set_saved_bool e a v x)" "keeps (heap_ok b F) (net_get_saved_bool e a v x)"
  unfolding net_set_saved_bool_def net_get_saved_bool_def Let_def
  by (intro keeps_intro)+

lemma keeps_bu_event [keeps_intro]: "keeps (heap_ok b F) (send_zbus_bu_event e v)"
  unfolding send_zbus_bu_event_def by (intro keeps_intro)

lemma keeps_outside [keeps_intro]: "keeps (heap_ok b F) (outside c)"
  unfolding outside_def by (rule keeps_ok_quiet_modify) (simp add: views)

lemma keeps_backup [keeps_intro]:
  "keeps (heap_ok b F) (write_uicr_backup e)" "keeps (heap_ok b F) (check_backup e)"
proof -
  show "keeps (heap_ok b F) (write_uicr_backup e)"
    unfolding write_uicr_backup_def by (intro keeps_intro)
  show "keeps (heap_ok b F) (check_backup e)"
    unfolding check_backup_def Let_def by (intro keeps_intro keeps_ok_quiet_modify) (simp add: views)
qed

lemma keeps_insure_backup [keeps_intro]: "keeps (heap_ok b F) (insure_uicr_backup e)"
  unfolding insure_uicr_backup_def Let_def by (intro keeps_intro)

lemma keeps_identity [keeps_intro]:
  "keeps (heap_ok b F) (init_mac e)" "keeps (heap_ok b F) (init_xtal e)" "keeps (heap_ok b F) (init_dhcp_name e)"
  unfolding init_mac_def init_xtal_def init_dhcp_name_def by (intro keeps_intro)+

lemma keeps_init_identity [keeps_intro]: "keeps (heap_ok b F) (init_identity e)"
  unfolding init_identity_def by (intro keeps_intro)

lemma keeps_zones [keeps_intro]:
  "keeps (heap_ok b F) (wifi_saved_ssids_del_all_da e t)" "keeps (heap_ok b F) (init_mqtt e)"
  unfolding wifi_saved_ssids_del_all_da_def init_mqtt_def
  by (intro keeps_intro keeps_ok_quiet_modify; simp add: views)+

lemma keeps_init_zones [keeps_intro]: "keeps (heap_ok b F) (init_zones e)"
  unfolding init_zones_def by (intro keeps_intro keeps_ok_quiet_modify) (simp add: views)

lemma keeps_one_time [keeps_intro]: "keeps (heap_ok b F) (init_one_time e)"
  unfolding init_one_time_def by (intro keeps_intro keeps_ok_quiet_modify) (simp_all add: views)

lemma keeps_init_chip [keeps_intro]: "keeps (heap_ok b F) (init_chip e v)"
  unfolding init_chip_def by (intro keeps_intro)

lemma keeps_init [keeps_intro]: "keeps (heap_ok b F) (net_do_da_init_work_fn e)"
  unfolding net_do_da_init_work_fn_def Let_def by (intro keeps_intro)

lemma keeps_run_work [keeps_intro]: "keeps (heap_ok b F) (run_net_work e w)"
  unfolding run_net_work_def by (cases w) (simp_all add: keeps_intro)

lemma keeps_work_step [keeps_intro]: "keeps (heap_ok b F) (net_work_step e)"
  unfolding net_work_step_def by (intro keeps_intro keeps_ok_quiet_modify) (simp add: views)

end

section \<open>The network manager keeps the contract\<close>

interpretation blocks: link_blocks "monitored e" "\<forall>s. zbus_ret e s = 0" for e
  by unfold_locales
     (auto simp: monitored_def intro!: passes_monitor monitor_outgoing)

text \<open>
  The Wi-Fi side as a whole: the calls the rest of the application makes, the network manager's work
  queue, the firmware update's timer, the cloud side's return of a message and the time that passes
  between them, in any order.
\<close>

section \<open>Events\<close>

text \<open>The calls of the command layer, their results dropped.\<close>

datatype chip_call =
  GetVersion nat nat | GetScan string nat | GetRssi bool nat | GetStatus nat
| GetOtp int int nat | SetOtp int nat int nat
| GetNvram nat string nat | PutNvram nat string nat
| GetMac nat | SetMac string nat | GetXtal nat | SetXtal int nat | StartXtalTest | StopXtalTest
| GetApList nat | LeaveAp nat | JoinAp string string int int int int nat
| HttpGet "int \<times> nat" int string string bool nat
| SetTopics "string list" nat | InsureTopics "string list" nat | SetTopicTypes "int list" nat
| Publish nat string bool nat
| AskSleeping bool | AskSleepMode | WakeNoSleep nat | SetSleepMode wifi_sleep_state int
| SetNtp

definition run_chip_call :: "wenv \<Rightarrow> chip_call \<Rightarrow> (wifi, unit) state" where
  "run_chip_call e c =
     (case c of
        GetVersion len t \<Rightarrow> do { wifi_get_da_fw_ver e len t; skip }
      | GetScan buf t \<Rightarrow> do { wifi_get_wfscan e buf t; skip }
      | GetRssi w t \<Rightarrow> do { wifi_get_rssi e w t; skip }
      | GetStatus t \<Rightarrow> do { wifi_get_wfstat e t; skip }
      | GetOtp reg n t \<Rightarrow> do { wifi_get_otp_register e reg n t; skip }
      | SetOtp reg n v t \<Rightarrow> do { wifi_set_otp_register e reg n v t; skip }
      | GetNvram a buf t \<Rightarrow> do { wifi_get_nvram e a buf t; skip }
      | PutNvram a buf t \<Rightarrow> do { wifi_put_nvram e a buf t; skip }
      | GetMac t \<Rightarrow> do { wifi_get_mac e t; skip }
      | SetMac mac t \<Rightarrow> do { wifi_set_mac e mac t; skip }
      | GetXtal t \<Rightarrow> do { wifi_get_xtal e t; skip }
      | SetXtal v t \<Rightarrow> do { wifi_set_xtal e v t; skip }
      | StartXtalTest \<Rightarrow> do { wifi_start_XTAL_test e; skip }
      | StopXtalTest \<Rightarrow> wifi_stop_XTAL_test e
      | GetApList t \<Rightarrow> do { wifi_get_ap_list_da e t; skip }
      | LeaveAp t \<Rightarrow> do { wifi_disconnect_from_AP_da e t; skip }
      | JoinAp ssid key sec keyidx enc hidden t \<Rightarrow>
          do { wifi_initiate_connect_to_ssid e ssid key sec keyidx enc hidden t; skip }
      | HttpGet vfs r url file h t \<Rightarrow> do { wifi_http_get e vfs r url file h t; skip }
      | SetTopics ts t \<Rightarrow> do { wifi_set_mqtt_sub_topics e ts t; skip }
      | InsureTopics ts t \<Rightarrow> do { wifi_insure_mqtt_sub_topics e ts t; skip }
      | SetTopicTypes ns t \<Rightarrow> do { wifi_set_mqtt_sub_topics_by_type e ns t; skip }
      | Publish ty msg w t \<Rightarrow> do { wifi_mqtt_publish e ty msg w t; skip }
      | AskSleeping c \<Rightarrow> do { wifi_check_sleeping e c; skip }
      | AskSleepMode \<Rightarrow> do { wifi_check_sleep_mode e; skip }
      | WakeNoSleep t \<Rightarrow> do { wifi_wake_no_sleep e t; skip }
      | SetSleepMode m ms \<Rightarrow> do { wifi_set_sleep_mode e m ms; skip }
      | SetNtp \<Rightarrow> do { wifi_set_ntp_server e; skip })"

datatype net_event =
  Elapse nat
| AtCmd string nat
| GetDpm nat | GetMqtt nat | GetMqttBoot nat
| SetDpm "8 word" bool nat | SetMqtt bool nat | SetMqttBoot bool nat | SetApProfile bool nat
| Flush
| WakeDA nat
| PowerDA bool
| NetWorkRuns
| StartOta string "8 word list" | StopOta | OtaTimer
| CloudDone
| Ask chip_call

definition run_net_event :: "wenv \<Rightarrow> net_event \<Rightarrow> (wifi, unit) state" where
  "run_net_event e ev =
     (case ev of
        Elapse ms \<Rightarrow> k_sleep_ms e ms
      | AtCmd cmd t \<Rightarrow> do { wifi_send_ok_err_atcmd e cmd t; skip }
      | GetDpm t \<Rightarrow> do { wifi_get_dpm_state e t; skip }
      | GetMqtt t \<Rightarrow> do { wifi_get_mqtt_state e t; skip }
      | GetMqttBoot t \<Rightarrow> do { wifi_get_mqtt_boot_state e t; skip }
      | SetDpm v a t \<Rightarrow> do { wifi_set_dpm_state e v a t; skip }
      | SetMqtt v t \<Rightarrow> do { wifi_set_mqtt_state e v t; skip }
      | SetMqttBoot v t \<Rightarrow> do { wifi_set_mqtt_boot_state e v t; skip }
      | SetApProfile v t \<Rightarrow> do { wifi_set_ap_profile_use e v t; skip }
      | Flush \<Rightarrow> wifi_flush_msgs e
      | WakeDA ms \<Rightarrow> wifi_wake_DA e ms
      | PowerDA v \<Rightarrow> net_mgr_wifi_power e v
      | NetWorkRuns \<Rightarrow> net_work_step e
      | StartOta url ver \<Rightarrow> do { net_start_ota url ver; skip }
      | StopOta \<Rightarrow> do { net_stop_ota; skip }
      | OtaTimer \<Rightarrow> ota_work_timer_handler
      | CloudDone \<Rightarrow> free_mqtt_copy
      | Ask c \<Rightarrow> run_chip_call e c)"

primrec run_net_events :: "wenv \<Rightarrow> net_event list \<Rightarrow> (wifi, unit) state" where
  "run_net_events e [] = skip"
| "run_net_events e (ev # evs) = do { run_net_event e ev; run_net_events e evs }"

text \<open>
  The state after these events from the boot of a collar with the factory data \<open>u\<close>, with the network
  manager's callback.
\<close>

definition net_state :: "wenv \<Rightarrow> net_event list \<Rightarrow> world \<Rightarrow> uicr \<Rightarrow> wifi" where
  "net_state e evs w u = after (run_net_events (monitored e) evs) ((wifi_boot w)\<lparr>u_mem := u\<rparr>)"

lemma keeps_net_events:
  assumes "\<And>ev. keeps I (run_net_event e ev)"
  shows "keeps I (run_net_events e evs)"
  by (induction evs) (auto intro: keeps_intro assms)

section \<open>Blocks\<close>

context link_blocks
begin

lemma keeps_chip_call [keeps_intro]: "keeps (heap_ok b F) (run_chip_call e c)"
  unfolding run_chip_call_def by (cases c; simp only: chip_call.case; intro keeps_intro)

lemma keeps_event: "keeps (heap_ok b F) (run_net_event e ev)"
proof -
  have ota: "keeps (heap_ok b F) (net_start_ota url v)" "keeps (heap_ok b F) net_stop_ota"
    "keeps (heap_ok b F) ota_work_timer_handler" for url v
    unfolding net_start_ota_def net_stop_ota_def ota_work_timer_handler_def queue_ota_work_def
    by (intro keeps_intro keeps_ok_quiet_modify; simp add: views)+
  show ?thesis
    unfolding run_net_event_def
    by (cases ev; simp only: net_event.case; intro keeps_intro ota)
qed

end

lemma heap_okD:
  assumes "heap_ok b [] s"
  shows "distinct (owned s)" and "set (owned s) \<subseteq> set (map fst (wifi_heap s))"
    and "b \<Longrightarrow> set (map fst (wifi_heap s)) \<subseteq> set (owned s)"
    and "num_of_heap_elements s = int (length (wifi_heap s))" and "\<not> bad_free s"
  using assms unfolding heap_ok_def append_Nil by (elim conjE, simp only: mp)+

lemma boot_heap_ok: "heap_ok b [] ((wifi_boot w)\<lparr>u_mem := u\<rparr>)"
  by (simp add: heap_ok_def owned_def wifi_boot_def)



end
