(* ===== verification/LinkKept.thy ===== *)
theory LinkKept
  imports NetSystem
begin

text \<open>
  Parts of the state that no exchange with the chip touches.  The link writes its own variables and
  the clock; whatever else is kept by the callbacks is kept by every command, query, wait and sleep
  (\<open>kept_view\<close>).  The network manager's callback keeps the firmware update and the supply lines.
\<close>

section \<open>The contract\<close>

locale kept_view =
  fixes e :: wenv and f :: "wifi \<Rightarrow> 'v"
  assumes callback_kept: "same f (on_msg e cb m)"
    and clock_kept: "f (s\<lparr>ww := (ww s)\<lparr>uptime := t\<rparr>\<rparr>) = f s"
    and calls_kept: "f (s\<lparr>ww := (ww s)\<lparr>calls := c\<rparr>\<rparr>) = f s"
    and link_kept: "f (s\<lparr>wifi_msgq := q\<rparr>) = f s" "f (s\<lparr>wifi_heap := h\<rparr>) = f s"
      "f (s\<lparr>next_block := n\<rparr>) = f s" "f (s\<lparr>bad_free := x\<rparr>) = f s" "f (s\<lparr>bad_read := x\<rparr>) = f s"
      "f (s\<lparr>num_of_heap_elements := i\<rparr>) = f s" "f (s\<lparr>alloc_fails_in_a_row := kk\<rparr>) = f s"
      "f (s\<lparr>lock_count := l\<rparr>) = f s" "f (s\<lparr>inbox := b\<rparr>) = f s" "f (s\<lparr>spi_frames := y\<rparr>) = f s"
begin

lemmas kept = clock_kept calls_kept link_kept

lemma modify_kept: "(\<And>s. f (g s) = f s) \<Longrightarrow> same f (modify g)"
  by (rule same_modify)

lemma heap_kept [same_intro]:
  "same f (k_heap_alloc e n)" "same f (k_heap_free p)" "same f (write_block a t)"
  unfolding same_def k_heap_alloc_def k_heap_free_def write_block_def
  by (simp_all add: kept split: data_ptr.split)

lemma free_kept [same_intro]: "same f (wifi_msg_free m)"
  unfolding wifi_msg_free_def Let_def by (intro same_intro modify_kept) (simp_all add: kept)

lemma alloc_failed_kept [same_intro]: "same f alloc_failed"
  unfolding alloc_failed_def outside_def by (intro same_intro modify_kept) (simp_all add: kept)

lemma alloc_loop_kept [same_intro]: "same f (alloc_loop e n t k q)"
proof (induction k arbitrary: q)
  case (Suc k)
  show ?case
    unfolding alloc_loop.simps by (intro same_intro Suc.IH modify_kept) (simp_all add: kept)
qed (simp add: same_return)

lemma new_msg_kept [same_intro]: "same f (wifi_init_new_msg e b n)"
  unfolding wifi_init_new_msg_def wifi_msg_alloc_def by (intro same_intro)

lemma run_callbacks_kept [same_intro]: "same f (run_callbacks e cbs m)"
proof (induction cbs arbitrary: m)
  case (Cons cb cbs)
  then show ?case by (cases cb) (auto intro!: same_intro callback_kept)
qed (simp add: same_return)

lemma notify_kept [same_intro]: "same f (wifi_notify_cbs e m)"
  unfolding wifi_notify_cbs_def by (intro same_intro modify_kept) (simp_all add: kept)

lemma resp_kept [same_intro]: "same f (da_resp_work_fn e r)"
  unfolding da_resp_work_fn_def hand_over_def Let_def by (intro same_intro)

lemma set_now_kept [same_intro]: "same f (set_now t)"
  unfolding set_now_def by (rule modify_kept) (simp add: kept)

lemma deliver_kept [same_intro]: "same f (deliver_all e as)"
  by (induction as) (auto intro!: same_intro)

lemma pass_kept [same_intro]: "same f (pass_until e t)" "same f (k_sleep_ms e n)" "same f (ms_left t)"
  unfolding pass_until_def k_sleep_ms_def ms_left_def
  by (intro same_intro modify_kept; simp add: kept)+

lemma mutex_kept [same_intro]: "same f (wifi_get_mutex e t)" "same f wifi_release_mutex"
  unfolding wifi_get_mutex_def wifi_release_mutex_def Let_def
  by (intro same_intro modify_kept; simp add: kept)+

lemma send_kept [same_intro]: "same f (wifi_send_timeout e d t)"
  unfolding wifi_send_timeout_def wifi_spi_send_def Let_def
  by (intro same_intro modify_kept) (simp_all add: kept)

lemma take_kept [same_intro]: "same f (take_or_wait e t as)"
proof (induction as)
  case Nil
  show ?case unfolding take_or_wait.simps by (intro same_intro modify_kept) (simp_all add: kept)
next
  case (Cons a as)
  show ?case unfolding take_or_wait.simps by (intro same_intro Cons modify_kept) (simp_all add: kept)
qed

lemma recv_kept [same_intro]: "same f (wifi_recv e t)"
  unfolding wifi_recv_def k_msgq_get_def Let_def by (intro same_intro modify_kept) (simp_all add: kept)

lemma match_kept [same_intro]: "same f (match_message e m wm)"
  unfolding match_message_def by (intro same_intro modify_kept) (simp_all add: kept)

lemma wait_loop_kept [same_intro]: "same f (wait_loop e n tp wm r)"
proof (induction n arbitrary: wm r)
  case (Suc n)
  show ?case unfolding wait_loop.simps by (intro same_intro Suc)
qed (simp add: same_return)

lemma wait_kept [same_intro]: "same f (wifi_wait_for e wm t)" "same f (wifi_send_and_wait_for e c wm t)"
  unfolding wifi_send_and_wait_for_def wifi_wait_for_def by (intro same_intro)+

lemma flush_kept [same_intro]: "same f (free_all ms)" "same f (wifi_flush_msgs e)"
proof -
  show free: "same f (free_all ms)" for ms by (induction ms) (auto intro!: same_intro)
  show "same f (wifi_flush_msgs e)"
    unfolding wifi_flush_msgs_def by (intro same_intro free modify_kept) (simp_all add: kept)
qed

lemma ok_err_kept [same_intro]: "same f (wifi_send_ok_err_atcmd e c t)"
  unfolding wifi_send_ok_err_atcmd_def Let_def by (intro same_intro)

lemma query_kept [same_intro]: "same f (query_loop e n tp wm r)" "same f (flag_query e c p u t)"
proof -
  show loop: "same f (query_loop e n tp wm r)" for n tp wm r
    by (induction n arbitrary: wm r) (auto intro!: same_intro)
  show "same f (flag_query e c p u t)" unfolding flag_query_def Let_def by (intro same_intro loop)
qed

end

section \<open>What the network manager's callback keeps\<close>

locale monitored_view =
  fixes f :: "wifi \<Rightarrow> 'v"
  assumes shadow_kept: "f (s\<lparr>ww := w\<rparr>) = f s" "f (s\<lparr>dax := d\<rparr>) = f s" "f (s\<lparr>shadow_wifiVer := v\<rparr>) = f s"
    and event_kept: "f (s\<lparr>published := p\<rparr>) = f s" "f (s\<lparr>net_works := n\<rparr>) = f s"
      "f (s\<lparr>mqtt_incoming := i\<rparr>) = f s" "f (s\<lparr>null_deref := x\<rparr>) = f s" "f (s\<lparr>http := h\<rparr>) = f s"
      "f (s\<lparr>ota_last_start_result := r\<rparr>) = f s" "f (s\<lparr>time_strings := t\<rparr>) = f s"
      "f (s\<lparr>g_last_conn_attempt := a\<rparr>) = f s" "f (s\<lparr>g_rebooting_da := x\<rparr>) = f s"
    and block_kept: "f (s\<lparr>wifi_msgq := q\<rparr>) = f s" "f (s\<lparr>wifi_heap := b\<rparr>) = f s"
      "f (s\<lparr>next_block := k\<rparr>) = f s" "f (s\<lparr>bad_free := x\<rparr>) = f s" "f (s\<lparr>bad_read := x\<rparr>) = f s"
      "f (s\<lparr>num_of_heap_elements := j\<rparr>) = f s" "f (s\<lparr>alloc_fails_in_a_row := kk\<rparr>) = f s"
      "f (s\<lparr>lock_count := lc\<rparr>) = f s" "f (s\<lparr>inbox := l\<rparr>) = f s" "f (s\<lparr>spi_frames := y\<rparr>) = f s"
begin

lemmas all_kept = shadow_kept event_kept block_kept

lemma writers_kept [same_intro]:
  "same f (upd_da g)" "same f (upd_more k)" "same f (upd_http h)" "same f (submit_work w)"
  unfolding upd_da_def upd_more_def upd_http_def submit_work_def
  by (intro same_modify; simp add: all_kept)+

lemma tri_put_kept [same_intro]: "same f (tri_put v x)"
  by (cases v) (simp_all add: writers_kept)

lemma publish_kept [same_intro]: "same f (publish e b old new)"
  unfolding publish_def watcher_listener_def Let_def
  by (intro same_intro same_modify) (simp_all add: all_kept)

lemma tri_event_kept [same_intro]: "same f (send_zbus_tri_event e v x)"
  unfolding send_zbus_tri_event_def by (intro same_intro)

lemma valued_events_kept [same_intro]:
  "(\<And>v. same f (put v)) \<Longrightarrow> same f (send_zbus_int_event e b x get put z)"
  "(\<And>v. same f (put' v)) \<Longrightarrow> same f (send_zbus_timestamp_event e b u get' put')"
  "(\<And>v. same f (put'' v)) \<Longrightarrow> same f (send_zbus_string_event e b c put'' n)"
  unfolding send_zbus_int_event_def send_zbus_timestamp_event_def send_zbus_string_event_def
  by (intro same_intro, assumption)+

lemma version_event_kept [same_intro]: "same f (send_zbus_version_event e v)" "same f (send_zbus_ota_event e z)"
  unfolding send_zbus_version_event_def send_zbus_ota_event_def
  by (intro same_intro same_modify; simp add: all_kept)+

lemma ap_names_kept [same_intro]: "same f remember_ap_name" "same f forget_ap"
  unfolding remember_ap_name_def forget_ap_def by (intro same_intro same_modify; simp add: all_kept)+

lemma queues_kept [same_intro]:
  "same f queue_da_init_work" "same f queue_WAKEUP_work" "same f queue_disconn_work"
  "same f queue_reset_da_work" "same f queue_ota_work" "same f (queue_get_time_work e)"
  unfolding queue_da_init_work_def queue_WAKEUP_work_def queue_disconn_work_def queue_reset_da_work_def
    queue_ota_work_def queue_get_time_work_def
  by (intro same_intro)+

lemma init_kept [same_intro]: "same f (net_handle_DA_Init e t)"
  unfolding net_handle_DA_Init_def lost_ap_def Let_def
  by (intro same_intro same_modify) (simp_all add: all_kept)

lemma ap_handlers_kept [same_intro]:
  "same f (net_handle_DA_APConn e m t i)" "same f (net_handle_DA_APDiscon e t)"
  unfolding net_handle_DA_APConn_def net_handle_DA_APDiscon_def net_unstage_ssid_for_saving_def Let_def
  by (intro same_intro same_modify; simp add: all_kept)+

lemma topic_handler_kept [same_intro]: "same f (net_handle_DA_SubTopic e t)" "same f (net_handle_DA_DPM e t)"
  unfolding net_handle_DA_SubTopic_def net_handle_DA_DPM_def Let_def by (intro same_intro)+

lemma add_lines_kept [same_intro]: "same f (add_lines ls)"
  by (induction ls)
     (auto simp: wifi_add_SSID_to_cached_list_def all_kept intro!: same_intro same_modify)

lemma free_block_kept [same_intro]: "same f (wifi_msg_free m)"
  unfolding wifi_msg_free_def k_heap_free_def Let_def
  by (intro same_intro same_modify) (simp_all add: all_kept split: data_ptr.split)

lemma mqtt_handler_kept [same_intro]: "same f (net_handle_DA_MQTT_Msg e m i)"
  unfolding net_handle_DA_MQTT_Msg_def Let_def
  by (intro same_intro same_modify) (simp_all add: all_kept)

lemma http_handlers_kept [same_intro]: "same f (wifi_at_http_status e m)" "same f (wifi_at_http_write e m)"
  unfolding wifi_at_http_status_def wifi_at_http_write_def http_chunk_def Let_def
  by (intro same_intro same_modify; simp add: all_kept)+

lemma report_kept [same_intro]: "same f (net_monitor_report e m t)"
  unfolding net_monitor_report_def Let_def
  by (intro same_intro same_modify) (simp_all add: all_kept)

lemma monitor_kept [same_intro]: "same f (net_monitor_DA e m)"
  unfolding net_monitor_DA_def Let_def
  by (intro same_intro same_modify) (simp_all add: all_kept)

lemma kept_by_monitored: "kept_view (monitored e) f"
  by unfold_locales (auto simp: all_kept monitored_def intro!: same_intro)

end

text \<open>
  Parts of the state that no call of the command layer and no work of the network manager but the
  firmware update's touches: the second contract, over the whole of \<^verbatim>\<open>wifi_at.c\<close> and the set-up of the
  chip in \<^verbatim>\<open>net_mgr.c\<close>.
\<close>

section \<open>The contract\<close>

locale net_view = monitored_view f for f :: "wifi \<Rightarrow> 'v" +
  assumes setup_kept: "f (s\<lparr>u_mem := u\<rparr>) = f s" "f (s\<lparr>shadow_zones := z\<rparr>) = f s"
      "f (s\<lparr>g_DA_needs_one_time_config := x\<rparr>) = f s" "f (s\<lparr>rm_calls := r\<rparr>) = f s"
    and sleep_kept: "f (s\<lparr>g_last_dpm_wake := t\<rparr>) = f s" "f (s\<lparr>g_last_dpm_change := t\<rparr>) = f s"
      "f (s\<lparr>g_awake_on_boot := x\<rparr>) = f s" "f (s\<lparr>g_last_wake_time := t\<rparr>) = f s"
    and pins_kept: "f (s\<lparr>pins := p\<rparr>) = f s" "f (s\<lparr>g_wifi_power_key := x\<rparr>) = f s"
      "f (s\<lparr>g_wifi_1v8_on := x\<rparr>) = f s" "f (s\<lparr>g_wifi_3v0_on := x\<rparr>) = f s"

sublocale net_view < kept: kept_view "monitored e" f for e
  by (rule kept_by_monitored)

context net_view
begin

lemmas every_kept = all_kept setup_kept sleep_kept pins_kept

lemma changed_kept: "(\<And>s. f (g s) = f s) \<Longrightarrow> same f (modify g)"
  by (rule same_modify)

section \<open>Questions\<close>

lemma verdict_kept:
  "(\<And>wm a. same f (g wm a)) \<Longrightarrow> (\<And>r. same f (h r)) \<Longrightarrow>
   same f (case v of Again wm a \<Rightarrow> g wm a | Done r \<Rightarrow> h r)"
  by (cases v) simp_all

lemma ask_loop_kept [same_intro]: "same f (ask_loop (monitored e) n tp out body wm a)"
proof (induction n arbitrary: wm a)
  case (Suc n)
  show ?case unfolding ask_loop.simps by (intro same_intro verdict_kept Suc)
qed (simp add: same_return)

lemma asking_kept [same_intro]:
  "same f act \<Longrightarrow> same f (guarded fail act)" "same f act \<Longrightarrow> same f (locked (monitored e) t busy act)"
  "same f (answers (monitored e) tp out body d wm a)"
  unfolding guarded_def locked_def answers_def by (intro same_intro, assumption?)+

lemma asking_all_kept [same_intro]: "same f (asking (monitored e) fail fl cmd t pats body a)"
  unfolding asking_def by (intro same_intro)

lemma queries_kept [same_intro]:
  "same f (wifi_get_da_fw_ver (monitored e) len t)" "same f (wifi_get_wfscan (monitored e) buf t)"
  "same f (wifi_get_rssi (monitored e) w t)" "same f (wifi_get_wfstat (monitored e) t)"
  "same f (wifi_get_otp_register (monitored e) r l t)" "same f (wifi_get_nvram (monitored e) x buf t)"
  "same f (wifi_put_nvram (monitored e) x buf t)" "same f (wifi_get_mac (monitored e) t)"
  "same f (wifi_set_mac (monitored e) m t)" "same f (wifi_get_xtal (monitored e) t)"
  unfolding wifi_get_da_fw_ver_def wifi_get_wfscan_def wifi_get_rssi_def wifi_get_wfstat_def
    wifi_get_otp_register_def wifi_get_nvram_def wifi_put_nvram_def wifi_get_mac_def wifi_set_mac_def
    wifi_get_xtal_def
  by (intro same_intro)+

lemma settings_kept [same_intro]:
  "same f (wifi_set_otp_register (monitored e) r l v t)" "same f (wifi_set_xtal (monitored e) v t)"
  "same f (wifi_stop_XTAL_test (monitored e))" "same f (wifi_set_ntp_server (monitored e))"
  unfolding wifi_set_otp_register_def wifi_set_xtal_def wifi_stop_XTAL_test_def wifi_set_ntp_server_def
  by (intro same_intro)+

lemma xtal_test_kept [same_intro]: "same f (wifi_start_XTAL_test (monitored e))"
  unfolding wifi_start_XTAL_test_def by (intro same_intro)

lemma ap_kept [same_intro]:
  "same f (wifi_get_ap_list_da (monitored e) t)" "same f (wifi_disconnect_from_AP_da (monitored e) t)"
  "same f (wifi_initiate_connect_to_ssid (monitored e) x k sec i enc hid t)"
  "same f (wifi_http_get (monitored e) fs r url file h t)"
  unfolding wifi_get_ap_list_da_def wifi_disconnect_from_AP_da_def wifi_initiate_connect_to_ssid_def
    wifi_http_get_def net_stage_ssid_for_saving_def Let_def
  by (intro same_intro changed_kept; simp add: every_kept)+

section \<open>Topics\<close>

lemma topics_kept [same_intro]:
  "same f (wifi_set_mqtt_sub_topics (monitored e) ts t)" "same f (wifi_mqtt_publish (monitored e) ty m w t)"
  unfolding wifi_set_mqtt_sub_topics_def wifi_mqtt_publish_def Let_def
  by (intro same_intro)+

lemma topic_lists_kept [same_intro]:
  "same f (wifi_insure_mqtt_sub_topics (monitored e) ts t)"
  "same f (wifi_set_mqtt_sub_topics_by_type (monitored e) ns t)"
  unfolding wifi_insure_mqtt_sub_topics_def wifi_set_mqtt_sub_topics_by_type_def Let_def
  by (intro same_intro changed_kept; simp add: every_kept)+

section \<open>Power and sleep\<close>

lemma supply_kept [same_intro]:
  "same f (set_pin e p v)" "same f (wifi_set_power_key e v)"
  "same f (wifi_set_3v0_enable e v)" "same f (wifi_1v8_on e)"
  "same f (wifi_1v8_off e)" "same f (wifi_set_level_shifter e v)"
  unfolding wifi_set_power_key_def wifi_set_3v0_enable_def wifi_1v8_on_def wifi_1v8_off_def
    wifi_set_level_shifter_def set_pin_def
  by (intro same_intro changed_kept; simp add: every_kept)+

lemma switches_kept [same_intro]:
  "same f (wifi_set_dpm_state (monitored e) v a t)" "same f (wifi_set_mqtt_state (monitored e) x t)"
  "same f (wifi_set_mqtt_boot_state (monitored e) x t)"
  "same f (wifi_set_ap_profile_use (monitored e) x t)" "same f free_mqtt_copy"
  unfolding wifi_set_dpm_state_def wifi_set_mqtt_state_def wifi_set_mqtt_boot_state_def
    wifi_set_ap_profile_use_def free_mqtt_copy_def
  by (intro same_intro changed_kept; simp add: every_kept)+

lemma flags_kept [same_intro]:
  "same f (wifi_get_dpm_state (monitored e) t)" "same f (wifi_get_mqtt_state (monitored e) t)"
  "same f (wifi_get_mqtt_boot_state (monitored e) t)"
  unfolding wifi_get_dpm_state_def wifi_get_mqtt_state_def wifi_get_mqtt_boot_state_def
  by (intro same_intro)+

lemma wake_kept [same_intro]: "same f (wifi_wake_DA (monitored e) n)" "same f (rm_call c)" "same f (outside o')"
  unfolding wifi_wake_DA_def rm_call_def outside_def by (intro same_intro changed_kept; simp add: every_kept)+

lemma check_sleeping_kept [same_intro]: "same f (wifi_check_sleeping (monitored e) c)"
  unfolding wifi_check_sleeping_def Let_def by (intro same_intro)

lemma check_sleep_mode_kept [same_intro]: "same f (wifi_check_sleep_mode (monitored e))"
  unfolding wifi_check_sleep_mode_def Let_def
  by (intro same_intro changed_kept) (simp_all add: every_kept)

lemma wake_no_sleep_kept [same_intro]: "same f (wifi_wake_no_sleep (monitored e) t)"
  unfolding wifi_wake_no_sleep_def by (intro same_intro changed_kept) (simp_all add: every_kept)

lemma sleeps_kept [same_intro]:
  "same f (wifi_rtc_sleep (monitored e) ms)" "same f (wifi_dpm_back_to_sleep (monitored e) t)" "same f note_sleep_time"
  unfolding wifi_rtc_sleep_def wifi_dpm_back_to_sleep_def note_sleep_time_def
  by (intro same_intro changed_kept; simp add: every_kept)+

lemma wait_sleep_kept [same_intro]: "same f (wait_sleep_rounds (monitored e) st n)"
  by (induction n) (auto intro!: same_intro)

lemma sleep_parts_kept [same_intro]:
  "same f (reached (monitored e) st r)" "same f (wake_if_asleep (monitored e) r)"
  "same f (change_dpm (monitored e) d a ms)"
  unfolding reached_def wait_for_sleep_state_def wake_if_asleep_def change_dpm_def
  by (intro same_intro)+

lemma sleep_modes_kept:
  "same f (sleep_none (monitored e))" "same f (sleep_dpm_asleep (monitored e))"
  "same f (sleep_dpm_awake (monitored e))" "same f (sleep_rtc_asleep (monitored e) ms)"
  unfolding sleep_none_def sleep_dpm_asleep_def sleep_dpm_awake_def sleep_rtc_asleep_def
  by (intro same_intro)+

lemma set_sleep_mode_kept [same_intro]: "same f (wifi_set_sleep_mode (monitored e) m ms)"
proof -
  have "same f (case m of WIFI_SLEEP_NONE \<Rightarrow> sleep_none (monitored e)
      | WIFI_SLEEP_DPM_ASLEEP \<Rightarrow> sleep_dpm_asleep (monitored e)
      | WIFI_SLEEP_DPM_AWAKE \<Rightarrow> sleep_dpm_awake (monitored e)
      | WIFI_SLEEP_RTC_ASLEEP \<Rightarrow> sleep_rtc_asleep (monitored e) ms)"
    by (cases m) (simp_all add: sleep_modes_kept)
  then show ?thesis unfolding wifi_set_sleep_mode_def by (intro same_intro)
qed

lemma chip_call_kept [same_intro]: "same f (run_chip_call (monitored e) c)"
  unfolding run_chip_call_def by (cases c; simp only: chip_call.case; intro same_intro)

section \<open>The set-up of the chip\<close>

lemma tell_kept [same_intro]: "same f (tell (monitored e) cmd t)"
  unfolding tell_def by (intro same_intro)

lemma tell_all_kept [same_intro]: "same f (tell_all (monitored e) cs)"
  by (induction cs) (auto intro!: same_intro)

lemma saved_flag_kept [same_intro]:
  "same f (net_set_saved_bool (monitored e) a v x)" "same f (net_get_saved_bool (monitored e) a v x)"
  unfolding net_set_saved_bool_def net_get_saved_bool_def Let_def
  by (intro same_intro)+

lemma bu_event_kept [same_intro]: "same f (send_zbus_bu_event (monitored e) v)"
  unfolding send_zbus_bu_event_def by (intro same_intro)

lemma backup_kept [same_intro]:
  "same f (write_uicr_backup (monitored e))" "same f (check_backup (monitored e))"
  unfolding write_uicr_backup_def check_backup_def Let_def
  by (intro same_intro changed_kept; simp add: every_kept)+

lemma insure_backup_kept [same_intro]: "same f (insure_uicr_backup (monitored e))"
  unfolding insure_uicr_backup_def Let_def by (intro same_intro)

lemma identity_kept [same_intro]:
  "same f (init_mac (monitored e))" "same f (init_xtal (monitored e))" "same f (init_dhcp_name (monitored e))"
  unfolding init_mac_def init_xtal_def init_dhcp_name_def by (intro same_intro)+

lemma init_identity_kept [same_intro]: "same f (init_identity (monitored e))"
  unfolding init_identity_def by (intro same_intro)

lemma zones_kept [same_intro]:
  "same f (wifi_saved_ssids_del_all_da (monitored e) t)" "same f (init_mqtt (monitored e))"
  unfolding wifi_saved_ssids_del_all_da_def init_mqtt_def
  by (intro same_intro changed_kept; simp add: every_kept)+

lemma init_zones_kept [same_intro]: "same f (init_zones (monitored e))"
  unfolding init_zones_def by (intro same_intro changed_kept) (simp_all add: every_kept)

lemma one_time_kept [same_intro]: "same f (init_one_time (monitored e))"
  unfolding init_one_time_def by (intro same_intro changed_kept) (simp_all add: every_kept)

lemma init_chip_kept [same_intro]: "same f (init_chip (monitored e) v)"
  unfolding init_chip_def by (intro same_intro)

lemma chip_init_kept [same_intro]: "same f (net_do_da_init_work_fn (monitored e))"
  unfolding net_do_da_init_work_fn_def Let_def by (intro same_intro)

section \<open>The other work\<close>

lemma works_kept [same_intro]:
  "same f (net_process_WAKEUP_fn (monitored e))" "same f (net_disconn_work_fn (monitored e))"
  "same f (net_get_time_work_fn (monitored e))" "same f (net_reset_da_fn (monitored e))"
  "same f (watch_work_fn ev)" "same f (net_mgr_wifi_power (monitored e) v)"
  unfolding net_process_WAKEUP_fn_def net_disconn_work_fn_def net_get_time_work_fn_def net_reset_da_fn_def
    watch_work_fn_def wifi_reset_def net_mgr_wifi_power_def
  by (intro same_intro changed_kept; simp add: every_kept)+

end

end
