(* ===== verification/NetProps.thy ===== *)
theory NetProps
  imports LinkKept
begin

text \<open>
  What the firmware update of the DA16200 guarantees and where it goes wrong, and other properties of
  the network manager.
\<close>

section \<open>The view of the update\<close>

definition ota_view :: "wifi \<Rightarrow> ota_info \<times> bool \<times> (int \<times> int) list" where
  "ota_view s = (my_ota_info s, ota_timer s, fota_states s)"

interpretation ota_monitor: net_view ota_view
  by unfold_locales (simp_all add: ota_view_def)

lemma ota_viewD:
  assumes "same ota_view m"
  shows "my_ota_info (after m s) = my_ota_info s" and "ota_timer (after m s) = ota_timer s"
    and "fota_states (after m s) = fota_states s"
  using sameD [OF assms, of s] by (simp_all add: ota_view_def)

lemmas ota_kept = ota_monitor.kept.ok_err_kept [THEN ota_viewD(1)] ota_monitor.kept.ok_err_kept [THEN ota_viewD(2)]
  ota_monitor.kept.ok_err_kept [THEN ota_viewD(3)] ota_monitor.kept.wait_kept(2) [THEN ota_viewD(1)]
  ota_monitor.kept.wait_kept(2) [THEN ota_viewD(2)] ota_monitor.kept.wait_kept(2) [THEN ota_viewD(3)]
  ota_monitor.version_event_kept(2) [THEN ota_viewD(1)] ota_monitor.version_event_kept(2) [THEN ota_viewD(2)]
  ota_monitor.version_event_kept(2) [THEN ota_viewD(3)]

lemma ota_event_da:
  "da_version (dax (after (send_zbus_ota_event e v) s)) = da_version (dax s)"
  "reboot_cnt (dax (after (send_zbus_ota_event e v) s)) = reboot_cnt (dax s)"
  by (simp_all add: send_zbus_ota_event_def publish_def watcher_listener_def upd_more_def run Let_def)

lemma ota_publish_simps [simp]:
  "my_ota_info (after (ota_publish e a p d) s) = my_ota_info s"
  "ota_timer (after (ota_publish e a p d) s) = ota_timer s"
  "fota_states (after (ota_publish e a p d) s) = fota_states s @ [(a, p)]"
  "da_version (dax (after (ota_publish e a p d) s)) = da_version (dax s)"
  "reboot_cnt (dax (after (ota_publish e a p d) s)) = reboot_cnt (dax s)"
  by (simp_all add: ota_publish_def run ota_kept ota_event_da)

lemmas ota_defs = ota_end_def ota_cancelled_def ota_fail_def upd_ota_def run

section \<open>One run of the machine\<close>

text \<open>What a run does to the update: the state it goes to, the timer, and what is published.\<close>

text \<open>
  What a run may do from each state: where it goes, and that a success is published only when the
  chip has restarted since and runs the version that was asked for.
\<close>

definition ota_next :: "int \<Rightarrow> int set" where
  "ota_next st = (if st = 1 then {0, 2} else if st = 2 then {0, 2, 3} else if st = 3 then {0, 4}
     else if st = 4 then {0, 4} else {st})"

definition ota_moves :: "wifi \<Rightarrow> wifi \<Rightarrow> bool" where
  "ota_moves s t \<longleftrightarrow>
     ota_st (my_ota_info t) \<in> ota_next (ota_st (my_ota_info s)) \<and>
     (ota_timer s = (ota_st (my_ota_info s) \<noteq> 0) \<longrightarrow> ota_timer t = (ota_st (my_ota_info t) \<noteq> 0)) \<and>
     expected_version (my_ota_info t) = expected_version (my_ota_info s) \<and>
     (\<exists>xs. fota_states t = fota_states s @ xs \<and>
       ((3, 0) \<in> set xs \<longrightarrow> da_version (dax t) = expected_version (my_ota_info t) \<and>
          int (unat (ota_reboot_cnt (my_ota_info t))) < reboot_cnt (dax t)))"

lemmas ota_run_defs = ota_moves_def ota_next_def ota_defs FOTA_DOWNLOAD_ERROR_CAUSE_NO_ERROR_def

lemma ota_state_4_moves:
  "ota_st (my_ota_info s) = 4 \<Longrightarrow> ota_moves s (after (ota_state_4 e) s)"
  by (simp add: ota_state_4_def ota_run_defs)

lemma ota_state_1_moves:
  "ota_st (my_ota_info s) = 1 \<Longrightarrow> ota_moves s (after (ota_state_1 (monitored e)) s)"
  by (simp add: ota_state_1_def ota_run_defs ota_kept)

lemma ota_state_2_moves:
  "ota_st (my_ota_info s) = 2 \<Longrightarrow> ota_moves s (after (ota_state_2 (monitored e)) s)"
  by (simp add: ota_state_2_def ota_amount_def ota_run_defs ota_kept Let_def split: prod.split)

lemma ota_state_3_moves:
  "ota_st (my_ota_info s) = 3 \<Longrightarrow> ota_moves s (after (ota_state_3 (monitored e)) s)"
  by (simp add: ota_state_3_def ota_state_4_def ota_run_defs ota_kept DA_OTA_DOWNLOAD_COMPLETE_def)

lemma ota_moves_refl: "ota_st (my_ota_info s) \<notin> {1, 2, 3, 4} \<Longrightarrow> ota_moves s s"
  by (simp add: ota_moves_def ota_next_def)

lemma ota_run_moves: "ota_moves s (after (net_ota_fn (monitored e)) s)"
proof -
  let ?st = "ota_st (my_ota_info s)"
  consider "?st = 1" | "?st = 2" | "?st = 3" | "?st = 4" | "?st \<notin> {1, 2, 3, 4}" by blast
  then show ?thesis
  proof cases
    case 1
    with ota_state_1_moves [of s e] show ?thesis by (simp add: net_ota_fn_def run)
  next
    case 2
    with ota_state_2_moves [of s e] show ?thesis by (simp add: net_ota_fn_def run)
  next
    case 3
    with ota_state_3_moves [of s e] show ?thesis by (simp add: net_ota_fn_def run)
  next
    case 4
    with ota_state_4_moves [of s "monitored e"] show ?thesis by (simp add: net_ota_fn_def run)
  next
    case 5
    with ota_moves_refl [OF 5] show ?thesis by (simp add: net_ota_fn_def run)
  qed
qed

section \<open>The update in the running system\<close>

definition ota_ok :: "ota_info \<times> bool \<times> (int \<times> int) list \<Rightarrow> bool" where
  "ota_ok v = (case v of (i, t, _) \<Rightarrow> t = (ota_st i \<noteq> 0) \<and> ota_st i \<in> {0, 1, 2, 3, 4})"

lemma ota_keeps: "same ota_view m \<Longrightarrow> keeps (\<lambda>s. ota_ok (ota_view s)) m"
  by (rule keeps_of_same)

lemma ota_run_keeps: "keeps (\<lambda>s. ota_ok (ota_view s)) (net_ota_fn (monitored e))"
proof (rule keepsI)
  fix s assume ok: "ota_ok (ota_view s)"
  have "ota_moves s (after (net_ota_fn (monitored e)) s)" by (rule ota_run_moves)
  with ok show "ota_ok (ota_view (after (net_ota_fn (monitored e)) s))"
    by (auto simp: ota_moves_def ota_next_def ota_ok_def ota_view_def split: if_splits)
qed

lemma ota_event_keeps: "keeps (\<lambda>s. ota_ok (ota_view s)) (run_net_event (monitored e) ev)"
proof -
  have work: "keeps (\<lambda>s. ota_ok (ota_view s)) (run_net_work (monitored e) w)" for w
    unfolding run_net_work_def
    by (cases w) (simp_all add: keeps_return ota_run_keeps ota_keeps ota_monitor.works_kept ota_monitor.chip_init_kept)
  have step: "keeps (\<lambda>s. ota_ok (ota_view s)) (net_work_step (monitored e))"
    unfolding net_work_step_def
    by (intro keeps_bind [OF keeps_gets] keeps_case_list keeps_return
        keeps_bind [OF ota_keeps [OF same_modify] work]) (simp add: ota_view_def)
  have start: "keeps (\<lambda>s. ota_ok (ota_view s)) (net_start_ota url v)" for url v
    by (auto simp: keeps_def net_start_ota_def upd_ota_def ota_view_def ota_ok_def)
  have stop: "keeps (\<lambda>s. ota_ok (ota_view s)) net_stop_ota"
    by (auto simp: keeps_def net_stop_ota_def upd_ota_def ota_view_def ota_ok_def)
  have timer: "keeps (\<lambda>s. ota_ok (ota_view s)) ota_work_timer_handler"
    unfolding ota_work_timer_handler_def by (intro keeps_intro ota_keeps same_intro)
  show ?thesis
    by (cases ev)
       (simp_all add: run_net_event_def keeps_bind keeps_return step start stop timer ota_keeps
         ota_monitor.kept.pass_kept ota_monitor.kept.ok_err_kept ota_monitor.kept.flush_kept
         ota_monitor.flags_kept ota_monitor.works_kept ota_monitor.switches_kept ota_monitor.wake_kept
         ota_monitor.chip_call_kept)
qed

text \<open>
  Claim C15.  The firmware update is always driven: in every state the system reaches, the timer that runs the
  machine is on exactly while the machine is in one of its states 1 to 4.
\<close>

theorem ota_always_driven:
  "ota_timer (net_state e evs w u) = (ota_st (my_ota_info (net_state e evs w u)) \<noteq> 0) \<and>
   ota_st (my_ota_info (net_state e evs w u)) \<in> {0, 1, 2, 3, 4}"
proof -
  have "ota_ok (ota_view (net_state e evs w u))"
    unfolding net_state_def
    by (rule keepsD [where I = "\<lambda>s. ota_ok (ota_view s)"], rule keeps_net_events, rule ota_event_keeps)
       (simp add: ota_ok_def ota_view_def wifi_boot_def)
  then show ?thesis by (simp add: ota_ok_def ota_view_def)
qed


text \<open>A cancellation or a start, and the next run of the machine.\<close>

definition cancel_and_run :: "wenv \<Rightarrow> (wifi, unit) state" where
  "cancel_and_run e = do { net_stop_ota; net_ota_fn (monitored e) }"

definition start_and_run :: "wenv \<Rightarrow> string \<Rightarrow> 8 word list \<Rightarrow> (wifi, unit) state" where
  "start_and_run e url v = do { net_start_ota url v; net_ota_fn (monitored e) }"

text \<open>
  A cancellation while the machine waits for the restart is not taken back: the update it was meant
  for succeeds, and the next update is given up before it has sent anything.
\<close>

theorem late_cancel_hits_next_update:
  assumes "ota_st (my_ota_info s) = 4" and "reboot_cnt (dax s) > int (unat (ota_reboot_cnt (my_ota_info s)))"
    and "expected_version (my_ota_info s) = da_version (dax s)" and "length url \<le> MAX_URL_LEN"
  shows "fota_states (after (cancel_and_run e) s) = fota_states s @ [(3, 0)] \<and>
    result (net_start_ota url v) (after (cancel_and_run e) s) = 0 \<and>
    ota_st (my_ota_info (after (start_and_run e url v) (after (cancel_and_run e) s))) = 0 \<and>
    fota_states (after (start_and_run e url v) (after (cancel_and_run e) s)) =
      fota_states (after (cancel_and_run e) s) \<and>
    spi_frames (after (start_and_run e url v) (after (cancel_and_run e) s)) =
      spi_frames (after (cancel_and_run e) s)"
proof -
  let ?t = "after (cancel_and_run e) s"
  have t: "my_ota_info ?t = (my_ota_info s)\<lparr>ota_cancel := True, ota_st := 0\<rparr>" "fota_states ?t = fota_states s @ [(3, 0)]"
    using assms(1-3)
    by (simp_all add: cancel_and_run_def net_stop_ota_def net_ota_fn_def ota_state_4_def ota_defs
        FOTA_DOWNLOAD_ERROR_CAUSE_NO_ERROR_def)
  then show ?thesis
    using assms(4) by (simp add: start_and_run_def net_start_ota_def net_ota_fn_def ota_state_1_def ota_defs)
qed

text \<open>A collar that waits for the restart after its third update, which has just happened.\<close>

definition restarted :: wifi where
  "restarted = (wifi_boot idle_world)
     \<lparr>my_ota_info := \<lparr>ota_url = [], expected_version = [1, 2, 3], ota_cancel = False, ota_last = 90,
        ota_reboot_cnt = 2, download_complete = True, ota_st = 4\<rparr>,
      ota_timer := True, dax := DA_MORE_INIT\<lparr>reboot_cnt := 3, da_version := [1, 2, 3]\<rparr>\<rparr>"


theorem late_cancel_hits_next_update_witness:
  "ota_st (my_ota_info (after (start_and_run idle_env ''https://x'' [1, 2, 4])
     (after (cancel_and_run idle_env) restarted))) = 0"
  by (rule late_cancel_hits_next_update [THEN conjunct2, THEN conjunct2, THEN conjunct1])
     (simp_all add: restarted_def MAX_URL_LEN_def)

end
