(* ===== verification/NetReports.thy ===== *)
theory NetReports
  imports NetProps "HOL-Library.Sublist"
begin

text \<open>
  What the network manager makes of single reports of the chip: access points and their channels,
  hardware addresses, the pieces of a download.
\<close>

section \<open>Channels\<close>

text \<open>
  Since the first row that contains the frequency wins, the 2.4 GHz channels from 3 on are reported
  two too low.
\<close>

theorem channel_two_too_low:
  "\<forall>n \<in> {3..13}. freq_to_channel (2407 + 5 * int n) = n - 2"
proof -
  have "\<forall>n \<in> set [3..<14]. freq_to_channel (2407 + 5 * int n) = n - 2"
    by (simp add: upt_rec_numeral freq_to_channel_def freq_conv_def)
  moreover have "set [3..<14] = {3..13 :: nat}" by (simp only: set_upt) auto
  ultimately show ?thesis by (simp only:)
qed

theorem channel_two_too_low_witness: "freq_to_channel 2437 = 4"
  using channel_two_too_low [rule_format, of 6] by simp

section \<open>Hardware addresses\<close>

text \<open>An address without its colons, in lower case.\<close>

definition plain_mac :: "string \<Rightarrow> string" where
  "plain_mac a = map to_lower (filter (\<lambda>c. c \<noteq> CHR '':'') a)"

text \<open>Single colons only, and none at the end.\<close>

fun mac_shaped :: "string \<Rightarrow> bool" where
  "mac_shaped [] = True"
| "mac_shaped (c # s) =
     (if c = CHR '':'' then s \<noteq> [] \<and> hd s \<noteq> CHR '':'' \<and> mac_shaped s else mac_shaped s)"

lemma shaped_step:
  assumes "mac_shaped a" and "a \<noteq> []"
  obtains c r where "skip_colon a = c # r" and "c \<noteq> CHR '':''" and "mac_shaped r"
    and "plain_mac a = to_lower c # plain_mac r"
proof (cases "hd a = CHR '':''")
  case True
  with assms obtain c r where "a = CHR '':'' # c # r" "c \<noteq> CHR '':''" "mac_shaped (c # r)"
    by (cases a; cases "tl a") auto
  then show ?thesis using that [of c r] by (simp add: skip_colon_def plain_mac_def)
next
  case False
  with assms obtain c r where "a = c # r" "c \<noteq> CHR '':''" "mac_shaped r" by (cases a) auto
  then show ?thesis using that [of c r] by (simp add: skip_colon_def plain_mac_def)
qed

lemma cmp_macs_plain:
  "mac_shaped a \<Longrightarrow> mac_shaped b \<Longrightarrow>
   cmp_macs a b = (if prefix (plain_mac a) (plain_mac b) \<or> prefix (plain_mac b) (plain_mac a) then 0 else -1)"
proof (induction a b rule: cmp_macs.induct)
  case (1 a b)
  show ?case
  proof (cases "a = [] \<or> b = []")
    case True
    then show ?thesis by (subst cmp_macs.simps) (auto simp: plain_mac_def)
  next
    case False
    obtain c r where a: "skip_colon a = c # r" "mac_shaped r" "plain_mac a = to_lower c # plain_mac r"
      using shaped_step [OF 1(2)] False by blast
    obtain d u where b: "skip_colon b = d # u" "mac_shaped u" "plain_mac b = to_lower d # plain_mac u"
      using shaped_step [OF 1(3)] False by blast
    show ?thesis
    proof (cases "to_lower c = to_lower d")
      case True
      then have "cmp_macs r u =
          (if prefix (plain_mac r) (plain_mac u) \<or> prefix (plain_mac u) (plain_mac r) then 0 else -1)"
        using 1(1) [of "c # r" "d # u"] False a b by (simp add: char_at_end_def)
      then show ?thesis
        using True False a b by (subst cmp_macs.simps) (simp add: char_at_end_def Let_def)
    next
      case neq: False
      then show ?thesis
        using False a b by (subst cmp_macs.simps) (simp add: char_at_end_def Let_def)
    qed
  qed
qed

text \<open>
  For addresses with single colons the comparison is that of the hexadecimal digits without the
  colons and in lower case; when one address is shorter it tests for a prefix only, so an empty
  address equals every other.
\<close>

theorem cmpMACs_ignores_colons:
  assumes "mac_shaped a" and "mac_shaped b"
  shows "(length (plain_mac a) = length (plain_mac b) \<longrightarrow> (cmpMACs a b = 0) = (plain_mac a = plain_mac b)) \<and>
    cmpMACs [] b = 0 \<and> cmpMACs a b \<in> {0, -1}"
proof -
  have "plain_mac [] = []" by (simp add: plain_mac_def)
  then show ?thesis
    using cmp_macs_plain [OF assms] cmp_macs_plain [of "[]" b] assms(2)
    by (auto simp: cmpMACs_def prefix_def)
qed

theorem cmpMACs_ignores_colons_witness:
  "cmpMACs ''A4:e5'' ''a4E5'' = 0"
proof -
  have p: "plain_mac ''A4:e5'' = ''a4e5''" "plain_mac ''a4E5'' = ''a4e5''"
    by code_simp+
  show ?thesis
    using cmpMACs_ignores_colons [THEN conjunct1, rule_format, of "''A4:e5''" "''a4E5''"] p by simp
qed

section \<open>A download\<close>

text \<open>The message the chip sends for a piece of a file, and the handling of a list of messages.\<close>

definition http_piece :: "string \<Rightarrow> string" where
  "http_piece p = CRLF @ ''+NWHTCDATA:'' @ show_nat (length p) @ '','' @ p"

primrec http_all :: "wenv \<Rightarrow> wifi_msg list \<Rightarrow> (wifi, unit) state" where
  "http_all e [] = skip"
| "http_all e (m # ms) = do { wifi_at_http_write e m; http_all e ms }"

lemma isdigit_plain: "isdigit c \<Longrightarrow> c \<noteq> NUL \<and> c \<noteq> CHR '',''"
  by (auto simp: isdigit_def NUL_def)

lemma cstr_append: "NUL \<notin> set a \<Longrightarrow> cstr (a @ b) = a @ cstr b"
  by (induction a) (auto simp: cstr_def)

lemma http_chunk_piece:
  assumes "m_data m = Block a" and "m_ref m = 1" and "map_of (wifi_heap s) a \<noteq> None"
    and "bytes = h @ p @ pad" and "p \<noteq> []" and "\<And>s. fs_write_ret e p s = int (length p)"
    and "t = after (http_chunk e m bytes (length h) (length h + length p)) s"
  shows "http_file (http t) = http_file (http s) @ p \<and>
    http_amt_written (http t) = http_amt_written (http s) + length p \<and>
    file_opened (http t) = file_opened (http s) \<and>
    http_skip_headers (http t) = http_skip_headers (http s) \<and>
    wifi_heap t = filter (\<lambda>b. fst b \<noteq> a) (wifi_heap s)"
proof -
  have n: "int (length h + length p) - int (length h) = int (length p)" "\<not> int (length p) < 1"
    using assms(5) by (cases p; simp)+
  have piece: "take (length p) (drop (length h) bytes @ u) = p" for u
    unfolding assms(4) by simp
  have long: "\<not> length bytes < length h + length p" unfolding assms(4) by simp
  have t: "t = after (wifi_msg_free m) (s\<lparr>http := (http s)\<lparr>
      http_crc := crc32_ieee_update e (if http_amt_written (http s) = 0 then 0 else http_crc (http s)) p,
      http_amt_written := http_amt_written (http s) + length p, http_file := http_file (http s) @ p\<rparr>\<rparr>)"
    unfolding assms(7) using n long assms(6)
    by (simp add: http_chunk_def run Let_def upd_http_def piece del: take_append drop_append take_take)
  show ?thesis
    unfolding t using assms(1-3) by (auto simp: wifi_msg_free_def k_heap_free_def Let_def run)
qed

lemma http_write_piece:
  assumes "m_data m = Block a" and "map_of (wifi_heap s) a = Some (http_piece p @ pad)"
    and "p \<noteq> []" and "length p < 2 ^ 31" and "file_opened (http s)" and "\<not> http_skip_headers (http s)"
  shows "\<exists>h. http_piece p @ pad = h @ p @ pad \<and> after (wifi_at_http_write e m) s =
    after (http_chunk e m (http_piece p @ pad) (length h) (length h + length p)) s"
proof (intro exI conjI)
  let ?n = "show_nat (length p)"
  let ?h = "CRLF @ ''+NWHTCDATA:'' @ ?n @ '',''"
  let ?b = "http_piece p @ pad"
  have digits: "\<forall>c \<in> set ?n. isdigit c" by (rule show_nat_digits)
  have bytes: "msg_bytes e (m_data m) s = ?b" using assms(1,2) by (simp add: msg_bytes_def)
  have nonul: "NUL \<notin> set ?h" using digits isdigit_plain by (auto simp: CRLF_def NUL_def)
  show b: "?b = ?h @ p @ pad" by (simp add: http_piece_def)
  have t: "cstr ?b = ?h @ cstr (p @ pad)" unfolding b by (rule cstr_append [OF nonul])
  have i: "strstr (cstr ?b) ''+NWHTCDATA:'' = Some 2" unfolding t by (simp add: CRLF_def)
  have "strchr ?n (CHR '','') = None" using digits isdigit_plain by (auto simp: strchr_none)
  then have k: "strchr (drop 13 (cstr ?b)) (CHR '','') = Some (length ?n)"
    unfolding t by (simp add: CRLF_def strchr_append)
  have "fst (strtol10 (?n @ [])) = int (length p)"
    using strtol10_digits [OF digits, of "[]"] assms(4) by simp
  then have len: "fst (strtol10 (take (length ?n) (drop 13 (cstr ?b)))) = int (length p)"
    unfolding t by (simp add: CRLF_def)
  have pos: "length ?h = 14 + length ?n" by (simp add: CRLF_def)
  have n: "\<not> int (length p) < 1" using assms(3) by (cases p) auto
  show "after (wifi_at_http_write e m) s = after (http_chunk e m ?b (length ?h) (length ?h + length p)) s"
    unfolding pos using assms(5,6) i k len n
    by (simp add: wifi_at_http_write_def run Let_def bytes del: append.simps)
qed

text \<open>Messages whose blocks hold the pieces of a file.\<close>

definition holds_piece :: "wifi \<Rightarrow> wifi_msg \<times> string \<Rightarrow> bool" where
  "holds_piece s mp \<longleftrightarrow> m_ref (fst mp) = 1 \<and> snd mp \<noteq> [] \<and> length (snd mp) < 2 ^ 31 \<and>
     (\<exists>a pad. m_data (fst mp) = Block a \<and> map_of (wifi_heap s) a = Some (http_piece (snd mp) @ pad))"

lemma map_of_other: "a' \<noteq> a \<Longrightarrow> map_of (filter (\<lambda>b. fst b \<noteq> a) h) a' = map_of h a'"
  by (induction h) auto

text \<open>
  Claim C14.  A file is put together from the pieces in which the chip sends it: after the messages of a
  download were handled in their order, the pieces have been appended to the file, each once and
  whole, as long as the file system takes them.
\<close>

theorem http_download_reassembled:
  assumes "\<forall>mp \<in> set mps. holds_piece s mp" and "distinct (map (\<lambda>mp. m_data (fst mp)) mps)"
    and "file_opened (http s)" and "\<not> http_skip_headers (http s)"
    and "\<And>p s. fs_write_ret e p s = int (length p)"
  shows "http_file (http (after (http_all e (map fst mps)) s)) = http_file (http s) @ concat (map snd mps) \<and>
    wifi_at_get_http_amt_downloaded (after (http_all e (map fst mps)) s) =
      wifi_at_get_http_amt_downloaded s + length (concat (map snd mps)) \<and>
    file_opened (http (after (http_all e (map fst mps)) s))"
  using assms(1-4)
proof (induction mps arbitrary: s)
  case Nil
  then show ?case by simp
next
  case (Cons mp mps)
  obtain m p where mp: "mp = (m, p)" by (cases mp)
  then obtain a pad where m: "m_ref m = 1" "p \<noteq> []" "length p < 2 ^ 31" "m_data m = Block a"
      "map_of (wifi_heap s) a = Some (http_piece p @ pad)"
    using Cons.prems(1) by (auto simp: holds_piece_def)
  let ?t = "after (wifi_at_http_write e m) s"
  obtain h where h: "http_piece p @ pad = h @ p @ pad"
      "?t = after (http_chunk e m (http_piece p @ pad) (length h) (length h + length p)) s"
    using http_write_piece [OF m(4,5,2,3) Cons.prems(3,4)] by blast
  have "map_of (wifi_heap s) a \<noteq> None" using m(5) by simp
  note t = http_chunk_piece [OF m(4,1) this h(1) m(2) assms(5) h(2)]
  have "holds_piece ?t x" if "x \<in> set mps" for x
  proof -
    have "m_data (fst x) \<noteq> Block a" using that Cons.prems(2) m(4) mp by (auto simp: image_iff)
    then show ?thesis
      using that Cons.prems(1) t unfolding holds_piece_def by (auto simp: map_of_other)
  qed
  then show ?case
    using Cons.IH [of ?t] Cons.prems t mp by (simp add: run wifi_at_get_http_amt_downloaded_def)
qed

text \<open>Two pieces that are in the heap.\<close>

definition downloading :: wifi where
  "downloading = (wifi_boot idle_world)
     \<lparr>wifi_heap := [(0, http_piece ''ab'' @ [NUL]), (1, http_piece ''c'' @ [NUL, NUL])],
      http := \<lparr>file_opened = True, http_skip_headers = False, http_amt_written = 0, http_crc = 0,
        httpresultcode = 0, http_file = []\<rparr>\<rparr>"

definition piece_msg :: "nat \<Rightarrow> wifi_msg" where
  "piece_msg a = \<lparr>m_time = 0, m_ref = 1, m_incoming = True, m_len = 20, m_data = Block a\<rparr>"

theorem http_download_reassembled_witness:
  "http_file (http (after (http_all idle_env [piece_msg 0, piece_msg 1]) downloading)) = ''abc''"
proof -
  let ?mps = "[(piece_msg 0, ''ab''), (piece_msg 1, ''c'')]"
  have "\<forall>mp \<in> set ?mps. holds_piece downloading mp"
    by (simp add: holds_piece_def piece_msg_def downloading_def)
  from http_download_reassembled [OF this, of idle_env, THEN conjunct1] show ?thesis
    by (simp add: piece_msg_def downloading_def idle_env_def)
qed

section \<open>Joining an access point\<close>

lemma ww_publish: "ww (after (publish e b x y) s) = ww s"
  by (simp add: publish_def watcher_listener_def run Let_def)

lemma ww_tri_event: "ww (after (send_zbus_tri_event e v x) s) = ww (after (tri_put v x) s)"
  by (cases v) (auto simp: send_zbus_tri_event_def run ww_publish upd_da_def upd_more_def)

lemma saved_da [simp]:
  "wifi_find_saved_ssid n (w\<lparr>da := d\<rparr>) = wifi_find_saved_ssid n w"
  "wifi_saved_ssid_safe i (w\<lparr>da := d\<rparr>) = wifi_saved_ssid_safe i w"
  by (simp_all add: wifi_find_saved_ssid_def wifi_saved_ssid_safe_def)

text \<open>The report that a station was joined, with the name between quotes.\<close>

definition joined_text :: "string \<Rightarrow> string \<Rightarrow> string" where
  "joined_text name ip = CRLF @ ''+WFJAP:1,'' @ [CHR 0x27] @ name @ [CHR 0x27, CHR '',''] @ ip @ CRLF"

text \<open>
  When the chip reports that it has joined an access point, the state is connected, with the safe
  flag of the saved access point of that name, and name and address are those of the report, but for
  one flaw: a name or an address that the stored one begins with is taken for the stored one.
\<close>

theorem ap_connect_recorded:
  assumes "CHR 0x27 \<notin> set name" and "\<forall>c \<in> set ip. c = CHR ''.'' \<or> isdigit c"
    and "8 \<le> length ip" and "length ip \<le> 15" and "m_len m = length (joined_text name ip)"
  shows "da (ww (after (net_handle_DA_APConn e m (joined_text name ip) 0) s)) = (da (ww s))
     \<lparr>ap_name := (if take (length name) (ap_name (da (ww s))) = name then ap_name (da (ww s)) else take 32 name),
      ip_address := (if take (length ip) (ip_address (da (ww s))) = ip then ip_address (da (ww s)) else ip),
      ap_connected := DA_STATE_KNOWN_TRUE,
      ap_safe := (let nm = (if take (length name) (ap_name (da (ww s))) = name then ap_name (da (ww s)) else take 32 name);
                      i = wifi_find_saved_ssid nm (ww s)
                  in if i \<ge> 0 then tri_of_bool (wifi_saved_ssid_safe i (ww s)) else DA_STATE_KNOWN_FALSE)\<rparr>"
proof -
  let ?t = "joined_text name ip"
  have q: "strchr ?t (CHR 0x27) = Some 11" by (simp add: joined_text_def CRLF_def)
  have nm: "drop 12 ?t = name @ [CHR 0x27, CHR '',''] @ ip @ CRLF" by (simp add: joined_text_def CRLF_def)
  then have len: "length (takeWhile (\<lambda>c. c \<noteq> CHR 0x27) (drop 12 ?t)) = length name"
    using assms(1) by (auto simp: takeWhile_append)
  have ipat: "drop (length name + 2) (drop 12 ?t) = ip @ CRLF" unfolding nm by simp
  then have iplen: "length (takeWhile (\<lambda>c. c = CHR ''.'' \<or> isdigit c) (drop (length name + 2) (drop 12 ?t))) = length ip"
    using assms(2) by (auto simp: takeWhile_append CRLF_def isdigit_def)
  have long: "\<not> length ?t \<le> 12 + length name + 2" using assms(3) by (simp add: joined_text_def CRLF_def)
  have same1: "strneq (length name) (drop 12 ?t) x = (take (length name) x = name)" for x
    unfolding nm by (auto simp: strneq_def)
  have same2: "strneq (length ip) (drop (length name + 2) (drop 12 ?t)) x = (take (length ip) x = ip)" for x
    unfolding ipat by (auto simp: strneq_def)
  have take1: "take (min 32 (length name)) (drop 12 ?t) = take 32 name" unfolding nm by (simp add: min_def)
  have take2: "take (min 20 (length ip)) (drop (length name + 2) (drop 12 ?t)) = ip"
    unfolding ipat using assms(4) by simp
  show ?thesis
    using len iplen long same1 same2 take1 take2 assms(3,4,5) q
    by (simp add: net_handle_DA_APConn_def run Let_def ww_tri_event upd_da_def del: take_append drop_append drop_drop)
qed

theorem ap_connect_recorded_witness:
  "ap_name (da (ww (after (net_handle_DA_APConn idle_env
     \<lparr>m_time = 0, m_ref = 1, m_incoming = True, m_len = length (joined_text ''Home'' ''10.1.91.148''),
       m_data = Null\<rparr> (joined_text ''Home'' ''10.1.91.148'') 0) (wifi_boot idle_world)))) = ''Home''"
  by (subst ap_connect_recorded) (simp_all add: wifi_boot_def DA_STATE_INIT_def isdigit_def)

section \<open>A message from the cloud\<close>

definition deliver_and_free :: "wenv \<Rightarrow> wifi_msg \<Rightarrow> (wifi, unit) state" where
  "deliver_and_free e m = do { hand_over (monitored e) m; free_mqtt_copy }"

text \<open>
  The queue keeps such a message as one with two references, but the cloud side holds a copy with
  one: when it is done, the block is given back while the message is still queued, and the next to
  receive gets a message without its block.
\<close>

theorem cloud_message_block_lost:
  assumes "wifi_msgq s = []" and "lock_count s > 0" and "m_data m = Block a" and "m_ref m = 1" and "m_incoming m"
    and "wifi_tx_rx_cb s = [Some NET_MONITOR, None, None, None, None]"
    and "result (net_monitor_DA e m) s = wifi_inc_ref_count m"
    and "map_of (wifi_heap (after (net_monitor_DA e m) s)) a \<noteq> None"
    and "mqtt_incoming (after (net_monitor_DA e m) s) = [i]" and "mi_copy i = m"
  shows "result (wifi_recv (monitored e) 0) (after (deliver_and_free e m) s) = (0, Some (wifi_inc_ref_count m)) \<and>
    is_stale (m_data (wifi_inc_ref_count m)) (after (wifi_recv (monitored e) 0) (after (deliver_and_free e m) s))"
proof -
  let ?t = "after (deliver_and_free e m) s"
  let ?u = "after (net_monitor_DA e m) s"
  have u: "wifi_msgq ?u = []" "lock_count ?u > 0"
    using view_monitor [THEN same_link_queue, THEN sameD, of e m s]
      view_monitor [THEN same_link_clock, THEN clock_viewD(2), of e m s] assms(1,2) by simp_all
  have "after (hand_over (monitored e) m) s = ?u\<lparr>wifi_msgq := [wifi_inc_ref_count m]\<rparr>"
    using assms(4-7) u by (simp add: hand_over_def wifi_notify_cbs_def run monitored_def wifi_inc_ref_count_def
        WIFI_MSG_Q_SIZE_def)
  then have "?t = ?u\<lparr>wifi_msgq := [wifi_inc_ref_count m], mqtt_incoming := [],
      num_of_heap_elements := num_of_heap_elements ?u - 1,
      wifi_heap := filter (\<lambda>b. fst b \<noteq> a) (wifi_heap ?u)\<rparr>"
    using assms(3,4,8-10)
    by (auto simp: deliver_and_free_def run free_mqtt_copy_def wifi_msg_free_def k_heap_free_def Let_def)
  then show ?thesis
    using u assms(3)
    by (auto simp: wifi_recv_def k_msgq_get_def run get_mutex_again ms_left_def is_stale_def
        wifi_inc_ref_count_def wifi_release_mutex_def now_def map_of_eq_None_iff)
qed

text \<open>A message from the cloud in the heap.\<close>

definition cloud_text :: string where
  "cloud_text = CRLF @ ''+NWMQMSG:{},messages/1/2/x/c2d,2'' @ CRLF"

definition cloud_msg :: wifi_msg where
  "cloud_msg = \<lparr>m_time = 0, m_ref = 1, m_incoming = True, m_len = length cloud_text, m_data = Block 0\<rparr>"

definition with_cloud_msg :: wifi where
  "with_cloud_msg = (wifi_boot idle_world)\<lparr>lock_count := 1, wifi_heap := [(0, cloud_text @ [NUL])]\<rparr>"

lemma cloud_text_reports:
  "strstr (cloud_text @ x) (CRLF @ ''+NWMQMSG:'') = Some 0"
  "cstr (cloud_text @ [NUL]) = cloud_text" "length cloud_text = 36"
  by (simp_all add: cloud_text_def CRLF_def cstr_def NUL_def)

lemma cloud_text_silent:
  "\<forall>p \<in> {''+INIT:'', ''+WFJAP:'', ''+WFDAP'', ''+DPM'', ''+TIME'', ''+RSSI:'', ''+NWMQCL:1'', ''+NWMQCL:0'',
     ''+NWMQMSGSND'', ''+NWMQTS:'', ''+NWCCRT:''}. after_prefix cloud_text p = None"
  by (simp add: after_prefix_def cloud_text_def CRLF_def)

lemma cloud_text_commas:
  "commas_from_end (cloud_text @ [NUL]) 36 = [32, 13]"
  by code_simp

lemma cloud_text_parts:
  "atoi (cstr (drop 33 (cloud_text @ [NUL]))) = 2"
  "starts_with ''messages/'' (cstr (drop 14 (cloud_text @ [NUL])))"
  "strchr (drop 9 (cstr (drop 14 (cloud_text @ [NUL])))) (CHR ''/'') = Some 1"
  by code_simp+

lemma cloud_msg_goes_on:
  "result (net_monitor_DA idle_env cloud_msg) with_cloud_msg = wifi_inc_ref_count cloud_msg"
  "\<exists>i. mqtt_incoming (after (net_monitor_DA idle_env cloud_msg) with_cloud_msg) = [i] \<and> mi_copy i = cloud_msg"
  "wifi_heap (after (net_monitor_DA idle_env cloud_msg) with_cloud_msg) = [(0, cloud_text @ [NUL])]"
  using cloud_text_reports(1) [of "[]"] cloud_text_silent cloud_text_reports(2,3) cloud_text_commas cloud_text_parts
  by (simp_all add: net_monitor_DA_def net_monitor_report_def net_handle_DA_MQTT_Msg_def queue_get_time_work_def
      run Let_def msg_text_def msg_bytes_def cloud_msg_def with_cloud_msg_def wifi_boot_def idle_env_def)

theorem cloud_message_block_lost_witness:
  "result (wifi_recv (monitored idle_env) 0)
     (after (deliver_and_free idle_env cloud_msg) with_cloud_msg) =
   (0, Some (wifi_inc_ref_count cloud_msg))"
proof -
  obtain i where "mqtt_incoming (after (net_monitor_DA idle_env cloud_msg) with_cloud_msg) = [i]" "mi_copy i = cloud_msg"
    using cloud_msg_goes_on(2) by blast
  then show ?thesis
    using cloud_message_block_lost [of with_cloud_msg cloud_msg 0 idle_env i] cloud_msg_goes_on
    by (simp add: with_cloud_msg_def cloud_msg_def wifi_boot_def)
qed

end
