(* ===== verification/AskProps.thy ===== *)
theory AskProps
  imports LinkKept
begin

text \<open>
  What the questions to the chip guarantee: they end, in time and with the mutex as before; what is
  published and which sleep mode is reached; and the backup of the factory data.
\<close>

section \<open>In time from a state\<close>

definition timely :: "wifi \<Rightarrow> nat \<Rightarrow> (wifi, 'a) state \<Rightarrow> bool" where
  "timely s t act \<longleftrightarrow> now s \<le> now (after act s) \<and> now (after act s) \<le> now s + t \<and>
     lock_count (after act s) = lock_count s"

named_theorems timely_intro "what is done in time"

lemma timely_return [timely_intro]: "timely s t (return x)"
  by (simp add: timely_def)

lemma timely_gets [timely_intro]:
  "timely s t (f s) \<Longrightarrow> timely s t (State_Monad.bind State_Monad.get f)"
  "timely s t (h (g s)) \<Longrightarrow> timely s t (State_Monad.bind (gets g) h)"
  by (simp_all add: timely_def)

lemma timely_if [timely_intro]:
  "(c \<Longrightarrow> timely s t x) \<Longrightarrow> (\<not> c \<Longrightarrow> timely s t y) \<Longrightarrow> timely s t (if c then x else y)"
  by simp

lemma timely_prod [timely_intro]: "(\<And>a b. timely s t (f a b)) \<Longrightarrow> timely s t (case x of (a, b) \<Rightarrow> f a b)"
  by (cases x) simp

lemma timely_guarded [timely_intro]: "timely s t act \<Longrightarrow> timely s t (guarded fail act)"
  by (simp add: timely_def guarded_def run)

lemma timely_clock_then:
  assumes "timely s t act" and "\<And>x. same clock_view (f x)"
  shows "timely s t (State_Monad.bind act f)"
  using assms(1) clock_viewD [OF assms(2) [of "result act s"]] by (simp add: timely_def)

lemma timely_drop [timely_intro]: "timely s t act \<Longrightarrow> timely s t (State_Monad.bind act (\<lambda>x. skip))"
  by (simp add: timely_def)

context link_callbacks
begin

lemma timely_of_in_time: "in_time t act \<Longrightarrow> timely s t act"
  by (simp add: in_time_def timely_def)

lemma timely_asking [timely_intro]: "timely s t (asking e fail fl cmd t pats body a)"
  by (rule timely_of_in_time) (rule in_time_asking)

lemma timely_ok_err [timely_intro]: "timely s t (wifi_send_ok_err_atcmd e cmd t)"
  using ok_err_time by (simp add: timely_def)

lemma timely_locked:
  assumes "prompt (now s + t) act"
  shows "timely s t (locked e t busy act)"
proof -
  let ?m = "after (wifi_get_mutex e t) s"
  have m: "now s \<le> now ?m" "now ?m \<le> now s + t" using get_mutex_now [of s t] by simp_all
  have "now ?m \<le> now (after act ?m) \<and> now (after act ?m) \<le> now s + t \<and>
      lock_count (after act ?m) = lock_count ?m" if "lock_count ?m > 0"
    using assms that m by (simp add: prompt_def)
  then show ?thesis
    using get_mutex_lock [of t s] m unfolding timely_def by (auto simp: locked_def run)
qed

lemma timely_publish: "timely s t (wifi_mqtt_publish e ty msg w t)"
  unfolding wifi_mqtt_publish_def Let_def
  by (intro timely_intro timely_locked prompt_intro)

lemma timely_put_nvram: "timely s t (wifi_put_nvram e a buf t)"
  unfolding wifi_put_nvram_def Let_def by (intro timely_intro timely_locked prompt_intro)

lemma prompt_core: "same core act \<Longrightarrow> prompt tp act"
  by (rule prompt_clock) (rule same_link_clock, rule link_of_core)

lemma prompt_note_topics:
  "prompt tp (upd_more f)" "prompt tp (send_zbus_int_event e k v g (\<lambda>v. upd_more (h v)) z)"
  by (rule prompt_core, rule core_writers, rule prompt_core, rule core_int_event, rule core_writers)

lemma timely_set_topics: "timely s t (wifi_set_mqtt_sub_topics e ts t)"
  unfolding wifi_set_mqtt_sub_topics_def Let_def
  by (intro timely_intro timely_locked prompt_intro prompt_note_topics)

lemma timely_ap_list: "timely s t (wifi_get_ap_list_da e t)"
  unfolding wifi_get_ap_list_da_def Let_def
  by (intro timely_intro timely_locked prompt_intro prompt_clock same_modify) (simp add: clock_view_def now_def)

lemma timely_join: "timely s t (wifi_initiate_connect_to_ssid e x k sec i enc h t)"
proof -
  have "same clock_view (net_stage_ssid_for_saving a b c d f g)" for a b c d f g
    unfolding net_stage_ssid_for_saving_def by (rule same_modify) (simp add: clock_view_def now_def)
  then show ?thesis
    unfolding wifi_initiate_connect_to_ssid_def Let_def
    by (intro timely_intro timely_clock_then same_intro) assumption
qed

lemma timely_topic_types: "timely s t (wifi_set_mqtt_sub_topics_by_type e ns t)"
  unfolding wifi_set_mqtt_sub_topics_by_type_def by (intro timely_intro timely_set_topics)

lemma timely_queries:
  "timely s t (wifi_get_da_fw_ver e len t)" "timely s t (wifi_get_wfscan e buf t)"
  "timely s t (wifi_get_rssi e w t)" "timely s t (wifi_get_wfstat e t)"
  "timely s t (wifi_get_otp_register e r l t)" "timely s t (wifi_get_nvram e x buf t)"
  "timely s t (wifi_get_mac e t)" "timely s t (wifi_set_mac e m t)"
  "timely s t (wifi_get_xtal e t)" "timely s t (wifi_set_xtal e v t)"
  unfolding wifi_get_da_fw_ver_def wifi_get_wfscan_def wifi_get_rssi_def wifi_get_wfstat_def
    wifi_get_otp_register_def wifi_get_nvram_def wifi_get_mac_def wifi_set_mac_def wifi_get_xtal_def
    wifi_set_xtal_def
  by (intro timely_intro)+

lemmas timely_calls = timely_queries timely_publish timely_put_nvram timely_set_topics timely_ap_list
  timely_join timely_topic_types

end

section \<open>The calls with a timeout\<close>

definition timeout_of :: "chip_call \<Rightarrow> nat option" where
  "timeout_of c =
     (case c of
        GetVersion len t \<Rightarrow> Some t | GetScan buf t \<Rightarrow> Some t | GetRssi w t \<Rightarrow> Some t
      | GetStatus t \<Rightarrow> Some t | GetOtp reg n t \<Rightarrow> Some t | GetNvram a buf t \<Rightarrow> Some t
      | PutNvram a buf t \<Rightarrow> Some t | GetMac t \<Rightarrow> Some t | SetMac mac t \<Rightarrow> Some t
      | GetXtal t \<Rightarrow> Some t | SetXtal v t \<Rightarrow> Some t | GetApList t \<Rightarrow> Some t
      | JoinAp ssid key sec keyidx enc hidden t \<Rightarrow> Some t | SetTopics ts t \<Rightarrow> Some t
      | SetTopicTypes ns t \<Rightarrow> Some t | Publish ty msg w t \<Rightarrow> Some t
      | _ \<Rightarrow> None)"





section \<open>The mode that is reached\<close>

text \<open>A wait for the sleep state that succeeds ends in that state.\<close>

lemma wait_sleep_rounds_reached:
  "result (wait_sleep_rounds e st n) s \<Longrightarrow> is_sleeping (da (ww (after (wait_sleep_rounds e st n) s))) = st"
proof (induction n arbitrary: s)
  case (Suc n)
  let ?u = "after (wifi_check_sleeping e False) s"
  show ?case
  proof (cases "is_sleeping (da (ww ?u)) = st")
    case True
    then show ?thesis using Suc.prems by (simp add: run split: if_splits)
  next
    case False
    then show ?thesis using Suc.prems Suc.IH [of "after (k_sleep_ms e 10) ?u"] by (simp add: run split: if_splits)
  qed
qed simp

lemma reached_state:
  assumes "result (reached e st r) s = 0"
  shows "is_sleeping (da (ww (after (reached e st r) s))) = st"
  using assms wait_sleep_rounds_reached [of e st 8 s]
  by (simp add: reached_def wait_for_sleep_state_def run split: if_splits)

definition sleeping_in :: "wifi_sleep_state \<Rightarrow> das_tri_state" where
  "sleeping_in m = (if m \<in> {WIFI_SLEEP_NONE, WIFI_SLEEP_DPM_AWAKE} then DA_STATE_KNOWN_FALSE else DA_STATE_KNOWN_TRUE)"

definition ends_in :: "das_tri_state \<Rightarrow> (wifi, int) state \<Rightarrow> bool" where
  "ends_in st act \<longleftrightarrow> (\<forall>s. result act s = 0 \<longrightarrow> is_sleeping (da (ww (after act s))) = st)"

named_theorems ends_intro "results of 0 that stand for a sleep state"

lemma ends_reached [ends_intro]: "ends_in st (reached e st r)"
  using reached_state by (simp add: ends_in_def)

lemma ends_bind [ends_intro]: "(\<And>x. ends_in st (f x)) \<Longrightarrow> ends_in st (State_Monad.bind act f)"
  by (simp add: ends_in_def)

lemma ends_if [ends_intro]:
  "(c \<Longrightarrow> ends_in st x) \<Longrightarrow> (\<not> c \<Longrightarrow> ends_in st y) \<Longrightarrow> ends_in st (if c then x else y)"
  by simp

lemma ends_error [ends_intro]: "r \<noteq> 0 \<Longrightarrow> ends_in st (return r)"
  by (simp add: ends_in_def)

lemma ends_noted [ends_intro]:
  assumes "ends_in st act"
  shows "ends_in st (do { ret \<leftarrow> act; note_sleep_time; return ret })"
  using assms by (simp add: ends_in_def note_sleep_time_def run)

lemma ends_modes:
  "ends_in DA_STATE_KNOWN_FALSE (sleep_none e)" "ends_in DA_STATE_KNOWN_TRUE (sleep_dpm_asleep e)"
  "ends_in DA_STATE_KNOWN_FALSE (sleep_dpm_awake e)" "ends_in DA_STATE_KNOWN_TRUE (sleep_rtc_asleep e ms)"
  unfolding sleep_none_def sleep_dpm_asleep_def sleep_dpm_awake_def sleep_rtc_asleep_def
  by (intro ends_noted ends_intro; assumption?)+

text \<open>
  A sleep mode is reported as set only when the chip is recorded in the state of that mode at the end:
  awake for no sleep and for DPM awake, asleep for the two modes with sleep.
\<close>

theorem sleep_mode_reached:
  assumes "result (wifi_set_sleep_mode e m ms) s = 0"
  shows "is_sleeping (da (ww (after (wifi_set_sleep_mode e m ms) s))) = sleeping_in m"
proof -
  let ?act = "case m of WIFI_SLEEP_NONE \<Rightarrow> sleep_none e | WIFI_SLEEP_DPM_ASLEEP \<Rightarrow> sleep_dpm_asleep e
      | WIFI_SLEEP_DPM_AWAKE \<Rightarrow> sleep_dpm_awake e | WIFI_SLEEP_RTC_ASLEEP \<Rightarrow> sleep_rtc_asleep e ms"
  have "ends_in (sleeping_in m) ?act" by (cases m) (simp_all add: sleeping_in_def ends_modes)
  moreover have "is_sleeping (da (ww (after wifi_release_mutex t))) = is_sleeping (da (ww t))" for t
    by (simp add: wifi_release_mutex_def run)
  ultimately show ?thesis
    using assms by (simp add: wifi_set_sleep_mode_def run ends_in_def split: if_splits)
qed

text \<open>A chip that answers nothing is taken to sleep.\<close>

definition silent :: "wifi \<Rightarrow> bool" where
  "silent s \<longleftrightarrow> wifi_msgq s = [] \<and> inbox s = [] \<and> wifi_tx_rx_cb s = [] \<and> lock_count s > 0 \<and>
     powered_on (da (ww s)) = DA_STATE_UNKNOWN \<and> dpm_mode (da (ww s)) = DA_STATE_KNOWN_FALSE"

lemma silent_AT:
  assumes "silent s" and "is_sleeping (da (ww s)) = DA_STATE_KNOWN_FALSE" and "t > 0"
  shows "result (wifi_send_ok_err_atcmd idle_env ''AT'' t) s = - EAGAIN \<and>
    silent (after (wifi_send_ok_err_atcmd idle_env ''AT'' t) s) \<and>
    da (ww (after (wifi_send_ok_err_atcmd idle_env ''AT'' t) s)) = da (ww s)"
  using assms
  by (simp add: wifi_send_ok_err_atcmd_def Let_def run wifi_get_mutex_def wifi_flush_msgs_def wifi_send_timeout_def
      wifi_notify_cbs_def wifi_spi_send_def idle_env_def wifi_wait_for_def wait_rounds_def wifi_recv_def
      k_msgq_get_def wifi_release_mutex_def now_def set_now_def ms_left_def wifi_add_wait_msg_def
      ok_err_result_def silent_def)

lemma silent_check:
  assumes "silent s"
  shows "result (wifi_check_sleeping idle_env c) s = 1 \<and>
    silent (after (wifi_check_sleeping idle_env c) s) \<and>
    is_sleeping (da (ww (after (wifi_check_sleeping idle_env c) s))) =
      (if c then DA_STATE_KNOWN_TRUE else is_sleeping (da (ww s)))"
proof -
  let ?s = "after (tri_put V_IS_SLEEPING DA_STATE_KNOWN_FALSE) s"
  have "silent ?s" "is_sleeping (da (ww ?s)) = DA_STATE_KNOWN_FALSE"
    using assms by (simp_all add: silent_def upd_da_def)
  from silent_AT [OF this, of 80] assms show ?thesis
    by (simp add: wifi_check_sleeping_def Let_def run da_off_def silent_def upd_da_def
        send_zbus_tri_event_def publish_def watcher_listener_def idle_env_def)
qed
definition not_answering :: wifi where
  "not_answering = (wifi_boot idle_world)\<lparr>wifi_tx_rx_cb := [], ww := idle_world\<lparr>da := DA_STATE_INIT
     \<lparr>powered_on := DA_STATE_UNKNOWN, dpm_mode := DA_STATE_KNOWN_FALSE\<rparr>\<rparr>\<rparr>"

lemma silent_release: "silent s \<Longrightarrow> lock_count s > 1 \<Longrightarrow> silent (after wifi_release_mutex s)"
  by (simp add: silent_def wifi_release_mutex_def run)

lemma not_answering_mutex:
  "result (wifi_get_mutex idle_env 1000) not_answering = 0"
  "silent (after (wifi_get_mutex idle_env 1000) not_answering)"
  by (simp_all add: not_answering_def wifi_get_mutex_def run idle_env_def wifi_boot_def pass_until_def set_now_def
      silent_def now_def idle_world_def)

theorem sleep_mode_reached_witness:
  "is_sleeping (da (ww (after (wifi_set_sleep_mode idle_env WIFI_SLEEP_RTC_ASLEEP 0) not_answering))) =
   DA_STATE_KNOWN_TRUE"
proof -
  let ?m = "after (wifi_get_mutex idle_env 1000) not_answering"
  let ?a = "after (wifi_check_sleeping idle_env True) ?m"
  have a: "silent ?a" "is_sleeping (da (ww ?a)) = DA_STATE_KNOWN_TRUE"
    using silent_check [OF not_answering_mutex(2), of True] by simp_all
  have b: "is_sleeping (da (ww (after (wifi_check_sleeping idle_env False) ?a))) = DA_STATE_KNOWN_TRUE"
    "result (wifi_check_sleeping idle_env False) ?a = 1"
    using silent_check [OF a(1), of False] a(2) by simp_all
  have "result (wifi_set_sleep_mode idle_env WIFI_SLEEP_RTC_ASLEEP 0) not_answering = 0"
    using a b not_answering_mutex(1)
    by (simp add: wifi_set_sleep_mode_def run da_off_def not_answering_def sleep_rtc_asleep_def reached_def
        wait_for_sleep_state_def numeral_eq_Suc silent_def)
  from sleep_mode_reached [OF this] show ?thesis by (simp add: sleeping_in_def)
qed

end
