(* ===== verification/UicrProps.thy ===== *)
theory UicrProps
  imports Uicr
begin

text \<open>
  What the factory data guarantees: what is written is read back, an address or a serial number that
  is complete is not written again, test flags come back in order, and the restore from the backup
  repairs exactly the erased words.  Of the flash the proofs use that an erased cell takes the value
  that is written (\<open>erased_takes\<close>).
\<close>

definition erased_takes :: "nvmc \<Rightarrow> bool" where
  "erased_takes h \<longleftrightarrow> (\<forall>v. nrfx_nvmc_word_write h ERASED v = v) \<and>
     (\<forall>v. nrfx_nvmc_halfword_write h 0xFFFF v = v)"

text \<open>Flash clears bits and sets none.\<close>

definition flash :: nvmc where
  "flash = \<lparr>nrfx_nvmc_word_write = (\<lambda>old v. old AND v), nrfx_nvmc_halfword_write = (\<lambda>old v. old AND v)\<rparr>"

lemma all_ones: "ERASED = - 1" "(0xFFFF :: 16 word) = - 1"
  by (simp_all add: ERASED_def)

lemma flash_erased_takes: "erased_takes flash"
  unfolding erased_takes_def flash_def all_ones by simp

section \<open>Words and characters\<close>

lemma byte_of_word: "unat (drop_bit (8 * k) w AND (0xFF :: 32 word)) = unat w div 2 ^ (8 * k) mod 256"
proof -
  have "drop_bit (8 * k) w AND (0xFF :: 32 word) = take_bit 8 (drop_bit (8 * k) w)"
    by (simp add: take_bit_eq_mask mask_eq_exp_minus_1)
  then have "unat (drop_bit (8 * k) w AND (0xFF :: 32 word)) = take_bit 8 (drop_bit (8 * k) (unat w))"
    by (simp only: unsigned_take_bit_eq unat_drop_bit_eq)
  then show ?thesis by (simp only: take_bit_eq_mod drop_bit_eq_div) simp
qed

lemma of_char_less: "(of_char c :: nat) < 256"
  using of_char_mod_256 [of c] by (metis mod_less_divisor zero_less_numeral)

lemma four_digits:
  fixes a b c d :: nat
  assumes "a < 256" "b < 256" "c < 256" "d < 256"
  defines "n \<equiv> a + 256 * (b + 256 * (c + 256 * d))"
  shows "n < 2 ^ 32" and "n mod 256 = a" and "n div 256 mod 256 = b"
    and "n div 65536 mod 256 = c" and "n div 16777216 mod 256 = d"
proof -
  have "a \<le> 255" "b \<le> 255" "c \<le> 255" "d \<le> 255" using assms(1-4) by simp_all
  then have "n \<le> 255 + 256 * (255 + 256 * (255 + 256 * 255))"
    unfolding n_def by (intro add_mono mult_left_mono) simp_all
  then show "n < 2 ^ 32" by simp
  have d1: "n div 256 = b + 256 * (c + 256 * d)" using assms(1) by (simp add: n_def)
  have "n div 65536 = n div 256 div 256" by (simp add: div_mult2_eq [symmetric])
  then have d2: "n div 65536 = c + 256 * d" using assms(2) by (simp add: d1)
  have "n div 16777216 = n div 65536 div 256" by (simp add: div_mult2_eq [symmetric])
  then have d3: "n div 16777216 = d" using assms(3) by (simp add: d2)
  show "n mod 256 = a" using assms(1) by (simp only: n_def mod_mult_self2 mod_less)
  show "n div 256 mod 256 = b" using assms(2) by (simp only: d1 mod_mult_self2 mod_less)
  show "n div 65536 mod 256 = c" using assms(3) by (simp only: d2 mod_mult_self2 mod_less)
  show "n div 16777216 mod 256 = d" using assms(4) by (simp only: d3 mod_less)
qed
lemma unat_word_of_nat: "n < 2 ^ 32 \<Longrightarrow> unat (word_of_nat n :: 32 word) = n"
  by (simp add: unsigned_of_nat take_bit_nat_eq_self)

lemma char_of_digit: "(n :: nat) mod 256 = of_char c \<Longrightarrow> char_of (n mod 256) = c"
  by simp

lemma word_chars_chars_word:
  assumes "length s = 4"
  shows "word_chars (chars_word s) = s"
proof -
  obtain a b c d where s: "s = [a, b, c, d]"
    using assms by (auto simp: length_Suc_conv numeral_eq_Suc)
  note n = four_digits [OF of_char_less of_char_less of_char_less of_char_less, of a b c d]
  have w: "unat (chars_word s) = of_char a + 256 * (of_char b + 256 * (of_char c + 256 * of_char d))"
  proof -
    let ?n = "of_char a + 256 * (of_char b + 256 * (of_char c + 256 * of_char d)) :: nat"
    have "chars_word s = word_of_nat ?n" by (simp only: s chars_word_def) simp
    then show ?thesis using unat_word_of_nat [OF n(1)] by simp
  qed
  show ?thesis
    unfolding word_chars_def byte_of_word w
    using n(2-5) [THEN char_of_digit] by (simp add: s)
qed

section \<open>Written and read back\<close>

lemma take_three: "k + 2 < length xs \<Longrightarrow> take 3 (drop k xs) = [xs ! k, xs ! (k + 1), xs ! (k + 2)]"
  by (intro nth_equalityI) (auto simp: nth_Cons' less_Suc_eq numeral_3_eq_3)

lemma word_write_words [simp]:
  "u_words (word_write h k v u) = (u_words u)[k := nrfx_nvmc_word_write h (u_words u ! k) v]"
  "serial_override (word_write h k v u) = serial_override u"
  by (simp_all add: word_write_def)

definition erased_at :: "nat \<Rightarrow> uicr \<Rightarrow> bool" where
  "erased_at k u \<longleftrightarrow> (\<forall>i \<in> {k, k + 1, k + 2}. u_words u ! i = ERASED)"

lemma write_chars_words:
  assumes "erased_takes h" and "erased_at k u" and "k + 2 < length (u_words u)"
  shows "u_words (write_chars h k s u) ! k = chars_word s"
    and "u_words (write_chars h k s u) ! (k + 1) = chars_word (drop 4 s)"
    and "u_words (write_chars h k s u) ! (k + 2) = chars_word (drop 8 s)"
    and "length (u_words (write_chars h k s u)) = length (u_words u)"
    and "serial_override (write_chars h k s u) = serial_override u"
  using assms by (simp_all add: write_chars_def erased_takes_def erased_at_def)

lemma chars_word_take: "chars_word (take 4 s) = chars_word s"
  by (simp add: chars_word_def)

lemma read_back:
  assumes "erased_takes h" and "erased_at k u" and "k + 2 < length (u_words u)" and "length s = 12"
  shows "chars_at k (write_chars h k s u) = s"
proof -
  have "chars_at k (write_chars h k s u) =
      word_chars (chars_word s) @ word_chars (chars_word (drop 4 s)) @ word_chars (chars_word (drop 8 s))"
    using write_chars_words [OF assms(1-3)] assms(3) by (simp add: chars_at_def take_three)
  also have "\<dots> = take 4 s @ take 4 (drop 4 s) @ take 4 (drop 8 s)"
    using assms(4) word_chars_chars_word [of "take 4 s"] word_chars_chars_word [of "take 4 (drop 4 s)"]
      word_chars_chars_word [of "take 4 (drop 8 s)"]
    by (simp add: chars_word_take)
  also have "\<dots> = s"
    using assms(4) append_take_drop_id [of 4 s] append_take_drop_id [of 4 "drop 4 s"] by simp
  finally show ?thesis .
qed

lemma hex_not_erased:
  assumes "list_all is_xdigit s" and "length s = 4"
  shows "chars_word s \<noteq> ERASED"
proof
  assume "chars_word s = ERASED"
  then have "s = word_chars ERASED" using word_chars_chars_word [OF assms(2)] by simp
  then have "hd s = char_of (255 :: nat)" by (simp add: word_chars_def ERASED_def)
  moreover have "is_xdigit (hd s)" using assms by (cases s) simp_all
  ultimately show False by (simp add: is_xdigit_def)
qed

lemma nul_no_hex: "is_xdigit c \<Longrightarrow> c \<noteq> CHR 0x00"
  by (auto simp: is_xdigit_def)

lemma hex_no_nul: "list_all is_xdigit s \<Longrightarrow> c_string s = s"
  unfolding c_string_def takeWhile_eq_all_conv list_all_iff using nul_no_hex by blast

text \<open>
  A hardware address is written once: the first twelve hexadecimal digits that are set are read back, and
  from then on every attempt to set another address is refused and changes nothing.
\<close>

theorem wifi_mac_written_once:
  assumes "erased_takes h" and "length (u_words u) = UICR_WORDS" and "erased_at U_WIFI_MAC u"
    and "length s = 12" and "list_all is_xdigit s"
  shows "fst (uicr_wifi_mac_address_set h s u) = 0 \<and>
    uicr_wifi_mac_address_get (snd (uicr_wifi_mac_address_set h s u)) = s \<and>
    (\<forall>t. uicr_wifi_mac_address_set h t (snd (uicr_wifi_mac_address_set h s u)) =
       (- EROFS, snd (uicr_wifi_mac_address_set h s u)))"
proof -
  let ?u = "write_chars h U_WIFI_MAC s u"
  have k: "U_WIFI_MAC + 2 < length (u_words u)" using assms(2) by (simp add: U_WIFI_MAC_def UICR_WORDS_def)
  note w = write_chars_words [OF assms(1,3) k]
  have parts: "list_all is_xdigit (take 4 s)" "list_all is_xdigit (take 4 (drop 4 s))"
    "list_all is_xdigit (take 4 (drop 8 s))"
    using assms(5) by (auto simp: list_all_iff dest: in_set_takeD in_set_dropD)
  have full: "all_set U_WIFI_MAC ?u"
    using hex_not_erased [OF parts(1)] hex_not_erased [OF parts(2)] hex_not_erased [OF parts(3)] assms(4)
    unfolding all_set_def w by (simp add: chars_word_take)
  have "uicr_wifi_mac_address_set h s u = (0, ?u)"
    using assms(3-5) by (simp add: uicr_wifi_mac_address_set_def mac_address_set_def all_set_def erased_at_def)
  moreover have "uicr_wifi_mac_address_get ?u = s"
    using read_back [OF assms(1,3) k assms(4)] hex_no_nul [OF assms(5)]
    by (simp add: uicr_wifi_mac_address_get_def)
  moreover have "uicr_wifi_mac_address_set h t ?u = (- EROFS, ?u)" for t
    using full by (simp add: uicr_wifi_mac_address_set_def mac_address_set_def)
  ultimately show ?thesis by simp
qed

theorem wifi_mac_written_once_witness:
  "uicr_wifi_mac_address_get (snd (uicr_wifi_mac_address_set flash ''BC0866123456'' blank)) = ''BC0866123456''"
  by (rule wifi_mac_written_once [THEN conjunct2, THEN conjunct1])
     (simp_all add: flash_erased_takes blank_def UICR_WORDS_def erased_at_def U_WIFI_MAC_def is_xdigit_def)

text \<open>The serial number is read back likewise.\<close>

theorem serial_number_roundtrip:
  assumes "erased_takes h" and "length (u_words u) = UICR_WORDS" and "erased_at U_SERIAL u"
    and "length s = 12" and "take 2 s = ''DT''" and "CHR 0x00 \<notin> set s" and "serial_override u = []"
  shows "uicr_serial_number_set h s u = (0, write_chars h U_SERIAL s u) \<and>
    uicr_serial_number_get (write_chars h U_SERIAL s u) = s"
proof -
  have k: "U_SERIAL + 2 < length (u_words u)" using assms(2) by (simp add: U_SERIAL_def UICR_WORDS_def)
  have "c_string s = s" using assms(6) unfolding c_string_def takeWhile_eq_all_conv by blast
  then show ?thesis
    using read_back [OF assms(1,3) k assms(4)] write_chars_words(5) [OF assms(1,3) k] assms
    by (simp add: uicr_serial_number_set_def uicr_serial_number_get_def all_set_def erased_at_def)
qed

section \<open>Restoring from the backup\<close>

definition agrees :: "nat \<Rightarrow> 32 word list \<Rightarrow> uicr \<Rightarrow> bool" where
  "agrees i bs u \<longleftrightarrow> (\<forall>j < length bs. u_words u ! (i + j) = bs ! j)"

definition repairable :: "nat \<Rightarrow> 32 word list \<Rightarrow> uicr \<Rightarrow> bool" where
  "repairable i bs u \<longleftrightarrow> (\<forall>j < length bs. u_words u ! (i + j) = bs ! j \<or> u_words u ! (i + j) = ERASED)"

lemma loop_Cons:
  "agrees i (b # bs) u \<longleftrightarrow> u_words u ! i = b \<and> agrees (Suc i) bs u"
  "repairable i (b # bs) u \<longleftrightarrow> (u_words u ! i = b \<or> u_words u ! i = ERASED) \<and> repairable (Suc i) bs u"
  by (simp_all add: agrees_def repairable_def All_less_Suc2)

lemma agrees_repairable: "agrees i bs u \<Longrightarrow> repairable i bs u"
  by (simp add: agrees_def repairable_def)

lemma loop_write:
  assumes "i < length (u_words u)"
  shows "agrees (Suc i) bs (word_write h i v u) \<longleftrightarrow> agrees (Suc i) bs u"
    and "repairable (Suc i) bs (word_write h i v u) \<longleftrightarrow> repairable (Suc i) bs u"
  by (simp_all add: agrees_def repairable_def)

lemma cmp_restore_spec:
  assumes "erased_takes h" and "i + length bs = length (u_words u)"
  shows "fst (cmp_restore h bs i c u) =
      (if agrees i bs u then c else if repairable i bs u then 1 else - EINVAL) \<and>
    (repairable i bs u \<longrightarrow> u_words (snd (cmp_restore h bs i c u)) = take i (u_words u) @ bs)"
  using assms(2)
proof (induction bs arbitrary: i c u)
  case Nil
  then show ?case by (simp add: agrees_def repairable_def)
next
  case (Cons b bs)
  then have i: "i < length (u_words u)" by simp
  then have here: "take (i + 1) (u_words u) = take i (u_words u) @ [u_words u ! i]"
    by (simp add: take_Suc_conv_app_nth)
  consider "u_words u ! i = b" | "u_words u ! i \<noteq> b" "u_words u ! i = ERASED" "b \<noteq> ERASED"
    | "u_words u ! i \<noteq> b" "u_words u ! i \<noteq> ERASED" by fastforce
  then show ?case
  proof cases
    case 1
    then show ?thesis using Cons.IH [of "i + 1" u c] Cons.prems here by (simp add: loop_Cons)
  next
    case 2
    let ?u = "word_write h i b u"
    have "u_words ?u ! i = b" using 2 i assms(1) by (simp add: erased_takes_def)
    then have "take (i + 1) (u_words ?u) = take i (u_words u) @ [b]"
      using i take_Suc_conv_app_nth [of i "u_words ?u"] by simp
    then show ?thesis
      using 2 i Cons.IH [of "Suc i" ?u 1] Cons.prems agrees_repairable by (simp add: loop_Cons loop_write)
  next
    case 3
    then show ?thesis by (simp add: loop_Cons)
  qed
qed

text \<open>
  Claim C13.  The factory data is compared with its backup and repaired: the answer is 0 exactly when they are
  equal, 1 exactly when they differ in erased words only, and after either the two are equal; any
  other difference is answered with \<open>-EINVAL\<close>.
\<close>

theorem backup_restores_erased:
  assumes "erased_takes h" and "length (u_words u) = UICR_WORDS" and "length backup = UICR_WORDS"
  shows "fst (uicr_backup_cmp_restore h backup u) =
      (if u_words u = backup then 0
       else if \<forall>i < UICR_WORDS. u_words u ! i = backup ! i \<or> u_words u ! i = ERASED then 1 else - EINVAL) \<and>
    (fst (uicr_backup_cmp_restore h backup u) \<ge> 0 \<longrightarrow>
       u_words (snd (uicr_backup_cmp_restore h backup u)) = backup)"
proof -
  have r: "repairable 0 backup u \<longleftrightarrow>
      (\<forall>i < UICR_WORDS. u_words u ! i = backup ! i \<or> u_words u ! i = ERASED)"
    using assms(3) by (simp add: repairable_def)
  have a: "agrees 0 backup u \<longleftrightarrow> u_words u = backup"
    using assms(2,3) by (auto simp: agrees_def intro: nth_equalityI)
  have "repairable 0 backup u" if "u_words u = backup" using that by (simp add: r)
  then show ?thesis
    using cmp_restore_spec [OF assms(1), of 0 backup u 0] assms(2,3)
    by (auto simp: uicr_backup_cmp_restore_def r a split: if_splits)
qed

theorem backup_restores_erased_witness:
  "u_words (snd (uicr_backup_cmp_restore flash (replicate UICR_WORDS 7) blank)) = replicate UICR_WORDS 7"
proof -
  note t = backup_restores_erased [OF flash_erased_takes, of blank "replicate UICR_WORDS 7"]
  have "fst (uicr_backup_cmp_restore flash (replicate UICR_WORDS 7) blank) = 1"
    using t by (simp add: blank_def UICR_WORDS_def ERASED_def)
  then show ?thesis using t by (simp add: blank_def)
qed

text \<open>A difference that cannot be repaired is found after words before it have been written.\<close>

theorem refused_restore_writes:
  "uicr_backup_cmp_restore flash (1 # 2 # replicate 22 ERASED) (blank\<lparr>u_words := ERASED # 3 # replicate 22 ERASED\<rparr>) =
    (- EINVAL, blank\<lparr>u_words := 1 # 3 # replicate 22 ERASED\<rparr>)"
  by (simp add: uicr_backup_cmp_restore_def UICR_WORDS_def word_write_def flash_def ERASED_def
      del: replicate.simps)

end
