(* ===== verification/SetupProps.thy ===== *)
theory SetupProps
  imports AskProps UicrProps
begin

text \<open>
  What the set-up of the chip guarantees: the topics it keeps, the backup of the factory data in its
  flash and how it is read again; and where it goes wrong.
\<close>

section \<open>Topics\<close>

definition wanted_too :: "string list \<Rightarrow> string \<Rightarrow> bool" where
  "wanted_too desired t \<longleftrightarrow> (\<exists>d \<in> set desired. strneq CONFIG_IOT_MAX_TOPIC_LENGTH d t)"

definition taken_over :: "string list \<Rightarrow> nat \<Rightarrow> string list \<Rightarrow> string list" where
  "taken_over desired n ts =
     take (CONFIG_IOT_MAX_TOPIC_NUM - n) (filter (\<lambda>t. \<not> wanted_too desired t) (takeWhile (\<lambda>t. t \<noteq> []) ts))"

lemma taken_over_step:
  "n \<ge> CONFIG_IOT_MAX_TOPIC_NUM \<or> t = [] \<Longrightarrow> taken_over desired n (t # ts) = []"
  "t \<noteq> [] \<Longrightarrow> wanted_too desired t \<Longrightarrow> taken_over desired n (t # ts) = taken_over desired n ts"
  "t \<noteq> [] \<Longrightarrow> \<not> wanted_too desired t \<Longrightarrow> n < CONFIG_IOT_MAX_TOPIC_NUM \<Longrightarrow>
   taken_over desired n (t # ts) = t # taken_over desired (Suc n) ts"
  by (auto simp: taken_over_def take_Cons' Suc_diff_Suc)

lemma merge_topics_spec:
  assumes "length desired \<le> length merged" and "length merged \<le> CONFIG_IOT_MAX_TOPIC_NUM"
  shows "merge_topics desired merged ts =
    (merged @ taken_over desired (length merged) ts,
     taken_over desired (length merged) ts \<noteq> [] \<and>
       length merged + length (taken_over desired (length merged) ts) > Suc (length desired))"
  using assms
proof (induction ts arbitrary: merged)
  case Nil
  then show ?case by (simp add: taken_over_def)
next
  case (Cons t ts)
  have w: "(\<exists>d \<in> set desired. strneq CONFIG_IOT_MAX_TOPIC_LENGTH d t) = wanted_too desired t"
    by (simp add: wanted_too_def)
  consider "length merged \<ge> CONFIG_IOT_MAX_TOPIC_NUM \<or> t = []"
    | "length merged < CONFIG_IOT_MAX_TOPIC_NUM" "t \<noteq> []" "wanted_too desired t"
    | "length merged < CONFIG_IOT_MAX_TOPIC_NUM" "t \<noteq> []" "\<not> wanted_too desired t" by linarith
  then show ?case
  proof cases
    case 1
    then show ?thesis unfolding merge_topics.simps taken_over_step(1) [OF 1] by simp
  next
    case 2
    then show ?thesis
      unfolding merge_topics.simps w taken_over_step(2) [OF 2(2,3)] using Cons by simp
  next
    case 3
    have "merge_topics desired (merged @ [t]) ts =
        ((merged @ [t]) @ taken_over desired (Suc (length merged)) ts,
         taken_over desired (Suc (length merged)) ts \<noteq> [] \<and>
         Suc (length merged) + length (taken_over desired (Suc (length merged)) ts) > Suc (length desired))"
      using Cons.IH [of "merged @ [t]"] Cons.prems 3 by simp
    then show ?thesis
      unfolding merge_topics.simps w taken_over_step(3) [OF 3(2,3,1)] using Cons.prems 3
      by (auto simp: Let_def neq_Nil_conv)
  qed
qed

definition wanted_list :: "string list \<Rightarrow> string list" where
  "wanted_list ts = takeWhile (\<lambda>t. t \<noteq> []) (take CONFIG_IOT_MAX_TOPIC_NUM ts)"

definition kept_list :: "string list \<Rightarrow> wifi \<Rightarrow> string list" where
  "kept_list ts s = taken_over (wanted_list ts) (length (wanted_list ts)) (mqtt_sub_topics (dax s))"

text \<open>
  Making sure of a list of topics keeps what the chip is subscribed to: it sets the wanted topics
  followed by those of the chip's that are none of them, in their order, until there are nine.  When
  two or more are taken over, the null pointer behind the wanted ones is read.
\<close>

theorem insured_topics:
  "run_state (wifi_insure_mqtt_sub_topics e ts timeout) s =
   run_state (wifi_set_mqtt_sub_topics e (wanted_list ts @ kept_list ts s) timeout)
     (s\<lparr>null_deref := null_deref s \<or> length (kept_list ts s) \<ge> 2\<rparr>)"
proof -
  have "length (wanted_list ts) \<le> CONFIG_IOT_MAX_TOPIC_NUM"
    using length_takeWhile_le [of "\<lambda>t. t \<noteq> []" "take CONFIG_IOT_MAX_TOPIC_NUM ts"] by (simp add: wanted_list_def)
  from merge_topics_spec [OF le_refl this, of "mqtt_sub_topics (dax s)"]
  have "merge_topics (wanted_list ts) (wanted_list ts) (mqtt_sub_topics (dax s)) =
      (wanted_list ts @ kept_list ts s, length (kept_list ts s) \<ge> 2)"
    by (auto simp: kept_list_def Suc_le_eq)
  moreover have "s\<lparr>null_deref := null_deref s\<rparr> = s" by simp
  ultimately show ?thesis
    by (auto simp: wifi_insure_mqtt_sub_topics_def wanted_list_def [symmetric] run Let_def)
qed

section \<open>The backup\<close>

text \<open>What the chip stores of the text it is sent: the bytes of the pairs of digits.\<close>

fun unhex :: "string \<Rightarrow> string" where
  "unhex (a # b # t) = char_of (16 * the (xdigit_val a) + the (xdigit_val b)) # unhex t"
| "unhex t = []"

lemma hex_digit: "n < 16 \<Longrightarrow> xdigit_val (xdigit up n) = Some n"
  unfolding xdigit_val_def xdigit_def Let_def by (auto simp: of_char_of)

lemma unhex_hex2: "n < 256 \<Longrightarrow> unhex (hex2 up n @ t) = char_of n # unhex t"
  by (simp add: hex2_def hex_digit)

lemma unhex_bytes: "unhex (concat (map (\<lambda>c. hex2 up (of_char c)) cs) @ t) = cs @ unhex t"
  by (induction cs) (simp_all add: unhex_hex2 of_char_less)

lemma four_bytes:
  "(v :: nat) mod 256 + 256 * (v div 256 mod 256 + 256 * (v div 65536 mod 256 + 256 * (v div 16777216))) = v"
proof -
  have d: "v div 65536 = v div 256 div 256" "v div 16777216 = v div 65536 div 256"
    by (simp_all add: div_mult2_eq [symmetric])
  have "v div 65536 mod 256 + 256 * (v div 16777216) = v div 65536" by (simp add: d(2))
  moreover have "v div 256 mod 256 + 256 * (v div 65536) = v div 256" by (simp add: d(1))
  ultimately show ?thesis by simp
qed

lemma word_of_chars: "chars_word (word_chars w) = w"
proof -
  have "unat w < 2 ^ 32" using unsigned_less [of w] by simp
  then have "unat w div 16777216 mod 256 = unat w div 16777216" by (simp add: less_mult_imp_div_less)
  then have "foldr (\<lambda>c n. of_char c + 256 * n) (take 4 (word_chars w)) 0 = unat w"
    unfolding word_chars_def byte_of_word by (simp add: of_char_of take_bit_eq_mod four_bytes [simplified])
  then show ?thesis by (simp add: chars_word_def)
qed

lemma word_chars_length: "length (word_chars w) = 4"
  by (simp add: word_chars_def)

lemma words_of_bytes_word: "words_of_bytes (word_chars w @ t) = w # words_of_bytes t"
proof -
  obtain c cs where c: "word_chars w = c # cs" "length cs = 3"
    using word_chars_length [of w] by (auto simp: length_Suc_conv numeral_eq_Suc)
  have "chars_word (c # cs @ t) = chars_word (word_chars w)"
    using c by (simp add: chars_word_def)
  then show ?thesis using c word_of_chars [of w] by simp
qed

lemma words_of_bytes_words: "words_of_bytes (concat (map word_chars ws)) = ws"
  by (induction ws) (simp_all add: words_of_bytes_word)

text \<open>
  The backup of the factory data that is written to the chip is read back: the bytes of the digits
  that are sent make the same words again.
\<close>

theorem backup_text_roundtrip: "words_of_bytes (unhex (hex_dump ws)) = ws"
  using unhex_bytes [of False "concat (map word_chars ws)" "[]"] words_of_bytes_words
  by (simp add: hex_dump_def)

text \<open>
  A backup that is found is never answered with 0, the answer the set-up takes for valid factory data:
  also when the backup matches, hardware address, crystal and host name are not set up then.
\<close>

theorem found_backup_taken_for_invalid:
  assumes "result (wifi_get_nvram e DA_UICR_BACKUP_FLAG [NUL] 500) s = (r, [CHR 0xEA])" and "r \<ge> 0"
  shows "result (insure_uicr_backup e) s \<noteq> 0"
proof -
  have check: "result (check_backup e) u = 1" for u
    unfolding check_backup_def by (simp add: run Let_def split: prod.splits)
  show ?thesis
    using assms by (simp add: insure_uicr_backup_def run check split: prod.splits)
qed

text \<open>A state with messages that are waiting, and a wait that takes the first of them.\<close>

definition answered :: "string list \<Rightarrow> wifi" where
  "answered ts = (wifi_boot idle_world)\<lparr>wifi_tx_rx_cb := [], lock_count := 1, wifi_msgq :=
     map (\<lambda>t. \<lparr>m_time = 0, m_ref = 2, m_incoming = True, m_len = length t, m_data = Local t\<rparr>) ts\<rparr>"

definition waiting :: "string \<Rightarrow> wifi_msg" where
  "waiting t = \<lparr>m_time = 0, m_ref = 2, m_incoming = True, m_len = length t, m_data = Local t\<rparr>"

lemma wait_for_queued:
  assumes "lock_count s > 0" "t > 0" "length wm \<le> WIFI_MAX_WAIT_MSGS" "inbox s = []"
    and "wifi_msgq s = waiting b # rest" "match_list b (length b) 0 wm = (k, wm')" "k \<ge> 0" "we_stop (wm' ! nat k)"
  shows "run_state (wifi_wait_for e wm t) s = ((k, wm'), s\<lparr>wifi_msgq := rest\<rparr>)"
  using assms
  by (simp add: wifi_wait_for_def run wifi_get_mutex_def wait_rounds_def wifi_recv_def k_msgq_get_def
      ms_left_def now_def wifi_release_mutex_def match_message_def is_stale_def wifi_msg_free_def
      msg_bytes_def Let_def waiting_def)

definition flag_patterns :: "wait_entry list" where
  "flag_patterns = wifi_add_wait_msg ''%1s'' True [[NUL]]
     (wifi_add_wait_msg CRLF False []
       (wifi_add_wait_msg OK_TXT True []
         (wifi_add_wait_msg (ERROR_TXT ''%50s'') True [replicate 50 (CHR ''?'')] [])))"

definition flag_read :: "wait_entry list" where
  "flag_read = flag_patterns[3 := (flag_patterns ! 3)\<lparr>we_bufs := [[CHR 0xEA]]\<rparr>]"

lemma flag_matches:
  "match_list [CHR 0xEA] 1 0 flag_patterns = (3, flag_read)" "match_list OK_TXT 6 0 flag_read = (1, flag_read)"
  "we_stop (flag_read ! 3)" "we_stop (flag_read ! 1)" "we_bufs (flag_read ! 3) ! 0 = [CHR 0xEA]"
  "length flag_patterns \<le> WIFI_MAX_WAIT_MSGS" "length flag_read \<le> WIFI_MAX_WAIT_MSGS" "length OK_TXT = 6"
  by code_simp+

lemma flag_answers:
  assumes "lock_count s > 0" "inbox s = []" "wifi_msgq s = [waiting [CHR 0xEA], waiting OK_TXT]" "now s < tp"
  shows "result (ask_loop idle_env (Suc (Suc n)) tp None nvram_body flag_patterns ()) s = Some (0, [CHR 0xEA])"
proof -
  let ?u = "s\<lparr>wifi_msgq := [waiting OK_TXT]\<rparr>"
  have 1: "run_state (wifi_wait_for idle_env flag_patterns (tp - now s)) s = ((3, flag_read), ?u)"
    using flag_matches assms by (intro wait_for_queued [where b = "[CHR 0xEA]"]) simp_all
  have 2: "run_state (wifi_wait_for idle_env flag_read (tp - now s)) ?u = ((1, flag_read), ?u\<lparr>wifi_msgq := []\<rparr>)"
    using flag_matches assms by (intro wait_for_queued [where b = OK_TXT]) simp_all
  show ?thesis
    using 1 2 flag_matches(5)
    by (simp add: run ms_left_def nvram_body_def now_def result_def after_def del: ask_loop.simps(1))
qed

lemma flag_answers_all:
  assumes "lock_count s > 0" "inbox s = []" "wifi_msgq s = [waiting [CHR 0xEA], waiting OK_TXT]" "now s < tp"
  shows "result (answers idle_env tp None nvram_body d flag_patterns ()) s = (0, [CHR 0xEA])"
proof -
  have "wait_rounds s = Suc (Suc 1)" using assms(2,3) by (simp add: wait_rounds_def)
  then show ?thesis using flag_answers [OF assms] by (simp add: answers_def run del: ask_loop.simps)
qed

lemma send_idle:
  assumes "wifi_tx_rx_cb s = []" and "lock_count s > 0"
  shows "result (wifi_send_timeout idle_env d t) s = 0"
    and "after (wifi_send_timeout idle_env d t) s =
      s\<lparr>spi_frames := spi_frames s @ [da_spi_write_rqst ATCMD_ADDR d]\<rparr>"
  using assms by (simp_all add: wifi_send_timeout_def run wifi_get_mutex_def wifi_notify_cbs_def wifi_spi_send_def idle_env_def
      wifi_release_mutex_def Let_def)

lemma answered_simps:
  "lock_count (answered ts) = 1" "inbox (answered ts) = []" "wifi_tx_rx_cb (answered ts) = []"
  "wifi_msgq (answered ts) = map waiting ts" "da_unusable (answered ts) = 0"
  by (simp_all add: answered_def wifi_boot_def waiting_def da_unusable_def DA_STATE_INIT_def)

lemma flag_width: "show_nat 1 = ''1''" "show_nat (Suc 0) = ''1''"
  by code_simp+

lemma flag_read_back:
  "result (wifi_get_nvram idle_env DA_UICR_BACKUP_FLAG [NUL] 500) (answered [[CHR 0xEA], OK_TXT]) = (0, [CHR 0xEA])"
proof -
  have "flag_patterns = wifi_add_wait_msg (take 19 (''%'' @ show_nat (length [NUL]) @ ''s'')) True [[NUL]]
     (wifi_add_wait_msg CRLF False []
       (wifi_add_wait_msg OK_TXT True []
         (wifi_add_wait_msg (ERROR_TXT ''%50s'') True [stale idle_env 50 s] [])))" for s
    by (simp add: flag_patterns_def idle_env_def flag_width)
  note p = this [symmetric]
  show ?thesis
    unfolding wifi_get_nvram_def p asking_def
    by (simp add: guarded_def locked_def run wifi_get_mutex_def answered_simps send_idle ms_left_def
        flag_answers_all now_def del: take.simps take_Suc_Cons)
qed

theorem found_backup_taken_for_invalid_witness:
  "result (insure_uicr_backup idle_env) (answered [[CHR 0xEA], OK_TXT]) \<noteq> 0"
  by (rule found_backup_taken_for_invalid [OF flag_read_back]) simp

section \<open>One-time programmable memory\<close>

text \<open>
  A value that does not fit into the bytes of its register is refused, and the refusal gives back the
  mutex, which the function has not locked: a caller that holds it loses one of its locks.
\<close>

theorem otp_refusal_unlocks:
  assumes "da_unusable s = 0" and "newval > 2 ^ (8 * n) - 1"
  shows "result (wifi_set_otp_register e reg n newval t) s = - EINVAL \<and>
    lock_count (after (wifi_set_otp_register e reg n newval t) s) = lock_count s - 1"
  using assms by (simp add: wifi_set_otp_register_def guarded_def run wifi_release_mutex_def mult.commute)

theorem otp_refusal_unlocks_witness:
  "lock_count (after (wifi_set_otp_register idle_env 0 1 256 100) (answered [])) = 0"
  using otp_refusal_unlocks [of "answered []" 1 256 idle_env 0 100] answered_simps [of "[]"] by simp

end
