(* ===== verification/JsonMsgs.thy ===== *)
theory JsonMsgs
  imports CommState
begin

text \<open>
  The messages of \<^verbatim>\<open>c_modules/json/src/d1_json.c\<close>, each as the tree that the source builds with cJSON, in
  the order in which the members are added.  The library's printer and the base64 encoder are
  parameters; its allocations succeed.  \<open>cJSON_PrintPreallocated item n\<close> is the text that the buffer of \<open>n\<close>
  bytes holds afterwards.  \<open>NULL\<close> is \<open>None\<close>.
\<close>

section \<open>Trees\<close>

record json_lib =
  cJSON_PrintPreallocated :: "cjson \<Rightarrow> nat \<Rightarrow> string"
  base64_encode :: "nat \<Rightarrow> string \<Rightarrow> string"

abbreviation D1_JSON_MESSAGE_BUFFER_SIZE :: nat where "D1_JSON_MESSAGE_BUFFER_SIZE \<equiv> 6000"
abbreviation MAX_MID_SIZE :: nat where "MAX_MID_SIZE \<equiv> 12"
abbreviation REQUEST_ID_SIZE :: nat where "REQUEST_ID_SIZE \<equiv> 48"
abbreviation DEPLOY_TYPE_SIZE :: nat where "DEPLOY_TYPE_SIZE \<equiv> 8"
abbreviation CONFIG_MAX_MQTT_MSG_SIZE :: int where "CONFIG_MAX_MQTT_MSG_SIZE \<equiv> 1980"

definition JInt :: "int \<Rightarrow> cjson" where
  "JInt i = JNum (of_int i)"

definition mid_ok :: "string \<Rightarrow> bool" where
  "mid_ok mid \<longleftrightarrow> mid \<noteq> [] \<and> length mid \<le> MAX_MID_SIZE"

text \<open>The members outside of \<open>M\<close>, in the two orders of the source.\<close>

definition message_bt :: "int \<Rightarrow> string \<Rightarrow> int \<Rightarrow> (string \<times> cjson) list \<Rightarrow> cjson" where
  "message_bt protocol mid typ m =
     JObj [(''P'', JInt protocol), (''MID'', JStr mid), (''MK'', JStr ''US''),
       (''B'', JInt 35), (''T'', JInt typ), (''M'', JObj m)]"

definition message_tb :: "int \<Rightarrow> string \<Rightarrow> int \<Rightarrow> (string \<times> cjson) list \<Rightarrow> cjson" where
  "message_tb protocol mid typ m =
     JObj [(''P'', JInt protocol), (''MID'', JStr mid), (''MK'', JStr ''US''),
       (''T'', JInt typ), (''B'', JInt 35), (''M'', JObj m)]"

definition print_msg :: "json_lib \<Rightarrow> cjson \<Rightarrow> string" where
  "print_msg l t = cJSON_PrintPreallocated l t D1_JSON_MESSAGE_BUFFER_SIZE"

definition show_ver :: "int \<Rightarrow> int \<Rightarrow> int \<Rightarrow> string" where
  "show_ver a b d = show_int a @ ''.'' @ show_int b @ ''.'' @ show_int d"

text \<open>\<open>snprintf(s, 32, ...)\<close> of a version.\<close>

definition ver_text :: "int \<Rightarrow> int \<Rightarrow> int \<Rightarrow> string" where
  "ver_text a b d = take 31 (show_ver a b d)"

section \<open>Messages of fixed shape\<close>

definition json_onboarding :: "json_lib \<Rightarrow> string \<Rightarrow> string \<Rightarrow> string option" where
  "json_onboarding l mid gwid =
     (if \<not> mid_ok mid then None
      else Some (print_msg l (message_tb 5 mid 3 [(''GWI'', JObj [(''GWID'', JStr gwid)])])))"

definition ver_of :: "8 word list \<Rightarrow> string" where
  "ver_of v = ver_text (uint (v ! 0)) (uint (v ! 1)) (uint (v ! 2))"

text \<open>\<open>zones[i].idx\<close> is the index \<open>i\<close>: \<open>commMgr.c\<close> fills the zones in order.\<close>

definition zone_json :: "nat \<Rightarrow> shadow_zone \<Rightarrow> cjson" where
  "zone_json i z =
     JObj [(''I'', JInt (int i)), (''SSID'', JStr (z_ssid z)), (''SAFE'', JBool (z_safe z))]"

definition extra_member :: "string \<times> string option \<Rightarrow> string \<times> cjson" where
  "extra_member kv = (fst kv, case snd kv of Some v \<Rightarrow> JStr v | None \<Rightarrow> JNull)"

definition shadow_members ::
  "shadow_doc_t \<Rightarrow> (string \<times> string option) list option \<Rightarrow> (string \<times> cjson) list" where
  "shadow_members doc extra =
     [(''S_Norm'', JInt (uint (S_Norm doc))), (''S_FMD'', JInt (uint (S_FMD doc))),
      (''T_Norm'', JInt (uint (T_Norm doc))), (''T_FMD'', JInt (uint (T_FMD doc))),
      (''Rec'', JInt (uint (sd_Rec doc))), (''Q'', JInt (uint (sd_Q doc))),
      (''THS'', JInt (uint (sd_ths doc))), (''DUR'', JInt (uint (sd_dur doc))),
      (''MOT_DET'', JInt (if sd_mot_det doc then 1 else 0)),
      (''MV'', JStr (ver_of (mcuVer doc))), (''WV'', JStr (ver_of (wifiVer doc))),
      (''LV'', JStr (ver_of (lteVer doc))),
      (''F_P_DUR'', JInt (uint (fota_in_progress_duration doc))),
      (''GPS_PER'', JInt (uint (sd_gps_poll_period doc)))]
     @ (case extra of None \<Rightarrow> [] | Some kvs \<Rightarrow> map extra_member kvs)
     @ [(''ZONES'', JArr (map (\<lambda>i. zone_json i (sd_zones doc ! i)) [0..<NUM_ZONES]))]"

definition json_shadow_report ::
  "json_lib \<Rightarrow> string \<Rightarrow> shadow_doc_t \<Rightarrow> (string \<times> string option) list option \<Rightarrow> string option" where
  "json_shadow_report l mid doc extra =
     (if \<not> mid_ok mid then None
      else Some (print_msg l (message_bt 1 mid 15 (shadow_members doc extra))))"

text \<open>The versions are passed as \<open>uint16_t\<close>.\<close>

definition fota_device_name :: "comm_device \<Rightarrow> string option" where
  "fota_device_name device =
     (case device of COMM_DEVICE_NRF9160 \<Rightarrow> Some ''nrf9160''
      | COMM_DEVICE_DA16200 \<Rightarrow> Some ''da16200''
      | COMM_DEVICE_NRF5340 \<Rightarrow> Some ''nrf5340''
      | _ \<Rightarrow> None)"

definition json_fota_check ::
  "json_lib \<Rightarrow> string \<Rightarrow> 16 word \<Rightarrow> 16 word \<Rightarrow> 16 word \<Rightarrow> string \<Rightarrow> comm_device \<Rightarrow> string option" where
  "json_fota_check l mid major minor patch nonce device =
     (if \<not> mid_ok mid then None
      else Some (print_msg l (message_tb 5 mid 4
        [(''DM'', JInt 0), (''LM'', JInt 0),
         (''REV'', JArr [JObj ([(''HWR'', JStr ''1.0.0'')]
            @ (case fota_device_name device of None \<Rightarrow> [] | Some n \<Rightarrow> [(''DT'', JStr n)])
            @ [(''FWR'', JStr (ver_text (uint major) (uint minor) (uint patch)))])]),
         (''FV'', JStr ''2.1''), (''N'', JStr nonce)])))"

text \<open>A time before September 2001 is refused.\<close>

definition json_fota_feedback_msg ::
  "json_lib \<Rightarrow> string \<Rightarrow> int \<Rightarrow> string \<Rightarrow> string \<Rightarrow> int \<Rightarrow> string \<Rightarrow> string option" where
  "json_fota_feedback_msg l mid errorCode deployType requestID timeStamp st =
     (if \<not> mid_ok mid then None
      else if deployType = [] \<or> length deployType > DEPLOY_TYPE_SIZE then None
      else if requestID = [] \<or> length requestID > REQUEST_ID_SIZE then None
      else if st = [] \<or> length st > REQUEST_ID_SIZE then None
      else if timeStamp < 1000000000 then None
      else Some (print_msg l (message_bt 2 mid 16
        [(''RID'', JStr requestID),
         (''AL'', JArr [JObj [(''DT'', JStr deployType), (''EC'', JInt errorCode),
            (''TS'', JInt timeStamp), (''SR'', JBool True), (''ST'', JStr st)]])])))"

definition json_near_realtime_msg :: "json_lib \<Rightarrow> string \<Rightarrow> int \<Rightarrow> string \<Rightarrow> string option" where
  "json_near_realtime_msg l mid sub_type payload =
     (if \<not> mid_ok mid then None
      else if length payload > D1_JSON_MESSAGE_BUFFER_SIZE then None
      else Some (print_msg l (message_bt 1 mid 29
        [(''SUB'', JInt sub_type), (''PL'', JStr payload)])))"

text \<open>The parameter \<open>enter\<close> is not used.\<close>

definition json_safe_zone_alert ::
  "json_lib \<Rightarrow> string \<Rightarrow> nat \<Rightarrow> int \<Rightarrow> string \<Rightarrow> bool \<Rightarrow> string option \<Rightarrow> int \<Rightarrow> string option" where
  "json_safe_zone_alert l mid time typ ssid enter reason movement =
     (if \<not> mid_ok mid then None
      else Some (print_msg l (message_bt 1 mid 29
        [(''SUB'', JInt 12),
         (''PL'', JObj ([(''CRON'', JInt (int time)), (''ALERT_TYPE'', JInt typ),
            (''ALERT_DESC'', JStr (take 63 ssid))]
            @ (case reason of None \<Rightarrow> []
               | Some r \<Rightarrow> if length r \<le> 40 then [(''REASON'', JStr r)] else [])
            @ [(''MOVEMENT'', JInt movement)]))])))"

definition json_pair_msg ::
  "json_lib \<Rightarrow> string \<Rightarrow> string \<Rightarrow> string \<Rightarrow> string \<Rightarrow> string \<Rightarrow> string \<Rightarrow> nat \<Rightarrow> string option" where
  "json_pair_msg l mid nonce iccd imei ble_mac model now =
     (if \<not> mid_ok mid then None
      else if length nonce > D1_JSON_MESSAGE_BUFFER_SIZE then None
      else Some (print_msg l (message_bt 1 mid 29
        [(''SUB'', JInt 2),
         (''PL'', JObj [(''PT'', JStr nonce), (''CRON'', JInt (int now)), (''IMEI'', JStr imei),
            (''ICCID'', JStr iccd), (''ModelNumber'', JStr (take 4 model)),
            (''MacAddress'', JStr ble_mac)])])))"

definition json_srf_nonce :: "json_lib \<Rightarrow> string \<Rightarrow> int \<Rightarrow> string option" where
  "json_srf_nonce l mid nonce =
     (if \<not> mid_ok mid then None
      else Some (print_msg l (message_bt 1 mid 22 [(''N'', JInt nonce)])))"

text \<open>The padding of base64 is cut off from the end.\<close>

definition strip_padding :: "string \<Rightarrow> string" where
  "strip_padding s = rev (dropWhile (\<lambda>x. x = CHR ''='') (rev s))"

definition srf_response_payload :: "string \<Rightarrow> string \<Rightarrow> string \<Rightarrow> string \<Rightarrow> nat \<Rightarrow> cjson" where
  "srf_response_payload mid rid st fres now =
     JObj [(''rid'', JStr rid), (''exp'', JInt (int now + 15 * 60)),
       (''iss'', JStr (take 63 (''35_'' @ mid))), (''st'', JStr st), (''iat'', JInt (int now)),
       (''fres'', JObj [(''errstr'', JStr fres)])]"

definition json_srf_response_message ::
  "json_lib \<Rightarrow> string \<Rightarrow> string \<Rightarrow> string \<Rightarrow> string \<Rightarrow> nat \<Rightarrow> string option" where
  "json_srf_response_message l mid rid st fres now =
     (if rid = [] \<or> length rid > 48 then None
      else if st = [] \<or> length st > 64 then None
      else if fres = [] \<or> length fres > 64 then None
      else
        (let enc = (\<lambda>t. strip_padding (base64_encode l 256 (cJSON_PrintPreallocated l t 256)));
             header = enc (JObj [(''alg'', JStr ''none''), (''typ'', JStr ''JWT'')]);
             payload = enc (srf_response_payload mid rid st fres now)
         in Some (print_msg l (message_bt 1 mid 23
              [(''SM'', JStr (take 512 (header @ ''.'' @ payload @ ''.'')))]))))"

section \<open>The connectivity message\<close>

text \<open>
  The members have random letters; \<open>rnd k\<close> is the value of the \<open>k\<close>th call of \<open>rand\<close>.  The length of the
  first one makes the rest a multiple of 100.  A value of 100 letters has its terminator written behind
  the 100 bytes of its buffer, which the second component of the result tells.
\<close>

definition conn_value :: "(nat \<Rightarrow> nat) \<Rightarrow> nat \<Rightarrow> nat \<Rightarrow> string" where
  "conn_value rnd k amt = map (\<lambda>j. char_of (97 + rnd (k + j) mod 26)) [0..<amt]"

definition conn_name :: "nat \<Rightarrow> string" where
  "conn_name i = (if i = 0 then ''S'' else take 11 (''S'' @ show_nat i))"

definition conn_amount :: "nat \<Rightarrow> nat" where
  "conn_amount left = (if left mod 100 = 0 then 100 else left mod 100)"

lemma conn_amount_bounds: "0 < conn_amount left" "conn_amount left \<le> 100"
  "0 < left \<Longrightarrow> conn_amount left \<le> left"
  by (auto simp: conn_amount_def)

function conn_members ::
  "(nat \<Rightarrow> nat) \<Rightarrow> nat \<Rightarrow> nat \<Rightarrow> nat \<Rightarrow> (string \<times> cjson) list \<times> bool" where
  "conn_members rnd i filled msg_size =
     (if filled < msg_size then
        (let amt = conn_amount (msg_size - filled);
             (ms, over) = conn_members rnd (i + 1) (filled + amt) msg_size
         in ((conn_name i, JStr (conn_value rnd (filled - 100) amt)) # ms, amt = 100 \<or> over))
      else ([], False))"
  by pat_completeness auto
termination
  by (relation "measure (\<lambda>(rnd, i, filled, msg_size). msg_size - filled)") (auto simp: conn_amount_def)

declare conn_members.simps [simp del]

definition json_connectivity_msg ::
  "json_lib \<Rightarrow> (nat \<Rightarrow> nat) \<Rightarrow> string \<Rightarrow> int \<Rightarrow> string option \<times> bool" where
  "json_connectivity_msg l rnd mid msg_size =
     (if \<not> mid_ok mid then (None, False)
      else if msg_size < 200 \<or> msg_size > int D1_JSON_MESSAGE_BUFFER_SIZE then (None, False)
      else
        (let (ms, over) = conn_members rnd 0 100 (nat msg_size)
         in (Some (print_msg l (message_bt 2 mid 10 ms)), over)))"

section \<open>Types of messages and devices\<close>

definition json_get_mqtt_type :: "cjson \<Rightarrow> int" where
  "json_get_mqtt_type obj =
     (case cJSON_GetObjectItem obj ''T'' of None \<Rightarrow> -1 | Some t \<Rightarrow> cJSON_valueint t)"

fun comm_dev_str :: "comm_device \<Rightarrow> string" where
  "comm_dev_str COMM_DEVICE_NONE = ''NONE''"
| "comm_dev_str COMM_DEVICE_NRF9160 = ''NRF9160''"
| "comm_dev_str COMM_DEVICE_DA16200 = ''DA16200''"
| "comm_dev_str COMM_DEVICE_NRF5340 = ''NRF5340''"
| "comm_dev_str COMM_DEVICE_ALL = ''ALL''"
| "comm_dev_str COMM_DEVICE_ANY = ''ANY''"

section \<open>Lists that may need several messages\<close>

text \<open>
  \<open>*remaining_space < strlen(tempSpace)\<close>: the \<open>int16_t\<close> is compared as an unsigned 32 bit number.  The space is
  a number between -4100 and 1970 in all uses, so that it does not wrap at 16 bits.
\<close>

definition no_room :: "int \<Rightarrow> nat \<Rightarrow> bool" where
  "no_room remaining n \<longleftrightarrow> (word_of_int remaining :: 32 word) < of_nat n"

text \<open>
  The loop of the three lists: an entry that fits is taken from the queue and added, the first that does
  not fit ends the message with 1, "more to send".
\<close>

fun pack ::
  "json_lib \<Rightarrow> nat \<Rightarrow> ('x \<Rightarrow> cjson) \<Rightarrow> 'x list \<Rightarrow> int \<Rightarrow> cjson list \<times> 'x list \<times> int \<times> int" where
  "pack l n item [] remaining = ([], [], remaining, 0)"
| "pack l n item (x # xs) remaining =
     (let t = cJSON_PrintPreallocated l (item x) n
      in if no_room remaining (length t) then ([], x # xs, remaining, 1)
         else
           (let (js, rest, r, ret) = pack l n item xs (remaining - int (length t))
            in (item x # js, rest, r, ret)))"

record ssid_entry =
  se_macstr :: string
  se_rssi :: rat
  se_channel :: int

definition ssid_json :: "ssid_entry \<Rightarrow> cjson" where
  "ssid_json e =
     JObj [(''macAddress'', JStr (se_macstr e)), (''signalStrength'', JNum (se_rssi e)),
       (''channel'', JInt (se_channel e))]"

text \<open>The new members, the rest of the queue, the space that is left and the result.\<close>

definition add_ssids_to_json ::
  "json_lib \<Rightarrow> ssid_entry list \<Rightarrow> int \<Rightarrow> (string \<times> cjson) list \<times> ssid_entry list \<times> int \<times> int" where
  "add_ssids_to_json l fifo remaining =
     (if fifo = [] then ([], [], remaining, 0)
      else if remaining < 128 then ([], fifo, remaining, - ENOMEM)
      else
        (let (js, rest, r, ret) = pack l 256 ssid_json fifo (remaining - 11)
         in ([(''SSIDS'', JArr js)], rest, r, ret)))"

text \<open>
  The message on the dog's place.  \<open>gps\<close> is the list of positions with the space it is given
  (\<open>gps_get_json_list\<close>), \<open>now\<close> and \<open>scanned\<close> the times of the message and of the scan.
\<close>

definition opt_member :: "string \<Rightarrow> ('a \<Rightarrow> cjson) \<Rightarrow> 'a option \<Rightarrow> (string \<times> cjson) list" where
  "opt_member name f v = (case v of None \<Rightarrow> [] | Some x \<Rightarrow> [(name, f x)])"

definition wmd_place ::
  "int option \<Rightarrow> int option \<Rightarrow> string option \<Rightarrow> bool option \<Rightarrow> nat \<Rightarrow> int \<Rightarrow> (string \<times> cjson) list" where
  "wmd_place cellid tracking_area dog_ssid in_safe_zone now fmd =
     [(''SENT_AT'', JInt 1919191919)]
     @ opt_member ''CELLID'' JInt cellid @ opt_member ''TRACKING_AREA'' JInt tracking_area
     @ (case dog_ssid of None \<Rightarrow> []
        | Some ssid \<Rightarrow> if ssid = [] then []
            else [(''DOG_SSID'', JStr ssid)] @ opt_member ''DOG_IN_SAFE_ZONE'' JBool in_safe_zone)
     @ [(''CRON'', JInt (int now)), (''FMD_STATUS'', JInt fmd)]"

definition wmd_message :: "string \<Rightarrow> (string \<times> cjson) list \<Rightarrow> cjson" where
  "wmd_message mid pl = message_bt 1 mid 29 [(''SUB'', JInt 22), (''PL'', JObj pl)]"

definition json_wheresmydog ::
  "json_lib \<Rightarrow> (int \<Rightarrow> (string \<times> cjson) list \<times> int) \<Rightarrow> string \<Rightarrow> (string \<times> cjson) list \<Rightarrow> string option \<Rightarrow>
   bool \<Rightarrow> ssid_entry list \<Rightarrow> nat \<Rightarrow> int \<times> string option \<times> ssid_entry list" where
  "json_wheresmydog l gps mid place request_id send_gps fifo scanned =
     (if \<not> mid_ok mid then (- EINVAL, None, fifo)
      else if request_id = None then (- EINVAL, None, fifo)
      else
        (let space = CONFIG_MAX_MQTT_MSG_SIZE - 10 - int (length (print_msg l (wmd_message mid place)));
             cron = (if fifo = [] then [] else [(''SSID_CRON'', JInt (int scanned))]);
             space1 = (if fifo = [] then space else space - 25);
             (ss, rest, space2, more1) = add_ssids_to_json l fifo space1;
             (gs, more2) = (if send_gps then gps space2 else ([], 0))
         in (if more1 > 0 \<or> more2 > 0 then 1 else 0,
             Some (print_msg l (wmd_message mid (place @ cron @ ss @ gs))), rest)))"

section \<open>Lemmas\<close>

lemma no_room_nonneg: "0 \<le> r \<Longrightarrow> r < 2 ^ 31 \<Longrightarrow> n < 2 ^ 31 \<Longrightarrow> no_room r n \<longleftrightarrow> r < int n"
  by (simp add: no_room_def word_less_def uint_word_of_int take_bit_int_eq_self unsigned_of_nat
      take_bit_nat_eq_self)

lemma pack_queue: "pack l n item xs r = (js, rest, r', ret) \<Longrightarrow>
   \<exists>sent. xs = sent @ rest \<and> js = map item sent \<and> (ret = 0 \<longleftrightarrow> rest = []) \<and> (ret \<noteq> 0 \<longrightarrow> ret = 1)"
proof (induction xs arbitrary: r js)
  case Nil
  then show ?case by simp
next
  case (Cons x xs)
  show ?case
  proof (cases "no_room r (length (cJSON_PrintPreallocated l (item x) n))")
    case True
    with Cons.prems show ?thesis by (auto simp: Let_def intro!: exI [of _ "[]"])
  next
    case False
    then obtain js' where p: "pack l n item xs (r - int (length (cJSON_PrintPreallocated l (item x) n))) =
        (js', rest, r', ret)" and js: "js = item x # js'"
      using Cons.prems by (auto simp: Let_def split: prod.splits)
    from Cons.IH [OF p] obtain sent where "xs = sent @ rest" "js' = map item sent"
      "ret = 0 \<longleftrightarrow> rest = []" "ret \<noteq> 0 \<longrightarrow> ret = 1" by blast
    then show ?thesis using js by (intro exI [of _ "x # sent"]) simp
  qed
qed

text \<open>The texts of the entries of a message take exactly the space that is gone.\<close>

lemma pack_space:
  assumes "pack l n item xs r = (js, rest, r', ret)" and "0 \<le> r" and "r < 2 ^ 31"
    and "\<And>t. length (cJSON_PrintPreallocated l t n) < 2 ^ 31"
  shows "r' = r - (\<Sum>j \<leftarrow> js. int (length (cJSON_PrintPreallocated l j n))) \<and> 0 \<le> r'"
  using assms
proof (induction xs arbitrary: r js)
  case Nil
  then show ?case by simp
next
  case (Cons x xs)
  let ?t = "length (cJSON_PrintPreallocated l (item x) n)"
  show ?case
  proof (cases "no_room r ?t")
    case True
    with Cons.prems show ?thesis by (auto simp: Let_def)
  next
    case False
    then obtain js' where p: "pack l n item xs (r - int ?t) = (js', rest, r', ret)"
      and js: "js = item x # js'"
      using Cons.prems(1) by (auto simp: Let_def split: prod.splits)
    have "int ?t \<le> r" using False Cons.prems(2-4) by (simp add: no_room_nonneg)
    with Cons.IH [OF p] Cons.prems(3,4) show ?thesis using js by simp
  qed
qed

end
