(* ===== verification/DataQueues.thy ===== *)
theory DataQueues
  imports JsonMsgs
begin

text \<open>
  The queues of data that wait for a message: the log of the application
  (\<^verbatim>\<open>comm_mgr/src/log_telemetry.c\<close>) and the positions of the satellite receiver (\<^verbatim>\<open>c_modules/modem/src/gps.c\<close>).
  Both are a FIFO, a counter that the code keeps beside it, and a heap, of which the model counts the live
  blocks.  What the allocators answer is a parameter.
\<close>

section \<open>A bounded FIFO with a counter\<close>

record 'x counted =
  items :: "'x list"
  counter :: "16 word"
  live :: int

text \<open>
  \<open>while (count >= limit) { x = k_fifo_get(K_NO_WAIT); if (x) { free(x); count--; } }\<close>, where freeing an
  entry frees \<open>k\<close> blocks.  With a counter that is too high for an empty queue the loop does not end: then
  the value is \<open>None\<close>.
\<close>

partial_function (option) drop_oldest :: "int \<Rightarrow> nat \<Rightarrow> 'x counted \<Rightarrow> 'x counted option" where
  "drop_oldest k limit q =
     (if unat (counter q) < limit then Some q
      else case items q of
        [] \<Rightarrow> drop_oldest k limit q
      | x # xs \<Rightarrow>
          drop_oldest k limit (q\<lparr>items := xs, counter := counter q - 1, live := live q - k\<rparr>))"

definition clear_queue :: "int \<Rightarrow> 'x counted \<Rightarrow> 'x counted" where
  "clear_queue k q = q\<lparr>items := [], counter := 0, live := live q - k * int (length (items q))\<rparr>"

section \<open>The log\<close>

abbreviation CONFIG_MAX_TELEMETRY_LOG_FIFO_SIZE :: nat where
  "CONFIG_MAX_TELEMETRY_LOG_FIFO_SIZE \<equiv> 32"
abbreviation CONFIG_MAX_TELEMETRY_LOG_MSG_SIZE :: nat where
  "CONFIG_MAX_TELEMETRY_LOG_MSG_SIZE \<equiv> 256"

record log_entry =
  le_log :: string
  le_type :: int
  le_level :: int
  le_timestamp :: nat

type_synonym log_queue = "log_entry counted"

definition new_log_entry :: "string \<Rightarrow> int \<Rightarrow> int \<Rightarrow> nat \<Rightarrow> log_entry" where
  "new_log_entry msg level typ now =
     \<lparr>le_log = take (CONFIG_MAX_TELEMETRY_LOG_MSG_SIZE - 1) msg, le_type = typ, le_level = level,
      le_timestamp = now\<rparr>"

text \<open>\<open>mem1\<close> and \<open>mem2\<close>: whether the heap has room for the entry and for its text.\<close>

definition log_telemetry_add ::
  "bool \<Rightarrow> bool \<Rightarrow> nat \<Rightarrow> string \<Rightarrow> int \<Rightarrow> int \<Rightarrow> log_queue \<Rightarrow> (int \<times> log_queue) option" where
  "log_telemetry_add mem1 mem2 now msg level typ q =
     (case drop_oldest 2 CONFIG_MAX_TELEMETRY_LOG_FIFO_SIZE q of
        None \<Rightarrow> None
      | Some q1 \<Rightarrow>
          if \<not> mem1 then Some (- ENOMEM, q1)
          else if \<not> mem2 then Some (- ENOMEM, q1)
          else Some (0, q1\<lparr>items := items q1 @ [new_log_entry msg level typ now],
                 counter := counter q1 + 1, live := live q1 + 2\<rparr>))"

definition format_telem_log_string :: "log_entry \<Rightarrow> string" where
  "format_telem_log_string e =
     take (CONFIG_MAX_TELEMETRY_LOG_MSG_SIZE + 99)
       (show_nat (le_timestamp e) @ '','' @ show_int (le_type e) @ '','' @ le_log e)"

definition log_json :: "log_entry \<Rightarrow> cjson" where
  "log_json e = JStr (format_telem_log_string e)"

definition telem_log_clear :: "log_queue \<Rightarrow> log_queue" where
  "telem_log_clear q = clear_queue 2 q"

definition telem_log_count :: "log_queue \<Rightarrow> int" where
  "telem_log_count q = uint (counter q)"

text \<open>After the last entry the queue is cleared, which also sets the counter to 0.\<close>

definition telem_log_get_json_list ::
  "json_lib \<Rightarrow> log_queue \<Rightarrow> int \<Rightarrow> (string \<times> cjson) list \<times> log_queue \<times> int \<times> int" where
  "telem_log_get_json_list l q remaining =
     (if items q = [] then ([], q, remaining, - ENOENT)
      else if remaining < 64 then ([], q, remaining, - ENOMEM)
      else
        (let (js, rest, r, ret) =
               pack l (CONFIG_MAX_TELEMETRY_LOG_MSG_SIZE + 100) log_json (items q) (remaining - 10);
             q1 = q\<lparr>items := rest, counter := counter q - of_nat (length js),
                    live := live q - 2 * int (length js)\<rparr>
         in ([(''LOGS'', JArr js)], (if ret = 1 then q1 else telem_log_clear q1), r, ret)))"

section \<open>Positions\<close>

abbreviation CONFIG_MAX_GPS_DATA_POINTS :: nat where "CONFIG_MAX_GPS_DATA_POINTS \<equiv> 32"

record gps_info =
  gi_latitude :: "64 word"
  gi_longitude :: "64 word"
  gi_altitude :: "32 word"
  gi_accuracy :: "16 word"
  gi_timestamp :: "64 word"

type_synonym gps_queue = "gps_info counted"

text \<open>
  \<open>mem\<close>: the heap has room; \<open>put\<close>: \<open>k_fifo_alloc_put\<close> gets the memory of the queue's node from the thread's
  resource pool.  Its result is not looked at: the counter goes up and the block is live without it.
\<close>

definition gps_add :: "bool \<Rightarrow> bool \<Rightarrow> gps_info \<Rightarrow> gps_queue \<Rightarrow> gps_queue option" where
  "gps_add mem put g q =
     (case drop_oldest 1 CONFIG_MAX_GPS_DATA_POINTS q of
        None \<Rightarrow> None
      | Some q1 \<Rightarrow>
          if \<not> mem then Some q1
          else Some (q1\<lparr>items := (if put then items q1 @ [g] else items q1),
                 counter := counter q1 + 1, live := live q1 + 1\<rparr>))"

text \<open>
  The members of a position are numbers that are rounded in single precision (\<open>round_float\<close>), which is
  the parameter \<open>rnd x d\<close>: \<open>d\<close> digits of \<open>x\<close>.
\<close>

definition gps_json :: "(rat \<Rightarrow> nat \<Rightarrow> rat) \<Rightarrow> gps_info \<Rightarrow> cjson" where
  "gps_json rnd g =
     JObj [(''LAT'', JNum (rnd (of_int (sint (gi_latitude g)) / 1000000) 6)),
       (''LONG'', JNum (rnd (of_int (sint (gi_longitude g)) / 1000000) 6)),
       (''ALT'', JNum (rnd (of_int (sint (gi_altitude g)) / 100) 2)),
       (''CRON'', JInt (uint (gi_timestamp g))),
       (''ACC'', JNum (rnd (of_int (uint (gi_accuracy g)) / 100) 2))]"

definition no_position :: "gps_info \<Rightarrow> bool" where
  "no_position g \<longleftrightarrow> gi_latitude g = 0 \<or> gi_longitude g = 0"

text \<open>An entry without a position is freed, and the counter stays as it is.\<close>

fun gps_pack ::
  "json_lib \<Rightarrow> (rat \<Rightarrow> nat \<Rightarrow> rat) \<Rightarrow> gps_info list \<Rightarrow> int \<Rightarrow>
   cjson list \<times> gps_info list \<times> int \<times> int" where
  "gps_pack l rnd [] remaining = ([], [], remaining, 0)"
| "gps_pack l rnd (g # gs) remaining =
     (if no_position g then gps_pack l rnd gs remaining
      else
        (let t = cJSON_PrintPreallocated l (gps_json rnd g) 128
         in if no_room remaining (length t) then ([], g # gs, remaining, 1)
            else
              (let (js, rest, r, ret) = gps_pack l rnd gs (remaining - int (length t))
               in (gps_json rnd g # js, rest, r, ret))))"

definition gps_clear :: "gps_queue \<Rightarrow> gps_queue" where
  "gps_clear q = clear_queue 1 q"

definition gps_get_count :: "gps_queue \<Rightarrow> int" where
  "gps_get_count q = uint (counter q)"

definition gps_get_last :: "gps_queue \<Rightarrow> gps_info option" where
  "gps_get_last q = (if items q = [] then None else Some (last (items q)))"

definition gps_get_json_list ::
  "json_lib \<Rightarrow> (rat \<Rightarrow> nat \<Rightarrow> rat) \<Rightarrow> gps_queue \<Rightarrow> int \<Rightarrow>
   (string \<times> cjson) list \<times> gps_queue \<times> int \<times> int" where
  "gps_get_json_list l rnd q remaining =
     (if items q = [] then ([], q, remaining, -1)
      else if remaining < 10 then ([], q, remaining, - ENOMEM)
      else
        (let (js, rest, r, ret) = gps_pack l rnd (items q) (remaining - 9);
             q1 = q\<lparr>items := rest, counter := counter q - of_nat (length js),
                    live := live q - int (length (items q) - length rest)\<rparr>
         in ([(''GPS'', JArr js)], (if ret = 1 then q1 else gps_clear q1), r, ret)))"

section \<open>Dropping old entries\<close>

text \<open>A queue whose counter is its length, and a counter that is too high.\<close>

definition counted_ok :: "int \<Rightarrow> nat \<Rightarrow> 'x counted \<Rightarrow> bool" where
  "counted_ok k limit q \<longleftrightarrow>
     unat (counter q) = length (items q) \<and> length (items q) \<le> limit \<and> live q = k * int (length (items q))"

lemma drop_oldest_below: "unat (counter q) < limit \<Longrightarrow> drop_oldest k limit q = Some q"
  by (subst drop_oldest.simps) simp

lemma drop_oldest_stuck:
  assumes "items q = []" and "limit \<le> unat (counter q)"
  shows "drop_oldest k limit q = None"
proof -
  have "items q = [] \<longrightarrow> unat (counter q) < limit" if d: "drop_oldest k limit q = Some r" for r
  proof (rule drop_oldest.raw_induct
      [where P = "\<lambda>k limit q r. items q = [] \<longrightarrow> unat (counter q) < limit", OF _ d], goal_cases)
    case (1 drop k limit q r)
    then show ?case by (cases "unat (counter q) < limit") auto
  qed
  with assms show ?thesis by (cases "drop_oldest k limit q") auto
qed

lemma counted_ok_pop:
  "counted_ok k limit q \<Longrightarrow> items q = x # xs \<Longrightarrow>
   counted_ok k limit (q\<lparr>items := xs, counter := counter q - 1, live := live q - k\<rparr>)"
  by (auto simp: counted_ok_def unat_sub_if' algebra_simps)

lemma drop_oldest_ok:
  assumes "counted_ok k limit q" and "0 < limit"
  shows "drop_oldest k limit q =
    Some (if length (items q) < limit then q
          else q\<lparr>items := tl (items q), counter := counter q - 1, live := live q - k\<rparr>)"
proof (cases "length (items q) < limit")
  case True
  then show ?thesis using assms by (simp add: drop_oldest_below counted_ok_def)
next
  case False
  then have full: "length (items q) = limit" using assms by (simp add: counted_ok_def)
  then obtain x xs where q: "items q = x # xs" using assms(2) by (cases "items q") auto
  let ?r = "q\<lparr>items := xs, counter := counter q - 1, live := live q - k\<rparr>"
  have "counted_ok k limit ?r" using assms(1) q by (rule counted_ok_pop)
  then have "unat (counter ?r) < limit" using full q by (simp add: counted_ok_def)
  then have "drop_oldest k limit ?r = Some ?r" by (rule drop_oldest_below)
  then show ?thesis
    using full q assms by (subst drop_oldest.simps) (simp add: counted_ok_def)
qed

lemma counted_ok_add:
  assumes "counted_ok k limit q" and "length (items q) < limit" and "limit < 2 ^ 16"
  shows "counted_ok k limit (q\<lparr>items := items q @ [x], counter := counter q + 1, live := live q + k\<rparr>)"
proof -
  have "unat (counter q) + 1 < 2 ^ 16" using assms by (simp add: counted_ok_def)
  then have "unat (counter q + 1) = Suc (unat (counter q))" by (simp add: unat_word_ariths)
  then show ?thesis using assms by (simp add: counted_ok_def algebra_simps)
qed

end
