(* ===== verification/Telemetry.thy ===== *)
theory Telemetry
  imports DataQueues
begin

text \<open>
  The telemetry message (\<open>json_telemetry\<close> of \<^verbatim>\<open>d1_json.c\<close>): its fixed part, the reason of the last reset, and the
  lists that share the space that is left.  Numbers that the source rounds in single precision
  (\<open>roundf_val\<close>) are the parameter \<open>rnd\<close>; the queue of activities is the list of its decoded records.
\<close>

section \<open>The reason of the last reset\<close>

fun show_hex :: "nat \<Rightarrow> string" where
  "show_hex n =
     (let d = [''0123456789abcdef'' ! (n mod 16)] in if n < 16 then d else show_hex (n div 16) @ d)"

declare show_hex.simps [simp del]

text \<open>The bits of the register are those of the chip's header file.\<close>

record reset_masks =
  RESETREAS_NFC :: "32 word"
  RESETREAS_RESETPIN :: "32 word"
  RESETREAS_SREQ :: "32 word"
  RESETREAS_VBUS :: "32 word"
  RESETREAS_DOG0 :: "32 word"
  RESETREAS_DOG1 :: "32 word"

record reset_state =
  resetreas :: "32 word"
  rest_reason_found_once :: bool

definition reset_text :: "reset_masks \<Rightarrow> 32 word \<Rightarrow> string option" where
  "reset_text m reas =
     (if reas AND RESETREAS_NFC m \<noteq> 0 then Some ''Wake up by NFC field detect''
      else if reas AND RESETREAS_RESETPIN m \<noteq> 0 then Some ''Reset by pin-reset''
      else if reas AND RESETREAS_SREQ m \<noteq> 0 then Some ''Reset by soft-reset''
      else if reas AND RESETREAS_VBUS m \<noteq> 0 then Some ''Reset by VBUS''
      else if reas AND RESETREAS_DOG0 m \<noteq> 0 then Some ''Reset by internal watchdog0''
      else if reas AND RESETREAS_DOG1 m \<noteq> 0 then Some ''Reset by internal watchdog1''
      else if reas \<noteq> 0 then Some (''Reset by a different source '' @ show_hex (unat reas))
      else None)"

text \<open>The reason is answered once; without one in the register the power chip's record is asked.\<close>

definition check_reset_reason ::
  "reset_masks \<Rightarrow> string option \<Rightarrow> reset_state \<Rightarrow> string option \<times> reset_state" where
  "check_reset_reason m pmic_reason s =
     (if rest_reason_found_once s then (None, s)
      else
        (case reset_text m (resetreas s) of
           Some t \<Rightarrow> (Some t, s\<lparr>resetreas := 0, rest_reason_found_once := True\<rparr>)
         | None \<Rightarrow> (pmic_reason, s\<lparr>resetreas := 0, rest_reason_found_once := True\<rparr>)))"

section \<open>The activities\<close>

record inference =
  inf_activity :: int
  inf_reps :: rat
  inf_probability :: rat
  inf_start :: nat
  inf_end :: nat
  inf_am :: rat
  inf_as :: rat
  inf_gm :: rat
  inf_gs :: rat

definition ml_json :: "(rat \<Rightarrow> nat \<Rightarrow> rat) \<Rightarrow> inference \<Rightarrow> cjson" where
  "ml_json rnd i =
     JObj [(''CA'', JInt (inf_activity i)), (''PR'', JNum (rnd (inf_reps i) 3)),
       (''PP'', JNum (rnd (inf_probability i) 3)), (''ST'', JInt (int (inf_start i div 1000))),
       (''TS'', JInt (((int (inf_end i) - int (inf_start i)) mod 2 ^ 64) div 1000)),
       (''AM'', JNum (rnd (inf_am i) 3)), (''AS'', JNum (rnd (inf_as i) 3)),
       (''GM'', JNum (rnd (inf_gm i) 3)), (''GS'', JNum (rnd (inf_gs i) 3))]"

text \<open>
  An entry is added while it and the end time (20 bytes) fit.  The result is the entries, the rest of the
  queue, the space that is left, the last end time, and 1 when the message is full.
\<close>

fun ml_pack ::
  "json_lib \<Rightarrow> (rat \<Rightarrow> nat \<Rightarrow> rat) \<Rightarrow> inference list \<Rightarrow> int \<Rightarrow> nat \<Rightarrow>
   cjson list \<times> inference list \<times> int \<times> nat \<times> int" where
  "ml_pack l rnd [] remaining end_time = ([], [], remaining, end_time, 0)"
| "ml_pack l rnd (i # is) remaining end_time =
     (let t = cJSON_PrintPreallocated l (ml_json rnd i) 256
      in if no_room remaining (length t + 20) then ([], i # is, remaining, end_time, 1)
         else
           (let (js, rest, r, e, ret) = ml_pack l rnd is (remaining - int (length t)) (inf_end i)
            in (ml_json rnd i # js, rest, r, e, ret)))"

definition ml_head :: "string \<Rightarrow> inference \<Rightarrow> (string \<times> cjson) list" where
  "ml_head ver i =
     [(''ST'', JInt (int (inf_start i div 1000))), (''MV'', JStr ver), (''AV'', JStr ver),
      (''RV'', JStr ver)]"

definition ml_get_json_list ::
  "json_lib \<Rightarrow> (rat \<Rightarrow> nat \<Rightarrow> rat) \<Rightarrow> string \<Rightarrow> inference list \<Rightarrow> int \<Rightarrow>
   (string \<times> cjson) list \<times> inference list \<times> int \<times> int" where
  "ml_get_json_list l rnd ver q remaining =
     (case q of
        [] \<Rightarrow> ([], [], remaining, 0)
      | i # is \<Rightarrow>
          if remaining < 200 then ([], q, remaining, 1)
          else
            (let head = ml_head ver i;
                 space = remaining - int (length
                   (cJSON_PrintPreallocated l (JObj (head @ [(''AT'', JArr [])])) 256));
                 (js, rest, r, e, ret) = ml_pack l rnd q space 0;
                 tail = (if js = [] then [] else [(''ET'', JInt (int (e div 1000)))])
             in ([(''ML'', JObj (head @ [(''AT'', JArr js)] @ tail))], rest,
                 (if js = [] then r else r - 20), ret)))"

section \<open>The message\<close>

datatype radio_t = RADIO_TYPE_WIFI | RADIO_TYPE_BLE | RADIO_TYPE_LTE

record tele_in =
  ti_mid :: string
  ti_soc :: rat
  ti_voltage :: rat
  ti_temp :: rat
  ti_charging :: bool
  ti_radio :: radio_t
  ti_da_ver :: "8 word list"
  ti_lte_ver :: "8 word list"
  ti_app_ver :: "8 word list"
  ti_ap_name :: string
  ti_ap_is_safe :: bool
  ti_usb :: bool
  ti_rssi :: int
  ti_chunk :: int
  ti_now :: nat
  ti_uptime :: nat
  ti_movement :: int
  ti_modem_on :: bool
  ti_modem_rssi :: int

record tele_state = reset_state +
  telemetry_count :: "32 word"
  tele_ssids :: "ssid_entry list"
  tele_ml :: "inference list"
  tele_logs :: log_queue

abbreviation RSSI_NOT_CONNECTED :: int where "RSSI_NOT_CONNECTED \<equiv> 100"

definition power_members ::
  "(rat \<Rightarrow> nat \<Rightarrow> rat) \<Rightarrow> tele_in \<Rightarrow> string option \<Rightarrow> (string \<times> cjson) list" where
  "power_members rnd i rr =
     [(''BATT_S'', JNum (rnd (ti_soc i) 1)), (''BATT_V'', JNum (rnd (ti_voltage i) 2)),
      (''BATT_T'', JNum (rnd (ti_temp i) 2)), (''CHARGING'', JBool (ti_charging i)),
      (''PLUG'', JBool (ti_usb i))]
     @ opt_member ''R_REASON'' JStr rr"

definition version_members :: "tele_in \<Rightarrow> string option \<Rightarrow> (string \<times> cjson) list" where
  "version_members i rr =
     (if rr = None then []
      else [(''VER'', JObj [(''5340_VER'', JStr (ver_of (ti_app_ver i))),
              (''9160_VER'', JStr (ver_of (ti_lte_ver i))),
              (''WIFI_VER'', JStr (ver_of (ti_da_ver i)))])])"

definition debug_members :: "tele_in \<Rightarrow> 32 word \<Rightarrow> (string \<times> cjson) list" where
  "debug_members i n =
     (if ti_chunk i = 0
      then [(''MOVEMENT'', JInt (ti_movement i)), (''UPTIME'', JInt (int (ti_uptime i)))] else [])
     @ [(''MSG_NUM'', JInt (uint n)), (''CHUNK'', JInt (ti_chunk i))]"

text \<open>Over Wi-Fi the name of the access point is needed.\<close>

definition radio_members :: "tele_in \<Rightarrow> (string \<times> cjson) list option" where
  "radio_members i =
     (case ti_radio i of
        RADIO_TYPE_WIFI \<Rightarrow>
          if ti_ap_name i = [] then None
          else Some ([(''RADIO'', JStr ''WIFI''), (''AP'', JStr (ti_ap_name i)),
                 (''APS'', JBool (ti_ap_is_safe i))]
                 @ (if ti_rssi i \<noteq> RSSI_NOT_CONNECTED then [(''RSSI'', JInt (ti_rssi i))] else []))
      | RADIO_TYPE_LTE \<Rightarrow>
          Some (if ti_modem_on i
                then [(''RADIO'', JStr ''LTE''), (''RSSI'', JInt (ti_modem_rssi i))]
                else [(''RADIO'', JStr ''UNKNOWN'')])
      | RADIO_TYPE_BLE \<Rightarrow> Some [(''RADIO'', JStr ''BLE'')])"

definition tele_message :: "tele_in \<Rightarrow> (string \<times> cjson) list \<Rightarrow> cjson" where
  "tele_message i xtr =
     message_tb 5 (ti_mid i) 1
       [(''DVI'', JObj [(''MOD'', JStr ''DogCollar''), (''HWR'', JStr ''0.1.0''),
          (''FWR'', JStr (ver_of (ti_app_ver i))), (''TZ'', JStr ''US/Pacific''),
          (''XTR'', JObj xtr)])]"

definition tele_fixed ::
  "(rat \<Rightarrow> nat \<Rightarrow> rat) \<Rightarrow> tele_in \<Rightarrow> string option \<Rightarrow> 32 word \<Rightarrow> (string \<times> cjson) list \<Rightarrow>
   (string \<times> cjson) list" where
  "tele_fixed rnd i rr n radio =
     [(''JSON_VER'', JStr ''1.4.0''), (''SUB'', JInt 4), (''CRON'', JInt (int (ti_now i))),
      (''POWER'', JObj (power_members rnd i rr))]
     @ version_members i rr @ [(''DEBUG'', JObj (debug_members i n))] @ radio"

text \<open>
  The result is 1 when a list did not fit, 0 when all was said, negative without a message.  A
  message that is refused for the missing access point has counted and has used up the reset reason.
\<close>

definition json_telemetry ::
  "json_lib \<Rightarrow> (rat \<Rightarrow> nat \<Rightarrow> rat) \<Rightarrow> reset_masks \<Rightarrow> string option \<Rightarrow> string \<Rightarrow> tele_in \<Rightarrow> tele_state \<Rightarrow>
   (int \<times> string option) \<times> tele_state" where
  "json_telemetry l rnd m pmic_reason mlver i s =
     (if \<not> mid_ok (ti_mid i) then ((- EINVAL, None), s)
      else
        (let (rr, rs) = check_reset_reason m pmic_reason
               \<lparr>resetreas = resetreas s, rest_reason_found_once = rest_reason_found_once s\<rparr>;
             s1 = s\<lparr>resetreas := resetreas rs, rest_reason_found_once := rest_reason_found_once rs,
                    telemetry_count := telemetry_count s + 1\<rparr>
         in case radio_members i of
              None \<Rightarrow> ((- EINVAL, None), s1)
            | Some radio \<Rightarrow>
                (let fixed = tele_fixed rnd i rr (telemetry_count s) radio;
                     space = CONFIG_MAX_MQTT_MSG_SIZE - 10 - int (length (print_msg l (tele_message i fixed)));
                     (ss, ssids, space1, more1) = add_ssids_to_json l (tele_ssids s1) space;
                     (ml, mls, space2, more2) = ml_get_json_list l rnd mlver (tele_ml s1) space1;
                     (lg, logs, space3, more3) = telem_log_get_json_list l (tele_logs s1) space2
                 in ((if more1 > 0 \<or> more2 > 0 \<or> more3 > 0 then 1 else 0,
                      Some (print_msg l (tele_message i (fixed @ ss @ ml @ lg)))),
                     s1\<lparr>tele_ssids := ssids, tele_ml := mls, tele_logs := logs\<rparr>))))"

section \<open>The whole report\<close>

text \<open>
  \<open>commMgr_queue_telemetry\<close> makes messages while the result is positive, with the chunk number counted up,
  and queues what the pointer \<open>json\<close> shows: a call that makes none leaves the text of the one before.  The
  loop may not end; \<open>None\<close> then.
\<close>

partial_function (option) telemetry_chunks ::
  "(int \<Rightarrow> 's \<Rightarrow> (int \<times> string option) \<times> 's) \<Rightarrow> string option \<Rightarrow> int \<Rightarrow> 's \<Rightarrow> (string list \<times> 's) option" where
  "telemetry_chunks f json chunk s =
     (let ((ret, msg), t) = f chunk s; json1 = (if msg = None then json else msg)
      in case json1 of
           None \<Rightarrow> Some ([], t)
         | Some m \<Rightarrow>
             if ret > 0 then
               Option.bind (telemetry_chunks f json1 (chunk + 1) t) (\<lambda>(ms, u). Some (m # ms, u))
             else Some ([m], t))"

end
