(* ===== verification/TelemetryProps.thy ===== *)
theory TelemetryProps
  imports Telemetry
begin

text \<open>
  What the data of a report is subject to: the queues of log and positions, the lists that share a message,
  the end of the loop that makes the messages of a report, and the letters of the connectivity message.
\<close>

section \<open>The loop over the messages of a report\<close>

definition waiting_data :: "tele_state \<Rightarrow> nat" where
  "waiting_data s = length (tele_ssids s) + length (tele_ml s) + length (items (tele_logs s))"

text \<open>Every printed text fits into its buffer, and the fixed part of the message into 1400 bytes.\<close>

definition prints_fit :: "json_lib \<Rightarrow> (rat \<Rightarrow> nat \<Rightarrow> rat) \<Rightarrow> tele_in \<Rightarrow> bool" where
  "prints_fit l rnd i \<longleftrightarrow>
     (\<forall>t n. length (cJSON_PrintPreallocated l t n) \<le> n) \<and>
     (\<forall>c rr n radio. length (print_msg l (tele_message i
        (tele_fixed rnd (i\<lparr>ti_chunk := c\<rparr>) rr n radio))) \<le> 1400)"

lemma pack_progress:
  assumes "\<And>t. length (cJSON_PrintPreallocated l t n) \<le> n" and "int n \<le> r" and "r < 2 ^ 31"
    and "pack l n item xs r = (js, rest, r', ret)"
  shows "length js + length rest = length xs" and "ret > 0 \<Longrightarrow> js \<noteq> []"
    and "xs = [] \<Longrightarrow> r' = r \<and> ret = 0"
proof -
  from pack_queue [OF assms(4)] obtain got where got: "xs = got @ rest" "js = map item got"
    "ret = 0 \<longleftrightarrow> rest = []" by blast
  show "length js + length rest = length xs" using got by simp
  show "xs = [] \<Longrightarrow> r' = r \<and> ret = 0" using assms(4) by simp
  show "js \<noteq> []" if "ret > 0"
  proof (cases xs)
    case Nil
    then show ?thesis using assms(4) that by simp
  next
    case (Cons x ys)
    have "int (length (cJSON_PrintPreallocated l (item x) n)) \<le> r"
      using assms(1) [of "item x"] assms(2) by linarith
    then have "\<not> no_room r (length (cJSON_PrintPreallocated l (item x) n))"
      using assms(3) by (subst no_room_nonneg) auto
    then show ?thesis using assms(4) Cons by (auto simp: Let_def split: prod.splits)
  qed
qed

lemma ml_pack_progress:
  "ml_pack l rnd xs r e = (js, rest, r', e', ret) \<Longrightarrow>
   length js + length rest = length xs \<and> (rest = [] \<longrightarrow> ret = 0)"
  by (induction xs arbitrary: r e js) (auto simp: Let_def split: if_splits prod.splits)

lemma ml_pack_first:
  assumes "\<And>t. length (cJSON_PrintPreallocated l t 256) \<le> 256" and "276 \<le> r" and "r < 2 ^ 31"
    and "ml_pack l rnd (x # xs) r e = (js, rest, r', e', ret)"
  shows "js \<noteq> []"
proof -
  have "\<not> no_room r (length (cJSON_PrintPreallocated l (ml_json rnd x) 256) + 20)"
    using assms(1) [of "ml_json rnd x"] assms(2,3) by (subst no_room_nonneg) auto
  then show ?thesis using assms(4) by (auto simp: Let_def split: prod.splits)
qed

lemma add_ssids_progress:
  assumes "\<And>t n. length (cJSON_PrintPreallocated l t n) \<le> n" and "570 \<le> r" and "r < 2 ^ 31"
    and "add_ssids_to_json l xs r = (ss, rest, r', ret)"
  shows "length rest \<le> length xs" and "ret > 0 \<Longrightarrow> length rest < length xs"
    and "length rest = length xs \<Longrightarrow> r' = r \<and> ret \<le> 0"
proof -
  have *: "length rest \<le> length xs \<and> (ret > 0 \<longrightarrow> length rest < length xs) \<and>
      (length rest = length xs \<longrightarrow> r' = r \<and> ret \<le> 0)"
  proof (cases "xs = []")
    case True
    then show ?thesis using assms(4) by (simp add: add_ssids_to_json_def)
  next
    case False
    obtain js where p: "pack l 256 ssid_json xs (r - 11) = (js, rest, r', ret)"
      using assms(2,4) False by (auto simp: add_ssids_to_json_def Let_def split: prod.splits)
    note g = pack_progress [OF assms(1) _ _ p]
    have "js \<noteq> []"
    proof (cases "ret > 0")
      case False
      then have "rest = []" using pack_queue [OF p] by auto
      then show ?thesis using g(1) assms(2,3) \<open>xs \<noteq> []\<close> by auto
    qed (use g(2) assms(2,3) in simp)
    then have "0 < length js" by simp
    moreover have "length js + length rest = length xs" using g(1) assms(2,3) by simp
    ultimately show ?thesis by linarith
  qed
  then show "length rest \<le> length xs" "ret > 0 \<Longrightarrow> length rest < length xs"
    "length rest = length xs \<Longrightarrow> r' = r \<and> ret \<le> 0" by auto
qed

lemma ml_progress:
  assumes "\<And>t n. length (cJSON_PrintPreallocated l t n) \<le> n"
    and "ml_get_json_list l rnd ver xs r = (ml, rest, r', ret)"
  shows "length rest \<le> length xs"
    and "570 \<le> r \<Longrightarrow> r < 2 ^ 31 \<Longrightarrow> length rest = length xs \<Longrightarrow> r' = r \<and> ret \<le> 0"
proof -
  have *: "length rest \<le> length xs \<and>
      (570 \<le> r \<and> r < 2 ^ 31 \<longrightarrow> length rest = length xs \<longrightarrow> r' = r \<and> ret \<le> 0)"
  proof (cases xs)
    case Nil
    then show ?thesis using assms(2) by (simp add: ml_get_json_list_def)
  next
    case (Cons x ys)
    let ?space = "r - int (length (cJSON_PrintPreallocated l
      (JObj (ml_head ver x @ [(''AT'', JArr [])])) 256))"
    show ?thesis
    proof (cases "r < 200")
      case True
      then show ?thesis using assms(2) Cons by (simp add: ml_get_json_list_def)
    next
      case False
      then obtain js r2 e where p: "ml_pack l rnd xs ?space 0 = (js, rest, r2, e, ret)"
        using assms(2) Cons by (auto simp: ml_get_json_list_def Let_def split: prod.splits)
      have len: "length js + length rest = length xs" using ml_pack_progress [OF p] by simp
      have "js \<noteq> []" if "570 \<le> r" "r < 2 ^ 31"
        using ml_pack_first [OF assms(1) _ _ p [unfolded Cons]]
          assms(1) [of "JObj (ml_head ver x @ [(''AT'', JArr [])])" 256] that by auto
      then show ?thesis using len by (cases js) auto
    qed
  qed
  then show "length rest \<le> length xs" "570 \<le> r \<Longrightarrow> r < 2 ^ 31 \<Longrightarrow> length rest = length xs \<Longrightarrow> r' = r \<and> ret \<le> 0" by auto
qed

lemma log_progress:
  assumes "\<And>t n. length (cJSON_PrintPreallocated l t n) \<le> n"
    and "telem_log_get_json_list l q r = (lg, q', r', ret)"
  shows "length (items q') \<le> length (items q)"
    and "570 \<le> r \<Longrightarrow> r < 2 ^ 31 \<Longrightarrow> length (items q') = length (items q) \<Longrightarrow> ret \<le> 0"
proof -
  have *: "length (items q') \<le> length (items q) \<and>
      (570 \<le> r \<and> r < 2 ^ 31 \<longrightarrow> length (items q') = length (items q) \<longrightarrow> ret \<le> 0)"
  proof (cases "items q = [] \<or> r < 64")
    case True
    then show ?thesis using assms(2) by (auto simp: telem_log_get_json_list_def split: if_splits)
  next
    case False
    obtain js rest r2 ret2 where p: "pack l 356 log_json (items q) (r - 10) = (js, rest, r2, ret2)"
      by (metis prod_cases4)
    then have q': "ret = ret2 \<and> items q' = (if ret2 = 1 then rest else [])"
      using False assms(2) by (auto simp: telem_log_get_json_list_def telem_log_clear_def clear_queue_def)
    from pack_queue [OF p] have len: "length js + length rest = length (items q)" by auto
    have "js \<noteq> []" if "570 \<le> r" "r < 2 ^ 31" "ret2 > 0"
      using pack_progress(2) [OF assms(1) _ _ p] that by simp
    then show ?thesis using q' len False by (cases js) auto
  qed
  then show "length (items q') \<le> length (items q)"
    "570 \<le> r \<Longrightarrow> r < 2 ^ 31 \<Longrightarrow> length (items q') = length (items q) \<Longrightarrow> ret \<le> 0" by auto
qed

lemma json_telemetry_progress:
  assumes fit: "prints_fit l rnd i"
    and "json_telemetry l rnd m pr ver (i\<lparr>ti_chunk := c\<rparr>) s = ((ret, msg), t)" and "ret > 0"
  shows "waiting_data t < waiting_data s"
proof -
  let ?i = "i\<lparr>ti_chunk := c\<rparr>"
  have pf: "length (cJSON_PrintPreallocated l t n) \<le> n" for t n using fit by (simp add: prints_fit_def)
  obtain rr rs where rr: "check_reset_reason m pr
      \<lparr>resetreas = resetreas s, rest_reason_found_once = rest_reason_found_once s\<rparr> = (rr, rs)"
    by (cases "check_reset_reason m pr
      \<lparr>resetreas = resetreas s, rest_reason_found_once = rest_reason_found_once s\<rparr>")
  obtain radio where radio: "radio_members ?i = Some radio" and mid: "mid_ok (ti_mid i)"
    using assms(2,3) rr
    by (cases "radio_members ?i") (auto simp: json_telemetry_def Let_def split: if_splits)
  define r where "r = CONFIG_MAX_MQTT_MSG_SIZE - 10 -
    int (length (print_msg l (tele_message ?i (tele_fixed rnd ?i rr (telemetry_count s) radio))))"
  have tm: "tele_message ?i x = tele_message i x" for x by (simp add: tele_message_def)
  have "length (print_msg l (tele_message i (tele_fixed rnd ?i rr (telemetry_count s) radio))) \<le> 1400"
    using fit by (simp add: prints_fit_def)
  then have r: "570 \<le> r" "r < 2 ^ 31" unfolding r_def tm by (simp_all add: algebra_simps)
  obtain ss ssids r1 more1 where ss: "add_ssids_to_json l (tele_ssids s) r = (ss, ssids, r1, more1)"
    by (metis prod_cases4)
  obtain ml mls r2 more2 where ml: "ml_get_json_list l rnd ver (tele_ml s) r1 = (ml, mls, r2, more2)"
    by (metis prod_cases4)
  obtain lg logs r3 more3 where lg: "telem_log_get_json_list l (tele_logs s) r2 = (lg, logs, r3, more3)"
    by (metis prod_cases4)
  have res: "ret = (if more1 > 0 \<or> more2 > 0 \<or> more3 > 0 then 1 else 0)"
      "tele_ssids t = ssids" "tele_ml t = mls" "tele_logs t = logs"
    using assms(2) rr radio mid ss [unfolded r_def] ml lg
    by (auto simp: json_telemetry_def Let_def)
  note s1 = add_ssids_progress [OF pf r ss]
  have le: "length ssids \<le> length (tele_ssids s)" "length mls \<le> length (tele_ml s)"
    "length (items logs) \<le> length (items (tele_logs s))"
    using s1(1) ml_progress(1) [OF pf ml] log_progress(1) [OF pf lg] by auto
  have "\<not> (length ssids = length (tele_ssids s) \<and> length mls = length (tele_ml s) \<and>
      length (items logs) = length (items (tele_logs s)))"
  proof
    assume eq: "length ssids = length (tele_ssids s) \<and> length mls = length (tele_ml s) \<and>
      length (items logs) = length (items (tele_logs s))"
    then have "r1 = r \<and> more1 \<le> 0" using s1(3) by simp
    moreover from this have "r2 = r1 \<and> more2 \<le> 0" using ml_progress(2) [OF pf ml] r eq by simp
    ultimately have "more1 \<le> 0 \<and> more2 \<le> 0 \<and> more3 \<le> 0"
      using log_progress(2) [OF pf lg] r eq by simp
    then show False using res(1) assms(3) by simp
  qed
  then show ?thesis using le unfolding waiting_data_def res(2-4) by linarith
qed

lemma chunks_end:
  assumes "\<And>c s ret msg t. f c s = ((ret, msg), t) \<Longrightarrow> ret > 0 \<Longrightarrow> (waiting t :: nat) < waiting s"
  shows "\<exists>ms t. telemetry_chunks f json c s = Some (ms, t) \<and> length ms \<le> Suc (waiting s)"
proof (induction "waiting s" arbitrary: json c s rule: less_induct)
  case less
  obtain ret msg t where f: "f c s = ((ret, msg), t)" by (metis prod.exhaust)
  define json1 where "json1 = (if msg = None then json else msg)"
  have step: "telemetry_chunks f json c s = (case json1 of None \<Rightarrow> Some ([], t)
      | Some m \<Rightarrow> if ret > 0 then
          Option.bind (telemetry_chunks f json1 (c + 1) t) (\<lambda>(ms, u). Some (m # ms, u))
        else Some ([m], t))"
    by (subst telemetry_chunks.simps) (simp add: f flip: json1_def)
  show ?case
  proof (cases "json1 = None \<or> ret \<le> 0")
    case True
    then show ?thesis using step by (cases json1) auto
  next
    case False
    then have less_t: "waiting t < waiting s" using assms [OF f] by simp
    from less [OF this, of json1 "c + 1"] obtain ms u
      where "telemetry_chunks f json1 (c + 1) t = Some (ms, u)" "length ms \<le> Suc (waiting t)" by blast
    then show ?thesis using step False less_t by auto
  qed
qed

text \<open>
  The loop that makes the messages of a telemetry report ends: every further message takes at
  least one entry out of the queues of scan results, activities and log lines, so that there are at most
  one more messages than entries, whatever the printed lengths, as long as each text fits its buffer and
  the fixed part leaves 570 bytes.
\<close>

theorem telemetry_report_ends:
  assumes "prints_fit l rnd i"
  shows "\<exists>ms t. telemetry_chunks (\<lambda>c. json_telemetry l rnd m pr ver (i\<lparr>ti_chunk := c\<rparr>)) None 0 s =
      Some (ms, t) \<and> length ms \<le> Suc (waiting_data s)"
  by (rule chunks_end) (rule json_telemetry_progress [OF assms])

definition small_report :: tele_in where
  "small_report =
     \<lparr>ti_mid = ''DT0000000001'', ti_soc = 50, ti_voltage = 4, ti_temp = 20, ti_charging = False,
      ti_radio = RADIO_TYPE_LTE, ti_da_ver = [1, 0, 0], ti_lte_ver = [1, 0, 0], ti_app_ver = [1, 0, 0],
      ti_ap_name = [], ti_ap_is_safe = False, ti_usb = False, ti_rssi = 100, ti_chunk = 0, ti_now = 0,
      ti_uptime = 0, ti_movement = 0, ti_modem_on = True, ti_modem_rssi = -70\<rparr>"

definition short_lib :: json_lib where
  "short_lib = \<lparr>cJSON_PrintPreallocated = (\<lambda>t n. take n ''{}''), base64_encode = (\<lambda>n s. take n s)\<rparr>"

definition pin_reset_state :: tele_state where
  "pin_reset_state =
     \<lparr>resetreas = 2, rest_reason_found_once = False, telemetry_count = 0, tele_ssids = [], tele_ml = [],
      tele_logs = \<lparr>items = [], counter = 0, live = 0\<rparr>\<rparr>"

definition chip_masks :: reset_masks where
  "chip_masks = \<lparr>RESETREAS_NFC = 1, RESETREAS_RESETPIN = 2, RESETREAS_SREQ = 4, RESETREAS_VBUS = 8,
     RESETREAS_DOG0 = 16, RESETREAS_DOG1 = 32\<rparr>"

theorem telemetry_report_ends_witness:
  "\<exists>ms t. telemetry_chunks (\<lambda>c. json_telemetry short_lib (\<lambda>x d. x) chip_masks None ''1.0''
      (small_report\<lparr>ti_chunk := c\<rparr>)) None 0 pin_reset_state = Some (ms, t) \<and>
    length ms \<le> Suc (waiting_data pin_reset_state)"
  by (rule telemetry_report_ends) (auto simp: prints_fit_def short_lib_def print_msg_def)

section \<open>The log\<close>

abbreviation log_ok :: "log_queue \<Rightarrow> bool" where
  "log_ok \<equiv> counted_ok 2 CONFIG_MAX_TELEMETRY_LOG_FIFO_SIZE"

lemma counted_ok_tl:
  assumes "counted_ok k limit q" and "items q \<noteq> []"
  shows "counted_ok k limit (q\<lparr>items := tl (items q), counter := counter q - 1, live := live q - k\<rparr>)"
  using counted_ok_pop [OF assms(1), of "hd (items q)" "tl (items q)"] assms(2) by simp

text \<open>What an addition does: the oldest line makes room when there are 32.\<close>

lemma log_add_ok:
  assumes "log_ok q"
  shows "\<exists>ret q'. log_telemetry_add mem1 mem2 now msg level kd q = Some (ret, q') \<and> log_ok q' \<and>
    items q' = (let kept = (if length (items q) < 32 then items q else tl (items q))
      in if mem1 \<and> mem2 then kept @ [new_log_entry msg level kd now] else kept) \<and>
    (ret = 0 \<longleftrightarrow> mem1 \<and> mem2)"
proof -
  let ?q1 = "if length (items q) < 32 then q
    else q\<lparr>items := tl (items q), counter := counter q - 1, live := live q - 2\<rparr>"
  have d: "drop_oldest 2 32 q = Some ?q1" using assms by (rule drop_oldest_ok) simp
  have ok: "log_ok ?q1 \<and> length (items ?q1) < 32"
  proof (cases "length (items q) < 32")
    case True
    then show ?thesis using assms by simp
  next
    case False
    then have "length (items q) = 32" "items q \<noteq> []" using assms by (auto simp: counted_ok_def)
    then show ?thesis using counted_ok_tl [OF assms] by simp
  qed
  then have "log_ok (?q1\<lparr>items := items ?q1 @ [new_log_entry msg level kd now],
      counter := counter ?q1 + 1, live := live ?q1 + 2\<rparr>)"
    by (intro counted_ok_add) auto
  then show ?thesis using ok
    by (cases "mem1 \<and> mem2") (auto simp: log_telemetry_add_def d Let_def)
qed

text \<open>A sequence of additions that find memory, and what it leaves: the newest 32 lines.\<close>

fun add_lines :: "(string \<times> int \<times> int \<times> nat) list \<Rightarrow> log_queue \<Rightarrow> log_queue option" where
  "add_lines [] q = Some q"
| "add_lines ((msg, level, kd, now) # xs) q =
     Option.bind (log_telemetry_add True True now msg level kd q) (\<lambda>(ret, q'). add_lines xs q')"

definition newest :: "nat \<Rightarrow> 'a list \<Rightarrow> 'a list" where
  "newest n xs = drop (length xs - n) xs"

lemma newest_step: "0 < n \<Longrightarrow> length xs \<le> n \<Longrightarrow>
   newest n (((if length xs < n then xs else tl xs) @ [x]) @ ys) = newest n (xs @ x # ys)"
  by (cases "length xs < n"; cases xs) (simp_all add: newest_def Suc_diff_le drop_Cons')

text \<open>
  The log keeps the newest 32 lines in their order, whatever is added, its counter stays the
  number of lines, and every line is in two blocks of its heap.
\<close>

theorem log_keeps_newest:
  assumes "log_ok q"
  shows "\<exists>q'. add_lines xs q = Some q' \<and> log_ok q' \<and>
    items q' = newest 32 (items q @ map (\<lambda>(msg, level, kd, now). new_log_entry msg level kd now) xs)"
  using assms
proof (induction xs arbitrary: q)
  case Nil
  then show ?case by (simp add: newest_def counted_ok_def)
next
  case (Cons x xs)
  obtain msg level kd now where x: "x = (msg, level, kd, now)" by (cases x)
  let ?e = "new_log_entry msg level kd now"
  from log_add_ok [OF Cons.prems, of True True now msg level kd] obtain ret q1
    where a: "log_telemetry_add True True now msg level kd q = Some (ret, q1)" "log_ok q1"
      "items q1 = (if length (items q) < 32 then items q else tl (items q)) @ [?e]"
    by (auto simp: Let_def)
  from Cons.IH [OF a(2)] obtain q' where q': "add_lines xs q1 = Some q'" "log_ok q'"
    "items q' = newest 32 (items q1 @ map (\<lambda>(msg, level, kd, now). new_log_entry msg level kd now) xs)"
    by blast
  have "length (items q) \<le> 32" using Cons.prems by (simp add: counted_ok_def)
  then have "items q' = newest 32 (items q @ ?e #
      map (\<lambda>(msg, level, kd, now). new_log_entry msg level kd now) xs)"
    unfolding q'(3) a(3) by (intro newest_step) simp_all
  then show ?case using q' a x by simp
qed

theorem log_keeps_newest_witness:
  "\<exists>q'. add_lines [(''a'', 1, 2, 3), (''b'', 1, 2, 4)] \<lparr>items = [], counter = 0, live = 0\<rparr> = Some q' \<and>
    log_ok q' \<and> items q' = [new_log_entry ''a'' 1 2 3, new_log_entry ''b'' 1 2 4]"
  using log_keeps_newest [of "\<lparr>items = [], counter = 0, live = 0\<rparr>" "[(''a'', 1, 2, 3), (''b'', 1, 2, 4)]"]
  by (auto simp: counted_ok_def newest_def)

text \<open>
  The lines of the log leave in their order, each once: a message takes a prefix of the queue,
  the rest waits for the next one, and the counter and the heap follow.
\<close>

theorem log_lines_sent_once:
  assumes "log_ok q" and "telem_log_get_json_list l q remaining = (lg, q', r', ret)"
  shows "log_ok q' \<and> (\<exists>lines. items q = lines @ items q' \<and>
    (lg = [] \<and> lines = [] \<or> lg = [(''LOGS'', JArr (map log_json lines))]))"
proof (cases "items q = [] \<or> remaining < 64")
  case True
  then show ?thesis using assms by (auto simp: telem_log_get_json_list_def split: if_splits)
next
  case False
  obtain js rest r2 ret2 where p: "pack l 356 log_json (items q) (remaining - 10) = (js, rest, r2, ret2)"
    by (metis prod_cases4)
  let ?q1 = "q\<lparr>items := rest, counter := counter q - of_nat (length js), live := live q - 2 * int (length js)\<rparr>"
  from pack_queue [OF p] obtain gone where g: "items q = gone @ rest" "js = map log_json gone"
    "ret2 = 0 \<longleftrightarrow> rest = []" "ret2 \<noteq> 0 \<longrightarrow> ret2 = 1" by blast
  have "unat (counter q - of_nat (length js)) = unat (counter q) - length js"
  proof -
    have "length js \<le> unat (counter q)" "unat (counter q) < 2 ^ 16"
      using assms(1) g(1,2) by (auto simp: counted_ok_def)
    then have "of_nat (length js) \<le> counter q" "unat (of_nat (length js) :: 16 word) = length js"
      by (simp_all add: word_le_nat_alt unat_of_nat)
    then show ?thesis by (simp add: unat_sub)
  qed
  then have ok: "log_ok ?q1" using assms(1) g(1,2) by (auto simp: counted_ok_def)
  have q': "q' = (if ret2 = 1 then ?q1 else telem_log_clear ?q1)" "lg = [(''LOGS'', JArr js)]"
    using False assms(2) p by (auto simp: telem_log_get_json_list_def Let_def)
  then show ?thesis using ok g
    by (auto simp: telem_log_clear_def clear_queue_def counted_ok_def)
qed

theorem log_lines_sent_once_witness:
  "log_ok (fst (snd (telem_log_get_json_list short_lib
     \<lparr>items = [new_log_entry ''a'' 1 2 3], counter = 1, live = 2\<rparr> 100)))"
proof -
  obtain lg q' r' ret where *: "telem_log_get_json_list short_lib
      \<lparr>items = [new_log_entry ''a'' 1 2 3], counter = 1, live = 2\<rparr> 100 = (lg, q', r', ret)"
    by (metis prod_cases4)
  from log_lines_sent_once [OF _ this] show ?thesis unfolding * by (simp add: counted_ok_def)
qed

section \<open>Positions\<close>

fun add_failing :: "gps_info list \<Rightarrow> gps_queue \<Rightarrow> gps_queue option" where
  "add_failing [] q = Some q"
| "add_failing (g # gs) q = Option.bind (gps_add True False g q) (add_failing gs)"

lemma add_failing_counts:
  "unat (counter q) + length gs \<le> 32 \<Longrightarrow> items q = [] \<Longrightarrow>
   \<exists>q'. add_failing gs q = Some q' \<and> items q' = [] \<and> unat (counter q') = unat (counter q) + length gs"
proof (induction gs arbitrary: q)
  case Nil
  then show ?case by simp
next
  case (Cons g gs)
  let ?q = "q\<lparr>counter := counter q + 1, live := live q + 1\<rparr>"
  have "gps_add True False g q = Some ?q"
    using Cons.prems by (simp add: gps_add_def drop_oldest_below)
  moreover have "unat (counter q + 1) = Suc (unat (counter q))"
    using Cons.prems by (simp add: unat_word_ariths)
  ultimately show ?case using Cons.IH [of ?q] Cons.prems by simp
qed

text \<open>
  The result of \<open>k_fifo_alloc_put\<close> is not looked at: after 32 positions for which the resource pool
  of the thread had no memory the counter is 32 and the queue empty, and the next \<open>gps_add\<close> never returns.
\<close>

theorem gps_add_hangs:
  assumes "length gs = 32"
  shows "\<exists>q. add_failing gs \<lparr>items = [], counter = 0, live = 0\<rparr> = Some q \<and> gps_add mem put g q = None"
  using add_failing_counts [of "\<lparr>items = [], counter = 0, live = 0\<rparr>" gs] assms
  by (auto simp: gps_add_def drop_oldest_stuck)

theorem gps_add_hangs_witness:
  "\<exists>q. add_failing (replicate 32 \<lparr>gi_latitude = 1, gi_longitude = 1, gi_altitude = 1, gi_accuracy = 1,
      gi_timestamp = 1\<rparr>) \<lparr>items = [], counter = 0, live = 0\<rparr> = Some q \<and>
    gps_add True True \<lparr>gi_latitude = 1, gi_longitude = 1, gi_altitude = 1, gi_accuracy = 1,
      gi_timestamp = 1\<rparr> q = None"
  by (rule gps_add_hangs) simp

section \<open>The connectivity message\<close>

fun letters :: "(string \<times> cjson) list \<Rightarrow> nat" where
  "letters [] = 0"
| "letters ((k, JStr v) # ms) = length v + letters ms"
| "letters (_ # ms) = letters ms"

lemma conn_amount_over:
  assumes "conn_amount r \<le> r"
  shows "conn_amount r = 100 \<or> 100 \<le> r - conn_amount r \<longleftrightarrow> 100 \<le> r"
proof (cases "r < 100")
  case True
  then show ?thesis using assms by (auto simp: conn_amount_def)
next
  case False
  then have "100 * (r div 100) + r mod 100 = r" "1 \<le> r div 100" by simp_all
  then have "r mod 100 \<noteq> 0 \<Longrightarrow> 100 \<le> r - r mod 100" by linarith
  then show ?thesis using False by (auto simp: conn_amount_def)
qed

lemma conn_members_letters:
  "100 \<le> a \<Longrightarrow> a \<le> n \<Longrightarrow> conn_members rnd i a n = (ms, over) \<Longrightarrow>
   letters ms = n - a \<and> (over \<longleftrightarrow> 100 \<le> n - a)"
proof (induction rnd i a n arbitrary: ms over rule: conn_members.induct)
  case (1 rnd i a n)
  show ?case
  proof (cases "a < n")
    case False
    then have "a = n" using 1(3) by simp
    then show ?thesis using 1(4) by (simp add: conn_members.simps [of rnd i n n])
  next
    case True
    let ?k = "conn_amount (n - a)"
    obtain ms' over' where m: "conn_members rnd (i + 1) (a + ?k) n = (ms', over')" by fastforce
    have k: "a + ?k \<le> n" using conn_amount_bounds(3) [of "n - a"] True by simp
    have "letters ms' = n - (a + ?k) \<and> (over' \<longleftrightarrow> 100 \<le> n - (a + ?k))"
      using 1(1) [OF True refl _ k m] 1(2) by simp
    moreover have "?k = 100 \<or> 100 \<le> n - (a + ?k) \<longleftrightarrow> 100 \<le> n - a"
      using conn_amount_over [of "n - a"] k by simp
    moreover have "ms = (conn_name i, JStr (conn_value rnd (a - 100) ?k)) # ms'" "over = (?k = 100 \<or> over')"
      using 1(4) True m by (simp_all add: conn_members.simps [of rnd i a n] Let_def)
    ultimately show ?thesis using k by (simp add: conn_value_def)
  qed
qed

text \<open>
  The connectivity message of a size carries that many letters less the 100 bytes of its
  frame; every message that is made has a value of 100 letters, whose terminator is written behind its
  buffer.
\<close>

theorem connectivity_message_overruns:
  assumes "mid_ok mid" and "200 \<le> n" and "n \<le> 6000"
  shows "\<exists>ms. json_connectivity_msg l rnd mid n = (Some (print_msg l (message_bt 2 mid 10 ms)), True) \<and>
    letters ms = nat n - 100"
proof -
  obtain ms over where m: "conn_members rnd 0 100 (nat n) = (ms, over)" by fastforce
  from conn_members_letters [OF _ _ this] assms(2) have "letters ms = nat n - 100" "over" by auto
  then show ?thesis using assms m by (auto simp: json_connectivity_msg_def)
qed

theorem connectivity_message_overruns_witness:
  "snd (json_connectivity_msg short_lib (\<lambda>k. k) ''DT0000000001'' 234)"
  using connectivity_message_overruns [of "''DT0000000001''" 234 short_lib "\<lambda>k. k"]
  by (auto simp: mid_ok_def)

end
