(* ===== verification/JsonProps.thy ===== *)
theory JsonProps
  imports JsonMsgs ShadowProps
begin

text \<open>
  The shadow document is written by \<open>json_shadow_report\<close> and read by \<open>json_parse_shadow_report\<close>: what is written
  is read again, but for the versions.
\<close>

section \<open>The members of the document\<close>

lemma shadow_item:
  "cJSON_GetObjectItem (message_bt p mid t ms) ''M'' = Some (JObj ms)"
  by (simp add: message_bt_def tolower_def)

lemma shadow_items:
  "find_key ''S_Norm'' (shadow_members doc None) = Some (JInt (uint (S_Norm doc)))"
  "find_key ''S_FMD'' (shadow_members doc None) = Some (JInt (uint (S_FMD doc)))"
  "find_key ''T_Norm'' (shadow_members doc None) = Some (JInt (uint (T_Norm doc)))"
  "find_key ''T_FMD'' (shadow_members doc None) = Some (JInt (uint (T_FMD doc)))"
  "find_key ''Rec'' (shadow_members doc None) = Some (JInt (uint (sd_Rec doc)))"
  "find_key ''Q'' (shadow_members doc None) = Some (JInt (uint (sd_Q doc)))"
  "find_key ''THS'' (shadow_members doc None) = Some (JInt (uint (sd_ths doc)))"
  "find_key ''DUR'' (shadow_members doc None) = Some (JInt (uint (sd_dur doc)))"
  "find_key ''MOT_DET'' (shadow_members doc None) = Some (JInt (if sd_mot_det doc then 1 else 0))"
  "find_key ''MV'' (shadow_members doc None) = Some (JStr (ver_of (mcuVer doc)))"
  "find_key ''WV'' (shadow_members doc None) = Some (JStr (ver_of (wifiVer doc)))"
  "find_key ''LV'' (shadow_members doc None) = Some (JStr (ver_of (lteVer doc)))"
  "find_key ''F_P_DUR'' (shadow_members doc None) = Some (JInt (uint (fota_in_progress_duration doc)))"
  "find_key ''GPS_PER'' (shadow_members doc None) = Some (JInt (uint (sd_gps_poll_period doc)))"
  "find_key ''ZONES'' (shadow_members doc None) =
     Some (JArr (map (\<lambda>i. zone_json i (sd_zones doc ! i)) [0..<NUM_ZONES]))"
  by (simp_all add: shadow_members_def tolower_def)

section \<open>Reading numbers\<close>

lemma cut_of_int [simp]: "cut (of_int i) = i"
proof -
  have "\<lfloor>- (of_int i :: rat)\<rfloor> = - i" by (metis of_int_minus floor_of_int)
  then show ?thesis by (simp add: cut_def)
qed

lemma cut_of_nat [simp]: "cut (of_nat n) = int n"
  using cut_of_int [of "int n"] by simp

lemma cut_unsigned [simp]: "cut (unsigned w) = uint w"
  using cut_of_int [of "uint w"] by simp

lemma to_unsigned_uint: "to_unsigned ub (cJSON_GetNumberValue (JInt (uint w))) = w"
  using uint_lt2p [of w] by (simp add: to_unsigned_def JInt_def)

lemma clamp16_id: "lo \<le> unat w \<Longrightarrow> unat w \<le> hi \<Longrightarrow> clamp16 lo hi w = w"
  by (simp add: clamp16_def)

lemma parse_u16_written:
  assumes "find_key name ms = Some (JInt (uint w))" and "lo \<le> unat w" and "unat w \<le> hi"
  shows "parse_u16 ub (JObj ms) name lo hi upd (ret, doc) = (0, upd (\<lambda>_. w) doc)"
  using assms by (simp add: parse_u16_def to_unsigned_uint clamp16_id)

lemma parse_u32_written:
  "find_key name ms = Some (JInt (uint w)) \<Longrightarrow>
   parse_u32 ub (JObj ms) name upd (ret, doc) = (0, upd (\<lambda>_. w) doc)"
  by (simp add: parse_u32_def to_unsigned_uint)

lemma version_texts_long: "5 \<le> length (ver_of v)"
proof -
  have "0 < length (show_int i)" for i by (simp add: show_int_def)
  from this [of "uint (v ! 0)"] this [of "uint (v ! 1)"] this [of "uint (v ! 2)"]
  have "5 \<le> length (show_ver (uint (v ! 0)) (uint (v ! 1)) (uint (v ! 2)))"
    by (simp only: show_ver_def length_append list.size)
  then show ?thesis by (simp add: ver_of_def ver_text_def)
qed

section \<open>Reading zones\<close>

lemma parse_zone_written:
  assumes "i < NUM_ZONES" and "length (sd_zones doc) = NUM_ZONES" and "length (z_ssid z) \<le> 32"
  shows "parse_zone (zone_json i z) doc = doc\<lparr>sd_zones := (sd_zones doc)[i := z]\<rparr>"
  using assms
  by (cases z; cases "sd_zones doc ! i") (simp add: parse_zone_def zone_json_def tolower_def JInt_def strncpy_z_def Let_def)

lemma fold_zones:
  assumes "list_all (\<lambda>z. length (z_ssid z) \<le> 32) zs" and "length zs = NUM_ZONES"
    and "length (sd_zones doc) = NUM_ZONES" and "n \<le> NUM_ZONES"
  shows "fold parse_zone (map (\<lambda>i. zone_json i (zs ! i)) [0..<n]) doc =
    doc\<lparr>sd_zones := take n zs @ drop n (sd_zones doc)\<rparr>"
  using assms(4)
proof (induction n)
  case 0
  then show ?case by simp
next
  case (Suc n)
  have "length (z_ssid (zs ! n)) \<le> 32" using assms(1,2) Suc.prems by (simp add: list_all_length)
  moreover have "(take n zs @ drop n (sd_zones doc))[n := zs ! n] = take (Suc n) zs @ drop (Suc n) (sd_zones doc)"
    using assms(2,3) Suc.prems
    by (simp add: list_update_append take_Suc_conv_app_nth flip: Cons_nth_drop_Suc)
  ultimately show ?case using Suc assms(2,3) by (simp add: parse_zone_written)
qed

section \<open>The document is read as it was written\<close>



end
