(* ===== verification/Upgrade.thy ===== *)
theory Upgrade
  imports Prelude
begin

text \<open>
  The update of the nRF5340 from a file, \<^verbatim>\<open>commercial_collar/src/nrf53_upgrade.c\<close>: the secondary flash
  area is made ready, the file is copied into it in blocks of 512 bytes, and the boot loader is asked to
  swap the images.  The file system, the flash and the boot loader are the environment: the file's
  bytes, and the result of every call.  The state is the trace of the calls with an effect.
\<close>

section \<open>The environment\<close>

datatype swap_type =
  BOOT_SWAP_TYPE_NONE | BOOT_SWAP_TYPE_TEST | BOOT_SWAP_TYPE_PERM | BOOT_SWAP_TYPE_REVERT
| BOOT_SWAP_TYPE_FAIL

fun swap_type_str :: "swap_type \<Rightarrow> string" where
  "swap_type_str BOOT_SWAP_TYPE_NONE = ''none''"
| "swap_type_str BOOT_SWAP_TYPE_TEST = ''test''"
| "swap_type_str BOOT_SWAP_TYPE_PERM = ''perm''"
| "swap_type_str BOOT_SWAP_TYPE_REVERT = ''revert''"
| "swap_type_str BOOT_SWAP_TYPE_FAIL = ''fail''"

text \<open>
  \<open>read_rc p\<close> is the error of reading the file at position \<open>p\<close>, \<open>write_rc n\<close> the result of the write when \<open>n\<close>
  bytes were offered before, \<open>buf_bytes\<close> the bytes the library still holds for an image of that many bytes.
\<close>

record up_env =
  up_file :: "8 word list"
  open_rc :: int
  seek_rc :: int
  read_rc :: "nat \<Rightarrow> int option"
  close_rc :: int
  mcuboot_swap :: swap_type
  img_init_rc :: int
  erase_progressively :: bool
  area_words :: "32 word list"
  area_erased_val :: "8 word"
  area_read_rc :: "nat \<Rightarrow> int"
  area_erase_rc :: int
  write_rc :: "nat \<Rightarrow> int"
  buf_bytes :: "nat \<Rightarrow> nat"
  confirm_rc :: int
  request_rc :: int

datatype up_call =
  AreaClose | AreaErase | WatchdogKick | ImgWrite "8 word list" int | ImgFlush | FileClose
| ImgConfirmed | RequestUpgrade | SaveResetReason | NotifyRebooting | Sleep nat | Reboot

type_synonym up_state = "up_call list"

definition up_do :: "up_call \<Rightarrow> (up_state, unit) state" where
  "up_do c = modify (\<lambda>s. s @ [c])"

section \<open>The flash area\<close>

definition ERASED_VAL_32 :: "8 word \<Rightarrow> 32 word" where
  "ERASED_VAL_32 x =
     (let x = ucast x in push_bit 24 x OR push_bit 16 x OR push_bit 8 x OR x)"

text \<open>
  Sixteen words are read at a time; a word that is not erased ends the test.  The result is the error, or
  whether the area is empty.
\<close>

function check_words :: "up_env \<Rightarrow> nat \<Rightarrow> 32 word list \<Rightarrow> int + bool" where
  "check_words e addr ws =
     (if ws = [] then Inr True
      else if area_read_rc e addr \<noteq> 0 then Inl (area_read_rc e addr)
      else if list_ex (\<lambda>w. w \<noteq> ERASED_VAL_32 (area_erased_val e)) (take 16 ws) then Inr False
      else check_words e (addr + 64) (drop 16 ws))"
  by pat_completeness auto
termination
  by (relation "measure (\<lambda>(e, addr, ws). length ws)") auto

declare check_words.simps [simp del]

definition flash_area_check_empty :: "up_env \<Rightarrow> (up_state, int + bool) state" where
  "flash_area_check_empty e =
     (case check_words e 0 (area_words e) of
        Inr True \<Rightarrow> return (Inr True)
      | r \<Rightarrow> do { up_do AreaClose; return r })"

definition flash_img_erase_if_needed :: "up_env \<Rightarrow> (up_state, int) state" where
  "flash_img_erase_if_needed e =
     (if erase_progressively e then return 0
      else do {
        r \<leftarrow> flash_area_check_empty e;
        case r of
          Inl err \<Rightarrow> return err
        | Inr erased \<Rightarrow>
            if erased then return 0 else do { up_do AreaErase; return (area_erase_rc e) }
      })"

definition flash_img_prepare :: "up_env \<Rightarrow> (up_state, int) state" where
  "flash_img_prepare e =
     (if mcuboot_swap e = BOOT_SWAP_TYPE_REVERT then return (- EBUSY)
      else if img_init_rc e \<noteq> 0 then return (img_init_rc e)
      else flash_img_erase_if_needed e)"

section \<open>Copying\<close>

definition offered :: "up_state \<Rightarrow> nat" where
  "offered s = sum_list (map (\<lambda>c. case c of ImgWrite bs rc \<Rightarrow> length bs | _ \<Rightarrow> 0) s)"

definition fw_update_write_block :: "up_env \<Rightarrow> 8 word list \<Rightarrow> (up_state, int) state" where
  "fw_update_write_block e block = do {
     n \<leftarrow> gets offered;
     up_do (ImgWrite block (write_rc e n));
     return (write_rc e n)
   }"

definition fw_update_finish :: "up_env \<Rightarrow> (up_state, unit) state" where
  "fw_update_finish e = do {
     n \<leftarrow> gets offered;
     whenever (buf_bytes e n \<noteq> 0) (up_do ImgFlush)
   }"

text \<open>The result of the write is not looked at; a read error leaves the loop like the end of the file.\<close>

function copy_blocks :: "up_env \<Rightarrow> nat \<Rightarrow> (up_state, unit) state" where
  "copy_blocks e pos = do {
     up_do WatchdogKick;
     (if read_rc e pos \<noteq> None then skip
      else
        (let block = take 512 (drop pos (up_file e))
         in do {
           fw_update_write_block e block;
           (if length block < 512 then skip else copy_blocks e (pos + 512))
         }))
   }"
  by pat_completeness auto
termination
  by (relation "measure (\<lambda>(e, pos). length (up_file e) - pos)") auto

declare copy_blocks.simps [simp del]

definition request_swap :: "up_env \<Rightarrow> (up_state, int) state" where
  "request_swap e = do {
     up_do ImgConfirmed;
     (if confirm_rc e \<noteq> 0 then return (confirm_rc e)
      else do {
        up_do RequestUpgrade;
        (if request_rc e \<noteq> 0 then return (request_rc e)
         else do {
           up_do SaveResetReason;
           up_do NotifyRebooting;
           up_do (Sleep 1000);
           up_do Reboot;
           return 0
         })
      })
   }"

definition nrf53_upgrade_with_file :: "up_env \<Rightarrow> (up_state, int) state" where
  "nrf53_upgrade_with_file e =
     (if open_rc e < 0 then return (open_rc e)
      else if seek_rc e < 0 then return (seek_rc e)
      else do {
        rc \<leftarrow> flash_img_prepare e;
        (if rc \<noteq> 0 then return rc
         else do {
           copy_blocks e 0;
           up_do FileClose;
           (if close_rc e < 0 then return (close_rc e)
            else do { fw_update_finish e; request_swap e })
         })
      })"

definition do_upgrade_from_fs :: "(string \<Rightarrow> up_env) \<Rightarrow> string list \<Rightarrow> (up_state, unit) state" where
  "do_upgrade_from_fs e args =
     (if length args < 2 then skip else do { nrf53_upgrade_with_file (e (args ! 1)); skip })"

section \<open>What is written\<close>

definition blocks :: "up_state \<Rightarrow> 8 word list" where
  "blocks s = concat (map (\<lambda>c. case c of ImgWrite bs rc \<Rightarrow> bs | _ \<Rightarrow> []) s)"

definition written :: "up_state \<Rightarrow> 8 word list" where
  "written s = concat (map (\<lambda>c. case c of ImgWrite bs rc \<Rightarrow> (if rc = 0 then bs else []) | _ \<Rightarrow> []) s)"

definition is_copy :: "up_call \<Rightarrow> bool" where
  "is_copy c \<longleftrightarrow> c = WatchdogKick \<or> (\<exists>bs rc. c = ImgWrite bs rc)"

lemma blocks_append [simp]: "blocks (s @ t) = blocks s @ blocks t"
  and blocks_nil [simp]: "blocks [] = []"
  and written_append [simp]: "written (s @ t) = written s @ written t"
  and written_nil [simp]: "written [] = []"
  by (simp_all add: blocks_def written_def)

lemma blocks_cons [simp]:
  "blocks (WatchdogKick # t) = blocks t" "blocks (ImgWrite bs rc # t) = bs @ blocks t"
  "written (WatchdogKick # t) = written t"
  "written (ImgWrite bs rc # t) = (if rc = 0 then bs else []) @ written t"
  by (simp_all add: blocks_def written_def)

lemma written_call: "\<not> is_copy c \<Longrightarrow> written [c] = []"
  by (cases c) (auto simp: written_def is_copy_def)

lemma run_up_do [simp]: "after (up_do c) s = s @ [c]"
  by (simp add: up_do_def)

lemma after_write_block:
  "after (fw_update_write_block e b) s = s @ [ImgWrite b (write_rc e (offered s))]"
  by (simp add: fw_update_write_block_def)

text \<open>The loop offers the file from the position on, up to the first position that is not readable.\<close>

lemma copy_blocks_trace:
  "\<exists>t k. after (copy_blocks e pos) s = s @ t \<and> list_all is_copy t \<and>
     blocks t = take k (drop pos (up_file e)) \<and>
     ((\<forall>p. read_rc e p = None) \<longrightarrow> blocks t = drop pos (up_file e)) \<and>
     ((\<forall>n. write_rc e n = 0) \<longrightarrow> written t = blocks t)"
proof (induction "length (up_file e) - pos" arbitrary: pos s rule: less_induct)
  case less
  let ?b = "take 512 (drop pos (up_file e))"
  let ?s1 = "s @ [WatchdogKick]"
  let ?w = "[WatchdogKick, ImgWrite ?b (write_rc e (offered ?s1))]"
  consider "read_rc e pos \<noteq> None" | "read_rc e pos = None" "length ?b < 512"
    | "read_rc e pos = None" "\<not> length ?b < 512" by blast
  then show ?case
  proof cases
    case 1
    then show ?thesis
      by (intro exI [of _ "[WatchdogKick]"] exI [of _ 0])
        (auto simp: copy_blocks.simps [of e pos] is_copy_def)
  next
    case 2
    then show ?thesis
      by (intro exI [of _ ?w] exI [of _ 512])
        (auto simp: copy_blocks.simps [of e pos] after_write_block is_copy_def)
  next
    case 3
    then have "length (up_file e) - (pos + 512) < length (up_file e) - pos" by simp
    from less [OF this, of "s @ ?w"] obtain t k
      where t: "after (copy_blocks e (pos + 512)) (s @ ?w) = (s @ ?w) @ t" "list_all is_copy t"
        "blocks t = take k (drop (pos + 512) (up_file e))"
        "(\<forall>p. read_rc e p = None) \<longrightarrow> blocks t = drop (pos + 512) (up_file e)"
        "(\<forall>n. write_rc e n = 0) \<longrightarrow> written t = blocks t" by blast
    have d: "drop (pos + 512) (up_file e) = drop 512 (drop pos (up_file e))" by (simp add: add.commute)
    have split_file: "take 512 (drop pos (up_file e)) @ drop (512 + pos) (up_file e) = drop pos (up_file e)"
      using append_take_drop_id [of 512 "drop pos (up_file e)"] by simp
    have "after (copy_blocks e pos) s = s @ ?w @ t"
      using 3 t(1) by (simp add: copy_blocks.simps [of e pos] after_write_block)
    moreover have "blocks (?w @ t) = take (512 + k) (drop pos (up_file e))"
      using t(3) unfolding d by (simp add: take_add)
    moreover have "(\<forall>p. read_rc e p = None) \<longrightarrow> blocks (?w @ t) = drop pos (up_file e)"
      using t(4) split_file by (simp add: add.commute)
    ultimately show ?thesis using t(2,5)
      by (intro exI [of _ "?w @ t"] exI [of _ "512 + k"]) (auto simp: is_copy_def)
  qed
qed

lemma prepare_trace: "\<exists>t. after (flash_img_prepare e) s = s @ t \<and> set t \<subseteq> {AreaClose, AreaErase}"
proof -
  have *: "\<exists>t. after (flash_area_check_empty e) s = s @ t \<and> set t \<subseteq> {AreaClose}"
    by (auto simp: flash_area_check_empty_def split: sum.split bool.split)
  then obtain t where "after (flash_area_check_empty e) s = s @ t" "set t \<subseteq> {AreaClose}" by blast
  then show ?thesis
    by (auto simp: flash_img_prepare_def flash_img_erase_if_needed_def split: sum.split)
qed

lemma request_swap_trace:
  "after (request_swap e) s = s @ ImgConfirmed #
     (if confirm_rc e \<noteq> 0 then []
      else RequestUpgrade # (if request_rc e \<noteq> 0 then [] else [SaveResetReason, NotifyRebooting, Sleep 1000, Reboot]))"
  by (simp add: request_swap_def)

text \<open>The whole run: the preparation, the copy, and the request.\<close>

lemma upgrade_trace:
  assumes "0 \<le> open_rc e" and "0 \<le> seek_rc e" and "result (flash_img_prepare e) [] = 0"
    and "0 \<le> close_rc e"
  shows "\<exists>p t f. after (nrf53_upgrade_with_file e) [] = after (request_swap e) (p @ t @ FileClose # f) \<and>
    set p \<subseteq> {AreaClose, AreaErase} \<and> list_all is_copy t \<and> set f \<subseteq> {ImgFlush} \<and>
    (\<exists>k. blocks t = take k (up_file e)) \<and>
    ((\<forall>n. read_rc e n = None) \<longrightarrow> blocks t = up_file e) \<and>
    ((\<forall>n. write_rc e n = 0) \<longrightarrow> written t = blocks t)"
proof -
  from prepare_trace [of e "[]"] obtain p where p: "after (flash_img_prepare e) [] = p"
    "set p \<subseteq> {AreaClose, AreaErase}" by auto
  from copy_blocks_trace [of e 0 p] obtain t k where t: "after (copy_blocks e 0) p = p @ t"
    "list_all is_copy t" "blocks t = take k (up_file e)"
    "(\<forall>n. read_rc e n = None) \<longrightarrow> blocks t = up_file e" "(\<forall>n. write_rc e n = 0) \<longrightarrow> written t = blocks t"
    unfolding drop_0 by blast
  have "after (nrf53_upgrade_with_file e) [] =
      after (request_swap e) (p @ t @ FileClose # (if buf_bytes e (offered (p @ t @ [FileClose])) \<noteq> 0 then [ImgFlush] else []))"
    using assms p(1) t(1)
    by (simp add: nrf53_upgrade_with_file_def fw_update_finish_def whenever_def)
  then show ?thesis using p(2) t by (intro exI conjI) auto
qed

lemma written_others: "(\<forall>c \<in> set s. \<not> is_copy c) \<Longrightarrow> written s = []"
  by (induction s) (auto simp: written_def is_copy_def split: up_call.split)

section \<open>Properties\<close>

definition ready_to_copy :: "up_env \<Rightarrow> bool" where
  "ready_to_copy e \<longleftrightarrow> 0 \<le> open_rc e \<and> 0 \<le> seek_rc e \<and> result (flash_img_prepare e) [] = 0 \<and>
     0 \<le> close_rc e \<and> confirm_rc e = 0 \<and> request_rc e = 0"


definition quiet_env :: "8 word list \<Rightarrow> up_env" where
  "quiet_env bytes =
     \<lparr>up_file = bytes, open_rc = 0, seek_rc = 0, read_rc = (\<lambda>_. None), close_rc = 0,
      mcuboot_swap = BOOT_SWAP_TYPE_NONE, img_init_rc = 0, erase_progressively = False,
      area_words = [0], area_erased_val = 255, area_read_rc = (\<lambda>_. 0), area_erase_rc = 0,
      write_rc = (\<lambda>_. 0), buf_bytes = (\<lambda>n. n mod 512), confirm_rc = 0, request_rc = 0\<rparr>"

lemma quiet_ready: "ready_to_copy (quiet_env bytes)"
  by (simp add: ready_to_copy_def quiet_env_def flash_img_prepare_def flash_img_erase_if_needed_def
      flash_area_check_empty_def check_words.simps ERASED_VAL_32_def Let_def)


text \<open>
  An error while the file is read or written does not stop the update: whatever the reads and
  writes answer, a permanent update to what is in the flash is requested and the device restarted; with
  a read error only a prefix of the file was written.
\<close>

theorem damaged_image_requested:
  assumes "ready_to_copy e"
  shows "\<exists>s k. after (nrf53_upgrade_with_file e) [] =
      s @ [ImgConfirmed, RequestUpgrade, SaveResetReason, NotifyRebooting, Sleep 1000, Reboot] \<and>
    blocks s = take k (up_file e)"
proof -
  from upgrade_trace [of e] assms obtain p t f k where
    u: "after (nrf53_upgrade_with_file e) [] = after (request_swap e) (p @ t @ FileClose # f)"
      "set p \<subseteq> {AreaClose, AreaErase}" "set f \<subseteq> {ImgFlush}" "blocks t = take k (up_file e)"
    by (auto simp: ready_to_copy_def)
  have "blocks (FileClose # f) = []" "blocks p = []"
    using u(2,3) by (auto simp: blocks_def)
  then have "blocks (p @ t @ FileClose # f) = take k (up_file e)" using u(4) by simp
  then show ?thesis using u(1) assms
    by (intro exI [of _ "p @ t @ FileClose # f"] exI [of _ k]) (simp add: request_swap_trace ready_to_copy_def)
qed

theorem damaged_image_requested_witness:
  "\<exists>s k. after (nrf53_upgrade_with_file ((quiet_env [1, 2, 3])\<lparr>read_rc := (\<lambda>_. Some (-5))\<rparr>)) [] =
      s @ [ImgConfirmed, RequestUpgrade, SaveResetReason, NotifyRebooting, Sleep 1000, Reboot] \<and>
    blocks s = take k [1, 2, 3]"
proof -
  have "ready_to_copy ((quiet_env [1, 2, 3])\<lparr>read_rc := (\<lambda>_. Some (-5))\<rparr>)"
    using quiet_ready [of "[1, 2, 3]"]
    by (simp add: ready_to_copy_def quiet_env_def flash_img_prepare_def flash_img_erase_if_needed_def
        flash_area_check_empty_def check_words.simps ERASED_VAL_32_def Let_def)
  from damaged_image_requested [OF this] show ?thesis by (simp add: quiet_env_def)
qed

end
