(* ===== verification/Fota.thy ===== *)
theory Fota
  imports CommEvents JsonMsgs
begin

text \<open>
  The update of the collar's processors, \<^verbatim>\<open>commercial_collar/src/comm_mgr/src/fota.c\<close>: one state per
  processor, the timers and the work items of the module, the messages of the cloud that start a download,
  the reports on its progress, and the run that asks for updates of all three.  The state extends the
  communication manager's.  \<open>modem_fota_from_https\<close>, \<open>net_start_ota\<close>, \<open>wifi_http_get\<close>, the upgrade from the
  file and the file system are calls of the environment.  The three branches per processor that the
  source writes out are one definition with the differences spelled out.
\<close>

section \<open>State\<close>

record fota_device =
  request_id :: string
  target_version :: "8 word list"
  requested :: bool
  response_received :: bool
  in_progress :: bool
  complete :: bool
  last_state_time :: nat

text \<open>
  The periods of the running timers; the pending work items; \<open>fo_overrun\<close> is set when an index or a copy
  leaves its array.
\<close>

record fo_state = cm_state +
  nrf9160_fota :: fota_device
  da16200_fota :: fota_device
  nrf5340_fota :: fota_device
  fota_in_progress :: bool
  update_device_type :: comm_device
  update_check_in_progress :: bool
  g_last_http_amount :: int
  fota_in_progress_check_timer :: "nat option"
  fota_version_check_timer :: "nat option"
  fota_check_timer :: "nat option"
  fota_da_http_monitor_timer :: "nat option"
  in_progress_work :: bool
  check_version_work :: bool
  fota_work :: bool
  monitor_work :: bool
  fo_overrun :: bool

text \<open>
  The versions that run, as the module reads them (\<open>get_cached_version_info\<close>, \<open>da_state.version\<close>, the
  application's own), the bytes and the result of the HTTP download, and the text of the notes on the
  update of the application.
\<close>

record fo_env =
  fo_cm :: cm_env
  fo_json :: json_lib
  modem_version :: "world \<Rightarrow> 8 word list"
  da_version :: "world \<Rightarrow> 8 word list"
  app_version :: "8 word list"
  http_amt_downloaded :: "world \<Rightarrow> int"
  httpresultcode :: "world \<Rightarrow> int"
  notes_text :: "world \<Rightarrow> string"

abbreviation FOTA_STATE_MAX_TIME_IN_SEC :: nat where "FOTA_STATE_MAX_TIME_IN_SEC \<equiv> 60"
abbreviation MQTT_MESSAGE_TYPE_FOTA_LIFE :: "8 word" where "MQTT_MESSAGE_TYPE_FOTA_LIFE \<equiv> 16"

abbreviation CAUSE_DOWNLOAD_FAILED :: int where "CAUSE_DOWNLOAD_FAILED \<equiv> 1"
abbreviation CAUSE_INTERNAL :: int where "CAUSE_INTERNAL \<equiv> 4"

definition nestle_fota_error_codes :: "int list" where
  "nestle_fota_error_codes = [0, -301, -600, -600, -600, -99]"

definition processors :: "comm_device list" where
  "processors = [COMM_DEVICE_NRF9160, COMM_DEVICE_DA16200, COMM_DEVICE_NRF5340]"

text \<open>The device type is a bit of an integer; the tests of the source are bitwise.\<close>

fun device_bits :: "comm_device \<Rightarrow> nat" where
  "device_bits COMM_DEVICE_NONE = 0"
| "device_bits COMM_DEVICE_NRF9160 = 1"
| "device_bits COMM_DEVICE_DA16200 = 2"
| "device_bits COMM_DEVICE_NRF5340 = 4"
| "device_bits COMM_DEVICE_ALL = 8"
| "device_bits COMM_DEVICE_ANY = 16"

fun fota_file_name :: "comm_device \<Rightarrow> string" where
  "fota_file_name COMM_DEVICE_NRF9160 = ''nrf9160''"
| "fota_file_name COMM_DEVICE_DA16200 = ''da16200''"
| "fota_file_name COMM_DEVICE_NRF5340 = ''nrf5340''"
| "fota_file_name _ = ''''"

fun fdev :: "comm_device \<Rightarrow> 'a fo_state_scheme \<Rightarrow> fota_device" where
  "fdev COMM_DEVICE_NRF9160 s = nrf9160_fota s"
| "fdev COMM_DEVICE_DA16200 s = da16200_fota s"
| "fdev _ s = nrf5340_fota s"

fun upd_fdev ::
  "comm_device \<Rightarrow> (fota_device \<Rightarrow> fota_device) \<Rightarrow> 'a fo_state_scheme \<Rightarrow> 'a fo_state_scheme" where
  "upd_fdev COMM_DEVICE_NRF9160 f s = s\<lparr>nrf9160_fota := f (nrf9160_fota s)\<rparr>"
| "upd_fdev COMM_DEVICE_DA16200 f s = s\<lparr>da16200_fota := f (da16200_fota s)\<rparr>"
| "upd_fdev _ f s = s\<lparr>nrf5340_fota := f (nrf5340_fota s)\<rparr>"

definition set_dev ::
  "comm_device \<Rightarrow> (fota_device \<Rightarrow> fota_device) \<Rightarrow> ('a fo_state_scheme, unit) state" where
  "set_dev d f = modify (upd_fdev d f)"

definition touch :: "comm_device \<Rightarrow> ('a fo_state_scheme, unit) state" where
  "touch d = modify (\<lambda>s. upd_fdev d (\<lambda>f. f\<lparr>last_state_time := uptime (wld s)\<rparr>) s)"

definition fota_overruns :: "bool \<Rightarrow> ('a fo_state_scheme, unit) state" where
  "fota_overruns b = whenever b (modify (\<lambda>s. s\<lparr>fo_overrun := True\<rparr>))"

text \<open>A null pointer is read: the flag of the manager is set and the function left.\<close>

definition fota_fault :: "('a fo_state_scheme, int) state" where
  "fota_fault = do { modify (\<lambda>s. s\<lparr>cm_null_deref := True\<rparr>); return (-1) }"

definition forget_states :: "fota_device \<Rightarrow> fota_device" where
  "forget_states f =
     f\<lparr>complete := False, requested := False, response_received := False, in_progress := False\<rparr>"

definition reset_all :: "('a fo_state_scheme, unit) state" where
  "reset_all = do {
     set_dev COMM_DEVICE_NRF9160 forget_states;
     set_dev COMM_DEVICE_DA16200 forget_states;
     set_dev COMM_DEVICE_NRF5340 forget_states
   }"

text \<open>The end of the update of a processor.\<close>

definition fota_finish :: "fo_env \<Rightarrow> comm_device \<Rightarrow> ('a fo_state_scheme, unit) state" where
  "fota_finish e d = do {
     set_dev d (\<lambda>f. f\<lparr>complete := True, in_progress := False\<rparr>);
     commMgr_fota_end (fo_cm e) d
   }"

text \<open>The static variables at the start.\<close>

definition no_update :: fota_device where
  "no_update = \<lparr>request_id = [], target_version = [0, 0, 0], requested = False, response_received = False,
     in_progress = False, complete = False, last_state_time = 0\<rparr>"

definition fo_boot :: "world \<Rightarrow> fo_state" where
  "fo_boot w = cm_state.extend (cm_boot w)
     (fo_state.fields no_update no_update no_update False COMM_DEVICE_NONE False 0 None None None None
        False False False False False)"

section \<open>Timers\<close>

definition fota_check_for_fota_in_progress :: "('a fo_state_scheme, unit) state" where
  "fota_check_for_fota_in_progress =
     modify (\<lambda>s. s\<lparr>fota_in_progress_check_timer :=
       Some (unat (fota_in_progress_duration (shadow_doc s)) * 1000)\<rparr>)"

definition start_version_timer :: "nat \<Rightarrow> ('a fo_state_scheme, unit) state" where
  "start_version_timer sec = modify (\<lambda>s. s\<lparr>fota_version_check_timer := Some (sec * 1000)\<rparr>)"

definition fota_start_da_http_monitoring :: "('a fo_state_scheme, unit) state" where
  "fota_start_da_http_monitoring =
     modify (\<lambda>s. s\<lparr>g_last_http_amount := 0, fota_da_http_monitor_timer := Some 10000\<rparr>)"

definition fota_stop_da_http_monitoring :: "('a fo_state_scheme, unit) state" where
  "fota_stop_da_http_monitoring = modify (\<lambda>s. s\<lparr>fota_da_http_monitor_timer := None\<rparr>)"

section \<open>Reports on the progress\<close>

definition fota_feedback ::
  "fo_env \<Rightarrow> int \<Rightarrow> string \<Rightarrow> string \<Rightarrow> string \<Rightarrow> 8 word \<Rightarrow> ('a fo_state_scheme, int) state" where
  "fota_feedback e code dt rid st priority = do {
     now \<leftarrow> gets (\<lambda>s. utc_time (wld s));
     case json_fota_feedback_msg (fo_json e) (machine_id (fo_cm e)) code dt rid (int now) st of
       None \<Rightarrow> return 0
     | Some msg \<Rightarrow> queue_json (fo_cm e) msg MQTT_MESSAGE_TYPE_FOTA_LIFE priority
   }"

definition feedback_on ::
  "fo_env \<Rightarrow> comm_device \<Rightarrow> int \<Rightarrow> string \<Rightarrow> 8 word \<Rightarrow> ('a fo_state_scheme, int) state" where
  "feedback_on e d code st priority = do {
     rid \<leftarrow> gets (\<lambda>s. request_id (fdev d s));
     fota_feedback e code (fota_file_name d) rid st priority
   }"

definition downloading :: "fo_env \<Rightarrow> int \<Rightarrow> comm_device \<Rightarrow> ('a fo_state_scheme, unit) state" where
  "downloading e percentage d =
     (if percentage = 0 then do { feedback_on e d 0 ''DOWNLOAD'' 30; touch d }
      else if percentage = 100 then do {
        whenever (d = COMM_DEVICE_NRF5340) fota_stop_da_http_monitoring;
        feedback_on e d 0 ''ASSET_VERIFICATION'' 30;
        whenever (d = COMM_DEVICE_NRF9160) (start_version_timer 45);
        whenever (d = COMM_DEVICE_DA16200) (start_version_timer 30);
        touch d
      }
      else touch d)"

definition update_done :: "fo_env \<Rightarrow> comm_device \<Rightarrow> ('a fo_state_scheme, int) state" where
  "update_done e d = do {
     whenever (d = COMM_DEVICE_NRF5340) fota_stop_da_http_monitoring;
     ret \<leftarrow> feedback_on e d 0 ''DONE'' 1;
     (if ret < 0 then return (-1) else do { fota_finish e d; return 0 })
   }"

definition update_aborted :: "fo_env \<Rightarrow> comm_device \<Rightarrow> ('a fo_state_scheme, unit) state" where
  "update_aborted e d = do {
     set_dev d (\<lambda>f. f\<lparr>complete := True, in_progress := False\<rparr>);
     whenever (d = COMM_DEVICE_NRF5340) fota_stop_da_http_monitoring;
     commMgr_fota_end (fo_cm e) d;
     feedback_on e d (-500) ''EXECUTE'' 30;
     skip
   }"

text \<open>The cause is an index into a table of six; the modem sends it as a number from 0 to 255.\<close>

definition error_code :: "int \<Rightarrow> int" where
  "error_code cause = (if 0 \<le> cause \<and> cause < 6 then nestle_fota_error_codes ! nat cause else 0)"

definition update_failed :: "fo_env \<Rightarrow> int \<Rightarrow> comm_device \<Rightarrow> ('a fo_state_scheme, unit) state" where
  "update_failed e cause d = do {
     fota_overruns (cause < 0 \<or> 6 \<le> cause);
     feedback_on e d (error_code cause) ''EXECUTE'' 30;
     whenever (d = COMM_DEVICE_NRF5340) (do { call (cenv (fo_cm e)) (FotaNotify ''5340_FOTA_ERR''); skip });
     set_dev d (\<lambda>f. f\<lparr>complete := True, in_progress := False\<rparr>);
     whenever (d = COMM_DEVICE_NRF5340) fota_stop_da_http_monitoring;
     commMgr_fota_end (fo_cm e) d
   }"

definition fota_status_update ::
  "fo_env \<Rightarrow> int \<Rightarrow> int \<Rightarrow> comm_device \<Rightarrow> ('a fo_state_scheme, int) state" where
  "fota_status_update e st percentage d = do {
     s \<leftarrow> State_Monad.get;
     (if d \<notin> set processors \<or> \<not> in_progress (fdev d s) then return 0
      else if st = 1 then do { downloading e percentage d; return 0 }
      else if st = 3 then update_done e d
      else if st = 99 then do { update_aborted e d; return 0 }
      else if st = 2 then do { update_failed e percentage d; return 0 }
      else return 0)
   }"

section \<open>The download of the application's image\<close>

text \<open>A stalled download stops the timer, also when the report has stopped it before.\<close>

definition da_http_monitor_work :: "fo_env \<Rightarrow> ('a fo_state_scheme, unit) state" where
  "da_http_monitor_work e = do {
     amt \<leftarrow> gets (\<lambda>s. http_amt_downloaded e (wld s));
     old \<leftarrow> gets g_last_http_amount;
     (if amt = old then do {
        fota_status_update e 2 CAUSE_DOWNLOAD_FAILED COMM_DEVICE_NRF5340;
        fota_stop_da_http_monitoring
      }
      else modify (\<lambda>s. s\<lparr>g_last_http_amount := amt\<rparr>))
   }"

abbreviation NOTES :: string where "NOTES \<equiv> ''/lfs1/fota_in_progress.txt''"
abbreviation IMAGE :: string where "IMAGE \<equiv> ''/lfs1/nrf5340_fota.bin''"

text \<open>The notes on the update under way: the request and the three numbers of the version, a line each.\<close>

definition notes_request :: "fota_device \<Rightarrow> string" where
  "notes_request f = take 64 (request_id f @ [CHR 0x0A])"

definition notes_version :: "fota_device \<Rightarrow> string" where
  "notes_version f =
     (let v = target_version f
      in take 64 (concat (map (\<lambda>i. show_nat (unat (v ! i)) @ [CHR 0x0A]) [0, 1, 2])))"

text \<open>
  A complete download is written to the flash, after the notes that the next start reads.
\<close>

definition install_image :: "fo_env \<Rightarrow> ('a fo_state_scheme, unit) state" where
  "install_image e = do {
     f \<leftarrow> gets nrf5340_fota;
     let c = cenv (fo_cm e)
     in do {
       call c (FsOpen NOTES);
       call c (FsWrite (notes_request f));
       call c (FsWrite (notes_version f));
       call c FsClose;
       ret \<leftarrow> call c (Nrf53Upgrade IMAGE);
       whenever (ret \<noteq> 0)
         (do { fota_status_update e 2 CAUSE_INTERNAL COMM_DEVICE_NRF5340; skip })
     }
   }"

definition fota_handle_da_event :: "fo_env \<Rightarrow> bool \<Rightarrow> ('a fo_state_scheme, int) state" where
  "fota_handle_da_event e http_complete =
     (if \<not> http_complete then return 0
      else do {
        call (cenv (fo_cm e)) (FotaNotify ''5340_FLASH_START'');
        fota_stop_da_http_monitoring;
        res \<leftarrow> gets (\<lambda>s. httpresultcode e (wld s));
        (if res \<noteq> 0 then do {
           fota_status_update e 2 CAUSE_DOWNLOAD_FAILED COMM_DEVICE_NRF5340;
           return 0
         }
         else do {
           running \<leftarrow> gets (\<lambda>s. in_progress (nrf5340_fota s));
           whenever running (install_image e);
           return 0
         })
      })"

text \<open>
  What the next start reads: the tokens between the line ends of the first 64 bytes.  Text of 64 bytes has no
  end in its buffer.
\<close>

definition take_line ::
  "string list \<Rightarrow> nat \<Rightarrow> (string \<Rightarrow> fota_device \<Rightarrow> fota_device) \<Rightarrow> fota_device \<Rightarrow> fota_device" where
  "take_line toks i g f = (if i < length toks then g (toks ! i) f else f)"

definition notes_device :: "string \<Rightarrow> fota_device \<Rightarrow> fota_device" where
  "notes_device txt f =
     (let toks = tokens (CHR 0x0A) (take 64 txt);
          ver = (\<lambda>k t f. f\<lparr>target_version := (target_version f)[k := word_of_int (atoi t)]\<rparr>)
      in take_line toks 3 (ver 2) (take_line toks 2 (ver 1) (take_line toks 1 (ver 0)
           (take_line toks 0 (\<lambda>t f. f\<lparr>request_id := take 63 t\<rparr>) f))))"

definition version_runs :: "8 word list \<Rightarrow> fota_device \<Rightarrow> bool" where
  "version_runs v f \<longleftrightarrow>
     v ! 0 = target_version f ! 0 \<and> v ! 1 = target_version f ! 1 \<and> v ! 2 = target_version f ! 2"

definition judge_own_update :: "fo_env \<Rightarrow> ('a fo_state_scheme, unit) state" where
  "judge_own_update e = do {
     f \<leftarrow> gets nrf5340_fota;
     (if version_runs (app_version e) f then do {
        call (cenv (fo_cm e)) (FotaNotify ''5340_FOTA_DONE'');
        ret \<leftarrow> fota_status_update e 3 100 COMM_DEVICE_NRF5340;
        whenever (ret \<noteq> 0) fota_check_for_fota_in_progress
      }
      else do {
        call (cenv (fo_cm e)) (FotaNotify ''5340_FOTA_FAIL'');
        fota_status_update e 2 CAUSE_INTERNAL COMM_DEVICE_NRF5340;
        skip
      })
   }"

definition fota_in_progress_check_work :: "fo_env \<Rightarrow> ('a fo_state_scheme, unit) state" where
  "fota_in_progress_check_work e = (let c = cenv (fo_cm e) in do {
     there \<leftarrow> call c (FsStat NOTES);
     (if there \<noteq> 0 then skip
      else do {
        ret \<leftarrow> call c (FsOpen NOTES);
        (if ret \<noteq> 0 then skip
         else do {
           n \<leftarrow> call c (FsRead 64);
           txt \<leftarrow> gets (\<lambda>s. notes_text e (wld s));
           closed \<leftarrow> call c FsClose;
           (if n < 0 \<or> closed < 0 then skip
            else do {
              fota_overruns (64 \<le> length txt);
              set_dev COMM_DEVICE_NRF5340 (\<lambda>f. notes_device txt (f\<lparr>in_progress := True\<rparr>));
              judge_own_update e;
              set_dev COMM_DEVICE_NRF5340 forget_states;
              commMgr_fota_end (fo_cm e) COMM_DEVICE_NRF5340;
              call c (FsUnlink NOTES);
              call c (FsUnlink IMAGE);
              skip
            })
         })
      })
   })"

section \<open>The version after the restart\<close>

definition judge_version ::
  "fo_env \<Rightarrow> comm_device \<Rightarrow> 8 word list \<Rightarrow> ('a fo_state_scheme, unit) state" where
  "judge_version e d v = do {
     f \<leftarrow> gets (fdev d);
     (if version_runs v f then do {
        ret \<leftarrow> fota_status_update e 3 100 d;
        whenever (ret \<noteq> 0) (start_version_timer 45)
      }
      else do { fota_status_update e 2 CAUSE_INTERNAL d; skip })
   }"

definition fota_version_check_work :: "fo_env \<Rightarrow> ('a fo_state_scheme, unit) state" where
  "fota_version_check_work e = do {
     s \<leftarrow> State_Monad.get;
     (if in_progress (nrf9160_fota s) \<and> \<not> complete (nrf9160_fota s)
      then judge_version e COMM_DEVICE_NRF9160 (modem_version e (wld s))
      else if in_progress (da16200_fota s) \<and> \<not> complete (da16200_fota s)
      then judge_version e COMM_DEVICE_DA16200 (da_version e (wld s))
      else skip)
   }"

section \<open>Asking for updates\<close>

definition get_current_version :: "fo_env \<Rightarrow> comm_device \<Rightarrow> world \<Rightarrow> 8 word list option" where
  "get_current_version e d w =
     (case d of
        COMM_DEVICE_NRF9160 \<Rightarrow> Some (modem_version e w)
      | COMM_DEVICE_DA16200 \<Rightarrow> Some (da_version e w)
      | COMM_DEVICE_NRF5340 \<Rightarrow> Some (app_version e)
      | _ \<Rightarrow> None)"

text \<open>
  The question for the Wi-Fi chip sets the time of the nRF9160's state, and the state of the nRF5340 is
  reset by every question.
\<close>

definition timed_device :: "comm_device \<Rightarrow> comm_device" where
  "timed_device d = (if d = COMM_DEVICE_DA16200 then COMM_DEVICE_NRF9160 else d)"

definition mark_requested :: "bool \<Rightarrow> comm_device \<Rightarrow> ('a fo_state_scheme, unit) state" where
  "mark_requested do_update d = do {
     set_dev COMM_DEVICE_NRF5340 forget_states;
     modify (\<lambda>s. s\<lparr>update_check_in_progress := True,
       update_device_type := (if do_update then d else COMM_DEVICE_NONE)\<rparr>);
     set_dev d (\<lambda>f. f\<lparr>complete := False, response_received := False, in_progress := False,
       requested := True\<rparr>);
     touch (timed_device d)
   }"

text \<open>
  The text is the format of \<open>snprintf\<close> into 512 bytes, with the arguments of conversions it does not have;
  a text that is longer, or that holds a percent sign, reads what is not there.
\<close>

definition check_for_updates ::
  "fo_env \<Rightarrow> bool \<Rightarrow> comm_device \<Rightarrow> ('a fo_state_scheme, int) state" where
  "check_for_updates e do_update d = do {
     w \<leftarrow> gets wld;
     case get_current_version e d w of
       None \<Rightarrow> return (-1)
     | Some v \<Rightarrow>
         (case json_fota_check (fo_json e) (machine_id (fo_cm e)) (ucast (v ! 0)) (ucast (v ! 1))
                 (ucast (v ! 2)) ''12345678'' d of
            None \<Rightarrow> fota_fault
          | Some txt \<Rightarrow> do {
              fota_overruns (512 \<le> length txt \<or> CHR ''%'' \<in> set txt);
              mark_requested do_update d;
              ret \<leftarrow> queue_json (fo_cm e) txt MQTT_MESSAGE_TYPE_FOTA 1;
              (if ret < 0 then do {
                 modify (\<lambda>s. s\<lparr>update_check_in_progress := False\<rparr>);
                 return (-1)
               }
               else return 0)
            })
   }"

section \<open>The answer of the cloud\<close>

definition valuestring :: "cjson \<Rightarrow> string option" where
  "valuestring v = (case v of JStr x \<Rightarrow> Some x | _ \<Rightarrow> None)"

definition string_item :: "cjson \<Rightarrow> string \<Rightarrow> string option" where
  "string_item obj name = Option.bind (cJSON_GetObjectItem obj name) valuestring"

text \<open>A loop over children whose body may leave the function with a value.\<close>

fun each :: "('x \<Rightarrow> ('s, 'r option) state) \<Rightarrow> 'x list \<Rightarrow> ('s, 'r option) state" where
  "each f [] = return None"
| "each f (x # xs) = do {
     r \<leftarrow> f x;
     case r of Some v \<Rightarrow> return (Some v) | None \<Rightarrow> each f xs
   }"

text \<open>
  An image is for a processor when the URL and the deploy type name it; the deploy type is read only when
  the URL does.  \<open>Inl ()\<close> is a null pointer.
\<close>

fun image_for :: "string \<Rightarrow> string option \<Rightarrow> comm_device list \<Rightarrow> unit + comm_device option" where
  "image_for url dt [] = Inr None"
| "image_for url dt (d # ds) =
     (if strstr url (fota_file_name d) = None then image_for url dt ds
      else case dt of
        None \<Rightarrow> Inl ()
      | Some t \<Rightarrow> if strstr t (fota_file_name d) = None then image_for url dt ds else Inr (Some d))"

fun lte_wait :: "fo_env \<Rightarrow> nat \<Rightarrow> ('a fo_state_scheme, bool) state" where
  "lte_wait e 0 = gets (is_lte_connected None)"
| "lte_wait e (Suc n) = do {
     b \<leftarrow> gets (is_lte_connected None);
     (if b then return True else do { ksleep (cenv (fo_cm e)) 2000; lte_wait e n })
   }"

definition fota_start_9160_process ::
  "fo_env \<Rightarrow> 8 word list \<Rightarrow> ('a fo_state_scheme, int) state" where
  "fota_start_9160_process e v = do {
     running \<leftarrow> gets (\<lambda>s. in_progress (nrf9160_fota s));
     (if running then return (-1)
      else do {
        ret \<leftarrow> commMgr_fota_start (fo_cm e) COMM_DEVICE_NRF9160;
        (if ret < 0 then return ret
         else do {
           set_dev COMM_DEVICE_NRF9160 (\<lambda>f. f\<lparr>in_progress := True, complete := False\<rparr>);
           touch COMM_DEVICE_NRF9160;
           set_dev COMM_DEVICE_NRF9160 (\<lambda>f. f\<lparr>target_version := v\<rparr>);
           return 0
         })
      })
   }"

text \<open>The request is copied with its own length into 64 bytes.\<close>

definition accept_request ::
  "fo_env \<Rightarrow> comm_device \<Rightarrow> string \<Rightarrow> string \<Rightarrow> ('a fo_state_scheme, unit) state" where
  "accept_request e d dt rid = do {
     fota_overruns (64 \<le> length rid);
     set_dev d (\<lambda>f. f\<lparr>request_id := rid\<rparr>);
     fota_feedback e 0 dt rid ''VALIDATION'' 30;
     ksleep (cenv (fo_cm e)) 50
   }"

definition start_9160 ::
  "fo_env \<Rightarrow> string \<Rightarrow> 8 word list \<Rightarrow> ('a fo_state_scheme, unit) state" where
  "start_9160 e url v = do {
     ret \<leftarrow> fota_start_9160_process e v;
     whenever (ret = 0) (do { call (cenv (fo_cm e)) (ModemFotaFromHttps url); skip })
   }"

definition set_target :: "comm_device \<Rightarrow> 8 word list \<Rightarrow> ('a fo_state_scheme, unit) state" where
  "set_target d v = do {
     touch d;
     set_dev d (\<lambda>f. f\<lparr>target_version := v, in_progress := True\<rparr>)
   }"

definition start_da16200 ::
  "fo_env \<Rightarrow> string \<Rightarrow> 8 word list \<Rightarrow> ('a fo_state_scheme, unit) state" where
  "start_da16200 e url v = do {
     ret \<leftarrow> commMgr_fota_start (fo_cm e) COMM_DEVICE_DA16200;
     whenever (ret = 0) (do {
       set_target COMM_DEVICE_DA16200 v;
       ret \<leftarrow> call (cenv (fo_cm e)) (NetStartOta url v);
       whenever (ret \<noteq> 0)
         (do { fota_status_update e 2 CAUSE_INTERNAL COMM_DEVICE_DA16200; skip })
     })
   }"

text \<open>The monitor of the download is started also after a download that did not start.\<close>

definition start_5340 ::
  "fo_env \<Rightarrow> string \<Rightarrow> string \<Rightarrow> 8 word list \<Rightarrow> ('a fo_state_scheme, unit) state" where
  "start_5340 e vertxt url v = do {
     call (cenv (fo_cm e)) (FotaNotify (take 99 (''5340_'' @ vertxt)));
     ret \<leftarrow> commMgr_fota_start (fo_cm e) COMM_DEVICE_NRF5340;
     whenever (ret = 0) (do {
       set_target COMM_DEVICE_NRF5340 v;
       ret \<leftarrow> call (cenv (fo_cm e)) (WifiHttpGet url ''nrf5340_fota.bin'' 3000);
       whenever (ret \<noteq> 0)
         (do { fota_status_update e 2 CAUSE_INTERNAL COMM_DEVICE_NRF5340; skip });
       fota_start_da_http_monitoring
     })
   }"

text \<open>
  An image that was not asked for ends the update of its processor; for the nRF9160 the flag of the
  nRF5340 is cleared in the place of its own.
\<close>

definition refuse_image :: "fo_env \<Rightarrow> comm_device \<Rightarrow> ('a fo_state_scheme, unit) state" where
  "refuse_image e d = do {
     set_dev d (\<lambda>f. f\<lparr>complete := True\<rparr>);
     set_dev (if d = COMM_DEVICE_NRF9160 then COMM_DEVICE_NRF5340 else d) (\<lambda>f. f\<lparr>in_progress := False\<rparr>);
     commMgr_fota_end (fo_cm e) d
   }"

definition wanted :: "comm_device \<Rightarrow> 'a fo_state_scheme \<Rightarrow> bool" where
  "wanted d s \<longleftrightarrow> device_bits (update_device_type s) AND device_bits d \<noteq> 0"

text \<open>The nRF9160 gets its image over LTE: the modem is switched on and waited for up to 22 seconds.\<close>

definition reach_lte :: "fo_env \<Rightarrow> ('a fo_state_scheme, bool) state" where
  "reach_lte e = do {
     s \<leftarrow> State_Monad.get;
     (if \<not> is_lte_connected None s \<and> \<not> modem_is_powered_on s then do {
        call (cenv (fo_cm e)) ModemPowerOn;
        lte_wait e 11
      }
      else return True)
   }"

definition take_image ::
  "fo_env \<Rightarrow> comm_device \<Rightarrow> string \<Rightarrow> string \<Rightarrow> string option \<Rightarrow> string \<Rightarrow> 8 word list \<Rightarrow>
   ('a fo_state_scheme, int option) state" where
  "take_image e d url dt m_rid vertxt v = do {
     w \<leftarrow> gets (wanted d);
     (if \<not> w then do { refuse_image e d; return None }
      else do {
        lte \<leftarrow> (if d = COMM_DEVICE_NRF9160 then reach_lte e else return True);
        (if \<not> lte then return (Some (-1))
         else case m_rid of
           None \<Rightarrow> do { r \<leftarrow> fota_fault; return (Some r) }
         | Some rid \<Rightarrow> do {
             accept_request e d dt rid;
             (if d = COMM_DEVICE_NRF9160 then start_9160 e url v
              else if d = COMM_DEVICE_DA16200 then start_da16200 e url v
              else start_5340 e vertxt url v);
             return None
           })
      })
   }"

text \<open>One URL of the list; entries that are not strings are skipped.\<close>

definition handle_url ::
  "fo_env \<Rightarrow> cjson \<Rightarrow> string option \<Rightarrow> string option \<Rightarrow> cjson \<Rightarrow> ('a fo_state_scheme, int option) state" where
  "handle_url e mtd dt m_rid al_url =
     (case al_url of
        JStr listed \<Rightarrow>
          (let url = (case cJSON_GetObjectItem mtd ''alturl'' of
                        Some a \<Rightarrow> valuestring a | None \<Rightarrow> Some listed)
           in case (string_item mtd ''major'', string_item mtd ''minor'', string_item mtd ''build'', url) of
                (Some a, Some b, Some p, Some u) \<Rightarrow>
                  (case image_for u dt processors of
                     Inl _ \<Rightarrow> do { r \<leftarrow> fota_fault; return (Some r) }
                   | Inr None \<Rightarrow> return None
                   | Inr (Some d) \<Rightarrow>
                       take_image e d u (the dt) m_rid (a @ ''.'' @ b @ ''.'' @ p)
                         (map (\<lambda>t. word_of_int (atoi t)) [a, b, p]))
              | _ \<Rightarrow> do { r \<leftarrow> fota_fault; return (Some r) })
      | _ \<Rightarrow> return None)"

definition handle_item ::
  "fo_env \<Rightarrow> string option \<Rightarrow> cjson \<Rightarrow> ('a fo_state_scheme, int option) state" where
  "handle_item e m_rid item =
     (case cJSON_GetObjectItem item ''MTD'' of
        None \<Rightarrow> return (Some (-1))
      | Some mtd \<Rightarrow>
          (case cJSON_GetObjectItem item ''CH'' of
             None \<Rightarrow> return (Some (-1))
           | Some ch \<Rightarrow> each (handle_url e mtd (string_item item ''DT'') m_rid) (cJSON_children ch)))"

text \<open>An answer for a processor that waits for one; an empty list ends its update and the function.\<close>

definition note_answer :: "fo_env \<Rightarrow> nat \<Rightarrow> comm_device \<Rightarrow> ('a fo_state_scheme, int option) state" where
  "note_answer e results_count d = do {
     f \<leftarrow> gets (fdev d);
     (if requested f \<and> \<not> response_received f then do {
        set_dev d (\<lambda>f. f\<lparr>response_received := True\<rparr>);
        touch d;
        (if results_count = 0 then do {
           fota_finish e d;
           whenever (d = COMM_DEVICE_NRF5340)
             (do { call (cenv (fo_cm e)) (FotaNotify ''NO_UPDATES''); skip });
           return (Some 1)
         }
         else return None)
      }
      else return None)
   }"

definition handle_fota_message :: "fo_env \<Rightarrow> cjson \<Rightarrow> ('a fo_state_scheme, int) state" where
  "handle_fota_message e m = do {
     modify (\<lambda>s. s\<lparr>update_check_in_progress := False\<rparr>);
     case cJSON_GetObjectItem m ''STR'' of
       None \<Rightarrow> return (-1)
     | Some str \<Rightarrow>
         (case valuestring str of
            None \<Rightarrow> fota_fault
          | Some t \<Rightarrow>
              if t \<noteq> ''OK'' then return (-1)
              else
                (let items = (case cJSON_GetObjectItem m ''AL'' of
                                Some al \<Rightarrow> cJSON_children al | None \<Rightarrow> [])
                 in or_else (each (note_answer e (length items mod 256)) processors)
                      (or_else (each (handle_item e (string_item m ''RID'')) items) (return 0))))
   }"

section \<open>The run over all processors\<close>

text \<open>The next visit in milliseconds, or \<open>None\<close> when the processor is done with.\<close>

definition visit :: "fo_env \<Rightarrow> comm_device \<Rightarrow> ('a fo_state_scheme, nat option) state" where
  "visit e d = do {
     s \<leftarrow> State_Monad.get;
     let f = fdev d s
     in if complete f then return None
        else if \<not> requested f then do { check_for_updates e True d; return (Some 10000) }
        else if last_state_time f + FOTA_STATE_MAX_TIME_IN_SEC * 1000 < uptime (wld s)
        then do { fota_finish e d; return (Some 10000) }
        else if response_received f \<and> in_progress f
        then return (Some (if d = COMM_DEVICE_DA16200 then 60000 else 30000))
        else return (Some 10000)
   }"

definition all_complete :: "fo_env \<Rightarrow> ('a fo_state_scheme, unit) state" where
  "all_complete e = do {
     reset_all;
     modify (\<lambda>s. s\<lparr>fota_in_progress := False\<rparr>);
     commMgr_fota_end (fo_cm e) COMM_DEVICE_NRF5340;
     commMgr_fota_end (fo_cm e) COMM_DEVICE_NRF9160;
     commMgr_fota_end (fo_cm e) COMM_DEVICE_DA16200;
     radio \<leftarrow> gets rm_get_active_mqtt_radio;
     whenever (radio \<noteq> COMM_DEVICE_NRF9160) (do { call (cenv (fo_cm e)) ModemPowerOff; skip });
     commMgr_enable_S_work True;
     skip
   }"

definition fota_work_callback :: "fo_env \<Rightarrow> ('a fo_state_scheme, unit) state" where
  "fota_work_callback e = do {
     r \<leftarrow> each (visit e) processors;
     case r of
       Some ms \<Rightarrow> modify (\<lambda>s. s\<lparr>fota_check_timer := Some ms\<rparr>)
     | None \<Rightarrow> all_complete e
   }"

definition fota_update_all_devices :: "('a fo_state_scheme, int) state" where
  "fota_update_all_devices = do {
     running \<leftarrow> gets fota_in_progress;
     whenever (\<not> running) (do {
       modify (\<lambda>s. s\<lparr>fota_in_progress := True\<rparr>);
       commMgr_enable_S_work False;
       reset_all;
       modify (\<lambda>s. s\<lparr>fota_work := True\<rparr>)
     });
     return 0
   }"

definition cancel_fota_download :: "fo_env \<Rightarrow> comm_device \<Rightarrow> ('a fo_state_scheme, int) state" where
  "cancel_fota_download e d = do {
     s \<leftarrow> State_Monad.get;
     whenever (d \<in> set processors \<and> in_progress (fdev d s)) (do {
       whenever (d = COMM_DEVICE_NRF9160) (do { call (cenv (fo_cm e)) ModemSendFotaCancel; skip });
       fota_status_update e 99 0 d;
       skip
     });
     return 0
   }"

text \<open>The timer of the run and its work item are left as they are.\<close>

definition fota_cancel_fota_update :: "fo_env \<Rightarrow> ('a fo_state_scheme, int) state" where
  "fota_cancel_fota_update e = do {
     running \<leftarrow> gets fota_in_progress;
     (if \<not> running then return (-1)
      else do {
        reset_all;
        modify (\<lambda>s. s\<lparr>fota_in_progress := False\<rparr>);
        commMgr_fota_end (fo_cm e) COMM_DEVICE_NRF5340;
        commMgr_fota_end (fo_cm e) COMM_DEVICE_NRF9160;
        commMgr_fota_end (fo_cm e) COMM_DEVICE_DA16200;
        commMgr_enable_S_work True;
        return 0
      })
   }"

section \<open>Shell\<close>

text \<open>A number that is no device has no version, like \<open>COMM_DEVICE_NONE\<close>.\<close>

definition device_of_int :: "int \<Rightarrow> comm_device" where
  "device_of_int n =
     (if n = 1 then COMM_DEVICE_NRF9160 else if n = 2 then COMM_DEVICE_DA16200
      else if n = 4 then COMM_DEVICE_NRF5340 else if n = 8 then COMM_DEVICE_ALL
      else if n = 16 then COMM_DEVICE_ANY else COMM_DEVICE_NONE)"

definition do_fota_check :: "fo_env \<Rightarrow> string list \<Rightarrow> ('a fo_state_scheme, unit) state" where
  "do_fota_check e args =
     (if length args < 2 then skip
      else do {
        check_for_updates e (length args = 3 \<and> atoi (args ! 2) = 1) (device_of_int (atoi (args ! 1)));
        skip
      })"

definition fota_add_file_cmd :: "fo_env \<Rightarrow> ('a fo_state_scheme, unit) state" where
  "fota_add_file_cmd e = (let c = cenv (fo_cm e) in do {
     call c (FsOpen NOTES);
     call c (FsWrite (''d6e63cdd-4b65-443b-82cc-511b6a5348fc'' @ [CHR 0x0A]));
     call c (FsWrite (''4'' @ [CHR 0x0A] @ ''5'' @ [CHR 0x0A] @ ''6'' @ [CHR 0x0A]));
     call c FsClose;
     skip
   })"

section \<open>Events\<close>

text \<open>
  The timers fire into work items; the work items, the reports, the answers of the cloud and the commands
  run in any order; time passes.
\<close>

datatype fo_event =
  FoTimer | FoVersionTimer | FoProgressTimer | FoMonitorTimer
| FoWork | FoVersionWork | FoProgressWork | FoMonitorWork
| FoMessage cjson | FoStatus int int comm_device | FoDaEvent bool
| FoUpdateAll | FoCheck bool comm_device | FoCancel comm_device | FoCancelAll
| FoCheckProgress | FoStart9160 "8 word list" | FoPass nat

definition if_pending ::
  "('s \<Rightarrow> bool) \<Rightarrow> ('s \<Rightarrow> 's) \<Rightarrow> ('s, unit) state \<Rightarrow> ('s, unit) state" where
  "if_pending p clear m = do { b \<leftarrow> gets p; whenever b (do { modify clear; m }) }"

definition run_fo_event :: "fo_env \<Rightarrow> fo_event \<Rightarrow> ('a fo_state_scheme, unit) state" where
  "run_fo_event e ev =
     (case ev of
        FoTimer \<Rightarrow>
          if_pending (\<lambda>s. fota_check_timer s \<noteq> None) (\<lambda>s. s\<lparr>fota_check_timer := None\<rparr>)
            (modify (\<lambda>s. s\<lparr>fota_work := True\<rparr>))
      | FoVersionTimer \<Rightarrow>
          if_pending (\<lambda>s. fota_version_check_timer s \<noteq> None) (\<lambda>s. s\<lparr>fota_version_check_timer := None\<rparr>)
            (modify (\<lambda>s. s\<lparr>check_version_work := True\<rparr>))
      | FoProgressTimer \<Rightarrow>
          if_pending (\<lambda>s. fota_in_progress_check_timer s \<noteq> None)
            (\<lambda>s. s\<lparr>fota_in_progress_check_timer := None\<rparr>)
            (modify (\<lambda>s. s\<lparr>in_progress_work := True\<rparr>))
      | FoMonitorTimer \<Rightarrow>
          if_pending (\<lambda>s. fota_da_http_monitor_timer s \<noteq> None) id
            (modify (\<lambda>s. s\<lparr>monitor_work := True\<rparr>))
      | FoWork \<Rightarrow> if_pending fota_work (\<lambda>s. s\<lparr>fota_work := False\<rparr>) (fota_work_callback e)
      | FoVersionWork \<Rightarrow>
          if_pending check_version_work (\<lambda>s. s\<lparr>check_version_work := False\<rparr>) (fota_version_check_work e)
      | FoProgressWork \<Rightarrow>
          if_pending in_progress_work (\<lambda>s. s\<lparr>in_progress_work := False\<rparr>) (fota_in_progress_check_work e)
      | FoMonitorWork \<Rightarrow>
          if_pending monitor_work (\<lambda>s. s\<lparr>monitor_work := False\<rparr>) (da_http_monitor_work e)
      | FoMessage m \<Rightarrow> do { handle_fota_message e m; skip }
      | FoStatus st pct d \<Rightarrow> do { fota_status_update e st pct d; skip }
      | FoDaEvent http \<Rightarrow> do { fota_handle_da_event e http; skip }
      | FoUpdateAll \<Rightarrow> do { fota_update_all_devices; skip }
      | FoCheck b d \<Rightarrow> do { check_for_updates e b d; skip }
      | FoCancel d \<Rightarrow> do { cancel_fota_download e d; skip }
      | FoCancelAll \<Rightarrow> do { fota_cancel_fota_update e; skip }
      | FoCheckProgress \<Rightarrow> fota_check_for_fota_in_progress
      | FoStart9160 v \<Rightarrow> do { fota_start_9160_process e v; skip }
      | FoPass ms \<Rightarrow> ksleep (cenv (fo_cm e)) ms)"

inductive fo_reach :: "fo_env \<Rightarrow> 'a fo_state_scheme \<Rightarrow> 'a fo_state_scheme \<Rightarrow> bool" for e where
  fo_here: "fo_reach e s s"
| fo_step: "fo_reach e s t \<Longrightarrow> fo_reach e s (after (run_fo_event e ev) t)"

end
