(* ===== verification/FotaProps.thy ===== *)
theory FotaProps
  imports Fota CommProps ModeProps
begin

text \<open>
  Properties of the firmware updates: the run over all processors is always driven on, holds the periodic
  work off, and ends without any answer; the notes for the next start round trip; and two ways in which the
  run goes wrong.  Actions that leave the module's variables alone are \<open>quiet\<close>; \<open>visited\<close> is what a visit
  makes of the three states, and \<open>left_at\<close> the measure that it decreases.
\<close>

section \<open>Actions that leave the module's variables alone\<close>

definition fo_view :: "'a fo_state_scheme \<Rightarrow> _" where
  "fo_view s =
     (nrf9160_fota s, da16200_fota s, nrf5340_fota s, fota_in_progress s, update_device_type s,
      fota_check_timer s, fota_work s, g_9160_fota_in_progress s, g_DA_fota_in_progress s,
      g_5340_fota_in_progress s, g_comm_mgr_disable_S_work s)"

text \<open>A quiet action changes none of these, and the clock does not go back.\<close>

definition quiet :: "('a fo_state_scheme, 'b) state \<Rightarrow> bool" where
  "quiet m \<longleftrightarrow> (\<forall>s. fo_view (after m s) = fo_view s \<and> uptime (wld s) \<le> uptime (wld (after m s)))"

named_theorems quiet_intro "actions that are quiet"

lemma quietI: "(\<And>v t. keeps (\<lambda>s. fo_view s = v \<and> t \<le> uptime (wld s)) m) \<Longrightarrow> quiet m"
  unfolding quiet_def keeps_def by (metis order_refl)

lemma quietD: "quiet m \<Longrightarrow> fo_view (after m s) = fo_view s" "quiet m \<Longrightarrow> uptime (wld s) \<le> uptime (wld (after m s))"
  by (simp_all add: quiet_def)

lemma quiet_rules [quiet_intro]:
  "quiet (return x)" "quiet (gets f)" "quiet State_Monad.get"
  "quiet m \<Longrightarrow> (\<And>a. quiet (g a)) \<Longrightarrow> quiet (State_Monad.bind m g)"
  "(b \<Longrightarrow> quiet m) \<Longrightarrow> (\<not> b \<Longrightarrow> quiet n) \<Longrightarrow> quiet (if b then m else n)"
  "(b \<Longrightarrow> quiet u) \<Longrightarrow> quiet (whenever b u)"
  "quiet (g x) \<Longrightarrow> quiet (let y = x in g y)"
  "(opt = None \<Longrightarrow> quiet m) \<Longrightarrow> (\<And>y. opt = Some y \<Longrightarrow> quiet (h y)) \<Longrightarrow>
   quiet (case opt of None \<Rightarrow> m | Some y \<Rightarrow> h y)"
  by (auto simp: quiet_def Let_def split: option.split intro: order_trans)

lemma quiet_modify:
  "(\<And>s. fo_view (f s) = fo_view s \<and> wld (f s) = wld s) \<Longrightarrow> quiet (modify f)"
  by (simp add: quiet_def)

lemma k_sleep_later: "t \<le> uptime w \<Longrightarrow> t \<le> uptime (k_sleep e ms w)"
  using k_sleep_uptime [of w ms e] by linarith

lemma do_call_later: "t \<le> uptime w \<Longrightarrow> t \<le> uptime (snd (do_call e d w))"
  using do_call_uptime [of w e d] by linarith

lemma view_robust: "robust e (\<lambda>s. fo_view s = v \<and> t \<le> uptime (wld s))"
  by (simp add: robust_def steady_def free_vars_def keeps_def fo_view_def rm_switch_to_def set_info_def
      queue_switching_handler_def run whenever_def k_sleep_later do_call_later)

lemma quiet_calls [quiet_intro]: "quiet (call c d)" "quiet (ksleep c ms)"
  by (rule quietI, intro keeps_intro view_robust)+

lemma quiet_radio [quiet_intro]:
  "quiet (rm_prepare_radio_for_use c d mq t)" "quiet (rm_done_with_radio c d)"
  by (rule quietI, intro keeps_intro view_robust)+

lemma quiet_queue [quiet_intro]: "quiet (queue_json c j topic prio)"
  unfolding queue_json_def commMgr_queue_mqtt_message_def k_heap_alloc_def k_heap_free_def k_msgq_put_def
  by (intro quiet_intro quiet_modify) (simp_all add: fo_view_def)

lemma quiet_small [quiet_intro]:
  "quiet (fota_feedback e code dt rid st prio)" "quiet (feedback_on e d code st prio)"
  "quiet (fota_overruns b)" "quiet fota_fault" "quiet (start_version_timer n)"
  "quiet fota_check_for_fota_in_progress" "quiet fota_start_da_http_monitoring"
  "quiet fota_stop_da_http_monitoring"
  unfolding fota_feedback_def feedback_on_def fota_overruns_def fota_fault_def start_version_timer_def
    fota_check_for_fota_in_progress_def fota_start_da_http_monitoring_def fota_stop_da_http_monitoring_def
  by (intro quiet_intro quiet_modify; simp add: fo_view_def)+

lemma quiet_over [quiet_intro]: "quiet (fota_over c what)"
  unfolding fota_over_def by (intro quiet_intro)

lemma quiet_lte_wait [quiet_intro]: "quiet (lte_wait e n)"
  by (induction n) (simp_all only: lte_wait.simps, (intro quiet_intro; assumption)+)

lemma quiet_reach [quiet_intro]: "quiet (reach_lte e)"
  unfolding reach_lte_def by (intro quiet_intro)

section \<open>The run is driven on\<close>

text \<open>What the run over all processors is made of, and the invariants that read only that.\<close>

definition run_part :: "'a fo_state_scheme \<Rightarrow> bool \<times> nat option \<times> bool \<times> bool" where
  "run_part s = (fota_in_progress s, fota_check_timer s, fota_work s, g_comm_mgr_disable_S_work s)"

lemma quiet_run: "quiet m \<Longrightarrow> same run_part m"
  by (simp add: quiet_def same_def run_part_def fo_view_def)

lemmas same_quiet [same_intro] =
  quiet_calls [THEN quiet_run] quiet_radio [THEN quiet_run] quiet_queue [THEN quiet_run]
  quiet_small [THEN quiet_run] quiet_over [THEN quiet_run] quiet_lte_wait [THEN quiet_run]
  quiet_reach [THEN quiet_run]

lemma run_part_upd [simp]: "run_part (upd_fdev d f s) = run_part s"
  by (cases d) (simp_all add: run_part_def)

lemma same_devs [same_intro]: "same run_part (set_dev d f)" "same run_part (touch d)"
  unfolding set_dev_def touch_def by (rule same_modify, simp)+

lemma same_flags [same_intro]:
  "same run_part (modify (\<lambda>s. s\<lparr>g_9160_fota_in_progress := b\<rparr>))"
  "same run_part (modify (\<lambda>s. s\<lparr>g_DA_fota_in_progress := b\<rparr>))"
  "same run_part (modify (\<lambda>s. s\<lparr>g_5340_fota_in_progress := b\<rparr>))"
  by (rule same_modify, simp add: run_part_def)+

lemma same_start_end [same_intro]:
  "same run_part (commMgr_fota_start c d)" "same run_part (commMgr_fota_end c d)"
  unfolding commMgr_fota_start_def commMgr_fota_end_def
  by (cases d; simp only: comm_device.case; intro same_intro)+

lemma same_each [same_intro]: "(\<And>x. same f (g x)) \<Longrightarrow> same f (each g xs)"
  by (induction xs) (simp_all only: each.simps, (intro same_intro; simp)+)

lemma same_vars [same_intro]:
  "same run_part (modify (\<lambda>s. s\<lparr>update_check_in_progress := b\<rparr>))"
  "same run_part (modify (\<lambda>s. s\<lparr>update_check_in_progress := b, update_device_type := d\<rparr>))"
  "same run_part (modify (\<lambda>s. s\<lparr>g_last_http_amount := n\<rparr>))"
  by (rule same_modify, simp add: run_part_def)+

lemma same_status [same_intro]:
  "same run_part (fota_finish e d)" "same run_part (downloading e pct d)"
  "same run_part (update_done e d)" "same run_part (update_aborted e d)"
  "same run_part (update_failed e n d)"
  unfolding fota_finish_def downloading_def update_done_def update_aborted_def update_failed_def
  by (intro same_intro)+

lemma same_reports [same_intro]:
  "same run_part (fota_status_update e st pct d)" "same run_part (da_http_monitor_work e)"
  unfolding da_http_monitor_work_def fota_status_update_def by (intro same_intro)+

lemma same_install [same_intro]:
  "same run_part (install_image e)" "same run_part (fota_handle_da_event e http)"
  "same run_part (judge_own_update e)" "same run_part (fota_in_progress_check_work e)"
  "same run_part (judge_version e d v)" "same run_part (fota_version_check_work e)"
  unfolding install_image_def fota_handle_da_event_def judge_own_update_def
    fota_in_progress_check_work_def judge_version_def fota_version_check_work_def
  by (intro same_intro)+

lemma same_check [same_intro]:
  "same run_part (mark_requested b d)" "same run_part (check_for_updates e b d)"
  unfolding mark_requested_def check_for_updates_def by (intro same_intro)+

lemma same_images [same_intro]:
  "same run_part (fota_start_9160_process e v)" "same run_part (accept_request e d dt rid)"
  "same run_part (start_9160 e url v)" "same run_part (set_target d v)"
  "same run_part (start_da16200 e url v)" "same run_part (start_5340 e txt url v)"
  "same run_part (refuse_image e d)"
  unfolding fota_start_9160_process_def accept_request_def start_9160_def set_target_def
    start_da16200_def start_5340_def refuse_image_def by (intro same_intro)+

lemma same_take [same_intro]: "same run_part (take_image e d url dt rid txt v)"
  unfolding take_image_def by (intro same_intro)

lemma image_for_device: "image_for url dt ds = Inr (Some d) \<Longrightarrow> d \<in> set ds"
  by (induction ds) (auto split: if_splits option.splits)

lemma handle_url_cases:
  assumes "P (return None)" and "P (do { r \<leftarrow> fota_fault; return (Some r) })"
    and "\<And>d u txt v. d \<in> set processors \<Longrightarrow> P (take_image e d u (the dt) rid txt v)"
  shows "P (handle_url e mtd dt rid al)"
proof (cases al)
  case (JStr listed)
  then show ?thesis unfolding handle_url_def
    by (auto simp: Let_def assms image_for_device simp del: list.map split: option.split sum.split)
qed (simp_all add: handle_url_def assms(1))

lemma same_url [same_intro]: "same run_part (handle_url e mtd dt rid al)"
  by (rule handle_url_cases) (intro same_intro)+

lemma same_message [same_intro]:
  "same run_part (handle_item e rid i)" "same run_part (note_answer e n d)"
  "same run_part (handle_fota_message e m)" "same run_part (visit e d)"
  "same run_part (cancel_fota_download e d)"
  unfolding handle_item_def note_answer_def handle_fota_message_def visit_def cancel_fota_download_def
  by (intro same_intro)+

text \<open>The run is on, with the periodic work off and its next visit on the way.\<close>

definition run_driven :: "'a fo_state_scheme \<Rightarrow> bool" where
  "run_driven s \<longleftrightarrow> (fota_in_progress s \<longrightarrow>
     g_comm_mgr_disable_S_work s \<and> (fota_check_timer s \<noteq> None \<or> fota_work s))"

lemma run_driven_part:
  "run_driven s \<longleftrightarrow> (case run_part s of (p, t, w, off) \<Rightarrow> p \<longrightarrow> off \<and> (t \<noteq> None \<or> w))"
  by (simp add: run_driven_def run_part_def)

lemma same_driven: "same run_part m \<Longrightarrow> run_driven s \<Longrightarrow> run_driven (after m s)"
  by (simp add: run_driven_part same_def)

lemma run_partD:
  "run_part t = run_part s \<Longrightarrow> fota_in_progress t = fota_in_progress s \<and>
   fota_check_timer t = fota_check_timer s \<and> fota_work t = fota_work s \<and>
   g_comm_mgr_disable_S_work t = g_comm_mgr_disable_S_work s"
  by (simp add: run_part_def)

lemma same_reset_all [same_intro]: "same run_part reset_all"
  unfolding reset_all_def by (intro same_intro)

lemma run_parts:
  assumes "same run_part m"
  shows "fota_in_progress (after m s) = fota_in_progress s"
    "fota_check_timer (after m s) = fota_check_timer s" "fota_work (after m s) = fota_work s"
    "g_comm_mgr_disable_S_work (after m s) = g_comm_mgr_disable_S_work s"
  using run_partD [OF sameD [OF assms], of s] by simp_all

lemmas end_parts [simp] =
  run_parts [OF same_start_end(2)] run_parts [OF same_reset_all] run_parts [OF same_quiet(1)]

lemma all_complete_off: "\<not> fota_in_progress (after (all_complete e) s) \<and>
    \<not> g_comm_mgr_disable_S_work (after (all_complete e) s)"
  by (simp add: all_complete_def commMgr_enable_S_work_def)

lemma work_callback_driven:
  assumes "g_comm_mgr_disable_S_work s \<or> \<not> fota_in_progress s"
  shows "run_driven (after (fota_work_callback e) s)"
proof -
  have v: "same run_part (each (visit e) processors)" by (intro same_intro)
  then show ?thesis
    using assms all_complete_off [of e] run_partD [OF sameD [OF v], of s]
    by (auto simp: fota_work_callback_def run_driven_def split: option.split)
qed

lemma cancel_all_off: "fota_in_progress s \<Longrightarrow>
    run_part (after (fota_cancel_fota_update e) s) = (False, fota_check_timer s, fota_work s, False)"
  by (simp add: fota_cancel_fota_update_def commMgr_enable_S_work_def run_part_def)

lemma update_all_part: "run_part (after fota_update_all_devices s) =
    (if fota_in_progress s then run_part s else (True, fota_check_timer s, True, True))"
  by (simp add: fota_update_all_devices_def commMgr_enable_S_work_def run_part_def)

lemma run_driven_step: "run_driven s \<Longrightarrow> run_driven (after (run_fo_event e ev) s)"
proof (cases ev)
  case FoTimer
  assume "run_driven s"
  then show ?thesis using FoTimer by (auto simp: run_fo_event_def if_pending_def run_driven_def)
next
  case FoWork
  assume d: "run_driven s"
  show ?thesis
  proof (cases "fota_work s")
    case True
    then have "run_driven (after (fota_work_callback e) (s\<lparr>fota_work := False\<rparr>))"
      using d by (intro work_callback_driven) (auto simp: run_driven_def)
    then show ?thesis using FoWork True by (simp add: run_fo_event_def if_pending_def)
  qed (use d FoWork in \<open>simp add: run_fo_event_def if_pending_def\<close>)
next
  case FoUpdateAll
  assume "run_driven s"
  then show ?thesis using FoUpdateAll update_all_part [of s]
    by (auto simp: run_fo_event_def run_driven_part split: if_splits)
next
  case FoCancelAll
  assume d: "run_driven s"
  show ?thesis
  proof (cases "fota_in_progress s")
    case True
    then show ?thesis using FoCancelAll cancel_all_off [of s e]
      by (simp add: run_fo_event_def run_driven_part)
  qed (use d FoCancelAll in \<open>simp add: run_fo_event_def fota_cancel_fota_update_def\<close>)
next
  case (FoVersionTimer)
  assume "run_driven s"
  then show ?thesis using FoVersionTimer by (auto simp: run_fo_event_def if_pending_def run_driven_def)
next
  case (FoProgressTimer)
  assume "run_driven s"
  then show ?thesis using FoProgressTimer by (auto simp: run_fo_event_def if_pending_def run_driven_def)
next
  case (FoMonitorTimer)
  assume "run_driven s"
  then show ?thesis using FoMonitorTimer by (auto simp: run_fo_event_def if_pending_def run_driven_def)
next
  case (FoVersionWork)
  assume "run_driven s"
  then have "run_driven (s\<lparr>check_version_work := False\<rparr>)" by (simp add: run_driven_def)
  then show ?thesis using FoVersionWork \<open>run_driven s\<close> same_driven [OF same_install(6)]
    by (auto simp: run_fo_event_def if_pending_def)
next
  case (FoProgressWork)
  assume "run_driven s"
  then have "run_driven (s\<lparr>in_progress_work := False\<rparr>)" by (simp add: run_driven_def)
  then show ?thesis using FoProgressWork \<open>run_driven s\<close> same_driven [OF same_install(4)]
    by (auto simp: run_fo_event_def if_pending_def)
next
  case (FoMonitorWork)
  assume "run_driven s"
  then have "run_driven (s\<lparr>monitor_work := False\<rparr>)" by (simp add: run_driven_def)
  then show ?thesis using FoMonitorWork \<open>run_driven s\<close> same_driven [OF same_reports(2)]
    by (auto simp: run_fo_event_def if_pending_def)
qed (auto simp: run_fo_event_def intro!: same_driven same_intro)

text \<open>
  Claim C23.  While the run over all processors is on, the periodic work is held off and the run's next
  visit is on the way, its timer running or its work item pending, whatever reports, answers, commands
  and timers come in any order.
\<close>

theorem update_run_driven:
  assumes "fo_reach e s t" and "run_driven s"
  shows "fota_in_progress t \<longrightarrow>
    g_comm_mgr_disable_S_work t \<and> (fota_check_timer t \<noteq> None \<or> fota_work t)"
  using assms
proof (induction rule: fo_reach.induct)
  case (fo_here s)
  then show ?case by (simp add: run_driven_def)
next
  case (fo_step s t ev)
  then have "run_driven t" by (simp add: run_driven_def)
  then show ?case using run_driven_step [of t e ev] by (simp add: run_driven_def)
qed

definition fo_mute :: fo_env where
  "fo_mute = \<lparr>fo_cm = cm_mute,
     fo_json = \<lparr>cJSON_PrintPreallocated = (\<lambda>t n. take n ''{}''), base64_encode = (\<lambda>n s. take n s)\<rparr>,
     modem_version = (\<lambda>_. [1, 0, 0]), da_version = (\<lambda>_. [1, 0, 0]), app_version = [1, 0, 0],
     http_amt_downloaded = (\<lambda>_. 0), httpresultcode = (\<lambda>_. 0), notes_text = (\<lambda>_. [])\<rparr>"

lemma fo_boot_vars [simp]:
  "fota_in_progress (fo_boot w) = False" "fota_check_timer (fo_boot w) = None" "fota_work (fo_boot w) = False"
  "nrf9160_fota (fo_boot w) = no_update" "da16200_fota (fo_boot w) = no_update"
  "nrf5340_fota (fo_boot w) = no_update" "wld (fo_boot w) = wld (cm_boot w)"
  by (simp_all add: fo_boot_def cm_state.extend_def fo_state.fields_def)

lemma fo_reach_run: "fo_reach e s (fold (\<lambda>ev. after (run_fo_event e ev)) evs s)"
proof (induction evs rule: rev_induct)
  case Nil
  then show ?case by (simp add: fo_here)
next
  case (snoc ev evs)
  then show ?case by (simp add: fo_step)
qed

theorem update_run_driven_witness:
  "let t = fold (\<lambda>ev. after (run_fo_event fo_mute ev)) [FoUpdateAll, FoWork, FoPass 10000, FoTimer] (fo_boot world0)
   in fota_in_progress t \<longrightarrow> g_comm_mgr_disable_S_work t \<and> (fota_check_timer t \<noteq> None \<or> fota_work t)"
  unfolding Let_def by (rule update_run_driven [OF fo_reach_run]) (simp add: run_driven_def)

section \<open>The run ends without any answer\<close>

text \<open>Time passes until the timer of the run fires, and its work item runs.\<close>

definition tick :: "fo_env \<Rightarrow> 'a fo_state_scheme \<Rightarrow> 'a fo_state_scheme" where
  "tick e s =
     (case fota_check_timer s of
        None \<Rightarrow> s
      | Some ms \<Rightarrow> fold (\<lambda>ev. after (run_fo_event e ev)) [FoPass ms, FoTimer, FoWork] s)"

text \<open>The visits a processor may still need at a time; 9 before it is asked for.\<close>

definition visits_left :: "fota_device \<Rightarrow> nat \<Rightarrow> nat" where
  "visits_left f now =
     (if complete f then 0 else if \<not> requested f then 9
      else 1 + (last_state_time f + 70000 - now) div 10000)"

definition unasked :: "fota_device \<Rightarrow> bool" where
  "unasked f \<longleftrightarrow> \<not> complete f \<and> \<not> requested f"

definition run_left :: "'a fo_state_scheme \<Rightarrow> nat" where
  "run_left s = (let now = uptime (wld s) in
     visits_left (nrf9160_fota s) now + visits_left (da16200_fota s) now +
     (if unasked (nrf9160_fota s) \<or> unasked (da16200_fota s) then 9
      else visits_left (nrf5340_fota s) now))"

definition times_ok :: "'a fo_state_scheme \<Rightarrow> bool" where
  "times_ok s \<longleftrightarrow> (\<forall>d \<in> set processors. last_state_time (fdev d s) \<le> uptime (wld s))"

definition devs :: "'a fo_state_scheme \<Rightarrow> fota_device \<times> fota_device \<times> fota_device" where
  "devs s = (nrf9160_fota s, da16200_fota s, nrf5340_fota s)"

lemma devs_simps: "devs s = (a, b, c) \<longleftrightarrow> nrf9160_fota s = a \<and> da16200_fota s = b \<and> nrf5340_fota s = c"
  by (simp add: devs_def)

lemma quiet_devs: "quiet m \<Longrightarrow> devs (after m s) = devs s"
  using quietD(1) [of m s] by (simp add: fo_view_def devs_def)

lemma visits_later: "t \<le> u \<Longrightarrow> visits_left f u \<le> visits_left f t"
  by (simp add: visits_left_def div_le_mono)

lemma visits_asked: "requested f \<Longrightarrow> last_state_time f \<le> t \<Longrightarrow> visits_left f t \<le> 8"
proof -
  assume "requested f" "last_state_time f \<le> t"
  then have "(last_state_time f + 70000 - t) div 10000 \<le> 70000 div 10000" by (intro div_le_mono) simp
  then show ?thesis using \<open>requested f\<close> by (simp add: visits_left_def)
qed

lemma visits_zero: "visits_left f t = 0 \<longleftrightarrow> complete f"
  by (simp add: visits_left_def)

lemma end_devs:
  "devs (after (commMgr_fota_end c d) s) = devs s"
  "uptime (wld s) \<le> uptime (wld (after (commMgr_fota_end c d) s))"
proof -
  have q: "devs (after (fota_over c w) s) = devs s" "uptime (wld s) \<le> uptime (wld (after (fota_over c w) s))"
    for w using quiet_devs [OF quiet_over] quietD(2) [OF quiet_over] by auto
  show "devs (after (commMgr_fota_end c d) s) = devs s"
    using q(1) by (cases d) (simp_all add: commMgr_fota_end_def devs_def)
  show "uptime (wld s) \<le> uptime (wld (after (commMgr_fota_end c d) s))"
    using q(2) by (cases d) (simp_all add: commMgr_fota_end_def)
qed

lemma finish_devs:
  "devs (after (fota_finish e d) s) = devs (upd_fdev d (\<lambda>f. f\<lparr>complete := True, in_progress := False\<rparr>) s)"
  "uptime (wld s) \<le> uptime (wld (after (fota_finish e d) s))"
proof -
  have "wld (upd_fdev d g s) = wld s" for g by (cases d) simp_all
  then show "devs (after (fota_finish e d) s) = devs (upd_fdev d (\<lambda>f. f\<lparr>complete := True, in_progress := False\<rparr>) s)"
    "uptime (wld s) \<le> uptime (wld (after (fota_finish e d) s))"
    using end_devs(2) [of "upd_fdev d (\<lambda>f. f\<lparr>complete := True, in_progress := False\<rparr>) s" "fo_cm e" d]
    by (simp_all add: fota_finish_def set_dev_def end_devs)
qed

text \<open>The run's state as three devices and a time.\<close>

fun left_at :: "fota_device \<times> fota_device \<times> fota_device \<Rightarrow> nat \<Rightarrow> nat" where
  "left_at (a, b, c) now = visits_left a now + visits_left b now +
     (if unasked a \<or> unasked b then 9 else visits_left c now)"

lemma run_left_at: "run_left s = left_at (devs s) (uptime (wld s))"
  by (simp add: run_left_def devs_def Let_def)

fun times_at :: "fota_device \<times> fota_device \<times> fota_device \<Rightarrow> nat \<Rightarrow> bool" where
  "times_at (a, b, c) now \<longleftrightarrow> last_state_time a \<le> now \<and> last_state_time b \<le> now \<and> last_state_time c \<le> now"

lemma times_ok_at: "times_ok s \<longleftrightarrow> times_at (devs s) (uptime (wld s))"
  by (simp add: times_ok_def devs_def processors_def)

lemma left_at_later: "t \<le> u \<Longrightarrow> left_at v u \<le> left_at v t"
  using visits_later [of t u] by (cases v) (simp add: add_mono)

lemma times_at_later: "times_at v t \<Longrightarrow> t \<le> u \<Longrightarrow> times_at v u"
  by (cases v) simp

lemma upd_fdev_wld [simp]: "wld (upd_fdev d g s) = wld s"
  by (cases d) simp_all

lemma overruns_after: "after (fota_overruns x) s = (if x then s\<lparr>fo_overrun := True\<rparr> else s)"
  by (simp add: fota_overruns_def)

lemma mark_wld [simp]: "wld (after (mark_requested b d) s) = wld s"
  by (simp add: mark_requested_def set_dev_def touch_def)

lemma mark_overrun: "d \<in> set processors \<Longrightarrow>
    devs (after (mark_requested b d) (s\<lparr>fo_overrun := x\<rparr>)) = devs (after (mark_requested b d) s)"
  by (auto simp: processors_def mark_requested_def set_dev_def touch_def timed_device_def devs_def)

lemma queue_devs:
  "devs (after (queue_json c j p n) s) = devs s"
  "uptime (wld s) \<le> uptime (wld (after (queue_json c j p n) s))"
  by (rule quiet_devs [OF quiet_queue], rule quietD(2) [OF quiet_queue])

lemma check_devs:
  assumes "mid_ok (machine_id (fo_cm e))" and d: "d \<in> set processors"
  shows "devs (after (check_for_updates e b d) s) = devs (after (mark_requested b d) s)"
    and "uptime (wld s) \<le> uptime (wld (after (check_for_updates e b d) s))"
proof -
  obtain v where v: "get_current_version e d (wld s) = Some v"
    using d by (auto simp: get_current_version_def processors_def)
  have c: "devs (s\<lparr>update_check_in_progress := False\<rparr>) = devs s" for s :: "'a fo_state_scheme"
    by (simp add: devs_def)
  show "devs (after (check_for_updates e b d) s) = devs (after (mark_requested b d) s)"
    using assms(1) v
    by (simp add: check_for_updates_def json_fota_check_def overruns_after mark_overrun [OF d] queue_devs c)
  show "uptime (wld s) \<le> uptime (wld (after (check_for_updates e b d) s))"
    using assms(1) v
    by (auto simp: check_for_updates_def json_fota_check_def overruns_after intro: order_trans [OF _ queue_devs(2)])
qed

text \<open>The first processor that is not done with, and what its visit makes of the three.\<close>

definition ask_for :: "nat \<Rightarrow> fota_device \<Rightarrow> fota_device" where
  "ask_for now f = f\<lparr>complete := False, response_received := False, in_progress := False, requested := True,
     last_state_time := now\<rparr>"

fun visited ::
  "nat \<Rightarrow> fota_device \<times> fota_device \<times> fota_device \<Rightarrow> fota_device \<times> fota_device \<times> fota_device" where
  "visited now (a, b, c) =
     (let over = (\<lambda>f. last_state_time f + 60000 < now);
          fin = (\<lambda>f. f\<lparr>complete := True, in_progress := False\<rparr>)
      in if \<not> complete a then
           (if \<not> requested a then (ask_for now a, b, forget_states c)
            else if over a then (fin a, b, c) else (a, b, c))
         else if \<not> complete b then
           (if \<not> requested b
            then (a\<lparr>last_state_time := now\<rparr>, ask_for (last_state_time b) b, forget_states c)
            else if over b then (a, fin b, c) else (a, b, c))
         else if \<not> complete c then
           (if \<not> requested c then (a, b, ask_for now (forget_states c))
            else if over c then (a, b, fin c) else (a, b, c))
         else (a, b, c))"

lemma mark_devs:
  "devs (after (mark_requested t COMM_DEVICE_NRF9160) s) =
     (ask_for (uptime (wld s)) (nrf9160_fota s), da16200_fota s, forget_states (nrf5340_fota s))"
  "devs (after (mark_requested t COMM_DEVICE_DA16200) s) =
     (nrf9160_fota s\<lparr>last_state_time := uptime (wld s)\<rparr>,
      ask_for (last_state_time (da16200_fota s)) (da16200_fota s), forget_states (nrf5340_fota s))"
  "devs (after (mark_requested t COMM_DEVICE_NRF5340) s) =
     (nrf9160_fota s, da16200_fota s, ask_for (uptime (wld s)) (forget_states (nrf5340_fota s)))"
  by (simp_all add: mark_requested_def set_dev_def touch_def timed_device_def devs_def ask_for_def)

lemma upd_devs:
  "devs (upd_fdev COMM_DEVICE_NRF9160 g s) = (g (nrf9160_fota s), da16200_fota s, nrf5340_fota s)"
  "devs (upd_fdev COMM_DEVICE_DA16200 g s) = (nrf9160_fota s, g (da16200_fota s), nrf5340_fota s)"
  "devs (upd_fdev COMM_DEVICE_NRF5340 g s) = (nrf9160_fota s, da16200_fota s, g (nrf5340_fota s))"
  "devs (s\<lparr>nrf9160_fota := x\<rparr>) = (x, da16200_fota s, nrf5340_fota s)"
  "devs (s\<lparr>da16200_fota := x\<rparr>) = (nrf9160_fota s, x, nrf5340_fota s)"
  "devs (s\<lparr>nrf5340_fota := x\<rparr>) = (nrf9160_fota s, da16200_fota s, x)"
  by (simp_all add: devs_def)

definition all_done :: "'a fo_state_scheme \<Rightarrow> bool" where
  "all_done s \<longleftrightarrow> (\<forall>d \<in> set processors. complete (fdev d s))"

lemma visit_complete: "complete (fdev d s) \<Longrightarrow> result (visit e d) s = None \<and> after (visit e d) s = s"
  by (simp add: visit_def Let_def)

text \<open>The processor that is visited.\<close>

definition next_up :: "'a fo_state_scheme \<Rightarrow> comm_device" where
  "next_up s = (if \<not> complete (nrf9160_fota s) then COMM_DEVICE_NRF9160
     else if \<not> complete (da16200_fota s) then COMM_DEVICE_DA16200 else COMM_DEVICE_NRF5340)"

lemma next_up_open: "next_up s \<in> set processors" "\<not> all_done s \<Longrightarrow> \<not> complete (fdev (next_up s) s)"
  by (auto simp: next_up_def processors_def all_done_def)

lemma visited_next:
  assumes "\<not> all_done s" and "d = next_up s"
  shows "visited (uptime (wld s)) (devs s) =
     (if \<not> requested (fdev d s) then devs (after (mark_requested True d) s)
      else if last_state_time (fdev d s) + 60000 < uptime (wld s)
      then devs (upd_fdev d (\<lambda>f. f\<lparr>complete := True, in_progress := False\<rparr>) s)
      else devs s)"
proof -
  have v: "devs s = (nrf9160_fota s, da16200_fota s, nrf5340_fota s)" by (simp add: devs_def)
  show ?thesis unfolding v using next_up_open(2) [OF assms(1)] assms(2)
    by (simp add: next_up_def mark_devs upd_devs Let_def v split: if_splits)
qed

lemma visit_open:
  assumes "mid_ok (machine_id (fo_cm e))" and "\<not> all_done s" and "d = next_up s"
  shows "\<exists>ms \<ge> 10000. result (visit e d) s = Some ms \<and>
    devs (after (visit e d) s) = visited (uptime (wld s)) (devs s) \<and>
    uptime (wld s) \<le> uptime (wld (after (visit e d) s))"
proof -
  have d: "d \<in> set processors" "\<not> complete (fdev d s)" using next_up_open [of s] assms(2,3) by auto
  show ?thesis unfolding visited_next [OF assms(2,3)]
    using d(2) check_devs [OF assms(1) d(1), where b = True and s = s] finish_devs [where e = e and d = d and s = s]
    by (simp add: visit_def Let_def)
qed

lemma each_next:
  assumes "result (visit e (next_up s)) s = Some ms"
  shows "result (each (visit e) processors) s = Some ms \<and>
    after (each (visit e) processors) s = after (visit e (next_up s)) s"
  using assms visit_complete [of COMM_DEVICE_NRF9160 s e] visit_complete [of COMM_DEVICE_DA16200 s e]
  by (auto simp: processors_def next_up_def split: if_splits)

lemma visits:
  assumes "mid_ok (machine_id (fo_cm e))" and "\<not> all_done s"
  shows "\<exists>ms \<ge> 10000. result (each (visit e) processors) s = Some ms \<and>
    devs (after (each (visit e) processors) s) = visited (uptime (wld s)) (devs s) \<and>
    uptime (wld s) \<le> uptime (wld (after (each (visit e) processors) s))"
  using visit_open [OF assms refl] each_next by fastforce

lemma visits_done: "all_done s \<Longrightarrow> result (each (visit e) processors) s = None"
  using visit_complete [of _ s e] by (auto simp: processors_def all_done_def)

text \<open>A visit after at least ten seconds brings the end nearer.\<close>

lemma visits_step:
  assumes "t + 10000 \<le> u" and "u \<le> last_state_time f + 60000" and "requested f" and "\<not> complete f"
  shows "visits_left f u < visits_left f t"
proof -
  have "(last_state_time f + 70000 - u) div 10000 \<le> (last_state_time f + 70000 - t - 10000) div 10000"
    using assms(1) by (intro div_le_mono) simp
  also have "\<dots> < (last_state_time f + 70000 - t) div 10000"
    using assms(1,2) by simp
  finally show ?thesis using assms(3,4) by (simp add: visits_left_def)
qed

lemma visits_ask: "n \<le> u \<Longrightarrow> visits_left (ask_for n f) u \<le> 8"
  by (rule visits_asked) (simp_all add: ask_for_def)

lemma visits_vars [simp]:
  "visits_left (f\<lparr>complete := True, in_progress := False\<rparr>) u = 0"
  "\<not> unasked (f\<lparr>complete := True, in_progress := False\<rparr>)" "\<not> unasked (ask_for n f)"
  "unasked (f\<lparr>last_state_time := n\<rparr>) = unasked f" "unasked (forget_states f)"
  "visits_left (forget_states f) u = 9" "complete f \<Longrightarrow> visits_left f u = 0" "complete f \<Longrightarrow> \<not> unasked f"
  "last_state_time (ask_for n f) = n" "last_state_time (forget_states f) = last_state_time f"
  "last_state_time (f\<lparr>complete := x, in_progress := y\<rparr>) = last_state_time f"
  by (simp_all add: visits_left_def unasked_def ask_for_def forget_states_def)

lemma visits_open: "\<not> complete f \<Longrightarrow> \<not> requested f \<Longrightarrow> visits_left f u = 9"
  "\<not> complete f \<Longrightarrow> 0 < visits_left f u" "\<not> complete f \<Longrightarrow> unasked f = (\<not> requested f)"
  by (simp_all add: visits_left_def unasked_def)

lemma visited_nearer:
  assumes "t + 10000 \<le> u" and "times_at v u"
    and "\<not> complete (fst v) \<or> \<not> complete (fst (snd v)) \<or> \<not> complete (snd (snd v))"
  shows "left_at (visited u v) u < left_at v t" and "times_at (visited u v) u"
proof -
  obtain a b c where v: "v = (a, b, c)" by (cases v)
  have la: "last_state_time a \<le> u" "last_state_time b \<le> u" "last_state_time c \<le> u"
    using assms(2) by (simp_all add: v)
  have later: "visits_left f u \<le> visits_left f t" for f using assms(1) by (intro visits_later) simp
  have step: "requested f \<Longrightarrow> \<not> complete f \<Longrightarrow> \<not> last_state_time f + 60000 < u \<Longrightarrow>
      visits_left f u < visits_left f t" for f
    using visits_step [OF assms(1), of f] by simp
  have asked: "n \<le> u \<Longrightarrow> visits_left (ask_for n f) u < 9" for n f using visits_ask [of n u f] by simp
  show "times_at (visited u v) u" using la by (simp add: v Let_def)
  consider (a) "\<not> complete a" | (b) "complete a" "\<not> complete b" | (c) "complete a" "complete b" "\<not> complete c"
    using assms(3) v by auto
  then show "left_at (visited u v) u < left_at v t"
  proof cases
    case a
    then show ?thesis using step [of a] asked [of u a] later [of b] later [of c] visits_open(2) [of a t]
      by (auto simp: v Let_def visits_open(1,3))
  next
    case b
    then show ?thesis using step [of b] asked [OF la(2), of b] later [of c] visits_open(2) [of b t]
      by (auto simp: v Let_def visits_open(1,3))
  next
    case c
    then show ?thesis using step [of c] asked [of u "forget_states c"] visits_open(2) [of c t]
      by (auto simp: v Let_def visits_open(1,3))
  qed
qed

lemma ksleep_devs: "devs (after (ksleep c ms) s) = devs s"
  "uptime (wld s) + ms \<le> uptime (wld (after (ksleep c ms) s))"
  "fota_check_timer (after (ksleep c ms) s) = fota_check_timer s"
  "fota_in_progress (after (ksleep c ms) s) = fota_in_progress s"
  using k_sleep_uptime by (simp_all add: ksleep_def devs_def)

text \<open>The run is between two visits.\<close>

definition between_visits :: "'a fo_state_scheme \<Rightarrow> bool" where
  "between_visits s \<longleftrightarrow> times_ok s \<and> (\<exists>ms \<ge> 10000. fota_check_timer s = Some ms)"

definition run_ended :: "'a fo_state_scheme \<Rightarrow> bool" where
  "run_ended s \<longleftrightarrow> \<not> fota_in_progress s \<and> fota_check_timer s = None \<and> \<not> fota_work s \<and>
     \<not> g_comm_mgr_disable_S_work s"

lemma all_complete_timer:
  "fota_check_timer (after (all_complete e) s) = fota_check_timer s"
  "fota_work (after (all_complete e) s) = fota_work s"
  by (simp_all add: all_complete_def commMgr_enable_S_work_def)

lemma left_zero: "left_at (devs s) now = 0 \<longleftrightarrow> all_done s"
  by (auto simp: devs_def visits_zero all_done_def processors_def unasked_def)

text \<open>The state of the module when its work item runs in a tick.\<close>

definition woken :: "fo_env \<Rightarrow> nat \<Rightarrow> 'a fo_state_scheme \<Rightarrow> 'a fo_state_scheme" where
  "woken e ms s = (after (ksleep (cenv (fo_cm e)) ms) s)\<lparr>fota_check_timer := None, fota_work := False\<rparr>"

lemma tick_work: "fota_check_timer s = Some ms \<Longrightarrow> tick e s = after (fota_work_callback e) (woken e ms s)"
  by (simp add: tick_def run_fo_event_def if_pending_def woken_def ksleep_def)

lemma woken_devs [simp]: "devs (woken e ms s) = devs s" "fota_check_timer (woken e ms s) = None"
  "\<not> fota_work (woken e ms s)" "uptime (wld s) + ms \<le> uptime (wld (woken e ms s))"
  "all_done (woken e ms s) = all_done s"
  using ksleep_devs [where s = s and ms = ms and c = "cenv (fo_cm e)"]
  by (simp_all add: woken_def devs_def all_done_def processors_def)

lemma tick_nearer:
  assumes "mid_ok (machine_id (fo_cm e))" and "between_visits s" and "\<not> all_done s"
  shows "between_visits (tick e s) \<and> run_left (tick e s) < run_left s"
proof -
  obtain ms where ms: "10000 \<le> ms" "fota_check_timer s = Some ms" and ok: "times_at (devs s) (uptime (wld s))"
    using assms(2) by (auto simp: between_visits_def times_ok_at)
  let ?w = "woken e ms s"
  have later: "uptime (wld s) + 10000 \<le> uptime (wld ?w)" using woken_devs(4) [of s ms e] ms(1) by linarith
  obtain n where n: "10000 \<le> n" "result (each (visit e) processors) ?w = Some n"
    and t: "devs (after (each (visit e) processors) ?w) = visited (uptime (wld ?w)) (devs s)"
      "uptime (wld ?w) \<le> uptime (wld (after (each (visit e) processors) ?w))"
    using visits [OF assms(1), of ?w] assms(3) by auto
  have tick: "tick e s = (after (each (visit e) processors) ?w)\<lparr>fota_check_timer := Some n\<rparr>"
    using n(2) by (simp add: tick_work [OF ms(2)] fota_work_callback_def)
  have nearer: "left_at (visited (uptime (wld ?w)) (devs s)) (uptime (wld ?w)) < run_left s"
    "times_at (visited (uptime (wld ?w)) (devs s)) (uptime (wld ?w))"
    using visited_nearer [OF later times_at_later [OF ok]] later assms(3)
    by (auto simp: run_left_at devs_def all_done_def processors_def)
  have d: "devs (tick e s) = visited (uptime (wld ?w)) (devs s)" "uptime (wld ?w) \<le> uptime (wld (tick e s))"
    using t by (simp_all add: tick devs_def)
  have "run_left (tick e s) < run_left s" "times_ok (tick e s)"
    using le_less_trans [OF left_at_later [OF d(2)] nearer(1)] times_at_later [OF nearer(2) d(2)]
    by (simp_all add: run_left_at [of "tick e s"] times_ok_at d(1))
  then show ?thesis using n(1) by (simp add: between_visits_def tick)
qed

lemma tick_devs:
  assumes "mid_ok (machine_id (fo_cm e))" and "\<not> all_done s" and "fota_check_timer s = Some ms"
  shows "devs (tick e s) = visited (uptime (wld (woken e ms s))) (devs s)"
proof -
  obtain n where n: "result (each (visit e) processors) (woken e ms s) = Some n"
    "devs (after (each (visit e) processors) (woken e ms s)) = visited (uptime (wld (woken e ms s))) (devs s)"
    using visits [OF assms(1), of "woken e ms s"] assms(2) by auto
  then have "devs (tick e s) = devs (after (each (visit e) processors) (woken e ms s))"
    by (simp add: tick_work [OF assms(3)] fota_work_callback_def devs_def)
  then show ?thesis using n(2) by simp
qed

lemma tick_ends:
  assumes "fota_check_timer s \<noteq> None" and "all_done s"
  shows "run_ended (tick e s)"
proof -
  obtain ms where ms: "fota_check_timer s = Some ms" using assms(1) by auto
  have v: "same run_part (each (visit e) processors)" by (intro same_intro)
  have r: "result (each (visit e) processors) (woken e ms s) = None" using assms(2) by (intro visits_done) simp
  show ?thesis
    using all_complete_off [of e] run_parts [OF v, of "woken e ms s"] r
    by (simp add: tick_work [OF ms] fota_work_callback_def run_ended_def all_complete_timer)
qed

lemma run_ticks:
  assumes "mid_ok (machine_id (fo_cm e))" and "between_visits s"
  shows "\<exists>n \<le> Suc (run_left s). run_ended ((tick e ^^ n) s)"
  using assms(2)
proof (induction "run_left s" arbitrary: s rule: less_induct)
  case less
  show ?case
  proof (cases "all_done s")
    case True
    then have "run_ended ((tick e ^^ 1) s)" using less.prems by (auto simp: between_visits_def intro!: tick_ends)
    then show ?thesis by (intro exI [of _ 1]) simp
  next
    case False
    then have t: "between_visits (tick e s)" "run_left (tick e s) < run_left s"
      using tick_nearer [OF assms(1) less.prems] by auto
    obtain n where "n \<le> Suc (run_left (tick e s))" "run_ended ((tick e ^^ n) (tick e s))"
      using less.hyps [OF t(2,1)] by auto
    then show ?thesis using t(2) by (intro exI [of _ "Suc n"]) (simp add: funpow_swap1)
  qed
qed

lemma all_asked: "\<not> fota_in_progress s \<Longrightarrow>
    devs (after (run_fo_event e FoUpdateAll) s) =
      (forget_states (nrf9160_fota s), forget_states (da16200_fota s), forget_states (nrf5340_fota s)) \<and>
    fota_work (after (run_fo_event e FoUpdateAll) s) \<and> wld (after (run_fo_event e FoUpdateAll) s) = wld s"
  by (simp add: run_fo_event_def fota_update_all_devices_def commMgr_enable_S_work_def reset_all_def set_dev_def
      devs_def)

lemma first_visit:
  assumes "mid_ok (machine_id (fo_cm e))" and "times_ok s" and "\<not> fota_in_progress s"
  defines "t \<equiv> after (run_fo_event e FoWork) (after (run_fo_event e FoUpdateAll) s)"
  shows "between_visits t" and "run_left t \<le> 26"
proof -
  define u where "u = (after (run_fo_event e FoUpdateAll) s)\<lparr>fota_work := False\<rparr>"
  have u: "devs u = (forget_states (nrf9160_fota s), forget_states (da16200_fota s), forget_states (nrf5340_fota s))"
    "wld u = wld s" and t: "t = after (fota_work_callback e) u"
    using all_asked [OF assms(3), of e] by (simp_all add: u_def t_def devs_def run_fo_event_def [of e FoWork] if_pending_def)
  have "\<not> all_done u" using u(1) by (simp add: devs_def all_done_def processors_def forget_states_def)
  then obtain n where n: "10000 \<le> n" "result (each (visit e) processors) u = Some n"
    "devs (after (each (visit e) processors) u) = visited (uptime (wld s)) (devs u)"
    "uptime (wld s) \<le> uptime (wld (after (each (visit e) processors) u))"
    using visits [OF assms(1), of u] u(2) by auto
  let ?v = "after (each (visit e) processors) u"
  have f: "\<not> complete (forget_states f)" "\<not> requested (forget_states f)" for f
    by (simp_all add: forget_states_def)
  have te: "t = ?v\<lparr>fota_check_timer := Some n\<rparr>" using n(2) by (simp add: t fota_work_callback_def)
  have d: "devs t = (ask_for (uptime (wld s)) (forget_states (nrf9160_fota s)),
      forget_states (da16200_fota s), forget_states (forget_states (nrf5340_fota s)))"
  proof -
    have "devs t = devs ?v" by (simp add: te devs_def)
    then show ?thesis by (simp add: n(3) u(1) f Let_def)
  qed
  have now: "uptime (wld s) \<le> uptime (wld t)" using n(4) by (simp add: te)
  have "times_at (devs t) (uptime (wld t))"
    unfolding d using assms(2) now by (auto simp: times_ok_at devs_def)
  then show "between_visits t" using n(1) by (simp add: between_visits_def times_ok_at te)
  show "run_left t \<le> 26" using visits_ask [OF now] by (simp add: run_left_at d)
qed

text \<open>
  Claim C24.  A run over all processors that gets no answer ends: from the command that starts it, at most
  27 visits later, all of them waited for, it is over, the periodic work is allowed again and no timer or
  work item of the run is left.
\<close>

theorem update_run_ends:
  assumes "mid_ok (machine_id (fo_cm e))" and "times_ok s" and "\<not> fota_in_progress s"
  shows "\<exists>n \<le> 27. run_ended ((tick e ^^ n)
    (fold (\<lambda>ev. after (run_fo_event e ev)) [FoUpdateAll, FoWork] s))"
proof -
  let ?t = "after (run_fo_event e FoWork) (after (run_fo_event e FoUpdateAll) s)"
  obtain n where "n \<le> Suc (run_left ?t)" "run_ended ((tick e ^^ n) ?t)"
    using run_ticks [OF assms(1) first_visit(1) [OF assms]] by auto
  then show ?thesis using first_visit(2) [OF assms] by (intro exI [of _ n]) simp
qed

theorem update_run_ends_witness:
  "\<exists>n \<le> 27. run_ended ((tick fo_mute ^^ n)
    (fold (\<lambda>ev. after (run_fo_event fo_mute ev)) [FoUpdateAll, FoWork] (fo_boot world0)))"
  by (rule update_run_ends) (simp_all add: fo_mute_def cm_mute_def mid_ok_def times_ok_def processors_def no_update_def)

section \<open>Where the run goes wrong\<close>

text \<open>
  The question for the Wi-Fi chip does not set the time of its own state, so the update of the
  chip that the run has just asked for is given up at the next visit, however long it takes, unless the
  cloud has answered by then: a collar that has been up for more than a minute without another question
  for the chip marks its update complete after ten seconds instead of sixty.
\<close>

theorem da_question_expires_at_once:
  assumes "mid_ok (machine_id (fo_cm e))"
    and "complete (nrf9160_fota s)" and "\<not> complete (da16200_fota s)" and "\<not> requested (da16200_fota s)"
    and "last_state_time (da16200_fota s) + 60000 < uptime (wld s)"
  defines "t \<equiv> after (fota_work_callback e) s"
  shows "requested (da16200_fota t) \<and> \<not> complete (da16200_fota t) \<and> complete (da16200_fota (tick e t))"
proof -
  have "\<not> all_done s" using assms(3) by (simp add: all_done_def processors_def)
  then obtain n where n: "10000 \<le> n" "result (each (visit e) processors) s = Some n"
    "devs (after (each (visit e) processors) s) = visited (uptime (wld s)) (devs s)"
    "uptime (wld s) \<le> uptime (wld (after (each (visit e) processors) s))"
    using visits [OF assms(1)] by blast
  have te: "t = (after (each (visit e) processors) s)\<lparr>fota_check_timer := Some n\<rparr>"
    using n(2) by (simp add: t_def fota_work_callback_def)
  have "devs t = visited (uptime (wld s)) (devs s)" using n(3) by (simp add: te devs_def)
  then have d: "devs t = ((nrf9160_fota s)\<lparr>last_state_time := uptime (wld s)\<rparr>,
      ask_for (last_state_time (da16200_fota s)) (da16200_fota s), forget_states (nrf5340_fota s))"
    using assms(2-4) by (simp add: devs_def [of s] Let_def)
  have open_t: "\<not> all_done t" using d by (simp add: devs_def all_done_def processors_def ask_for_def)
  have late: "last_state_time (da16200_fota s) + 60000 < uptime (wld (woken e n t))"
    using assms(5) n(4) woken_devs(4) [of t n e] by (simp add: te)
  have "devs (tick e t) = visited (uptime (wld (woken e n t))) (devs t)"
    using open_t by (intro tick_devs [OF assms(1)]) (simp_all add: te)
  then show ?thesis using d late assms(2) by (simp add: Let_def ask_for_def) (simp add: devs_def)
qed

text \<open>A collar that has been up for 100 s, with the update of the modem over.\<close>

definition after_modem :: fo_state where
  "after_modem = (fo_boot world0)\<lparr>wld := world0\<lparr>uptime := 100000\<rparr>,
     nrf9160_fota := no_update\<lparr>requested := True, complete := True\<rparr>\<rparr>"

theorem da_question_expires_at_once_witness:
  "let t = after (fota_work_callback fo_mute) after_modem
   in requested (da16200_fota t) \<and> \<not> complete (da16200_fota t) \<and> complete (da16200_fota (tick fo_mute t))"
  unfolding Let_def
  by (rule da_question_expires_at_once)
    (simp_all add: fo_mute_def cm_mute_def mid_ok_def after_modem_def no_update_def)

lemma cancel_devs: "fota_in_progress s \<Longrightarrow>
    devs (after (run_fo_event e FoCancelAll) s) =
      (forget_states (nrf9160_fota s), forget_states (da16200_fota s), forget_states (nrf5340_fota s)) \<and>
    run_part (after (run_fo_event e FoCancelAll) s) = (False, fota_check_timer s, fota_work s, False)"
proof -
  assume on: "fota_in_progress s"
  have m: "devs (s\<lparr>fota_in_progress := x\<rparr>) = devs s" "devs (s\<lparr>g_comm_mgr_disable_S_work := x\<rparr>) = devs s"
    for x and s :: "'a fo_state_scheme" by (simp_all add: devs_def)
  show ?thesis using on cancel_all_off [OF on, of e]
    by (simp add: run_fo_event_def fota_cancel_fota_update_def commMgr_enable_S_work_def end_devs m)
      (simp add: reset_all_def set_dev_def devs_def)
qed

text \<open>
  Cancelling the run over all processors does not stop it: its timer is left running, so the
  next visit asks for the update of the modem again and sets the timer again, with the run marked as off
  and the periodic work allowed meanwhile.
\<close>

theorem cancelled_run_goes_on:
  assumes "mid_ok (machine_id (fo_cm e))" and "fota_in_progress s" and "fota_check_timer s = Some ms"
  defines "t \<equiv> tick e (after (run_fo_event e FoCancelAll) s)"
  shows "requested (nrf9160_fota t) \<and> \<not> complete (nrf9160_fota t) \<and> fota_check_timer t \<noteq> None \<and>
    \<not> fota_in_progress t \<and> \<not> g_comm_mgr_disable_S_work t"
proof -
  let ?c = "after (run_fo_event e FoCancelAll) s"
  have d: "devs ?c = (forget_states (nrf9160_fota s), forget_states (da16200_fota s), forget_states (nrf5340_fota s))"
    and r: "fota_check_timer ?c = Some ms" "\<not> fota_in_progress ?c" "\<not> g_comm_mgr_disable_S_work ?c"
    using cancel_devs [OF assms(2), of e] assms(3) by (simp_all add: run_part_def)
  have f: "\<not> complete (forget_states f)" "\<not> requested (forget_states f)" for f
    by (simp_all add: forget_states_def)
  have open_c: "\<not> all_done ?c" using d f by (simp add: devs_def all_done_def processors_def)
  have v: "same run_part (each (visit e) processors)" by (intro same_intro)
  obtain n where n: "result (each (visit e) processors) (woken e ms ?c) = Some n"
    using visits [OF assms(1), of "woken e ms ?c"] open_c by auto
  have "fota_check_timer t \<noteq> None \<and> \<not> fota_in_progress t \<and> \<not> g_comm_mgr_disable_S_work t"
    using n r run_parts [OF v, of "woken e ms ?c"]
    by (simp add: t_def tick_work [OF r(1)] fota_work_callback_def woken_def ksleep_def)
  moreover have "requested (nrf9160_fota t) \<and> \<not> complete (nrf9160_fota t)"
    using tick_devs [OF assms(1) open_c r(1)] by (simp add: t_def d f Let_def) (simp add: devs_def ask_for_def)
  ultimately show ?thesis by simp
qed

theorem cancelled_run_goes_on_witness:
  "let t = tick fo_mute (after (run_fo_event fo_mute FoCancelAll)
         ((fo_boot world0)\<lparr>fota_in_progress := True, fota_check_timer := Some 10000\<rparr>))
   in requested (nrf9160_fota t) \<and> \<not> complete (nrf9160_fota t) \<and> fota_check_timer t \<noteq> None \<and>
     \<not> fota_in_progress t \<and> \<not> g_comm_mgr_disable_S_work t"
  unfolding Let_def
  by (rule cancelled_run_goes_on) (simp_all add: fo_mute_def cm_mute_def mid_ok_def)

section \<open>The notes for the next start\<close>

lemma tokens_line:
  assumes "x \<noteq> []" and "CHR 0x0A \<notin> set x"
  shows "tokens (CHR 0x0A) (x @ CHR 0x0A # rest) = x # tokens (CHR 0x0A) rest"
proof -
  have "tokens (CHR 0x0A) (x @ CHR 0x0A # rest) = x # tokens (CHR 0x0A) (CHR 0x0A # rest)"
    using assms by (intro tokens_step) auto
  then show ?thesis by (simp add: tokens_sep)
qed

lemma number_line: "CHR 0x0A \<notin> set (show_nat n)"
  using show_nat_digits [of n] by (auto simp: isdigit_def)

lemma tokens_none: "tokens c [] = []"
  by (subst tokens.simps) simp

lemma byte_less: "unat (b :: 8 word) < 256"
  using unsigned_less [of b] by simp

lemma byte_line: "word_of_int (atoi (show_nat (unat (b :: 8 word)))) = b"
  using byte_less [of b] by (simp add: atoi_show_nat)

lemma byte_line_length: "length (show_nat (unat (b :: 8 word))) \<le> 3"
  using show_nat_length [of "unat b" 2] byte_less [of b] by simp

text \<open>
  What is noted down before the application's own image is installed is what the next start
  reads back: the request and the three numbers of the target version, for a request of up to 50 bytes
  without a line end.
\<close>

theorem update_notes_roundtrip:
  assumes "request_id f \<noteq> []" and "CHR 0x0A \<notin> set (request_id f)" and "length (request_id f) \<le> 50"
    and "target_version f = [a, b, c]" and "length (target_version g) = 3"
  shows "notes_device (notes_request f @ notes_version f) g =
    g\<lparr>request_id := request_id f, target_version := target_version f\<rparr>"
proof -
  let ?n = "\<lambda>x. show_nat (unat (x :: 8 word))"
  have v: "notes_version f = ?n a @ CHR 0x0A # ?n b @ CHR 0x0A # ?n c @ CHR 0x0A # []"
    using byte_line_length [of a] byte_line_length [of b] byte_line_length [of c]
    by (simp add: notes_version_def assms(4))
  have r: "notes_request f = request_id f @ [CHR 0x0A]" using assms(3) by (simp add: notes_request_def)
  have "take 64 (notes_request f @ notes_version f) = notes_request f @ notes_version f"
    using byte_line_length [of a] byte_line_length [of b] byte_line_length [of c] assms(3) by (simp add: v r)
  then have "tokens (CHR 0x0A) (take 64 (notes_request f @ notes_version f)) = [request_id f, ?n a, ?n b, ?n c]"
    using assms(1,2) by (simp add: v r tokens_line number_line tokens_none)
  moreover obtain x y z where "target_version g = [x, y, z]"
    using assms(5) by (auto simp: length_Suc_conv numeral_3_eq_3)
  ultimately show ?thesis using assms(3,4)
    by (simp add: notes_device_def Let_def take_line_def byte_line)
qed

theorem update_notes_roundtrip_witness:
  "let f = no_update\<lparr>request_id := ''d6e63cdd-4b65-443b-82cc-511b6a5348fc'', target_version := [4, 5, 255]\<rparr>
   in notes_device (notes_request f @ notes_version f) no_update =
        no_update\<lparr>request_id := request_id f, target_version := target_version f\<rparr>"
  unfolding Let_def by (rule update_notes_roundtrip) (simp_all add: no_update_def)

end
