(* ===== verification/ModemState.thy ===== *)
theory ModemState
  imports DataQueues
begin

text \<open>
  The link to the nRF9160, \<^verbatim>\<open>c_modules/modem/src/modem_spi.c\<close> and \<^verbatim>\<open>modem.c\<close>: messages with a header of seven
  bytes, 32 handles for commands that wait for a reply, and the copy of the modem's last status.  This theory
  holds the state, the structures that are read from bytes, and the operations on the handles.

  The heap of the replies is explicit, since the code keeps pointers to freed blocks; other blocks are
  counted.  Three flags record what C leaves undefined: a freed block that is read or freed again, an index
  behind the handles, and bytes read from behind a buffer; what is read there is a parameter.  A fourth tells
  that the receiving thread loops for ever (\<open>gps_add\<close>).
\<close>

section \<open>Bytes\<close>

definition u16_at :: "nat \<Rightarrow> 8 word list \<Rightarrow> 16 word" where
  "u16_at i bs = ucast (bs ! i) + push_bit 8 (ucast (bs ! Suc i))"

definition u32_at :: "nat \<Rightarrow> 8 word list \<Rightarrow> 32 word" where
  "u32_at i bs = ucast (u16_at i bs) + push_bit 16 (ucast (u16_at (i + 2) bs))"

definition u64_at :: "nat \<Rightarrow> 8 word list \<Rightarrow> 64 word" where
  "u64_at i bs = ucast (u32_at i bs) + push_bit 32 (ucast (u32_at (i + 4) bs))"

definition lo_hi :: "16 word \<Rightarrow> 8 word list" where
  "lo_hi w = [ucast w, ucast (drop_bit 8 w)]"

definition bytes_text :: "8 word list \<Rightarrow> string" where
  "bytes_text bs = map (\<lambda>b. char_of (unat b)) (takeWhile (\<lambda>b. b \<noteq> 0) bs)"

definition text_bytes :: "string \<Rightarrow> 8 word list" where
  "text_bytes s = map (\<lambda>c. of_nat (of_char c)) s"

section \<open>Messages\<close>

record message_command =
  mc_version :: "8 word"
  messageType :: "8 word"
  messageHandle :: "8 word"
  mc_dataLen :: "16 word"
  chunkNum :: "8 word"
  chunkTotal :: "8 word"

definition header_bytes :: "message_command \<Rightarrow> 8 word list" where
  "header_bytes c = [mc_version c, messageType c, messageHandle c] @ lo_hi (mc_dataLen c) @ [chunkNum c, chunkTotal c]"

definition header_of :: "8 word list \<Rightarrow> message_command" where
  "header_of bs = \<lparr>mc_version = bs ! 0, messageType = bs ! 1, messageHandle = bs ! 2,
     mc_dataLen = u16_at 3 bs, chunkNum = bs ! 5, chunkTotal = bs ! 6\<rparr>"

abbreviation MESSAGE_TYPE_NO_OP :: "8 word" where "MESSAGE_TYPE_NO_OP \<equiv> 0"
abbreviation MESSAGE_TYPE_COMMAND :: "8 word" where "MESSAGE_TYPE_COMMAND \<equiv> 2"
abbreviation MESSAGE_TYPE_AT :: "8 word" where "MESSAGE_TYPE_AT \<equiv> 3"
abbreviation MESSAGE_TYPE_MQTT :: "8 word" where "MESSAGE_TYPE_MQTT \<equiv> 5"
abbreviation MESSAGE_TYPE_COMMAND_RESP :: "8 word" where "MESSAGE_TYPE_COMMAND_RESP \<equiv> 9"
abbreviation MESSAGE_TYPE_DEVICE_STATUS :: "8 word" where "MESSAGE_TYPE_DEVICE_STATUS \<equiv> 11"
abbreviation MESSAGE_TYPE_GET_TIME :: "8 word" where "MESSAGE_TYPE_GET_TIME \<equiv> 13"
abbreviation MESSAGE_TYPE_FOTA_FROM_HTTPS :: "8 word" where "MESSAGE_TYPE_FOTA_FROM_HTTPS \<equiv> 14"
abbreviation MESSAGE_TYPE_DOWNLOAD_FROM_HTTPS :: "8 word" where "MESSAGE_TYPE_DOWNLOAD_FROM_HTTPS \<equiv> 15"
abbreviation MESSAGE_TYPE_DEVICE_INFO :: "8 word" where "MESSAGE_TYPE_DEVICE_INFO \<equiv> 16"
abbreviation MESSAGE_TYPE_LTE_DEBUG :: "8 word" where "MESSAGE_TYPE_LTE_DEBUG \<equiv> 18"
abbreviation MESSAGE_TYPE_GPS_DATA :: "8 word" where "MESSAGE_TYPE_GPS_DATA \<equiv> 19"
abbreviation MESSAGE_TYPE_CELL_INFO :: "8 word" where "MESSAGE_TYPE_CELL_INFO \<equiv> 20"
abbreviation MESSAGE_TYPE_FW_UPLOAD :: "8 word" where "MESSAGE_TYPE_FW_UPLOAD \<equiv> 22"
abbreviation MESSAGE_TYPE_NULL :: "8 word" where "MESSAGE_TYPE_NULL \<equiv> 255"

abbreviation COMMAND_REBOOT :: "8 word" where "COMMAND_REBOOT \<equiv> 1"
abbreviation COMMAND_START :: "8 word" where "COMMAND_START \<equiv> 2"
abbreviation COMMAND_HARD_STOP :: "8 word" where "COMMAND_HARD_STOP \<equiv> 3"
abbreviation COMMAND_GET_VERSION :: "8 word" where "COMMAND_GET_VERSION \<equiv> 4"
abbreviation COMMAND_SET_MQTT_PARAMS :: "8 word" where "COMMAND_SET_MQTT_PARAMS \<equiv> 5"
abbreviation COMMAND_SET_MQTT_SUBSCRIPTIONS :: "8 word" where "COMMAND_SET_MQTT_SUBSCRIPTIONS \<equiv> 6"
abbreviation COMMAND_SET_MQTT_CONNECT :: "8 word" where "COMMAND_SET_MQTT_CONNECT \<equiv> 7"
abbreviation COMMAND_SET_MQTT_DISCONNECT :: "8 word" where "COMMAND_SET_MQTT_DISCONNECT \<equiv> 8"
abbreviation COMMAND_SET_AIRPLANE_MODE :: "8 word" where "COMMAND_SET_AIRPLANE_MODE \<equiv> 11"
abbreviation COMMAND_GPS_START :: "8 word" where "COMMAND_GPS_START \<equiv> 12"
abbreviation COMMAND_SET_DNS :: "8 word" where "COMMAND_SET_DNS \<equiv> 14"

abbreviation NRF9160_OFFLINE :: "8 word" where "NRF9160_OFFLINE \<equiv> 0xff"
abbreviation NRF9160_NOT_READY :: "8 word" where "NRF9160_NOT_READY \<equiv> 0xcc"
abbreviation NRF9160_UNKNOWN :: "8 word" where "NRF9160_UNKNOWN \<equiv> 0xfe"

abbreviation SPIM_RX_BUFF_SIZE :: nat where "SPIM_RX_BUFF_SIZE \<equiv> 3072"
abbreviation MAX_MODEM_HANDLES :: nat where "MAX_MODEM_HANDLES \<equiv> 32"
abbreviation HEADER_SIZE :: nat where "HEADER_SIZE \<equiv> 7"

text \<open>The status, 56 bytes in memory: flags, time stamp, signal strength, update, uptime.\<close>

record status_update =
  ms_flags :: "32 word"
  ms_timestamp :: "8 word list"
  ms_rssi :: "32 word"
  ms_fota_state :: "32 word"
  ms_fota_percentage :: "8 word"
  ms_uptime :: "64 word"

definition status_of :: "8 word list \<Rightarrow> status_update" where
  "status_of bs = \<lparr>ms_flags = u32_at 0 bs, ms_timestamp = take 32 (drop 4 bs), ms_rssi = u32_at 36 bs,
     ms_fota_state = u32_at 40 bs, ms_fota_percentage = bs ! 44, ms_uptime = u64_at 48 bs\<rparr>"

definition no_status :: status_update where
  "no_status = \<lparr>ms_flags = 0, ms_timestamp = replicate 32 0, ms_rssi = 0, ms_fota_state = 0,
     ms_fota_percentage = 0, ms_uptime = 0\<rparr>"

definition gps_of :: "8 word list \<Rightarrow> gps_info" where
  "gps_of bs = \<lparr>gi_latitude = u64_at 0 bs, gi_longitude = u64_at 8 bs, gi_altitude = u32_at 16 bs,
     gi_accuracy = u16_at 20 bs, gi_timestamp = u64_at 40 bs\<rparr>"

section \<open>State\<close>

record modem_handle =
  handle_used :: bool
  h_data :: "nat option"
  h_dataLen :: "16 word"

definition no_handle :: modem_handle where
  "no_handle = \<lparr>handle_used = False, h_data = None, h_dataLen = 0\<rparr>"

datatype lte_power = PMIC_LTE_POWER_ON | PMIC_LTE_POWER_OFF | PMIC_LTE_SOFT_OFF

text \<open>What the module does to others: the bus, the clock, the log, the power chip, files and settings.\<close>

datatype modem_act =
  PubStatus status_update "32 word" | PubCloud "8 word list" "8 word list"
| SetClock string | SetLteVer "8 word list" | LogUpload nat string | RxCallback "8 word list"
| LowPower | PmicReboot | FileOpen string | FileWrite "8 word list" | FileClosed
| SaveSetting string "8 word list"

record modem =
  handles :: "modem_handle list"
  m_mem :: "nat \<Rightarrow> 8 word list option"
  m_brk :: nat
  m_allocs :: nat
  m_live :: int
  m_work :: int
  modem_status_shadow :: status_update
  shadow_version :: "8 word list"
  current_cell_info :: "8 word list"
  modem_ready_for_commands :: bool
  modem_power_state :: lte_power
  last_modem_enable_time :: nat
  last_msg_received_time :: nat
  num_fails :: nat
  do_simulate_fail :: bool
  on_power :: bool
  m_now :: nat
  m_transfers :: nat
  send_q :: "8 word list list"
  recv_q :: "(message_command \<times> 8 word list) list"
  gps_data :: gps_queue
  acts :: "modem_act list"
  use_after_free :: bool
  out_of_array :: bool
  over_read :: bool
  recv_stuck :: bool

datatype thread = SendThread | RecvThread | IntThread

datatype spi_result = SpiOk | SpiBusy | SpiError

text \<open>
  The environment: whether the \<open>n\<close>th allocation finds memory; whether a work item is free and a
  work item is taken by its queue; what the \<open>n\<close>th transfer answers to a frame; the results of the bus
  and the mutex; the threads that run when a caller sleeps until a time; whether the ready pin rises
  in a sleep of the sending thread; whether the pins and the bus can be set up; the bytes behind a buffer, in a freed block and behind the handles.
\<close>

record modem_env =
  mem_ok :: "nat \<Rightarrow> bool"
  wr_ok :: "nat \<Rightarrow> bool"
  submit_rc :: "nat \<Rightarrow> int"
  spi_xfer :: "nat \<Rightarrow> 8 word list \<Rightarrow> spi_result \<times> 8 word list"
  pub_rc :: "nat \<Rightarrow> int"
  lock_rc :: "nat \<Rightarrow> int"
  sched :: "nat \<Rightarrow> thread list"
  pin_rises :: "nat \<Rightarrow> bool"
  behind :: "nat \<Rightarrow> 8 word"
  freed_bytes :: "nat \<Rightarrow> 8 word list"
  beyond_handles :: "nat \<Rightarrow> modem_handle"
  shipping_flag :: bool
  millis :: "nat \<Rightarrow> nat"
  gps_mem :: "nat \<Rightarrow> bool"
  gps_put :: "nat \<Rightarrow> bool"
  ldo_on :: "nat \<Rightarrow> bool"
  fota_running :: "nat \<Rightarrow> bool"
  pins_ok :: "nat \<Rightarrow> bool"

type_synonym 'a modem_m = "(modem, 'a) state"

definition act :: "modem_act \<Rightarrow> unit modem_m" where
  "act a = modify (\<lambda>s. s\<lparr>acts := acts s @ [a]\<rparr>)"

definition m_alloc :: "modem_env \<Rightarrow> bool modem_m" where
  "m_alloc e = do {
     n \<leftarrow> gets m_allocs;
     modify (\<lambda>s. s\<lparr>m_allocs := Suc n\<rparr>);
     whenever (mem_ok e n) (modify (\<lambda>s. s\<lparr>m_live := m_live s + 1\<rparr>));
     return (mem_ok e n)
   }"

definition m_free :: "int \<Rightarrow> unit modem_m" where
  "m_free k = modify (\<lambda>s. s\<lparr>m_live := m_live s - k\<rparr>)"

definition m_wr_get :: "modem_env \<Rightarrow> bool modem_m" where
  "m_wr_get e = do {
     n \<leftarrow> gets m_allocs;
     modify (\<lambda>s. s\<lparr>m_allocs := Suc n\<rparr>);
     whenever (wr_ok e n) (modify (\<lambda>s. s\<lparr>m_work := m_work s + 1\<rparr>));
     return (wr_ok e n)
   }"

definition m_wr_put :: "unit modem_m" where
  "m_wr_put = modify (\<lambda>s. s\<lparr>m_work := m_work s - 1\<rparr>)"

definition over_reads :: "bool \<Rightarrow> unit modem_m" where
  "over_reads b = whenever b (modify (\<lambda>s. s\<lparr>over_read := True\<rparr>))"

text \<open>The first \<open>n\<close> bytes of a buffer, with what lies behind it.\<close>

definition padded :: "modem_env \<Rightarrow> nat \<Rightarrow> 8 word list \<Rightarrow> 8 word list" where
  "padded e n bs = take n (bs @ map (behind e) [length bs..<n])"

definition read_bytes :: "modem_env \<Rightarrow> nat \<Rightarrow> 8 word list \<Rightarrow> 8 word list modem_m" where
  "read_bytes e n bs = do { over_reads (length bs < n); return (padded e n bs) }"

definition modem_powered :: "modem \<Rightarrow> bool" where
  "modem_powered s \<longleftrightarrow> modem_power_state s = PMIC_LTE_POWER_ON"

section \<open>Handles\<close>

definition set_handle :: "nat \<Rightarrow> (modem_handle \<Rightarrow> modem_handle) \<Rightarrow> unit modem_m" where
  "set_handle h f = modify (\<lambda>s.
     if h < length (handles s) then s\<lparr>handles := (handles s)[h := f (handles s ! h)]\<rparr>
     else s\<lparr>out_of_array := True\<rparr>)"

definition handle_at :: "modem_env \<Rightarrow> nat \<Rightarrow> modem_handle modem_m" where
  "handle_at e h = do {
     hs \<leftarrow> gets handles;
     (if h < length hs then return (hs ! h)
      else do { modify (\<lambda>s. s\<lparr>out_of_array := True\<rparr>); return (beyond_handles e h) })
   }"

text \<open>\<open>k_malloc\<close> of a reply with its bytes, and \<open>k_free\<close>; \<open>NULL\<close> may be freed.\<close>

definition reply_alloc :: "modem_env \<Rightarrow> 8 word list \<Rightarrow> nat option modem_m" where
  "reply_alloc e bs = do {
     ok \<leftarrow> m_alloc e;
     (if \<not> ok then return None
      else do {
        p \<leftarrow> gets m_brk;
        modify (\<lambda>s. s\<lparr>m_brk := Suc p, m_mem := (m_mem s)(p \<mapsto> bs)\<rparr>);
        return (Some p)
      })
   }"

definition reply_free :: "nat option \<Rightarrow> unit modem_m" where
  "reply_free p = (case p of
      None \<Rightarrow> skip
    | Some a \<Rightarrow> do {
        m \<leftarrow> gets m_mem;
        (if m a = None then modify (\<lambda>s. s\<lparr>use_after_free := True\<rparr>)
         else do { modify (\<lambda>s. s\<lparr>m_mem := (m_mem s)(a := None)\<rparr>); m_free 1 })
      })"

abbreviation EADDRNOTAVAIL :: int where "EADDRNOTAVAIL \<equiv> 125"

definition get_next_handle_id :: "int modem_m" where
  "get_next_handle_id = do {
     hs \<leftarrow> gets handles;
     case find (\<lambda>i. \<not> handle_used (hs ! i)) [1..<MAX_MODEM_HANDLES] of
       None \<Rightarrow> return (- EADDRNOTAVAIL)
     | Some i \<Rightarrow> do { set_handle i (\<lambda>h. h\<lparr>handle_used := True\<rparr>); return (int i) }
   }"

text \<open>A negative handle is before the array, which is an index outside of it, too.\<close>

definition slot :: "int \<Rightarrow> nat" where
  "slot handle = (if handle < 0 then MAX_MODEM_HANDLES else nat handle)"

definition modem_spi_free_reply_data_but_not_handle :: "modem_env \<Rightarrow> int \<Rightarrow> int modem_m" where
  "modem_spi_free_reply_data_but_not_handle e handle =
     (if handle < int MAX_MODEM_HANDLES then do {
        h \<leftarrow> handle_at e (slot handle);
        reply_free (h_data h);
        set_handle (slot handle) (\<lambda>h. h\<lparr>h_data := None, h_dataLen := 0\<rparr>);
        return 0
      }
      else return (-1))"

definition modem_spi_free_reply_data :: "modem_env \<Rightarrow> int \<Rightarrow> int modem_m" where
  "modem_spi_free_reply_data e handle =
     (if handle < int MAX_MODEM_HANDLES then do {
        set_handle (slot handle) (\<lambda>h. h\<lparr>handle_used := False\<rparr>);
        modem_spi_free_reply_data_but_not_handle e handle
      }
      else return (-1))"

text \<open>The pointer is kept.  The mutex is not tested.\<close>

definition modem_spi_stop_waiting_for_resp :: "modem_env \<Rightarrow> int \<Rightarrow> int modem_m" where
  "modem_spi_stop_waiting_for_resp e handle =
     (if int MAX_MODEM_HANDLES \<le> handle then return (-1)
      else do {
        h \<leftarrow> handle_at e (slot handle);
        whenever (handle_used h) (do {
          reply_free (h_data h);
          set_handle (slot handle) (\<lambda>h. h\<lparr>handle_used := False\<rparr>)
        });
        return 0
      })"

end
