(* ===== verification/ModemSpi.thy ===== *)
theory ModemSpi
  imports ModemState
begin

text \<open>
  The messages to and from the nRF9160 (\<^verbatim>\<open>modem_spi.c\<close>): sending a command, the transfer on the bus, the
  work items of the sending and the receiving thread, the messages the modem sends of its own, and the
  wait for a reply.
\<close>

section \<open>Sending a command\<close>

definition command_frame :: "8 word \<Rightarrow> int \<Rightarrow> 8 word list \<Rightarrow> 8 word list" where
  "command_frame typ handle data =
     header_bytes \<lparr>mc_version = 1, messageType = typ, messageHandle = word_of_int handle,
       mc_dataLen = of_nat (length data), chunkNum = 0, chunkTotal = 1\<rparr> @ data"

text \<open>
  Without a free handle the negative error number is negated again.  A handle is not given back when the
  command cannot be queued.
\<close>

definition queue_send :: "modem_env \<Rightarrow> 8 word list \<Rightarrow> int option modem_m" where
  "queue_send e frame = do {
     ok \<leftarrow> m_alloc e;
     (if \<not> ok then return (Some (-3))
      else do {
        ok \<leftarrow> m_alloc e;
        (if \<not> ok then do { m_free 1; return (Some (- ENOMEM)) }
         else do {
           wr \<leftarrow> m_wr_get e;
           (if \<not> wr then do { m_free 2; return (Some (- ENOMEM)) }
            else do {
              n \<leftarrow> gets m_allocs;
              (if submit_rc e n \<le> 0 then m_free 2
               else modify (\<lambda>s. s\<lparr>send_q := send_q s @ [frame]\<rparr>));
              return None
            })
         })
      })
   }"

definition modem_spi_send_command :: "modem_env \<Rightarrow> 8 word \<Rightarrow> 8 word list \<Rightarrow> bool \<Rightarrow> int modem_m" where
  "modem_spi_send_command e typ data reply_requested = do {
     newHandle \<leftarrow> (if reply_requested then get_next_handle_id else return 255);
     (if newHandle < 0 then return (- newHandle)
      else do {
        r \<leftarrow> queue_send e (command_frame typ newHandle data);
        return (case r of Some err \<Rightarrow> err | None \<Rightarrow> if reply_requested then newHandle else 0)
      })
   }"

definition modem_send_command :: "modem_env \<Rightarrow> 8 word \<Rightarrow> 8 word list \<Rightarrow> bool \<Rightarrow> int modem_m" where
  "modem_send_command e typ data reply_requested = do {
     on \<leftarrow> gets modem_powered;
     (if \<not> on then return (- ENODEV) else modem_spi_send_command e typ data reply_requested)
   }"

definition modem_enable :: "modem_env \<Rightarrow> int modem_m" where
  "modem_enable e = do {
     on \<leftarrow> gets modem_powered;
     (if \<not> on then return (- ENODEV) else modem_send_command e MESSAGE_TYPE_COMMAND [COMMAND_START] False)
   }"

definition send_version_no_reply :: "modem_env \<Rightarrow> unit modem_m" where
  "send_version_no_reply e = do {
     on \<leftarrow> gets modem_powered;
     whenever on (do { modem_send_command e MESSAGE_TYPE_COMMAND [COMMAND_GET_VERSION] False; skip })
   }"

definition send_status_no_reply :: "modem_env \<Rightarrow> unit modem_m" where
  "send_status_no_reply e = do {
     on \<leftarrow> gets modem_powered;
     whenever on (do { modem_send_command e MESSAGE_TYPE_DEVICE_STATUS [] False; skip })
   }"

text \<open>The work item of the ready pin.\<close>

definition dataready_int_work_handler :: "modem_env \<Rightarrow> unit modem_m" where
  "dataready_int_work_handler e = do {
     on \<leftarrow> gets modem_powered;
     whenever on (do {
       modify (\<lambda>s. s\<lparr>modem_ready_for_commands := True\<rparr>);
       modem_send_command e MESSAGE_TYPE_NO_OP [] False;
       skip
     })
   }"

section \<open>The transfer\<close>

text \<open>
  At most six transfers, as long as the bus is busy or the modem not ready.  The receive buffer was cleared;
  the result is the error and the bytes that were received last.
\<close>

definition transfer :: "modem_env \<Rightarrow> 8 word list \<Rightarrow> (spi_result \<times> 8 word list) modem_m" where
  "transfer e frame = do {
     n \<leftarrow> gets m_transfers;
     modify (\<lambda>s. s\<lparr>m_transfers := Suc n\<rparr>);
     return (spi_xfer e n frame)
   }"

definition rx_byte :: "nat \<Rightarrow> 8 word list \<Rightarrow> 8 word" where
  "rx_byte i rx = (if i < length rx then rx ! i else 0)"

fun spi_exchange :: "modem_env \<Rightarrow> 8 word list \<Rightarrow> nat \<Rightarrow> 8 word list \<Rightarrow> (int \<times> 8 word list) modem_m" where
  "spi_exchange e frame 0 rx = return (0, rx)"
| "spi_exchange e frame (Suc n) rx = do {
     (r, got) \<leftarrow> transfer e frame;
     case r of
       SpiBusy \<Rightarrow> spi_exchange e frame n rx
     | SpiError \<Rightarrow> return (- 5, got)
     | SpiOk \<Rightarrow>
         if rx_byte 0 got = NRF9160_NOT_READY \<and> rx_byte 1 got = NRF9160_NOT_READY
         then spi_exchange e frame n got
         else return (0, got)
   }"

text \<open>A received message becomes a work item; its length comes from its header.\<close>

definition rx_buffer :: "8 word list \<Rightarrow> 8 word list" where
  "rx_buffer rx = take SPIM_RX_BUFF_SIZE (rx @ replicate (SPIM_RX_BUFF_SIZE - length rx) 0)"

definition queue_received :: "modem_env \<Rightarrow> 8 word list \<Rightarrow> int modem_m" where
  "queue_received e rx =
     (let cmd = header_of rx; len = unat (mc_dataLen cmd)
      in if SPIM_RX_BUFF_SIZE < len then return (-1)
         else do {
           ok \<leftarrow> m_alloc e;
           (if \<not> ok then return (-1)
            else do {
              wr \<leftarrow> m_wr_get e;
              (if \<not> wr then do { m_free 1; return (-1) }
               else do {
                 ok \<leftarrow> m_alloc e;
                 (if \<not> ok then do { m_free 1; return (-1) }
                  else do {
                    data \<leftarrow> read_bytes e len (drop HEADER_SIZE rx);
                    n \<leftarrow> gets m_allocs;
                    modify (\<lambda>s. s\<lparr>last_msg_received_time := m_now s\<rparr>);
                    (if submit_rc e n \<le> 0 then do { m_free 2; return (submit_rc e n) }
                     else do { modify (\<lambda>s. s\<lparr>recv_q := recv_q s @ [(cmd, data)]\<rparr>); return 0 })
                  })
               })
            })
         })"

definition modem_spi_send :: "modem_env \<Rightarrow> 8 word list \<Rightarrow> int modem_m" where
  "modem_spi_send e frame = do {
     on \<leftarrow> gets modem_powered;
     (if \<not> on then return (-1)
      else do {
        (ret, got) \<leftarrow> spi_exchange e frame 6 [];
        let rx = rx_buffer got
        in if rx ! 0 \<noteq> NRF9160_UNKNOWN \<and> rx ! 0 \<noteq> NRF9160_OFFLINE \<and> rx ! 0 \<noteq> NRF9160_NOT_READY
           then queue_received e rx
           else return ret
      })
   }"

section \<open>The sending thread\<close>

text \<open>While it sleeps, only the ready pin is served.\<close>

definition pin_sleep :: "modem_env \<Rightarrow> nat \<Rightarrow> unit modem_m" where
  "pin_sleep e ms = do {
     modify (\<lambda>s. s\<lparr>m_now := m_now s + ms\<rparr>);
     t \<leftarrow> gets m_now;
     whenever (pin_rises e t) (dataready_int_work_handler e)
   }"

fun wait_ready :: "modem_env \<Rightarrow> nat \<Rightarrow> bool modem_m" where
  "wait_ready e 0 = gets modem_ready_for_commands"
| "wait_ready e (Suc n) = do {
     r \<leftarrow> gets modem_ready_for_commands;
     (if r then return True else do { pin_sleep e 100; wait_ready e n })
   }"

definition is_hard_stop :: "8 word list \<Rightarrow> bool" where
  "is_hard_stop frame \<longleftrightarrow> rx_byte 1 frame = MESSAGE_TYPE_COMMAND \<and> rx_byte HEADER_SIZE frame = COMMAND_HARD_STOP"

text \<open>\<open>pmic_power_off_modem(false)\<close> does nothing.\<close>

fun send_tries :: "modem_env \<Rightarrow> 8 word list \<Rightarrow> nat \<Rightarrow> unit modem_m" where
  "send_tries e frame left = do {
     p \<leftarrow> gets modem_power_state;
     (if p = PMIC_LTE_POWER_OFF then skip
      else do {
        ready \<leftarrow> wait_ready e 26;
        (if \<not> ready then skip
         else do {
           ret \<leftarrow> modem_spi_send e frame;
           (if ret \<noteq> 0 \<and> left = 0 then skip
            else do {
              whenever (ret \<noteq> 0) (pin_sleep e 20);
              whenever (is_hard_stop frame) (modify (\<lambda>s. s\<lparr>modem_ready_for_commands := False\<rparr>));
              (if ret = 0 then skip
               else case left of 0 \<Rightarrow> skip | Suc n \<Rightarrow> send_tries e frame n)
            })
         })
      })
   }"

declare send_tries.simps [simp del]

definition spi_send_work_handler :: "modem_env \<Rightarrow> 8 word list \<Rightarrow> unit modem_m" where
  "spi_send_work_handler e frame = do { send_tries e frame 21; m_free 2; m_wr_put }"

text \<open>
  What the receiving thread does with a message of the nRF9160 (\<^verbatim>\<open>process_async_message\<close>,
  \<^verbatim>\<open>spim_recv_action_work_handler\<close> of \<^verbatim>\<open>modem_spi.c\<close>), the threads that run while a caller sleeps, and the wait for
  a reply (\<^verbatim>\<open>modem_spi_recv_resp\<close>).
\<close>

section \<open>The status\<close>

definition update_bit :: "nat \<Rightarrow> bool \<Rightarrow> 32 word" where
  "update_bit n b = (if b then push_bit n 1 else 0)"

definition change_bits :: "status_update \<Rightarrow> status_update \<Rightarrow> 32 word" where
  "change_bits old new =
     (ms_flags new XOR ms_flags old)
     OR update_bit 16 (ms_rssi old \<noteq> ms_rssi new)
     OR update_bit 18 (ms_fota_state old \<noteq> ms_fota_state new)
     OR update_bit 17 (ms_fota_percentage old \<noteq> ms_fota_percentage new)"

definition merge_shadow_status :: "status_update \<Rightarrow> 32 word modem_m" where
  "merge_shadow_status st = do {
     old \<leftarrow> gets modem_status_shadow;
     modify (\<lambda>s. s\<lparr>modem_status_shadow := st\<rparr>);
     return (change_bits old st)
   }"

definition publish_status :: "modem_env \<Rightarrow> status_update \<Rightarrow> int modem_m" where
  "publish_status e st = do {
     bits \<leftarrow> merge_shadow_status st;
     n \<leftarrow> gets (\<lambda>s. length (acts s));
     act (PubStatus st bits);
     return (pub_rc e n)
   }"

text \<open>A modem that is not enabled is enabled, at most every 100 ms.\<close>

definition enable_when_asked :: "modem_env \<Rightarrow> status_update \<Rightarrow> unit modem_m" where
  "enable_when_asked e st = whenever (\<not> bit (ms_flags st) 1 \<and> shipping_flag e) (do {
     t \<leftarrow> gets m_now;
     last \<leftarrow> gets last_modem_enable_time;
     whenever (last + 100 < millis e t \<or> millis e t < last) (do {
       modem_enable e;
       modify (\<lambda>s. s\<lparr>last_modem_enable_time := millis e t\<rparr>);
       send_version_no_reply e
     })
   })"

definition time_is_set :: "8 word list \<Rightarrow> bool" where
  "time_is_set ts \<longleftrightarrow> (\<forall>b \<in> set (take 11 ts). b \<noteq> 0) \<and> 32 < ts ! 0 \<and> 32 < ts ! 1"

definition take_status :: "modem_env \<Rightarrow> 8 word list \<Rightarrow> int modem_m" where
  "take_status e data = do {
     let st0 = status_of data; st = st0\<lparr>ms_flags := ms_flags st0 OR push_bit 7 1\<rparr>
     in do {
       enable_when_asked e st;
       whenever (time_is_set (ms_timestamp st)) (act (SetClock (bytes_text (ms_timestamp st))));
       publish_status e st
     }
   }"

section \<open>Messages the modem sends of its own\<close>

text \<open>The result of a message that is done with: 1 when someone waits for it.\<close>

definition passed_on :: "message_command \<Rightarrow> int" where
  "passed_on cmd = (if messageHandle cmd = 255 then 0 else 1)"

definition take_gps :: "modem_env \<Rightarrow> message_command \<Rightarrow> 8 word list \<Rightarrow> int modem_m" where
  "take_gps e cmd data = do {
     bs \<leftarrow> read_bytes e 48 data;
     (if u32_at 36 bs = 0 then return 0
      else if no_position (gps_of bs) then return (- EINVAL)
      else do {
        n \<leftarrow> gets m_allocs;
        modify (\<lambda>s. case gps_add (gps_mem e n) (gps_put e n) (gps_of bs) (gps_data s) of
            None \<Rightarrow> s\<lparr>recv_stuck := True\<rparr>
          | Some q \<Rightarrow> s\<lparr>m_allocs := Suc n, gps_data := q\<rparr>);
        return (passed_on cmd)
      })
   }"

definition log_text :: "8 word \<Rightarrow> string \<Rightarrow> string" where
  "log_text code t = ''9160 log message ('' @ show_nat (unat code) @ ''): '' @ t"

definition take_debug :: "modem_env \<Rightarrow> 8 word list \<Rightarrow> int modem_m" where
  "take_debug e data = do {
     h \<leftarrow> read_bytes e 4 data;
     let len = unat (u16_at 2 h); level = unat (h ! 1 AND 0x7F)
     in if len = 0 then return 0
        else do {
          ok \<leftarrow> m_alloc e;
          (if \<not> ok then return (- ENOMEM)
           else do {
             bs \<leftarrow> read_bytes e (4 + len) data;
             whenever (bit (h ! 1) 7 \<and> level \<in> {1..4})
               (act (LogUpload level (log_text (h ! 0) (bytes_text (drop 4 bs)))));
             m_free 1;
             return 0
           })
        }
   }"

text \<open>
  The topic and the payload are copied with the lengths that the message gives; neither is terminated.  The
  text for the log begins 255 bytes before the end of the payload, also when that is before its block.
\<close>

definition take_mqtt :: "modem_env \<Rightarrow> 8 word list \<Rightarrow> int modem_m" where
  "take_mqtt e data = do {
     h \<leftarrow> read_bytes e 4 data;
     let tl = unat (u16_at 0 h); ml = unat (u16_at 2 h)
     in do {
       ok1 \<leftarrow> m_alloc e;
       (if \<not> ok1 then return (- ENOMEM)
        else do {
          ok2 \<leftarrow> m_alloc e;
          (if \<not> ok2 then do { m_free 1; return (- ENOMEM) }
           else do {
             bs \<leftarrow> read_bytes e (4 + tl + ml) data;
             let topic = take tl (drop 4 bs); payload = drop (4 + tl) bs
             in do {
               over_reads (0 \<notin> set payload \<or> length (bytes_text payload) < 255);
               n \<leftarrow> gets (\<lambda>s. length (acts s));
               act (PubCloud topic payload);
               (if pub_rc e n \<noteq> 0 then do { m_free 2; return (-1) } else return 0)
             }
           })
        })
     }
   }"

text \<open>\<open>strncpy\<close>: the text up to its end, and zeros.\<close>

definition copied_text :: "nat \<Rightarrow> 8 word list \<Rightarrow> 8 word list" where
  "copied_text n bs = (let t = takeWhile (\<lambda>b. b \<noteq> 0) (take n bs) in t @ replicate (n - length t) 0)"

definition version_texts :: "8 word list \<Rightarrow> 8 word list" where
  "version_texts ver = take 3 ver @ copied_text 16 (drop 3 ver) @ copied_text 32 (drop 19 ver)
     @ copied_text 16 (drop 51 ver) @ copied_text 32 (drop 67 ver)"

definition take_version :: "modem_env \<Rightarrow> message_command \<Rightarrow> 8 word list \<Rightarrow> int modem_m" where
  "take_version e cmd data = do {
     bs \<leftarrow> read_bytes e 100 data;
     let ver = drop 1 bs
     in do {
       act (SetLteVer (take 3 ver));
       modify (\<lambda>s. s\<lparr>shadow_version := version_texts ver\<rparr>);
       return (passed_on cmd)
     }
   }"

definition process_async_message :: "modem_env \<Rightarrow> message_command \<Rightarrow> 8 word list \<Rightarrow> int modem_m" where
  "process_async_message e cmd data =
     (if messageType cmd = MESSAGE_TYPE_DEVICE_STATUS then
        (if unat (mc_dataLen cmd) \<noteq> 56 then return (- EINVAL)
         else do { err \<leftarrow> take_status e data; return (if err \<noteq> 0 then err else passed_on cmd) })
      else if messageType cmd = MESSAGE_TYPE_CELL_INFO then do {
        bs \<leftarrow> read_bytes e 36 data;
        modify (\<lambda>s. s\<lparr>current_cell_info := bs\<rparr>);
        return (passed_on cmd)
      }
      else if messageType cmd = MESSAGE_TYPE_GPS_DATA then take_gps e cmd data
      else if messageType cmd = MESSAGE_TYPE_LTE_DEBUG then take_debug e data
      else if messageType cmd = MESSAGE_TYPE_MQTT then
        (if mc_dataLen cmd = 0 then return (passed_on cmd) else take_mqtt e data)
      else if messageType cmd = MESSAGE_TYPE_COMMAND_RESP then do {
        t \<leftarrow> read_bytes e 1 data;
        (if t ! 0 = COMMAND_GET_VERSION then take_version e cmd data else return (passed_on cmd))
      }
      else return (passed_on cmd))"

section \<open>The receiving thread\<close>

definition store_reply :: "modem_env \<Rightarrow> nat \<Rightarrow> 8 word list \<Rightarrow> unit modem_m" where
  "store_reply e h data = do {
     used \<leftarrow> gets (\<lambda>s. handle_used (handles s ! h));
     whenever used (do {
       p \<leftarrow> reply_alloc e data;
       set_handle h (\<lambda>x. x\<lparr>h_data := p\<rparr>);
       whenever (p \<noteq> None) (set_handle h (\<lambda>x. x\<lparr>h_dataLen := of_nat (length data)\<rparr>))
     })
   }"

text \<open>What is kept from the callback and the one who waits.\<close>

definition dismissed :: "modem_env \<Rightarrow> message_command \<Rightarrow> 8 word list \<Rightarrow> bool modem_m" where
  "dismissed e cmd data = do {
     bs \<leftarrow> read_bytes e 1 data;
     (if messageHandle cmd = 255 \<and> (messageType cmd = MESSAGE_TYPE_NO_OP \<or> messageType cmd = MESSAGE_TYPE_NULL)
      then return True
      else do {
        on \<leftarrow> gets modem_powered;
        (if \<not> on then return True
         else if messageHandle cmd = 255 \<or> messageType cmd = MESSAGE_TYPE_DEVICE_INFO
             \<or> messageType cmd = MESSAGE_TYPE_DEVICE_STATUS
             \<or> messageType cmd = MESSAGE_TYPE_COMMAND_RESP \<and> bs ! 0 = COMMAND_GET_VERSION
         then do { r \<leftarrow> process_async_message e cmd data; return (r \<le> 0) }
         else return False)
      })
   }"

definition recv_action :: "modem_env \<Rightarrow> message_command \<Rightarrow> 8 word list \<Rightarrow> unit modem_m" where
  "recv_action e cmd data = do {
     gone \<leftarrow> dismissed e cmd data;
     (if gone then skip
      else do {
        bs \<leftarrow> read_bytes e 2 data;
        (if bs ! 0 = NRF9160_NOT_READY \<and> bs ! 1 = NRF9160_NOT_READY then skip
         else if bs ! 0 = NRF9160_UNKNOWN \<and> bs ! 1 = NRF9160_UNKNOWN then skip
         else if SPIM_RX_BUFF_SIZE < unat (mc_dataLen cmd) then skip
         else do {
           act (RxCallback data);
           (if MAX_MODEM_HANDLES \<le> unat (messageHandle cmd) then skip
            else do {
              t \<leftarrow> gets m_now;
              whenever (lock_rc e t = 0) (store_reply e (unat (messageHandle cmd)) data)
            })
         })
      })
   }"

definition spim_recv_action_work_handler :: "modem_env \<Rightarrow> message_command \<times> 8 word list \<Rightarrow> unit modem_m" where
  "spim_recv_action_work_handler e msg = do { recv_action e (fst msg) (snd msg); m_free 2; m_wr_put }"

section \<open>The threads\<close>

definition run_thread :: "modem_env \<Rightarrow> thread \<Rightarrow> unit modem_m" where
  "run_thread e t =
     (case t of
        SendThread \<Rightarrow> do {
          q \<leftarrow> gets send_q;
          case q of [] \<Rightarrow> skip
          | f # fs \<Rightarrow> do { modify (\<lambda>s. s\<lparr>send_q := fs\<rparr>); spi_send_work_handler e f }
        }
      | RecvThread \<Rightarrow> do {
          q \<leftarrow> gets (\<lambda>s. if recv_stuck s then [] else recv_q s);
          case q of [] \<Rightarrow> skip
          | m # ms \<Rightarrow> do { modify (\<lambda>s. s\<lparr>recv_q := ms\<rparr>); spim_recv_action_work_handler e m }
        }
      | IntThread \<Rightarrow> dataready_int_work_handler e)"

fun run_threads :: "modem_env \<Rightarrow> thread list \<Rightarrow> unit modem_m" where
  "run_threads e [] = skip"
| "run_threads e (t # ts) = do { run_thread e t; run_threads e ts }"

definition msleep :: "modem_env \<Rightarrow> nat \<Rightarrow> unit modem_m" where
  "msleep e ms = do {
     modify (\<lambda>s. s\<lparr>m_now := m_now s + ms\<rparr>);
     t \<leftarrow> gets m_now;
     run_threads e (sched e t)
   }"

end
