(* ===== verification/ModemWait.thy ===== *)
theory ModemWait
  imports ModemSpi
begin

text \<open>
  The wait for a reply (\<^verbatim>\<open>modem_spi_recv_resp\<close>) and the questions built on it.  The wait sleeps a millisecond
  between two looks at the handle; time does not go back in any step, which is why it ends.
\<close>

section \<open>Time and the table of handles\<close>

text \<open>
  What every step keeps: time does not go back, the table has 32 handles and the first of them is never
  given out; the blocks of the heap and of the handles have been allocated, and no two handles have the same.
\<close>

definition table_ok :: "modem \<Rightarrow> bool" where
  "table_ok s \<longleftrightarrow> length (handles s) = MAX_MODEM_HANDLES \<and> \<not> handle_used (handles s ! 0) \<and>
     (\<forall>p. m_mem s p \<noteq> None \<longrightarrow> p < m_brk s) \<and>
     (\<forall>i < MAX_MODEM_HANDLES. \<forall>p. h_data (handles s ! i) = Some p \<longrightarrow> p < m_brk s) \<and>
     (\<forall>i < MAX_MODEM_HANDLES. \<forall>j < MAX_MODEM_HANDLES. \<forall>p.
        h_data (handles s ! i) = Some p \<longrightarrow> h_data (handles s ! j) = Some p \<longrightarrow> i = j)"

definition steady_m :: "nat \<Rightarrow> bool \<Rightarrow> modem \<Rightarrow> bool" where
  "steady_m t well s \<longleftrightarrow> t \<le> m_now s \<and> (well \<longrightarrow> table_ok s)"

lemma steady_modify:
  "(\<And>s. m_now s \<le> m_now (f s) \<and> handles (f s) = handles s \<and> m_brk (f s) = m_brk s \<and> m_mem (f s) = m_mem s)
   \<Longrightarrow> keeps (steady_m t well) (modify f)"
  unfolding steady_m_def table_ok_def by (rule keepsI) (simp, meson order_trans)

lemma steady_bits [keeps_intro]:
  "keeps (steady_m t well) (act a)" "keeps (steady_m t well) (m_alloc e)" "keeps (steady_m t well) (m_free k)"
  "keeps (steady_m t well) (m_wr_get e)" "keeps (steady_m t well) m_wr_put" "keeps (steady_m t well) (over_reads b)"
  unfolding act_def m_alloc_def m_free_def m_wr_get_def m_wr_put_def over_reads_def
  by (intro keeps_intro steady_modify; simp)+

lemma table_ok_handles:
  assumes "table_ok s" and "length hs = MAX_MODEM_HANDLES" and "\<not> handle_used (hs ! 0)"
    and "\<And>i p. i < MAX_MODEM_HANDLES \<Longrightarrow> h_data (hs ! i) = Some p \<Longrightarrow> h_data (handles s ! i) = Some p"
  shows "table_ok (s\<lparr>handles := hs\<rparr>)"
  using assms(1) unfolding table_ok_def by (simp add: assms(2, 3)) (meson assms(4))

lemma steady_set_handle:
  assumes "\<And>x. h = 0 \<Longrightarrow> handle_used (f x) \<Longrightarrow> handle_used x"
    and "\<And>x p. h_data (f x) = Some p \<Longrightarrow> h_data x = Some p"
  shows "keeps (steady_m t well) (set_handle h f)"
proof (rule keepsI)
  fix s assume s: "steady_m t well s"
  have "table_ok (after (set_handle h f) s)" if ok: "table_ok s"
  proof (cases "h < length (handles s)")
    case True
    have n: "length (handles s) = MAX_MODEM_HANDLES" "\<not> handle_used (handles s ! 0)"
      using ok by (simp_all add: table_ok_def)
    have "table_ok (s\<lparr>handles := (handles s)[h := f (handles s ! h)]\<rparr>)"
    proof (rule table_ok_handles [OF ok])
      show "\<not> handle_used ((handles s)[h := f (handles s ! h)] ! 0)"
        using n True assms(1) [of "handles s ! 0"] by (cases "h = 0") auto
      show "h_data ((handles s)[h := f (handles s ! h)] ! i) = Some p \<Longrightarrow> h_data (handles s ! i) = Some p" for i p
        using True assms(2) [of "handles s ! h" p] by (cases "h = i") simp_all
    qed (simp add: n)
    then show ?thesis using True by (simp add: set_handle_def)
  qed (use ok in \<open>simp add: set_handle_def table_ok_def\<close>)
  then show "steady_m t well (after (set_handle h f) s)" using s by (simp add: set_handle_def steady_m_def)
qed

lemma steady_set_data [keeps_intro]:
  "keeps (steady_m t well) (set_handle h (\<lambda>x. x\<lparr>h_dataLen := n\<rparr>))"
  "keeps (steady_m t well) (set_handle h (\<lambda>x. x\<lparr>h_data := None, h_dataLen := n\<rparr>))"
  "keeps (steady_m t well) (set_handle h (\<lambda>x. x\<lparr>handle_used := False\<rparr>))"
  by (rule steady_set_handle, simp_all)+

lemma steady_reads [keeps_intro]:
  "keeps (steady_m t well) (read_bytes e n bs)" "keeps (steady_m t well) (handle_at e h)"
  unfolding read_bytes_def handle_at_def by (intro keeps_intro steady_modify; simp)+

lemma steady_free [keeps_intro]: "keeps (steady_m t well) (reply_free p)"
proof (cases p)
  case (Some a)
  have "keeps (steady_m t well) (modify (\<lambda>s. s\<lparr>m_mem := (m_mem s)(a := None)\<rparr>))"
    by (rule keepsI) (auto simp: steady_m_def table_ok_def)
  then show ?thesis unfolding reply_free_def Some option.case
    by (intro keeps_bind keeps_if keeps_gets steady_bits) (intro steady_modify, simp)
qed (simp add: reply_free_def keeps_intro)

text \<open>The block of a new reply belongs to no other handle.\<close>

lemma steady_new_block:
  assumes "steady_m t well s"
  shows "steady_m t well (after (set_handle h (\<lambda>x. x\<lparr>h_data := Some (m_brk s)\<rparr>))
    (s\<lparr>m_brk := Suc (m_brk s), m_mem := (m_mem s)(m_brk s \<mapsto> bs)\<rparr>))"
proof -
  have "table_ok (after (set_handle h (\<lambda>x. x\<lparr>h_data := Some (m_brk s)\<rparr>))
    (s\<lparr>m_brk := Suc (m_brk s), m_mem := (m_mem s)(m_brk s \<mapsto> bs)\<rparr>))" if ok: "table_ok s"
  proof -
    define hs where "hs = (if h < length (handles s) then
        (handles s)[h := (handles s ! h)\<lparr>h_data := Some (m_brk s)\<rparr>] else handles s)"
    have n: "length hs = MAX_MODEM_HANDLES" "\<not> handle_used (hs ! 0)"
      using ok by (cases "h = 0"; simp add: table_ok_def hs_def)+
    have old: "p < m_brk s" if "i < MAX_MODEM_HANDLES" "h_data (handles s ! i) = Some p" for i p
      using ok that by (simp add: table_ok_def)
    have here: "h_data (hs ! i) = Some p \<longleftrightarrow>
        (if i = h then p = m_brk s else h_data (handles s ! i) = Some p)" if "i < MAX_MODEM_HANDLES" for i p
      using ok that by (cases "i = h") (auto simp: hs_def table_ok_def)
    have one: "i = j" if "i < MAX_MODEM_HANDLES" "j < MAX_MODEM_HANDLES" "h_data (hs ! i) = Some p" "h_data (hs ! j) = Some p" for i j p
    proof (cases "i = h \<or> j = h")
      case True
      then show ?thesis using that old [OF that(1)] old [OF that(2)] by (auto simp: here split: if_splits)
    next
      case False
      then have "h_data (handles s ! i) = Some p" "h_data (handles s ! j) = Some p" using that by (simp_all add: here)
      then show ?thesis using ok that(1, 2) unfolding table_ok_def by blast
    qed
    have up: "p < Suc (m_brk s)" if "i < MAX_MODEM_HANDLES" "h_data (hs ! i) = Some p" for i p
      using that old [OF that(1), of p] by (cases "i = h") (simp_all add: here)
    have mem: "p < Suc (m_brk s)" if "((m_mem s)(m_brk s \<mapsto> bs)) p \<noteq> None" for p
      using ok that by (cases "p = m_brk s") (auto simp: table_ok_def less_Suc_eq)
    have "table_ok (s\<lparr>m_brk := Suc (m_brk s), m_mem := (m_mem s)(m_brk s \<mapsto> bs), handles := hs\<rparr>)"
      unfolding table_ok_def using n one up mem by (simp del: fun_upd_apply)
    then show ?thesis
      by (cases "h < length (handles s)") (simp_all add: set_handle_def hs_def table_ok_def)
  qed
  then show ?thesis using assms by (simp add: steady_m_def set_handle_def)
qed

lemma steady_next [keeps_intro]: "keeps (steady_m t well) get_next_handle_id"
proof -
  have "keeps (steady_m t well) (set_handle i (\<lambda>h. h\<lparr>handle_used := True\<rparr>))"
    if "find p [1..<MAX_MODEM_HANDLES] = Some i" for p i
  proof -
    have "i \<in> {1..<MAX_MODEM_HANDLES}" using that by (metis find_Some_iff atLeastLessThan_upt nth_mem)
    then show ?thesis by (intro steady_set_handle) simp_all
  qed
  then show ?thesis unfolding get_next_handle_id_def by (intro keeps_intro; blast)
qed

lemma steady_send [keeps_intro]:
  "keeps (steady_m t well) (queue_send e frame)" "keeps (steady_m t well) (modem_spi_send_command e typ data r)"
  "keeps (steady_m t well) (modem_send_command e typ data r)" "keeps (steady_m t well) (modem_enable e)"
  "keeps (steady_m t well) (send_version_no_reply e)" "keeps (steady_m t well) (dataready_int_work_handler e)"
  unfolding queue_send_def modem_spi_send_command_def modem_send_command_def modem_enable_def
    send_version_no_reply_def dataready_int_work_handler_def
  by (intro keeps_intro steady_modify; simp)+

lemma keeps_case_spi [keeps_intro]:
  "(r = SpiOk \<Longrightarrow> keeps I a) \<Longrightarrow> (r = SpiBusy \<Longrightarrow> keeps I b) \<Longrightarrow> (r = SpiError \<Longrightarrow> keeps I c) \<Longrightarrow>
   keeps I (case r of SpiOk \<Rightarrow> a | SpiBusy \<Rightarrow> b | SpiError \<Rightarrow> c)"
  by (cases r) simp_all

lemma steady_exchange [keeps_intro]: "keeps (steady_m t well) (spi_exchange e frame n rx)"
proof (induction n arbitrary: rx)
  case 0
  then show ?case by (simp add: keeps_return)
next
  case (Suc n)
  have "keeps (steady_m t well) (transfer e frame)"
    unfolding transfer_def by (intro keeps_intro steady_modify) simp
  then show ?case unfolding spi_exchange.simps by (intro keeps_intro Suc)
qed

lemma steady_transfer [keeps_intro]:
  "keeps (steady_m t well) (queue_received e rx)" "keeps (steady_m t well) (modem_spi_send e frame)"
  "keeps (steady_m t well) (pin_sleep e ms)"
  unfolding queue_received_def modem_spi_send_def pin_sleep_def
  by (intro keeps_intro steady_modify; simp)+

lemma steady_wait_ready [keeps_intro]: "keeps (steady_m t well) (wait_ready e n)"
  by (induction n) (simp_all only: wait_ready.simps, (intro keeps_intro; assumption)+)

lemma steady_tries [keeps_intro]: "keeps (steady_m t well) (send_tries e frame left)"
proof (induction left)
  case 0
  show ?case by (subst send_tries.simps) (intro keeps_intro steady_modify; simp)
next
  case (Suc n)
  then show ?case by (subst send_tries.simps) (simp only: nat.case, intro keeps_intro steady_modify; simp)
qed

lemma steady_publish [keeps_intro]: "keeps (steady_m t well) (publish_status e st)"
  unfolding publish_status_def merge_shadow_status_def by (intro keeps_intro steady_modify; simp)

lemma steady_messages [keeps_intro]:
  "keeps (steady_m t well) (enable_when_asked e st)" "keeps (steady_m t well) (take_status e data)"
  "keeps (steady_m t well) (take_gps e cmd data)" "keeps (steady_m t well) (take_debug e data)"
  "keeps (steady_m t well) (take_mqtt e data)" "keeps (steady_m t well) (take_version e cmd data)"
  unfolding enable_when_asked_def take_status_def take_gps_def take_debug_def take_mqtt_def take_version_def
  by (intro keeps_intro steady_modify; simp split: option.split)+

lemma steady_async [keeps_intro]: "keeps (steady_m t well) (process_async_message e cmd data)"
  unfolding process_async_message_def by (intro keeps_intro steady_modify; simp)

lemma steady_m_alloc: "steady_m t well s \<Longrightarrow> steady_m t well (after (m_alloc e) s)"
  by (rule keepsD [OF steady_bits(2)])

lemma steady_store [keeps_intro]: "keeps (steady_m t well) (store_reply e h data)"
proof -
  have "keeps (steady_m t well) (do {
      p \<leftarrow> reply_alloc e data;
      set_handle h (\<lambda>x. x\<lparr>h_data := p\<rparr>);
      whenever (p \<noteq> None) (set_handle h (\<lambda>x. x\<lparr>h_dataLen := of_nat (length data)\<rparr>))
    })" (is "keeps _ ?m")
  proof (rule keepsI)
    fix s assume s: "steady_m t well s"
    let ?s = "after (m_alloc e) s"
    have a: "steady_m t well ?s" by (rule steady_m_alloc [OF s])
    have none: "keeps (steady_m t well) (set_handle h (\<lambda>x. x\<lparr>h_data := None\<rparr>))"
      by (rule steady_set_handle) simp_all
    have some: "steady_m t well (after (set_handle h (\<lambda>x. x\<lparr>h_dataLen := of_nat (length data)\<rparr>))
        (after (set_handle h (\<lambda>x. x\<lparr>h_data := Some (m_brk ?s)\<rparr>))
          (?s\<lparr>m_brk := Suc (m_brk ?s), m_mem := (m_mem ?s)(m_brk ?s \<mapsto> data)\<rparr>)))"
      by (rule keepsD [OF steady_set_data(1)]) (rule steady_new_block [OF a])
    show "steady_m t well (after ?m s)"
    proof (cases "result (m_alloc e) s")
      case True
      then show ?thesis using some by (simp add: reply_alloc_def)
    next
      case False
      then show ?thesis using keepsD [OF none a] by (simp add: reply_alloc_def)
    qed
  qed
  then show ?thesis unfolding store_reply_def
    by (intro keeps_bind [OF keeps_gets]) (rule keeps_whenever)
qed

lemma steady_recv [keeps_intro]:
  "keeps (steady_m t well) (dismissed e cmd data)"
  "keeps (steady_m t well) (recv_action e cmd data)" "keeps (steady_m t well) (spim_recv_action_work_handler e m)"
  unfolding dismissed_def recv_action_def spim_recv_action_work_handler_def
  by (intro keeps_intro)+

lemma keeps_case_thread [keeps_intro]:
  "keeps I a \<Longrightarrow> keeps I b \<Longrightarrow> keeps I c \<Longrightarrow>
   keeps I (case th of SendThread \<Rightarrow> a | RecvThread \<Rightarrow> b | IntThread \<Rightarrow> c)"
  by (cases th) simp_all

lemma steady_thread [keeps_intro]: "keeps (steady_m t well) (run_thread e th)"
  unfolding run_thread_def spi_send_work_handler_def by (intro keeps_intro steady_modify; simp)

lemma steady_threads [keeps_intro]: "keeps (steady_m t well) (run_threads e ts)"
  by (induction ts) (simp_all only: run_threads.simps, (intro keeps_intro; assumption)+)

lemma steady_msleep [keeps_intro]: "keeps (steady_m t well) (msleep e ms)"
  unfolding msleep_def by (intro keeps_intro steady_modify; simp)

section \<open>The wait for a reply\<close>

text \<open>
  One look at a handle: nothing there, or the result and the bytes that are copied.  The bytes of a freed
  block are read through the pointer that was kept.
\<close>

definition look :: "modem_env \<Rightarrow> nat \<Rightarrow> nat \<Rightarrow> (int \<times> 8 word list) option modem_m" where
  "look e h maxlen = do {
     x \<leftarrow> handle_at e h;
     case h_data x of
       None \<Rightarrow> return None
     | Some p \<Rightarrow>
         if maxlen < unat (h_dataLen x) then return (Some (- ENOMEM, []))
         else do {
           m \<leftarrow> gets m_mem;
           case m p of
             Some bs \<Rightarrow> return (Some (0, take (unat (h_dataLen x)) bs))
           | None \<Rightarrow> do {
               modify (\<lambda>s. s\<lparr>use_after_free := True\<rparr>);
               return (Some (0, take (unat (h_dataLen x)) (freed_bytes e p)))
             }
         }
   }"

lemma now_look: "m_now (after (look e h maxlen) s) = m_now s"
  by (auto simp: look_def handle_at_def split: option.split)

lemma now_msleep: "m_now s + ms \<le> m_now (after (msleep e ms) s)"
proof -
  let ?s = "s\<lparr>m_now := m_now s + ms\<rparr>"
  have "steady_m (m_now s + ms) False ?s" by (simp add: steady_m_def)
  then have "steady_m (m_now s + ms) False (after (run_threads e (sched e (m_now s + ms))) ?s)"
    by (rule keepsD [OF steady_threads])
  then show ?thesis by (simp add: msleep_def steady_m_def)
qed

lemma steady_look [keeps_intro]: "keeps (steady_m t well) (look e h maxlen)"
  unfolding look_def by (intro keeps_intro steady_modify; simp)

function recv_wait ::
  "modem_env \<Rightarrow> nat \<Rightarrow> nat \<Rightarrow> nat \<Rightarrow> modem \<Rightarrow> (int \<times> 8 word list) \<times> modem" where
  "recv_wait e h maxlen deadline s =
     (if deadline \<le> m_now s then ((-1, []), s)
      else case result (look e h maxlen) s of
        Some r \<Rightarrow> (r, after (look e h maxlen) s)
      | None \<Rightarrow> recv_wait e h maxlen deadline (after (msleep e 1) (after (look e h maxlen) s)))"
  by pat_completeness auto
termination
proof (relation "measure (\<lambda>(e, h, maxlen, deadline, s). deadline - m_now s)", goal_cases)
  case 1
  then show ?case by simp
next
  case (2 e h maxlen deadline s)
  have "m_now s + 1 \<le> m_now (after (msleep e 1) (after (look e h maxlen) s))"
    using now_msleep [of "after (look e h maxlen) s" 1 e] by (simp add: now_look)
  then show ?case using 2(1) by simp
qed

declare recv_wait.simps [simp del]

text \<open>The handle is passed as \<open>uint8_t\<close>.\<close>

definition modem_spi_recv_resp :: "modem_env \<Rightarrow> int \<Rightarrow> nat \<Rightarrow> nat \<Rightarrow> (int \<times> 8 word list) modem_m" where
  "modem_spi_recv_resp e handle maxlen timeout =
     (let h = nat (handle mod 256) in do {
        t \<leftarrow> gets m_now;
        (if lock_rc e t \<noteq> 0 then return (-1, [])
         else do {
           r \<leftarrow> look e h maxlen;
           case r of Some x \<Rightarrow> return x
           | None \<Rightarrow> State (recv_wait e h maxlen (t + timeout))
         })
      })"

section \<open>One value\<close>

text \<open>
  The handle is not tested, and a reply of the full length has its terminator written behind the buffer.
\<close>

definition modem_spi_get_one_value :: "modem_env \<Rightarrow> string \<Rightarrow> nat \<Rightarrow> (int \<times> 8 word list) modem_m" where
  "modem_spi_get_one_value e cmd len = do {
     on \<leftarrow> gets modem_powered;
     (if \<not> on then return (- ENOTCONN, [])
      else do {
        h \<leftarrow> modem_send_command e MESSAGE_TYPE_AT (text_bytes cmd) True;
        (ret, bs) \<leftarrow> modem_spi_recv_resp e h len 10000;
        over_reads (ret \<noteq> 0 \<or> length bs = len);
        modem_spi_free_reply_data e h;
        return (if ret = 0 then (0, bs) else (-1, []))
      })
   }"

definition modem_spi_get_IMEI :: "modem_env \<Rightarrow> nat \<Rightarrow> (int \<times> 8 word list) modem_m" where
  "modem_spi_get_IMEI e len = modem_spi_get_one_value e ''AT+CGSN'' len"

definition modem_spi_get_ICCID :: "modem_env \<Rightarrow> nat \<Rightarrow> (int \<times> 8 word list) modem_m" where
  "modem_spi_get_ICCID e len = do {
     modem_send_command e MESSAGE_TYPE_AT (text_bytes ''AT+CFUN=1'') False;
     msleep e 1000;
     r \<leftarrow> modem_spi_get_one_value e (''AT'' @ CHR 0x25 # ''XICCID'') len;
     msleep e 500;
     modem_send_command e MESSAGE_TYPE_AT (text_bytes ''AT+CFUN=0'') False;
     return r
   }"

definition modem_spi_get_VERSION :: "modem_env \<Rightarrow> nat \<Rightarrow> (int \<times> 8 word list) modem_m" where
  "modem_spi_get_VERSION e len = modem_spi_get_one_value e ''AT+CGMR'' len"

end
