(* ===== verification/Modem.thy ===== *)
theory Modem
  imports ModemWait
begin

text \<open>
  The calls of the application to the nRF9160, \<^verbatim>\<open>c_modules/modem/src/modem.c\<close>: questions that wait for a reply,
  commands that do not, the power of the modem with the switch of the power chip, the check whether it is
  alive, and the transfer of files.
\<close>

section \<open>Power\<close>

text \<open>
  \<open>set_switch_state(PMIC_SWITCH_VSYS, on)\<close> of \<^verbatim>\<open>pmic.c\<close>: the supply is switched and read back, up to ten times.
\<close>

fun set_vsys :: "modem_env \<Rightarrow> bool \<Rightarrow> nat \<Rightarrow> int modem_m" where
  "set_vsys e on 0 = return (-1)"
| "set_vsys e on (Suc n) = do {
     msleep e 2;
     t \<leftarrow> gets m_now;
     (if ldo_on e t = on then do {
        modify (\<lambda>s. s\<lparr>modem_power_state := (if on then PMIC_LTE_POWER_ON else PMIC_LTE_POWER_OFF)\<rparr>);
        return 0
      }
      else do { msleep e 10; set_vsys e on n })
   }"

definition pmic_power_on_modem :: "modem_env \<Rightarrow> int modem_m" where
  "pmic_power_on_modem e = do {
     p \<leftarrow> gets modem_power_state;
     (if p = PMIC_LTE_POWER_ON then return (- EALREADY)
      else do { set_vsys e False 10; msleep e 50; set_vsys e True 10; return 0 })
   }"

text \<open>The time stamp and the uptime of the status that is published are not set.\<close>

definition off_status :: "modem_env \<Rightarrow> status_update" where
  "off_status e = no_status\<lparr>ms_timestamp := map (behind e) [0..<32], ms_uptime := u64_at 0 (map (behind e) [32..<40])\<rparr>"

definition set_modem_power_state :: "modem_env \<Rightarrow> bool \<Rightarrow> unit modem_m" where
  "set_modem_power_state e on =
     (if on then do { pmic_power_on_modem e; skip }
      else do {
        act LowPower;
        modify (\<lambda>s. s\<lparr>modem_power_state := PMIC_LTE_SOFT_OFF, current_cell_info := replicate 36 0\<rparr>);
        publish_status e (off_status e);
        skip
      })"

definition modem_power_on :: "modem_env \<Rightarrow> int modem_m" where
  "modem_power_on e = do { set_modem_power_state e True; return 0 }"

definition modem_recv_resp :: "modem_env \<Rightarrow> int \<Rightarrow> nat \<Rightarrow> nat \<Rightarrow> (int \<times> 8 word list) modem_m" where
  "modem_recv_resp e handle maxlen timeout = modem_spi_recv_resp e handle maxlen timeout"

definition modem_free_reply_data :: "modem_env \<Rightarrow> int \<Rightarrow> int modem_m" where
  "modem_free_reply_data e handle = modem_spi_free_reply_data e handle"

definition modem_stop_waiting_for_resp :: "modem_env \<Rightarrow> int \<Rightarrow> int modem_m" where
  "modem_stop_waiting_for_resp e handle = modem_spi_stop_waiting_for_resp e handle"

text \<open>On external power the modem stays on.  The handle of the question is not given back on success.\<close>

definition modem_power_off :: "modem_env \<Rightarrow> int modem_m" where
  "modem_power_off e = do {
     s \<leftarrow> State_Monad.get;
     (if on_power s then return 0
      else if \<not> modem_powered s then return (- ENODEV)
      else do {
        h \<leftarrow> modem_send_command e MESSAGE_TYPE_COMMAND [COMMAND_HARD_STOP] True;
        (if h < 0 then return (-1)
         else do {
           (ret, bs) \<leftarrow> modem_recv_resp e h 64 3000;
           (if ret \<noteq> 0 \<or> length bs = 1 \<and> bs ! 0 \<noteq> 0
            then do { modem_stop_waiting_for_resp e h; return (- EAGAIN) }
            else do { set_modem_power_state e False; return 0 })
         })
      })
   }"

section \<open>Questions\<close>

text \<open>
  The frame of the questions: without power an error; a handle below zero another; then the reply, or the
  end of the wait.
\<close>

definition when_on :: "'a \<Rightarrow> 'a modem_m \<Rightarrow> 'a modem_m" where
  "when_on r m = do { on \<leftarrow> gets modem_powered; (if \<not> on then return r else m) }"

definition ask_modem ::
  "modem_env \<Rightarrow> 8 word \<Rightarrow> 8 word list \<Rightarrow> nat \<Rightarrow> nat \<Rightarrow> (int \<Rightarrow> 'a modem_m) \<Rightarrow>
   (int \<Rightarrow> int \<Rightarrow> 'a modem_m) \<Rightarrow> (int \<Rightarrow> 8 word list \<Rightarrow> 'a modem_m) \<Rightarrow> 'a modem_m" where
  "ask_modem e typ data maxlen timeout refused failed answered = do {
     h \<leftarrow> modem_send_command e typ data True;
     (if h < 0 then refused h
      else do {
        (ret, bs) \<leftarrow> modem_recv_resp e h maxlen timeout;
        (if ret = 0 then answered h bs else failed h ret)
      })
   }"

definition stop_with :: "modem_env \<Rightarrow> 'a \<Rightarrow> int \<Rightarrow> int \<Rightarrow> 'a modem_m" where
  "stop_with e r h err = do { modem_stop_waiting_for_resp e h; return r }"

definition mqtt_frame :: "8 word list \<Rightarrow> 8 word list \<Rightarrow> 8 word \<Rightarrow> 8 word list" where
  "mqtt_frame topic message qos =
     (let f = lo_hi (of_nat (length message)) @ lo_hi (of_nat (length topic)) @ [qos] @ topic @ message
      in take (length f mod 2 ^ 16) f)"

definition modem_send_mqtt ::
  "modem_env \<Rightarrow> 8 word list \<Rightarrow> 8 word list \<Rightarrow> 8 word \<Rightarrow> nat \<Rightarrow> int modem_m" where
  "modem_send_mqtt e topic message qos timeout =
     (if topic = [] \<or> message = [] then return (- EINVAL)
      else when_on (- ENODEV) (do {
        flags \<leftarrow> gets (\<lambda>s. ms_flags (modem_status_shadow s));
        (if \<not> bit flags 4 then return (- ENOTCONN)
         else do {
           ok \<leftarrow> m_alloc e;
           (if \<not> ok then return (- ENOMEM)
            else do {
              r \<leftarrow> (if timeout = 0 then do {
                     h \<leftarrow> modem_send_command e MESSAGE_TYPE_MQTT (mqtt_frame topic message qos) False;
                     return (if h < 0 then - ENOTCONN else h)
                   }
                   else ask_modem e MESSAGE_TYPE_MQTT (mqtt_frame topic message qos) 32 timeout
                     (\<lambda>_. return (- ENOTCONN)) (stop_with e (- ETIMEDOUT))
                     (\<lambda>h bs. do {
                        b \<leftarrow> read_bytes e 1 bs;
                        modem_free_reply_data e h;
                        return (sint (b ! 0))
                      }));
              m_free 1;
              return r
            })
         })
      }))"

text \<open>Without power or a handle the copy of the last status is answered.\<close>

definition modem_get_status :: "modem_env \<Rightarrow> (int \<times> status_update option) modem_m" where
  "modem_get_status e = do {
     old \<leftarrow> gets modem_status_shadow;
     when_on (- ENODEV, Some old)
       (ask_modem e MESSAGE_TYPE_DEVICE_STATUS [] 1024 3000
          (\<lambda>h. return (h, Some old)) (stop_with e (-1, None))
          (\<lambda>h bs. do {
             b \<leftarrow> read_bytes e 56 bs;
             r \<leftarrow> modem_free_reply_data e h;
             return (r, Some (status_of b))
           }))
   }"

text \<open>The version is asked for unless it is known; without \<open>want\<close> no reply is asked for.\<close>

definition modem_get_version :: "modem_env \<Rightarrow> bool \<Rightarrow> (int \<times> 8 word list option) modem_m" where
  "modem_get_version e want = do {
     v \<leftarrow> gets shadow_version;
     (if want \<and> 0 < v ! 0 then return (0, Some v)
      else when_on (- ENODEV, None)
        (if \<not> want then do {
           h \<leftarrow> modem_send_command e MESSAGE_TYPE_COMMAND [COMMAND_GET_VERSION] False;
           return (if h < 0 then -1 else 0, None)
         }
         else ask_modem e MESSAGE_TYPE_COMMAND [COMMAND_GET_VERSION] 1024 1000
           (\<lambda>_. return (-1, None)) (stop_with e (-1, None))
           (\<lambda>h bs. do {
              over_reads (length bs = 1024);
              b \<leftarrow> read_bytes e 100 bs;
              r \<leftarrow> modem_free_reply_data e h;
              return (r, if b ! 0 = COMMAND_GET_VERSION then Some (drop 1 b) else None)
            })))
   }"

text \<open>The handle is not given back, with or without a reply.\<close>

definition modem_get_time :: "modem_env \<Rightarrow> nat \<Rightarrow> (int \<times> 8 word list) modem_m" where
  "modem_get_time e len =
     when_on (- ENODEV, [])
       (ask_modem e MESSAGE_TYPE_GET_TIME [] len 1000 (\<lambda>_. return (-1, [])) (\<lambda>_ _. return (-1, []))
          (\<lambda>_ bs. return (0, bs)))"

definition modem_send_at_command :: "modem_env \<Rightarrow> 8 word list \<Rightarrow> nat \<Rightarrow> (int \<times> 8 word list) modem_m" where
  "modem_send_at_command e cmd maxlen =
     (if cmd = [] then return (-1, [])
      else when_on (- ENODEV, [])
        (ask_modem e MESSAGE_TYPE_AT cmd maxlen 3000 (\<lambda>_. return (-1, [])) (stop_with e (-1, []))
           (\<lambda>h bs. do {
              over_reads (length bs = maxlen);
              r \<leftarrow> modem_free_reply_data e h;
              return (r, bs)
            })))"

text \<open>The handle is not given back when there is no reply.\<close>

definition modem_send_modemCellInfo :: "modem_env \<Rightarrow> nat \<Rightarrow> (int \<times> 8 word list) modem_m" where
  "modem_send_modemCellInfo e maxlen =
     when_on (- ENODEV, [])
       (ask_modem e MESSAGE_TYPE_CELL_INFO [1] maxlen 3000 (\<lambda>_. return (-1, [])) (\<lambda>_ _. return (-1, []))
          (\<lambda>h bs. do {
             over_reads (length bs = maxlen);
             r \<leftarrow> modem_free_reply_data e h;
             return (r, bs)
           }))"

definition modem_set_dnsaddr :: "modem_env \<Rightarrow> string \<Rightarrow> int modem_m" where
  "modem_set_dnsaddr e dns =
     when_on (- ENODEV)
       (if length dns < 7 then return (- EINVAL)
        else do {
          over_reads (255 \<le> length dns);
          ask_modem e MESSAGE_TYPE_COMMAND (COMMAND_SET_DNS # text_bytes dns) 256 3000
            (\<lambda>_. return (-1)) (stop_with e (-1))
            (\<lambda>h bs. do {
               modem_free_reply_data e h;
               return (if bs = [] then -1 else uint (bs ! 0))
             })
        })"

section \<open>Commands without a reply\<close>

definition tell_modem :: "modem_env \<Rightarrow> 8 word \<Rightarrow> 8 word list \<Rightarrow> int modem_m" where
  "tell_modem e typ data = when_on (- ENODEV) (modem_send_command e typ data False)"

definition tell_or_fail :: "modem_env \<Rightarrow> 8 word \<Rightarrow> 8 word list \<Rightarrow> int modem_m" where
  "tell_or_fail e typ data =
     when_on (- ENODEV) (do { r \<leftarrow> modem_send_command e typ data False; return (if r < 0 then -1 else 0) })"

definition modem_cancel_current_download :: "modem_env \<Rightarrow> int modem_m" where
  "modem_cancel_current_download e = tell_or_fail e MESSAGE_TYPE_DOWNLOAD_FROM_HTTPS [0]"

definition modem_fota_from_https :: "modem_env \<Rightarrow> 8 word list \<Rightarrow> int modem_m" where
  "modem_fota_from_https e url =
     (if url = [] then return (-1) else tell_or_fail e MESSAGE_TYPE_FOTA_FROM_HTTPS url)"

definition mqtt_params :: "string \<Rightarrow> nat \<Rightarrow> string \<Rightarrow> string" where
  "mqtt_params host port client_id =
     ''{'' @ CHR 0x22 # ''host'' @ CHR 0x22 # '': '' @ CHR 0x22 # host @ CHR 0x22 # '','' @ CHR 0x22 # ''port''
     @ CHR 0x22 # '': '' @ show_nat port @ '','' @ CHR 0x22 # ''client_id'' @ CHR 0x22 # '': '' @ CHR 0x22 # client_id
     @ CHR 0x22 # ''}''"

definition modem_set_mqtt_params :: "modem_env \<Rightarrow> string \<Rightarrow> nat \<Rightarrow> string \<Rightarrow> int modem_m" where
  "modem_set_mqtt_params e host port client_id =
     (if host = [] \<or> client_id = [] then return (-1)
      else when_on (- ENODEV)
        (if 1023 \<le> length (mqtt_params host port client_id) then return (-1)
         else modem_send_command e MESSAGE_TYPE_COMMAND
           (COMMAND_SET_MQTT_PARAMS # text_bytes (mqtt_params host port client_id)) False))"

text \<open>The text of the library is copied into 1023 bytes without a bound.\<close>

definition modem_set_mqtt_subscriptions ::
  "modem_env \<Rightarrow> (cjson \<Rightarrow> string) \<Rightarrow> (string \<times> int) list \<Rightarrow> int modem_m" where
  "modem_set_mqtt_subscriptions e print topics =
     when_on (- ENODEV)
       (if topics = [] then return (-1)
        else (let txt = print (JObj [(''topics'', JArr (map (\<lambda>(t, q).
                     JObj [(''topic'', JStr t), (''qos'', JInt q)]) topics))])
              in do {
                over_reads (1023 \<le> length txt);
                modem_send_command e MESSAGE_TYPE_COMMAND (COMMAND_SET_MQTT_SUBSCRIPTIONS # text_bytes txt) False
              }))"

definition modem_start_mqtt :: "modem_env \<Rightarrow> int modem_m" where
  "modem_start_mqtt e = tell_modem e MESSAGE_TYPE_COMMAND [COMMAND_SET_MQTT_CONNECT, 1]"

definition modem_stop_mqtt :: "modem_env \<Rightarrow> int modem_m" where
  "modem_stop_mqtt e = tell_modem e MESSAGE_TYPE_COMMAND [COMMAND_SET_MQTT_DISCONNECT, 0]"

definition modem_send_reboot :: "modem_env \<Rightarrow> int modem_m" where
  "modem_send_reboot e = tell_modem e MESSAGE_TYPE_COMMAND [COMMAND_REBOOT, 1]"

definition modem_send_gps_fakedata_enable :: "modem_env \<Rightarrow> int modem_m" where
  "modem_send_gps_fakedata_enable e = tell_or_fail e MESSAGE_TYPE_COMMAND [COMMAND_GPS_START, 2, 1]"

definition modem_send_gps_fakedata_disable :: "modem_env \<Rightarrow> int modem_m" where
  "modem_send_gps_fakedata_disable e = tell_or_fail e MESSAGE_TYPE_COMMAND [COMMAND_GPS_START, 3, 0]"

abbreviation CONFIG_GPS_DATA_PERIOD :: "8 word" where "CONFIG_GPS_DATA_PERIOD \<equiv> 5"

definition modem_send_gps_enable :: "modem_env \<Rightarrow> int modem_m" where
  "modem_send_gps_enable e = tell_or_fail e MESSAGE_TYPE_COMMAND [COMMAND_GPS_START, 1, CONFIG_GPS_DATA_PERIOD]"

definition modem_send_gps_disable :: "modem_env \<Rightarrow> int modem_m" where
  "modem_send_gps_disable e = tell_or_fail e MESSAGE_TYPE_COMMAND [COMMAND_GPS_START, 0, 0]"

definition modem_set_airplane_mode :: "modem_env \<Rightarrow> bool \<Rightarrow> int modem_m" where
  "modem_set_airplane_mode e on =
     tell_or_fail e MESSAGE_TYPE_COMMAND [COMMAND_SET_AIRPLANE_MODE, if on then 1 else 0]"

definition modem_get_rssi :: "modem \<Rightarrow> int" where
  "modem_get_rssi s = sint (ms_rssi (modem_status_shadow s))"

end
