(* ===== verification/ModemFiles.thy ===== *)
theory ModemFiles
  imports Modem
begin

text \<open>
  The parts of \<^verbatim>\<open>modem.c\<close> and \<^verbatim>\<open>modem_spi.c\<close> that use files and settings: the identities that are kept in
  the settings, a download into a file, the upload of firmware; the check whether the modem is alive; the
  start of the link; and the events of the whole link.
\<close>

section \<open>Files and settings\<close>

text \<open>
  Settings that are stored and the results of storing; results of the file calls, by time; the firmware file,
  the error of reading it at a position, and the checksum of the library.
\<close>

record modem_files =
  load_setting :: "string \<Rightarrow> 8 word list option"
  save_rc :: "nat \<Rightarrow> int"
  statvfs_rc :: "nat \<Rightarrow> int"
  open_rc :: "nat \<Rightarrow> int"
  write_rc :: "nat \<Rightarrow> 8 word list \<Rightarrow> int"
  seek_rc :: "nat \<Rightarrow> int"
  fclose_rc :: "nat \<Rightarrow> int"
  fw_bytes :: "8 word list"
  fw_read_rc :: "nat \<Rightarrow> bool"
  crc32_ieee :: "8 word list \<Rightarrow> 32 word"

abbreviation IMEI_SETTINGS_PATH :: string where "IMEI_SETTINGS_PATH \<equiv> ''nrf9160/imei''"
abbreviation ICCID_SETTINGS_PATH :: string where "ICCID_SETTINGS_PATH \<equiv> ''nrf9160/iccid''"

definition save_setting :: "modem_files \<Rightarrow> string \<Rightarrow> 8 word list \<Rightarrow> int modem_m" where
  "save_setting fs path bs = do {
     t \<leftarrow> gets m_now;
     act (SaveSetting path bs);
     return (save_rc fs t)
   }"

definition modem_get_IMEI :: "modem_env \<Rightarrow> modem_files \<Rightarrow> nat \<Rightarrow> (int \<times> 8 word list) modem_m" where
  "modem_get_IMEI e fs len =
     (case load_setting fs IMEI_SETTINGS_PATH of
        Some bs \<Rightarrow> return (0, take 15 bs)
      | None \<Rightarrow> do {
          (ret, bs) \<leftarrow> modem_spi_get_IMEI e len;
          (if ret \<noteq> 0 then return (ret, [])
           else do {
             b \<leftarrow> read_bytes e 15 bs;
             r \<leftarrow> save_setting fs IMEI_SETTINGS_PATH b;
             return (r, bs)
           })
        })"

text \<open>The number begins after the nine bytes of the answer's label.\<close>

definition ask_iccid :: "modem_env \<Rightarrow> modem_files \<Rightarrow> nat \<Rightarrow> (int \<times> 8 word list) modem_m" where
  "ask_iccid e fs len = do {
     (ret, bs) \<leftarrow> modem_spi_get_ICCID e len;
     (if ret \<noteq> 0 then return (ret, [])
      else do {
        b \<leftarrow> read_bytes e 29 bs;
        r \<leftarrow> save_setting fs ICCID_SETTINGS_PATH (drop 9 b);
        return (r, drop 9 b)
      })
   }"

definition modem_get_ICCID :: "modem_env \<Rightarrow> modem_files \<Rightarrow> nat \<Rightarrow> (int \<times> 8 word list) modem_m" where
  "modem_get_ICCID e fs len =
     (case load_setting fs ICCID_SETTINGS_PATH of
        Some bs \<Rightarrow>
          if length (bytes_text (take 20 bs)) = 20 then return (0, take 20 bs) else ask_iccid e fs len
      | None \<Rightarrow> ask_iccid e fs len)"

record device_info =
  mi_iccid :: "8 word list"
  mi_imei :: "8 word list"
  mi_operator :: "8 word list"
  mi_cellID :: "8 word list"
  mi_ap :: "8 word list"
  mi_subscriber :: "8 word list"

definition info_of :: "8 word list \<Rightarrow> device_info" where
  "info_of b = \<lparr>mi_iccid = take 32 b, mi_imei = take 16 (drop 32 b), mi_operator = take 16 (drop 64 b),
     mi_cellID = take 16 (drop 96 b), mi_ap = take 16 (drop 112 b), mi_subscriber = take 32 (drop 128 b)\<rparr>"

definition kept_info :: "8 word list \<Rightarrow> 8 word list \<Rightarrow> device_info" where
  "kept_info imei iccid = (let nc = text_bytes ''N/C'' in
     \<lparr>mi_iccid = text_bytes (bytes_text (take 19 iccid)), mi_imei = imei, mi_operator = nc, mi_cellID = nc,
      mi_ap = nc, mi_subscriber = nc\<rparr>)"

definition modem_get_info :: "modem_env \<Rightarrow> modem_files \<Rightarrow> (int \<times> device_info option) modem_m" where
  "modem_get_info e fs =
     when_on (- ENODEV, None)
       (ask_modem e MESSAGE_TYPE_DEVICE_INFO [] 1024 1000
          (\<lambda>_. do {
             (ret, imei) \<leftarrow> modem_get_IMEI e fs 32;
             (if ret \<noteq> 0 then return (ret, None)
              else do {
                (ret, iccid) \<leftarrow> modem_get_ICCID e fs 50;
                return (ret, Some (kept_info imei iccid))
              })
           })
          (stop_with e (-1, None))
          (\<lambda>h bs. do {
             b \<leftarrow> read_bytes e 160 bs;
             r \<leftarrow> modem_free_reply_data e h;
             return (r, Some (info_of b))
           }))"

section \<open>A download\<close>

abbreviation CONFIG_SPI_RECEIVE_BUFFER_MAX_SIZE :: nat where "CONFIG_SPI_RECEIVE_BUFFER_MAX_SIZE \<equiv> 3072"

abbreviation DOWNLOAD_COMPLETE :: "8 word" where "DOWNLOAD_COMPLETE \<equiv> 0"
abbreviation DOWNLOAD_ERROR :: "8 word" where "DOWNLOAD_ERROR \<equiv> 1"
abbreviation DOWNLOAD_INPROGRESS :: "8 word" where "DOWNLOAD_INPROGRESS \<equiv> 2"

definition close_file :: "unit modem_m" where
  "close_file = act FileClosed"

definition start_file :: "modem_env \<Rightarrow> modem_files \<Rightarrow> string \<Rightarrow> int \<Rightarrow> int option modem_m" where
  "start_file e fs name h = do {
     t \<leftarrow> gets m_now;
     (if statvfs_rc fs t \<noteq> 0 then do { modem_spi_stop_waiting_for_resp e h; return (Some (statvfs_rc fs t)) }
      else do {
        act (FileOpen (take 127 (''/lfs1/'' @ name)));
        (if open_rc fs t \<noteq> 0 then do { modem_spi_stop_waiting_for_resp e h; return (Some (- 5)) }
         else return None)
      })
   }"

text \<open>A piece of the file; the result leaves the loop.\<close>

definition take_piece ::
  "modem_env \<Rightarrow> modem_files \<Rightarrow> string \<Rightarrow> int \<Rightarrow> bool \<Rightarrow> 8 word list \<Rightarrow> int option modem_m" where
  "take_piece e fs name h started bs = do {
     failed \<leftarrow> (if started then return None else start_file e fs name h);
     (if failed \<noteq> None then return failed
      else do {
        head \<leftarrow> read_bytes e 24 bs;
        let len = unat (u16_at 2 head)
        in do {
          b \<leftarrow> read_bytes e (24 + len) bs;
          t \<leftarrow> gets m_now;
          act (FileWrite (drop 24 b));
          (if write_rc fs t (drop 24 b) \<noteq> int len
           then do { close_file; modem_spi_stop_waiting_for_resp e h; return (Some (- 5)) }
           else if u64_at 12 head = u64_at 4 head
           then do { modem_spi_stop_waiting_for_resp e h; close_file; return (Some 0) }
           else return None)
        }
      })
   }"

text \<open>
  What is done with one answer: \<open>None\<close> goes on, with the reply freed.  After an unknown status the wait has
  been stopped before the reply is freed a second time.
\<close>

definition take_answer ::
  "modem_env \<Rightarrow> modem_files \<Rightarrow> string \<Rightarrow> int \<Rightarrow> bool \<Rightarrow> 8 word list \<Rightarrow> int option modem_m" where
  "take_answer e fs name h started bs = do {
     b \<leftarrow> read_bytes e 1 bs;
     r \<leftarrow> (if b ! 0 = DOWNLOAD_COMPLETE then do {
             modem_spi_stop_waiting_for_resp e h; close_file; return (Some 0) }
           else if b ! 0 = DOWNLOAD_ERROR then do {
             modem_spi_stop_waiting_for_resp e h; close_file; return (Some (- EINVAL)) }
           else if b ! 0 = DOWNLOAD_INPROGRESS then take_piece e fs name h started bs
           else do { modem_spi_stop_waiting_for_resp e h; return None });
     (if r = None then do { modem_spi_free_reply_data_but_not_handle e h; return None } else return r)
   }"

partial_function (option) download_loop ::
  "modem_env \<Rightarrow> modem_files \<Rightarrow> string \<Rightarrow> int \<Rightarrow> bool \<Rightarrow> modem \<Rightarrow> (int \<times> modem) option" where
  "download_loop e fs name h started s =
     (let ((ret, bs), s1) = run_state (modem_recv_resp e h CONFIG_SPI_RECEIVE_BUFFER_MAX_SIZE 10000) s
      in if ret \<noteq> 0 then Some (ret, s1)
         else let (r, s2) = run_state (take_answer e fs name h started bs) s1
              in case r of
                   Some x \<Rightarrow> Some (x, s2)
                 | None \<Rightarrow> download_loop e fs name h (started \<or> padded e 1 bs = [DOWNLOAD_INPROGRESS]) s2)"

definition modem_download_file_from_url ::
  "modem_env \<Rightarrow> modem_files \<Rightarrow> string \<Rightarrow> string \<Rightarrow> modem \<Rightarrow> (int \<times> modem) option" where
  "modem_download_file_from_url e fs url name s =
     (if \<not> modem_powered s then Some (- ENODEV, s)
      else if length url < 10 \<or> name = [] then Some (- EINVAL, s)
      else let (h, s1) = run_state (modem_send_command e MESSAGE_TYPE_DOWNLOAD_FROM_HTTPS (text_bytes url) True) s
           in if h < 0 then Some (h, s1) else download_loop e fs name h False s1)"

section \<open>An upload\<close>

abbreviation CONFIG_LTE_FOTA_CHUNK_SIZE_MAX :: nat where "CONFIG_LTE_FOTA_CHUNK_SIZE_MAX \<equiv> 1024"

definition u32_bytes :: "32 word \<Rightarrow> 8 word list" where
  "u32_bytes w = lo_hi (ucast w) @ lo_hi (ucast (drop_bit 16 w))"

definition upload_frame :: "modem_files \<Rightarrow> nat \<Rightarrow> 8 word list \<Rightarrow> 8 word list" where
  "upload_frame fs i block =
     lo_hi (of_nat i) @ lo_hi (of_nat (length (fw_bytes fs) div CONFIG_LTE_FOTA_CHUNK_SIZE_MAX))
     @ lo_hi (of_nat (length block)) @ lo_hi 0 @ u32_bytes (crc32_ieee fs block) @ block"

text \<open>
  The length of a reply is the space for the next one.  A question that is refused, or has no reply, leaves
  the file open; the first keeps the block, the second the handle.
\<close>

definition send_chunk ::
  "modem_env \<Rightarrow> modem_files \<Rightarrow> nat \<Rightarrow> nat \<Rightarrow> 8 word list \<Rightarrow> (int option \<times> nat) modem_m" where
  "send_chunk e fs i maxlen block = do {
     ok \<leftarrow> m_alloc e;
     (if \<not> ok then do { close_file; return (Some (-1), maxlen) }
      else do {
        h \<leftarrow> modem_send_command e MESSAGE_TYPE_FW_UPLOAD (upload_frame fs i block) True;
        (if h < 0 then return (Some (-1), maxlen)
         else do {
           m_free 1;
           (ret, bs) \<leftarrow> modem_recv_resp e h maxlen 10000;
           (if ret \<noteq> 0 then return (Some (-1), maxlen)
            else do {
              b \<leftarrow> read_bytes e 12 bs;
              modem_free_reply_data e h;
              (if u16_at 6 b \<noteq> 0 then do { close_file; return (Some (-1), length bs) }
               else return (None, length bs))
            })
         })
      })
   }"

function upload_chunks :: "modem_env \<Rightarrow> modem_files \<Rightarrow> nat \<Rightarrow> nat \<Rightarrow> int option modem_m" where
  "upload_chunks e fs i maxlen =
     (if fw_read_rc fs i then return None
      else
        (let block = take CONFIG_LTE_FOTA_CHUNK_SIZE_MAX
                       (drop (i * CONFIG_LTE_FOTA_CHUNK_SIZE_MAX) (fw_bytes fs))
         in do {
           (r, n) \<leftarrow> send_chunk e fs i maxlen block;
           (if r \<noteq> None then return r
            else if length block < CONFIG_LTE_FOTA_CHUNK_SIZE_MAX then return None
            else upload_chunks e fs (Suc i) n)
         }))"
  by pat_completeness auto
termination
  by (relation "measure (\<lambda>(e, fs, i, maxlen). Suc (length (fw_bytes fs)) - i * 1024)") auto

declare upload_chunks.simps [simp del]

definition modem_upload_fw :: "modem_env \<Rightarrow> modem_files \<Rightarrow> int modem_m" where
  "modem_upload_fw e fs =
     when_on (- ENODEV) (do {
       t \<leftarrow> gets m_now;
       (if open_rc fs t \<noteq> 0 then return (-1)
        else if seek_rc fs t < 0 then return (seek_rc fs t)
        else do {
          r \<leftarrow> upload_chunks e fs 0 12;
          case r of Some x \<Rightarrow> return x
          | None \<Rightarrow> do {
              t \<leftarrow> gets m_now;
              close_file;
              return (if fclose_rc fs t < 0 then fclose_rc fs t else 0)
            }
        })
     })"

section \<open>Whether the modem is alive\<close>

definition give_up_modem :: "modem_env \<Rightarrow> unit modem_m" where
  "give_up_modem e = do {
     set_modem_power_state e False;
     modem_power_off e;
     modify (\<lambda>s. s\<lparr>do_simulate_fail := False, num_fails := num_fails s + 1\<rparr>)
   }"

definition modem_alive_check_work_handler :: "modem_env \<Rightarrow> unit modem_m" where
  "modem_alive_check_work_handler e = do {
     s \<leftarrow> State_Monad.get;
     (if \<not> modem_powered s then skip
      else if m_now s - last_msg_received_time s < 10000 then modify (\<lambda>s. s\<lparr>num_fails := 0\<rparr>)
      else do {
        (ret, st) \<leftarrow> modem_get_status e;
        sim \<leftarrow> gets do_simulate_fail;
        t \<leftarrow> gets m_now;
        (if 0 \<le> ret \<and> \<not> sim then skip
         else if fota_running e t then skip
         else do {
           give_up_modem e;
           n \<leftarrow> gets num_fails;
           whenever (10 < n) (act PmicReboot)
         })
      })
   }"

section \<open>The link as a whole\<close>

text \<open>\<open>modem_spi_init\<close>: a bus that cannot be set up is not an error, a pin is.\<close>

definition modem_spi_init :: "modem_env \<Rightarrow> int modem_m" where
  "modem_spi_init e =
     (if \<not> pins_ok e 0 then return (-1)
      else if \<not> pins_ok e 1 then return 0
      else do {
        modify (\<lambda>s. s\<lparr>handles := map (\<lambda>h. h\<lparr>h_data := None, h_dataLen := 0\<rparr>) (handles s)\<rparr>);
        (if \<not> pins_ok e 2 \<or> \<not> pins_ok e 3 then return (-1)
         else do {
           modem_power_on e;
           send_status_no_reply e;
           send_version_no_reply e;
           return 0
         })
      })"

definition modem_init :: "modem_env \<Rightarrow> int modem_m" where
  "modem_init e = do { modem_power_on e; modem_spi_init e }"

definition modem_boot :: modem where
  "modem_boot = \<lparr>handles = replicate MAX_MODEM_HANDLES no_handle, m_mem = (\<lambda>_. None), m_brk = 0, m_allocs = 0,
     m_live = 0, m_work = 0, modem_status_shadow = no_status, shadow_version = replicate 99 0,
     current_cell_info = replicate 36 0, modem_ready_for_commands = True, modem_power_state = PMIC_LTE_POWER_OFF,
     last_modem_enable_time = 0, last_msg_received_time = 0, num_fails = 0, do_simulate_fail = False,
     on_power = False, m_now = 0, m_transfers = 0, send_q = [], recv_q = [],
     gps_data = \<lparr>items = [], counter = 0, live = 0\<rparr>, acts = [], use_after_free = False, out_of_array = False,
     over_read = False, recv_stuck = False\<rparr>"

datatype modem_call =
  CallInit | CallPowerOn | CallPowerOff | CallStatus | CallInfo | CallVersion bool | CallTime nat
| CallMqtt "8 word list" "8 word list" "8 word" nat | CallAt "8 word list" nat | CallCell nat | CallDns string
| CallTell "8 word" "8 word list" | CallImei nat | CallIccid nat | CallUpload | CallAlive | CallSleep nat
| CallThread thread | CallPlug bool

definition run_call :: "modem_env \<Rightarrow> modem_files \<Rightarrow> modem_call \<Rightarrow> unit modem_m" where
  "run_call e fs c =
     (case c of
        CallInit \<Rightarrow> do { modem_init e; skip }
      | CallPowerOn \<Rightarrow> do { modem_power_on e; skip }
      | CallPowerOff \<Rightarrow> do { modem_power_off e; skip }
      | CallStatus \<Rightarrow> do { modem_get_status e; skip }
      | CallInfo \<Rightarrow> do { modem_get_info e fs; skip }
      | CallVersion w \<Rightarrow> do { modem_get_version e w; skip }
      | CallTime n \<Rightarrow> do { modem_get_time e n; skip }
      | CallMqtt t m q n \<Rightarrow> do { modem_send_mqtt e t m q n; skip }
      | CallAt bs n \<Rightarrow> do { modem_send_at_command e bs n; skip }
      | CallCell n \<Rightarrow> do { modem_send_modemCellInfo e n; skip }
      | CallDns d \<Rightarrow> do { modem_set_dnsaddr e d; skip }
      | CallTell t bs \<Rightarrow> do { tell_modem e t bs; skip }
      | CallImei n \<Rightarrow> do { modem_get_IMEI e fs n; skip }
      | CallIccid n \<Rightarrow> do { modem_get_ICCID e fs n; skip }
      | CallUpload \<Rightarrow> do { modem_upload_fw e fs; skip }
      | CallAlive \<Rightarrow> modem_alive_check_work_handler e
      | CallSleep ms \<Rightarrow> msleep e ms
      | CallThread t \<Rightarrow> run_thread e t
      | CallPlug b \<Rightarrow> modify (\<lambda>s. s\<lparr>on_power := b\<rparr>))"

inductive modem_reach :: "modem_env \<Rightarrow> modem_files \<Rightarrow> modem \<Rightarrow> modem \<Rightarrow> bool" for e fs where
  modem_here: "modem_reach e fs s s"
| modem_step: "modem_reach e fs s t \<Longrightarrow> modem_reach e fs s (after (run_call e fs c) t)"

end
