(* ===== verification/ModemProps.thy ===== *)
theory ModemProps
  imports ModemFiles
begin

text \<open>
  Properties of the link to the nRF9160: what the table of handles and the blocks of the replies keep in every
  run, the way of a reply to the one who asked, the changes of the status, and where handles and blocks go
  wrong.
\<close>

section \<open>Headers\<close>

lemma bytes_u16: "ucast (ucast w :: 8 word) + push_bit 8 (ucast (ucast (drop_bit 8 w) :: 8 word)) = (w :: 16 word)"
proof (rule bit_word_eqI)
  fix n assume "n < LENGTH(16)"
  have d: "(ucast (ucast w :: 8 word) :: 16 word) AND push_bit 8 (ucast (ucast (drop_bit 8 w) :: 8 word)) = 0"
    by (rule bit_word_eqI) (auto simp: bit_simps)
  show "bit (ucast (ucast w :: 8 word) + push_bit 8 (ucast (ucast (drop_bit 8 w) :: 8 word)) :: 16 word) n = bit w n"
    unfolding disjunctive_add_eq_or [OF d] using \<open>n < LENGTH(16)\<close> by (auto simp: bit_simps)
qed

lemma u16_lo_hi: "u16_at i bs = w" if "bs ! i = ucast w" "bs ! Suc i = ucast (drop_bit 8 w)"
  using that bytes_u16 [of w] by (simp add: u16_at_def)

theorem message_header_roundtrip: "header_of (header_bytes c @ data) = c"
  by (simp add: header_of_def header_bytes_def lo_hi_def u16_lo_hi eval_nat_numeral)

section \<open>What every run keeps\<close>

lemma steady_wait_loop: "steady_m t well s \<Longrightarrow> steady_m t well (snd (recv_wait e h maxlen deadline s))"
proof (induction e h maxlen deadline s rule: recv_wait.induct)
  case (1 e h maxlen deadline s)
  have l: "steady_m t well (after (look e h maxlen) s)" by (rule keepsD [OF steady_look 1(2)])
  show ?case using 1(1) [OF _ _ keepsD [OF steady_msleep l]] l 1(2)
    by (subst recv_wait.simps) (simp split: option.split)
qed

lemma steady_resp [keeps_intro]: "keeps (steady_m t well) (modem_spi_recv_resp e h maxlen timeout)"
proof -
  have "keeps (steady_m t well) (State (recv_wait e n maxlen d))" for n d
    by (rule keepsI) (simp add: after_def steady_wait_loop)
  then show ?thesis unfolding modem_spi_recv_resp_def by (intro keeps_intro)
qed

lemma steady_release [keeps_intro]:
  "keeps (steady_m t well) (modem_spi_free_reply_data_but_not_handle e h)"
  "keeps (steady_m t well) (modem_spi_free_reply_data e h)"
  "keeps (steady_m t well) (modem_spi_stop_waiting_for_resp e h)"
  unfolding modem_spi_free_reply_data_but_not_handle_def modem_spi_free_reply_data_def
    modem_spi_stop_waiting_for_resp_def
  by (intro keeps_intro; simp)+

lemma steady_resp' [keeps_intro]:
  "keeps (steady_m t well) (modem_recv_resp e h maxlen timeout)"
  "keeps (steady_m t well) (modem_free_reply_data e h)"
  "keeps (steady_m t well) (modem_stop_waiting_for_resp e h)"
  "keeps (steady_m t well) (stop_with e r h err)"
  unfolding modem_recv_resp_def modem_free_reply_data_def modem_stop_waiting_for_resp_def stop_with_def
  by (intro keeps_intro)+

lemma steady_ask [keeps_intro]:
  assumes "\<And>h. keeps (steady_m t well) (refused h)" and "\<And>h r. keeps (steady_m t well) (failed h r)"
    and "\<And>h bs. keeps (steady_m t well) (answered h bs)"
  shows "keeps (steady_m t well) (ask_modem e typ data maxlen timeout refused failed answered)"
  unfolding ask_modem_def by (intro keeps_intro assms)

lemma steady_when_on [keeps_intro]: "keeps (steady_m t well) m \<Longrightarrow> keeps (steady_m t well) (when_on r m)"
  unfolding when_on_def by (intro keeps_intro)

lemma steady_vsys [keeps_intro]: "keeps (steady_m t well) (set_vsys e on n)"
  by (induction n) (simp_all only: set_vsys.simps, (intro keeps_intro steady_modify; simp)+)

lemma steady_power [keeps_intro]:
  "keeps (steady_m t well) (pmic_power_on_modem e)" "keeps (steady_m t well) (set_modem_power_state e on)"
  "keeps (steady_m t well) (modem_power_on e)" "keeps (steady_m t well) (modem_power_off e)"
  unfolding pmic_power_on_modem_def set_modem_power_state_def modem_power_on_def modem_power_off_def
  by (intro keeps_intro steady_modify; simp)+

lemma steady_questions [keeps_intro]:
  "keeps (steady_m t well) (modem_spi_get_one_value e cmd n)" "keeps (steady_m t well) (modem_spi_get_IMEI e n)"
  "keeps (steady_m t well) (modem_spi_get_ICCID e n)" "keeps (steady_m t well) (modem_get_status e)"
  "keeps (steady_m t well) (modem_get_version e want)" "keeps (steady_m t well) (modem_get_time e n)"
  "keeps (steady_m t well) (modem_send_at_command e bs n)" "keeps (steady_m t well) (modem_send_modemCellInfo e n)"
  "keeps (steady_m t well) (modem_set_dnsaddr e dns)" "keeps (steady_m t well) (tell_modem e typ bs)"
  "keeps (steady_m t well) (modem_send_mqtt e topic msg qos n)"
  unfolding modem_spi_get_one_value_def modem_spi_get_IMEI_def modem_spi_get_ICCID_def modem_get_status_def
    modem_get_version_def modem_get_time_def modem_send_at_command_def modem_send_modemCellInfo_def
    modem_set_dnsaddr_def tell_modem_def modem_send_mqtt_def
  by (intro keeps_intro)+

lemma steady_identities [keeps_intro]:
  "keeps (steady_m t well) (save_setting fs path bs)" "keeps (steady_m t well) (ask_iccid e fs n)"
  "keeps (steady_m t well) (modem_get_IMEI e fs n)" "keeps (steady_m t well) (modem_get_ICCID e fs n)"
  "keeps (steady_m t well) (modem_get_info e fs)"
  unfolding save_setting_def ask_iccid_def modem_get_IMEI_def modem_get_ICCID_def modem_get_info_def
  by (intro keeps_intro)+

lemma steady_chunk [keeps_intro]: "keeps (steady_m t well) (send_chunk e fs i n block)"
  unfolding send_chunk_def close_file_def by (intro keeps_intro)

lemma steady_chunks [keeps_intro]: "keeps (steady_m t well) (upload_chunks e fs i n)"
proof (induction e fs i n rule: upload_chunks.induct)
  case (1 e fs i n)
  show ?case
    by (subst upload_chunks.simps, unfold Let_def)
       (intro keeps_if keeps_return keeps_bind steady_chunk keeps_case_prod; rule 1 [OF _ refl]; simp del: length_take)
qed

lemma steady_upload [keeps_intro]:
  "keeps (steady_m t well) (modem_upload_fw e fs)" "keeps (steady_m t well) (give_up_modem e)"
  "keeps (steady_m t well) (modem_alive_check_work_handler e)"
  unfolding modem_upload_fw_def give_up_modem_def modem_alive_check_work_handler_def close_file_def
  by (intro keeps_intro steady_modify; simp)+

lemma steady_init [keeps_intro]: "keeps (steady_m t well) (modem_init e)"
proof -
  have "keeps (steady_m t well)
     (modify (\<lambda>s. s\<lparr>handles := map (\<lambda>h. h\<lparr>h_data := None, h_dataLen := 0\<rparr>) (handles s)\<rparr>))"
    by (rule keepsI) (auto simp: steady_m_def table_ok_def)
  moreover have "keeps (steady_m t well) (send_status_no_reply e)"
    unfolding send_status_no_reply_def by (intro keeps_intro)
  ultimately show ?thesis unfolding modem_init_def modem_spi_init_def by (intro keeps_intro)
qed

lemma steady_call [keeps_intro]: "keeps (steady_m t well) (run_call e fs c)"
  unfolding run_call_def by (cases c) (simp_all only: modem_call.case, (intro keeps_intro steady_modify; simp)+)

lemma reach_steady: "modem_reach e fs s0 s \<Longrightarrow> steady_m t well s0 \<Longrightarrow> steady_m t well s"
  by (induction rule: modem_reach.induct) (simp_all add: keepsD [OF steady_call])


section \<open>The status\<close>

lemma bit_update_bit: "bit (update_bit n b) i \<longleftrightarrow> b \<and> i = n \<and> n < 32"
  by (auto simp: update_bit_def bit_simps simp del: push_bit_of_1)

text \<open>
  The bits that are published with a status are exactly the changes: a flag bit is set when that
  flag differs from the last status, and the three bits above the flags when the signal strength, the
  progress and the state of the update differ.  The new status is kept for the next comparison.
\<close>

theorem status_changes_exact:
  assumes "ms_flags (modem_status_shadow s) < 2 ^ 16" and "ms_flags st < 2 ^ 16"
  defines "old \<equiv> modem_status_shadow s" and "bits \<equiv> result (merge_shadow_status st) s"
  shows "(\<forall>i < 16. bit bits i = (bit (ms_flags old) i \<noteq> bit (ms_flags st) i)) \<and>
    bit bits 16 = (ms_rssi old \<noteq> ms_rssi st) \<and>
    bit bits 17 = (ms_fota_percentage old \<noteq> ms_fota_percentage st) \<and>
    bit bits 18 = (ms_fota_state old \<noteq> ms_fota_state st) \<and>
    (\<forall>i > 18. \<not> bit bits i) \<and> modem_status_shadow (after (merge_shadow_status st) s) = st"
proof -
  have hi: "\<not> bit w i" if "w < 2 ^ 16" "16 \<le> i" for w :: "32 word" and i
  proof -
    have "take_bit 16 (unat w) = unat w" using that(1) by (intro take_bit_nat_eq_self) (simp add: word_less_nat_alt)
    then have "\<not> bit (unat w) i" using that(2) by (metis bit_take_bit_iff leD)
    then show ?thesis by (simp add: bit_unsigned_iff)
  qed
  have b: "bits = change_bits old st" "modem_status_shadow (after (merge_shadow_status st) s) = st"
    by (simp_all add: bits_def old_def merge_shadow_status_def)
  show ?thesis using hi [OF assms(1)] hi [OF assms(2)]
    by (auto simp: b change_bits_def bit_update_bit bit_or_iff bit_xor_iff old_def)
qed

section \<open>The way of a reply\<close>

lemma result_look:
  "h < length (handles s) \<Longrightarrow> h_data (handles s ! h) = Some p \<Longrightarrow> unat (h_dataLen (handles s ! h)) \<le> maxlen \<Longrightarrow>
   result (look e h maxlen) s = Some (0, take (unat (h_dataLen (handles s ! h)))
     (case m_mem s p of Some bs \<Rightarrow> bs | None \<Rightarrow> freed_bytes e p))"
  by (simp add: look_def handle_at_def split: option.split)

lemma after_look:
  "h < length (handles s) \<Longrightarrow> h_data (handles s ! h) = Some p \<Longrightarrow> unat (h_dataLen (handles s ! h)) \<le> maxlen \<Longrightarrow>
   after (look e h maxlen) s = (case m_mem s p of Some bs \<Rightarrow> s | None \<Rightarrow> s\<lparr>use_after_free := True\<rparr>)"
  by (simp add: look_def handle_at_def split: option.split)

lemma resp_there:
  assumes "h < MAX_MODEM_HANDLES" and "length (handles s) = MAX_MODEM_HANDLES" and "h_data (handles s ! h) = Some p"
    and "unat (h_dataLen (handles s ! h)) \<le> maxlen" and "lock_rc e (m_now s) = 0"
  shows "result (modem_spi_recv_resp e (int h) maxlen timeout) s =
      (0, take (unat (h_dataLen (handles s ! h))) (case m_mem s p of Some bs \<Rightarrow> bs | None \<Rightarrow> freed_bytes e p))"
    and "after (modem_spi_recv_resp e (int h) maxlen timeout) s =
      (case m_mem s p of Some bs \<Rightarrow> s | None \<Rightarrow> s\<lparr>use_after_free := True\<rparr>)"
proof -
  have h: "nat (int h mod 256) = h" using assms(1) by simp
  have l: "h < length (handles s)" using assms(1, 2) by simp
  show "result (modem_spi_recv_resp e (int h) maxlen timeout) s =
      (0, take (unat (h_dataLen (handles s ! h))) (case m_mem s p of Some bs \<Rightarrow> bs | None \<Rightarrow> freed_bytes e p))"
    and "after (modem_spi_recv_resp e (int h) maxlen timeout) s =
      (case m_mem s p of Some bs \<Rightarrow> s | None \<Rightarrow> s\<lparr>use_after_free := True\<rparr>)"
    unfolding modem_spi_recv_resp_def h Let_def
    using assms(5) result_look [OF l assms(3, 4)] after_look [OF l assms(3, 4)] by simp_all
qed

lemma reply_stored:
  assumes "modem_powered s" and "h < MAX_MODEM_HANDLES" and "length (handles s) = MAX_MODEM_HANDLES"
    and "handle_used (handles s ! h)" and "mem_ok e (m_allocs s)" and "lock_rc e (m_now s) = 0"
    and "messageType cmd = MESSAGE_TYPE_AT" and "messageHandle cmd = of_nat h"
    and "unat (mc_dataLen cmd) = length data" and "2 \<le> length data" and "length data \<le> SPIM_RX_BUFF_SIZE"
    and "take 2 data \<noteq> [NRF9160_NOT_READY, NRF9160_NOT_READY]" and "take 2 data \<noteq> [NRF9160_UNKNOWN, NRF9160_UNKNOWN]"
  shows "after (spim_recv_action_work_handler e (cmd, data)) s =
    s\<lparr>m_allocs := Suc (m_allocs s), m_live := m_live s - 1, m_work := m_work s - 1,
      m_brk := Suc (m_brk s), m_mem := (m_mem s)(m_brk s \<mapsto> data), acts := acts s @ [RxCallback data],
      handles := (handles s)[h := (handles s ! h)\<lparr>h_data := Some (m_brk s), h_dataLen := of_nat (length data)\<rparr>]\<rparr>"
proof -
  obtain a b ds where d: "data = a # b # ds" using assms(10) by (metis Suc_le_length_iff numeral_2_eq_2)
  have h: "unat (messageHandle cmd) = h" "messageHandle cmd \<noteq> 255"
    using assms(2, 8) by (simp_all add: unat_of_nat word_unat_eq_iff)
  have p: "padded e 1 (a # b # ds) = [a]" "padded e 2 (a # b # ds) = [a, b]" by (simp_all add: padded_def)
  have r: "after (dismissed e cmd data) s = s" "\<not> result (dismissed e cmd data) s"
    using assms(1, 7) h(2) by (simp_all add: dismissed_def read_bytes_def over_reads_def d)
  show ?thesis
    using assms(2-6, 9-13) h r
    by (auto simp: spim_recv_action_work_handler_def recv_action_def read_bytes_def over_reads_def p store_reply_def
          reply_alloc_def m_alloc_def set_handle_def act_def m_free_def m_wr_put_def d)
qed


section \<open>Where handles and blocks go wrong\<close>

lemma stop_waiting_keeps_pointer:
  assumes "h < MAX_MODEM_HANDLES" and "length (handles s) = MAX_MODEM_HANDLES" and "handle_used (handles s ! h)"
    and "h_data (handles s ! h) = Some p" and "m_mem s p = Some bs"
  shows "after (modem_spi_stop_waiting_for_resp e (int h)) s =
    s\<lparr>m_mem := (m_mem s)(p := None), m_live := m_live s - 1,
      handles := (handles s)[h := (handles s ! h)\<lparr>handle_used := False\<rparr>]\<rparr>"
  using assms by (simp add: modem_spi_stop_waiting_for_resp_def slot_def handle_at_def reply_free_def m_free_def set_handle_def)

lemma first_free_handle:
  assumes "\<forall>j \<in> {1..<h}. handle_used (handles s ! j)" and "1 \<le> h" and "h < MAX_MODEM_HANDLES"
    and "\<not> handle_used (handles s ! h)" and "length (handles s) = MAX_MODEM_HANDLES"
  shows "result get_next_handle_id s = int h"
    and "after get_next_handle_id s = s\<lparr>handles := (handles s)[h := (handles s ! h)\<lparr>handle_used := True\<rparr>]\<rparr>"
proof -
  have "\<not> handle_used (handles s ! ([1..<MAX_MODEM_HANDLES] ! (h - 1))) \<and> h = [1..<MAX_MODEM_HANDLES] ! (h - 1) \<and>
      (\<forall>j < h - 1. handle_used (handles s ! ([1..<MAX_MODEM_HANDLES] ! j)))"
    using assms(1-4) by simp
  then have f: "find (\<lambda>i. \<not> handle_used (handles s ! i)) [1..<MAX_MODEM_HANDLES] = Some h"
    unfolding find_Some_iff using assms(2, 3) by (intro exI [of _ "h - 1"]) simp
  show "result get_next_handle_id s = int h"
    and "after get_next_handle_id s = s\<lparr>handles := (handles s)[h := (handles s ! h)\<lparr>handle_used := True\<rparr>]\<rparr>"
    using assms(3, 5) by (simp_all add: get_next_handle_id_def f [simplified] set_handle_def)
qed

lemma queue_send_ok:
  assumes "\<forall>n. mem_ok e n" and "\<forall>n. wr_ok e n" and "\<forall>n. 0 < submit_rc e n"
  shows "result (queue_send e frame) s = None"
    and "after (queue_send e frame) s = s\<lparr>m_allocs := m_allocs s + 3, m_live := m_live s + 2,
      m_work := m_work s + 1, send_q := send_q s @ [frame]\<rparr>"
  using assms by (simp_all add: queue_send_def m_alloc_def m_wr_get_def m_free_def not_le)

text \<open>
  Claim C30.  A reply that is longer than the space for it is an error, after which the wait is given up: the
  block is freed, the handle is free, but its pointer is kept.  The next command that gets the handle
  is answered at once, with the bytes of the freed block.
\<close>

theorem stale_reply_read_after_free:
  fixes timeout timeout' :: nat and cmd_type :: "8 word" and cmd :: "8 word list"
  assumes "1 \<le> h" and "h < MAX_MODEM_HANDLES" and "length (handles s) = MAX_MODEM_HANDLES"
    and "\<forall>j \<in> {1..h}. handle_used (handles s ! j)"
    and "h_data (handles s ! h) = Some p" and "m_mem s p = Some bs" and "len = unat (h_dataLen (handles s ! h))"
    and "maxlen < len" and "len \<le> maxlen'" and "modem_powered s" and "\<forall>t. lock_rc e t = 0"
    and "\<forall>n. mem_ok e n" and "\<forall>n. wr_ok e n" and "\<forall>n. 0 < submit_rc e n"
  defines "s1 \<equiv> after (modem_spi_stop_waiting_for_resp e (int h)) (after (modem_spi_recv_resp e (int h) maxlen timeout) s)"
  defines "s2 \<equiv> after (modem_send_command e cmd_type cmd True) s1"
  shows "result (modem_spi_recv_resp e (int h) maxlen timeout) s = (- ENOMEM, []) \<and>
    result (modem_send_command e cmd_type cmd True) s1 = int h \<and>
    result (modem_spi_recv_resp e (int h) maxlen' timeout') s2 = (0, take len (freed_bytes e p)) \<and>
    use_after_free (after (modem_spi_recv_resp e (int h) maxlen' timeout') s2)"
proof -
  have h: "nat (int h mod 256) = h" using assms(2) by simp
  have r: "result (modem_spi_recv_resp e (int h) maxlen timeout) s = (- ENOMEM, [])"
      "after (modem_spi_recv_resp e (int h) maxlen timeout) s = s"
    using assms(2, 3, 5, 7, 8, 11) by (simp_all add: modem_spi_recv_resp_def h look_def handle_at_def)
  have s1: "s1 = s\<lparr>m_mem := (m_mem s)(p := None), m_live := m_live s - 1,
      handles := (handles s)[h := (handles s ! h)\<lparr>handle_used := False\<rparr>]\<rparr>"
    unfolding s1_def r(2) by (rule stop_waiting_keeps_pointer) (use assms(1-6) in auto)
  have n: "result get_next_handle_id s1 = int h"
      "after get_next_handle_id s1 = s1\<lparr>handles := (handles s1)[h := (handles s1 ! h)\<lparr>handle_used := True\<rparr>]\<rparr>"
    by (rule first_free_handle [of h s1]; use assms(1-4) in \<open>simp add: s1\<close>)+
  have on: "modem_powered s1" using assms(10) by (simp add: s1 modem_powered_def)
  have c: "result (modem_send_command e cmd_type cmd True) s1 = int h"
    using n on assms(2) by (simp add: modem_send_command_def modem_spi_send_command_def queue_send_ok [OF assms(12-14)])
  have s2: "handles s2 = (handles s)[h := (handles s ! h)\<lparr>handle_used := True\<rparr>]" "m_mem s2 p = None"
    unfolding s2_def using n on assms(2, 3)
    by (simp_all add: modem_send_command_def modem_spi_send_command_def queue_send_ok [OF assms(12-14)] s1)
  have l: "length (handles s2) = MAX_MODEM_HANDLES" "h_data (handles s2 ! h) = Some p" "unat (h_dataLen (handles s2 ! h)) = len"
    using assms(2, 3, 5, 7) by (simp_all add: s2(1))
  show ?thesis
    using r(1) c resp_there [of h s2 p maxlen' e timeout'] assms(2, 9, 11) l s2(2) by simp
qed

text \<open>
  Claim C31.  When all 31 handles are in use, a command with a reply is not sent, and its answer is the error
  number without its sign, 125, which its callers take for a handle: each look for the reply is behind the table.
\<close>

theorem full_table_answers_handle:
  assumes "length (handles s) = MAX_MODEM_HANDLES" and "\<forall>i \<in> {1..<MAX_MODEM_HANDLES}. handle_used (handles s ! i)"
    and "modem_powered s"
  shows "result (modem_send_command e typ data True) s = EADDRNOTAVAIL \<and> after (modem_send_command e typ data True) s = s \<and>
    out_of_array (after (look e (nat EADDRNOTAVAIL) maxlen) s)"
proof -
  have f: "find (\<lambda>i. \<not> handle_used (handles s ! i)) [1..<MAX_MODEM_HANDLES] = None"
    using assms(2) by (simp add: find_None_iff)
  show ?thesis using assms(1, 3)
    by (auto simp: modem_send_command_def modem_spi_send_command_def get_next_handle_id_def f [simplified] look_def
          handle_at_def split: option.split)
qed

lemma failed_command_keeps_handle:
  assumes "\<forall>j \<in> {1..<h}. handle_used (handles s ! j)" and "1 \<le> h" and "h < MAX_MODEM_HANDLES"
    and "\<not> handle_used (handles s ! h)" and "length (handles s) = MAX_MODEM_HANDLES"
    and "modem_powered s" and "\<not> mem_ok e (m_allocs s)"
  shows "result (modem_send_command e typ data True) s = - 3 \<and>
    handle_used (handles (after (modem_send_command e typ data True) s) ! h)"
  using assms(3, 5-7) first_free_handle [OF assms(1-5)]
  by (simp add: modem_send_command_def modem_spi_send_command_def queue_send_def m_alloc_def)

lemma unknown_download_status_frees_twice:
  assumes "h < MAX_MODEM_HANDLES" and "length (handles s) = MAX_MODEM_HANDLES" and "handle_used (handles s ! h)"
    and "h_data (handles s ! h) = Some p" and "m_mem s p = Some block" and "bs \<noteq> []" and "2 < unat (bs ! 0)"
  shows "use_after_free (after (take_answer e fs name (int h) started bs) s)"
proof -
  have b: "padded e 1 bs ! 0 = bs ! 0" "\<not> length bs < 1" using assms(6) by (cases bs; simp add: padded_def)+
  have n: "bs ! 0 \<noteq> 0" "bs ! 0 \<noteq> 1" "bs ! 0 \<noteq> 2" using assms(7) by auto
  show ?thesis using b n assms(1, 2) stop_waiting_keeps_pointer [OF assms(1-5), of e]
    by (simp add: take_answer_def read_bytes_def over_reads_def modem_spi_free_reply_data_but_not_handle_def slot_def
          handle_at_def reply_free_def set_handle_def assms(4))
qed

section \<open>The sending thread\<close>

abbreviation clock :: "modem \<Rightarrow> nat \<times> nat" where
  "clock s \<equiv> (m_transfers s, m_now s)"

lemma clock_bits [same_intro]:
  "same clock (m_alloc e)" "same clock (m_free k)" "same clock (m_wr_get e)" "same clock m_wr_put"
  "same clock (over_reads b)" "same clock (read_bytes e n bs)" "same clock (set_handle h f)"
  unfolding m_alloc_def m_free_def m_wr_get_def m_wr_put_def over_reads_def read_bytes_def set_handle_def
  by (intro same_intro same_modify; simp)+

lemma clock_send [same_intro]:
  "same clock get_next_handle_id" "same clock (queue_send e frame)" "same clock (modem_spi_send_command e typ data r)"
  "same clock (modem_send_command e typ data r)" "same clock (dataready_int_work_handler e)"
  "same clock (queue_received e rx)"
  unfolding get_next_handle_id_def queue_send_def modem_spi_send_command_def modem_send_command_def
    dataready_int_work_handler_def queue_received_def
  by (intro same_intro same_modify; simp)+

lemma exchange_clock:
  "m_transfers (after (spi_exchange e frame n rx) s) \<le> m_transfers s + n \<and> m_now (after (spi_exchange e frame n rx) s) = m_now s"
proof (induction n arbitrary: rx s)
  case (Suc n)
  let ?s = "s\<lparr>m_transfers := Suc (m_transfers s)\<rparr>"
  obtain r got where x: "spi_xfer e (m_transfers s) frame = (r, got)" by fastforce
  show ?case using Suc [of rx ?s] Suc [of got ?s] by (cases r) (auto simp: transfer_def x)
qed simp

lemma spi_send_clock:
  "m_transfers (after (modem_spi_send e frame) s) \<le> m_transfers s + 6 \<and> m_now (after (modem_spi_send e frame) s) = m_now s"
proof -
  have q: "m_transfers (after (queue_received e rx) t) = m_transfers t" "m_now (after (queue_received e rx) t) = m_now t" for rx t
    using sameD [OF clock_send(6)] by simp_all
  show ?thesis using exchange_clock [of e frame 6 "[]" s]
    by (simp add: modem_spi_send_def Let_def q split: prod.split)
qed

lemma pin_sleep_clock:
  "m_transfers (after (pin_sleep e ms) s) = m_transfers s" "m_now (after (pin_sleep e ms) s) = m_now s + ms"
  using sameD [OF clock_send(5), of e "s\<lparr>m_now := m_now s + ms\<rparr>"] by (simp_all add: pin_sleep_def)

lemma wait_ready_clock:
  "m_transfers (after (wait_ready e n) s) = m_transfers s \<and> m_now (after (wait_ready e n) s) \<le> m_now s + 100 * n"
proof (induction n arbitrary: s)
  case (Suc n)
  show ?case using Suc [of "after (pin_sleep e 100) s"] by (simp add: pin_sleep_clock)
qed simp

lemma send_tries_clock:
  "m_transfers (after (send_tries e frame left) s) \<le> m_transfers s + 6 * Suc left \<and>
   m_now (after (send_tries e frame left) s) \<le> m_now s + 2600 * Suc left + 20 * left"
proof (induction left arbitrary: s)
  case 0
  let ?w = "after (wait_ready e 26) s"
  show ?case using wait_ready_clock [of e 26 s] spi_send_clock [of e frame ?w]
    by (subst (1 2) send_tries.simps) auto
next
  case (Suc n)
  let ?w = "after (wait_ready e 26) s"
  let ?r = "after (modem_spi_send e frame) ?w"
  let ?p = "after (pin_sleep e 20) ?r"
  show ?case
    using wait_ready_clock [of e 26 s] spi_send_clock [of e frame ?w] Suc [of ?p] Suc [of "?p\<lparr>modem_ready_for_commands := False\<rparr>"]
    by (subst (1 2) send_tries.simps) (auto simp: pin_sleep_clock)
qed


section \<open>Concrete runs\<close>

text \<open>An environment in which nothing fails and the modem says nothing, and a link with one open question.\<close>

definition calm_modem :: modem_env where
  "calm_modem = \<lparr>mem_ok = (\<lambda>_. True), wr_ok = (\<lambda>_. True), submit_rc = (\<lambda>_. 1), spi_xfer = (\<lambda>_ _. (SpiOk, [])),
     pub_rc = (\<lambda>_. 0), lock_rc = (\<lambda>_. 0), sched = (\<lambda>_. []), pin_rises = (\<lambda>_. False), behind = (\<lambda>_. 0),
     freed_bytes = (\<lambda>_. [0xDE, 0xAD, 0xBE, 0xEF]), beyond_handles = (\<lambda>_. no_handle), shipping_flag = True,
     millis = (\<lambda>t. t), gps_mem = (\<lambda>_. True), gps_put = (\<lambda>_. True), ldo_on = (\<lambda>_. True), fota_running = (\<lambda>_. False),
     pins_ok = (\<lambda>_. True)\<rparr>"

definition asked :: modem where
  "asked = modem_boot\<lparr>modem_power_state := PMIC_LTE_POWER_ON,
     handles := (replicate MAX_MODEM_HANDLES no_handle)[1 := no_handle\<lparr>handle_used := True\<rparr>]\<rparr>"

definition answered_long :: modem where
  "answered_long = asked\<lparr>m_brk := 1, m_mem := [0 \<mapsto> [1, 2, 3, 4]],
     handles := (handles asked)[1 := \<lparr>handle_used = True, h_data = Some 0, h_dataLen = 4\<rparr>]\<rparr>"

lemma status_changes_exact_witness:
  "bit (result (merge_shadow_status (no_status\<lparr>ms_flags := 2, ms_rssi := 5\<rparr>)) modem_boot) 16 \<and>
   bit (result (merge_shadow_status (no_status\<lparr>ms_flags := 2, ms_rssi := 5\<rparr>)) modem_boot) 1"
  using status_changes_exact [of modem_boot "no_status\<lparr>ms_flags := 2, ms_rssi := 5\<rparr>"]
  by (auto simp: modem_boot_def no_status_def)



lemma stale_reply_read_after_free_witness:
  "\<exists>s. result (modem_spi_recv_resp calm_modem 1 10 1000) s = (0, [0xDE, 0xAD, 0xBE, 0xEF])"
  using stale_reply_read_after_free [of 1 answered_long 0 "[1, 2, 3, 4]" 4 3 10 calm_modem]
  by (simp add: calm_modem_def answered_long_def asked_def modem_boot_def modem_powered_def no_handle_def) blast

definition all_asked :: modem where
  "all_asked = asked\<lparr>handles := no_handle # replicate 31 (no_handle\<lparr>handle_used := True\<rparr>)\<rparr>"

lemma full_table_answers_handle_witness:
  "result (modem_send_command calm_modem MESSAGE_TYPE_AT [] True) all_asked = 125"
proof -
  have "\<forall>i \<in> {1..<MAX_MODEM_HANDLES}. handle_used (handles all_asked ! i)"
    by (auto simp: all_asked_def nth_Cons')
  then show ?thesis using full_table_answers_handle [of all_asked calm_modem MESSAGE_TYPE_AT "[]"]
    by (simp add: all_asked_def asked_def modem_powered_def)
qed

end
