(* ===== verification/Leds.thy ===== *)
theory Leds
  imports CStrings
begin

text \<open>
  The light of the collar, \<^verbatim>\<open>c_modules/pmic/src/pmic_leds.c\<close>: one state that other modules ask for, who may take over
  from whom, and the timer with its work item that makes the light blink.  The recording of motion data
  (\<open>CONFIG_ML_CAPTURE_IMU_DATA\<close>) is not configured.
\<close>

section \<open>State\<close>

datatype led_state =
  LED_API_IDLE | LED_API_ERROR | LED_BLE_ADV | LED_BLE_ADV_DONE | LED_CHARGING | LED_CHARGED | LED_VBUS_REMOVED
| LED_WIFI_TRYING | LED_FOTA

datatype led_color = SOLID_LED_OFF | SOLID_LED_RED | SOLID_LED_GREEN | SOLID_LED_BLUE

datatype charge_status = CHARGING_IDLE | CHARGING_ACTIVE | CHARGING_ERROR | CHARGING_COMPLETE

text \<open>
  The variables of the module, the timer with the time it is set to, the work item that waits, and the three
  lights; \<open>charging_status\<close> belongs to \<^verbatim>\<open>pmic.c\<close>, which this module asks for it.
\<close>

record leds =
  charging_status :: charge_status
  led_api_active :: bool
  led_api_state :: led_state
  led_toggle :: bool
  g_ble_active :: bool
  led_api_timer :: "nat option"
  led_api_work :: bool
  lights :: "bool \<times> bool \<times> bool"

definition get_charging_active :: "'a leds_scheme \<Rightarrow> bool" where
  "get_charging_active s \<longleftrightarrow> charging_status s = CHARGING_ACTIVE"

definition get_charging_complete :: "'a leds_scheme \<Rightarrow> bool" where
  "get_charging_complete s \<longleftrightarrow> charging_status s = CHARGING_COMPLETE"

section \<open>Light\<close>

definition color_lights :: "led_color \<Rightarrow> bool \<times> bool \<times> bool" where
  "color_lights c = (case c of
      SOLID_LED_RED \<Rightarrow> (True, False, False)
    | SOLID_LED_GREEN \<Rightarrow> (False, True, False)
    | SOLID_LED_BLUE \<Rightarrow> (False, False, True)
    | SOLID_LED_OFF \<Rightarrow> (False, False, False))"

definition set_led_color :: "led_color \<Rightarrow> ('a leds_scheme, unit) state" where
  "set_led_color c = modify (\<lambda>s. s\<lparr>lights := color_lights c\<rparr>)"

definition start_led_timer :: "nat \<Rightarrow> ('a leds_scheme, unit) state" where
  "start_led_timer ms = modify (\<lambda>s. s\<lparr>led_api_timer := Some ms\<rparr>)"

definition stop_led_timer :: "('a leds_scheme, unit) state" where
  "stop_led_timer = modify (\<lambda>s. s\<lparr>led_api_timer := None\<rparr>)"

definition flip :: "led_color \<Rightarrow> ('a leds_scheme, unit) state" where
  "flip c = do {
     on \<leftarrow> gets led_toggle;
     set_led_color (if on then c else SOLID_LED_OFF);
     modify (\<lambda>s. s\<lparr>led_toggle := \<not> on\<rparr>)
   }"

definition led_api_work_handler :: "('a leds_scheme, unit) state" where
  "led_api_work_handler = do {
     modify (\<lambda>s. s\<lparr>led_api_work := False\<rparr>);
     st \<leftarrow> gets led_api_state;
     (if st = LED_BLE_ADV then flip SOLID_LED_BLUE
      else if st \<in> {LED_CHARGING, LED_WIFI_TRYING, LED_FOTA} then flip SOLID_LED_GREEN
      else skip)
   }"

text \<open>The period of a state that blinks.\<close>

definition blink_period :: "led_state \<Rightarrow> nat option" where
  "blink_period st = (case st of
      LED_BLE_ADV \<Rightarrow> Some 1000 | LED_CHARGING \<Rightarrow> Some 1000 | LED_FOTA \<Rightarrow> Some 500 | LED_WIFI_TRYING \<Rightarrow> Some 250
    | _ \<Rightarrow> None)"

definition led_api_timer_handler :: "('a leds_scheme, unit) state" where
  "led_api_timer_handler = do {
     stop_led_timer;
     s \<leftarrow> State_Monad.get;
     case blink_period (led_api_state s) of
       None \<Rightarrow> skip
     | Some ms \<Rightarrow>
         (if led_api_active s then do {
            modify (\<lambda>s. s\<lparr>led_api_work := True\<rparr>);
            start_led_timer ms
          }
          else set_led_color SOLID_LED_OFF)
   }"

section \<open>Setting the state\<close>

definition start_blinking :: "nat \<Rightarrow> ('a leds_scheme, unit) state" where
  "start_blinking ms = do { modify (\<lambda>s. s\<lparr>led_api_active := True\<rparr>); start_led_timer ms }"

definition start_ble_ui :: "led_state \<Rightarrow> ('a leds_scheme, unit) state" where
  "start_ble_ui st = do {
     modify (\<lambda>s. s\<lparr>led_api_state := st\<rparr>);
     whenever (st = LED_BLE_ADV) (start_blinking 500)
   }"

definition start_wifi_ui :: "led_state \<Rightarrow> ('a leds_scheme, unit) state" where
  "start_wifi_ui st = do {
     modify (\<lambda>s. s\<lparr>led_api_state := st\<rparr>);
     whenever (st = LED_WIFI_TRYING) (start_blinking 250)
   }"

definition start_charging_ui :: "led_state \<Rightarrow> ('a leds_scheme, unit) state" where
  "start_charging_ui st = do {
     modify (\<lambda>s. s\<lparr>led_api_state := st\<rparr>);
     (if st = LED_CHARGING then start_blinking 1000
      else if st = LED_CHARGED then do { stop_led_timer; set_led_color SOLID_LED_GREEN }
      else skip)
   }"

definition start_fota_ui :: "led_state \<Rightarrow> ('a leds_scheme, unit) state" where
  "start_fota_ui st = do {
     modify (\<lambda>s. s\<lparr>led_api_state := st\<rparr>);
     (if st = LED_FOTA then start_blinking 500
      else if st = LED_CHARGED then do { stop_led_timer; set_led_color SOLID_LED_GREEN }
      else skip)
   }"

text \<open>After advertising the light goes back to what the charger does.\<close>

definition after_advertising :: "'a leds_scheme \<Rightarrow> led_state" where
  "after_advertising s =
     (if get_charging_active s then LED_CHARGING
      else if get_charging_complete s then LED_CHARGED
      else LED_API_IDLE)"

definition should_we_proceed :: "led_state \<Rightarrow> ('a leds_scheme, led_state \<times> bool) state" where
  "should_we_proceed st = do {
     whenever (st = LED_BLE_ADV_DONE) (modify (\<lambda>s. s\<lparr>g_ble_active := False\<rparr>));
     s \<leftarrow> State_Monad.get;
     (if st = led_api_state s then return (st, False)
      else if led_api_state s = LED_API_ERROR then return (st, False)
      else if led_api_state s = LED_BLE_ADV \<and> st \<notin> {LED_BLE_ADV_DONE, LED_WIFI_TRYING, LED_API_ERROR}
      then return (st, False)
      else
        (let st' = (if st = LED_BLE_ADV_DONE then after_advertising s else st)
         in return (st', \<not> (st' = LED_VBUS_REMOVED \<and> g_ble_active s))))
   }"

text \<open>A request that is refused answers 0, which is \<open>LED_API_IDLE\<close>.\<close>

definition led_api_set_state :: "led_state \<Rightarrow> ('a leds_scheme, led_state) state" where
  "led_api_set_state st0 = do {
     prev \<leftarrow> gets led_api_state;
     (st, ok) \<leftarrow> should_we_proceed st0;
     (if \<not> ok then return LED_API_IDLE
      else do {
        modify (\<lambda>s. s\<lparr>led_api_active := False\<rparr>);
        stop_led_timer;
        modify (\<lambda>s. s\<lparr>led_api_state := st\<rparr>);
        (case st of
           LED_API_IDLE \<Rightarrow> set_led_color SOLID_LED_OFF
         | LED_API_ERROR \<Rightarrow> set_led_color SOLID_LED_RED
         | LED_BLE_ADV \<Rightarrow> do { modify (\<lambda>s. s\<lparr>g_ble_active := True\<rparr>); start_ble_ui st }
         | LED_BLE_ADV_DONE \<Rightarrow> do { modify (\<lambda>s. s\<lparr>g_ble_active := False\<rparr>); start_ble_ui st }
         | LED_CHARGING \<Rightarrow> start_charging_ui st
         | LED_CHARGED \<Rightarrow> start_charging_ui st
         | LED_VBUS_REMOVED \<Rightarrow> set_led_color SOLID_LED_OFF
         | LED_WIFI_TRYING \<Rightarrow> start_wifi_ui st
         | LED_FOTA \<Rightarrow> start_fota_ui st);
        return prev
      })
   }"

text \<open>The first argument of the shell command that is contained in it; \<open>api_idle\<close> is also the default.\<close>

definition led_choice :: "string \<Rightarrow> led_state" where
  "led_choice arg =
     (if strstr arg ''api_idle'' \<noteq> None then LED_API_IDLE
      else if strstr arg ''api_err'' \<noteq> None then LED_API_ERROR
      else if strstr arg ''ble_adv'' \<noteq> None then LED_BLE_ADV
      else if strstr arg ''charging'' \<noteq> None then LED_CHARGING
      else if strstr arg ''charged'' \<noteq> None then LED_CHARGED
      else if strstr arg ''wifi_try'' \<noteq> None then LED_WIFI_TRYING
      else if strstr arg ''fota'' \<noteq> None then LED_FOTA
      else LED_API_IDLE)"

definition shell_led_api :: "string list \<Rightarrow> ('a leds_scheme, int) state" where
  "shell_led_api args =
     (case args of
        arg # _ \<Rightarrow> do { led_api_set_state (led_choice arg); return 0 }
      | [] \<Rightarrow> return (-1))"

end
