(* ===== verification/Pmic.thy ===== *)
theory Pmic
  imports Leds ModemState CommQueue
begin

text \<open>
  The power chip nPM1300, \<^verbatim>\<open>c_modules/pmic/src/pmic.c\<close>: the interrupt of charger and USB, the check of the battery
  once a minute, the supply switches of the two radios, the ship mode, and the reason of a restart that is kept
  in a file.  The state extends the light's, which this module sets.

  Registers are read from the environment, which may answer differently each time; a write is an action.
  Voltages and temperatures are in millionths, as the driver gives them; the code's single precision numbers
  are taken as exact.
\<close>

section \<open>State\<close>

datatype power_act =
  RegWrite "8 word" "8 word" "8 word" | PubBattery int | PubUsb bool | TempReport goldilocks | BattShutdown
| StateChange bool | ModemOff | ModemOn | RegulatorOn nat | RegulatorOff nat

record fuel_gauge_info =
  fg_voltage :: int
  fg_current :: int
  fg_temp :: int
  fg_soc :: int
  fg_tte :: int
  fg_ttf :: int

text \<open>The file of the restart's reason has a content or does not exist.\<close>

record power = leds +
  vbus_present :: bool
  last_temp_alert :: goldilocks
  pm_modem_state :: lte_power
  send_initial_vbus_state :: bool
  last_usb_connect_time :: int
  state_cb :: bool
  temp_cb :: bool
  batt_cb :: bool
  reset_file :: "8 word list option"
  reason_behind :: bool
  batt_work :: nat
  p_now :: nat
  p_reads :: nat
  p_live :: int
  p_work :: int
  p_acts :: "power_act list"

record power_env =
  reg_read :: "nat \<Rightarrow> 8 word \<Rightarrow> 8 word \<Rightarrow> 8 word"
  p_pub_rc :: "nat \<Rightarrow> int"
  gauge :: "nat \<Rightarrow> int \<times> fuel_gauge_info"
  gauge_stack :: "nat \<Rightarrow> fuel_gauge_info"
  shipped :: "nat \<Rightarrow> bool"
  modem_off_leaves :: "nat \<Rightarrow> lte_power"
  p_mem :: "nat \<Rightarrow> bool"
  p_wr :: "nat \<Rightarrow> bool"
  reason_open :: "nat \<Rightarrow> int"
  reason_write :: "nat \<Rightarrow> int"
  device_ready :: "nat \<Rightarrow> bool"

type_synonym 'a power_m = "(power, 'a) state"

definition p_act :: "power_act \<Rightarrow> unit power_m" where
  "p_act a = modify (\<lambda>s. s\<lparr>p_acts := p_acts s @ [a]\<rparr>)"

definition p_sleep :: "nat \<Rightarrow> unit power_m" where
  "p_sleep ms = modify (\<lambda>s. s\<lparr>p_now := p_now s + ms\<rparr>)"

definition mfd_reg_read :: "power_env \<Rightarrow> 8 word \<Rightarrow> 8 word \<Rightarrow> 8 word power_m" where
  "mfd_reg_read e base reg = do {
     n \<leftarrow> gets p_reads;
     modify (\<lambda>s. s\<lparr>p_reads := Suc n\<rparr>);
     return (reg_read e n base reg)
   }"

definition mfd_reg_write :: "8 word \<Rightarrow> 8 word \<Rightarrow> 8 word \<Rightarrow> unit power_m" where
  "mfd_reg_write base reg v = p_act (RegWrite base reg v)"

definition p_publish :: "power_env \<Rightarrow> power_act \<Rightarrow> int power_m" where
  "p_publish e a = do { n \<leftarrow> gets (\<lambda>s. length (p_acts s)); p_act a; return (p_pub_rc e n) }"

definition is_shipped :: "power_env \<Rightarrow> bool power_m" where
  "is_shipped e = gets (\<lambda>s. shipped e (p_now s))"

definition show_light :: "power_env \<Rightarrow> led_state \<Rightarrow> unit power_m" where
  "show_light e st = do { b \<leftarrow> is_shipped e; whenever b (do { led_api_set_state st; skip }) }"

section \<open>The reason of a restart\<close>

text \<open>
  The file is not cut off: a reason is written over the beginning of the last one.  Of the result of
  \<open>fs_write\<close> the bytes that were written are used.
\<close>

definition written_over :: "8 word list \<Rightarrow> 8 word list \<Rightarrow> 8 word list" where
  "written_over new old = new @ drop (length new) old"

definition pmic_save_reset_reason :: "power_env \<Rightarrow> 8 word list \<Rightarrow> int power_m" where
  "pmic_save_reset_reason e reason = do {
     n \<leftarrow> gets (\<lambda>s. length (p_acts s));
     (if reason_open e n \<noteq> 0 then return (reason_open e n)
      else do {
        let ret = min (reason_write e n) (int (length reason)) in do {
          modify (\<lambda>s. s\<lparr>reset_file := Some (written_over (take (nat ret) reason)
            (case reset_file s of Some old \<Rightarrow> old | None \<Rightarrow> []))\<rparr>);
          return (if ret \<le> 0 then ret else 0)
        }
      })
   }"

text \<open>A file of 128 bytes or more has its terminator written behind the buffer.\<close>

definition pmic_get_reset_reason :: "8 word list option power_m" where
  "pmic_get_reset_reason = do {
     f \<leftarrow> gets reset_file;
     case f of
       None \<Rightarrow> return None
     | Some bs \<Rightarrow>
         (let r = take 128 bs
          in if r = [] then return None
             else do {
               whenever (length r = 128) (modify (\<lambda>s. s\<lparr>reason_behind := True\<rparr>));
               return (Some (takeWhile (\<lambda>b. b \<noteq> 0) r))
             })
   }"

definition reason_bytes :: "string \<Rightarrow> 8 word list" where
  "reason_bytes s = map (\<lambda>c. of_nat (of_char c)) s"

definition pmic_write_i2c :: "16 word \<Rightarrow> 8 word \<Rightarrow> unit power_m" where
  "pmic_write_i2c addr v = mfd_reg_write (ucast (drop_bit 8 addr)) (ucast addr) v"

definition pmic_reboot :: "power_env \<Rightarrow> string \<Rightarrow> int power_m" where
  "pmic_reboot e reason = do { pmic_save_reset_reason e (reason_bytes reason); pmic_write_i2c 1 1; return 0 }"

definition set_ship_hold :: "power_env \<Rightarrow> bool \<Rightarrow> string \<Rightarrow> int power_m" where
  "set_ship_hold e on reason = do {
     mfd_reg_read e 0xB 0x5;
     whenever on (do { pmic_save_reset_reason e (reason_bytes reason); skip });
     mfd_reg_write 0xB 0x2 (if on then 1 else 0);
     return 0
   }"

section \<open>Supply switches\<close>

text \<open>LDO 1 is the modem's, LDO 2 the Wi-Fi chip's; each is tried ten times.\<close>

fun vsys_on :: "power_env \<Rightarrow> nat \<Rightarrow> int power_m" where
  "vsys_on e 0 = return (-1)"
| "vsys_on e (Suc n) = do {
     c \<leftarrow> mfd_reg_read e 0x8 0x7;
     mfd_reg_write 0x8 0x7 (c AND 0xBF);
     p_act (RegulatorOn 1);
     p_sleep 2;
     b \<leftarrow> mfd_reg_read e 0x8 0x4;
     (if bit b 0 then do { modify (\<lambda>s. s\<lparr>pm_modem_state := PMIC_LTE_POWER_ON\<rparr>); return 0 }
      else do { p_sleep 10; vsys_on e n })
   }"

fun vsys_off :: "power_env \<Rightarrow> nat \<Rightarrow> int power_m" where
  "vsys_off e 0 = return (-1)"
| "vsys_off e (Suc n) = do {
     c \<leftarrow> mfd_reg_read e 0x8 0x7;
     mfd_reg_write 0x8 0x7 (c OR 0x40);
     p_act (RegulatorOff 1);
     p_sleep 2;
     b \<leftarrow> mfd_reg_read e 0x8 0x4;
     (if \<not> bit b 0 then do { modify (\<lambda>s. s\<lparr>pm_modem_state := PMIC_LTE_POWER_OFF\<rparr>); return 0 }
      else do { p_sleep 10; vsys_off e n })
   }"

text \<open>The status is tested before a try: what the tenth one does is not looked at.\<close>

fun wifi_on :: "power_env \<Rightarrow> 8 word \<Rightarrow> nat \<Rightarrow> int power_m" where
  "wifi_on e b 0 = return (-1)"
| "wifi_on e b (Suc n) =
     (if bit b 2 then return 0
      else do { p_act (RegulatorOn 2); b' \<leftarrow> mfd_reg_read e 0x8 0x4; p_sleep 10; wifi_on e b' n })"

fun wifi_off :: "power_env \<Rightarrow> 8 word \<Rightarrow> nat \<Rightarrow> int power_m" where
  "wifi_off e b 0 = return (-1)"
| "wifi_off e b (Suc n) =
     (if \<not> bit b 2 then do { c \<leftarrow> mfd_reg_read e 0x8 0x7; mfd_reg_write 0x8 0x7 (c OR 0x80); return 0 }
      else do { p_act (RegulatorOff 2); b' \<leftarrow> mfd_reg_read e 0x8 0x4; p_sleep 10; wifi_off e b' n })"

datatype pmic_switch = PMIC_SWITCH_VSYS | PMIC_SWITCH_WIFI

definition set_switch_state :: "power_env \<Rightarrow> pmic_switch \<Rightarrow> bool \<Rightarrow> int power_m" where
  "set_switch_state e sw on = do {
     b \<leftarrow> mfd_reg_read e 0x8 0x4;
     (case sw of
        PMIC_SWITCH_VSYS \<Rightarrow>
          (if on then do { c \<leftarrow> mfd_reg_read e 0x8 0x7; mfd_reg_write 0x8 0x7 (c AND 0xBF); vsys_on e 10 }
           else vsys_off e 10)
      | PMIC_SWITCH_WIFI \<Rightarrow>
          (if on then do { c \<leftarrow> mfd_reg_read e 0x8 0x7; mfd_reg_write 0x8 0x7 (c AND 0x7F); wifi_on e b 10 }
           else wifi_off e b 10))
   }"

definition pmic_switch_on_modem :: "power_env \<Rightarrow> int power_m" where
  "pmic_switch_on_modem e = do {
     p \<leftarrow> gets pm_modem_state;
     (if p = PMIC_LTE_POWER_ON then return (- EALREADY)
      else do {
        set_switch_state e PMIC_SWITCH_VSYS False;
        p_sleep 50;
        set_switch_state e PMIC_SWITCH_VSYS True;
        return 0
      })
   }"

definition pmic_power_off_modem :: "power_env \<Rightarrow> bool \<Rightarrow> int power_m" where
  "pmic_power_off_modem e now = do {
     whenever now (do { set_switch_state e PMIC_SWITCH_VSYS False; skip });
     return 0
   }"

definition pmic_set_modem_low_power_state :: "unit power_m" where
  "pmic_set_modem_low_power_state = modify (\<lambda>s. s\<lparr>pm_modem_state := PMIC_LTE_SOFT_OFF\<rparr>)"

text \<open>
  The work items of \<^verbatim>\<open>pmic.c\<close>: the battery once a minute, the interrupt of the power chip, and its start; and the
  events of the light and the power chip together, in any order.
\<close>

section \<open>The battery\<close>

abbreviation MIN_ALERT_TEMP :: int where "MIN_ALERT_TEMP \<equiv> 0"
abbreviation MAX_ALERT_TEMP :: int where "MAX_ALERT_TEMP \<equiv> 33000000"
abbreviation MIN_OPERATIONAL_TEMP :: int where "MIN_OPERATIONAL_TEMP \<equiv> - 10000000"
abbreviation MAX_OPERATIONAL_TEMP :: int where "MAX_OPERATIONAL_TEMP \<equiv> 59000000"
abbreviation MIN_V_9160 :: int where "MIN_V_9160 \<equiv> 3300000"
abbreviation MIN_V_5340 :: int where "MIN_V_5340 \<equiv> 3000000"

text \<open>The charge that the library computes is cut to 0 to 100; nothing is set when the sensors cannot be read.\<close>

definition fuel_gauge_get_latest :: "power_env \<Rightarrow> (int \<times> fuel_gauge_info) power_m" where
  "fuel_gauge_get_latest e = do {
     t \<leftarrow> gets p_now;
     (let (ret, g) = gauge e t
      in if ret < 0 then return (ret, gauge_stack e t)
         else return (0, g\<lparr>fg_soc := min (max (fg_soc g) 0) 100000000\<rparr>))
   }"

definition temp_range :: "int \<Rightarrow> goldilocks" where
  "temp_range t = (if t < MIN_ALERT_TEMP then TOO_COLD else if t > MAX_ALERT_TEMP then TOO_HOT else JUST_RIGHT)"

definition check_temp_alert :: "int \<Rightarrow> unit power_m" where
  "check_temp_alert t = do {
     s \<leftarrow> State_Monad.get;
     whenever (\<not> vbus_present s) (do {
       whenever (last_temp_alert s \<noteq> temp_range t \<and> temp_cb s) (p_act (TempReport (temp_range t)));
       modify (\<lambda>s. s\<lparr>last_temp_alert := temp_range t\<rparr>)
     })
   }"

definition check_temp_limits :: "power_env \<Rightarrow> int \<Rightarrow> unit power_m" where
  "check_temp_limits e t = do {
     sh \<leftarrow> is_shipped e;
     whenever ((t > MAX_OPERATIONAL_TEMP \<or> t < MIN_OPERATIONAL_TEMP) \<and> sh) (do {
       cb \<leftarrow> gets batt_cb;
       whenever cb (p_act BattShutdown);
       set_ship_hold e True ''Too hot or too cold'';
       skip
     })
   }"

text \<open>\<open>modem_power_off\<close> may refuse; the state is set in any case.\<close>

definition switch_off_modem :: "power_env \<Rightarrow> unit power_m" where
  "switch_off_modem e = do {
     t \<leftarrow> gets p_now;
     p_act ModemOff;
     modify (\<lambda>s. s\<lparr>pm_modem_state := modem_off_leaves e t\<rparr>);
     modify (\<lambda>s. s\<lparr>pm_modem_state := PMIC_LTE_POWER_OFF\<rparr>)
   }"

definition check_voltage :: "power_env \<Rightarrow> int \<Rightarrow> unit power_m" where
  "check_voltage e v = do {
     sh \<leftarrow> is_shipped e;
     whenever (v < MIN_V_5340 \<and> sh) (do { set_ship_hold e True ''Battery dead''; skip });
     p \<leftarrow> gets pm_modem_state;
     (if v < MIN_V_9160 then whenever (sh \<and> p = PMIC_LTE_POWER_ON) (switch_off_modem e)
      else whenever (v > MIN_V_9160 + 100000 \<and> p = PMIC_LTE_POWER_OFF)
        (do { p_act ModemOn; pmic_switch_on_modem e; skip }))
   }"

text \<open>The first run tells whether USB is there.\<close>

definition initial_vbus :: "power_env \<Rightarrow> bool power_m" where
  "initial_vbus e = do {
     done \<leftarrow> gets send_initial_vbus_state;
     (if done then return True
      else do {
        modify (\<lambda>s. s\<lparr>send_initial_vbus_state := True\<rparr>);
        reg \<leftarrow> mfd_reg_read e 0x2 0x7;
        modify (\<lambda>s. s\<lparr>vbus_present := bit reg 0\<rparr>);
        err \<leftarrow> p_publish e (PubUsb (bit reg 0));
        return (err = 0)
      })
   }"

definition p_free :: "unit power_m" where
  "p_free = modify (\<lambda>s. s\<lparr>p_live := p_live s - 1\<rparr>)"

definition p_wr_put :: "unit power_m" where
  "p_wr_put = modify (\<lambda>s. s\<lparr>p_work := p_work s - 1\<rparr>)"

definition batt_info_work_handler :: "power_env \<Rightarrow> unit power_m" where
  "batt_info_work_handler e = do {
     p_free;
     (_, b) \<leftarrow> fuel_gauge_get_latest e;
     err \<leftarrow> p_publish e (PubBattery (fg_soc b));
     (if err \<noteq> 0 then p_wr_put
      else do {
        ok \<leftarrow> initial_vbus e;
        (if \<not> ok then p_wr_put
         else do {
           whenever (0 < fg_temp b) (do {
             check_temp_alert (fg_temp b);
             check_temp_limits e (fg_temp b);
             check_voltage e (fg_voltage b)
           });
           p_wr_put
         })
      })
   }"

definition batt_info_timer_handler :: "power_env \<Rightarrow> unit power_m" where
  "batt_info_timer_handler e = do {
     t \<leftarrow> gets p_now;
     whenever (p_mem e t \<and> p_wr e t) (modify (\<lambda>s. s\<lparr>p_live := p_live s + 1, p_work := p_work s + 1,
       batt_work := batt_work s + 1\<rparr>))
   }"

section \<open>The interrupt\<close>

definition set_charging :: "charge_status \<Rightarrow> unit power_m" where
  "set_charging c = modify (\<lambda>s. s\<lparr>charging_status := c\<rparr>)"

text \<open>The first bit that is set counts; \<open>show\<close> sets the light.\<close>

definition charger_event :: "(led_state \<Rightarrow> unit power_m) \<Rightarrow> 8 word \<Rightarrow> unit power_m" where
  "charger_event show b =
     (if bit b 0 then set_charging CHARGING_ACTIVE
      else if bit b 1 \<or> bit b 2 \<or> bit b 3 then do { show LED_CHARGING; set_charging CHARGING_ACTIVE }
      else if bit b 4 then do { show LED_CHARGED; set_charging CHARGING_COMPLETE }
      else if bit b 5 then do { show LED_API_ERROR; set_charging CHARGING_ERROR }
      else skip)"

definition double_insertion :: "power_env \<Rightarrow> unit power_m" where
  "double_insertion e = do {
     s \<leftarrow> State_Monad.get;
     sh \<leftarrow> is_shipped e;
     whenever (sh \<and> last_usb_connect_time s \<noteq> 0 \<and> int (p_now s) - last_usb_connect_time s < 30000)
       (do { pmic_reboot e ''USB Double insertion''; skip });
     modify (\<lambda>s'. s'\<lparr>last_usb_connect_time := int (p_now s)\<rparr>)
   }"

definition usb_event :: "power_env \<Rightarrow> 8 word \<Rightarrow> 8 word \<Rightarrow> int power_m" where
  "usb_event e v reg =
     (if bit v 0 then do {
        modify (\<lambda>s. s\<lparr>vbus_present := True\<rparr>);
        whenever (bit reg 2) (mfd_reg_write 0x4 0x15 (reg AND 0xFB));
        double_insertion e;
        p_publish e (PubUsb True)
      }
      else if bit v 1 then do {
        mfd_reg_write 0x4 0x15 (reg OR 0x4);
        modify (\<lambda>s. s\<lparr>vbus_present := False, charging_status := CHARGING_IDLE\<rparr>);
        show_light e LED_API_IDLE;
        p_publish e (PubUsb False)
      }
      else return 0)"

definition pmic_int_work_handler :: "power_env \<Rightarrow> unit power_m" where
  "pmic_int_work_handler e = do {
     b \<leftarrow> mfd_reg_read e 0x0 0xB;
     charger_event (show_light e) b;
     whenever (b \<noteq> 0) (mfd_reg_write 0x0 0xB b);
     v \<leftarrow> mfd_reg_read e 0x0 0x17;
     reg \<leftarrow> mfd_reg_read e 0x4 0x15;
     err \<leftarrow> usb_event e v reg;
     (if err \<noteq> 0 then skip
      else do {
        whenever (v \<noteq> 0) (mfd_reg_write 0x0 0x17 v);
        s \<leftarrow> State_Monad.get;
        whenever (state_cb s) (p_act (StateChange (charging_status s = CHARGING_ACTIVE)))
      })
   }"

definition pmic_state_set_callback :: "int power_m" where
  "pmic_state_set_callback = do {
     b \<leftarrow> gets state_cb;
     (if b then return (-1) else do { modify (\<lambda>s. s\<lparr>state_cb := True\<rparr>); return 0 })
   }"

section \<open>The start\<close>

text \<open>The registers that are written: interrupts, their events, and the temperatures for charging.\<close>

definition start_registers :: "(8 word \<times> 8 word \<times> 8 word) list" where
  "start_registers =
     [(0x6, 0x11, 0x1), (0x6, 0x2, 0x5), (0x0, 0xC, 0x14), (0x0, 0x18, 0x3), (0x0, 0xB, 0xFF), (0x0, 0x17, 0xFF),
      (0x3, 0x10, 0xA4), (0x3, 0x11, 0x02), (0x3, 0x12, 0x91), (0x3, 0x13, 0x00), (0x3, 0x14, 0x54), (0x3, 0x15, 0x01),
      (0x3, 0x16, 0x54), (0x3, 0x17, 0x01)]"

fun write_all :: "(8 word \<times> 8 word \<times> 8 word) list \<Rightarrow> unit power_m" where
  "write_all [] = skip"
| "write_all ((base, reg, v) # rs) = do { mfd_reg_write base reg v; write_all rs }"

text \<open>The charge status is read with the base and the register in the wrong order.\<close>

definition read_start_state :: "power_env \<Rightarrow> unit power_m" where
  "read_start_state e = do {
     b \<leftarrow> mfd_reg_read e 0x8 0x4;
     modify (\<lambda>s. s\<lparr>pm_modem_state := (if bit b 0 then PMIC_LTE_POWER_ON else PMIC_LTE_POWER_OFF)\<rparr>);
     c \<leftarrow> mfd_reg_read e 0x34 0x3;
     set_charging (if c = 0 then CHARGING_IDLE else if c = 1 then CHARGING_COMPLETE else CHARGING_ACTIVE);
     v \<leftarrow> mfd_reg_read e 0x2 0x7;
     modify (\<lambda>s. s\<lparr>vbus_present := bit v 0\<rparr>)
   }"

definition pmic_init :: "power_env \<Rightarrow> bool \<Rightarrow> bool \<Rightarrow> int power_m" where
  "pmic_init e turn_on_lte turn_on_wifi =
     (if \<exists>i \<in> {0..5}. \<not> device_ready e i then return (-1)
      else do {
        write_all start_registers;
        read_start_state e;
        whenever turn_on_lte (do { pmic_switch_on_modem e; skip });
        whenever turn_on_wifi (do { set_switch_state e PMIC_SWITCH_WIFI True; skip });
        b \<leftarrow> mfd_reg_read e 0x0 0xB;
        charger_event (\<lambda>st. do { led_api_set_state st; skip }) b;
        return 0
      })"

section \<open>Runs\<close>

definition power_boot :: "lte_power \<Rightarrow> power" where
  "power_boot p = \<lparr>charging_status = CHARGING_IDLE, led_api_active = False, led_api_state = LED_API_IDLE, led_toggle = True,
     g_ble_active = False, led_api_timer = None, led_api_work = False, lights = (False, False, False),
     vbus_present = False, last_temp_alert = JUST_RIGHT, pm_modem_state = p, send_initial_vbus_state = False,
     last_usb_connect_time = 0, state_cb = False, temp_cb = False, batt_cb = False, reset_file = None,
     reason_behind = False, batt_work = 0, p_now = 0, p_reads = 0, p_live = 0, p_work = 0, p_acts = []\<rparr>"

text \<open>
  The events: the timers and work items, the start, requests for the light and for the modem of other modules,
  a restart's reason, callbacks that are set, and time.
\<close>

datatype power_event =
  BattTimer | BattWork | IntWork | LedTimer | LedWork | Start bool bool | AskLight led_state | AskModem bool | ModemSoftOff
| SaveReason string | GetReason | SetCallbacks bool bool | Wait nat

definition run_power_event :: "power_env \<Rightarrow> power_event \<Rightarrow> unit power_m" where
  "run_power_event e ev =
     (case ev of
        BattTimer \<Rightarrow> batt_info_timer_handler e
      | BattWork \<Rightarrow> do {
          n \<leftarrow> gets batt_work;
          whenever (0 < n) (do { modify (\<lambda>s. s\<lparr>batt_work := n - 1\<rparr>); batt_info_work_handler e })
        }
      | IntWork \<Rightarrow> pmic_int_work_handler e
      | LedTimer \<Rightarrow> do { t \<leftarrow> gets led_api_timer; whenever (t \<noteq> None) led_api_timer_handler }
      | LedWork \<Rightarrow> do { b \<leftarrow> gets led_api_work; whenever b led_api_work_handler }
      | Start l w \<Rightarrow> do { pmic_init e l w; skip }
      | AskLight st \<Rightarrow> do { led_api_set_state st; skip }
      | AskModem b \<Rightarrow> (if b then do { pmic_switch_on_modem e; skip } else do { pmic_power_off_modem e True; skip })
      | ModemSoftOff \<Rightarrow> pmic_set_modem_low_power_state
      | SaveReason r \<Rightarrow> do { pmic_save_reset_reason e (reason_bytes r); skip }
      | GetReason \<Rightarrow> do { pmic_get_reset_reason; skip }
      | SetCallbacks t b \<Rightarrow> do { pmic_state_set_callback; modify (\<lambda>s. s\<lparr>temp_cb := t, batt_cb := b\<rparr>) }
      | Wait ms \<Rightarrow> p_sleep ms)"

inductive power_reach :: "power_env \<Rightarrow> power \<Rightarrow> power \<Rightarrow> bool" for e where
  power_here: "power_reach e s s"
| power_step: "power_reach e s t \<Longrightarrow> power_reach e s (after (run_power_event e ev) t)"

inductive_cases power_reach_elim: "power_reach e s t"

end
