(* ===== verification/PmicProps.thy ===== *)
theory PmicProps
  imports Pmic
begin

text \<open>
  Properties of the light and the power chip: in every run the light blinks exactly in the states that blink and
  an error stays; a cold battery is never noticed; when the modem's supply is switched; and the reason of a
  restart.
\<close>

section \<open>What every run keeps\<close>

text \<open>
  The light blinks by its timer exactly in the states with a period, and is steady in the others; and no alert
  of a cold battery has been given.
\<close>

definition lights_ok :: "'a leds_scheme \<Rightarrow> bool" where
  "lights_ok s \<longleftrightarrow>
     (led_api_active s \<longleftrightarrow> blink_period (led_api_state s) \<noteq> None) \<and> (led_api_timer s \<noteq> None \<longleftrightarrow> led_api_active s) \<and>
     led_api_state s \<noteq> LED_BLE_ADV_DONE \<and>
     (led_api_state s = LED_API_ERROR \<longrightarrow> lights s = color_lights SOLID_LED_RED) \<and>
     (led_api_state s = LED_CHARGED \<longrightarrow> lights s = color_lights SOLID_LED_GREEN) \<and>
     (led_api_state s \<in> {LED_API_IDLE, LED_VBUS_REMOVED} \<longrightarrow> lights s = color_lights SOLID_LED_OFF)"

definition power_inv :: "bool \<Rightarrow> power \<Rightarrow> bool" where
  "power_inv stuck s \<longleftrightarrow> lights_ok s \<and> (stuck \<longrightarrow> led_api_state s = LED_API_ERROR) \<and> TempReport TOO_COLD \<notin> set (p_acts s)"

lemma set_state_ok: "lights_ok s \<Longrightarrow> lights_ok (after (led_api_set_state st) s)"
  unfolding lights_ok_def led_api_set_state_def should_we_proceed_def
  by (cases st) (auto simp: set_led_color_def stop_led_timer_def start_led_timer_def start_blinking_def start_ble_ui_def
    start_wifi_ui_def start_charging_ui_def start_fota_ui_def after_advertising_def blink_period_def Let_def
    get_charging_active_def get_charging_complete_def)

lemma set_state_error: "led_api_state s = LED_API_ERROR \<Longrightarrow> led_api_state (after (led_api_set_state st) s) = LED_API_ERROR"
  by (simp add: led_api_set_state_def should_we_proceed_def)

lemma set_state_acts: "p_acts (after (led_api_set_state st) s) = p_acts s"
  unfolding led_api_set_state_def should_we_proceed_def
  by (cases st) (simp_all add: set_led_color_def stop_led_timer_def start_led_timer_def start_blinking_def start_ble_ui_def
    start_wifi_ui_def start_charging_ui_def start_fota_ui_def after_advertising_def Let_def)

lemma keeps_set_state [keeps_intro]: "keeps (power_inv k) (led_api_set_state st)"
  by (rule keepsI) (simp add: power_inv_def set_state_ok set_state_error set_state_acts)

lemma keeps_blink [keeps_intro]: "keeps (power_inv k) led_api_work_handler"
  by (rule keepsI)
     (auto simp: power_inv_def lights_ok_def led_api_work_handler_def flip_def set_led_color_def blink_period_def)

lemma keeps_led_timer [keeps_intro]: "keeps (power_inv k) led_api_timer_handler"
  by (rule keepsI)
     (auto simp: power_inv_def lights_ok_def led_api_timer_handler_def stop_led_timer_def start_led_timer_def
       set_led_color_def split: option.split)

lemma keeps_power_modify:
  "(\<And>s. led_api_active (f s) = led_api_active s \<and> led_api_state (f s) = led_api_state s \<and>
     led_api_timer (f s) = led_api_timer s \<and> lights (f s) = lights s \<and>
     (TempReport TOO_COLD \<in> set (p_acts (f s)) \<longrightarrow> TempReport TOO_COLD \<in> set (p_acts s))) \<Longrightarrow> keeps (power_inv k) (modify f)"
  by (rule keepsI) (auto simp: power_inv_def lights_ok_def)

lemma keeps_p_act [keeps_intro]: "a \<noteq> TempReport TOO_COLD \<Longrightarrow> keeps (power_inv k) (p_act a)"
  unfolding p_act_def by (rule keeps_power_modify) auto

lemma keeps_power_bits [keeps_intro]:
  "keeps (power_inv k) (p_sleep ms)" "keeps (power_inv k) (mfd_reg_read e b r)" "keeps (power_inv k) (mfd_reg_write b r v)"
  "keeps (power_inv k) (is_shipped e)" "keeps (power_inv k) (show_light e st)" "keeps (power_inv k) p_free"
  "keeps (power_inv k) p_wr_put" "keeps (power_inv k) (set_charging c)" "keeps (power_inv k) pmic_set_modem_low_power_state"
  unfolding p_sleep_def mfd_reg_read_def mfd_reg_write_def is_shipped_def show_light_def p_free_def p_wr_put_def
    set_charging_def pmic_set_modem_low_power_state_def
  by (intro keeps_intro keeps_power_modify; simp)+

lemma keeps_p_publish [keeps_intro]: "a \<noteq> TempReport TOO_COLD \<Longrightarrow> keeps (power_inv k) (p_publish e a)"
  unfolding p_publish_def by (intro keeps_intro)

lemma keeps_reason [keeps_intro]:
  "keeps (power_inv k) (pmic_save_reset_reason e r)" "keeps (power_inv k) pmic_get_reset_reason"
  "keeps (power_inv k) (pmic_write_i2c a v)" "keeps (power_inv k) (pmic_reboot e t)" "keeps (power_inv k) (set_ship_hold e b t)"
  unfolding pmic_save_reset_reason_def pmic_get_reset_reason_def pmic_write_i2c_def pmic_reboot_def set_ship_hold_def
  by (intro keeps_intro keeps_power_modify; simp)+

lemma keeps_vsys [keeps_intro]: "keeps (power_inv k) (vsys_on e n)" "keeps (power_inv k) (vsys_off e n)"
  by (induction n) (simp_all only: vsys_on.simps vsys_off.simps, (intro keeps_intro keeps_power_modify; simp)+)

lemma keeps_wifi_switch [keeps_intro]: "keeps (power_inv k) (wifi_on e b n)" "keeps (power_inv k) (wifi_off e b n)"
  by (induction n arbitrary: b) (simp_all only: wifi_on.simps wifi_off.simps, (intro keeps_intro; simp)+)

lemma keeps_switch [keeps_intro]: "keeps (power_inv k) (set_switch_state e sw on)"
  unfolding set_switch_state_def
  by (cases sw; simp only: pmic_switch.case) (intro keeps_intro)+

lemma keeps_modem_switch [keeps_intro]:
  "keeps (power_inv k) (pmic_switch_on_modem e)" "keeps (power_inv k) (pmic_power_off_modem e now)"
  unfolding pmic_switch_on_modem_def pmic_power_off_modem_def by (intro keeps_intro)+

text \<open>Below zero degrees nothing is checked, so that the range of a checked temperature is never the cold one.\<close>

lemma keeps_alert: "0 < t \<Longrightarrow> keeps (power_inv k) (check_temp_alert t)"
  unfolding check_temp_alert_def by (intro keeps_intro keeps_power_modify) (auto simp: temp_range_def)

lemma keeps_battery [keeps_intro]:
  "keeps (power_inv k) (fuel_gauge_get_latest e)" "keeps (power_inv k) (check_temp_limits e t)"
  "keeps (power_inv k) (check_voltage e v)" "keeps (power_inv k) (initial_vbus e)"
  "keeps (power_inv k) (batt_info_timer_handler e)"
  unfolding fuel_gauge_get_latest_def check_temp_limits_def check_voltage_def switch_off_modem_def initial_vbus_def
    batt_info_timer_handler_def
  by (intro keeps_intro keeps_power_modify; simp split: prod.split)+

lemma keeps_batt_work [keeps_intro]: "keeps (power_inv k) (batt_info_work_handler e)"
  unfolding batt_info_work_handler_def by (intro keeps_intro keeps_alert; simp)

lemma keeps_charger_event [keeps_intro]:
  "(\<And>st. keeps (power_inv k) (show st)) \<Longrightarrow> keeps (power_inv k) (charger_event show b)"
  unfolding charger_event_def by (intro keeps_intro)

lemma keeps_interrupt [keeps_intro]:
  "keeps (power_inv k) (double_insertion e)" "keeps (power_inv k) (usb_event e v reg)"
  "keeps (power_inv k) (pmic_int_work_handler e)" "keeps (power_inv k) pmic_state_set_callback"
  unfolding double_insertion_def usb_event_def pmic_int_work_handler_def pmic_state_set_callback_def
  by (intro keeps_intro keeps_power_modify; simp)+

lemma keeps_write_all [keeps_intro]: "keeps (power_inv k) (write_all rs)"
  by (induction rs rule: write_all.induct) (simp_all only: write_all.simps, (intro keeps_intro; assumption)+)

lemma keeps_start [keeps_intro]: "keeps (power_inv k) (pmic_init e l w)"
  unfolding pmic_init_def read_start_state_def by (intro keeps_intro keeps_power_modify; simp)

lemma keeps_power_event: "keeps (power_inv k) (run_power_event e ev)"
  unfolding run_power_event_def
  by (cases ev) (simp_all only: power_event.case, (intro keeps_intro keeps_power_modify; simp)+)

lemma power_reach_inv: "power_reach e s t \<Longrightarrow> power_inv k s \<Longrightarrow> power_inv k t"
  by (induction rule: power_reach.induct) (simp_all add: keepsD [OF keeps_power_event])

lemma boot_power_inv: "power_inv False (power_boot p)"
  by (simp add: power_inv_def lights_ok_def power_boot_def blink_period_def color_lights_def)

text \<open>
  Claim C32.  Whatever happens in whatever order, the light follows its state: the timer that makes it blink
  runs exactly in the states that blink (advertising, charging, joining, updating); it is red in the error
  state, green when charged, and off when idle.
\<close>

theorem light_follows_state:
  "power_reach e (power_boot p) s \<Longrightarrow>
     (led_api_timer s \<noteq> None \<longleftrightarrow> led_api_state s \<in> {LED_BLE_ADV, LED_CHARGING, LED_WIFI_TRYING, LED_FOTA}) \<and>
     (led_api_state s = LED_API_ERROR \<longrightarrow> lights s = (True, False, False)) \<and>
     (led_api_state s = LED_CHARGED \<longrightarrow> lights s = (False, True, False)) \<and>
     (led_api_state s = LED_API_IDLE \<longrightarrow> lights s = (False, False, False))"
  using power_reach_inv [OF _ boot_power_inv, of e p s]
  by (cases "led_api_state s") (simp_all add: power_inv_def lights_ok_def color_lights_def blink_period_def)

text \<open>
  An error of the charger stays on the light: from the moment the light shows an error it is red
  in every later state, whatever the charger, the cable and the other modules do.
\<close>

theorem error_light_stays:
  assumes "power_reach e (power_boot p) s" and "led_api_state s = LED_API_ERROR" and "power_reach e s t"
  shows "led_api_state t = LED_API_ERROR \<and> lights t = (True, False, False)"
proof -
  have "power_inv True s" using power_reach_inv [OF assms(1) boot_power_inv] assms(2) by (simp add: power_inv_def)
  then have "power_inv True t" by (rule power_reach_inv [OF assms(3)])
  then show ?thesis by (simp add: power_inv_def lights_ok_def color_lights_def)
qed

text \<open>
  The alert of a battery that is too cold is never given: the limit is zero degrees, and a temperature
  of zero or below is taken for a missing battery, whose checks are left out.
\<close>

theorem cold_alert_never_given:
  "power_reach e (power_boot p) s \<Longrightarrow> TempReport TOO_COLD \<notin> set (p_acts s)"
  using power_reach_inv [OF _ boot_power_inv, of e p s] by (simp add: power_inv_def)

section \<open>The battery\<close>

text \<open>A battery at zero degrees or below: neither its voltage nor its temperature has an effect.\<close>

lemma cold_battery_unchecked:
  assumes "0 \<le> fst (gauge e (p_now s))" and "fg_temp (snd (gauge e (p_now s))) \<le> 0" and "send_initial_vbus_state s"
    and "\<forall>n. p_pub_rc e n = 0"
  shows "after (batt_info_work_handler e) s =
    s\<lparr>p_live := p_live s - 1, p_work := p_work s - 1, p_acts := p_acts s @
      [PubBattery (min (max (fg_soc (snd (gauge e (p_now s)))) 0) 100000000)]\<rparr>"
proof -
  obtain ret g where g: "gauge e (p_now s) = (ret, g)" by fastforce
  show ?thesis using assms
    by (simp add: batt_info_work_handler_def p_free_def fuel_gauge_get_latest_def p_publish_def p_act_def
      initial_vbus_def p_wr_put_def g)
qed

lemma save_keeps_modem [simp]: "pm_modem_state (after (set_ship_hold e b r) s) = pm_modem_state s"
  by (simp add: set_ship_hold_def mfd_reg_read_def mfd_reg_write_def p_act_def pmic_save_reset_reason_def Let_def)

lemma save_keeps_time [simp]: "p_now (after (set_ship_hold e b r) s) = p_now s"
  by (simp add: set_ship_hold_def mfd_reg_read_def mfd_reg_write_def p_act_def pmic_save_reset_reason_def Let_def)

lemma vsys_on_state:
  "pm_modem_state s \<in> {PMIC_LTE_POWER_ON, PMIC_LTE_POWER_OFF} \<Longrightarrow>
   pm_modem_state (after (vsys_on e n) s) \<in> {PMIC_LTE_POWER_ON, PMIC_LTE_POWER_OFF}"
  by (induction n arbitrary: s) (auto simp: mfd_reg_read_def mfd_reg_write_def p_act_def p_sleep_def)

lemma vsys_on_first:
  assumes "\<forall>n. bit (reg_read e n 0x8 0x4) 0"
  shows "pm_modem_state (after (vsys_on e (Suc n)) s) = PMIC_LTE_POWER_ON"
  using assms by (simp add: mfd_reg_read_def mfd_reg_write_def p_act_def p_sleep_def)

text \<open>
  The modem's supply follows the voltage with a gap: below 3.3 V a shipped collar marks a modem that is on as
  off; between 3.3 and 3.4 V nothing changes; above 3.4 V a modem that is marked off is switched on, when its
  supply comes up; a modem that the radio manager has put to sleep is never touched.
\<close>

theorem modem_supply_gap:
  "(v < MIN_V_9160 \<and> shipped e (p_now s) \<and> pm_modem_state s = PMIC_LTE_POWER_ON \<longrightarrow>
      pm_modem_state (after (check_voltage e v) s) = PMIC_LTE_POWER_OFF) \<and>
   (MIN_V_9160 \<le> v \<and> v \<le> MIN_V_9160 + 100000 \<longrightarrow> after (check_voltage e v) s = s) \<and>
   (MIN_V_9160 + 100000 < v \<and> pm_modem_state s = PMIC_LTE_POWER_OFF \<and> (\<forall>n. bit (reg_read e n 0x8 0x4) 0) \<longrightarrow>
      pm_modem_state (after (check_voltage e v) s) = PMIC_LTE_POWER_ON) \<and>
   (pm_modem_state s = PMIC_LTE_SOFT_OFF \<longrightarrow> pm_modem_state (after (check_voltage e v) s) = PMIC_LTE_SOFT_OFF)"
proof -
  have on: "pm_modem_state (after (set_switch_state e PMIC_SWITCH_VSYS True) t) = PMIC_LTE_POWER_ON"
    if "\<forall>n. bit (reg_read e n 0x8 0x4) 0" for t
    using vsys_on_first [OF that, of 9] by (simp add: set_switch_state_def eval_nat_numeral del: vsys_on.simps)
  then have "pm_modem_state (after (pmic_switch_on_modem e) t) = PMIC_LTE_POWER_ON"
    if "\<forall>n. bit (reg_read e n 0x8 0x4) 0" for t
    using that by (simp add: pmic_switch_on_modem_def)
  then show ?thesis
    by (auto simp: check_voltage_def is_shipped_def switch_off_modem_def p_act_def)
qed

section \<open>The supply of the Wi-Fi chip\<close>

text \<open>
  The switch answers success exactly when the supply was seen on before one of the tries: a supply that
  comes up with the last try is an error.
\<close>

theorem wifi_switch_on_exact:
  "result (wifi_on e b n) s = 0 \<longleftrightarrow>
     (\<exists>k < n. bit (case k of 0 \<Rightarrow> b | Suc j \<Rightarrow> reg_read e (p_reads s + j) 0x8 0x4) 2)"
proof (induction n arbitrary: b s)
  case (Suc n)
  let ?s = "s\<lparr>p_acts := p_acts s @ [RegulatorOn 2], p_reads := Suc (p_reads s), p_now := p_now s + 10\<rparr>"
  have "(\<exists>k < Suc n. bit (case k of 0 \<Rightarrow> b | Suc j \<Rightarrow> reg_read e (p_reads s + j) 0x8 0x4) 2) \<longleftrightarrow>
     bit b 2 \<or> (\<exists>k < n. bit (reg_read e (p_reads s + k) 0x8 0x4) 2)"
    by (auto simp: less_Suc_eq_0_disj)
  moreover have "(\<exists>k < n. bit (reg_read e (p_reads s + k) 0x8 0x4) 2) \<longleftrightarrow>
     (\<exists>k < n. bit (case k of 0 \<Rightarrow> reg_read e (p_reads s) 0x8 0x4 | Suc j \<Rightarrow> reg_read e (p_reads ?s + j) 0x8 0x4) 2)"
    by (intro iff_exI conj_cong refl) (simp split: nat.split)
  ultimately show ?case
    using Suc [of "reg_read e (p_reads s) 0x8 0x4" ?s] by (simp add: mfd_reg_read_def p_act_def p_sleep_def)
qed simp

section \<open>The reason of a restart\<close>

lemma reason_saved:
  assumes "reason_open e (length (p_acts s)) = 0" and "int (length r) \<le> reason_write e (length (p_acts s))"
  shows "reset_file (after (pmic_save_reset_reason e r) s) =
    Some (r @ drop (length r) (case reset_file s of Some old \<Rightarrow> old | None \<Rightarrow> []))"
  using assms by (simp add: pmic_save_reset_reason_def written_over_def Let_def)

text \<open>
  A reason of a restart that is saved is read back after it, when the file can be written and no longer reason
  was saved before.
\<close>

theorem reset_reason_roundtrip:
  assumes "reason_open e (length (p_acts s)) = 0" and "int (length r) \<le> reason_write e (length (p_acts s))"
    and "r \<noteq> []" and "length r < 128" and "0 \<notin> set r"
    and "case reset_file s of Some old \<Rightarrow> length old \<le> length r | None \<Rightarrow> True"
  shows "result pmic_get_reset_reason (after (pmic_save_reset_reason e r) s) = Some r"
proof -
  have "reset_file (after (pmic_save_reset_reason e r) s) = Some r"
    using reason_saved [OF assms(1, 2)] assms(6) by (simp split: option.splits)
  moreover have "takeWhile (\<lambda>b. b \<noteq> 0) r = r" using assms(5) by (intro takeWhile_eq_all_conv [THEN iffD2]) auto
  ultimately show ?thesis using assms(3, 4) by (simp add: pmic_get_reset_reason_def Let_def)
qed

lemma shorter_reason_keeps_tail:
  assumes "reason_open e (length (p_acts s)) = 0" and "12 \<le> reason_write e (length (p_acts s))"
    and "reset_file s = Some (reason_bytes ''USB Double insertion'')"
  shows "result pmic_get_reset_reason (after (pmic_save_reset_reason e (reason_bytes ''Battery dead'')) s) =
    Some (reason_bytes ''Battery deadnsertion'')"
proof -
  have "int (length (reason_bytes ''Battery dead'')) \<le> reason_write e (length (p_acts s))"
    using assms(2) by (simp add: reason_bytes_def)
  from reason_saved [OF assms(1) this] show ?thesis
    using assms(3) by (simp add: pmic_get_reset_reason_def Let_def reason_bytes_def of_char_def)
qed

section \<open>Concrete runs\<close>

definition calm_pmic :: power_env where
  "calm_pmic = \<lparr>reg_read = (\<lambda>_ _ _. 0), p_pub_rc = (\<lambda>_. 0),
     gauge = (\<lambda>_. (0, \<lparr>fg_voltage = 3900000, fg_current = 0, fg_temp = 20000000, fg_soc = 50000000, fg_tte = 0, fg_ttf = 0\<rparr>)),
     gauge_stack = (\<lambda>_. \<lparr>fg_voltage = 0, fg_current = 0, fg_temp = 0, fg_soc = 0, fg_tte = 0, fg_ttf = 0\<rparr>),
     shipped = (\<lambda>_. True), modem_off_leaves = (\<lambda>_. PMIC_LTE_SOFT_OFF), p_mem = (\<lambda>_. True), p_wr = (\<lambda>_. True),
     reason_open = (\<lambda>_. 0), reason_write = (\<lambda>_. 100), device_ready = (\<lambda>_. True)\<rparr>"

definition error_shown :: power where
  "error_shown = after (run_power_event calm_pmic (AskLight LED_API_ERROR)) (power_boot PMIC_LTE_POWER_ON)"

lemma error_shown_reached: "power_reach calm_pmic (power_boot PMIC_LTE_POWER_ON) error_shown"
  unfolding error_shown_def by (rule power_step [OF power_here])

lemma error_shown_state: "led_api_state error_shown = LED_API_ERROR"
  by (simp add: error_shown_def run_power_event_def led_api_set_state_def should_we_proceed_def power_boot_def Let_def
    set_led_color_def stop_led_timer_def)

lemma light_follows_state_witness: "lights error_shown = (True, False, False)"
  using light_follows_state [OF error_shown_reached] error_shown_state by simp

lemma error_light_stays_witness:
  "lights (after (run_power_event calm_pmic (AskLight LED_API_IDLE)) error_shown) = (True, False, False)"
  using error_light_stays [OF error_shown_reached error_shown_state power_step [OF power_here]] by blast

lemma cold_alert_never_given_witness: "TempReport TOO_COLD \<notin> set (p_acts error_shown)"
  by (rule cold_alert_never_given [OF error_shown_reached])

lemma modem_supply_gap_witness:
  "after (check_voltage calm_pmic 3350000) error_shown = error_shown"
  using modem_supply_gap [of 3350000 calm_pmic error_shown] by simp

lemma reset_reason_roundtrip_witness:
  "result pmic_get_reset_reason (after (pmic_save_reset_reason calm_pmic [85, 83, 66]) (power_boot PMIC_LTE_POWER_ON))
   = Some [85, 83, 66]"
  by (rule reset_reason_roundtrip) (simp_all add: calm_pmic_def power_boot_def)

end
