(* ===== verification/BleLink.thy ===== *)
theory BleLink
  imports Leds Uicr
begin

text \<open>
  The Bluetooth link of the collar, \<^verbatim>\<open>commercial_collar/src/ble/src/ble.c\<close>: advertising with its timeout, the one
  connection, the stop that waits for its end, and the name.  The stack of Zephyr takes the calls as actions and
  its callbacks are events; references to connections are counted.  The state extends the light's.
\<close>

section \<open>State\<close>

datatype ble_act = AdvStart "8 word list" "8 word list" | AdvStop | ConnDisconnect "nat option" | PubConn bool | BtName "8 word list"

record ble = leds +
  current_conn :: "nat option"
  auth_conn :: "nat option"
  defer_ble_stop :: bool
  local_name_str :: "8 word list"
  ble_adv_timer :: "nat option"
  conn_refs :: "nat \<Rightarrow> int"
  ble_acts :: "ble_act list"

record ble_env =
  ble_shipped :: "nat \<Rightarrow> bool"
  adv_start_rc :: "nat \<Rightarrow> int"
  ble_serial :: "8 word list"
  ble_addr :: "8 word list"
  auth_cb_rc :: "nat \<Rightarrow> int"

type_synonym 'a ble_m = "(ble, 'a) state"

abbreviation BLE_ADV_TIME :: nat where "BLE_ADV_TIME \<equiv> 600"

definition b_act :: "ble_act \<Rightarrow> unit ble_m" where
  "b_act a = modify (\<lambda>s. s\<lparr>ble_acts := ble_acts s @ [a]\<rparr>)"

definition ble_light :: "ble_env \<Rightarrow> led_state \<Rightarrow> unit ble_m" where
  "ble_light e st = do {
     n \<leftarrow> gets (\<lambda>s. length (ble_acts s));
     whenever (ble_shipped e n) (do { led_api_set_state st; skip })
   }"

definition ble_ref :: "int \<Rightarrow> nat option \<Rightarrow> unit ble_m" where
  "ble_ref k c = (case c of None \<Rightarrow> skip | Some c \<Rightarrow> modify (\<lambda>s. s\<lparr>conn_refs := (conn_refs s)(c := conn_refs s c + k)\<rparr>))"

section \<open>Advertising\<close>

definition stop_advertising :: "ble_env \<Rightarrow> unit ble_m" where
  "stop_advertising e = do {
     b_act AdvStop;
     c \<leftarrow> gets current_conn;
     b_act (ConnDisconnect c);
     ble_light e LED_BLE_ADV_DONE
   }"

definition ble_adv_timeout_worker :: "ble_env \<Rightarrow> unit ble_m" where
  "ble_adv_timeout_worker e = do {
     c \<leftarrow> gets current_conn;
     (if c = None then do { stop_advertising e; modify (\<lambda>s. s\<lparr>defer_ble_stop := False\<rparr>) }
      else modify (\<lambda>s. s\<lparr>defer_ble_stop := True\<rparr>))
   }"

text \<open>The company and twelve characters of the serial number; the light is set also when the start fails.\<close>

definition ble_advertise_start :: "ble_env \<Rightarrow> nat \<Rightarrow> int ble_m" where
  "ble_advertise_start e timeout_sec = do {
     n \<leftarrow> gets (\<lambda>s. length (ble_acts s));
     name \<leftarrow> gets local_name_str;
     b_act (AdvStart name ([0x02, 0x25] @ take 12 (ble_serial e)));
     whenever (timeout_sec \<noteq> 0) (modify (\<lambda>s. s\<lparr>ble_adv_timer := Some timeout_sec\<rparr>));
     ble_light e LED_BLE_ADV;
     return (if adv_start_rc e n \<noteq> 0 then -1 else 0)
   }"

definition ble_stop :: "ble_env \<Rightarrow> int ble_m" where
  "ble_stop e = do {
     c \<leftarrow> gets current_conn;
     (if c = None then stop_advertising e else modify (\<lambda>s. s\<lparr>defer_ble_stop := True\<rparr>));
     return 0
   }"

section \<open>Connections\<close>

text \<open>A second connection is told as none, and its end is taken for the end of the first.\<close>

definition ble_connected :: "ble_env \<Rightarrow> nat \<Rightarrow> int \<Rightarrow> unit ble_m" where
  "ble_connected e conn err =
     (if err \<noteq> 0 then b_act (PubConn False)
      else do {
        ble_light e LED_BLE_ADV_DONE;
        c \<leftarrow> gets current_conn;
        (if c = None then do {
           ble_ref 1 (Some conn);
           modify (\<lambda>s. s\<lparr>current_conn := Some conn\<rparr>);
           b_act (PubConn True)
         }
         else b_act (PubConn False))
      })"

definition ble_disconnected :: "ble_env \<Rightarrow> unit ble_m" where
  "ble_disconnected e = do {
     s \<leftarrow> State_Monad.get;
     ble_ref (-1) (auth_conn s);
     ble_ref (-1) (current_conn s);
     modify (\<lambda>s. s\<lparr>auth_conn := None, current_conn := None\<rparr>);
     whenever (defer_ble_stop s) (stop_advertising e);
     b_act (PubConn False)
   }"

definition auth_cancel :: "nat \<Rightarrow> unit ble_m" where
  "auth_cancel conn = b_act (ConnDisconnect (Some conn))"

definition pairing_failed :: "nat \<Rightarrow> unit ble_m" where
  "pairing_failed conn = b_act (ConnDisconnect (Some conn))"

definition ble_disconnect :: "int ble_m" where
  "ble_disconnect = do { c \<leftarrow> gets current_conn; b_act (ConnDisconnect c); return 0 }"

definition ble_shutdown :: "int ble_m" where
  "ble_shutdown = do { b_act AdvStop; c \<leftarrow> gets current_conn; b_act (ConnDisconnect c); return 0 }"

section \<open>Start\<close>

definition hex_digit :: "8 word \<Rightarrow> 8 word" where
  "hex_digit d = (if d < 10 then 48 + d else 55 + d)"

definition hex_byte :: "8 word \<Rightarrow> 8 word list" where
  "hex_byte b = [hex_digit (drop_bit 4 b), hex_digit (b AND 0xF)]"

definition name_prefix :: "8 word list" where
  "name_prefix = map (\<lambda>c. of_nat (of_char c)) ''Petivity Tracker ''"

text \<open>The last six characters of the serial number, of 12, or of the address when there is none.\<close>

definition ble_name :: "8 word list \<Rightarrow> 8 word list \<Rightarrow> 8 word list" where
  "ble_name serial addr =
     name_prefix @ (if serial ! 6 \<noteq> 0xFF then take 6 (drop 6 serial)
       else hex_byte (addr ! 2) @ hex_byte (addr ! 1) @ hex_byte (addr ! 0))"

definition ble_init :: "ble_env \<Rightarrow> int ble_m" where
  "ble_init e = do {
     let name = ble_name (ble_serial e) (ble_addr e) in do {
       modify (\<lambda>s. s\<lparr>local_name_str := name\<rparr>);
       b_act (BtName name);
       n \<leftarrow> gets (\<lambda>s. length (ble_acts s));
       (if auth_cb_rc e 0 \<noteq> 0 \<or> auth_cb_rc e 1 \<noteq> 0 then return 0
        else if ble_shipped e n then ble_advertise_start e BLE_ADV_TIME
        else return 0)
     }
   }"

section \<open>Runs\<close>

definition ble_boot :: ble where
  "ble_boot = \<lparr>charging_status = CHARGING_IDLE, led_api_active = False, led_api_state = LED_API_IDLE, led_toggle = True,
     g_ble_active = False, led_api_timer = None, led_api_work = False, lights = (False, False, False),
     current_conn = None, auth_conn = None, defer_ble_stop = False, local_name_str = [], ble_adv_timer = None,
     conn_refs = (\<lambda>_. 0), ble_acts = []\<rparr>"

datatype ble_event =
  BleInit | AdvTimeout | AdvFor nat | StopBle | Connected nat int | Disconnected | AuthCancel nat | PairingFailed nat
| ForceOff | Shutdown | Light led_state

definition run_ble_event :: "ble_env \<Rightarrow> ble_event \<Rightarrow> unit ble_m" where
  "run_ble_event e ev =
     (case ev of
        BleInit \<Rightarrow> do { ble_init e; skip }
      | AdvTimeout \<Rightarrow> do {
          t \<leftarrow> gets ble_adv_timer;
          whenever (t \<noteq> None) (do { modify (\<lambda>s. s\<lparr>ble_adv_timer := None\<rparr>); ble_adv_timeout_worker e })
        }
      | AdvFor n \<Rightarrow> do { ble_advertise_start e n; skip }
      | StopBle \<Rightarrow> do { ble_stop e; skip }
      | Connected c err \<Rightarrow> ble_connected e c err
      | Disconnected \<Rightarrow> ble_disconnected e
      | AuthCancel c \<Rightarrow> auth_cancel c
      | PairingFailed c \<Rightarrow> pairing_failed c
      | ForceOff \<Rightarrow> do { ble_disconnect; skip }
      | Shutdown \<Rightarrow> do { ble_shutdown; skip }
      | Light st \<Rightarrow> do { led_api_set_state st; skip })"

primrec run_ble_events :: "ble_env \<Rightarrow> ble_event list \<Rightarrow> unit ble_m" where
  "run_ble_events e [] = skip"
| "run_ble_events e (ev # evs) = do { run_ble_event e ev; run_ble_events e evs }"

section \<open>The one connection\<close>

text \<open>
  References are held for the connection that is known, and for no other.
\<close>

definition refs_ok :: "ble \<Rightarrow> bool" where
  "refs_ok s \<longleftrightarrow> auth_conn s = None \<and> (\<forall>c. conn_refs s c = (if current_conn s = Some c then 1 else 0))"

abbreviation links :: "ble \<Rightarrow> nat option \<times> nat option \<times> (nat \<Rightarrow> int)" where
  "links s \<equiv> (current_conn s, auth_conn s, conn_refs s)"

lemma set_state_links [same_intro]: "same links (led_api_set_state st)"
  unfolding led_api_set_state_def should_we_proceed_def
  by (rule sameI, cases st) (simp_all add: set_led_color_def stop_led_timer_def start_led_timer_def start_blinking_def
    start_ble_ui_def start_wifi_ui_def start_charging_ui_def start_fota_ui_def after_advertising_def Let_def)

lemma links_bits [same_intro]:
  "same links (b_act a)" "same links (ble_light e st)" "same links (stop_advertising e)"
  "same links (ble_adv_timeout_worker e)" "same links (ble_advertise_start e n)" "same links (ble_stop e)"
  "same links (auth_cancel c)" "same links (pairing_failed c)" "same links ble_disconnect" "same links ble_shutdown"
  "same links (ble_init e)"
  unfolding b_act_def ble_light_def stop_advertising_def ble_adv_timeout_worker_def ble_advertise_start_def ble_stop_def
    auth_cancel_def pairing_failed_def ble_disconnect_def ble_shutdown_def ble_init_def Let_def
  by (intro same_intro same_modify; simp)+

lemma refs_same: "same links m \<Longrightarrow> keeps refs_ok m"
  unfolding same_def keeps_def refs_ok_def by (metis Pair_inject)

lemma refs_event: "keeps refs_ok (run_ble_event e ev)"
proof (cases ev)
  case (Connected c err)
  have l: "links (after (ble_light e LED_BLE_ADV_DONE) s) = links s" for s by (rule sameD [OF links_bits(2)])
  show ?thesis
    by (rule keepsI)
       (use l in \<open>auto simp: Connected run_ble_event_def ble_connected_def ble_ref_def b_act_def refs_ok_def\<close>)
next
  case Disconnected
  have l: "links (after (stop_advertising e) s) = links s" for s by (rule sameD [OF links_bits(3)])
  show ?thesis
    by (rule keepsI)
       (use l in \<open>auto simp: Disconnected run_ble_event_def ble_disconnected_def ble_ref_def b_act_def refs_ok_def split: option.splits\<close>)
qed (simp_all only: run_ble_event_def ble_event.case,
     (rule refs_same, intro same_intro same_modify; simp)+)

text \<open>
  Claim C33.  Whatever the stack reports in whatever order, a reference is held exactly for the connection that is
  known: it is taken once and given back once.
\<close>

theorem connection_referenced_once:
  "conn_refs (after (run_ble_events e evs) ble_boot) c =
     (if current_conn (after (run_ble_events e evs) ble_boot) = Some c then 1 else 0)"
proof -
  have "keeps refs_ok (run_ble_events e evs)"
    by (induction evs) (simp_all add: keeps_bind refs_event keeps_return)
  from keepsD [OF this, of ble_boot] show ?thesis by (simp add: refs_ok_def ble_boot_def)
qed

text \<open>
  Advertising that times out in a connection is stopped at its end: the stop is remembered, and
  the first disconnection stops the advertising and tells that there is no connection.
\<close>

theorem deferred_stop_on_disconnect:
  fixes e :: ble_env
  assumes "current_conn s = Some c"
  defines "s1 \<equiv> after (ble_adv_timeout_worker e) s"
  shows "ble_acts s1 = ble_acts s \<and> defer_ble_stop s1 \<and>
    current_conn (after (ble_disconnected e) s1) = None \<and>
    ble_acts (after (ble_disconnected e) s1) = ble_acts s @ [AdvStop, ConnDisconnect None, PubConn False]"
proof -
  have "s1 = s\<lparr>defer_ble_stop := True\<rparr>" using assms(1) by (simp add: s1_def ble_adv_timeout_worker_def)
  moreover have "ble_acts (after (led_api_set_state st) t) = ble_acts t" for st and t :: ble
    unfolding led_api_set_state_def should_we_proceed_def
    by (cases st) (simp_all add: set_led_color_def stop_led_timer_def start_led_timer_def start_blinking_def start_ble_ui_def
      start_wifi_ui_def start_charging_ui_def start_fota_ui_def after_advertising_def Let_def)
  moreover have "current_conn (after (led_api_set_state st) t) = current_conn t" for st and t :: ble
    using sameD [OF set_state_links, of st t] by simp
  ultimately show ?thesis
    by (simp add: ble_disconnected_def ble_ref_def stop_advertising_def b_act_def ble_light_def split: option.split)
qed

lemma deferred_stop_on_disconnect_witness:
  "\<exists>e. ble_acts (after (ble_disconnected e) (after (ble_adv_timeout_worker e) (ble_boot\<lparr>current_conn := Some 7\<rparr>))) =
     [AdvStop, ConnDisconnect None, PubConn False]"
  using deferred_stop_on_disconnect [of "ble_boot\<lparr>current_conn := Some 7\<rparr>" 7] by (auto simp: ble_boot_def)

text \<open>The wish to stop is not forgotten by the stop that it was for.\<close>

lemma deferred_stop_is_kept: "defer_ble_stop (after (ble_disconnected e) s) = defer_ble_stop s"
proof -
  have "defer_ble_stop (after (led_api_set_state st) t) = defer_ble_stop t" for st and t :: ble
    unfolding led_api_set_state_def should_we_proceed_def
    by (cases st) (simp_all add: set_led_color_def stop_led_timer_def start_led_timer_def start_blinking_def start_ble_ui_def
      start_wifi_ui_def start_charging_ui_def start_fota_ui_def after_advertising_def Let_def)
  then show ?thesis
    by (simp add: ble_disconnected_def ble_ref_def stop_advertising_def b_act_def ble_light_def split: option.split)
qed

end
