(* ===== verification/TrackerService.thy ===== *)
theory TrackerService
  imports BleLink WifiWait
begin

text \<open>
  The Bluetooth service of the collar, \<^verbatim>\<open>commercial_collar/src/ble/src/tracker_service.c\<close>: what a phone writes (time,
  credentials, a scan, a ping, the start of updates), what it reads (one response buffer for all characteristics),
  what it is notified of, and the callbacks of the Wi-Fi chip and the charger.  The state extends the Bluetooth
  link's.  The library zcbor is a parameter: whether a call succeeds and what it gives is a function of the message
  and the calls so far.  Text that it decodes is a position in the message, not a string.
\<close>

section \<open>State\<close>

datatype cbor_put = MapStart nat | MapEnd nat | Tstr string | Bstr string | Uint int | Sint int

datatype zcbor_get = GMapStart | GTstr | GUint64 | GUint32 | GBool | GMapEnd

datatype got = GotDone | GotStr nat nat | GotInt nat | GotBool bool

datatype tracker_act =
  Notified "nat option" string | SetMillis nat | Unpaired | FotaAll | CheckUpdates comm_device
| JoinAp string string nat nat nat | NonceQueued string

text \<open>The variables of the module, a timer and a work item, and marks for accesses outside a buffer.\<close>

record tracker = ble +
  m_ap_ssid :: string
  m_ap_password :: string
  m_ap_sec_flags :: string
  g_started_connecting :: bool
  scan_aps :: "nat \<Rightarrow> wifi_obj"
  scan_count :: nat
  m_wifi_retrieved_count :: nat
  notify_enable :: bool
  read_response :: string
  notify_timer :: "nat option"
  notify_user_data :: "string option"
  notify_message :: string
  notify_work :: bool
  onboarded_setting :: "bool option"
  creds_behind :: bool
  msg_behind :: bool
  t_calls :: nat
  t_acts :: "tracker_act list"

text \<open>
  Outside: zcbor, the bytes that lie behind a message in memory, \<open>bt_gatt_attr_read\<close>, \<open>qsort\<close>, the result of a scan
  and its list, the answer to the request to join, the fuel gauge (in thousandths of a percent), and the texts
  that are reported.
\<close>

record tracker_env =
  enc_ok :: "cbor_put list \<Rightarrow> bool"
  enc_bytes :: "cbor_put list \<Rightarrow> string"
  dec :: "string \<Rightarrow> zcbor_get list \<Rightarrow> got option"
  rx_behind :: string
  attr_read :: "string \<Rightarrow> nat \<Rightarrow> nat \<Rightarrow> int \<times> string"
  t_sorted :: "wifi_obj list \<Rightarrow> wifi_obj list"
  t_scan_rc :: "nat \<Rightarrow> int"
  t_scan_list :: "nat \<Rightarrow> (nat \<Rightarrow> wifi_obj) \<times> nat"
  t_connect :: "nat \<Rightarrow> int"
  t_fuel :: "nat \<Rightarrow> int option"
  t_da :: "nat \<Rightarrow> das_tri_state \<times> string"
  t_self_check :: "nat \<Rightarrow> bool"
  t_millis :: "nat \<Rightarrow> nat"
  t_random :: "nat \<Rightarrow> string"
  t_imei :: "nat \<Rightarrow> int \<times> string"
  t_iccid :: "nat \<Rightarrow> int \<times> string"
  t_modem_version :: "nat \<Rightarrow> (nat \<times> nat \<times> nat) option"
  t_lte_connected :: "nat \<Rightarrow> bool option"
  t_da_version :: "nat \<Rightarrow> string"
  t_mac :: string
  t_serial :: string
  t_app_version :: string

type_synonym 'a tracker_m = "(tracker, 'a) state"

definition t_ask :: "(nat \<Rightarrow> 'a) \<Rightarrow> 'a tracker_m" where
  "t_ask f = do { n \<leftarrow> gets t_calls; modify (\<lambda>s. s\<lparr>t_calls := Suc n\<rparr>); return (f n) }"

definition t_act :: "tracker_act \<Rightarrow> unit tracker_m" where
  "t_act a = modify (\<lambda>s. s\<lparr>t_acts := t_acts s @ [a]\<rparr>)"

section \<open>C strings in arrays\<close>

text \<open>\<open>strncmp0 n a b\<close> is \<open>strncmp(a, b, n) == 0\<close> on memory, \<open>strncpy_n\<close> the bytes that \<open>strncpy\<close> writes.\<close>

definition char_at :: "string \<Rightarrow> char" where
  "char_at s = (case s of [] \<Rightarrow> NUL | c # _ \<Rightarrow> c)"

fun strncmp0 :: "nat \<Rightarrow> string \<Rightarrow> string \<Rightarrow> bool" where
  "strncmp0 0 a b \<longleftrightarrow> True"
| "strncmp0 (Suc n) a b \<longleftrightarrow> char_at a = char_at b \<and> (char_at a = NUL \<or> strncmp0 n (tl a) (tl b))"

definition cstr :: "string \<Rightarrow> string" where
  "cstr s = takeWhile (\<lambda>c. c \<noteq> NUL) s"

definition strncpy_n :: "nat \<Rightarrow> string \<Rightarrow> string" where
  "strncpy_n n s = (let t = cstr (take n s) in t @ replicate (n - length t) NUL)"

definition in_message :: "tracker_env \<Rightarrow> string \<Rightarrow> nat \<Rightarrow> string" where
  "in_message e buf k = drop k (buf @ rx_behind e)"

definition key_is :: "tracker_env \<Rightarrow> string \<Rightarrow> nat \<Rightarrow> string \<Rightarrow> bool" where
  "key_is e buf k lit = strncmp0 (length lit) (in_message e buf k) lit"

section \<open>Notifications\<close>

text \<open>A sequence of puts succeeds when each of them does.\<close>

definition puts_ok :: "tracker_env \<Rightarrow> cbor_put list \<Rightarrow> bool" where
  "puts_ok e ps = list_all (\<lambda>n. enc_ok e (take (Suc n) ps)) [0..<length ps]"

definition gatt_notify :: "tracker_env \<Rightarrow> cbor_put list \<Rightarrow> int tracker_m" where
  "gatt_notify e ps = do {
     on \<leftarrow> gets notify_enable;
     (if \<not> on then return 0
      else if \<not> puts_ok e ps then return (-1)
      else do { c \<leftarrow> gets current_conn; t_act (Notified c (enc_bytes e ps)); return 0 })
   }"

definition charging_notify :: "tracker_env \<Rightarrow> string \<Rightarrow> int tracker_m" where
  "charging_notify e status = gatt_notify e [MapStart 2, Tstr ''CHARGING_STATUS'', Tstr status, MapEnd 2]"

definition wifi_connect_success_notify :: "tracker_env \<Rightarrow> string \<Rightarrow> int tracker_m" where
  "wifi_connect_success_notify e ip_addr =
     gatt_notify e [MapStart 6, Tstr ''WIFI_STATUS'', Tstr ''CONNECT_SUCCESS'', Tstr ''IP_ADDR'', Tstr ip_addr, MapEnd 4]"

definition fota_notify :: "tracker_env \<Rightarrow> string \<Rightarrow> int tracker_m" where
  "fota_notify e fota_state = gatt_notify e [MapStart 2, Tstr ''FOTA_STATUS'', Tstr fota_state, MapEnd 2]"

definition wifi_connect_fail_notify :: "tracker_env \<Rightarrow> string \<Rightarrow> int tracker_m" where
  "wifi_connect_fail_notify e status =
     gatt_notify e [MapStart 4, Tstr ''WIFI_STATUS'', Tstr ''CONNECT_FAILURE'', Tstr ''ERROR'', Tstr status, MapEnd 4]"

definition wifi_scan_notify :: "tracker_env \<Rightarrow> nat \<Rightarrow> int tracker_m" where
  "wifi_scan_notify e count = gatt_notify e [MapStart 2, Tstr ''SCAN_COUNT'', Uint (int count), MapEnd 2]"

definition ping_notify :: "tracker_env \<Rightarrow> int tracker_m" where
  "ping_notify e = gatt_notify e [MapStart 2, Tstr ''PING'', Tstr ''RESPONSE'', MapEnd 2]"

text \<open>
  The report of a failed request, two seconds later: what is told depends on whether the collar has joined an
  access point by then.
\<close>

definition notify_later :: "string \<Rightarrow> unit tracker_m" where
  "notify_later t = modify (\<lambda>s. s\<lparr>notify_user_data := Some t, notify_timer := Some 2\<rparr>)"

definition notify_timer_handler :: "unit tracker_m" where
  "notify_timer_handler = do {
     d \<leftarrow> gets notify_user_data;
     (case d of None \<Rightarrow> skip | Some t \<Rightarrow> modify (\<lambda>s. s\<lparr>notify_message := strncpy_n 32 t\<rparr>));
     modify (\<lambda>s. s\<lparr>notify_work := True\<rparr>)
   }"

definition notify_work_handler :: "tracker_env \<Rightarrow> unit tracker_m" where
  "notify_work_handler e = do {
     (joined, _) \<leftarrow> t_ask (t_da e);
     m \<leftarrow> gets notify_message;
     (if joined = DA_STATE_KNOWN_FALSE then do { wifi_connect_fail_notify e (cstr m); skip }
      else if joined = DA_STATE_KNOWN_TRUE then do { wifi_connect_success_notify e (cstr m); skip }
      else skip)
   }"

definition ccc_cfg_changed :: "16 word \<Rightarrow> unit tracker_m" where
  "ccc_cfg_changed v = modify (\<lambda>s. s\<lparr>notify_enable := (v = 1)\<rparr>)"

section \<open>Commands of the phone\<close>

text \<open>
  The message of one pair: a key and a value.  The key is compared with the bytes of the message from its
  position on, whatever its length.  What a value asks for is done before the end of the map is looked at.  The
  result is the list of calls of the decoder, or none on an error.
\<close>

definition set_device_value :: "tracker_env \<Rightarrow> string \<Rightarrow> nat \<Rightarrow> zcbor_get list option tracker_m" where
  "set_device_value e buf k =
     (let ops = [GMapStart, GTstr] in
      if key_is e buf k ''UTC_TIME'' then
        (case dec e buf (ops @ [GUint64]) of
           Some (GotInt ts) \<Rightarrow> do { t_act (SetMillis ts); return (Some (ops @ [GUint64])) }
         | _ \<Rightarrow> return None)
      else if key_is e buf k ''CLEAR_BONDING'' then
        (case dec e buf (ops @ [GBool]) of
           Some (GotBool b) \<Rightarrow> do { whenever b (t_act Unpaired); return (Some (ops @ [GBool])) }
         | _ \<Rightarrow> return None)
      else if key_is e buf k ''SET_ONBOARDED'' then
        (case dec e buf (ops @ [GBool]) of
           Some (GotBool b) \<Rightarrow> do { modify (\<lambda>s. s\<lparr>onboarded_setting := Some b\<rparr>); return (Some (ops @ [GBool])) }
         | _ \<Rightarrow> return None)
      else if key_is e buf k ''INITIATE_FOTA'' then
        (case dec e buf (ops @ [GTstr]) of
           Some (GotStr v n) \<Rightarrow> do {
             (if strncmp0 n (in_message e buf v) ''ALL'' then t_act FotaAll
              else if strncmp0 n (in_message e buf v) ''WIFI'' then t_act (CheckUpdates COMM_DEVICE_DA16200)
              else if strncmp0 n (in_message e buf v) ''MODEM'' then t_act (CheckUpdates COMM_DEVICE_NRF9160)
              else if strncmp0 n (in_message e buf v) ''APP_CPU'' then t_act (CheckUpdates COMM_DEVICE_NRF5340)
              else skip);
             return (Some (ops @ [GTstr]))
           }
         | _ \<Rightarrow> return None)
      else if key_is e buf k ''SET_SAFEZONE'' \<or> key_is e buf k ''DELETE_SAFEZONE'' then
        (case dec e buf (ops @ [GTstr]) of Some (GotStr v n) \<Rightarrow> return (Some (ops @ [GTstr])) | _ \<Rightarrow> return None)
      else return (Some ops))"

text \<open>The start of a map and its first key.\<close>

definition first_key :: "tracker_env \<Rightarrow> string \<Rightarrow> nat option" where
  "first_key e buf =
     (if dec e buf [GMapStart] = None then None
      else case dec e buf [GMapStart, GTstr] of Some (GotStr k n) \<Rightarrow> Some k | _ \<Rightarrow> None)"

definition map_ends :: "tracker_env \<Rightarrow> string \<Rightarrow> zcbor_get list \<Rightarrow> bool" where
  "map_ends e buf ops \<longleftrightarrow> dec e buf (ops @ [GMapEnd]) \<noteq> None"

definition set_device_info :: "tracker_env \<Rightarrow> string \<Rightarrow> int tracker_m" where
  "set_device_info e buf =
     (case first_key e buf of
        None \<Rightarrow> return (-1)
      | Some k \<Rightarrow> do {
          r \<leftarrow> set_device_value e buf k;
          return (case r of Some ops \<Rightarrow> if map_ends e buf ops then int (length buf) else -1 | None \<Rightarrow> -1)
        })"

definition set_ping :: "tracker_env \<Rightarrow> string \<Rightarrow> int tracker_m" where
  "set_ping e buf =
     (case first_key e buf of
        None \<Rightarrow> return (-1)
      | Some k \<Rightarrow>
          (if \<not> key_is e buf k ''PING'' then return (-1)
           else case dec e buf [GMapStart, GTstr, GTstr] of
             Some (GotStr v n) \<Rightarrow>
               (if strncmp0 n (in_message e buf v) ''REQUEST'' then do {
                  ping_notify e;
                  return (if map_ends e buf [GMapStart, GTstr, GTstr] then int (length buf) else -1)
                }
                else return (-1))
           | _ \<Rightarrow> return (-1)))"

text \<open>The information on the dog is decoded and dropped.\<close>

fun dog_loop :: "tracker_env \<Rightarrow> string \<Rightarrow> nat \<Rightarrow> zcbor_get list \<Rightarrow> zcbor_get list option" where
  "dog_loop e buf 0 ops = Some ops"
| "dog_loop e buf (Suc n) ops =
     (case dec e buf (ops @ [GTstr]) of
        Some (GotStr k kl) \<Rightarrow>
          (if dec e buf (ops @ [GTstr, GUint32]) = None then None
           else dog_loop e buf n (ops @ [GTstr, GUint32]))
      | _ \<Rightarrow> None)"

definition set_dog_collar_info :: "tracker_env \<Rightarrow> string \<Rightarrow> int tracker_m" where
  "set_dog_collar_info e buf =
     return (if dec e buf [GMapStart] = None then -1
       else case dog_loop e buf 2 [GMapStart] of
         Some ops \<Rightarrow> if map_ends e buf ops then int (length buf) else -1
       | None \<Rightarrow> -1)"

definition tracker_service_is_onboarded :: "tracker \<Rightarrow> bool" where
  "tracker_service_is_onboarded s = (case onboarded_setting s of Some b \<Rightarrow> b | None \<Rightarrow> False)"

section \<open>Credentials\<close>

definition m_ap_flags_lookup :: "(string \<times> nat \<times> nat) list" where
  "m_ap_flags_lookup =
     [(''[WPA-PSK-CCMP+TKIP][WPA2-PSK-CCMP+TKIP][WPS][ESS]'', 4, 2), (''[WPA2-PSK-CCMP][ESS]'', 3, 1),
      (''[WPA2-PSK-CCMP][WPS][ESS]'', 3, 1), (''[WPA2-SAE-CCMP][ESS]'', 6, 1), (''[ESS]'', 0, 0),
      (''[WPA2-PSK+SAE-CCMP][ESS]'', 7, 1), (''[OPEN]'', 0, 0), ('''', 0, 0)]"

text \<open>WPA2 with AES for flags that are not known.\<close>

definition map_flags_to_enum :: "string \<Rightarrow> nat \<times> nat" where
  "map_flags_to_enum flags =
     (case filter (\<lambda>(f, _). length f = length flags \<and> strncmp0 (length f) f flags) m_ap_flags_lookup of
        [] \<Rightarrow> (3, 1) | (_, r) # _ \<Rightarrow> r)"

definition map_ap_flags_to_enum :: "string \<Rightarrow> tracker \<Rightarrow> (nat \<times> nat) option" where
  "map_ap_flags_to_enum ssid s =
     (case filter (\<lambda>i. length ssid = length (wo_ssid (scan_aps s i)) \<and>
                       strncmp0 (length (wo_ssid (scan_aps s i))) ssid (wo_ssid (scan_aps s i))) [0..<scan_count s] of
        [] \<Rightarrow> None
      | i # _ \<Rightarrow> Some (map_flags_to_enum (wo_flags (scan_aps s i))))"

text \<open>Arrays of 33, 64 and 64 bytes; a text that fills its array has no end.\<close>

definition parse_wifi_creds :: "tracker_env \<Rightarrow> string \<Rightarrow> nat \<Rightarrow> string \<Rightarrow> unit tracker_m" where
  "parse_wifi_creds e buf k val =
     (if key_is e buf k ''SSID'' then modify (\<lambda>s. s\<lparr>m_ap_ssid := strncpy_n 33 val\<rparr>)
      else if key_is e buf k ''PASSWD'' then modify (\<lambda>s. s\<lparr>m_ap_password := strncpy_n 64 val\<rparr>)
      else if key_is e buf k ''SEC_FLAGS'' then modify (\<lambda>s. s\<lparr>m_ap_sec_flags := strncpy_n 64 val\<rparr>)
      else skip)"

text \<open>
  The copy of a value into 64 zeros has the length of the value for a bound, so that a longer one writes behind
  the array.
\<close>

definition copied_value :: "tracker_env \<Rightarrow> string \<Rightarrow> nat \<Rightarrow> nat \<Rightarrow> string" where
  "copied_value e buf v n = take 64 (strncpy_n n (in_message e buf v) @ replicate 64 NUL)"

fun creds_loop :: "tracker_env \<Rightarrow> string \<Rightarrow> nat \<Rightarrow> zcbor_get list \<Rightarrow> zcbor_get list option tracker_m" where
  "creds_loop e buf 0 ops = return (Some ops)"
| "creds_loop e buf (Suc i) ops =
     (case dec e buf (ops @ [GTstr]) of
        Some (GotStr k kl) \<Rightarrow>
          (case dec e buf (ops @ [GTstr, GTstr]) of
             Some (GotStr v n) \<Rightarrow> do {
               whenever (64 < n) (modify (\<lambda>s. s\<lparr>creds_behind := True\<rparr>));
               parse_wifi_creds e buf k (copied_value e buf v n);
               creds_loop e buf i (ops @ [GTstr, GTstr])
             }
           | _ \<Rightarrow> return None)
      | _ \<Rightarrow> return (Some (ops @ [GTstr])))"

text \<open>
  The security of the access point: from the flags of the message, or from a new scan, which takes the place of
  the list that the phone reads.
\<close>

definition find_security :: "tracker_env \<Rightarrow> (nat \<times> nat) option tracker_m" where
  "find_security e = do {
     s \<leftarrow> State_Monad.get;
     (if hd (m_ap_sec_flags s) \<noteq> NUL then return (Some (map_flags_to_enum (cstr (m_ap_sec_flags s))))
      else do {
        rc \<leftarrow> t_ask (t_scan_rc e);
        (if rc \<noteq> 0 then return None
         else do {
           (aps, n) \<leftarrow> t_ask (t_scan_list e);
           (if 0 < n \<and> n < 0xffff then do {
              modify (\<lambda>s. s\<lparr>scan_aps := aps, scan_count := n\<rparr>);
              s \<leftarrow> State_Monad.get;
              case map_ap_flags_to_enum (cstr (m_ap_ssid s)) s of
                None \<Rightarrow> do { wifi_connect_fail_notify e ''AP NOT FOUND IN SCAN''; return None }
              | Some r \<Rightarrow> return (Some r)
            }
            else do { wifi_connect_fail_notify e ''NO APs NOT FOUND IN SCAN''; return None })
         })
      })
   }"

text \<open>Refusals are told later; the phone's write itself succeeds.\<close>

definition join_ap :: "tracker_env \<Rightarrow> nat \<times> nat \<Rightarrow> unit tracker_m" where
  "join_ap e r = do {
     s \<leftarrow> State_Monad.get;
     (if length (cstr (m_ap_password s)) < 8 then notify_later ''PASSWORD TOO SHORT''
      else do {
        t_act (JoinAp (cstr (m_ap_ssid s)) (cstr (m_ap_password s)) (fst r) 0 (snd r));
        ret \<leftarrow> t_ask (t_connect e);
        (if ret = 0 then do {
           led_api_set_state LED_WIFI_TRYING;
           modify (\<lambda>s. s\<lparr>g_started_connecting := True\<rparr>)
         }
         else notify_later
           (if ret = - EAGAIN then ''CONN ALREADY IN PROGRESS''
            else if ret = - EEXIST then ''AP creds exist''
            else ''Unknown connection failure''))
      })
   }"

text \<open>Texts without an end in their arrays are read on behind them.\<close>

definition unended_creds :: "unit tracker_m" where
  "unended_creds = modify (\<lambda>s. if NUL \<in> set (m_ap_ssid s) \<and> NUL \<in> set (m_ap_password s) \<and> NUL \<in> set (m_ap_sec_flags s)
     then s else s\<lparr>creds_behind := True\<rparr>)"

definition set_wifi_creds :: "tracker_env \<Rightarrow> string \<Rightarrow> int tracker_m" where
  "set_wifi_creds e buf = do {
     modify (\<lambda>s. s\<lparr>m_ap_ssid := replicate 33 NUL, m_ap_password := replicate 64 NUL, m_ap_sec_flags := replicate 64 NUL\<rparr>);
     (if dec e buf [GMapStart] = None then return (-1)
      else do {
        r \<leftarrow> creds_loop e buf 3 [GMapStart];
        unended_creds;
        s \<leftarrow> State_Monad.get;
        (case r of
           None \<Rightarrow> return (-1)
         | Some ops \<Rightarrow>
             (if \<not> map_ends e buf ops then return (-1)
              else if hd (m_ap_ssid s) = NUL then return (-1)
              else if g_started_connecting s then do {
                wifi_connect_fail_notify e ''CONN ALREADY IN PROGRESS'';
                return (-1)
              }
              else do {
                r \<leftarrow> find_security e;
                case r of
                  None \<Rightarrow> return (-1)
                | Some r \<Rightarrow> do { join_ap e r; return (int (length buf)) }
              }))
      })
   }"

section \<open>The list of access points\<close>

text \<open>The strongest first.\<close>

definition compare_rssi :: "wifi_obj \<Rightarrow> wifi_obj \<Rightarrow> int" where
  "compare_rssi a b = (if wo_rssi a > wo_rssi b then -1 else if wo_rssi a < wo_rssi b then 1 else 0)"

definition sort_list :: "tracker_env \<Rightarrow> (nat \<Rightarrow> wifi_obj) \<Rightarrow> nat \<Rightarrow> nat \<Rightarrow> wifi_obj" where
  "sort_list e aps n = (\<lambda>i. if i < n then t_sorted e (map aps [0..<n]) ! i else aps i)"

text \<open>An empty result leaves the list before it and its reading as they are.\<close>

definition trigger_scan :: "tracker_env \<Rightarrow> string \<Rightarrow> int tracker_m" where
  "trigger_scan e buf =
     (case first_key e buf of
        None \<Rightarrow> return (-1)
      | Some k \<Rightarrow>
          (case dec e buf [GMapStart, GTstr, GBool] of
             Some (GotBool start) \<Rightarrow>
               (if \<not> map_ends e buf [GMapStart, GTstr, GBool] then return (-1)
                else if key_is e buf k ''SCAN_TRIG'' \<and> start then do {
                  rc \<leftarrow> t_ask (t_scan_rc e);
                  (if rc \<noteq> 0 then return (-1)
                   else do {
                     (aps, n) \<leftarrow> t_ask (t_scan_list e);
                     whenever (0 < n) (modify (\<lambda>s. s\<lparr>scan_aps := sort_list e aps n, scan_count := n,
                       m_wifi_retrieved_count := 0\<rparr>));
                     c \<leftarrow> gets scan_count;
                     wifi_scan_notify e c;
                     return (int (length buf))
                   })
                }
                else return (-1))
           | _ \<Rightarrow> return (-1)))"

section \<open>What the phone reads\<close>

text \<open>
  One buffer holds the response of all characteristics.  A response that cannot be encoded leaves the one before it,
  which is read then.
\<close>

definition respond :: "tracker_env \<Rightarrow> cbor_put list \<Rightarrow> int tracker_m" where
  "respond e ps =
     (if \<not> puts_ok e ps then return (-1)
      else do { modify (\<lambda>s. s\<lparr>read_response := enc_bytes e ps\<rparr>); return 0 })"

definition device_info_resp :: "tracker_env \<Rightarrow> int tracker_m" where
  "device_info_resp e = do {
     pass \<leftarrow> t_ask (t_self_check e);
     now \<leftarrow> t_ask (t_millis e);
     respond e [MapStart 8, Tstr ''VERSION'', Tstr (t_app_version e), Tstr ''STATUS'',
       Tstr (if pass then ''PASS'' else ''FAIL''), Tstr ''SERIAL_NUM'', Tstr (t_serial e), Tstr ''UTC_TIME'',
       Uint (int now), MapEnd 6]
   }"

text \<open>The charge of the fuel gauge, cut to whole percents and to 100; 0 when it does not answer.\<close>

definition whole_soc :: "int \<Rightarrow> int" where
  "whole_soc m = min 100 (if m < 0 then - ((- m) div 1000) else m div 1000)"

definition battery_info_resp :: "tracker_env \<Rightarrow> int tracker_m" where
  "battery_info_resp e = do {
     f \<leftarrow> t_ask (t_fuel e);
     charging \<leftarrow> gets get_charging_active;
     let soc = whole_soc (case f of Some m \<Rightarrow> m | None \<Rightarrow> 0)
     in respond e [MapStart 4, Tstr ''SOC'', Uint (soc mod 2 ^ 32), Tstr ''CHARGING_STATUS'',
          Tstr (if charging then ''CHARGING'' else if 100 \<le> soc then ''CHARGED'' else ''DISCHARGING''), MapEnd 4]
   }"

text \<open>
  The end of the one identity is set when the other one was answered: the length of the ICCID is cut before it is
  asked for.
\<close>

definition modem_info_resp :: "tracker_env \<Rightarrow> int tracker_m" where
  "modem_info_resp e =
     (if \<not> puts_ok e [MapStart 8] then return (-1)
      else do {
        (err1, imei) \<leftarrow> t_ask (t_imei e);
        (err2, iccid) \<leftarrow> t_ask (t_iccid e);
        version \<leftarrow> t_ask (t_modem_version e);
        lte \<leftarrow> t_ask (t_lte_connected e);
        respond e [MapStart 8, Tstr ''ICCID'', Tstr iccid, Tstr ''IMEI'', Tstr (if err2 = 0 then take 15 imei else imei),
          Tstr ''VERSION'',
          Tstr (case version of None \<Rightarrow> ''UNKNOWN''
                | Some (a, b, c) \<Rightarrow> show_nat a @ ''.'' @ show_nat b @ ''.'' @ show_nat c),
          Tstr ''LTE_STATUS'',
          Tstr (case lte of None \<Rightarrow> ''UNKNOWN'' | Some b \<Rightarrow> if b then ''CONNECTED'' else ''DISCONNECTED''), MapEnd 8]
      })"

definition wifi_info_resp :: "tracker_env \<Rightarrow> int tracker_m" where
  "wifi_info_resp e = do {
     version \<leftarrow> t_ask (t_da_version e);
     (joined, ap) \<leftarrow> t_ask (t_da e);
     respond e [MapStart 8, Tstr ''MACADDR'', Tstr (if char_at (t_mac e) = CHR 0xFF then ''NOT SET'' else t_mac e),
       Tstr ''VERSION'', Tstr version, Tstr ''STATUS'',
       Tstr (if joined = DA_STATE_KNOWN_FALSE then ''DISCONNECTED''
             else if joined = DA_STATE_KNOWN_TRUE then take 255 (''CONNECTED TO '' @ ap) else ''UNKNOWN''), MapEnd 8]
   }"

text \<open>The nonce: random but for its first four bytes; every answer queues it for the cloud.\<close>

definition fresh_nonce :: "string \<Rightarrow> string" where
  "fresh_nonce r = [CHR 0x00, CHR 0x00, CHR 0x00, CHR 0x01] @ take 12 (drop 4 r)"

definition hex_char :: "nat \<Rightarrow> char" where
  "hex_char d = char_of (if d < 10 then 48 + d else 87 + d)"

definition hex_text :: "string \<Rightarrow> string" where
  "hex_text s = concat (map (\<lambda>c. let n = of_char c :: nat in [hex_char (n div 16), hex_char (n mod 16)]) s)"

definition pairing_nonce_resp :: "tracker_env \<Rightarrow> int tracker_m" where
  "pairing_nonce_resp e =
     (if \<not> puts_ok e [MapStart 2, Tstr ''NONCE''] then return (-1)
      else do {
        r \<leftarrow> t_ask (t_random e);
        let nonce = fresh_nonce r; ps = [MapStart 2, Tstr ''NONCE'', Bstr nonce, MapEnd 8]
        in if \<not> puts_ok e ps then return (-1)
           else do { t_act (NonceQueued (hex_text nonce)); respond e ps }
      })"

text \<open>
  The next access point of the list, which is done with when the read reaches the end of its text; behind the
  last one an empty map.  The end of the list is met by equality only.
\<close>

definition ap_puts :: "nat \<Rightarrow> wifi_obj \<Rightarrow> cbor_put list" where
  "ap_puts n ap =
     [MapStart 1, Tstr (''WIFI_AP_'' @ show_nat n), MapStart 6, Tstr ''NAME'', Tstr (wo_ssid ap), Tstr ''RSSI'',
      Sint (wo_rssi ap), Tstr ''SEC_FLAGS'', Tstr (wo_flags ap), MapEnd 10, MapEnd 1]"

definition read_next_wifi_ap_info :: "tracker_env \<Rightarrow> nat \<Rightarrow> nat \<Rightarrow> int tracker_m" where
  "read_next_wifi_ap_info e len offset = do {
     s \<leftarrow> State_Monad.get;
     (if m_wifi_retrieved_count s = scan_count s then respond e [MapStart 1, MapEnd 10]
      else let ps = ap_puts (m_wifi_retrieved_count s) (scan_aps s (m_wifi_retrieved_count s))
        in if \<not> puts_ok e ps then return (-1)
           else do {
             respond e ps;
             whenever (length (enc_bytes e ps) \<le> offset + len)
               (modify (\<lambda>s. s\<lparr>m_wifi_retrieved_count := m_wifi_retrieved_count s + 1\<rparr>));
             return 0
           })
   }"

text \<open>The characteristics whose read is this function; two have no response of their own.\<close>

datatype characteristic =
  device_info_rx | battery_info_rx | modem_info_rx | wifi_info_rx | wifi_scan_rx | pairing_nonce_rx
| dog_collar_info_rx | led_ctrl_rx

definition read_from_central :: "tracker_env \<Rightarrow> characteristic \<Rightarrow> nat \<Rightarrow> nat \<Rightarrow> (int \<times> string) tracker_m" where
  "read_from_central e uuid len offset = do {
     (case uuid of
        device_info_rx \<Rightarrow> device_info_resp e
      | battery_info_rx \<Rightarrow> battery_info_resp e
      | modem_info_rx \<Rightarrow> modem_info_resp e
      | wifi_info_rx \<Rightarrow> wifi_info_resp e
      | wifi_scan_rx \<Rightarrow> read_next_wifi_ap_info e len offset
      | pairing_nonce_rx \<Rightarrow> pairing_nonce_resp e
      | dog_collar_info_rx \<Rightarrow> return 0
      | led_ctrl_rx \<Rightarrow> return 0);
     r \<leftarrow> gets read_response;
     return (attr_read e r len offset)
   }"

section \<open>Callbacks\<close>

definition charging_cb :: "tracker_env \<Rightarrow> bool \<Rightarrow> int tracker_m" where
  "charging_cb e charging_started = do {
     f \<leftarrow> t_ask (t_fuel e);
     (if charging_started then charging_notify e ''CHARGING''
      else if 100000 \<le> (case f of Some m \<Rightarrow> m | None \<Rightarrow> 0) then charging_notify e ''CHARGED''
      else charging_notify e ''DISCHARGING'');
     return 0
   }"

text \<open>The loop that moves the characters of a text over its line ends, in the array of the text.\<close>

fun strip_loop :: "string \<Rightarrow> nat \<Rightarrow> nat \<Rightarrow> nat \<Rightarrow> string" where
  "strip_loop str 0 i j = take j str"
| "strip_loop str (Suc n) i j =
     (if str ! i = CHR 0x0D \<or> str ! i = CHR 0x0A then strip_loop str n (i + 1) j
      else strip_loop (str[j := str ! i]) n (i + 1) (j + 1))"

definition strip_crlf :: "string \<Rightarrow> string" where
  "strip_crlf str = strip_loop str (length str) 0 0"

text \<open>The conversions of \<open>sscanf\<close> that are used: a literal, a number, and characters up to one, at least one.\<close>

definition scan_lit :: "string \<Rightarrow> string \<Rightarrow> string option" where
  "scan_lit l s = (if starts_with l s then Some (drop (length l) s) else None)"

definition scan_until :: "(char \<Rightarrow> bool) \<Rightarrow> string \<Rightarrow> (string \<times> string) option" where
  "scan_until stop s =
     (let t = takeWhile (\<lambda>c. \<not> stop c) s in if t = [] then None else Some (t, drop (length t) s))"

definition scan_int :: "string \<Rightarrow> (int \<times> string) option" where
  "scan_int s = (if snd (strtol10 s) = s then None else Some (strtol10 s))"

text \<open>
  \<open>+%[^:]:%*d,'%[^']',%[^ ]\<close>: the pieces that are stored before the scan ends, in arrays of 10, 32 and 16 bytes.
\<close>

definition scan_joined :: "string \<Rightarrow> string list" where
  "scan_joined s =
     (case Option.bind (scan_lit ''+'' s) (scan_until (\<lambda>c. c = CHR '':'')) of
        None \<Rightarrow> []
      | Some (cmd, s1) \<Rightarrow>
          (case Option.bind (Option.bind (Option.bind (scan_lit '':'' s1) scan_int) (\<lambda>(_, t). scan_lit [CHR '','', CHR 0x27] t))
                  (scan_until (\<lambda>c. c = CHR 0x27)) of
             None \<Rightarrow> [cmd]
           | Some (ssid, s2) \<Rightarrow>
               (case Option.bind (scan_lit [CHR 0x27, CHR '','' ] s2) (scan_until (\<lambda>c. c = CHR '' '')) of
                  None \<Rightarrow> [cmd, ssid]
                | Some (ip, _) \<Rightarrow> [cmd, ssid, ip])))"

text \<open>\<open>+%[^:]:%d,%s\<close>: command and status, the number between them.\<close>

definition scan_failed :: "string \<Rightarrow> string option" where
  "scan_failed s =
     (case Option.bind (scan_lit ''+'' s) (scan_until (\<lambda>c. c = CHR '':'')) of
        None \<Rightarrow> None
      | Some (cmd, s1) \<Rightarrow>
          (case Option.bind (Option.bind (scan_lit '':'' s1) scan_int) (\<lambda>(_, t). scan_lit '','' t) of
             None \<Rightarrow> None
           | Some t \<Rightarrow> map_option fst (scan_until isspace (dropWhile isspace t))))"

definition joined_msg :: "string \<Rightarrow> bool" where
  "joined_msg data \<longleftrightarrow> data \<noteq> ''OK'' \<and> data \<noteq> ''+INIT'' \<and> strstr data ([CHR 0x0D, CHR 0x0A] @ ''+WFJAP'') \<noteq> None"

text \<open>
  The callback on the messages of the chip.  127 bytes are copied, however long the message is; pieces that fill
  their arrays are written behind them.
\<close>

definition report_join :: "tracker_env \<Rightarrow> string \<Rightarrow> unit tracker_m" where
  "report_join e str =
     (let toks = scan_joined str
      in do {
        whenever (\<not> list_all2 (\<lambda>t n. length t < n) toks (take (length toks) [10, 32, 16]))
          (modify (\<lambda>s. s\<lparr>msg_behind := True\<rparr>));
        (if length toks = 3 then do {
           wifi_connect_success_notify e (toks ! 2);
           led_api_set_state LED_API_IDLE;
           skip
         }
         else case scan_failed str of
           Some status \<Rightarrow> do {
             whenever (32 \<le> length status) (modify (\<lambda>s. s\<lparr>msg_behind := True\<rparr>));
             wifi_connect_fail_notify e status;
             skip
           }
         | None \<Rightarrow> skip)
      })"

definition wifi_cb :: "tracker_env \<Rightarrow> bool \<Rightarrow> string \<Rightarrow> unit tracker_m" where
  "wifi_cb e incoming data = do {
     s \<leftarrow> State_Monad.get;
     whenever (incoming \<and> joined_msg data \<and> g_started_connecting s) (do {
       whenever (length data + 1 < 127) (modify (\<lambda>s. s\<lparr>msg_behind := True\<rparr>));
       report_join e (strip_crlf (take 127 data));
       modify (\<lambda>s. s\<lparr>g_started_connecting := False\<rparr>)
     })
   }"

section \<open>Runs\<close>

datatype tracker_event =
  WriteInfo string | WritePing string | WriteDog string | WriteCreds string | WriteScan string
| ReadFrom characteristic nat nat | Subscribe "16 word" | ChipMessage bool string | ChargerState bool
| NotifyTimer | NotifyWork | UpdateState string | Linked "nat option"

definition run_tracker_event :: "tracker_env \<Rightarrow> tracker_event \<Rightarrow> unit tracker_m" where
  "run_tracker_event e ev =
     (case ev of
        WriteInfo buf \<Rightarrow> do { set_device_info e buf; skip }
      | WritePing buf \<Rightarrow> do { set_ping e buf; skip }
      | WriteDog buf \<Rightarrow> do { set_dog_collar_info e buf; skip }
      | WriteCreds buf \<Rightarrow> do { set_wifi_creds e buf; skip }
      | WriteScan buf \<Rightarrow> do { trigger_scan e buf; skip }
      | ReadFrom c len off \<Rightarrow> do { read_from_central e c len off; skip }
      | Subscribe v \<Rightarrow> ccc_cfg_changed v
      | ChipMessage inc data \<Rightarrow> wifi_cb e inc data
      | ChargerState b \<Rightarrow> do { charging_cb e b; skip }
      | NotifyTimer \<Rightarrow> do {
          t \<leftarrow> gets notify_timer;
          whenever (t \<noteq> None) (do { modify (\<lambda>s. s\<lparr>notify_timer := None\<rparr>); notify_timer_handler })
        }
      | NotifyWork \<Rightarrow> do {
          b \<leftarrow> gets notify_work;
          whenever b (do { modify (\<lambda>s. s\<lparr>notify_work := False\<rparr>); notify_work_handler e })
        }
      | UpdateState t \<Rightarrow> do { fota_notify e t; skip }
      | Linked c \<Rightarrow> modify (\<lambda>s. s\<lparr>current_conn := c\<rparr>))"

primrec run_tracker_events :: "tracker_env \<Rightarrow> tracker_event list \<Rightarrow> unit tracker_m" where
  "run_tracker_events e [] = skip"
| "run_tracker_events e (ev # evs) = do { run_tracker_event e ev; run_tracker_events e evs }"

definition empty_ap :: wifi_obj where
  "empty_ap = \<lparr>wo_ssid = [], wo_mac = [], wo_rssi = 0, wo_channel = 0, wo_flags = []\<rparr>"

definition tracker_boot :: tracker where
  "tracker_boot = ble.extend ble_boot
     (tracker.fields (replicate 33 NUL) (replicate 64 NUL) (replicate 64 NUL) False (\<lambda>_. empty_ap) 0 0 False [] None None
       (replicate 32 NUL) False None False False 0 [])"

end
