(* ===== verification/TrackerProps.thy ===== *)
theory TrackerProps
  imports TrackerService "HOL-Library.Multiset"
begin

text \<open>
  Properties of the Bluetooth service: who is notified, when the collar joins an access point and what the phone is
  told of it, the list of access points, and what a phone reads when its reads do not fit together.
\<close>

section \<open>Texts in a message\<close>

text \<open>A comparison with a literal looks at as many characters as the literal has.\<close>

lemma strncmp0_literal:
  "NUL \<notin> set lit \<Longrightarrow> length lit \<le> length m \<Longrightarrow> strncmp0 (length lit) m lit \<longleftrightarrow> take (length lit) m = lit"
proof (induction lit arbitrary: m)
  case (Cons c lit)
  then show ?case by (cases m) (auto simp: char_at_def)
qed simp

lemma cstr_plain: "NUL \<notin> set s \<Longrightarrow> cstr s = s"
  by (auto simp: cstr_def takeWhile_eq_all_conv)

lemma cstr_zeros: "NUL \<notin> set s \<Longrightarrow> 0 < n \<Longrightarrow> cstr (s @ replicate n NUL) = s"
  by (cases n) (auto simp: cstr_def takeWhile_append)

lemma cstr_idem [simp]: "cstr (cstr s) = cstr s"
  by (simp add: cstr_def)

definition gives :: "tracker_env \<Rightarrow> string \<Rightarrow> zcbor_get list \<Rightarrow> string \<Rightarrow> bool" where
  "gives e buf ops t \<longleftrightarrow> (\<exists>p. dec e buf ops = Some (GotStr p (length t)) \<and>
     p + length t \<le> length buf \<and> take (length t) (drop p buf) = t)"

lemma key_is_here:
  assumes "p + length t \<le> length buf" and "take (length t) (drop p buf) = t" and "NUL \<notin> set lit"
    and "length lit \<le> length t"
  shows "key_is e buf p lit \<longleftrightarrow> take (length lit) t = lit"
proof -
  have "take (length lit) (in_message e buf p) = take (length lit) (take (length t) (drop p buf))"
    using assms(1,4) by (simp add: in_message_def min_def)
  then show ?thesis
    using strncmp0_literal [OF assms(3), of "in_message e buf p"] assms by (simp add: key_is_def in_message_def)
qed

lemma copied_value_here:
  assumes "p + length t \<le> length buf" and "take (length t) (drop p buf) = t" and "NUL \<notin> set t" and "length t < 64"
  shows "copied_value e buf p (length t) = t @ replicate (64 - length t) NUL"
proof -
  have "take (length t) (in_message e buf p) = t"
    using assms(1,2) by (simp add: in_message_def)
  then show ?thesis using assms(3,4) by (simp add: copied_value_def strncpy_n_def cstr_plain min_def)
qed

lemma strncpy_n_value:
  assumes "NUL \<notin> set t" and "length t < n" and "n \<le> 64"
  shows "strncpy_n n (t @ replicate (64 - length t) NUL) = t @ replicate (n - length t) NUL"
proof -
  have "take n (t @ replicate (64 - length t) NUL) = t @ replicate (n - length t) NUL"
    using assms by (simp add: min_def)
  then show ?thesis using assms cstr_zeros [of t "n - length t"] by (simp add: strncpy_n_def)
qed

section \<open>Line ends\<close>

text \<open>The loop that works in the array of the text is the filter that leaves the line ends out.\<close>

lemma strip_loop_filter:
  "j \<le> i \<Longrightarrow> i + n = length str \<Longrightarrow>
   strip_loop str n i j = take j str @ filter (\<lambda>c. c \<noteq> CHR 0x0D \<and> c \<noteq> CHR 0x0A) (drop i str)"
proof (induction n arbitrary: str i j)
  case (Suc n)
  have d: "drop i str = str ! i # drop (Suc i) str" using Suc.prems by (simp add: Cons_nth_drop_Suc)
  show ?case
  proof (cases "str ! i = CHR 0x0D \<or> str ! i = CHR 0x0A")
    case True
    then show ?thesis using Suc.IH [of j "i + 1" str] Suc.prems d by auto
  next
    case False
    have "strip_loop (str[j := str ! i]) n (i + 1) (j + 1) =
        take (j + 1) (str[j := str ! i]) @ filter (\<lambda>c. c \<noteq> CHR 0x0D \<and> c \<noteq> CHR 0x0A) (drop (i + 1) (str[j := str ! i]))"
      using Suc.IH [of "j + 1" "i + 1" "str[j := str ! i]"] Suc.prems by simp
    moreover have "take (j + 1) (str[j := str ! i]) = take j str @ [str ! i]"
      using Suc.prems by (simp add: take_Suc_conv_app_nth)
    moreover have "drop (i + 1) (str[j := str ! i]) = drop (i + 1) str"
      using Suc.prems by (simp add: drop_update_cancel)
    ultimately show ?thesis using False d by auto
  qed
qed simp

text \<open>
  The text of a message without its line ends, made in place, has the other characters in their order.
\<close>

theorem strip_crlf_filter: "strip_crlf str = filter (\<lambda>c. c \<noteq> CHR 0x0D \<and> c \<noteq> CHR 0x0A) str"
  by (simp add: strip_crlf_def strip_loop_filter)

section \<open>Who is notified\<close>

text \<open>\<open>told ne c acts\<close>: since \<open>acts\<close>, only the phone \<open>c\<close> was notified, and only when it had asked for it.\<close>

definition notice_ok :: "bool \<Rightarrow> nat option \<Rightarrow> tracker_act \<Rightarrow> bool" where
  "notice_ok ne c a = (case a of Notified d t \<Rightarrow> ne \<and> d = c | _ \<Rightarrow> True)"

definition no_join :: "tracker_act \<Rightarrow> bool" where
  "no_join a = (case a of JoinAp ssid pw sec i enc \<Rightarrow> False | _ \<Rightarrow> True)"

definition told :: "bool \<Rightarrow> nat option \<Rightarrow> tracker_act list \<Rightarrow> tracker \<Rightarrow> bool" where
  "told ne c acts s \<longleftrightarrow> notify_enable s = ne \<and> current_conn s = c \<and>
     (\<exists>new. t_acts s = acts @ new \<and> list_all (notice_ok ne c) new)"

text \<open>\<open>waiting acts\<close>: an attempt to join is open, and since \<open>acts\<close> no other one was made.\<close>

definition waiting :: "tracker_act list \<Rightarrow> tracker \<Rightarrow> bool" where
  "waiting acts s \<longleftrightarrow> g_started_connecting s \<and>
     (\<exists>new. t_acts s = acts @ new \<and> list_all no_join new)"

abbreviation t_view :: "tracker \<Rightarrow> bool \<times> nat option \<times> tracker_act list \<times> bool" where
  "t_view s \<equiv> (notify_enable s, current_conn s, t_acts s, g_started_connecting s)"

lemma told_view: "same t_view m \<Longrightarrow> keeps (told ne c acts) m"
  unfolding same_def keeps_def told_def by simp

lemma waiting_view: "same t_view m \<Longrightarrow> keeps (waiting acts) m"
  unfolding same_def keeps_def waiting_def by simp

lemma t_view_light [same_intro]: "same t_view (led_api_set_state st)"
  unfolding led_api_set_state_def should_we_proceed_def
  by (rule sameI, cases st) (simp_all add: set_led_color_def stop_led_timer_def start_led_timer_def start_blinking_def
    start_ble_ui_def start_wifi_ui_def start_charging_ui_def start_fota_ui_def after_advertising_def Let_def)

lemma t_view_bits [same_intro]:
  "same t_view (t_ask f)" "same t_view (notify_later t)" "same t_view notify_timer_handler"
  "same t_view (parse_wifi_creds e buf k v)" "same t_view unended_creds" "same t_view (respond e ps)"
  "same t_view (set_dog_collar_info e buf)"
  unfolding t_ask_def notify_later_def notify_timer_handler_def parse_wifi_creds_def unended_creds_def respond_def
    set_dog_collar_info_def
  by (intro same_intro same_modify; simp)+

lemma t_view_creds [same_intro]: "same t_view (creds_loop e buf i ops)"
  by (induction i arbitrary: ops)
     (auto simp: creds_loop.simps split: option.split got.split intro!: same_intro same_modify)

lemma t_view_responses [same_intro]:
  "same t_view (device_info_resp e)" "same t_view (battery_info_resp e)" "same t_view (modem_info_resp e)"
  "same t_view (wifi_info_resp e)" "same t_view (read_next_wifi_ap_info e len off)"
  unfolding device_info_resp_def battery_info_resp_def modem_info_resp_def wifi_info_resp_def
    read_next_wifi_ap_info_def Let_def
  by (intro same_intro same_modify; simp)+

text \<open>An invariant of the parts that notify or ask for something; both of the above are such.\<close>

lemma told_act [keeps_intro]: "notice_ok ne c a \<Longrightarrow> keeps (told ne c acts) (t_act a)"
  unfolding t_act_def told_def by (rule keeps_modify) auto

lemma waiting_act [keeps_intro]: "no_join a \<Longrightarrow> keeps (waiting acts) (t_act a)"
  unfolding t_act_def waiting_def by (rule keeps_modify) auto

lemma told_notify [keeps_intro]: "keeps (told ne c acts) (gatt_notify e ps)"
  by (rule keepsI) (auto simp: gatt_notify_def told_def t_act_def notice_ok_def)

lemma waiting_notify [keeps_intro]: "keeps (waiting acts) (gatt_notify e ps)"
  by (rule keepsI) (auto simp: gatt_notify_def waiting_def t_act_def no_join_def)

lemmas notifies = charging_notify_def wifi_connect_success_notify_def fota_notify_def wifi_connect_fail_notify_def
  wifi_scan_notify_def ping_notify_def

lemma keeps_case_got [keeps_intro]:
  "(x = GotDone \<Longrightarrow> keeps I m) \<Longrightarrow> (\<And>p n. x = GotStr p n \<Longrightarrow> keeps I (f p n)) \<Longrightarrow>
   (\<And>i. x = GotInt i \<Longrightarrow> keeps I (g i)) \<Longrightarrow> (\<And>b. x = GotBool b \<Longrightarrow> keeps I (h b)) \<Longrightarrow>
   keeps I (case x of GotDone \<Rightarrow> m | GotStr p n \<Rightarrow> f p n | GotInt i \<Rightarrow> g i | GotBool b \<Rightarrow> h b)"
  by (cases x) simp_all

lemmas told_views [keeps_intro] =
  t_view_light [THEN told_view] t_view_bits [THEN told_view] t_view_creds [THEN told_view] t_view_responses [THEN told_view]

lemmas waiting_views [keeps_intro] =
  t_view_light [THEN waiting_view] t_view_bits [THEN waiting_view] t_view_creds [THEN waiting_view]
  t_view_responses [THEN waiting_view]

lemma told_modify:
  "(\<And>s. notify_enable (f s) = notify_enable s \<and> current_conn (f s) = current_conn s \<and> t_acts (f s) = t_acts s) \<Longrightarrow>
   keeps (told ne c acts) (modify f)"
  unfolding told_def by (rule keeps_modify) simp

lemma waiting_modify:
  "(\<And>s. g_started_connecting (f s) = g_started_connecting s \<and> t_acts (f s) = t_acts s) \<Longrightarrow>
   keeps (waiting acts) (modify f)"
  unfolding waiting_def by (rule keeps_modify) simp

lemma keeps_told_write [keeps_intro]:
  "keeps (told ne c acts) (set_device_info e buf)" "keeps (told ne c acts) (set_ping e buf)"
  unfolding set_device_info_def set_device_value_def set_ping_def notifies Let_def
  by (intro keeps_intro told_modify; simp add: notice_ok_def)+

lemma keeps_told_bits [keeps_intro]:
  "keeps (told ne c acts) (pairing_nonce_resp e)" "keeps (told ne c acts) (trigger_scan e buf)"
  "keeps (told ne c acts) (find_security e)" "keeps (told ne c acts) (join_ap e r)"
  unfolding pairing_nonce_resp_def trigger_scan_def find_security_def join_ap_def notifies Let_def
  by (intro keeps_intro told_modify; simp add: notice_ok_def)+

lemma keeps_told_read [keeps_intro]: "keeps (told ne c acts) (read_from_central e uuid len off)"
  unfolding read_from_central_def by (cases uuid; simp only: characteristic.case) (intro keeps_intro)+

lemma keeps_told_creds [keeps_intro]: "keeps (told ne c acts) (set_wifi_creds e buf)"
  unfolding set_wifi_creds_def notifies by (intro keeps_intro told_modify; simp)

lemma keeps_told_callbacks [keeps_intro]:
  "keeps (told ne c acts) (charging_cb e b)" "keeps (told ne c acts) (wifi_cb e inc data)"
  "keeps (told ne c acts) (notify_work_handler e)"
  unfolding charging_cb_def wifi_cb_def report_join_def notify_work_handler_def notifies Let_def
  by (intro keeps_intro told_modify; simp)+

lemma keeps_waiting_write [keeps_intro]:
  "keeps (waiting acts) (set_device_info e buf)" "keeps (waiting acts) (set_ping e buf)"
  unfolding set_device_info_def set_device_value_def set_ping_def notifies Let_def
  by (intro keeps_intro waiting_modify; simp add: no_join_def)+

lemma keeps_waiting_bits [keeps_intro]:
  "keeps (waiting acts) (pairing_nonce_resp e)" "keeps (waiting acts) (trigger_scan e buf)"
  "keeps (waiting acts) (charging_cb e b)" "keeps (waiting acts) (notify_work_handler e)"
  unfolding pairing_nonce_resp_def trigger_scan_def charging_cb_def notify_work_handler_def notifies Let_def
  by (intro keeps_intro waiting_modify; simp add: no_join_def)+

lemma keeps_waiting_read [keeps_intro]: "keeps (waiting acts) (read_from_central e uuid len off)"
  unfolding read_from_central_def by (cases uuid; simp only: characteristic.case) (intro keeps_intro)+

text \<open>While an attempt is open, credentials are only told to be too many.\<close>

lemma keeps_waiting_creds [keeps_intro]: "keeps (waiting acts) (set_wifi_creds e buf)"
proof (rule keepsI)
  fix s assume w: "waiting acts s"
  let ?clear = "modify (\<lambda>s. s\<lparr>m_ap_ssid := replicate 33 NUL, m_ap_password := replicate 64 NUL,
    m_ap_sec_flags := replicate 64 NUL\<rparr>) :: unit tracker_m"
  let ?s1 = "after ?clear s" and ?r = "creds_loop e buf 3 [GMapStart]"
  have w1: "waiting acts ?s1" by (rule keepsD [OF waiting_modify w]) simp
  let ?s3 = "after unended_creds (after ?r ?s1)"
  have w3: "waiting acts ?s3" by (intro keepsD [OF waiting_views(6)] keepsD [OF waiting_views(9)] w1)
  have "waiting acts (after (wifi_connect_fail_notify e t) ?s3)" for t
    unfolding notifies by (rule keepsD [OF waiting_notify w3])
  moreover have "g_started_connecting ?s3" using w3 by (simp add: waiting_def)
  ultimately show "waiting acts (after (set_wifi_creds e buf) s)"
    using w1 w3 by (simp add: set_wifi_creds_def split: option.split)
qed

lemma keeps_waiting_cb: "\<not> (inc \<and> joined_msg data) \<Longrightarrow> keeps (waiting acts) (wifi_cb e inc data)"
  unfolding wifi_cb_def by (intro keeps_intro) auto

lemma keeps_told_event:
  assumes "\<And>v. ev \<noteq> Subscribe v" and "\<And>c. ev \<noteq> Linked c"
  shows "keeps (told ne c acts) (run_tracker_event e ev)"
proof (cases ev)
  case (Subscribe v)
  with assms show ?thesis by blast
next
  case (Linked c)
  with assms show ?thesis by blast
qed (simp_all only: run_tracker_event_def tracker_event.case fota_notify_def, (intro keeps_intro told_modify; simp)+)

lemma keeps_waiting_event:
  assumes "\<And>data. ev = ChipMessage True data \<Longrightarrow> \<not> joined_msg data"
  shows "keeps (waiting acts) (run_tracker_event e ev)"
proof (cases ev)
  case (ChipMessage inc data)
  with assms show ?thesis unfolding run_tracker_event_def by simp (rule keeps_waiting_cb, auto)
qed (simp_all only: run_tracker_event_def tracker_event.case fota_notify_def ccc_cfg_changed_def,
  (intro keeps_intro waiting_modify; simp)+)

text \<open>
  Claim C38.  Whatever happens, a phone is notified only when it has asked for it, and only the phone that is linked.
\<close>

theorem notified_only_subscriber:
  "\<exists>new. t_acts (after (run_tracker_event e ev) s) = t_acts s @ new \<and>
     list_all (notice_ok (notify_enable s) (current_conn s)) new"
proof (cases "\<exists>x c. ev = Subscribe x \<or> ev = Linked c")
  case True
  then show ?thesis by (auto simp: run_tracker_event_def ccc_cfg_changed_def)
next
  case False
  then have "keeps (told ne c acts) (run_tracker_event e ev)" for ne c acts by (intro keeps_told_event) auto
  moreover have "told (notify_enable s) (current_conn s) (t_acts s) s" by (simp add: told_def)
  ultimately have "told (notify_enable s) (current_conn s) (t_acts s) (after (run_tracker_event e ev) s)"
    by (rule keepsD)
  then show ?thesis by (auto simp: told_def)
qed

text \<open>
  Claim C35.  One attempt to join at a time: from an attempt that was taken on until the chip reports on it no other
  one is made, and the attempt stays open.  Nothing else ends it: without a report no credentials are tried again.
\<close>

theorem one_join_at_a_time:
  assumes "g_started_connecting s"
    and "\<forall>ev \<in> set evs. case ev of ChipMessage True data \<Rightarrow> \<not> joined_msg data | _ \<Rightarrow> True"
  shows "g_started_connecting (after (run_tracker_events e evs) s) \<and>
    (\<exists>new. t_acts (after (run_tracker_events e evs) s) = t_acts s @ new \<and> list_all no_join new)"
proof -
  have "keeps (waiting acts) (run_tracker_events e evs)" for acts
    using assms(2)
  proof (induction evs)
    case (Cons ev evs)
    then have "keeps (waiting acts) (run_tracker_event e ev)" by (intro keeps_waiting_event) auto
    with Cons show ?case by (simp add: keeps_bind)
  qed (simp add: keeps_return)
  moreover have "waiting (t_acts s) s" using assms(1) by (simp add: waiting_def)
  ultimately have "waiting (t_acts s) (after (run_tracker_events e evs) s)" by (rule keepsD)
  then show ?thesis by (auto simp: waiting_def)
qed

lemma one_join_at_a_time_witness:
  "\<exists>e. g_started_connecting (after (run_tracker_events e [WriteCreds ''x'', Subscribe 1, ChipMessage True ''OK''])
     (tracker_boot\<lparr>g_started_connecting := True\<rparr>))"
  using one_join_at_a_time [of "tracker_boot\<lparr>g_started_connecting := True\<rparr>"
    "[WriteCreds ''x'', Subscribe 1, ChipMessage True ''OK'']"]
  by (auto simp: joined_msg_def)

section \<open>The list of access points\<close>

text \<open>The documented behaviour of \<open>qsort\<close> with this comparison, and of \<open>bt_gatt_attr_read\<close> from the start.\<close>

definition sorts :: "tracker_env \<Rightarrow> bool" where
  "sorts e \<longleftrightarrow> (\<forall>xs. mset (t_sorted e xs) = mset xs \<and> sorted_wrt (\<lambda>a b. compare_rssi a b \<le> 0) (t_sorted e xs))"

definition reads_value :: "tracker_env \<Rightarrow> bool" where
  "reads_value e \<longleftrightarrow> (\<forall>v len off. off \<le> length v \<longrightarrow> snd (attr_read e v len off) = take len (drop off v))"

primrec read_aps :: "tracker_env \<Rightarrow> nat \<Rightarrow> nat \<Rightarrow> string list tracker_m" where
  "read_aps e len 0 = return []"
| "read_aps e len (Suc k) = do {
     r \<leftarrow> read_from_central e wifi_scan_rx len 0;
     rs \<leftarrow> read_aps e len k;
     return (snd r # rs)
   }"

lemma puts_ok_all: "(\<And>qs. enc_ok e qs) \<Longrightarrow> puts_ok e ps"
  by (simp add: puts_ok_def list_all_iff)

text \<open>The response to a read of the list, long enough for every text.\<close>

lemma read_ap:
  fixes s :: tracker
  assumes "\<And>qs. enc_ok e qs" and "reads_value e" and "\<And>qs. length (enc_bytes e qs) \<le> len"
  defines "n \<equiv> m_wifi_retrieved_count s"
  shows "snd (result (read_from_central e wifi_scan_rx len 0) s) =
      enc_bytes e (if n = scan_count s then [MapStart 1, MapEnd 10] else ap_puts n (scan_aps s n))"
    and "after (read_from_central e wifi_scan_rx len 0) s =
      (if n = scan_count s then s\<lparr>read_response := enc_bytes e [MapStart 1, MapEnd 10]\<rparr>
       else s\<lparr>read_response := enc_bytes e (ap_puts n (scan_aps s n)), m_wifi_retrieved_count := n + 1\<rparr>)"
  using assms(2,3)
  by (simp_all add: read_from_central_def read_next_wifi_ap_info_def respond_def puts_ok_all [OF assms(1)] reads_value_def
    n_def Let_def)

text \<open>From a position before the end: one access point after the other, then the empty map.\<close>

lemma read_aps_rest:
  assumes "\<And>qs. enc_ok e qs" and "reads_value e" and "\<And>qs. length (enc_bytes e qs) \<le> len"
  shows "m_wifi_retrieved_count s + k = scan_count s \<Longrightarrow>
    result (read_aps e len (Suc k)) s =
      map (\<lambda>i. enc_bytes e (ap_puts i (scan_aps s i))) [m_wifi_retrieved_count s..<scan_count s] @
      [enc_bytes e [MapStart 1, MapEnd 10]]"
proof (induction k arbitrary: s)
  case 0
  then show ?case by (simp add: read_ap [OF assms])
next
  case (Suc k)
  let ?s = "after (read_from_central e wifi_scan_rx len 0) s"
  have "m_wifi_retrieved_count s \<noteq> scan_count s" using Suc.prems by simp
  then have s: "?s = s\<lparr>read_response := enc_bytes e (ap_puts (m_wifi_retrieved_count s) (scan_aps s (m_wifi_retrieved_count s))),
      m_wifi_retrieved_count := m_wifi_retrieved_count s + 1\<rparr>"
    and r: "snd (result (read_from_central e wifi_scan_rx len 0) s) =
      enc_bytes e (ap_puts (m_wifi_retrieved_count s) (scan_aps s (m_wifi_retrieved_count s)))"
    by (simp_all add: read_ap [OF assms])
  have "result (read_aps e len (Suc k)) ?s =
      map (\<lambda>i. enc_bytes e (ap_puts i (scan_aps s i))) [m_wifi_retrieved_count s + 1..<scan_count s] @
      [enc_bytes e [MapStart 1, MapEnd 10]]"
    using Suc.IH [of ?s] Suc.prems by (simp add: s del: read_aps.simps)
  moreover have "[m_wifi_retrieved_count s..<scan_count s] =
      m_wifi_retrieved_count s # [m_wifi_retrieved_count s + 1..<scan_count s]"
    using Suc.prems by (simp add: upt_conv_Cons)
  ultimately show ?case using r by (subst read_aps.simps(2)) (simp del: read_aps.simps)
qed

text \<open>The request for a scan, with whatever decoder.\<close>

definition asks_scan :: "tracker_env \<Rightarrow> string \<Rightarrow> bool" where
  "asks_scan e buf \<longleftrightarrow> (\<exists>k. first_key e buf = Some k \<and> key_is e buf k ''SCAN_TRIG'') \<and>
     dec e buf [GMapStart, GTstr, GBool] = Some (GotBool True) \<and> map_ends e buf [GMapStart, GTstr, GBool]"

lemma gatt_notify_after: "\<exists>acts. after (gatt_notify e ps) s = s\<lparr>t_acts := acts\<rparr>"
  by (rule exI [of _ "t_acts (after (gatt_notify e ps) s)"]) (simp add: gatt_notify_def t_act_def)

lemma sorted_list_nth: "sorts e \<Longrightarrow> length (t_sorted e xs) = length xs"
  by (metis sorts_def size_mset)


section \<open>A concrete library\<close>

text \<open>For the witnesses: a printer of at most 256 bytes, a stable sort, and a chip that has joined; the decoder is given.\<close>

fun show_put :: "cbor_put \<Rightarrow> string" where
  "show_put (MapStart n) = ''{''"
| "show_put (MapEnd n) = ''}''"
| "show_put (Tstr t) = ''t'' @ t"
| "show_put (Bstr t) = ''b'' @ t"
| "show_put (Uint i) = ''u'' @ show_nat (nat i)"
| "show_put (Sint i) = (if i < 0 then ''-'' else ''u'') @ show_nat (nat (abs i))"

definition demo_env :: "(string \<Rightarrow> zcbor_get list \<Rightarrow> got option) \<Rightarrow> tracker_env" where
  "demo_env d = \<lparr>enc_ok = (\<lambda>_. True), enc_bytes = (\<lambda>ps. take 256 (concat (map show_put ps))), dec = d, rx_behind = [],
     attr_read = (\<lambda>v len off. (int (min len (length v - off)), take len (drop off v))),
     t_sorted = sort_key (\<lambda>a. - wo_rssi a), t_scan_rc = (\<lambda>_. 0), t_scan_list = (\<lambda>_. (\<lambda>i. empty_ap\<lparr>wo_rssi := - int (i * 7 mod 5)\<rparr>, 4)),
     t_connect = (\<lambda>_. 0), t_fuel = (\<lambda>_. None), t_da = (\<lambda>_. (DA_STATE_KNOWN_TRUE, ''home'')), t_self_check = (\<lambda>_. True),
     t_millis = (\<lambda>_. 0), t_random = (\<lambda>n. replicate 16 (char_of (65 + n))), t_imei = (\<lambda>_. (0, '''')), t_iccid = (\<lambda>_. (0, '''')),
     t_modem_version = (\<lambda>_. None), t_lte_connected = (\<lambda>_. None), t_da_version = (\<lambda>_. ''''), t_mac = '''', t_serial = '''',
     t_app_version = ''''\<rparr>"

lemma demo_env_laws [simp]:
  "enc_ok (demo_env d) qs" "sorts (demo_env d)" "reads_value (demo_env d)" "length (enc_bytes (demo_env d) qs) \<le> 256"
  "dec (demo_env d) = d" "rx_behind (demo_env d) = []" "t_connect (demo_env d) n = 0"
  "t_da (demo_env d) n = (DA_STATE_KNOWN_TRUE, ''home'')" "t_scan_rc (demo_env d) n = 0"
  "t_scan_list (demo_env d) n = (\<lambda>i. empty_ap\<lparr>wo_rssi := - int (i * 7 mod 5)\<rparr>, 4)"
  "t_random (demo_env d) n = replicate 16 (char_of (65 + n))"
proof -
  have "sorted_wrt (\<lambda>a b. compare_rssi a b \<le> 0) (sort_key (\<lambda>a. - wo_rssi a) xs)" for xs
    using sorted_sort_key [of "\<lambda>a. - wo_rssi a" xs]
    by (auto simp: sorted_map compare_rssi_def intro: sorted_wrt_mono_rel [rotated])
  then show "sorts (demo_env d)" by (simp add: sorts_def demo_env_def)
qed (simp_all add: demo_env_def reads_value_def)

definition scan_decoder :: "string \<Rightarrow> zcbor_get list \<Rightarrow> got option" where
  "scan_decoder buf ops =
     (if ops = [GMapStart, GTstr] then Some (GotStr 0 9)
      else if ops = [GMapStart, GTstr, GBool] then Some (GotBool True) else Some GotDone)"


section \<open>Reads that do not fit together\<close>



text \<open>
  The two characteristics without a response, and every response that cannot be encoded, give the phone what was
  read before, of whatever characteristic.
\<close>

lemma previous_response_read:
  "result (read_from_central e led_ctrl_rx len off) s = attr_read e (read_response s) len off"
  "\<not> puts_ok e [MapStart 2, Tstr ''NONCE''] \<Longrightarrow>
   result (read_from_central e pairing_nonce_rx len off) s = attr_read e (read_response s) len off"
  by (simp_all add: read_from_central_def pairing_nonce_resp_def)

section \<open>Joining an access point\<close>

text \<open>A message with name, password and flags, whatever the format: the decoder gives the three keys and their values.\<close>

definition decodes_creds :: "tracker_env \<Rightarrow> string \<Rightarrow> string \<Rightarrow> string \<Rightarrow> string \<Rightarrow> bool" where
  "decodes_creds e buf ssid pw fl \<longleftrightarrow> dec e buf [GMapStart] \<noteq> None \<and>
     gives e buf (GMapStart # replicate 1 GTstr) ''SSID'' \<and> gives e buf (GMapStart # replicate 2 GTstr) ssid \<and>
     gives e buf (GMapStart # replicate 3 GTstr) ''PASSWD'' \<and> gives e buf (GMapStart # replicate 4 GTstr) pw \<and>
     gives e buf (GMapStart # replicate 5 GTstr) ''SEC_FLAGS'' \<and> gives e buf (GMapStart # replicate 6 GTstr) fl \<and>
     map_ends e buf (GMapStart # replicate 6 GTstr)"

definition fits_creds :: "string \<Rightarrow> string \<Rightarrow> string \<Rightarrow> bool" where
  "fits_creds ssid pw fl \<longleftrightarrow> NUL \<notin> set ssid \<and> NUL \<notin> set pw \<and> NUL \<notin> set fl \<and>
     0 < length ssid \<and> length ssid \<le> 32 \<and> length pw < 64 \<and> 0 < length fl \<and> length fl < 64"

lemma creds_step:
  assumes "gives e buf (ops @ [GTstr]) key" and "gives e buf (ops @ [GTstr, GTstr]) v" and "NUL \<notin> set v" and "length v < 64"
    and "\<And>p. p + length key \<le> length buf \<Longrightarrow> take (length key) (drop p buf) = key \<Longrightarrow>
      parse_wifi_creds e buf p (v @ replicate (64 - length v) NUL) = modify f"
  shows "after (creds_loop e buf (Suc i) ops) s = after (creds_loop e buf i (ops @ [GTstr, GTstr])) (f s)"
    and "result (creds_loop e buf (Suc i) ops) s = result (creds_loop e buf i (ops @ [GTstr, GTstr])) (f s)"
  using assms by (auto simp: gives_def copied_value_here)

lemma parse_key:
  assumes "p + length key \<le> length buf" and "take (length key) (drop p buf) = key"
  shows "key = ''SSID'' \<Longrightarrow> parse_wifi_creds e buf p val = modify (\<lambda>s. s\<lparr>m_ap_ssid := strncpy_n 33 val\<rparr>)"
    and "key = ''PASSWD'' \<Longrightarrow> parse_wifi_creds e buf p val = modify (\<lambda>s. s\<lparr>m_ap_password := strncpy_n 64 val\<rparr>)"
    and "key = ''SEC_FLAGS'' \<Longrightarrow> parse_wifi_creds e buf p val = modify (\<lambda>s. s\<lparr>m_ap_sec_flags := strncpy_n 64 val\<rparr>)"
proof -
  have "key_is e buf p lit \<longleftrightarrow> take (length lit) key = lit" if "NUL \<notin> set lit" "length lit \<le> length key" for lit
    using key_is_here [OF assms that] .
  note k = this
  show "key = ''SSID'' \<Longrightarrow> parse_wifi_creds e buf p val = modify (\<lambda>s. s\<lparr>m_ap_ssid := strncpy_n 33 val\<rparr>)"
    using k [of "''SSID''"] by (simp add: parse_wifi_creds_def NUL_def)
  show "key = ''PASSWD'' \<Longrightarrow> parse_wifi_creds e buf p val = modify (\<lambda>s. s\<lparr>m_ap_password := strncpy_n 64 val\<rparr>)"
    using k [of "''SSID''"] k [of "''PASSWD''"] by (simp add: parse_wifi_creds_def NUL_def)
  show "key = ''SEC_FLAGS'' \<Longrightarrow> parse_wifi_creds e buf p val = modify (\<lambda>s. s\<lparr>m_ap_sec_flags := strncpy_n 64 val\<rparr>)"
    using k [of "''SSID''"] k [of "''PASSWD''"] k [of "''SEC_FLAGS''"] by (simp add: parse_wifi_creds_def NUL_def)
qed

text \<open>The three arrays after such a message.\<close>

abbreviation creds_of :: "string \<Rightarrow> string \<Rightarrow> string \<Rightarrow> tracker \<Rightarrow> tracker" where
  "creds_of ssid pw fl s \<equiv> s\<lparr>m_ap_ssid := ssid @ replicate (33 - length ssid) NUL,
     m_ap_password := pw @ replicate (64 - length pw) NUL, m_ap_sec_flags := fl @ replicate (64 - length fl) NUL\<rparr>"

lemma creds_stored:
  assumes "decodes_creds e buf ssid pw fl" and "fits_creds ssid pw fl"
  shows "after (creds_loop e buf 3 [GMapStart]) s = creds_of ssid pw fl s"
    and "result (creds_loop e buf 3 [GMapStart]) s = Some (GMapStart # replicate 6 GTstr)"
proof -
  have g: "gives e buf ([GMapStart] @ [GTstr]) ''SSID''" "gives e buf ([GMapStart] @ [GTstr, GTstr]) ssid"
    "gives e buf ([GMapStart, GTstr, GTstr] @ [GTstr]) ''PASSWD''" "gives e buf ([GMapStart, GTstr, GTstr] @ [GTstr, GTstr]) pw"
    "gives e buf ([GMapStart, GTstr, GTstr, GTstr, GTstr] @ [GTstr]) ''SEC_FLAGS''"
    "gives e buf ([GMapStart, GTstr, GTstr, GTstr, GTstr] @ [GTstr, GTstr]) fl"
    using assms(1) by (simp_all add: decodes_creds_def eval_nat_numeral)
  have f: "NUL \<notin> set ssid" "length ssid < 64" "NUL \<notin> set pw" "length pw < 64" "NUL \<notin> set fl" "length fl < 64" "length ssid < 33"
    using assms(2) by (simp_all add: fits_creds_def)
  note steps = creds_step [OF g(1,2) f(1,2) parse_key(1) [OF _ _ refl]]
    creds_step [OF g(3,4) f(3,4) parse_key(2) [OF _ _ refl]] creds_step [OF g(5,6) f(5,6) parse_key(3) [OF _ _ refl]]
  have three: "(3 :: nat) = Suc (Suc (Suc 0))" by simp
  show "after (creds_loop e buf 3 [GMapStart]) s = creds_of ssid pw fl s"
    unfolding three using steps f by (simp add: strncpy_n_value)
  show "result (creds_loop e buf 3 [GMapStart]) s = Some (GMapStart # replicate 6 GTstr)"
    unfolding three using steps f by (simp add: eval_nat_numeral)
qed

text \<open>The message up to the question of the password.\<close>

lemma creds_asked:
  assumes "decodes_creds e buf ssid pw fl" and "fits_creds ssid pw fl" and "\<not> g_started_connecting s"
  shows "after (set_wifi_creds e buf) s = after (join_ap e (map_flags_to_enum fl)) (creds_of ssid pw fl s)"
    and "result (set_wifi_creds e buf) s = int (length buf)"
proof -
  have h: "hd (ssid @ xs) \<noteq> NUL" "hd (fl @ xs) \<noteq> NUL" for xs
    using assms(2) by (cases ssid; cases fl; auto simp: fits_creds_def)+
  have c: "cstr (fl @ replicate (64 - length fl) NUL) = fl" using assms(2) by (simp add: fits_creds_def cstr_zeros)
  have n: "after unended_creds (creds_of ssid pw fl t) = creds_of ssid pw fl t" for t
    using assms(2) by (simp add: unended_creds_def fits_creds_def)
  note eqs = creds_stored [OF assms(1,2)] n h c
  show "after (set_wifi_creds e buf) s = after (join_ap e (map_flags_to_enum fl)) (creds_of ssid pw fl s)"
    using assms by (auto simp: set_wifi_creds_def find_security_def decodes_creds_def eqs)
  show "result (set_wifi_creds e buf) s = int (length buf)"
    using assms by (auto simp: set_wifi_creds_def find_security_def decodes_creds_def eqs)
qed

lemma join_taken:
  assumes "8 \<le> length (cstr (m_ap_password s))" and "t_connect e (t_calls s) = 0"
  shows "t_acts (after (join_ap e r) s) = t_acts s @ [JoinAp (cstr (m_ap_ssid s)) (cstr (m_ap_password s)) (fst r) 0 (snd r)]"
    and "g_started_connecting (after (join_ap e r) s)"
  using assms sameD [OF t_view_light] by (simp_all add: join_ap_def t_act_def t_ask_def)

text \<open>
  Claim C37.  Credentials that fit are tried as they are: a message with a name of up to 32, a password of 8 to 63 and
  flags of up to 63 characters asks the radio manager to join with these texts and the security of the flags, is
  answered with its length, and leaves the attempt open.
\<close>

theorem credentials_are_tried:
  assumes "decodes_creds e buf ssid pw fl" and "fits_creds ssid pw fl" and "8 \<le> length pw"
    and "\<not> g_started_connecting s" and "t_connect e (t_calls s) = 0"
  shows "result (set_wifi_creds e buf) s = int (length buf) \<and>
    t_acts (after (set_wifi_creds e buf) s) = t_acts s @
      [JoinAp ssid pw (fst (map_flags_to_enum fl)) 0 (snd (map_flags_to_enum fl))] \<and>
    g_started_connecting (after (set_wifi_creds e buf) s)"
proof -
  let ?s = "creds_of ssid pw fl s"
  have "cstr (m_ap_ssid ?s) = ssid" "cstr (m_ap_password ?s) = pw"
    using assms(2) by (simp_all add: fits_creds_def cstr_zeros)
  then show ?thesis
    using join_taken [of ?s e "map_flags_to_enum fl"] assms(3,5) by (simp_all add: creds_asked [OF assms(1,2,4)])
qed

text \<open>A message of the keys and the values one after the other.\<close>

definition creds_text :: "string \<Rightarrow> string" where
  "creds_text pw = ''SSIDhomePASSWD'' @ pw @ ''SEC_FLAGS[ESS]''"

definition creds_decoder :: "nat \<Rightarrow> string \<Rightarrow> zcbor_get list \<Rightarrow> got option" where
  "creds_decoder n buf ops =
     (if ops \<noteq> [] \<and> ops = GMapStart # replicate (length ops - 1) GTstr \<and> 1 < length ops
      then Some ([GotStr 0 4, GotStr 4 4, GotStr 8 6, GotStr 14 n, GotStr (14 + n) 9, GotStr (23 + n) 5] ! (length ops - 2))
      else Some GotDone)"

lemma creds_text_decodes:
  "decodes_creds (demo_env (creds_decoder (length pw))) (creds_text pw) ''home'' pw ''[ESS]''"
  by (auto simp: decodes_creds_def gives_def creds_decoder_def creds_text_def map_ends_def eval_nat_numeral)

lemma credentials_are_tried_witness:
  "t_acts (after (set_wifi_creds (demo_env (creds_decoder 8)) (creds_text ''password'')) tracker_boot) =
     [JoinAp ''home'' ''password'' 0 0 0]"
proof -
  have "\<not> g_started_connecting tracker_boot" "t_acts tracker_boot = []"
    by (simp_all add: tracker_boot_def tracker.defs ble_boot_def ble.defs)
  moreover have "map_flags_to_enum ''[ESS]'' = (0, 0)"
    by (simp add: map_flags_to_enum_def m_ap_flags_lookup_def char_at_def NUL_def)
  moreover have "fits_creds ''home'' ''password'' ''[ESS]''" by (simp add: fits_creds_def NUL_def)
  moreover have "decodes_creds (demo_env (creds_decoder 8)) (creds_text ''password'') ''home'' ''password'' ''[ESS]''"
    using creds_text_decodes [of "''password''"] by (simp add: eval_nat_numeral)
  ultimately show ?thesis
    using credentials_are_tried [of "demo_env (creds_decoder 8)" "creds_text ''password''" "''home''" "''password''"
      "''[ESS]''" tracker_boot]
    by simp
qed



text \<open>A value of more than 64 characters is copied behind its array, whatever its key.\<close>

lemma long_value_overruns:
  assumes "dec e buf (ops @ [GTstr]) = Some (GotStr k kl)" and "dec e buf (ops @ [GTstr, GTstr]) = Some (GotStr v n)"
    and "64 < n"
  shows "creds_behind (after (creds_loop e buf (Suc 0) ops) s)"
  using assms by (simp add: parse_wifi_creds_def)

text \<open>The comparison of the kind of update is as long as its text: no text at all asks for all updates.\<close>

lemma empty_update_is_all:
  assumes "first_key e buf = Some k" and "key_is e buf k ''INITIATE_FOTA''"
    and "\<not> key_is e buf k ''UTC_TIME''" and "\<not> key_is e buf k ''CLEAR_BONDING''" and "\<not> key_is e buf k ''SET_ONBOARDED''"
    and "dec e buf [GMapStart, GTstr, GTstr] = Some (GotStr v 0)"
  shows "t_acts (after (set_device_info e buf) s) = t_acts s @ [FotaAll]"
  using assms by (simp add: set_device_info_def set_device_value_def t_act_def)

text \<open>
  A list that a join has replaced by a shorter one than was read already has no end for the phone: every read gives
  an entry behind it.
\<close>

lemma shortened_list_has_no_end:
  assumes "\<And>qs. enc_ok e qs" and "reads_value e" and "\<And>qs. length (enc_bytes e qs) \<le> len"
  shows "scan_count s < m_wifi_retrieved_count s \<Longrightarrow>
    result (read_aps e len k) s =
      map (\<lambda>i. enc_bytes e (ap_puts i (scan_aps s i))) [m_wifi_retrieved_count s..<m_wifi_retrieved_count s + k]"
proof (induction k arbitrary: s)
  case (Suc k)
  let ?n = "m_wifi_retrieved_count s"
  have "[?n..<?n + Suc k] = ?n # [Suc ?n..<Suc ?n + k]" by (simp add: upt_conv_Cons)
  with Suc show ?case by (simp add: read_ap [OF assms])
qed simp

section \<open>The report of the chip\<close>

text \<open>The message of a join is read as its name and address.\<close>

lemma join_report_read:
  assumes "ssid \<noteq> []" and "CHR 0x27 \<notin> set ssid" and "ip \<noteq> []" and "CHR '' '' \<notin> set ip"
  shows "scan_joined (''+WFJAP:1,'' @ [CHR 0x27] @ ssid @ [CHR 0x27, CHR '',''] @ ip) = [''WFJAP'', ssid, ip]"
proof -
  let ?q = "CHR 0x27" and ?r = "CHR 0x27 # CHR '','' # ip"
  have s: "takeWhile (\<lambda>c. c \<noteq> ?q) (ssid @ ?r) = ssid" using assms(2) by (auto simp: takeWhile_append)
  have i: "takeWhile (\<lambda>c. c \<noteq> CHR '' '') ip = ip" using assms(4) by (auto simp: takeWhile_eq_all_conv)
  have n: "strtol10 (''1'' @ '','' @ ?q # ssid @ ?r) = (1, '','' @ ?q # ssid @ ?r)"
    using strtol10_digits [of "''1''" "'','' @ ?q # ssid @ ?r"] by (simp add: isdigit_def digits_val_def)
  show ?thesis
    using assms(1,3) n by (simp add: scan_joined_def scan_lit_def scan_until_def scan_int_def s i Let_def)
qed

end
