(* ===== verification/Storage.thy ===== *)
theory Storage
  imports ModemFiles ModemProps
begin

text \<open>
  The records of activities on the flash, \<^verbatim>\<open>commercial_collar/src/storage/src/storage.c\<close>: one open file, records with
  their length in front of them, and the erasure of the flash when a record cannot be written.  Files are byte
  lists; the results of the file system are the environment's, by the number of the call.  The shell
  commands that print and list are left out.
\<close>

section \<open>State\<close>

record store =
  s_files :: "string \<Rightarrow> 8 word list option"
  m_open_file_count :: int
  activity_file :: "string \<times> nat"
  s_calls :: nat
  record_behind :: bool
  flash_erased :: bool
  reset_reason :: string
  rebooted :: bool

record store_env =
  s_open_rc :: "nat \<Rightarrow> int"
  s_close_rc :: "nat \<Rightarrow> int"
  s_seek_rc :: "nat \<Rightarrow> int"
  s_unlink_rc :: "nat \<Rightarrow> int"
  s_statvfs_rc :: "nat \<Rightarrow> int"
  s_write_rc :: "nat \<Rightarrow> nat \<Rightarrow> int"
  s_read_err :: "nat \<Rightarrow> int option"
  area_open_rc :: int
  erase_rc_of_area :: int
  stack_record :: "8 word list"
  stack_nbytes :: "32 word"

type_synonym 'a store_m = "(store, 'a) state"

abbreviation MAX_PATH_LEN :: nat where "MAX_PATH_LEN \<equiv> 256"
abbreviation MAX_OPEN_FILES :: int where "MAX_OPEN_FILES \<equiv> 1"
abbreviation RECORD_SIZE :: nat where "RECORD_SIZE \<equiv> 64"

definition fs_call :: "nat store_m" where
  "fs_call = do { n \<leftarrow> gets s_calls; modify (\<lambda>s. s\<lparr>s_calls := Suc n\<rparr>); return n }"

definition storage_path :: "nat \<Rightarrow> string \<Rightarrow> string" where
  "storage_path limit name = take (limit - 1) (''/lfs1/'' @ name)"

definition storage_init :: "store_env \<Rightarrow> int store_m" where
  "storage_init e = do { n \<leftarrow> fs_call; return (if s_statvfs_rc e n < 0 then s_statvfs_rc e n else 0) }"

section \<open>Writing\<close>

text \<open>The handle is the number of the file; there is only one.\<close>

definition storage_open_file :: "store_env \<Rightarrow> string \<Rightarrow> int option store_m" where
  "storage_open_file e fname = do {
     k \<leftarrow> gets m_open_file_count;
     (if MAX_OPEN_FILES \<le> k then return None
      else do {
        n \<leftarrow> fs_call;
        let path = storage_path MAX_PATH_LEN fname
        in if s_open_rc e n < 0 then return None
           else do {
             modify (\<lambda>s. s\<lparr>activity_file := (path, 0),
               s_files := (s_files s)(path \<mapsto> (case s_files s path of Some bs \<Rightarrow> bs | None \<Rightarrow> [])),
               m_open_file_count := k + 1\<rparr>);
             return (Some k)
           }
      })
   }"

definition storage_close_file :: "store_env \<Rightarrow> int store_m" where
  "storage_close_file e = do {
     n \<leftarrow> fs_call;
     (if s_close_rc e n < 0 then return (s_close_rc e n)
      else do { modify (\<lambda>s. s\<lparr>m_open_file_count := m_open_file_count s - 1\<rparr>); return 0 })
   }"

text \<open>\<open>fs_write\<close> at the position of the file: what it answers is what it has written.\<close>

definition write_at :: "nat \<Rightarrow> 8 word list \<Rightarrow> 8 word list \<Rightarrow> 8 word list" where
  "write_at pos new old = take pos old @ new @ drop (pos + length new) old"

definition fs_write_activity :: "store_env \<Rightarrow> 8 word list \<Rightarrow> int store_m" where
  "fs_write_activity e data = do {
     n \<leftarrow> fs_call;
     (path, pos) \<leftarrow> gets activity_file;
     let rc = min (s_write_rc e n (length data)) (int (length data)); new = take (nat rc) data in do {
       modify (\<lambda>s. s\<lparr>s_files := (s_files s)(path \<mapsto> write_at pos new (case s_files s path of Some bs \<Rightarrow> bs | None \<Rightarrow> [])),
         activity_file := (path, pos + length new)\<rparr>);
       return rc
     }
   }"

definition erase_flash :: "store_env \<Rightarrow> int store_m" where
  "erase_flash e =
     (if area_open_rc e < 0 then return (area_open_rc e)
      else do { modify (\<lambda>s. s\<lparr>flash_erased := True, s_files := (\<lambda>_. None)\<rparr>); return (erase_rc_of_area e) })"

definition erase_and_reboot :: "store_env \<Rightarrow> unit store_m" where
  "erase_and_reboot e = do {
     erase_flash e;
     modify (\<lambda>s. s\<lparr>reset_reason := ''Out of storage'', rebooted := True\<rparr>)
   }"

definition storage_write_activity_record :: "store_env \<Rightarrow> 8 word list \<Rightarrow> int store_m" where
  "storage_write_activity_record e data = do {
     rc \<leftarrow> fs_write_activity e (u32_bytes (of_nat (length data)));
     rc \<leftarrow> (if 0 < rc then fs_write_activity e data else return rc);
     (if rc \<le> 0 then do { erase_and_reboot e; return (-1) } else return 0)
   }"

definition storage_delete_activity_file :: "store_env \<Rightarrow> string \<Rightarrow> int store_m" where
  "storage_delete_activity_file e basename = do {
     n \<leftarrow> fs_call;
     (if s_unlink_rc e n < 0 then return (s_unlink_rc e n)
      else do { modify (\<lambda>s. s\<lparr>s_files := (s_files s)(storage_path 128 basename := None)\<rparr>); return 0 })
   }"

section \<open>Reading\<close>

text \<open>\<open>fs_read\<close> of what is left of a file.\<close>

definition fs_read_rest :: "store_env \<Rightarrow> nat \<Rightarrow> nat \<Rightarrow> 8 word list \<Rightarrow> int \<times> 8 word list" where
  "fs_read_rest e n k rest =
     (case s_read_err e n of Some err \<Rightarrow> (min err (-1), []) | None \<Rightarrow> (int (length (take k rest)), take k rest))"

text \<open>
  The loop: the end of the file leaves the function with 0; an error of reading is not looked at.  The length
  and the record of the last round are kept; a record of more than 64 bytes is read behind its buffer.
\<close>

fun read_records ::
  "store_env \<Rightarrow> nat \<Rightarrow> 8 word list \<Rightarrow> 32 word \<Rightarrow> 8 word list \<Rightarrow> (int + 32 word \<times> 8 word list) store_m" where
  "read_records e 0 rest nbytes rec = return (Inr (nbytes, rec))"
| "read_records e (Suc k) rest nbytes rec = do {
     n \<leftarrow> fs_call;
     let (rc, bs) = fs_read_rest e n 4 rest;
         nbytes1 = u32_at 0 (bs @ drop (length bs) (u32_bytes nbytes));
         rest1 = drop (length bs) rest
     in if 0 < rc then do {
          n2 \<leftarrow> fs_call;
          let (rc2, ds) = fs_read_rest e n2 (unat nbytes1) rest1
          in do {
            whenever (RECORD_SIZE < length ds) (modify (\<lambda>s. s\<lparr>record_behind := True\<rparr>));
            (if rc2 = 0 then return (Inl 0)
             else read_records e k (drop (length ds) rest1) nbytes1 (ds @ drop (length ds) rec))
          }
        }
        else if rc = 0 then return (Inl 0)
        else read_records e k rest1 nbytes1 rec
   }"

text \<open>
  The result and the bytes that are copied to the caller.  At least one record is read; record 0 is record 1.
\<close>

definition storage_read_activity_record ::
  "store_env \<Rightarrow> string \<Rightarrow> int \<Rightarrow> nat \<Rightarrow> (int \<times> 8 word list option) store_m" where
  "storage_read_activity_record e basename record_number dsize = do {
     n \<leftarrow> fs_call;
     s \<leftarrow> State_Monad.get;
     (if s_open_rc e n < 0 then return (s_open_rc e n, None)
      else do {
        n \<leftarrow> fs_call;
        (if s_seek_rc e n < 0 then return (s_seek_rc e n, None)
         else do {
           r \<leftarrow> read_records e (nat (max 1 record_number))
                  (case s_files s (storage_path MAX_PATH_LEN basename) of Some bs \<Rightarrow> bs | None \<Rightarrow> [])
                  (stack_nbytes e) (stack_record e);
           case r of
             Inl rc \<Rightarrow> return (rc, None)
           | Inr (nbytes, rec) \<Rightarrow> do {
               n \<leftarrow> fs_call;
               return (if s_close_rc e n < 0 then (-1, None)
                 else if unat nbytes \<le> dsize then (0, Some (take (unat nbytes) rec)) else (-1, None))
             }
         })
      })
   }"

section \<open>Records are read as they were written\<close>

definition record_bytes :: "8 word list \<Rightarrow> 8 word list" where
  "record_bytes d = u32_bytes (of_nat (length d)) @ d"

definition store_works :: "store_env \<Rightarrow> bool" where
  "store_works e \<longleftrightarrow> (\<forall>n. 0 \<le> s_open_rc e n \<and> 0 \<le> s_close_rc e n \<and> 0 \<le> s_seek_rc e n \<and> s_read_err e n = None \<and>
     (\<forall>k. s_write_rc e n k = int k))"

primrec write_records :: "store_env \<Rightarrow> 8 word list list \<Rightarrow> unit store_m" where
  "write_records e [] = skip"
| "write_records e (d # ds) = do { storage_write_activity_record e d; write_records e ds }"

lemma length_u32_bytes [simp]: "length (u32_bytes w) = 4"
  by (simp add: u32_bytes_def lo_hi_def)

text \<open>
  Properties of the records of activities: what is written is read back by its number; a number behind the end
  is answered as success, and an empty record erases the flash.
\<close>

lemma bytes_u32: "ucast (ucast w :: 16 word) + push_bit 16 (ucast (ucast (drop_bit 16 w) :: 16 word)) = (w :: 32 word)"
proof (rule bit_word_eqI)
  fix n assume "n < LENGTH(32)"
  have d: "(ucast (ucast w :: 16 word) :: 32 word) AND push_bit 16 (ucast (ucast (drop_bit 16 w) :: 16 word)) = 0"
    by (rule bit_word_eqI) (auto simp: bit_simps)
  show "bit (ucast (ucast w :: 16 word) + push_bit 16 (ucast (ucast (drop_bit 16 w) :: 16 word)) :: 32 word) n = bit w n"
    unfolding disjunctive_add_eq_or [OF d] using \<open>n < LENGTH(32)\<close> by (auto simp: bit_simps)
qed

lemma u32_at_bytes [simp]: "u32_at 0 (u32_bytes w @ t) = w"
proof -
  have "u16_at 0 (u32_bytes w @ t) = ucast w" "u16_at 2 (u32_bytes w @ t) = ucast (drop_bit 16 w)"
    by (rule u16_lo_hi; simp add: u32_bytes_def lo_hi_def eval_nat_numeral)+
  then show ?thesis by (simp only: u32_at_def add_0 bytes_u32)
qed

lemma write_at_end: "pos = length old \<Longrightarrow> write_at pos new old = old @ new"
  by (simp add: write_at_def)

lemma write_activity:
  assumes "store_works e" and "activity_file s = (path, length old)" and "s_files s path = Some old"
  shows "result (fs_write_activity e data) s = int (length data)"
    and "after (fs_write_activity e data) s = s\<lparr>s_calls := Suc (s_calls s), s_files := (s_files s)(path \<mapsto> old @ data),
      activity_file := (path, length (old @ data))\<rparr>"
  using assms by (simp_all add: fs_write_activity_def fs_call_def store_works_def Let_def write_at_end)

lemma write_record:
  assumes "store_works e" and "activity_file s = (path, length old)" and "s_files s path = Some old" and "d \<noteq> []"
  shows "result (storage_write_activity_record e d) s = 0"
    and "after (storage_write_activity_record e d) s = s\<lparr>s_calls := s_calls s + 2,
      s_files := (s_files s)(path \<mapsto> old @ record_bytes d), activity_file := (path, length (old @ record_bytes d))\<rparr>"
proof -
  let ?u = "u32_bytes (of_nat (length d))"
  let ?s = "s\<lparr>s_calls := Suc (s_calls s), s_files := (s_files s)(path \<mapsto> old @ ?u), activity_file := (path, length (old @ ?u))\<rparr>"
  note w = write_activity [OF assms(1-3), of ?u]
  have w2: "result (fs_write_activity e d) ?s = int (length d)"
      "after (fs_write_activity e d) ?s = ?s\<lparr>s_calls := Suc (s_calls ?s), s_files := (s_files ?s)(path \<mapsto> (old @ ?u) @ d),
        activity_file := (path, length ((old @ ?u) @ d))\<rparr>"
    using write_activity [OF assms(1), of ?s path "old @ ?u" d] by simp_all
  show "result (storage_write_activity_record e d) s = 0"
    and "after (storage_write_activity_record e d) s = s\<lparr>s_calls := s_calls s + 2,
      s_files := (s_files s)(path \<mapsto> old @ record_bytes d), activity_file := (path, length (old @ record_bytes d))\<rparr>"
    using assms(4) w w2 by (simp_all add: storage_write_activity_record_def record_bytes_def)
qed

lemma write_records:
  assumes "store_works e" and "\<forall>d \<in> set ds. d \<noteq> []"
  shows "activity_file s = (path, length old) \<Longrightarrow> s_files s path = Some old \<Longrightarrow>
    s_files (after (write_records e ds) s) path = Some (old @ concat (map record_bytes ds))"
  using assms(2)
proof (induction ds arbitrary: s old)
  case (Cons d ds)
  note w = write_record(2) [OF assms(1) Cons.prems(1, 2), of d]
  show ?case using Cons.IH [of "after (storage_write_activity_record e d) s" "old @ record_bytes d"] Cons.prems(3)
    by (simp add: w)
qed simp

lemma read_step:
  assumes "store_works e" and "d \<noteq> []" and "length d < 2 ^ 32"
  shows "result (read_records e (Suc k) (record_bytes d @ rest) nb rec) s =
    result (read_records e k rest (of_nat (length d)) (d @ drop (length d) rec))
      (s\<lparr>s_calls := s_calls s + 2, record_behind := (record_behind s \<or> RECORD_SIZE < length d)\<rparr>)"
proof -
  have n: "unat (of_nat (length d) :: 32 word) = length d" using assms(3) by (simp add: unat_of_nat)
  have t: "take 4 (u32_bytes w @ x) = u32_bytes w" "drop 4 (u32_bytes w @ x) = x" for w x by simp_all
  have u: "u32_at 0 (u32_bytes w) = w" for w using u32_at_bytes [of w "[]"] by simp
  show ?thesis using assms(1, 2)
    by (cases "RECORD_SIZE < length d")
       (simp_all add: fs_call_def fs_read_rest_def store_works_def record_bytes_def Let_def t n u)
qed

lemma read_records_end: "store_works e \<Longrightarrow> result (read_records e (Suc k) [] nb rec) s = Inl 0"
  by (simp add: fs_call_def fs_read_rest_def store_works_def)

lemma read_written:
  assumes "store_works e" and "\<forall>d \<in> set ds. d \<noteq> [] \<and> length d \<le> RECORD_SIZE"
  shows "(k < length ds \<longrightarrow> (\<exists>junk. result (read_records e (Suc k) (concat (map record_bytes ds)) nb rec) s =
      Inr (of_nat (length (ds ! k)), ds ! k @ junk))) \<and>
    (length ds \<le> k \<longrightarrow> result (read_records e (Suc k) (concat (map record_bytes ds)) nb rec) s = Inl 0)"
  using assms(2)
proof (induction ds arbitrary: k nb rec s)
  case Nil
  then show ?case using read_records_end [OF assms(1)] by simp
next
  case (Cons d ds)
  then have d: "d \<noteq> []" "length d < 2 ^ 32" by auto
  note r = read_step [OF assms(1) d, of k "concat (map record_bytes ds)" nb rec s]
  show ?case
  proof (cases k)
    case 0
    then show ?thesis using r by simp
  next
    case (Suc j)
    then show ?thesis using r Cons.IH [of j] Cons.prems by (simp del: read_records.simps)
  qed
qed

text \<open>
  Claim C34.  The records of a file are read back as they were written, each by its number from 1, when none is empty
  and none is longer than the buffer; a number behind the last record is answered with success, too, but nothing
  is given to the caller.
\<close>

theorem activity_records_roundtrip:
  assumes "store_works e" and "\<forall>d \<in> set ds. d \<noteq> [] \<and> length d \<le> RECORD_SIZE"
    and "m_open_file_count s = 0" and "s_files s (storage_path MAX_PATH_LEN name) = None" and "1 \<le> k"
  defines "s1 \<equiv> after (do { storage_open_file e name; write_records e ds; storage_close_file e }) s"
  shows "(k \<le> length ds \<and> length (ds ! (k - 1)) \<le> dsize \<longrightarrow>
      result (storage_read_activity_record e name (int k) dsize) s1 = (0, Some (ds ! (k - 1)))) \<and>
    (length ds < k \<longrightarrow> result (storage_read_activity_record e name (int k) dsize) s1 = (0, None))"
proof -
  let ?p = "storage_path MAX_PATH_LEN name"
  have w: "(s_open_rc e n < 0) = False" "(s_seek_rc e n < 0) = False" "(s_close_rc e n < 0) = False" for n
    using assms(1) by (simp_all add: store_works_def not_less)
  let ?o = "after (storage_open_file e name) s"
  have o: "activity_file ?o = (?p, length [])" "s_files ?o ?p = Some []"
    using assms(3, 4) w by (simp_all add: storage_open_file_def fs_call_def Let_def)
  have f: "s_files s1 ?p = Some (concat (map record_bytes ds))"
    using write_records [OF assms(1) _ o, of ds] assms(1, 2)
    by (simp add: s1_def storage_close_file_def fs_call_def w)
  obtain j where j: "k = Suc j" using assms(5) by (cases k) auto
  let ?r = "s1\<lparr>s_calls := Suc (Suc (s_calls s1))\<rparr>"
  note r = read_written [OF assms(1, 2), of j "stack_nbytes e" "stack_record e" ?r]
  have n: "unat (of_nat (length (ds ! j)) :: 32 word) = length (ds ! j)" if "j < length ds"
  proof -
    have "length (ds ! j) \<le> RECORD_SIZE" using assms(2) that by simp
    then show ?thesis by (simp add: unat_of_nat)
  qed
  have m: "nat (max 1 (int (Suc j))) = Suc j" by simp
  show ?thesis using r n w
    by (auto simp: j m storage_read_activity_record_def fs_call_def f simp del: read_records.simps of_nat_Suc)
qed

definition sound_store :: store_env where
  "sound_store = \<lparr>s_open_rc = (\<lambda>_. 0), s_close_rc = (\<lambda>_. 0), s_seek_rc = (\<lambda>_. 0), s_unlink_rc = (\<lambda>_. 0),
     s_statvfs_rc = (\<lambda>_. 0), s_write_rc = (\<lambda>_ k. int k), s_read_err = (\<lambda>_. None), area_open_rc = 0, erase_rc_of_area = 0,
     stack_record = [], stack_nbytes = 0\<rparr>"

definition empty_store :: store where
  "empty_store = \<lparr>s_files = (\<lambda>_. None), m_open_file_count = 0, activity_file = ([], 0), s_calls = 0,
     record_behind = False, flash_erased = False, reset_reason = [], rebooted = False\<rparr>"

lemma activity_records_roundtrip_witness:
  "result (storage_read_activity_record sound_store ''a'' 2 64) (after (do { storage_open_file sound_store ''a'';
     write_records sound_store [[1, 2], [3]]; storage_close_file sound_store }) empty_store) = (0, Some [3])"
  using activity_records_roundtrip [of sound_store "[[1, 2], [3]]" empty_store "''a''" 2 64]
  by (simp add: store_works_def sound_store_def empty_store_def)

lemma empty_record_erases:
  assumes "store_works e" and "0 \<le> area_open_rc e"
  shows "result (storage_write_activity_record e []) s = -1 \<and>
    flash_erased (after (storage_write_activity_record e []) s) \<and> rebooted (after (storage_write_activity_record e []) s) \<and>
    s_files (after (storage_write_activity_record e []) s) name = None"
  using assms
  by (simp add: storage_write_activity_record_def fs_write_activity_def fs_call_def store_works_def Let_def
    erase_and_reboot_def erase_flash_def split: prod.split)

end
