(* ===== verification/Login.thy ===== *)
theory Login
  imports ModemFiles
begin

text \<open>
  The login to the shell, \<^verbatim>\<open>commercial_collar/src/login.c\<close>: the password is the IMEI of the modem, mixed with a salt;
  without an IMEI the hash of a second password counts.  Failures are slowed down, and the console is switched off
  some time after the logout unless a file keeps it on.  The hash function is a parameter.
\<close>

section \<open>Passwords\<close>

definition salt_string :: "8 word list" where
  "salt_string = [0x41, 0x41, 0x42, 0x42, 0x42, 0x42, 0x42, 0x42, 0x63, 0x75, 0x6C, 0x76, 0x65, 0x72, 0x74]"

text \<open>The length is taken anew in every round: a character that becomes zero ends the string.\<close>

fun salt_loop :: "8 word list \<Rightarrow> 8 word list \<Rightarrow> 8 word list" where
  "salt_loop (p # ps) (k # ks) = (if p XOR k = 0 then [] else (p XOR k) # salt_loop ps ks)"
| "salt_loop ps ks = []"

definition salt :: "8 word list \<Rightarrow> 8 word list" where
  "salt pw = (if length salt_string < length pw then pw else salt_loop pw salt_string)"

definition backdoor_hash :: "8 word list" where
  "backdoor_hash = [0xbd, 0xdb, 0x04, 0x21, 0x98, 0x61, 0x12, 0x02, 0x0a, 0x45, 0xec, 0x28, 0x1f, 0x41, 0x86, 0xab,
     0x3b, 0xef, 0xfd, 0x54, 0x7f, 0x2a, 0xf0, 0x2e, 0x2f, 0xc5, 0x5e, 0x83, 0x1d, 0x96, 0x63, 0x13]"

definition passwd_ok :: "(8 word list \<Rightarrow> 8 word list) \<Rightarrow> 8 word list \<Rightarrow> 8 word list \<Rightarrow> bool" where
  "passwd_ok sha imei pw = (if imei \<noteq> [] then salt pw = imei else sha pw = backdoor_hash)"

text \<open>The IMEI is the text before a zero, of at most 15 characters; the result of asking for it is not looked at.\<close>

definition check_passwd ::
  "modem_env \<Rightarrow> modem_files \<Rightarrow> (8 word list \<Rightarrow> 8 word list) \<Rightarrow> 8 word list \<Rightarrow> bool modem_m" where
  "check_passwd e fs sha pw = do {
     (_, bs) \<leftarrow> modem_get_IMEI e fs 48;
     return (passwd_ok sha (takeWhile (\<lambda>b. b \<noteq> 0) (take 15 bs)) pw)
   }"

section \<open>The shell\<close>

record login_state =
  l_modem :: modem
  attempts :: "32 word"
  root_is_login :: bool
  obscured :: bool
  seconds_slept :: nat
  should_console_be_disabled :: bool
  console_off :: "nat option"
  persist_file :: bool
  console_on :: bool
  override_pin :: bool

abbreviation CONFIG_DISABLE_UART_TIME :: nat where "CONFIG_DISABLE_UART_TIME \<equiv> 30"

type_synonym 'a login_m = "(login_state, 'a) state"

definition on_modem :: "'a modem_m \<Rightarrow> 'a login_m" where
  "on_modem m = State (\<lambda>s. (result m (l_modem s), s\<lparr>l_modem := after m (l_modem s)\<rparr>))"

definition login_init :: "unit login_m" where
  "login_init = modify (\<lambda>s. s\<lparr>root_is_login := True\<rparr>)"

definition cmd_login ::
  "modem_env \<Rightarrow> modem_files \<Rightarrow> (8 word list \<Rightarrow> 8 word list) \<Rightarrow> 8 word list \<Rightarrow> int login_m" where
  "cmd_login e fs sha pw = do {
     ok \<leftarrow> on_modem (check_passwd e fs sha pw);
     (if \<not> ok then do {
        modify (\<lambda>s. s\<lparr>attempts := attempts s + 1\<rparr>);
        n \<leftarrow> gets attempts;
        whenever (3 < n) (modify (\<lambda>s. s\<lparr>seconds_slept := seconds_slept s + unat n\<rparr>));
        return (- EINVAL)
      }
      else do {
        modify (\<lambda>s. s\<lparr>obscured := False, root_is_login := False, attempts := 0\<rparr>);
        return 0
      })
   }"

definition cmd_logout :: "int login_m" where
  "cmd_logout = do { modify (\<lambda>s. s\<lparr>root_is_login := True, obscured := True\<rparr>); return 0 }"

definition logout :: "unit login_m" where
  "logout = do {
     cmd_logout;
     modify (\<lambda>s. s\<lparr>should_console_be_disabled := \<not> persist_file s\<rparr>);
     s \<leftarrow> State_Monad.get;
     whenever (should_console_be_disabled s) (modify (\<lambda>s. s\<lparr>console_off := Some CONFIG_DISABLE_UART_TIME\<rparr>))
   }"

text \<open>The test point keeps the console on.\<close>

definition disable_console :: "unit login_m" where
  "disable_console = modify (\<lambda>s. if override_pin s then s else s\<lparr>console_on := False\<rparr>)"

definition disable_console_on_timer :: "unit login_m" where
  "disable_console_on_timer = do {
     modify (\<lambda>s. s\<lparr>console_off := None\<rparr>);
     b \<leftarrow> gets should_console_be_disabled;
     whenever b disable_console
   }"

text \<open>A first argument with the bits of the letter P makes it last.\<close>

definition console_enable :: "8 word list list \<Rightarrow> unit login_m" where
  "console_enable args = do {
     modify (\<lambda>s. s\<lparr>should_console_be_disabled := False, console_off := None\<rparr>);
     whenever (args \<noteq> [] \<and> hd args \<noteq> [] \<and> hd (hd args) AND 0x50 = 0x50) (modify (\<lambda>s. s\<lparr>persist_file := True\<rparr>))
   }"

definition test_disable :: "unit login_m" where
  "test_disable = do { modify (\<lambda>s. s\<lparr>persist_file := False\<rparr>); disable_console }"

section \<open>Which password is taken\<close>

lemma salt_loop_shorter: "length (salt_loop ps ks) \<le> length ps" "length (salt_loop ps ks) \<le> length ks"
  by (induction ps ks rule: salt_loop.induct) auto

lemma salt_loop_full:
  "length (salt_loop ps ks) = length ks \<Longrightarrow> length ps = length ks \<Longrightarrow> salt_loop ps ks = map2 (XOR) ps ks"
  by (induction ps ks rule: salt_loop.induct) (auto split: if_splits)

lemma xor_twice: "length ps = length ks \<Longrightarrow> map2 (XOR) (map2 (XOR) ps ks) ks = (ps :: 8 word list)"
  by (induction ps ks rule: list_induct2) (auto simp: xor.assoc)

lemma salt_loop_nonzero:
  "length ps = length ks \<Longrightarrow> 0 \<notin> set (map2 (XOR) ps ks) \<Longrightarrow> salt_loop ps ks = map2 (XOR) ps ks"
  by (induction ps ks rule: list_induct2) auto

text \<open>
  With an IMEI of fifteen digits exactly one password is accepted: the IMEI with each digit mixed with its
  letter of the salt.
\<close>

theorem one_password_accepted:
  assumes "length imei = 15" and "\<forall>d \<in> set imei. 0x30 \<le> d \<and> d \<le> 0x39"
  shows "passwd_ok sha imei pw \<longleftrightarrow> pw = map2 (XOR) imei salt_string"
proof -
  have l: "length salt_string = 15" by (simp add: salt_string_def)
  have ne: "imei \<noteq> []" using assms(1) by auto
  have nz: "0 \<notin> set imei"
  proof
    assume "0 \<in> set imei"
    then have "(0x30 :: 8 word) \<le> 0" using assms(2) by blast
    then show False by simp
  qed
  have "salt pw = imei \<longleftrightarrow> pw = map2 (XOR) imei salt_string"
  proof
    assume s: "salt pw = imei"
    have le: "length pw \<le> 15"
    proof (rule ccontr)
      assume "\<not> length pw \<le> 15"
      then show False using s assms(1) l by (auto simp: salt_def)
    qed
    then have sl: "salt_loop pw salt_string = imei" using s l by (simp add: salt_def)
    have pl: "length pw = length salt_string" using salt_loop_shorter(1) [of pw salt_string] sl le assms(1) l by simp
    have "map2 (XOR) pw salt_string = imei" using salt_loop_full [of pw salt_string] sl pl assms(1) l by simp
    then show "pw = map2 (XOR) imei salt_string" using xor_twice [OF pl] by simp
  next
    assume p: "pw = map2 (XOR) imei salt_string"
    have pl: "length pw = length salt_string" using p assms(1) l by simp
    have m: "map2 (XOR) pw salt_string = imei" unfolding p using xor_twice [of imei salt_string] assms(1) l by simp
    show "salt pw = imei" using salt_loop_nonzero [OF pl] m nz pl by (simp add: salt_def)
  qed
  then show ?thesis using ne by (simp add: passwd_ok_def)
qed

definition sample_imei :: "8 word list" where
  "sample_imei = [48, 49, 50, 51, 52, 53, 54, 55, 56, 57, 48, 49, 50, 51, 52]"

lemma one_password_accepted_witness:
  "passwd_ok (\<lambda>_. []) sample_imei (map2 (XOR) sample_imei salt_string) \<and> \<not> passwd_ok (\<lambda>_. []) sample_imei sample_imei"
proof -
  have p: "passwd_ok (\<lambda>_. []) sample_imei pw \<longleftrightarrow> pw = map2 (XOR) sample_imei salt_string" for pw
    by (rule one_password_accepted) (simp_all add: sample_imei_def)
  show ?thesis unfolding p by (simp add: sample_imei_def salt_string_def)
qed

end
