(* ===== verification/Spec2Isabelle.thy ===== *)
theory Spec2Isabelle
  imports SwitchOps RadioProps SavedApProps FileQueueProps TimeProps QueueProps ShadowProps ModeProps
    NetReports SetupProps TelemetryProps JsonProps Upgrade FotaProps ModemProps PmicProps TrackerProps
    Storage Login
begin

text \<open>
  The firmware of a dog collar, the nRF5340 application \<^verbatim>\<open>commercial_collar/src\<close> with the libraries of
  \<^verbatim>\<open>c_modules\<close> it is built from.  Paths below are relative to \<^verbatim>\<open>src/\<close>.

  \<^bold>\<open>The program.\<close>  The collar reports to a cloud over MQTT and has two radios for it: an nRF9160 LTE modem
  and a DA16200 Wi-Fi chip, each a processor of its own on an SPI bus.  The communication manager
  (\<^verbatim>\<open>commMgr.c\<close>) decides what is sent and when; the radio manager (\<^verbatim>\<open>radioMgr.c\<close>) decides over which radio and
  switches between them; the network manager (\<^verbatim>\<open>net_mgr.c\<close>) keeps a shadow of the Wi-Fi chip, on top of the
  AT command layer (\<^verbatim>\<open>wifi_at.c\<close>) and the link (\<^verbatim>\<open>wifi.c\<close>, \<^verbatim>\<open>wifi_spi.c\<close>); \<^verbatim>\<open>modem.c\<close> and \<^verbatim>\<open>modem_spi.c\<close> do the same for the
  modem; \<^verbatim>\<open>fota.c\<close> updates the three processors.  The parts talk through the message bus zbus, work queues
  and timers of Zephyr, and direct calls.

  \<^bold>\<open>The way the code is modelled.\<close>  A C function has a definition of its name.  One that only reads is a HOL
  function of the state; one that writes, calls a chip or publishes is an action of the state monad, with
  the statements in the source's order and early returns as branches.  The static variables of a module are a
  record; \<open>rm_state\<close>, the communication manager's and the updates' records extend one another, since their
  modules call each other.  Integers that can wrap are words.  What the code gets from outside its
  sources (chips, flash, files, allocation, the scheduler, the printer of cJSON) is an environment, a record
  of functions that every theorem quantifies over; the properties hold whatever it answers unless a
  hypothesis says so.  Work items, timers and interrupts are events; a run is any sequence of events
  (\<open>rm_reach\<close>, \<open>cm_reach\<close>, \<open>fo_reach\<close>,
  \<open>modem_reach\<close>, \<open>power_reach\<close>, \<open>run_net_events\<close>,
  \<open>run_tracker_events\<close>).  Memory is modelled where the
  code's correctness is about it: the message heap of the Wi-Fi link and the reply blocks of the modem are
  maps from addresses, other heaps are counts of live blocks; reads and writes outside a buffer or a block
  set a flag of the state instead of being left out.

  \<^bold>\<open>Theories.\<close>
  \<^item> Prelude: state monad, Hoare triples, preserved invariants and values, C idioms.  Platform: shadows and
    calls of the chips.  CStrings: decimal conversions, the tree of cJSON.
  \<^item> WorkRef: the pool of work items of \<^verbatim>\<open>utils/src/wi.c\<close>, as a \<open>slot_pool\<close>.
  \<^item> Radio manager (\<^verbatim>\<open>radioMgr.c\<close>): RadioMgr (state, queries, reference counts), RadioSwitch (the switching
    machine), RadioEvents (handlers), RadioFrames, RadioInv, RadioProps, SwitchOps (properties; the locale
    \<open>switch_listener\<close> is what it asks of the module it tells about a switch, CommFrames interprets it).
  \<^item> Communication manager (\<^verbatim>\<open>commMgr.c\<close>): CommState, CommQueue, CommModes, CommWork, CommEvents;
    SystemInv (both managers together; locale \<open>system_inv\<close>: an invariant of every handler is one of the system),
    CommFrames, CommCounts, CommProps, MsgQueue (locale \<open>mailbox\<close>), QueueProps, ModeProps.
  \<^item> Messages (\<^verbatim>\<open>c_modules/json/src/d1_json.c\<close>): ShadowJson and RemoteFunc (parsers), JsonMsgs and Telemetry
    (builders), DataQueues (\<^verbatim>\<open>log_telemetry.c\<close>, \<^verbatim>\<open>gps.c\<close>); ShadowProps, JsonProps, TelemetryProps.
  \<^item> Wi-Fi: WifiSpi, WifiLink, WifiWait (the link), WifiAt, WifiAsk, WifiScan, WifiTopics,
    WifiSleep (the commands of \<^verbatim>\<open>wifi_at.c\<close>), SavedAps (\<open>cached_zones\<close>), NetEvents (with the downloads), NetMonitor, NetWork,
    NetInit (\<^verbatim>\<open>net_mgr.c\<close>), NetSystem (all of it together).  LinkTime, LinkHeap, LinkBlocks, LinkAsk, LinkFrames, and
    LinkKept hold the contracts of the callbacks (\<open>link_callbacks\<close>, \<open>link_blocks\<close>, \<open>kept_view\<close>,
    \<open>monitored_view\<close>, \<open>net_view\<close>) and what follows from them for every command; AskProps, NetProps, NetReports,
    SetupProps and SavedApProps the properties.
  \<^item> Modem (\<^verbatim>\<open>modem_spi.c\<close>, \<^verbatim>\<open>modem.c\<close>, the power switch of \<^verbatim>\<open>pmic.c\<close>): ModemState (handles, reply blocks), ModemSpi
    (sending, receiving, the threads), ModemWait (the wait for a reply), Modem (questions and
    commands), ModemFiles (identities, download, upload, alive check, runs), ModemProps.
  \<^item> Updates: Fota (\<^verbatim>\<open>fota.c\<close>), Upgrade (\<^verbatim>\<open>nrf53_upgrade.c\<close>), FotaProps.
  \<^item> Power, light and links: Leds (\<^verbatim>\<open>pmic_leds.c\<close>), Pmic (\<^verbatim>\<open>pmic.c\<close>: supplies, reset reason, battery and
    charger work, runs \<open>power_reach\<close>), PmicProps; BleLink (\<^verbatim>\<open>ble.c\<close>), TrackerService,
    TrackerProps (\<^verbatim>\<open>tracker_service.c\<close>, the GATT service on top of it); Storage (activity records,
    \<^verbatim>\<open>storage.c\<close>); Login (\<^verbatim>\<open>login.c\<close>).
  \<^item> Uicr, UicrProps: the factory data (\<^verbatim>\<open>uicr.c\<close>).  FileQueue, FileQueueProps: the file queue (\<^verbatim>\<open>fqueue.c\<close>), locale
    \<open>fifo\<close>.  TimeSync, TimeProps: setting the clock (\<^verbatim>\<open>d1_time.c\<close>).

  \<^bold>\<open>What the lemmas show.\<close>  Frames (\<open>same\<close>) say what an operation leaves alone, invariants (\<open>keeps\<close>) what it
  preserves; both are collected (\<open>same_intro\<close>, \<open>keeps_intro\<close>), so that a handler needs no proof of its own
  beyond its branches.  Consequences: the active radio is always a known one and a switch is always resumed;
  the periodic work never stops and gives back what it prepares; the queue of messages refines a bounded FIFO
  and owns its heap blocks; no block of the Wi-Fi heap is freed twice; every question to the Wi-Fi chip is
  back by its deadline with the mutex as before; a run of updates is driven until it ends; a reply of the modem
  reaches its asker and no two handles share a block;
  the light follows its state; a Bluetooth connection is referenced once;
  one attempt to join an access point is made at a time, and the phone reads the list of a scan in order.  Functional and round trip properties cover the parsers
  and builders, the factory data, the file queue, the clock, downloads and the log.  Properties named after a
  failure state what the code does where it does not do what its comments or callers expect.

  \<^bold>\<open>Bounds and fuel.\<close>  Loops of the source are structural or measured recursions; where a fuel stands for the
  measure, a lemma shows that it is enough.
  \<^item> \<open>wait_loop\<close> (a wait for one of several patterns), the loops around it (\<open>ask_loop\<close>) and \<open>refresh_loop\<close> have one
    round more than there are messages queued or still to come (\<open>wait_rounds\<close>), and each round takes a message;
    LinkTime and AskProps show that they are left within them.  \<open>wait_sleep_rounds\<close> has the source's eight rounds.
  \<^item> Reaching LTE takes at most 11 rounds of the source's counter; a run of updates at most 27 visits.
  \<^item> Modem: a frame is tried 22 times (\<open>retryCnt\<close> from 0 to 21), each time with at most 26 looks for readiness and
    six transfers; the supply is switched up to ten times; the wait for a reply is measured by the time left.
  \<^item> Three loops may not end and are partial functions whose result is an option: dropping old positions
    (\<open>gps_add\<close>), the messages of a telemetry report, and the download over the modem, which goes on as long as the modem
    sends pieces.  The log and the report are shown to end, \<open>gps_add_hangs\<close> shows where a position never does.

  \<^bold>\<open>Not modelled.\<close>
  \<^item> The library zcbor: encoding and decoding are functions of the message and of the calls so far.
  \<^item> The arithmetic of the fuel gauge, motion sensor, machine learning: registers and calls of driver and inference
    libraries that are not in the sources.  SHA-256 in the login is a parameter.
  \<^item> The shells, log output, watchdog and \<^verbatim>\<open>main.c\<close>; the design evaluation tests of \<^verbatim>\<open>net_mgr.c\<close>, the
    certificate upload of \<^verbatim>\<open>wifi_at.c\<close>, and the radio front end settings of \<^verbatim>\<open>modem_init.c\<close>.
  \<^item> Preemption inside a function: events are atomic, but for the places where a function sleeps or waits
    (replies on the SPI buses, the modem's threads while a caller sleeps), which are modelled.
  \<^item> Single precision rounding and the printing of cJSON are parameters.
  \<^item> The other applications of the repository (samples, manufacturing and test shells) are vendored or test code.
\<close>

end
